(* ===== verification/Prelude.thy ===== *)
theory Prelude
  imports Main "HOL-Library.Word"
begin

text \<open>
  The vocabulary shared by the components: the machine types of the Rust sources, the
  outcome of a fallible computation (\<open>Result\<close> extended with a panic), the \<open>?\<close> operator
  in code that mutates state under a lock, the atomic counters, the little- and
  big-endian byte encodings, and the theorem collections that carry the component proofs.
\<close>

section \<open>Theorem collections\<close>

named_theorems hash_map_simps \<open>lookup, key and distinctness laws of the hash map\<close>
named_theorems res_simps \<open>evaluation of outcomes and of the question-mark operator\<close>
named_theorems frame_simps \<open>fields that an operation leaves alone\<close>
named_theorems inv_intros \<open>preservation of the components' invariants\<close>
named_theorems env_simps \<open>evaluation of the concrete instances of external code used by witnesses\<close>

section \<open>Machine types\<close>

type_synonym u8 = "8 word"
type_synonym u16 = "16 word"
type_synonym u32 = "32 word"
type_synonym u64 = "64 word"
type_synonym usize = "64 word"
type_synonym u256 = "256 word"
type_synonym bytes = "u8 list"

text \<open>
  Floating-point numbers are carried as their IEEE-754 bit patterns: the modelled code
  hands them from one component to another, and the only conversion it makes itself is the
  cast \<open>as u64\<close> below.
\<close>

type_synonym f32 = "32 word"
type_synonym f64 = "64 word"

definition f64_sign :: "f64 \<Rightarrow> bool" where
  "f64_sign x = bit x 63"

definition f64_exponent :: "f64 \<Rightarrow> nat" where
  "f64_exponent x = unat (take_bit 11 (drop_bit 52 x))"

definition f64_mantissa :: "f64 \<Rightarrow> nat" where
  "f64_mantissa x = unat (take_bit 52 x)"

text \<open>
  Rust's \<open>x as u64\<close> for \<open>x: f64\<close>: rounds towards zero, saturates at the bounds of the
  target type, and maps NaN to 0.
\<close>

definition f64_as_u64 :: "f64 \<Rightarrow> u64" where
  "f64_as_u64 x =
     (let e = f64_exponent x; m = f64_mantissa x in
      if e = 2047 \<and> m \<noteq> 0 then 0
      else if f64_sign x then 0
      else if e = 2047 then - 1
      else if e < 1023 then 0
      else
        let v = (if 1075 \<le> e then (2 ^ 52 + m) * 2 ^ (e - 1075)
                 else (2 ^ 52 + m) div 2 ^ (1075 - e))
        in if 2 ^ 64 \<le> v then - 1 else of_nat v)"

section \<open>Outcomes\<close>

text \<open>
  \<open>Ok\<close> and \<open>Err\<close> are the constructors of Rust's \<open>Result\<close>; \<open>Panic\<close> is an
  \<open>expect\<close>, \<open>unwrap\<close> or index out of range that unwinds the task, with its message.
\<close>

datatype ('e, 'a) res = Ok 'a | Err 'e | Panic string

primrec map_res :: "('a \<Rightarrow> 'b) \<Rightarrow> ('e, 'a) res \<Rightarrow> ('e, 'b) res" where
  "map_res f (Ok a) = Ok (f a)"
| "map_res f (Err e) = Err e"
| "map_res f (Panic p) = Panic p"

primrec is_ok :: "('e, 'a) res \<Rightarrow> bool" where
  "is_ok (Ok a) = True"
| "is_ok (Err e) = False"
| "is_ok (Panic p) = False"

text \<open>
  A closure run under a mutex mutates the guarded state as it goes; the \<open>?\<close> operator
  leaves the closure with the error but does not undo the mutations. \<open>and_then\<close> is that
  operator: on an error or a panic the state reached so far is kept.
\<close>

definition and_then ::
  "('e, 'a) res \<times> 's \<Rightarrow> ('a \<Rightarrow> 's \<Rightarrow> ('e, 'b) res \<times> 's) \<Rightarrow> ('e, 'b) res \<times> 's" where
  "and_then m k =
     (case m of (r, s) \<Rightarrow>
        (case r of Ok a \<Rightarrow> k a s | Err e \<Rightarrow> (Err e, s) | Panic p \<Rightarrow> (Panic p, s)))"

text \<open>\<open>map_err f r ?\<close> on the value of an external call that returns a plain \<open>Result\<close>.\<close>

definition from_sum :: "('x \<Rightarrow> 'e) \<Rightarrow> 'x + 'a \<Rightarrow> ('e, 'a) res" where
  "from_sum f r = (case r of Inl x \<Rightarrow> Err (f x) | Inr a \<Rightarrow> Ok a)"

text \<open>\<open>expect(msg)\<close> on an \<open>Option\<close>.\<close>

definition expect :: "string \<Rightarrow> 'a option \<Rightarrow> ('e, 'a) res" where
  "expect msg x = (case x of None \<Rightarrow> Panic msg | Some a \<Rightarrow> Ok a)"

lemma and_then_simps [simp, res_simps]:
  "and_then (Ok a, s) k = k a s"
  "and_then (Err e, s) k = (Err e, s)"
  "and_then (Panic p, s) k = (Panic p, s)"
  by (simp_all add: and_then_def)

lemma from_sum_simps [simp, res_simps]:
  "from_sum f (Inl x) = Err (f x)"
  "from_sum f (Inr a) = Ok a"
  by (simp_all add: from_sum_def)

lemma expect_simps [simp, res_simps]:
  "expect msg None = Panic msg"
  "expect msg (Some a) = Ok a"
  by (simp_all add: expect_def)

text \<open>
  The rule for a postcondition of \<open>and_then\<close> that must also hold on the early exits.
\<close>

lemma and_then_cases:
  assumes "and_then m k = (r, s')"
  obtains (ok) a s where "m = (Ok a, s)" and "k a s = (r, s')"
    | (err) e where "m = (Err e, s')" and "r = Err e"
    | (panic) p where "m = (Panic p, s')" and "r = Panic p"
proof -
  obtain q s where m: "m = (q, s)" by (cases m)
  show thesis
    by (cases q) (use assms m ok err panic in \<open>auto\<close>)
qed

lemma and_then_state:
  assumes "\<And>a s. m = (Ok a, s) \<Longrightarrow> P (snd (k a s))"
    and "P (snd m)"
  shows "P (snd (and_then m k))"
  using assms by (auto simp: and_then_def split: prod.splits res.splits)

lemma is_ok_iff: "is_ok r \<longleftrightarrow> (\<exists>a. r = Ok a)"
  by (cases r) auto

lemma is_ok_expect [simp]: "is_ok (expect p x) \<longleftrightarrow> x \<noteq> None"
  by (cases x) simp_all

lemma is_ok_map_res [simp]: "is_ok (map_res f r) \<longleftrightarrow> is_ok r"
  by (cases r) simp_all

lemma expect_Ok [simp]: "expect p x = Ok a \<longleftrightarrow> x = Some a"
  by (cases x) simp_all

lemma map_res_Ok: "map_res f r = Ok b \<longleftrightarrow> (\<exists>a. r = Ok a \<and> b = f a)"
  by (cases r) auto

text \<open>A stateful computation that ends in \<open>Ok\<close> went through every step.\<close>

lemma and_then_Ok:
  "and_then m k = (Ok b, s') \<longleftrightarrow> (\<exists>a s. m = (Ok a, s) \<and> k a s = (Ok b, s'))"
  by (auto simp: and_then_def split: prod.splits res.splits)

section \<open>Atomic counters\<close>

text \<open>\<open>AtomicU32::fetch_add(1)\<close> and \<open>AtomicUsize::fetch_add(1)\<close>: the old value, and the
  new one with wrap-around.\<close>

definition fetch_add :: "'a::len word \<Rightarrow> 'a word \<times> 'a word" where
  "fetch_add x = (x, x + 1)"

lemma unat_fetch_add:
  fixes x :: "'a::len word"
  assumes "unat x + 1 < 2 ^ LENGTH('a)"
  shows "unat (snd (fetch_add x)) = unat x + 1"
  using assms by (simp add: fetch_add_def unat_word_ariths)

lemma fetch_add_simps [simp]:
  "fst (fetch_add x) = x" "snd (fetch_add x) = x + 1"
  by (simp_all add: fetch_add_def)

lemma less_next_word:
  fixes x y :: "'a::len word"
  assumes "unat y + 1 < 2 ^ LENGTH('a)"
  shows "x < y + 1 \<longleftrightarrow> x \<le> y"
  using assms by (auto simp: word_less_nat_alt word_le_nat_alt unat_word_ariths)

section \<open>Byte encodings\<close>

definition u32_to_le_bytes :: "u32 \<Rightarrow> bytes" where
  "u32_to_le_bytes x =
     [ucast x, ucast (drop_bit 8 x), ucast (drop_bit 16 x), ucast (drop_bit 24 x)]"

definition u32_from_le_bytes :: "u8 \<Rightarrow> u8 \<Rightarrow> u8 \<Rightarrow> u8 \<Rightarrow> u32" where
  "u32_from_le_bytes b0 b1 b2 b3 =
     of_nat (unat b0 + 2 ^ 8 * unat b1 + 2 ^ 16 * unat b2 + 2 ^ 24 * unat b3)"

definition u16_to_be_bytes :: "u16 \<Rightarrow> bytes" where
  "u16_to_be_bytes x = [ucast (drop_bit 8 x), ucast x]"

lemma unat_ucast_byte:
  fixes x :: "'a::len word"
  shows "unat (ucast (drop_bit n x) :: u8) = (unat x div 2 ^ n) mod 2 ^ 8"
proof -
  have "unat (ucast (drop_bit n x) :: u8) = take_bit 8 (drop_bit n (unat x))"
    using unsigned_less [of x, where 'a = nat]
    by (simp add: unsigned_ucast_eq unsigned_drop_bit_eq take_bit_nat_eq_self)
  then show ?thesis by (simp add: drop_bit_eq_div take_bit_eq_mod)
qed

lemma unat_ucast_low_byte:
  fixes x :: "'a::len word"
  shows "unat (ucast x :: u8) = unat x mod 2 ^ 8"
  using unat_ucast_byte [of 0 x] by simp

lemma nat_bytes_sum:
  fixes n :: nat
  assumes "n < 2 ^ 32"
  shows "n mod 256 + 256 * (n div 256 mod 256) + 65536 * (n div 65536 mod 256) +
           16777216 * (n div 16777216 mod 256) = n"
proof -
  have "n div 16777216 mod 256 = n div 16777216"
    using assms by simp
  moreover have "n div 65536 = n div 256 div 256" and "n div 16777216 = n div 65536 div 256"
    by (simp_all flip: div_mult2_eq)
  ultimately show ?thesis
    using div_mult_mod_eq [of n 256] div_mult_mod_eq [of "n div 256" 256]
      div_mult_mod_eq [of "n div 65536" 256] by linarith
qed

text \<open>Reading back the bytes that \<open>u32::to_le_bytes\<close> wrote.\<close>

lemma u32_le_bytes_roundtrip:
  "u32_to_le_bytes x = [b0, b1, b2, b3] \<Longrightarrow> u32_from_le_bytes b0 b1 b2 b3 = x"
proof -
  assume "u32_to_le_bytes x = [b0, b1, b2, b3]"
  then have b: "b0 = ucast x" "b1 = ucast (drop_bit 8 x)"
      "b2 = ucast (drop_bit 16 x)" "b3 = ucast (drop_bit 24 x)"
    by (simp_all add: u32_to_le_bytes_def)
  have "unat x < 2 ^ 32"
    using unsigned_less [of x, where 'a = nat] by simp
  then have "unat b0 + 2 ^ 8 * unat b1 + 2 ^ 16 * unat b2 + 2 ^ 24 * unat b3 = unat x"
    unfolding b unat_ucast_low_byte [of x] unat_ucast_byte using nat_bytes_sum [of "unat x"] by simp
  then show "u32_from_le_bytes b0 b1 b2 b3 = x"
    by (simp add: u32_from_le_bytes_def)
qed

lemma length_u32_to_le_bytes [simp]: "length (u32_to_le_bytes x) = 4"
  by (simp add: u32_to_le_bytes_def)

end
