(* ===== verification/Mining_Hash.thy ===== *)
theory Mining_Hash
  imports Prelude
begin

text \<open>
  The hashing of the mining device (\<open>mining-device\<close>, \<open>FastSha256d\<close> and
  \<open>hash_meets_target_le\<close> of \<open>lib/mod.rs\<close>). The compression function of SHA-256, the consensus
  serialisation of a block header and the 256 bit integers come from other crates: they are the
  fields of \<open>hash_crates\<close>, and \<open>hash_crates_laws\<close> states what their documentation
  promises. The lemmas show that the precomputed midstate with its two reused blocks gives the
  double SHA-256 of the header, and that the comparison by 32 bit words is the comparison of the
  numbers.
\<close>

section \<open>The external crates\<close>

record block_header =
  bh_version :: u32
  bh_prev_blockhash :: bytes
  bh_merkle_root :: bytes
  bh_time :: u32
  bh_bits :: u32
  bh_nonce :: u32

record hash_crates =
  compress256 :: "u32 list \<Rightarrow> bytes list \<Rightarrow> u32 list"
  btc_serialize :: "block_header \<Rightarrow> bytes"
  block_hash :: "block_header \<Rightarrow> bytes"
  u256_from_little_endian :: "bytes \<Rightarrow> u256"
  u256_to_little_endian :: "u256 \<Rightarrow> bytes"

section \<open>Arrays and encodings\<close>

definition u32_to_be_bytes :: "u32 \<Rightarrow> bytes" where
  "u32_to_be_bytes x = rev (u32_to_le_bytes x)"

definition u64_to_be_bytes :: "u64 \<Rightarrow> bytes" where
  "u64_to_be_bytes x =
     [ucast (drop_bit 56 x), ucast (drop_bit 48 x), ucast (drop_bit 40 x), ucast (drop_bit 32 x),
      ucast (drop_bit 24 x), ucast (drop_bit 16 x), ucast (drop_bit 8 x), ucast x]"

text \<open>\<open>dst[off..off + src.len()].copy_from_slice(src)\<close> where the range lies inside the array.\<close>

definition copy_into :: "nat \<Rightarrow> bytes \<Rightarrow> bytes \<Rightarrow> bytes" where
  "copy_into off src dst = take off dst @ src @ drop (off + length src) dst"

text \<open>The loops that write the words of a state big-endian into the front of an array.\<close>

definition put_words :: "u32 list \<Rightarrow> bytes \<Rightarrow> bytes" where
  "put_words ws dst =
     fold (\<lambda>(i, w) d. copy_into (i * 4) (u32_to_be_bytes w) d) (enumerate 0 ws) dst"

section \<open>The fast hasher\<close>

definition sha256_initial_state :: "u32 list" where
  "sha256_initial_state =
     [0x6a09e667, 0xbb67ae85, 0x3c6ef372, 0xa54ff53a, 0x510e527f, 0x9b05688c, 0x1f83d9ab,
      0x5be0cd19]"

record fast_sha256d =
  state0 :: "u32 list"
  block1 :: bytes
  second_block :: bytes

text \<open>A header that does not serialise to 80 bytes makes the copy into the array panic.\<close>

definition from_header_static ::
  "('z) hash_crates_scheme \<Rightarrow> block_header \<Rightarrow> ('e, fast_sha256d) res" where
  "from_header_static H h =
     (let header_bytes = btc_serialize H h in
      if length header_bytes \<noteq> 80 then Panic ''Serialized header must be 80 bytes''
      else
        let chunk0 = take 64 header_bytes;
            chunk1_last16 = drop 64 header_bytes;
            b1 = copy_into 56 (u64_to_be_bytes 640)
                   ((copy_into 0 chunk1_last16 (replicate 64 0)) [16 := 0x80]);
            b2 = copy_into 56 (u64_to_be_bytes 256) ((replicate 64 0) [32 := 0x80])
        in Ok \<lparr> state0 = compress256 H sha256_initial_state [chunk0], block1 = b1,
                second_block = b2 \<rparr>)"

definition hash_with_nonce_time ::
  "('z) hash_crates_scheme \<Rightarrow> u32 \<Rightarrow> u32 \<Rightarrow> fast_sha256d \<Rightarrow> bytes \<times> fast_sha256d" where
  "hash_with_nonce_time H nonce time f =
     (let b1 = copy_into 12 (u32_to_le_bytes nonce) (copy_into 4 (u32_to_le_bytes time) (block1 f));
          state1 = compress256 H (state0 f) [b1];
          b2 = put_words state1 (second_block f);
          state2 = compress256 H sha256_initial_state [b2]
      in (put_words state2 (replicate 32 0), f \<lparr> block1 := b1, second_block := b2 \<rparr>))"

section \<open>The comparison with the target\<close>

definition le_word_at :: "bytes \<Rightarrow> nat \<Rightarrow> u32" where
  "le_word_at bs i =
     (let off = i * 4 in
      u32_from_le_bytes (bs ! off) (bs ! (off + 1)) (bs ! (off + 2)) (bs ! (off + 3)))"

text \<open>The loop over the words below index \<open>n\<close>, from the most significant one, with the flags
  \<open>is_below\<close> and \<open>is_equal\<close>.\<close>

fun compare_words :: "nat \<Rightarrow> bytes \<Rightarrow> bytes \<Rightarrow> bool \<times> bool \<Rightarrow> bool \<times> bool" where
  "compare_words 0 hash tgt flags = flags"
| "compare_words (Suc i) hash tgt flags =
     (let hw = le_word_at hash i; tw = le_word_at tgt i in
      if hw < tw then (True, False)
      else if tw < hw then (False, False)
      else compare_words i hash tgt flags)"

definition hash_meets_target_le :: "bytes \<Rightarrow> bytes \<Rightarrow> bool" where
  "hash_meets_target_le hash tgt_le =
     (case compare_words 8 hash tgt_le (False, True) of
        (is_below, is_equal) \<Rightarrow> is_below \<or> is_equal)"

section \<open>Reference definitions\<close>

text \<open>SHA-256 over the compression function: padding, 64 byte blocks, and the chaining of the
  state, and Bitcoin's double hash of a header in its consensus layout.\<close>

definition sha256_pad :: "bytes \<Rightarrow> bytes" where
  "sha256_pad m =
     m @ [0x80] @ replicate ((119 - length m mod 64) mod 64) 0 @
     u64_to_be_bytes (of_nat (8 * length m))"

fun blocks64 :: "bytes \<Rightarrow> bytes list" where
  "blocks64 xs = (if length xs < 64 then [] else take 64 xs # blocks64 (drop 64 xs))"

declare blocks64.simps [simp del]

definition sha256 :: "('z) hash_crates_scheme \<Rightarrow> bytes \<Rightarrow> bytes" where
  "sha256 H m =
     concat (map u32_to_be_bytes (compress256 H sha256_initial_state (blocks64 (sha256_pad m))))"

definition sha256d :: "('z) hash_crates_scheme \<Rightarrow> bytes \<Rightarrow> bytes" where
  "sha256d H m = sha256 H (sha256 H m)"

definition header_layout :: "block_header \<Rightarrow> bytes" where
  "header_layout h =
     u32_to_le_bytes (bh_version h) @ bh_prev_blockhash h @ bh_merkle_root h @
     u32_to_le_bytes (bh_time h) @ u32_to_le_bytes (bh_bits h) @ u32_to_le_bytes (bh_nonce h)"

definition wf_header :: "block_header \<Rightarrow> bool" where
  "wf_header h \<longleftrightarrow> length (bh_prev_blockhash h) = 32 \<and> length (bh_merkle_root h) = 32"

definition le_nat :: "bytes \<Rightarrow> nat" where
  "le_nat bs = foldr (\<lambda>b n. unat b + 256 * n) bs 0"

text \<open>
  What the crates document: the compression of several blocks is the compression of one after
  the other on a state of eight words, a header serialises in consensus layout, the block hash
  is the double SHA-256 of that, and 32 bytes read as a little-endian integer come back.
\<close>

definition hash_crates_laws :: "('z) hash_crates_scheme \<Rightarrow> bool" where
  "hash_crates_laws H \<longleftrightarrow>
     (\<forall>s xs ys. compress256 H s (xs @ ys) = compress256 H (compress256 H s xs) ys) \<and>
     (\<forall>s xs. length s = 8 \<longrightarrow> length (compress256 H s xs) = 8) \<and>
     (\<forall>h. wf_header h \<longrightarrow> btc_serialize H h = header_layout h) \<and>
     (\<forall>h. wf_header h \<longrightarrow> block_hash H h = sha256d H (header_layout h)) \<and>
     (\<forall>t. length t = 32 \<longrightarrow> u256_to_little_endian H (u256_from_little_endian H t) = t)"

lemma compress256_append:
  "hash_crates_laws H \<Longrightarrow>
     compress256 H s (xs @ ys) = compress256 H (compress256 H s xs) ys"
  unfolding hash_crates_laws_def by blast

lemma length_compress256:
  "hash_crates_laws H \<Longrightarrow> length s = 8 \<Longrightarrow> length (compress256 H s xs) = 8"
  unfolding hash_crates_laws_def by blast

lemma btc_serialize_layout:
  "hash_crates_laws H \<Longrightarrow> wf_header h \<Longrightarrow> btc_serialize H h = header_layout h"
  unfolding hash_crates_laws_def by blast

lemma block_hash_sha256d:
  "hash_crates_laws H \<Longrightarrow> wf_header h \<Longrightarrow> block_hash H h = sha256d H (header_layout h)"
  unfolding hash_crates_laws_def by blast

lemma u256_le_roundtrip:
  "hash_crates_laws H \<Longrightarrow> length t = 32 \<Longrightarrow>
     u256_to_little_endian H (u256_from_little_endian H t) = t"
  unfolding hash_crates_laws_def by blast

section \<open>Arrays\<close>

lemma length_be_bytes [simp]:
  "length (u32_to_be_bytes x) = 4" "length (u64_to_be_bytes y) = 8"
  by (simp_all add: u32_to_be_bytes_def u64_to_be_bytes_def)

lemma length_copy_into [simp]:
  "off + length src \<le> length dst \<Longrightarrow> length (copy_into off src dst) = length dst"
  by (simp add: copy_into_def)

lemma copy_into_append:
  "off = length xs \<Longrightarrow> length src = length ys \<Longrightarrow> copy_into off src (xs @ ys @ zs) = xs @ src @ zs"
  by (simp add: copy_into_def)

lemma length_concat_be [simp]: "length (concat (map u32_to_be_bytes ws)) = 4 * length ws"
  by (induction ws) simp_all

lemma put_words_from:
  "4 * (n + length ws) \<le> length dst \<Longrightarrow>
     fold (\<lambda>(i, w) d. copy_into (i * 4) (u32_to_be_bytes w) d) (enumerate n ws) dst =
       take (4 * n) dst @ concat (map u32_to_be_bytes ws) @ drop (4 * (n + length ws)) dst"
proof (induction ws arbitrary: n dst)
  case (Cons w ws)
  let ?d = "copy_into (n * 4) (u32_to_be_bytes w) dst"
  have d: "?d = take (4 * n) dst @ u32_to_be_bytes w @ drop (4 * n + 4) dst"
    by (simp add: copy_into_def mult.commute)
  have "take (4 * Suc n) ?d = take (4 * n) dst @ u32_to_be_bytes w"
    using Cons.prems by (simp add: d)
  moreover have "drop (4 * (Suc n + length ws)) ?d = drop (4 * (n + length (w # ws))) dst"
    using Cons.prems by (simp add: d algebra_simps)
  ultimately show ?case
    using Cons.IH [of "Suc n" ?d] Cons.prems by simp
qed simp

lemma put_words_eq:
  "length ws = 8 \<Longrightarrow> 32 \<le> length dst \<Longrightarrow>
     put_words ws dst = concat (map u32_to_be_bytes ws) @ drop 32 dst"
  using put_words_from [of 0 ws dst] by (simp add: put_words_def)

section \<open>The midstate hasher computes the double hash\<close>

lemma length_sha256_initial_state [simp]: "length sha256_initial_state = 8"
  by (simp add: sha256_initial_state_def)

lemma length_header_layout [simp]: "wf_header h \<Longrightarrow> length (header_layout h) = 80"
  by (simp add: header_layout_def wf_header_def)

lemma length_sha256: "hash_crates_laws H \<Longrightarrow> length (sha256 H m) = 32"
  by (simp add: sha256_def length_compress256)

lemma pad80: "length m = 80 \<Longrightarrow> sha256_pad m = m @ [0x80] @ replicate 39 0 @ u64_to_be_bytes 640"
  by (simp add: sha256_pad_def)

lemma pad32: "length m = 32 \<Longrightarrow> sha256_pad m = m @ [0x80] @ replicate 23 0 @ u64_to_be_bytes 256"
  by (simp add: sha256_pad_def)

lemma blocks64_append: "length xs = 64 \<Longrightarrow> blocks64 (xs @ ys) = xs # blocks64 ys"
  by (subst blocks64.simps) simp

lemma blocks64_one: "length xs = 64 \<Longrightarrow> blocks64 xs = [xs]"
  using blocks64_append [of xs "[]"] by (simp add: blocks64.simps)

lemma sha256_80:
  assumes "hash_crates_laws H" and "length m = 80"
  shows "sha256 H m = concat (map u32_to_be_bytes
    (compress256 H (compress256 H sha256_initial_state [take 64 m])
       [drop 64 m @ [0x80] @ replicate 39 0 @ u64_to_be_bytes 640]))"
proof -
  have "sha256_pad m = take 64 m @ drop 64 m @ [0x80] @ replicate 39 0 @ u64_to_be_bytes 640"
    unfolding pad80 [OF assms(2)] append_assoc [symmetric] append_take_drop_id ..
  moreover have "blocks64 \<dots> = [take 64 m] @ [drop 64 m @ [0x80] @ replicate 39 0 @ u64_to_be_bytes 640]"
    using assms(2) by (simp add: blocks64_append blocks64_one)
  ultimately show ?thesis
    by (simp only: sha256_def compress256_append [OF assms(1)])
qed

lemma sha256_32:
  assumes "length m = 32"
  shows "sha256 H m = concat (map u32_to_be_bytes
    (compress256 H sha256_initial_state [m @ [0x80] @ replicate 23 0 @ u64_to_be_bytes 256]))"
  using assms by (simp add: sha256_def pad32 blocks64_one)

text \<open>What the hasher of a header keeps through every call: the midstate of the first 64 bytes,
  the tail of the merkle root and the bits, the padding, and the constants of the second
  block.\<close>

definition hasher_of :: "('z) hash_crates_scheme \<Rightarrow> block_header \<Rightarrow> fast_sha256d \<Rightarrow> bool" where
  "hasher_of H h f \<longleftrightarrow>
     state0 f = compress256 H sha256_initial_state [take 64 (header_layout h)] \<and>
     (\<exists>t n. block1 f = drop 28 (bh_merkle_root h) @ u32_to_le_bytes t @ u32_to_le_bytes (bh_bits h) @
        u32_to_le_bytes n @ [0x80] @ replicate 39 0 @ u64_to_be_bytes 640) \<and>
     (\<exists>d. length d = 32 \<and>
        second_block f = d @ [0x80] @ replicate 23 0 @ u64_to_be_bytes 256)"

lemma header_chunks:
  assumes "wf_header h"
  shows "take 64 (header_layout h) =
           u32_to_le_bytes (bh_version h) @ bh_prev_blockhash h @ take 28 (bh_merkle_root h)"
    and "drop 64 (header_layout h) =
           drop 28 (bh_merkle_root h) @ u32_to_le_bytes (bh_time h) @ u32_to_le_bytes (bh_bits h) @
           u32_to_le_bytes (bh_nonce h)"
  using assms by (simp_all add: header_layout_def wf_header_def)

lemma second_block_template:
  "copy_into 56 (u64_to_be_bytes 256) ((replicate 64 0) [32 := 0x80]) =
     replicate 32 0 @ [0x80] @ replicate 23 0 @ u64_to_be_bytes 256"
  by (simp add: copy_into_def u64_to_be_bytes_def list_update_append numeral_eq_Suc)

lemma block1_template:
  assumes "length c = 16"
  shows "copy_into 56 (u64_to_be_bytes 640) ((copy_into 0 c (replicate 64 0)) [16 := 0x80]) =
           c @ [0x80] @ replicate 39 0 @ u64_to_be_bytes 640"
proof -
  have "copy_into 0 c (replicate 64 0) = c @ 0 # replicate 47 (0::u8)"
    using assms by (simp add: copy_into_def drop_replicate flip: replicate_Suc)
  then have "(copy_into 0 c (replicate 64 0)) [16 := 0x80] = c @ (0x80::u8) # replicate 47 0"
    using assms by (simp add: list_update_append)
  then show ?thesis
    using assms by (simp add: copy_into_def)
qed

lemma from_header_static_ok:
  assumes "hash_crates_laws H" and "wf_header h"
  obtains f where "from_header_static H h = Ok f" and "hasher_of H h f"
proof
  let ?f = "\<lparr> state0 = compress256 H sha256_initial_state [take 64 (header_layout h)],
      block1 = drop 64 (header_layout h) @ [0x80] @ replicate 39 0 @ u64_to_be_bytes 640,
      second_block = replicate 32 0 @ [0x80] @ replicate 23 0 @ u64_to_be_bytes 256 \<rparr>"
  show "from_header_static H h = Ok ?f"
    using assms by (simp add: from_header_static_def btc_serialize_layout Let_def
      block1_template second_block_template)
  show "hasher_of H h ?f"
    using assms(2) by (auto simp: hasher_of_def header_chunks)
qed

lemma hash_with_nonce_time_correct:
  assumes H: "hash_crates_laws H" and h: "wf_header h" and f: "hasher_of H h f"
  obtains f' where
    "hash_with_nonce_time H n t f =
       (sha256d H (header_layout (h \<lparr> bh_time := t, bh_nonce := n \<rparr>)), f')"
    and "hasher_of H h f'"
proof -
  let ?h = "h \<lparr> bh_time := t, bh_nonce := n \<rparr>"
  let ?b1 = "copy_into 12 (u32_to_le_bytes n) (copy_into 4 (u32_to_le_bytes t) (block1 f))"
  let ?s1 = "compress256 H (state0 f) [?b1]"
  let ?b2 = "put_words ?s1 (second_block f)"
  let ?s2 = "compress256 H sha256_initial_state [?b2]"
  have wf: "wf_header ?h" using h by (simp add: wf_header_def)
  have tail: "length (drop 28 (bh_merkle_root h)) = 4" using h by (simp add: wf_header_def)
  have b1: "?b1 = drop 64 (header_layout ?h) @ [0x80] @ replicate 39 0 @ u64_to_be_bytes 640"
    using f tail by (auto simp: hasher_of_def header_chunks [OF wf] copy_into_def)
  have s0: "state0 f = compress256 H sha256_initial_state [take 64 (header_layout ?h)]"
    using f by (simp add: hasher_of_def header_chunks [OF wf] header_chunks [OF h])
  have len: "length ?s1 = 8" "length ?s2 = 8"
    by (simp_all add: s0 length_compress256 [OF H])
  have first: "sha256 H (header_layout ?h) = concat (map u32_to_be_bytes ?s1)"
    unfolding sha256_80 [OF H length_header_layout [OF wf]] s0 b1 ..
  have b2: "?b2 = sha256 H (header_layout ?h) @ [0x80] @ replicate 23 0 @ u64_to_be_bytes 256"
    using f len by (auto simp: hasher_of_def put_words_eq first)
  have "sha256d H (header_layout ?h) = put_words ?s2 (replicate 32 0)"
    unfolding sha256d_def sha256_32 [OF length_sha256 [OF H]] b2
    using len by (simp add: put_words_eq b2)
  then have "hash_with_nonce_time H n t f =
      (sha256d H (header_layout ?h), f \<lparr> block1 := ?b1, second_block := ?b2 \<rparr>)"
    by (simp add: hash_with_nonce_time_def Let_def)
  moreover have "hasher_of H h (f \<lparr> block1 := ?b1, second_block := ?b2 \<rparr>)"
    unfolding b2 unfolding b1 hasher_of_def header_chunks [OF wf]
    using f length_sha256 [OF H] by (auto simp: hasher_of_def)
  ultimately show ?thesis by (rule that)
qed

section \<open>The comparison is the comparison of the numbers\<close>

lemma le_nat_simps [simp]: "le_nat [] = 0" "le_nat (b # bs) = unat b + 256 * le_nat bs"
  by (simp_all add: le_nat_def)

lemma le_nat_append: "le_nat (xs @ ys) = le_nat xs + 256 ^ length xs * le_nat ys"
  by (induction xs) (simp_all add: algebra_simps)

lemma le_nat_less: "le_nat bs < 256 ^ length bs"
proof (induction bs)
  case (Cons b bs)
  have "unat b < 256" using unsigned_less [of b, where 'a = nat] by simp
  then have "unat b + 256 * le_nat bs < 256 * Suc (le_nat bs)" by simp
  also have "\<dots> \<le> 256 * 256 ^ length bs" using Cons.IH by (intro mult_le_mono2) simp
  finally show ?case by simp
qed simp

lemma unat_u32_from_le_bytes:
  "unat (u32_from_le_bytes b0 b1 b2 b3) = le_nat [b0, b1, b2, b3]"
proof -
  have "unat b0 + 2 ^ 8 * unat b1 + 2 ^ 16 * unat b2 + 2 ^ 24 * unat b3 = le_nat [b0, b1, b2, b3]"
    by simp
  moreover have "le_nat [b0, b1, b2, b3] < 2 ^ LENGTH(32)"
    using le_nat_less [of "[b0, b1, b2, b3]"] by simp
  ultimately show ?thesis
    unfolding u32_from_le_bytes_def by (simp only: unat_of_nat mod_less)
qed

lemma le_nat_take_Suc:
  assumes "4 * Suc i \<le> length bs"
  shows "le_nat (take (4 * Suc i) bs) = le_nat (take (4 * i) bs) + 256 ^ (4 * i) * unat (le_word_at bs i)"
proof -
  have "take (4 * Suc i) bs = take (4 * i) bs @ take 4 (drop (4 * i) bs)"
    using take_add [of "4 * i" 4 bs] by (simp add: add.commute)
  also have "take 4 (drop (4 * i) bs) = [bs ! (i * 4), bs ! (i * 4 + 1), bs ! (i * 4 + 2), bs ! (i * 4 + 3)]"
    using assms by (simp add: numeral_eq_Suc take_Suc_conv_app_nth nth_drop mult.commute)
  finally show ?thesis
    using assms by (simp add: le_nat_append le_word_at_def unat_u32_from_le_bytes Let_def)
qed

lemma lex_le:
  fixes a b m x y :: nat
  assumes "a < m" and "b < m"
  shows "x < y \<Longrightarrow> a + m * x < b + m * y" and "a + m * x \<le> b + m * x \<longleftrightarrow> a \<le> b"
proof -
  assume "x < y"
  then have "m * Suc x \<le> m * y" by (intro mult_le_mono2) simp
  then show "a + m * x < b + m * y" using assms(1) by simp
qed simp

lemma compare_words_le:
  assumes "4 * n \<le> length hash" and "4 * n \<le> length tgt"
  shows "(case compare_words n hash tgt (False, True) of (b, e) \<Rightarrow> b \<or> e) \<longleftrightarrow>
           le_nat (take (4 * n) hash) \<le> le_nat (take (4 * n) tgt)"
  using assms
proof (induction n)
  case (Suc i)
  let ?m = "256 ^ (4 * i) :: nat"
  let ?hw = "le_word_at hash i" and ?tw = "le_word_at tgt i"
  have lt: "le_nat (take (4 * i) hash) < ?m" "le_nat (take (4 * i) tgt) < ?m"
    using le_nat_less [of "take (4 * i) hash"] le_nat_less [of "take (4 * i) tgt"] Suc.prems
    by simp_all
  consider "?hw < ?tw" | "?tw < ?hw" | "?hw = ?tw" by fastforce
  then show ?case
  proof cases
    case 1
    then show ?thesis
      using lex_le(1) [OF lt, of "unat ?hw" "unat ?tw"]
      by (simp only: compare_words.simps le_nat_take_Suc [OF Suc.prems(1)]
        le_nat_take_Suc [OF Suc.prems(2)] word_less_nat_alt Let_def) simp
  next
    case 2
    then show ?thesis
      using lex_le(1) [OF lt(2) lt(1), of "unat ?tw" "unat ?hw"]
      by (simp only: compare_words.simps le_nat_take_Suc [OF Suc.prems(1)]
        le_nat_take_Suc [OF Suc.prems(2)] word_less_nat_alt Let_def) simp
  next
    case 3
    then show ?thesis
      using Suc by (simp only: compare_words.simps le_nat_take_Suc [OF Suc.prems(1)]
        le_nat_take_Suc [OF Suc.prems(2)] Let_def) simp
  qed
qed simp

lemma hash_meets_target_le_iff:
  "length hash = 32 \<Longrightarrow> length tgt = 32 \<Longrightarrow>
     hash_meets_target_le hash tgt \<longleftrightarrow> le_nat hash \<le> le_nat tgt"
  using compare_words_le [of 8 hash tgt] by (simp add: hash_meets_target_le_def)

lemma length_sha256d: "hash_crates_laws H \<Longrightarrow> length (sha256d H m) = 32"
  by (simp add: sha256d_def length_sha256)

end
