(* ===== verification/Mining_Device.thy ===== *)
theory Mining_Device
  imports Mining_Hash
begin

text \<open>
  The CPU mining device (\<open>mining-device\<close>, \<open>lib/mod.rs\<close>): the connection set-up, the handlers
  of the upstream's messages, the miner with its header and target, the worker threads with their
  batches of nonces, and the tasks that connect them. Measuring the hash rate, the clock, the
  counter \<open>Id\<close> of the Stratum library and the hashing crates are arguments; the library's
  dispatch of a frame to a handler is the argument of \<open>handle_message_mining\<close>, the parsed
  message.
\<close>

record 'id md_lib = hash_crates +
  id_new :: 'id
  id_next :: "'id \<Rightarrow> u32 \<times> 'id"

section \<open>Run-time settings\<close>

definition set_nonces_per_call :: "u32 \<Rightarrow> u32" where
  "set_nonces_per_call n = max n 1"

definition nonces_per_call :: "u32 \<Rightarrow> u32" where
  "nonces_per_call stored = max stored 1"

text \<open>\<open>Ord::clamp\<close> panics when the bounds are out of order.\<close>

definition clamp :: "u32 \<Rightarrow> u32 \<Rightarrow> u32 \<Rightarrow> ('e, u32) res" where
  "clamp lo hi x = (if hi < lo then Panic ''assertion failed: min <= max''
     else Ok (if x < lo then lo else if hi < x then hi else x))"

definition total_logical_cpus :: "usize option \<Rightarrow> u32" where
  "total_logical_cpus parallelism = ucast (case parallelism of Some n \<Rightarrow> n | None \<Rightarrow> 1)"

definition worker_count :: "usize option \<Rightarrow> u32 \<Rightarrow> ('e, u32) res" where
  "worker_count parallelism override =
     (let total_cpus = total_logical_cpus parallelism;
          auto = max (if total_cpus = 0 then 0 else total_cpus - 1) 1
      in if override = 0 then Ok auto else clamp 1 total_cpus override)"

section \<open>Messages\<close>

record md_setup_connection =
  ms_min_version :: u16
  ms_max_version :: u16
  ms_flags :: u32
  ms_endpoint_host :: bytes
  ms_endpoint_port :: u16
  ms_vendor :: bytes
  ms_hardware_version :: bytes
  ms_firmware :: bytes
  ms_device_id :: bytes

record md_open_channel =
  mc_request_id :: u32
  mc_user_identity :: bytes
  mc_nominal_hash_rate :: f32
  mc_max_target :: bytes

record md_open_success =
  mo_request_id :: u32
  mo_channel_id :: u32
  mo_target :: bytes
  mo_group_channel_id :: u32

record md_job =
  mj_channel_id :: u32
  mj_job_id :: u32
  mj_min_ntime :: "u32 option"
  mj_version :: u32
  mj_merkle_root :: bytes

record md_prev_hash =
  mp_channel_id :: u32
  mp_job_id :: u32
  mp_prev_hash :: bytes
  mp_min_ntime :: u32
  mp_nbits :: u32

record md_submit =
  mb_channel_id :: u32
  mb_sequence_number :: u32
  mb_job_id :: u32
  mb_nonce :: u32
  mb_ntime :: u32
  mb_version :: u32

text \<open>A job is a future one when it has no minimal time.\<close>

definition md_is_future :: "md_job \<Rightarrow> bool" where
  "md_is_future j \<longleftrightarrow> mj_min_ntime j = None"

datatype md_incoming =
    Md_OpenStandardSuccess md_open_success
  | Md_OpenExtendedSuccess
  | Md_OpenError
  | Md_UpdateChannelError
  | Md_CloseChannel
  | Md_SetExtranoncePrefix
  | Md_SubmitSharesSuccess
  | Md_SubmitSharesError bytes
  | Md_NewMiningJob md_job
  | Md_NewExtendedMiningJob
  | Md_SetNewPrevHash md_prev_hash
  | Md_SetCustomMiningJobSuccess
  | Md_SetCustomMiningJobError
  | Md_SetTarget u32 bytes
  | Md_SetGroupChannel

datatype md_outgoing =
    Md_SetupConnection md_setup_connection
  | Md_OpenStandard md_open_channel
  | Md_SubmitStandard md_submit

datatype md_setup_reply =
    Md_SetupSuccess u16 u32
  | Md_SetupError
  | Md_ChannelEndpointChanged
  | Md_Reconnect

section \<open>Connection set-up\<close>

text \<open>The strings of the messages hold at most 255 bytes; a longer one makes \<open>unwrap\<close> panic.\<close>

definition str0255 :: "bytes \<Rightarrow> ('e, bytes) res" where
  "str0255 s = (if length s \<le> 255 then Ok s else Panic ''called `Result::unwrap()` on an `Err` value'')"

definition md_get_setup_connection_message ::
  "bytes \<Rightarrow> u16 \<Rightarrow> bytes option \<Rightarrow> ('e, md_setup_connection) res" where
  "md_get_setup_connection_message host port device_id =
     (case str0255 host of
        Ok h \<Rightarrow>
          map_res (\<lambda>d. \<lparr> ms_min_version = 2, ms_max_version = 2, ms_flags = 1, ms_endpoint_host = h,
              ms_endpoint_port = port, ms_vendor = [], ms_hardware_version = [], ms_firmware = [],
              ms_device_id = d \<rparr>)
            (str0255 (case device_id of Some d \<Rightarrow> d | None \<Rightarrow> []))
      | Err e \<Rightarrow> Err e
      | Panic p \<Rightarrow> Panic p)"

fun handle_setup_reply :: "md_setup_reply \<Rightarrow> ('e, unit) res" where
  "handle_setup_reply (Md_SetupSuccess used_version flags) = Ok ()"
| "handle_setup_reply Md_SetupError = Panic ''not yet implemented''"
| "handle_setup_reply Md_ChannelEndpointChanged = Panic ''not yet implemented''"
| "handle_setup_reply Md_Reconnect = Panic ''not yet implemented''"

definition md_setup ::
  "bytes \<Rightarrow> u16 \<Rightarrow> bytes option \<Rightarrow> md_setup_reply \<Rightarrow> ('e, unit) res \<times> md_outgoing list" where
  "md_setup host port device_id reply =
     (case md_get_setup_connection_message host port device_id of
        Ok m \<Rightarrow> (handle_setup_reply reply, [Md_SetupConnection m])
      | Err e \<Rightarrow> (Err e, [])
      | Panic p \<Rightarrow> (Panic p, []))"

text \<open>The request for the channel; \<open>measured\<close> is the measured rate, \<open>mul\<close> the product of
  two floats.\<close>

definition md_open_channel_message ::
  "(f32 \<Rightarrow> f32 \<Rightarrow> f32) \<Rightarrow> f32 \<Rightarrow> bytes option \<Rightarrow> f32 option \<Rightarrow> ('e, md_open_channel) res" where
  "md_open_channel_message mul measured user_id multiplier =
     map_res (\<lambda>u. \<lparr> mc_request_id = 10, mc_user_identity = u,
         mc_nominal_hash_rate = (case multiplier of Some k \<Rightarrow> mul measured k | None \<Rightarrow> measured),
         mc_max_target = replicate 32 0xFF \<rparr>)
       (str0255 (case user_id of Some u \<Rightarrow> u | None \<Rightarrow> []))"

section \<open>The miner\<close>

record miner =
  mn_header :: "block_header option"
  mn_target :: "u256 option"
  mn_job_id :: "u32 option"
  mn_version :: "u32 option"
  mn_handicap :: u32
  mn_fast_hasher :: "fast_sha256d option"

definition miner_new :: "u32 \<Rightarrow> miner" where
  "miner_new handicap =
     \<lparr> mn_header = None, mn_target = None, mn_job_id = None, mn_version = None,
       mn_handicap = handicap, mn_fast_hasher = None \<rparr>"

text \<open>\<open>U256::from_little_endian\<close> asserts that the slice has at most 32 bytes.\<close>

definition new_target ::
  "('z) hash_crates_scheme \<Rightarrow> bytes \<Rightarrow> miner \<Rightarrow> (unit, unit) res \<times> miner" where
  "new_target H target m =
     (if 32 < length target then (Panic ''assertion failed: 4 * 8 >= slice.len()'', m)
      else (Ok (), m \<lparr> mn_target := Some (u256_from_little_endian H target) \<rparr>))"

text \<open>
  The header takes its time from the clock: \<open>now\<close> is the number of seconds since the epoch, and
  the code counts from one minute before it. The hashes must convert to arrays of 32 bytes.
\<close>

definition new_header ::
  "('z) hash_crates_scheme \<Rightarrow> u64 \<Rightarrow> md_prev_hash \<Rightarrow> md_job \<Rightarrow> miner \<Rightarrow> (unit, unit) res \<times> miner" where
  "new_header H now p j m =
     (let m1 = m \<lparr> mn_job_id := Some (mj_job_id j), mn_version := Some (mj_version j) \<rparr> in
      if length (mp_prev_hash p) \<noteq> 32 \<or> length (mj_merkle_root j) \<noteq> 32
      then (Panic ''called `Result::unwrap()` on an `Err` value'', m1)
      else
        let h = \<lparr> bh_version = mj_version j, bh_prev_blockhash = mp_prev_hash p,
                  bh_merkle_root = mj_merkle_root j, bh_time = ucast (now + 60),
                  bh_bits = mp_nbits p, bh_nonce = 0 \<rparr>;
            m2 = m1 \<lparr> mn_header := Some h \<rparr>
        in and_then (from_header_static H h, m2) (\<lambda>f m. (Ok (), m \<lparr> mn_fast_hasher := Some f \<rparr>)))"

datatype next_share_outcome = ValidShare | InvalidShare | NoTarget | NoHeader

definition next_share :: "('z) hash_crates_scheme \<Rightarrow> miner \<Rightarrow> next_share_outcome \<times> miner" where
  "next_share H m =
     (case mn_header m of
        None \<Rightarrow> (NoHeader, m)
      | Some h \<Rightarrow>
          (case (case mn_fast_hasher m of
                   Some f \<Rightarrow>
                     (case hash_with_nonce_time H (bh_nonce h) (bh_time h) f of
                        (x, f') \<Rightarrow> (x, m \<lparr> mn_fast_hasher := Some f' \<rparr>))
                 | None \<Rightarrow> (block_hash H h, m)) of
             (hash, m') \<Rightarrow>
               (case mn_target m of
                  None \<Rightarrow> (NoTarget, m')
                | Some t \<Rightarrow>
                    (if hash_meets_target_le hash (u256_to_little_endian H t)
                     then ValidShare else InvalidShare, m'))))"

section \<open>The worker threads\<close>

record share =
  sh_nonce :: u32
  sh_job_id :: u32
  sh_version :: u32
  sh_ntime :: u32

text \<open>The share of a hit goes into a queue without bound; sending fails once the receiving task
  is gone.\<close>

definition emit_share ::
  "bool \<Rightarrow> u32 \<Rightarrow> u32 \<Rightarrow> miner \<Rightarrow> miner \<Rightarrow> (unit, bool) res \<times> share list \<times> miner" where
  "emit_share open_queue nonce time m m' =
     (case mn_job_id m of
        None \<Rightarrow> (Panic ''called `Option::unwrap()` on a `None` value'', [], m)
      | Some j \<Rightarrow>
          (case mn_version m of
             None \<Rightarrow> (Panic ''called `Option::unwrap()` on a `None` value'', [], m)
           | Some v \<Rightarrow>
               if open_queue
               then (Ok True, [\<lparr> sh_nonce = nonce, sh_job_id = j, sh_version = v, sh_ntime = time \<rparr>], m')
               else (Panic ''called `Result::unwrap()` on an `Err` value'', [], m)))"

fun search_batch ::
  "('z) hash_crates_scheme \<Rightarrow> bytes \<Rightarrow> u32 \<Rightarrow> u32 \<Rightarrow> nat \<Rightarrow> nat \<Rightarrow> fast_sha256d \<Rightarrow>
     u32 option \<times> fast_sha256d" where
  "search_batch H tgt time start i 0 f = (None, f)"
| "search_batch H tgt time start i (Suc n) f =
     (let nonce = start + of_nat i in
      case hash_with_nonce_time H nonce time f of
        (hash, f') \<Rightarrow>
          if hash_meets_target_le hash tgt then (Some nonce, f')
          else search_batch H tgt time start (Suc i) n f')"

definition mine_batch ::
  "('z) hash_crates_scheme \<Rightarrow> u32 \<Rightarrow> bool \<Rightarrow> block_header \<Rightarrow> u256 \<Rightarrow> fast_sha256d \<Rightarrow> miner \<Rightarrow>
     (unit, bool) res \<times> share list \<times> miner" where
  "mine_batch H batch open_queue h t f m =
     (let time = bh_time h; start = bh_nonce h in
      case search_batch H (u256_to_little_endian H t) time start 0 (unat batch) f of
        (found, f') \<Rightarrow>
          let m' = m \<lparr> mn_header := Some (h \<lparr> bh_nonce := start + batch \<rparr>),
                       mn_fast_hasher := Some f' \<rparr>
          in case found of
               None \<Rightarrow> (Ok True, [], m')
             | Some nonce \<Rightarrow>
                 emit_share open_queue nonce time
                   (m \<lparr> mn_header := Some (h \<lparr> bh_nonce := nonce \<rparr>), mn_fast_hasher := Some f' \<rparr>) m')"

text \<open>
  A turn of \<open>mine\<close>: \<open>killed\<close> is the flag at the head of the loop and \<open>late\<close> the
  second reading of it, which only the loop without handicap makes.
\<close>

definition mine_turn ::
  "('z) hash_crates_scheme \<Rightarrow> bool \<Rightarrow> bool \<Rightarrow> u32 \<Rightarrow> bool \<Rightarrow> miner \<Rightarrow>
     (unit, bool) res \<times> share list \<times> miner" where
  "mine_turn H killed late batch open_queue m =
     (if killed then (Ok False, [], m)
      else
        case (mn_fast_hasher m, mn_target m, mn_header m) of
          (Some f, Some t, Some h) \<Rightarrow> mine_batch H batch open_queue h t f m
        | _ \<Rightarrow>
            (case next_share H m of
               (outcome, m1) \<Rightarrow>
                 let m2 = m1 \<lparr> mn_header := map_option (\<lambda>h. h \<lparr> bh_nonce := bh_nonce h + 1 \<rparr>) (mn_header m1) \<rparr>
                 in if outcome = ValidShare then
                      if mn_handicap m = 0 \<and> late then (Ok False, [], m1)
                      else (case mn_header m1 of
                              None \<Rightarrow> (Panic ''called `Option::unwrap()` on a `None` value'', [], m1)
                            | Some h \<Rightarrow> emit_share open_queue (bh_nonce h) (bh_time h) m1 m2)
                    else (Ok True, [], m2)))"

text \<open>The whole loop of a thread over the readings of its turns: the two kill flags, the
  configured batch and whether the queue is open.\<close>

fun mine ::
  "('z) hash_crates_scheme \<Rightarrow> (bool \<times> bool \<times> u32 \<times> bool) list \<Rightarrow> miner \<Rightarrow>
     (unit, bool) res \<times> share list \<times> miner" where
  "mine H [] m = (Ok True, [], m)"
| "mine H ((killed, late, batch, open_queue) # ts) m =
     (case mine_turn H killed late (nonces_per_call batch) open_queue m of
        (res, shares, m1) \<Rightarrow>
          if res = Ok True
          then (case mine H ts m1 of (res', shares', m2) \<Rightarrow> (res', shares @ shares', m2))
          else (res, shares, m1))"

text \<open>Starting the threads of a new piece of work: worker \<open>i\<close> of \<open>p\<close> begins at nonce
  \<open>i * (u32::MAX / p)\<close>.\<close>

definition nonce_unit :: "u32 \<Rightarrow> u32" where
  "nonce_unit p = - 1 div p"

definition spawn_miners :: "u32 \<Rightarrow> miner \<Rightarrow> miner list" where
  "spawn_miners p m =
     map (\<lambda>i. m \<lparr> mn_header := map_option (\<lambda>h. h \<lparr> bh_nonce := of_nat i * nonce_unit p \<rparr>) (mn_header m) \<rparr>)
       [0..<unat p]"

section \<open>The device\<close>

record 'id device =
  md_channel_opened :: bool
  md_channel_id :: "u32 option"
  md_miner :: miner
  md_jobs :: "md_job list"
  md_prev :: "md_prev_hash option"
  md_sequence_numbers :: 'id
  md_should_send :: bool

definition device_new :: "('id, 'z) md_lib_scheme \<Rightarrow> u32 \<Rightarrow> 'id device" where
  "device_new L handicap =
     \<lparr> md_channel_opened = False, md_channel_id = None, md_miner = miner_new handicap, md_jobs = [],
       md_prev = None, md_sequence_numbers = id_new L, md_should_send = True \<rparr>"

definition lock_miner ::
  "(miner \<Rightarrow> (unit, unit) res \<times> miner) \<Rightarrow> 'id device \<Rightarrow> (unit, unit) res \<times> 'id device" where
  "lock_miner f d = (case f (md_miner d) of (r, m) \<Rightarrow> (r, d \<lparr> md_miner := m \<rparr>))"

definition handle_open_standard_mining_channel_success ::
  "('id, 'z) md_lib_scheme \<Rightarrow> md_open_success \<Rightarrow> 'id device \<Rightarrow> (unit, unit) res \<times> 'id device" where
  "handle_open_standard_mining_channel_success L m d =
     and_then (lock_miner (new_target L (mo_target m))
         (d \<lparr> md_channel_opened := True, md_channel_id := Some (mo_channel_id m) \<rparr>))
       (\<lambda>_ d. (Ok (), d \<lparr> md_should_send := True \<rparr>))"

definition handle_new_mining_job ::
  "('id, 'z) md_lib_scheme \<Rightarrow> u64 \<Rightarrow> md_job \<Rightarrow> 'id device \<Rightarrow> (unit, unit) res \<times> 'id device" where
  "handle_new_mining_job L now j d =
     (if md_is_future j then (Ok (), d \<lparr> md_jobs := md_jobs d @ [j] \<rparr>)
      else
        case md_prev d of
          Some p \<Rightarrow>
            and_then (lock_miner (new_header L now p j) d)
              (\<lambda>_ d. (Ok (), d \<lparr> md_jobs := [j], md_should_send := True \<rparr>))
        | None \<Rightarrow> (Panic ''explicit panic'', d))"

definition md_handle_set_new_prev_hash ::
  "('id, 'z) md_lib_scheme \<Rightarrow> u64 \<Rightarrow> md_prev_hash \<Rightarrow> 'id device \<Rightarrow> (unit, unit) res \<times> 'id device" where
  "md_handle_set_new_prev_hash L now p d =
     (case filter (\<lambda>j. mj_job_id j = mp_job_id p \<and> md_is_future j) (md_jobs d) of
        [] \<Rightarrow> (Ok (), d \<lparr> md_prev := Some p \<rparr>)
      | [j] \<Rightarrow>
          and_then (lock_miner (new_header L now p j) d)
            (\<lambda>_ d. (Ok (), d \<lparr> md_jobs := [j], md_prev := Some p, md_should_send := True \<rparr>))
      | _ \<Rightarrow> (Panic ''explicit panic'', d))"

definition handle_set_target ::
  "('id, 'z) md_lib_scheme \<Rightarrow> bytes \<Rightarrow> 'id device \<Rightarrow> (unit, unit) res \<times> 'id device" where
  "handle_set_target L t d =
     and_then (lock_miner (new_target L t) d) (\<lambda>_ d. (Ok (), d \<lparr> md_should_send := True \<rparr>))"

fun handle_message_mining ::
  "('id, 'z) md_lib_scheme \<Rightarrow> u64 \<Rightarrow> md_incoming \<Rightarrow> 'id device \<Rightarrow> (unit, unit) res \<times> 'id device" where
  "handle_message_mining L now (Md_OpenStandardSuccess m) d =
     handle_open_standard_mining_channel_success L m d"
| "handle_message_mining L now Md_OpenExtendedSuccess d =
     (Panic ''internal error: entered unreachable code'', d)"
| "handle_message_mining L now Md_OpenError d = (Panic ''not yet implemented'', d)"
| "handle_message_mining L now Md_UpdateChannelError d = (Panic ''not yet implemented'', d)"
| "handle_message_mining L now Md_CloseChannel d = (Panic ''not yet implemented'', d)"
| "handle_message_mining L now Md_SetExtranoncePrefix d = (Panic ''not yet implemented'', d)"
| "handle_message_mining L now Md_SubmitSharesSuccess d = (Ok (), d)"
| "handle_message_mining L now (Md_SubmitSharesError code) d = (Ok (), d)"
| "handle_message_mining L now (Md_NewMiningJob j) d = handle_new_mining_job L now j d"
| "handle_message_mining L now Md_NewExtendedMiningJob d = (Panic ''not yet implemented'', d)"
| "handle_message_mining L now (Md_SetNewPrevHash p) d = md_handle_set_new_prev_hash L now p d"
| "handle_message_mining L now Md_SetCustomMiningJobSuccess d = (Panic ''not yet implemented'', d)"
| "handle_message_mining L now Md_SetCustomMiningJobError d = (Panic ''not yet implemented'', d)"
| "handle_message_mining L now (Md_SetTarget channel_id t) d = handle_set_target L t d"
| "handle_message_mining L now Md_SetGroupChannel d = (Panic ''not yet implemented'', d)"

definition md_send_share ::
  "('id, 'z) md_lib_scheme \<Rightarrow> share \<Rightarrow> 'id device \<Rightarrow> (unit, md_outgoing) res \<times> 'id device" where
  "md_send_share L s d =
     (case md_channel_id d of
        None \<Rightarrow> (Panic ''called `Option::unwrap()` on a `None` value'', d)
      | Some c \<Rightarrow>
          (case id_next L (md_sequence_numbers d) of
             (n, ids) \<Rightarrow>
               (Ok (Md_SubmitStandard \<lparr> mb_channel_id = c, mb_sequence_number = n, mb_job_id = sh_job_id s,
                  mb_nonce = sh_nonce s, mb_ntime = sh_ntime s, mb_version = sh_version s \<rparr>),
                d \<lparr> md_sequence_numbers := ids \<rparr>)))"

section \<open>The tasks together\<close>

text \<open>
  The device with its main loop (\<open>rg_running\<close>), the notifications waiting for the task that
  starts the threads, the threads with their kill flags, and the queue of found shares with the
  task that submits them (\<open>rg_receiver\<close>).
\<close>

record worker =
  wk_miner :: miner
  wk_killed :: bool
  wk_alive :: bool

record 'id rig =
  rg_device :: "'id device"
  rg_running :: bool
  rg_notices :: nat
  rg_workers :: "worker list"
  rg_shares :: "share list"
  rg_receiver :: bool
  rg_sent :: "md_outgoing list"

fun announces_work :: "md_incoming \<Rightarrow> bool" where
  "announces_work (Md_NewMiningJob j) = True"
| "announces_work (Md_SetNewPrevHash p) = True"
| "announces_work (Md_SetTarget c t) = True"
| "announces_work _ = False"

text \<open>
  A turn of the main loop. The notifier is a clone taken under the lock: the code resets
  \<open>should_send\<close> on the clone, so the device keeps its own flag.
\<close>

definition device_turn ::
  "('id, 'z) md_lib_scheme \<Rightarrow> u64 \<Rightarrow> md_incoming \<Rightarrow> 'id rig \<Rightarrow> 'id rig" where
  "device_turn L now msg r =
     (case handle_message_mining L now msg (rg_device r) of
        (Ok _, d) \<Rightarrow>
          r \<lparr> rg_device := d,
              rg_notices := (if md_should_send d \<and> announces_work msg then Suc (rg_notices r)
                             else rg_notices r) \<rparr>
      | (_, d) \<Rightarrow> r \<lparr> rg_device := d, rg_running := False \<rparr>)"

definition spawn_turn :: "u32 \<Rightarrow> 'id rig \<Rightarrow> 'id rig" where
  "spawn_turn p r =
     (case rg_notices r of
        0 \<Rightarrow> r
      | Suc n \<Rightarrow>
          r \<lparr> rg_notices := n,
              rg_workers := map (\<lambda>w. w \<lparr> wk_killed := True \<rparr>) (rg_workers r) @
                map (\<lambda>m. \<lparr> wk_miner = m, wk_killed = False, wk_alive = True \<rparr>)
                  (spawn_miners p (md_miner (rg_device r))) \<rparr>)"

definition worker_turn :: "('id, 'z) md_lib_scheme \<Rightarrow> nat \<Rightarrow> bool \<Rightarrow> u32 \<Rightarrow> 'id rig \<Rightarrow> 'id rig" where
  "worker_turn L i late batch r =
     (if i < length (rg_workers r) \<and> wk_alive (rg_workers r ! i) then
        let w = rg_workers r ! i in
        case mine_turn L (wk_killed w) (late \<or> wk_killed w) (nonces_per_call batch) (rg_receiver r) (wk_miner w) of
          (res, shares, m) \<Rightarrow>
            r \<lparr> rg_workers := (rg_workers r) [i := w \<lparr> wk_miner := m, wk_alive := (res = Ok True) \<rparr>],
                rg_shares := rg_shares r @ shares \<rparr>
      else r)"

definition share_turn :: "('id, 'z) md_lib_scheme \<Rightarrow> bool \<Rightarrow> 'id rig \<Rightarrow> 'id rig" where
  "share_turn L single_submit r =
     (if \<not> rg_receiver r then r
      else
        case rg_shares r of
          [] \<Rightarrow> r
        | s # rest \<Rightarrow>
            (case md_send_share L s (rg_device r) of
               (Ok out, d) \<Rightarrow>
                 r \<lparr> rg_device := d, rg_sent := rg_sent r @ [out],
                     rg_shares := (if single_submit then [] else rest),
                     rg_receiver := \<not> single_submit \<rparr>
             | (_, d) \<Rightarrow> r \<lparr> rg_device := d, rg_shares := [], rg_receiver := False \<rparr>))"

datatype rig_event =
    Incoming u64 md_incoming
  | Spawn
  | Turn nat bool u32
  | Submit

record rig_options =
  ro_handicap :: u32
  ro_workers :: u32
  ro_single_submit :: bool

definition rig_new :: "('id, 'z) md_lib_scheme \<Rightarrow> rig_options \<Rightarrow> md_outgoing list \<Rightarrow> 'id rig" where
  "rig_new L opts sent =
     \<lparr> rg_device = device_new L (ro_handicap opts), rg_running = True, rg_notices = 0,
       rg_workers = [], rg_shares = [], rg_receiver = True, rg_sent = sent \<rparr>"

text \<open>\<open>Device::start\<close> up to its loop: set-up, then the request for a channel.\<close>

definition device_start ::
  "('id, 'z) md_lib_scheme \<Rightarrow> rig_options \<Rightarrow> bytes \<Rightarrow> u16 \<Rightarrow> bytes option \<Rightarrow> md_setup_reply \<Rightarrow>
     (f32 \<Rightarrow> f32 \<Rightarrow> f32) \<Rightarrow> f32 \<Rightarrow> bytes option \<Rightarrow> f32 option \<Rightarrow> (unit, 'id rig) res" where
  "device_start L opts host port device_id reply mul measured user_id multiplier =
     (case md_setup host port device_id reply of
        (Ok _, sent) \<Rightarrow>
          map_res (\<lambda>m. rig_new L opts (sent @ [Md_OpenStandard m]))
            (md_open_channel_message mul measured user_id multiplier)
      | (Err e, _) \<Rightarrow> Err e
      | (Panic p, _) \<Rightarrow> Panic p)"

fun rig_step :: "('id, 'z) md_lib_scheme \<Rightarrow> rig_options \<Rightarrow> rig_event \<Rightarrow> 'id rig \<Rightarrow> 'id rig" where
  "rig_step L opts e r =
     (if \<not> rg_running r then r
      else
        case e of
          Incoming now msg \<Rightarrow> device_turn L now msg r
        | Spawn \<Rightarrow> spawn_turn (ro_workers opts) r
        | Turn i late batch \<Rightarrow> worker_turn L i late batch r
        | Submit \<Rightarrow> share_turn L (ro_single_submit opts) r)"

declare rig_step.simps [simp del]

fun rig_run :: "('id, 'z) md_lib_scheme \<Rightarrow> rig_options \<Rightarrow> rig_event list \<Rightarrow> 'id rig \<Rightarrow> 'id rig" where
  "rig_run L opts [] r = r"
| "rig_run L opts (e # es) r = rig_run L opts es (rig_step L opts e r)"

end
