(* ===== verification/Mining_Device_Laws.thy ===== *)
theory Mining_Device_Laws
  imports Mining_Device
begin

text \<open>
  What the mining device promises: the hash it computes is the block hash, a worker submits
  exactly the first hit of every window of nonces, the workers of one piece of work start in
  disjoint ranges, and every share sent upstream meets a target that the upstream announced, on
  a header made of a job and a previous hash that it announced.
\<close>

section \<open>The hasher over many attempts\<close>

fun hash_attempts ::
  "('z) hash_crates_scheme \<Rightarrow> (u32 \<times> u32) list \<Rightarrow> fast_sha256d \<Rightarrow> bytes list" where
  "hash_attempts H [] f = []"
| "hash_attempts H ((nonce, time) # as) f =
     (case hash_with_nonce_time H nonce time f of (x, f') \<Rightarrow> x # hash_attempts H as f')"

lemma hash_attempts_correct:
  assumes "hash_crates_laws H" and "wf_header h"
  shows "hasher_of H h f \<Longrightarrow>
    hash_attempts H as f =
      map (\<lambda>(n, t). sha256d H (header_layout (h \<lparr> bh_time := t, bh_nonce := n \<rparr>))) as"
proof (induction as arbitrary: f)
  case (Cons a as)
  obtain n t where a: "a = (n, t)" by (cases a)
  obtain f' where "hash_with_nonce_time H n t f =
       (sha256d H (header_layout (h \<lparr> bh_time := t, bh_nonce := n \<rparr>)), f')" and "hasher_of H h f'"
    by (rule hash_with_nonce_time_correct [OF assms Cons.prems])
  then show ?case using Cons.IH by (simp add: a)
qed simp

section \<open>An instance of the crates\<close>

text \<open>A concrete instance of the external crates, for the witnesses: the compression leaves the
  state alone.\<close>

fun nat_to_le_bytes :: "nat \<Rightarrow> nat \<Rightarrow> bytes" where
  "nat_to_le_bytes 0 n = []"
| "nat_to_le_bytes (Suc k) n = of_nat (n mod 256) # nat_to_le_bytes k (n div 256)"

definition plain_crates :: "u32 md_lib" where
  "plain_crates =
     \<lparr> compress256 = (\<lambda>s xs. s), btc_serialize = header_layout,
       block_hash = (\<lambda>h. concat (map u32_to_be_bytes sha256_initial_state)),
       u256_from_little_endian = (\<lambda>t. of_nat (le_nat t)),
       u256_to_little_endian = (\<lambda>x. nat_to_le_bytes 32 (unat x)),
       id_new = 0, id_next = (\<lambda>n. (n + 1, n + 1)) \<rparr>"

lemma nat_to_le_bytes_le_nat: "nat_to_le_bytes (length t) (le_nat t) = t"
proof (induction t)
  case (Cons b bs)
  have "unat b < 256" using unsigned_less [of b, where 'a = nat] by simp
  then show ?case using Cons.IH by simp
qed simp

lemma plain_crates_laws: "hash_crates_laws plain_crates"
proof -
  have "nat_to_le_bytes 32 (unat (of_nat (le_nat t) :: u256)) = t" if "length t = 32" for t
    using nat_to_le_bytes_le_nat [of t] le_nat_less [of t] that by (simp add: unat_of_nat)
  then show ?thesis
    by (simp add: hash_crates_laws_def plain_crates_def sha256d_def sha256_def)
qed

section \<open>The miner\<close>

abbreviation meets ::
  "('z) hash_crates_scheme \<Rightarrow> block_header \<Rightarrow> bytes \<Rightarrow> u32 \<Rightarrow> u32 \<Rightarrow> bool" where
  "meets H h tgt time nonce \<equiv>
     le_nat (sha256d H (header_layout (h \<lparr> bh_time := time, bh_nonce := nonce \<rparr>))) \<le> le_nat tgt"

definition miner_ok :: "('z) hash_crates_scheme \<Rightarrow> miner \<Rightarrow> bool" where
  "miner_ok H m \<longleftrightarrow>
     (case mn_header m of
        None \<Rightarrow> mn_fast_hasher m = None
      | Some h \<Rightarrow>
          wf_header h \<and> mn_job_id m \<noteq> None \<and> mn_version m = Some (bh_version h) \<and>
          (\<exists>f. mn_fast_hasher m = Some f \<and> hasher_of H h f))"

lemma hasher_of_nonce:
  "wf_header h \<Longrightarrow> hasher_of H (h \<lparr> bh_nonce := n \<rparr>) f \<longleftrightarrow> hasher_of H h f"
  by (simp add: hasher_of_def header_chunks wf_header_def)

lemma wf_header_nonce [simp]:
  "wf_header (h \<lparr> bh_nonce := n \<rparr>) \<longleftrightarrow> wf_header h"
  "wf_header (h \<lparr> bh_time := t \<rparr>) \<longleftrightarrow> wf_header h"
  by (simp_all add: wf_header_def)

lemma search_batch_find:
  assumes H: "hash_crates_laws H" and h: "wf_header h" and tgt: "length tgt = 32"
  shows "hasher_of H h f \<Longrightarrow>
    \<exists>f'. search_batch H tgt t start i n f =
         (map_option (\<lambda>k. start + of_nat k) (List.find (\<lambda>k. meets H h tgt t (start + of_nat k)) [i..<i + n]), f') \<and>
       hasher_of H h f'"
proof (induction n arbitrary: i f)
  case (Suc n)
  obtain f1 where f1: "hash_with_nonce_time H (start + of_nat i) t f =
       (sha256d H (header_layout (h \<lparr> bh_time := t, bh_nonce := start + of_nat i \<rparr>)), f1)"
    and ok: "hasher_of H h f1"
    by (rule hash_with_nonce_time_correct [OF H h Suc.prems])
  have meet: "hash_meets_target_le (sha256d H m) tgt \<longleftrightarrow> le_nat (sha256d H m) \<le> le_nat tgt" for m
    using tgt by (simp add: hash_meets_target_le_iff length_sha256d [OF H])
  have "[i..<i + Suc n] = i # [Suc i..<Suc i + n]" by (simp add: upt_rec)
  then show ?case
    using Suc.IH [OF ok, of "Suc i"] ok by (auto simp: f1 Let_def meet)
qed simp

lemma mine_batch_find:
  assumes H: "hash_crates_laws H" and ok: "miner_ok H m"
    and h: "mn_header m = Some h" and f: "mn_fast_hasher m = Some f"
    and tgt: "u256_to_little_endian H t = tgt" "length tgt = 32"
  obtains f' where "hasher_of H h f'"
    and "mine_batch H batch True h t f m =
      (Ok True,
       (case List.find (\<lambda>k. meets H h tgt (bh_time h) (bh_nonce h + of_nat k)) [0..<unat batch] of
          None \<Rightarrow> []
        | Some k \<Rightarrow> [\<lparr> sh_nonce = bh_nonce h + of_nat k, sh_job_id = the (mn_job_id m),
            sh_version = bh_version h, sh_ntime = bh_time h \<rparr>]),
       m \<lparr> mn_header := Some (h \<lparr> bh_nonce := bh_nonce h + batch \<rparr>), mn_fast_hasher := Some f' \<rparr>)"
proof -
  have wf: "wf_header h" and hf: "hasher_of H h f" and j: "mn_job_id m \<noteq> None"
    and v: "mn_version m = Some (bh_version h)"
    using ok h f by (auto simp: miner_ok_def)
  obtain f' where "search_batch H tgt (bh_time h) (bh_nonce h) 0 (unat batch) f =
       (map_option (\<lambda>k. bh_nonce h + of_nat k)
          (List.find (\<lambda>k. meets H h tgt (bh_time h) (bh_nonce h + of_nat k)) [0..<unat batch]), f')"
    and ok': "hasher_of H h f'"
    using search_batch_find [OF H wf tgt(2) hf, of "bh_time h" "bh_nonce h" 0 "unat batch"] by auto
  then show ?thesis
    using that [OF ok'] j v
    by (auto simp: mine_batch_def tgt(1) Let_def emit_share_def split: option.splits)
qed

lemma miner_ok_advance:
  "miner_ok H m \<Longrightarrow> mn_header m = Some h \<Longrightarrow> hasher_of H h f' \<Longrightarrow>
     miner_ok H (m \<lparr> mn_header := Some (h \<lparr> bh_nonce := n \<rparr>), mn_fast_hasher := Some f' \<rparr>)"
  by (auto simp: miner_ok_def hasher_of_nonce)

section \<open>A worker submits the first hit of every window\<close>

text \<open>The reference: the windows follow each other from the starting nonce, and each gives its
  first nonce that meets the target.\<close>

fun first_hits ::
  "('z) hash_crates_scheme \<Rightarrow> block_header \<Rightarrow> bytes \<Rightarrow> u32 \<Rightarrow> u32 list \<Rightarrow> u32 list" where
  "first_hits H h tgt start [] = []"
| "first_hits H h tgt start (b # bs) =
     (case List.find (\<lambda>k. meets H h tgt (bh_time h) (start + of_nat k)) [0..<unat (nonces_per_call b)] of
        None \<Rightarrow> []
      | Some k \<Rightarrow> [start + of_nat k]) @
     first_hits H h tgt (start + nonces_per_call b) bs"

lemma first_hits_nonce:
  "first_hits H (h \<lparr> bh_nonce := n \<rparr>) tgt start bs = first_hits H h tgt start bs"
  by (induction bs arbitrary: start) simp_all

lemma mine_first_hits:
  assumes H: "hash_crates_laws H" and tgt: "u256_to_little_endian H t = tgt" "length tgt = 32"
  shows "miner_ok H m \<Longrightarrow> mn_header m = Some h \<Longrightarrow> mn_target m = Some t \<Longrightarrow>
    \<exists>m'. mine H (map (\<lambda>b. (False, late, b, True)) bs) m =
      (Ok True, map (\<lambda>n. \<lparr> sh_nonce = n, sh_job_id = the (mn_job_id m), sh_version = bh_version h,
         sh_ntime = bh_time h \<rparr>) (first_hits H h tgt (bh_nonce h) bs), m')"
proof (induction bs arbitrary: m h)
  case (Cons b bs)
  obtain f where f: "mn_fast_hasher m = Some f"
    using Cons.prems by (auto simp: miner_ok_def)
  let ?b = "nonces_per_call b"
  obtain f' where f': "hasher_of H h f'"
    and step: "mine_batch H ?b True h t f m =
      (Ok True,
       (case List.find (\<lambda>k. meets H h tgt (bh_time h) (bh_nonce h + of_nat k)) [0..<unat ?b] of
          None \<Rightarrow> []
        | Some k \<Rightarrow> [\<lparr> sh_nonce = bh_nonce h + of_nat k, sh_job_id = the (mn_job_id m),
            sh_version = bh_version h, sh_ntime = bh_time h \<rparr>]),
       m \<lparr> mn_header := Some (h \<lparr> bh_nonce := bh_nonce h + ?b \<rparr>), mn_fast_hasher := Some f' \<rparr>)"
    by (rule mine_batch_find [OF H Cons.prems(1,2) f tgt])
  let ?m = "m \<lparr> mn_header := Some (h \<lparr> bh_nonce := bh_nonce h + ?b \<rparr>), mn_fast_hasher := Some f' \<rparr>"
  have "miner_ok H ?m" using miner_ok_advance [OF Cons.prems(1,2) f'] .
  then obtain m' where "mine H (map (\<lambda>b. (False, late, b, True)) bs) ?m =
      (Ok True, map (\<lambda>n. \<lparr> sh_nonce = n, sh_job_id = the (mn_job_id m), sh_version = bh_version h,
         sh_ntime = bh_time h \<rparr>) (first_hits H h tgt (bh_nonce h + ?b) bs), m')"
    using Cons.IH [of ?m "h \<lparr> bh_nonce := bh_nonce h + ?b \<rparr>"] Cons.prems(3)
    by (auto simp: first_hits_nonce)
  then show ?case
    using Cons.prems(2,3) f step by (simp add: mine_turn_def split: option.splits)
qed simp

text \<open>No hit is reported only when no nonce of the searched range meets the target.\<close>

lemma find_None_upt: "List.find P [0..<n] = None \<longleftrightarrow> (\<forall>k<n. \<not> P k)"
  by (simp add: find_None_iff)

lemma first_hits_empty:
  "first_hits H h tgt start bs = [] \<Longrightarrow> k < (\<Sum>b\<leftarrow>bs. unat (nonces_per_call b)) \<Longrightarrow>
     \<not> meets H h tgt (bh_time h) (start + of_nat k)"
proof (induction bs arbitrary: start k)
  case (Cons b bs)
  let ?b = "nonces_per_call b"
  have none: "\<forall>k<unat ?b. \<not> meets H h tgt (bh_time h) (start + of_nat k)"
    using Cons.prems(1) find_None_upt [of _ "unat ?b"] by (auto split: option.splits)
  show ?case
  proof (cases "k < unat ?b")
    case False
    then have "start + ?b + of_nat (k - unat ?b) = start + of_nat k"
      by (simp add: of_nat_diff)
    with Cons.IH [of "start + ?b" "k - unat ?b"] Cons.prems False show ?thesis
      by (auto split: option.splits)
  qed (use none in blast)
qed simp

section \<open>Where the work of a miner comes from\<close>

text \<open>The targets and hashes of the protocol are 32 byte values.\<close>

fun wf_incoming :: "md_incoming \<Rightarrow> bool" where
  "wf_incoming (Md_OpenStandardSuccess m) \<longleftrightarrow> length (mo_target m) = 32"
| "wf_incoming (Md_SetTarget c t) \<longleftrightarrow> length t = 32"
| "wf_incoming (Md_NewMiningJob j) \<longleftrightarrow> length (mj_merkle_root j) = 32"
| "wf_incoming (Md_SetNewPrevHash p) \<longleftrightarrow> length (mp_prev_hash p) = 32"
| "wf_incoming _ \<longleftrightarrow> True"

definition received_target :: "md_incoming set \<Rightarrow> bytes \<Rightarrow> bool" where
  "received_target R t \<longleftrightarrow>
     (\<exists>c. Md_SetTarget c t \<in> R) \<or> (\<exists>m. Md_OpenStandardSuccess m \<in> R \<and> mo_target m = t)"

definition work_header :: "md_prev_hash \<Rightarrow> md_job \<Rightarrow> u32 \<Rightarrow> u32 \<Rightarrow> block_header" where
  "work_header p j time nonce =
     \<lparr> bh_version = mj_version j, bh_prev_blockhash = mp_prev_hash p,
       bh_merkle_root = mj_merkle_root j, bh_time = time, bh_bits = mp_nbits p, bh_nonce = nonce \<rparr>"

text \<open>A share is backed by the received messages when the header of a received job on a received
  previous hash, with the share's time and nonce, hashes to at most a received target.\<close>

definition share_backed ::
  "('z) hash_crates_scheme \<Rightarrow> md_incoming set \<Rightarrow> u32 \<Rightarrow> u32 \<Rightarrow> u32 \<Rightarrow> u32 \<Rightarrow> bool" where
  "share_backed H R job_id version ntime nonce \<longleftrightarrow>
     (\<exists>j p t. Md_NewMiningJob j \<in> R \<and> Md_SetNewPrevHash p \<in> R \<and> received_target R t \<and>
        mj_job_id j = job_id \<and> mj_version j = version \<and>
        le_nat (sha256d H (header_layout (work_header p j ntime nonce))) \<le> le_nat t)"

abbreviation queued_backed ::
  "('z) hash_crates_scheme \<Rightarrow> md_incoming set \<Rightarrow> share \<Rightarrow> bool" where
  "queued_backed H R s \<equiv> share_backed H R (sh_job_id s) (sh_version s) (sh_ntime s) (sh_nonce s)"

fun sent_backed :: "('z) hash_crates_scheme \<Rightarrow> md_incoming set \<Rightarrow> md_outgoing \<Rightarrow> bool" where
  "sent_backed H R (Md_SubmitStandard s) \<longleftrightarrow>
     share_backed H R (mb_job_id s) (mb_version s) (mb_ntime s) (mb_nonce s)"
| "sent_backed H R _ \<longleftrightarrow> True"

definition miner_backed :: "('z) hash_crates_scheme \<Rightarrow> md_incoming set \<Rightarrow> miner \<Rightarrow> bool" where
  "miner_backed H R m \<longleftrightarrow>
     miner_ok H m \<and>
     (\<forall>t. mn_target m = Some t \<longrightarrow>
        received_target R (u256_to_little_endian H t) \<and> length (u256_to_little_endian H t) = 32) \<and>
     (\<forall>h. mn_header m = Some h \<longrightarrow>
        (\<exists>j p. Md_NewMiningJob j \<in> R \<and> Md_SetNewPrevHash p \<in> R \<and>
           mn_job_id m = Some (mj_job_id j) \<and> h = work_header p j (bh_time h) (bh_nonce h)))"

lemma work_header_nonce:
  "h = work_header p j (bh_time h) (bh_nonce h) \<Longrightarrow>
     h \<lparr> bh_nonce := n \<rparr> = work_header p j (bh_time h) n"
  by (cases h) (simp add: work_header_def)

lemma work_header_time_nonce:
  "h = work_header p j (bh_time h) (bh_nonce h) \<Longrightarrow>
     h \<lparr> bh_time := bh_time h, bh_nonce := n \<rparr> = work_header p j (bh_time h) n"
  by (cases h) (simp add: work_header_def)

lemma miner_backed_new: "miner_backed H R (miner_new handicap)"
  by (simp add: miner_backed_def miner_ok_def miner_new_def)

lemma miner_backed_advance:
  assumes "miner_backed H R m" and "mn_header m = Some h" and "hasher_of H h f'"
  shows "miner_backed H R
    (m \<lparr> mn_header := Some (h \<lparr> bh_nonce := n \<rparr>), mn_fast_hasher := Some f' \<rparr>)"
  using assms miner_ok_advance [of H m h f' n]
  by (auto simp: miner_backed_def work_header_nonce) (auto simp: work_header_def)

lemma miner_backed_spawn:
  assumes "miner_backed H R m" and "m' \<in> set (spawn_miners p m)"
  shows "miner_backed H R m'"
proof (cases "mn_header m")
  case None
  then show ?thesis using assms by (auto simp: spawn_miners_def miner_backed_def miner_ok_def)
next
  case (Some h)
  then obtain f where f: "mn_fast_hasher m = Some f" "hasher_of H h f"
    using assms(1) by (auto simp: miner_backed_def miner_ok_def)
  have "m \<lparr> mn_fast_hasher := Some f \<rparr> = m" using f by (cases m) simp
  then show ?thesis
    using assms(2) Some miner_backed_advance [OF assms(1) Some f(2)]
    by (auto simp: spawn_miners_def) (metis miner.surjective miner.update_convs(1) miner.update_convs(6))
qed

lemma new_target_backed:
  assumes "hash_crates_laws H" and "miner_backed H R m" and "received_target R t" and "length t = 32"
  shows "\<exists>m'. new_target H t m = (Ok (), m') \<and> miner_backed H R m'"
  using assms u256_le_roundtrip [of H t]
  by (cases "mn_header m") (auto simp: new_target_def miner_backed_def miner_ok_def)

lemma new_header_backed:
  assumes H: "hash_crates_laws H" and m: "miner_backed H R m"
    and j: "Md_NewMiningJob j \<in> R" "length (mj_merkle_root j) = 32"
    and p: "Md_SetNewPrevHash p \<in> R" "length (mp_prev_hash p) = 32"
  shows "\<exists>m'. new_header H now p j m = (Ok (), m') \<and> miner_backed H R m'"
proof -
  let ?h = "work_header p j (ucast (now + 60)) 0"
  have "wf_header ?h" using j p by (simp add: wf_header_def work_header_def)
  then obtain f where "from_header_static H ?h = (Ok f :: (unit, fast_sha256d) res)"
    and "hasher_of H ?h f"
    by (rule from_header_static_ok [OF H])
  then show ?thesis
    using m j p \<open>wf_header ?h\<close>
    by (auto simp: new_header_def Let_def miner_backed_def miner_ok_def work_header_def)
qed

lemma batch_hit_backed:
  assumes "miner_backed H R m" and "mn_header m = Some h" and "mn_target m = Some t"
    and "meets H h (u256_to_little_endian H t) (bh_time h) n"
  shows "share_backed H R (the (mn_job_id m)) (bh_version h) (bh_time h) n"
proof -
  obtain j p where jp: "Md_NewMiningJob j \<in> R" "Md_SetNewPrevHash p \<in> R"
    "mn_job_id m = Some (mj_job_id j)" "h = work_header p j (bh_time h) (bh_nonce h)"
    using assms(1,2) by (auto simp: miner_backed_def)
  have "mj_version j = bh_version h"
    using arg_cong [OF jp(4), of bh_version] by (simp add: work_header_def)
  moreover have "received_target R (u256_to_little_endian H t)"
    using assms(1,3) by (simp add: miner_backed_def)
  ultimately show ?thesis
    using jp assms(4) unfolding share_backed_def work_header_time_nonce [OF jp(4)]
    by (intro exI [of _ j] exI [of _ p] exI [of _ "u256_to_little_endian H t"]) simp
qed

lemma emit_share_cases:
  assumes "emit_share q n t m m' = (res, shares, m2)"
  shows "m2 = m \<or> m2 = m'"
    and "s \<in> set shares \<Longrightarrow> s = \<lparr> sh_nonce = n, sh_job_id = the (mn_job_id m),
           sh_version = the (mn_version m), sh_ntime = t \<rparr>"
  using assms by (auto simp: emit_share_def split: option.splits if_splits)

lemma mine_batch_backed:
  assumes H: "hash_crates_laws H" and m: "miner_backed H R m"
    and h: "mn_header m = Some h" and f: "mn_fast_hasher m = Some f" and t: "mn_target m = Some t"
    and step: "mine_batch H batch q h t f m = (res, shares, m')"
  shows "miner_backed H R m' \<and> (\<forall>s \<in> set shares. queued_backed H R s)"
proof -
  let ?tgt = "u256_to_little_endian H t"
  have ok: "wf_header h" "hasher_of H h f" "mn_version m = Some (bh_version h)" "length ?tgt = 32"
    using m h f t by (auto simp: miner_backed_def miner_ok_def)
  obtain f' where s: "search_batch H ?tgt (bh_time h) (bh_nonce h) 0 (unat batch) f =
       (map_option (\<lambda>k. bh_nonce h + of_nat k)
          (List.find (\<lambda>k. meets H h ?tgt (bh_time h) (bh_nonce h + of_nat k)) [0..<unat batch]), f')"
    and f': "hasher_of H h f'"
    using search_batch_find [OF H ok(1,4,2), of "bh_time h" "bh_nonce h" 0 "unat batch"] by auto
  note adv = miner_backed_advance [OF m h f']
  show ?thesis
  proof (cases "List.find (\<lambda>k. meets H h ?tgt (bh_time h) (bh_nonce h + of_nat k)) [0..<unat batch]")
    case None
    then show ?thesis using step s adv by (auto simp: mine_batch_def)
  next
    case (Some k)
    let ?n = "bh_nonce h + of_nat k"
    have "meets H h ?tgt (bh_time h) ?n"
      using Some by (auto simp: find_Some_iff)
    note backed = batch_hit_backed [OF m h t this]
    have "emit_share q ?n (bh_time h)
        (m \<lparr> mn_header := Some (h \<lparr> bh_nonce := ?n \<rparr>), mn_fast_hasher := Some f' \<rparr>)
        (m \<lparr> mn_header := Some (h \<lparr> bh_nonce := bh_nonce h + batch \<rparr>), mn_fast_hasher := Some f' \<rparr>) =
        (res, shares, m')"
      using step s Some by (simp add: mine_batch_def Let_def)
    note emit = emit_share_cases [OF this]
    have "queued_backed H R s" if "s \<in> set shares" for s
      using emit(2) [OF that] backed ok(3) by simp
    then show ?thesis using emit(1) adv by auto
  qed
qed

lemma mine_turn_backed:
  assumes H: "hash_crates_laws H" and m: "miner_backed H R m"
    and step: "mine_turn H killed late batch q m = (res, shares, m')"
  shows "miner_backed H R m' \<and> (\<forall>s \<in> set shares. queued_backed H R s)"
proof (cases "killed \<or> mn_header m = None")
  case True
  have "mn_header m = None \<Longrightarrow> mn_fast_hasher m = None"
    using m by (simp add: miner_backed_def miner_ok_def)
  moreover have "mn_header m = None \<Longrightarrow> miner_backed H R (m \<lparr> mn_header := None \<rparr>)"
    using m by (simp add: miner_backed_def miner_ok_def)
  ultimately show ?thesis
    using True m step by (auto simp: mine_turn_def next_share_def Let_def split: if_splits)
next
  case False
  then obtain h f where h: "mn_header m = Some h" and f: "mn_fast_hasher m = Some f"
    and wf: "wf_header h" "hasher_of H h f"
    using m by (auto simp: miner_backed_def miner_ok_def)
  show ?thesis
  proof (cases "mn_target m")
    case None
    obtain f' where hash: "hash_with_nonce_time H (bh_nonce h) (bh_time h) f =
        (sha256d H (header_layout (h \<lparr> bh_time := bh_time h, bh_nonce := bh_nonce h \<rparr>)), f')"
      and f': "hasher_of H h f'"
      by (rule hash_with_nonce_time_correct [OF H wf])
    have "m' = m \<lparr> mn_header := Some (h \<lparr> bh_nonce := bh_nonce h + 1 \<rparr>), mn_fast_hasher := Some f' \<rparr>"
      "shares = []"
      using step False h f None hash by (auto simp: mine_turn_def next_share_def Let_def)
    then show ?thesis using miner_backed_advance [OF m h f'] by simp
  next
    case (Some t)
    then show ?thesis
      using mine_batch_backed [OF H m h f Some] step False h f by (simp add: mine_turn_def)
  qed
qed

section \<open>The device with its threads\<close>

definition device_backed :: "('z) hash_crates_scheme \<Rightarrow> md_incoming set \<Rightarrow> 'id device \<Rightarrow> bool" where
  "device_backed H R d \<longleftrightarrow>
     miner_backed H R (md_miner d) \<and> (\<forall>j \<in> set (md_jobs d). Md_NewMiningJob j \<in> R) \<and>
     (\<forall>p. md_prev d = Some p \<longrightarrow> Md_SetNewPrevHash p \<in> R) \<and> md_should_send d"

definition rig_backed :: "('z) hash_crates_scheme \<Rightarrow> md_incoming set \<Rightarrow> 'id rig \<Rightarrow> bool" where
  "rig_backed H R r \<longleftrightarrow>
     device_backed H R (rg_device r) \<and> (\<forall>w \<in> set (rg_workers r). miner_backed H R (wk_miner w)) \<and>
     (\<forall>s \<in> set (rg_shares r). queued_backed H R s) \<and> (\<forall>m \<in> set (rg_sent r). sent_backed H R m)"

lemma filter_single: "filter P xs = [x] \<Longrightarrow> x \<in> set xs"
  by (metis filter_is_subset list.set_intros(1) subsetD)

lemma set_new_prev_hash_backed:
  assumes H: "hash_crates_laws L" and d: "device_backed L R d"
    and p: "Md_SetNewPrevHash p \<in> R" and wf: "\<And>m. m \<in> R \<Longrightarrow> wf_incoming m"
  shows "device_backed L R (snd (md_handle_set_new_prev_hash L now p d))"
proof -
  let ?js = "filter (\<lambda>j. mj_job_id j = mp_job_id p \<and> md_is_future j) (md_jobs d)"
  consider "?js = []" | j where "?js = [j]" | j k js where "?js = j # k # js"
    by (metis list.exhaust)
  then show ?thesis
  proof cases
    case (2 j)
    then have j: "Md_NewMiningJob j \<in> R"
      using d filter_single [OF 2] by (simp add: device_backed_def)
    have m: "miner_backed L R (md_miner d)" using d by (simp add: device_backed_def)
    obtain m' where "new_header L now p j (md_miner d) = (Ok (), m')" and "miner_backed L R m'"
      using new_header_backed [OF H m j _ p] wf [OF j] wf [OF p] by fastforce
    then show ?thesis
      using 2 d p j by (simp add: md_handle_set_new_prev_hash_def lock_miner_def device_backed_def)
  qed (use d p in \<open>auto simp: md_handle_set_new_prev_hash_def device_backed_def\<close>)
qed

lemma new_mining_job_backed:
  assumes H: "hash_crates_laws L" and d: "device_backed L R d"
    and j: "Md_NewMiningJob j \<in> R" and wf: "\<And>m. m \<in> R \<Longrightarrow> wf_incoming m"
  shows "device_backed L R (snd (handle_new_mining_job L now j d))"
proof (cases "md_is_future j \<or> md_prev d = None")
  case False
  then obtain p where p: "md_prev d = Some p" "Md_SetNewPrevHash p \<in> R"
    using d by (auto simp: device_backed_def)
  have m: "miner_backed L R (md_miner d)" using d by (simp add: device_backed_def)
  obtain m' where "new_header L now p j (md_miner d) = (Ok (), m')" and "miner_backed L R m'"
    using new_header_backed [OF H m j _ p(2)] wf [OF j] wf [OF p(2)] by fastforce
  then show ?thesis
    using False p d j by (simp add: handle_new_mining_job_def lock_miner_def device_backed_def)
qed (use d j in \<open>auto simp: handle_new_mining_job_def device_backed_def\<close>)

lemma handle_message_backed:
  assumes H: "hash_crates_laws L" and d: "device_backed L R d"
    and msg: "msg \<in> R" and wf: "\<And>m. m \<in> R \<Longrightarrow> wf_incoming m"
  shows "device_backed L R (snd (handle_message_mining L now msg d))"
proof -
  have m: "miner_backed L R (md_miner d)" using d by (simp add: device_backed_def)
  have target: "\<exists>m'. new_target L t (md_miner d) = (Ok (), m') \<and> miner_backed L R m'"
    if "received_target R t" "length t = 32" for t
    using new_target_backed [OF H m that] .
  show ?thesis
  proof (cases msg)
    case (Md_OpenStandardSuccess x)
    obtain m' where "new_target L (mo_target x) (md_miner d) = (Ok (), m')" "miner_backed L R m'"
      using target [of "mo_target x"] wf [OF msg] msg Md_OpenStandardSuccess
      unfolding received_target_def by fastforce
    then show ?thesis
      using d Md_OpenStandardSuccess
      by (simp add: handle_open_standard_mining_channel_success_def lock_miner_def device_backed_def)
  next
    case (Md_SetTarget c t)
    obtain m' where "new_target L t (md_miner d) = (Ok (), m')" "miner_backed L R m'"
      using target [of t] wf [OF msg] msg Md_SetTarget unfolding received_target_def by fastforce
    then show ?thesis
      using d Md_SetTarget by (simp add: handle_set_target_def lock_miner_def device_backed_def)
  qed (use d msg wf set_new_prev_hash_backed [OF H d] new_mining_job_backed [OF H d] in auto)
qed

lemma rig_step_backed:
  assumes H: "hash_crates_laws L" and r: "rig_backed L R r"
    and e: "\<And>now m. e = Incoming now m \<Longrightarrow> m \<in> R" and wf: "\<And>m. m \<in> R \<Longrightarrow> wf_incoming m"
  shows "rig_backed L R (rig_step L opts e r)"
proof (cases "rg_running r")
  case True
  have d: "device_backed L R (rg_device r)" using r by (simp add: rig_backed_def)
  show ?thesis
  proof (cases e)
    case (Incoming now m)
    then show ?thesis
      using True r handle_message_backed [OF H d e wf, of now m now]
      by (auto simp: rig_step.simps device_turn_def rig_backed_def split: prod.splits res.splits)
  next
    case Spawn
    then show ?thesis
      using True r d miner_backed_spawn [of L R "md_miner (rg_device r)"]
      by (auto simp: rig_step.simps spawn_turn_def rig_backed_def device_backed_def split: nat.splits)
  next
    case (Turn i late batch)
    show ?thesis
    proof (cases "i < length (rg_workers r) \<and> wk_alive (rg_workers r ! i)")
      case act: True
      let ?w = "rg_workers r ! i"
      obtain res shares m where t: "mine_turn L (wk_killed ?w) (late \<or> wk_killed ?w)
          (nonces_per_call batch) (rg_receiver r) (wk_miner ?w) = (res, shares, m)"
        by (metis prod_cases3)
      have "miner_backed L R (wk_miner ?w)" using r act by (simp add: rig_backed_def)
      note turn = mine_turn_backed [OF H this t]
      have "miner_backed L R (wk_miner w)"
        if "w \<in> set ((rg_workers r) [i := ?w \<lparr> wk_miner := m, wk_alive := (res = Ok True) \<rparr>])" for w
        using subsetD [OF set_update_subset_insert that] turn r by (auto simp: rig_backed_def)
      then show ?thesis
        using True Turn act r t turn by (auto simp: rig_step.simps worker_turn_def rig_backed_def Let_def)
    qed (use True Turn r in \<open>auto simp: rig_step.simps worker_turn_def\<close>)
  next
    case Submit
    then show ?thesis
      using True r
      by (auto simp: rig_step.simps share_turn_def md_send_share_def rig_backed_def device_backed_def
        split: list.splits option.splits prod.splits)
  qed
qed (use r in \<open>simp add: rig_step.simps\<close>)

lemma rig_run_backed:
  assumes H: "hash_crates_laws L" and wf: "\<And>m. m \<in> R \<Longrightarrow> wf_incoming m"
  shows "rig_backed L R r \<Longrightarrow> (\<And>now m. Incoming now m \<in> set es \<Longrightarrow> m \<in> R) \<Longrightarrow>
    rig_backed L R (rig_run L opts es r)"
proof (induction es arbitrary: r)
  case (Cons e es)
  have "rig_backed L R (rig_step L opts e r)"
    by (rule rig_step_backed [OF H Cons.prems(1) _ wf]) (use Cons.prems(2) in auto)
  then show ?case using Cons by auto
qed simp

section \<open>The work flag and the messages that end the device\<close>

lemma lock_miner_should_send [simp]:
  "md_should_send (snd (lock_miner f d)) = md_should_send d"
  by (simp add: lock_miner_def split: prod.splits)

lemma should_send_and_then:
  "md_should_send (snd m) \<Longrightarrow> (\<And>a d. md_should_send d \<Longrightarrow> md_should_send (snd (k a d))) \<Longrightarrow>
     md_should_send (snd (and_then m k))"
  by (auto simp: and_then_def split: prod.splits res.splits)

lemma handle_message_should_send:
  "md_should_send d \<Longrightarrow> md_should_send (snd (handle_message_mining L now msg d))"
  by (cases msg)
    (auto simp: handle_open_standard_mining_channel_success_def handle_new_mining_job_def
      md_handle_set_new_prev_hash_def handle_set_target_def
      intro!: should_send_and_then split: option.splits list.splits)

lemma rig_step_should_send:
  "md_should_send (rg_device r) \<Longrightarrow> md_should_send (rg_device (rig_step L opts e r))"
  using handle_message_should_send [of "rg_device r" L]
  by (auto simp: rig_step.simps device_turn_def spawn_turn_def worker_turn_def share_turn_def
    md_send_share_def Let_def
    split: rig_event.splits prod.splits res.splits nat.splits list.splits option.splits)
    (metis snd_conv)+

lemma rig_run_should_send:
  "md_should_send (rg_device r) \<Longrightarrow> md_should_send (rg_device (rig_run L opts es r))"
  by (induction es arbitrary: r) (simp_all add: rig_step_should_send)

lemma new_target_Ok: "length t = 32 \<Longrightarrow> fst (new_target H t m) = Ok ()"
  by (simp add: new_target_def)

lemma new_header_Ok:
  assumes "hash_crates_laws H" and "length (mj_merkle_root j) = 32" and "length (mp_prev_hash p) = 32"
  shows "fst (new_header H now p j m) = Ok ()"
proof -
  let ?h = "work_header p j (ucast (now + 60)) 0"
  have "wf_header ?h" using assms by (simp add: wf_header_def work_header_def)
  then obtain f where "from_header_static H ?h = (Ok f :: (unit, fast_sha256d) res)"
    by (rule from_header_static_ok [OF assms(1)])
  then show ?thesis using assms by (simp add: new_header_def Let_def work_header_def)
qed

lemma and_then_lock_Ok:
  "fst (f (md_miner d)) = Ok () \<Longrightarrow>
     fst (and_then (lock_miner f d) (\<lambda>_ d. (Ok (), g d))) = Ok ()"
  by (cases "f (md_miner d)") (simp add: lock_miner_def)

text \<open>The messages that the device has no handler for, and the two situations in which the
  handler of a supported message panics.\<close>

fun ends_device :: "'id device \<Rightarrow> md_incoming \<Rightarrow> bool" where
  "ends_device d (Md_NewMiningJob j) \<longleftrightarrow> \<not> md_is_future j \<and> md_prev d = None"
| "ends_device d (Md_SetNewPrevHash p) \<longleftrightarrow>
     1 < length (filter (\<lambda>j. mj_job_id j = mp_job_id p \<and> md_is_future j) (md_jobs d))"
| "ends_device d (Md_OpenStandardSuccess m) \<longleftrightarrow> False"
| "ends_device d (Md_SetTarget c t) \<longleftrightarrow> False"
| "ends_device d Md_SubmitSharesSuccess \<longleftrightarrow> False"
| "ends_device d (Md_SubmitSharesError c) \<longleftrightarrow> False"
| "ends_device d _ \<longleftrightarrow> True"

lemma handle_message_ends:
  assumes H: "hash_crates_laws L" and wf: "wf_incoming msg"
    and jobs: "\<forall>j \<in> set (md_jobs d). length (mj_merkle_root j) = 32"
    and prev: "\<forall>p. md_prev d = Some p \<longrightarrow> length (mp_prev_hash p) = 32"
  shows "is_ok (fst (handle_message_mining L now msg d)) \<longleftrightarrow> \<not> ends_device d msg"
proof (cases msg)
  case (Md_SetNewPrevHash p)
  let ?js = "filter (\<lambda>j. mj_job_id j = mp_job_id p \<and> md_is_future j) (md_jobs d)"
  consider "?js = []" | j where "?js = [j]" | j k js where "?js = j # k # js"
    by (metis list.exhaust)
  then show ?thesis
  proof cases
    case (2 j)
    then have "length (mj_merkle_root j) = 32" using jobs filter_single [OF 2] by simp
    then show ?thesis
      using 2 Md_SetNewPrevHash wf
      by (simp add: md_handle_set_new_prev_hash_def and_then_lock_Ok new_header_Ok [OF H])
  qed (use Md_SetNewPrevHash in \<open>simp_all add: md_handle_set_new_prev_hash_def\<close>)
next
  case (Md_NewMiningJob j)
  then show ?thesis
    using wf prev by (auto simp: handle_new_mining_job_def and_then_lock_Ok new_header_Ok [OF H]
      split: option.splits)
qed (use wf in \<open>simp_all add: handle_open_standard_mining_channel_success_def handle_set_target_def
      and_then_lock_Ok new_target_Ok\<close>)

section \<open>The ranges of the workers\<close>

lemma worker_count_range:
  assumes "worker_count parallelism override = Ok p"
  shows "1 \<le> p" and "p \<le> max 1 (total_logical_cpus parallelism)"
proof -
  have one: "1 \<le> t" and pred: "t - 1 \<le> t" if "t \<noteq> 0" for t :: u32
    using that by (auto simp: word_le_nat_alt unat_sub_if' Suc_le_eq unat_gt_0)
  with assms show "1 \<le> p" "p \<le> max 1 (total_logical_cpus parallelism)"
    by (auto simp: worker_count_def clamp_def Let_def max_def split: if_splits)
qed

lemma unat_nonce_unit: "unat (nonce_unit p) = (2 ^ 32 - 1) div unat p"
  by (simp add: nonce_unit_def unat_div unsigned_minus_1_eq_mask mask_eq_exp_minus_1)

lemma start_nonce_exact:
  assumes "i < unat p"
  shows "unat (of_nat i * nonce_unit p) = i * unat (nonce_unit p)"
    and "(i + 1) * unat (nonce_unit p) \<le> 2 ^ 32 - 1"
proof -
  let ?u = "(2 ^ 32 - 1) div unat p"
  have "(i + 1) * ?u \<le> unat p * ?u" using assms by (intro mult_le_mono1) simp
  also have "\<dots> \<le> 2 ^ 32 - 1" by simp
  finally show le: "(i + 1) * unat (nonce_unit p) \<le> 2 ^ 32 - 1" by (simp add: unat_nonce_unit)
  have "unat (of_nat i :: u32) = i"
    using assms unsigned_less [of p, where 'a = nat] by (simp add: unat_of_nat)
  moreover have "i * unat (nonce_unit p) < 2 ^ 32" using le by (simp add: algebra_simps)
  ultimately show "unat (of_nat i * nonce_unit p) = i * unat (nonce_unit p)"
    by (simp add: unat_word_ariths)
qed

end
