(* ===== verification/Mining_Rig.thy ===== *)
theory Mining_Rig
  imports Mining_Device_Laws
begin

text \<open>
  The properties of the mining device, with a run of the whole device (messages of the upstream,
  the start of the threads, a turn of a worker, the submission) on which they are exercised.
\<close>

section \<open>A run\<close>

definition rig_job :: md_job where
  "rig_job = \<lparr> mj_channel_id = 1, mj_job_id = 7, mj_min_ntime = None, mj_version = 0x20000000,
     mj_merkle_root = replicate 32 3 \<rparr>"

definition rig_prev :: md_prev_hash where
  "rig_prev = \<lparr> mp_channel_id = 1, mp_job_id = 7, mp_prev_hash = replicate 32 5, mp_min_ntime = 9,
     mp_nbits = 0x1d00ffff \<rparr>"

definition rig_open :: md_open_success where
  "rig_open = \<lparr> mo_request_id = 10, mo_channel_id = 1, mo_target = replicate 32 0xFF,
     mo_group_channel_id = 2 \<rparr>"

definition rig_header :: block_header where
  "rig_header = work_header rig_prev rig_job 1000 0"

definition rig_opts :: rig_options where
  "rig_opts = \<lparr> ro_handicap = 0, ro_workers = 3, ro_single_submit = False \<rparr>"

definition rig_events :: "rig_event list" where
  "rig_events =
     [Incoming 940 (Md_OpenStandardSuccess rig_open), Incoming 940 (Md_NewMiningJob rig_job),
      Incoming 940 (Md_SetNewPrevHash rig_prev), Spawn, Turn 1 False 2, Submit]"

definition rig_miner :: miner where
  "rig_miner =
     \<lparr> mn_header = Some rig_header, mn_target = Some (of_nat (le_nat (replicate 32 0xFF))),
       mn_job_id = Some 7, mn_version = Some 0x20000000, mn_handicap = 0,
       mn_fast_hasher = (case (from_header_static plain_crates rig_header :: (unit, fast_sha256d) res) of Ok f \<Rightarrow> Some f
         | Err e \<Rightarrow> None | Panic p \<Rightarrow> None) \<rparr>"

lemma wf_rig_header: "wf_header rig_header"
  by (simp add: wf_header_def rig_header_def work_header_def rig_prev_def rig_job_def)

lemma rig_target:
  "u256_to_little_endian plain_crates (of_nat (le_nat (replicate 32 0xFF))) = replicate 32 0xFF"
  using u256_le_roundtrip [OF plain_crates_laws, of "replicate 32 0xFF"]
  by (simp add: plain_crates_def)

lemma rig_miner_header: "mn_header rig_miner = Some rig_header"
  by (simp add: rig_miner_def)

lemma rig_miner_ok: "miner_ok plain_crates rig_miner"
proof -
  obtain f where "from_header_static plain_crates rig_header = (Ok f :: (unit, fast_sha256d) res)"
    and "hasher_of plain_crates rig_header f"
    by (rule from_header_static_ok [OF plain_crates_laws wf_rig_header])
  then show ?thesis
    using wf_rig_header
    by (simp add: miner_ok_def rig_miner_def rig_header_def work_header_def rig_job_def)
qed

section \<open>Properties\<close>

text \<open>
  The precomputed midstate hashes like the standard: for every well-formed header, \<open>FastSha256d\<close>
  is built without a panic, and any sequence of calls of \<open>hash_with_nonce_time\<close> on it, which
  reuse its two blocks, gives for every attempt the double SHA-256 of the header in consensus layout with that
  attempt's time and nonce.
\<close>

theorem fast_hash_is_double_sha256:
  assumes "hash_crates_laws H" and "wf_header h"
  shows "\<exists>f. from_header_static H h = (Ok f :: (unit, fast_sha256d) res) \<and>
    (\<forall>attempts. hash_attempts H attempts f =
       map (\<lambda>(nonce, time). sha256d H (header_layout (h \<lparr> bh_time := time, bh_nonce := nonce \<rparr>))) attempts)"
proof -
  obtain f where "from_header_static H h = (Ok f :: (unit, fast_sha256d) res)" and "hasher_of H h f"
    by (rule from_header_static_ok [OF assms])
  then show ?thesis using hash_attempts_correct [OF assms] by blast
qed

theorem fast_hash_is_double_sha256_witness:
  "\<exists>f. from_header_static plain_crates rig_header = (Ok f :: (unit, fast_sha256d) res) \<and>
    (\<forall>attempts. hash_attempts plain_crates attempts f =
       map (\<lambda>(nonce, time). sha256d plain_crates
         (header_layout (rig_header \<lparr> bh_time := time, bh_nonce := nonce \<rparr>))) attempts)"
  by (rule fast_hash_is_double_sha256 [OF plain_crates_laws wf_rig_header])

text \<open>
  \<open>next_share\<close> decides the proof of work exactly: on a miner that holds a header and a target, the
  word-by-word comparison of the fast hash calls the share valid if and only if the block hash of
  the header, read as a little-endian number, is at most the target.
\<close>

theorem next_share_decides_block_hash:
  assumes "hash_crates_laws H" and "miner_ok H m"
    and "mn_header m = Some h" and "mn_target m = Some t"
    and "length (u256_to_little_endian H t) = 32"
  shows "fst (next_share H m) =
    (if le_nat (block_hash H h) \<le> le_nat (u256_to_little_endian H t) then ValidShare else InvalidShare)"
proof -
  obtain f where f: "mn_fast_hasher m = Some f" "hasher_of H h f" and wf: "wf_header h"
    using assms(2,3) by (auto simp: miner_ok_def)
  obtain f' where "hash_with_nonce_time H (bh_nonce h) (bh_time h) f =
       (sha256d H (header_layout (h \<lparr> bh_time := bh_time h, bh_nonce := bh_nonce h \<rparr>)), f')"
    by (rule hash_with_nonce_time_correct [OF assms(1) wf f(2)])
  then show ?thesis
    using assms(3-5) f(1) hash_meets_target_le_iff [OF length_sha256d [OF assms(1)] assms(5)]
    by (simp add: next_share_def block_hash_sha256d [OF assms(1) wf])
qed

theorem next_share_decides_block_hash_witness:
  "fst (next_share plain_crates rig_miner) =
    (if le_nat (block_hash plain_crates rig_header) \<le> le_nat (replicate 32 0xFF)
     then ValidShare else InvalidShare)"
  using next_share_decides_block_hash [OF plain_crates_laws rig_miner_ok, of rig_header] rig_target
  by (simp add: rig_miner_def)

text \<open>
  A worker submits exactly the first hit of every batch: run without being stopped, the thread started
  on a header sends the shares of the reference search over consecutive windows, wrapping around
  at 32 bits, with the job, version and time of its header; and when it sent none, no nonce of
  the range it went through meets the target.
\<close>

theorem worker_submits_first_hits:
  assumes "hash_crates_laws H" and "miner_ok H m"
    and "mn_header m = Some h" and "mn_target m = Some t"
    and "u256_to_little_endian H t = tgt" and "length tgt = 32"
    and "mine H (map (\<lambda>b. (False, late, b, True)) batches) m = (res, shares, m')"
  shows "res = Ok True \<and>
    shares = map (\<lambda>n. \<lparr> sh_nonce = n, sh_job_id = the (mn_job_id m), sh_version = bh_version h,
       sh_ntime = bh_time h \<rparr>) (first_hits H h tgt (bh_nonce h) batches) \<and>
    (shares = [] \<longrightarrow>
      (\<forall>k < (\<Sum>b\<leftarrow>batches. unat (nonces_per_call b)).
         \<not> le_nat (sha256d H (header_layout (h \<lparr> bh_nonce := bh_nonce h + of_nat k \<rparr>))) \<le> le_nat tgt))"
  using mine_first_hits [OF assms(1,5,6,2,3,4), of late batches] assms(7)
    first_hits_empty [of H h tgt "bh_nonce h" batches] by auto

theorem worker_submits_first_hits_witness:
  "(case mine plain_crates (map (\<lambda>b. (False, False, b, True)) [2, 2]) rig_miner of
      (res, shares, m') \<Rightarrow>
        res = Ok True \<and>
        shares = map (\<lambda>n. \<lparr> sh_nonce = n, sh_job_id = 7, sh_version = 0x20000000, sh_ntime = 1000 \<rparr>)
          (first_hits plain_crates rig_header (replicate 32 0xFF) 0 [2, 2]))"
proof -
  obtain res shares m' where run:
    "mine plain_crates (map (\<lambda>b. (False, False, b, True)) [2, 2]) rig_miner = (res, shares, m')"
    by (metis prod_cases3)
  show ?thesis
    using worker_submits_first_hits [OF plain_crates_laws rig_miner_ok _ _ rig_target _ run, of rig_header] run
    by (simp add: rig_miner_def rig_header_def work_header_def rig_job_def rig_prev_def)
qed

text \<open>
  The workers of one piece of work get disjoint ranges: whatever the number of processors and the
  override, there are between one and all processors of them (one if none is reported), worker
  \<open>i\<close> starts at \<open>i\<close> times the unit without overflow, and its unit of nonces ends before
  the next worker's start and within 32 bits.
\<close>

theorem worker_ranges_disjoint:
  assumes "worker_count parallelism override = (Ok p :: (unit, u32) res)"
    and "mn_header m = Some h" and "i < unat p"
  shows "length (spawn_miners p m) = unat p \<and> 1 \<le> p \<and> p \<le> max 1 (total_logical_cpus parallelism) \<and>
    (\<exists>n. mn_header (spawn_miners p m ! i) = Some (h \<lparr> bh_nonce := n \<rparr>) \<and>
       unat n = i * ((2 ^ 32 - 1) div unat p) \<and>
       unat n + (2 ^ 32 - 1) div unat p \<le> (i + 1) * ((2 ^ 32 - 1) div unat p) \<and>
       unat n + (2 ^ 32 - 1) div unat p < 2 ^ 32)"
proof -
  note exact = start_nonce_exact [OF assms(3), unfolded unat_nonce_unit]
  have "(i + 1) * ((2 ^ 32 - 1) div unat p) =
      unat (of_nat i * nonce_unit p) + (2 ^ 32 - 1) div unat p"
    unfolding exact(1) by simp
  with exact show ?thesis
    using worker_count_range [OF assms(1)] assms(2,3)
    by (intro conjI exI [of _ "of_nat i * nonce_unit p"]) (simp_all add: spawn_miners_def)
qed

theorem worker_ranges_disjoint_witness:
  "length (spawn_miners 3 rig_miner) = 3 \<and>
   (\<exists>n. mn_header (spawn_miners 3 rig_miner ! 2) = Some (rig_header \<lparr> bh_nonce := n \<rparr>) \<and>
      unat n = 2 * 1431655765)"
proof -
  have w: "worker_count (Some 4) 0 = (Ok 3 :: (unit, u32) res)"
    by (simp add: worker_count_def total_logical_cpus_def)
  show ?thesis
    using worker_ranges_disjoint [OF w rig_miner_header, of 2] by auto
qed

text \<open>
  C31. Every share the device sends upstream is good: in any interleaving of upstream messages, thread
  starts, turns of the workers and submissions, a submitted share names a job that the upstream
  sent, and the header of that job on a previous hash that the upstream sent, with the share's
  version, time and nonce, has a double SHA-256 of at most a target that the upstream sent.
\<close>

theorem submitted_shares_meet_target:
  assumes "hash_crates_laws L"
    and "\<forall>now m. Incoming now m \<in> set es \<longrightarrow> wf_incoming m"
    and "Md_SubmitStandard s \<in> set (rg_sent (rig_run L opts es (rig_new L opts [])))"
  shows "share_backed L {m. \<exists>now. Incoming now m \<in> set es}
    (mb_job_id s) (mb_version s) (mb_ntime s) (mb_nonce s)"
proof -
  let ?R = "{m. \<exists>now. Incoming now m \<in> set es}"
  have "rig_backed L ?R (rig_new L opts [])"
    by (simp add: rig_backed_def device_backed_def rig_new_def device_new_def miner_backed_new)
  then have "rig_backed L ?R (rig_run L opts es (rig_new L opts []))"
    by (rule rig_run_backed [OF assms(1), rotated]) (use assms(2) in auto)
  then show ?thesis using assms(3) by (auto simp: rig_backed_def)
qed

lemma le_nat_ones: "Suc (le_nat (replicate n 0xFF)) = 256 ^ n"
  by (induction n) simp_all

lemma any_hash_meets: "meets plain_crates h (replicate 32 0xFF) t n"
  using le_nat_less [of "sha256d plain_crates (header_layout (h \<lparr> bh_time := t, bh_nonce := n \<rparr>))"]
    length_sha256d [OF plain_crates_laws]
  unfolding less_Suc_eq_le [symmetric] le_nat_ones by (simp only:)

lemma rig_turn:
  "\<exists>m'. mine_turn plain_crates False late 2 True (rig_miner \<lparr> mn_header := Some (rig_header \<lparr> bh_nonce := n \<rparr>) \<rparr>) =
     (Ok True, [\<lparr> sh_nonce = n, sh_job_id = 7, sh_version = 0x20000000, sh_ntime = 1000 \<rparr>], m')"
proof -
  let ?h = "rig_header \<lparr> bh_nonce := n \<rparr>"
  let ?m = "rig_miner \<lparr> mn_header := Some ?h \<rparr>"
  obtain f where f: "mn_fast_hasher ?m = Some f" and "hasher_of plain_crates rig_header f"
    using rig_miner_ok by (auto simp: miner_ok_def rig_miner_header)
  then have ok: "miner_ok plain_crates ?m"
    using rig_miner_ok by (auto simp: miner_ok_def rig_miner_header hasher_of_nonce)
  have hd: "mn_header ?m = Some ?h" and l: "length (replicate 32 (0xFF :: u8)) = 32" by simp_all
  obtain f' where "mine_batch plain_crates 2 True ?h (of_nat (le_nat (replicate 32 0xFF))) f ?m =
      (Ok True,
       (case List.find (\<lambda>k. meets plain_crates ?h (replicate 32 0xFF) (bh_time ?h) (bh_nonce ?h + of_nat k))
             [0..<unat (2::u32)] of
          None \<Rightarrow> []
        | Some k \<Rightarrow> [\<lparr> sh_nonce = bh_nonce ?h + of_nat k, sh_job_id = the (mn_job_id ?m),
            sh_version = bh_version ?h, sh_ntime = bh_time ?h \<rparr>]),
       ?m \<lparr> mn_header := Some (?h \<lparr> bh_nonce := bh_nonce ?h + 2 \<rparr>), mn_fast_hasher := Some f' \<rparr>)"
    by (rule mine_batch_find [OF plain_crates_laws ok hd f rig_target l, where batch = 2])
  then show ?thesis
    using f unfolding eqTrueI [OF any_hash_meets]
    by (simp add: mine_turn_def rig_miner_def rig_header_def work_header_def rig_job_def upt_rec)
qed

definition rig_ready :: "u32 rig" where
  "rig_ready = \<lparr> rg_device = \<lparr> md_channel_opened = True, md_channel_id = Some 1, md_miner = rig_miner,
       md_jobs = [rig_job], md_prev = Some rig_prev, md_sequence_numbers = 0, md_should_send = True \<rparr>,
     rg_running = True, rg_notices = 2, rg_workers = [], rg_shares = [], rg_receiver = True, rg_sent = [] \<rparr>"

lemma rig_run_ready:
  "rig_run plain_crates rig_opts
     [Incoming 940 (Md_OpenStandardSuccess rig_open), Incoming 940 (Md_NewMiningJob rig_job),
      Incoming 940 (Md_SetNewPrevHash rig_prev)] (rig_new plain_crates rig_opts []) = rig_ready"
proof -
  obtain f where f: "from_header_static plain_crates rig_header = (Ok f :: (unit, fast_sha256d) res)"
    by (rule from_header_static_ok [OF plain_crates_laws wf_rig_header])
  have "new_header plain_crates 940 rig_prev rig_job
      (miner_new 0 \<lparr> mn_target := Some (of_nat (le_nat (replicate 32 0xFF))) \<rparr>) = (Ok (), rig_miner)"
    using f by (simp add: new_header_def Let_def rig_miner_def miner_new_def rig_header_def
      work_header_def rig_prev_def rig_job_def)
  moreover have "new_target plain_crates (mo_target rig_open) (miner_new 0) =
      (Ok (), miner_new 0 \<lparr> mn_target := Some (of_nat (le_nat (replicate 32 0xFF))) \<rparr>)"
    by (simp add: new_target_def rig_open_def plain_crates_def)
  moreover have "md_is_future rig_job" "mj_job_id rig_job = mp_job_id rig_prev"
    "mo_channel_id rig_open = 1" "ro_handicap rig_opts = 0" "id_new plain_crates = 0"
    by (simp_all add: md_is_future_def rig_job_def rig_prev_def rig_open_def rig_opts_def plain_crates_def)
  ultimately show ?thesis
    by (simp add: rig_step.simps rig_new_def device_new_def device_turn_def lock_miner_def rig_ready_def
      handle_open_standard_mining_channel_success_def handle_new_mining_job_def
      md_handle_set_new_prev_hash_def)
qed

lemma rig_run_sent:
  "rg_sent (rig_run plain_crates rig_opts rig_events (rig_new plain_crates rig_opts [])) =
     [Md_SubmitStandard \<lparr> mb_channel_id = 1, mb_sequence_number = 1, mb_job_id = 7,
        mb_nonce = 1431655765, mb_ntime = 1000, mb_version = 0x20000000 \<rparr>]"
proof -
  have "rig_run plain_crates rig_opts rig_events (rig_new plain_crates rig_opts []) =
      rig_run plain_crates rig_opts [Spawn, Turn 1 False 2, Submit] rig_ready"
    using rig_run_ready by (simp add: rig_events_def)
  moreover have "spawn_miners 3 rig_miner ! 1 =
      rig_miner \<lparr> mn_header := Some (rig_header \<lparr> bh_nonce := 1431655765 \<rparr>) \<rparr>"
    "length (spawn_miners 3 rig_miner) = 3"
    by (simp_all add: spawn_miners_def nonce_unit_def rig_miner_header)
  ultimately show ?thesis
    using rig_turn [of False 1431655765]
    by (auto simp: rig_ready_def rig_step.simps spawn_turn_def worker_turn_def share_turn_def
      md_send_share_def rig_opts_def nonces_per_call_def plain_crates_def)
qed

theorem submitted_shares_meet_target_witness:
  "share_backed plain_crates {m. \<exists>now. Incoming now m \<in> set rig_events}
     7 0x20000000 1000 1431655765"
proof -
  have "\<forall>now m. Incoming now m \<in> set rig_events \<longrightarrow> wf_incoming m"
    by (auto simp: rig_events_def rig_open_def rig_job_def rig_prev_def)
  from submitted_shares_meet_target [OF plain_crates_laws this, of
      "\<lparr> mb_channel_id = 1, mb_sequence_number = 1, mb_job_id = 7, mb_nonce = 1431655765,
        mb_ntime = 1000, mb_version = 0x20000000 \<rparr>" rig_opts]
  show ?thesis by (simp add: rig_run_sent)
qed

text \<open>
  The device stops in exactly these situations: a message it has no handler for (an extended
  channel or job, a refused or closed channel, a new extranonce prefix, an update error, a custom
  job reply, a group channel), a job to be mined at once before any previous hash, and a previous
  hash for an identifier that two waiting future jobs share. Every other message is taken.
\<close>

theorem device_stops_exactly:
  assumes "hash_crates_laws L"
    and "\<forall>now m. Incoming now m \<in> set es \<longrightarrow> wf_incoming m" and "wf_incoming msg"
    and "r = rig_run L opts es (rig_new L opts [])" and "rg_running r"
  shows "rg_running (rig_step L opts (Incoming now msg) r) \<longleftrightarrow> \<not> ends_device (rg_device r) msg"
proof -
  let ?R = "{m. \<exists>now. Incoming now m \<in> set es}"
  have "rig_backed L ?R (rig_new L opts [])"
    by (simp add: rig_backed_def device_backed_def rig_new_def device_new_def miner_backed_new)
  then have "rig_backed L ?R r" unfolding assms(4)
    by (rule rig_run_backed [OF assms(1), rotated]) (use assms(2) in auto)
  then have d: "device_backed L ?R (rg_device r)" by (simp add: rig_backed_def)
  have "wf_incoming (Md_NewMiningJob j)" if "j \<in> set (md_jobs (rg_device r))" for j
    using d that assms(2) by (fastforce simp: device_backed_def)
  moreover have "wf_incoming (Md_SetNewPrevHash p)" if "md_prev (rg_device r) = Some p" for p
    using d that assms(2) by (fastforce simp: device_backed_def)
  ultimately have "is_ok (fst (handle_message_mining L now msg (rg_device r))) \<longleftrightarrow>
      \<not> ends_device (rg_device r) msg"
    by (intro handle_message_ends [OF assms(1,3)]) auto
  then show ?thesis
    using assms(5) by (auto simp: rig_step.simps device_turn_def split: prod.splits res.splits)
qed

theorem device_stops_exactly_witness:
  "\<not> rg_running (rig_step plain_crates rig_opts
     (Incoming 1 (Md_NewMiningJob (rig_job \<lparr> mj_min_ntime := Some 3 \<rparr>)))
     (rig_run plain_crates rig_opts [] (rig_new plain_crates rig_opts [])))"
  using device_stops_exactly [OF plain_crates_laws, of "[]" "Md_NewMiningJob (rig_job \<lparr> mj_min_ntime := Some 3 \<rparr>)",
      OF _ _ refl, of rig_opts 1]
  by (simp add: rig_job_def rig_new_def device_new_def md_is_future_def)

text \<open>
  The device restarts its workers on unchanged work: the flag that is meant to be reset after a
  notification is reset on a copy, so it stays set in every state, and a future job, which leaves
  the miner alone, is notified like new work; the threads are killed and replaced by threads that
  start again on the same header at the same nonces.
\<close>

theorem future_job_restarts_same_work:
  assumes "r = rig_run L opts es (rig_new L opts [])" and "rg_running r" and "md_is_future j"
    and "r1 = rig_step L opts (Incoming now (Md_NewMiningJob j)) r"
  shows "md_should_send (rg_device r) \<and> rg_notices r1 = Suc (rg_notices r) \<and>
    md_miner (rg_device r1) = md_miner (rg_device r) \<and>
    rg_workers (rig_step L opts Spawn r1) =
      map (\<lambda>w. w \<lparr> wk_killed := True \<rparr>) (rg_workers r) @
      map (\<lambda>m. \<lparr> wk_miner = m, wk_killed = False, wk_alive = True \<rparr>)
        (spawn_miners (ro_workers opts) (md_miner (rg_device r)))"
proof -
  have "md_should_send (rg_device r)"
    unfolding assms(1) by (rule rig_run_should_send) (simp add: rig_new_def device_new_def)
  then show ?thesis
    using assms(2-4)
    by (simp add: rig_step.simps device_turn_def handle_new_mining_job_def spawn_turn_def)
qed

theorem future_job_restarts_same_work_witness:
  "rg_notices (rig_step plain_crates rig_opts (Incoming 5 (Md_NewMiningJob rig_job))
     (rig_run plain_crates rig_opts [] (rig_new plain_crates rig_opts []))) = 1"
  using future_job_restarts_same_work [of _ plain_crates rig_opts "[]", OF refl, of rig_job _ 5]
  by (simp add: rig_new_def md_is_future_def rig_job_def)

end
