(* ===== verification/Hash_Map.thy ===== *)
theory Hash_Map
  imports Prelude "HOL-Library.AList"
begin

text \<open>
  The standard library's \<open>HashMap\<close>, as far as the sources use it. A map is the list of
  its entries in iteration order; the keys are distinct. \<open>HashMap\<close> promises nothing about
  that order, so no theorem of the development depends on where an insertion puts an
  entry: results are stated over lookups and sets of keys, and loops over a map are stated
  for any order of its entries.
\<close>

type_synonym ('k, 'v) hash_map = "('k \<times> 'v) list"

definition hm_new :: "('k, 'v) hash_map" where
  "hm_new = []"

definition hm_get :: "('k, 'v) hash_map \<Rightarrow> 'k \<Rightarrow> 'v option" where
  "hm_get m k = map_of m k"

definition hm_contains_key :: "('k, 'v) hash_map \<Rightarrow> 'k \<Rightarrow> bool" where
  "hm_contains_key m k = (hm_get m k \<noteq> None)"

definition hm_insert :: "'k \<Rightarrow> 'v \<Rightarrow> ('k, 'v) hash_map \<Rightarrow> ('k, 'v) hash_map" where
  "hm_insert k v m = AList.update k v m"

definition hm_remove :: "'k \<Rightarrow> ('k, 'v) hash_map \<Rightarrow> ('k, 'v) hash_map" where
  "hm_remove k m = AList.delete k m"

definition hm_retain :: "('k \<Rightarrow> 'v \<Rightarrow> bool) \<Rightarrow> ('k, 'v) hash_map \<Rightarrow> ('k, 'v) hash_map" where
  "hm_retain P m = filter (\<lambda>(k, v). P k v) m"

definition hm_keys :: "('k, 'v) hash_map \<Rightarrow> 'k set" where
  "hm_keys m = fst ` set m"

definition hm_distinct :: "('k, 'v) hash_map \<Rightarrow> bool" where
  "hm_distinct m = distinct (map fst m)"

text \<open>
  \<open>for (k, v) in m.iter_mut()\<close> with a body that may change the value, append to an output
  vector and panic. A panic leaves the loop; the entries not yet visited keep their value.
\<close>

fun hm_iter_mut ::
  "('k \<Rightarrow> 'v \<Rightarrow> ('e, 'o list) res \<times> 'v) \<Rightarrow> ('k, 'v) hash_map \<Rightarrow>
     ('e, 'o list) res \<times> ('k, 'v) hash_map" where
  "hm_iter_mut f [] = (Ok [], [])"
| "hm_iter_mut f ((k, v) # m) =
     (case f k v of
        (Ok out, v') \<Rightarrow>
          (case hm_iter_mut f m of (r, m') \<Rightarrow> (map_res ((@) out) r, (k, v') # m'))
      | (Err e, v') \<Rightarrow> (Err e, (k, v') # m)
      | (Panic p, v') \<Rightarrow> (Panic p, (k, v') # m))"

section \<open>The interface of a map\<close>

text \<open>
  What the clients rely on: lookups after every operation, the key set, and that the
  operations keep the representation invariant.
\<close>

locale hash_map_spec =
  fixes new :: "'m"
    and get :: "'m \<Rightarrow> 'k \<Rightarrow> 'v option"
    and insert_entry :: "'k \<Rightarrow> 'v \<Rightarrow> 'm \<Rightarrow> 'm"
    and remove :: "'k \<Rightarrow> 'm \<Rightarrow> 'm"
    and keys :: "'m \<Rightarrow> 'k set"
    and invar :: "'m \<Rightarrow> bool"
  assumes get_new: "get new k = None"
    and get_insert_entry: "get (insert_entry k v m) k' = (if k' = k then Some v else get m k')"
    and get_remove: "invar m \<Longrightarrow> get (remove k m) k' = (if k' = k then None else get m k')"
    and keys_get: "k \<in> keys m \<longleftrightarrow> get m k \<noteq> None"
    and invar_new: "invar new"
    and invar_insert_entry: "invar m \<Longrightarrow> invar (insert_entry k v m)"
    and invar_remove: "invar m \<Longrightarrow> invar (remove k m)"
begin

lemma keys_insert_entry: "keys (insert_entry k v m) = insert k (keys m)"
  by (auto simp: keys_get get_insert_entry split: if_splits)

lemma keys_remove: "invar m \<Longrightarrow> keys (remove k m) = keys m - {k}"
  by (auto simp: keys_get get_remove split: if_splits)

lemma insert_entry_commute:
  "k \<noteq> k' \<Longrightarrow> get (insert_entry k v (insert_entry k' v' m)) = get (insert_entry k' v' (insert_entry k v m))"
  by (auto simp: get_insert_entry fun_eq_iff)

lemma get_remove_insert_entry:
  "invar m \<Longrightarrow> k \<notin> keys m \<Longrightarrow> get (remove k (insert_entry k v m)) = get m"
  by (auto simp: get_remove get_insert_entry invar_insert_entry keys_get fun_eq_iff)

lemma get_fold_insert_entry:
  "k \<notin> fst ` set kvs \<Longrightarrow> get (fold (\<lambda>(k, v). insert_entry k v) kvs m) k = get m k"
  by (induction kvs arbitrary: m) (auto simp: get_insert_entry)

end

lemma hm_get_retain:
  assumes "\<And>v. P k v = Q"
  shows "hm_get (hm_retain P m) k = (if Q then hm_get m k else None)"
  using assms by (induction m) (auto simp: hm_get_def hm_retain_def)

lemma hm_distinct_retain: "hm_distinct m \<Longrightarrow> hm_distinct (hm_retain P m)"
  unfolding hm_distinct_def hm_retain_def by (rule distinct_map_filter)

interpretation hm: hash_map_spec hm_new hm_get hm_insert hm_remove hm_keys hm_distinct
proof unfold_locales
  fix k :: 'k and k' and v :: 'v and m :: "('k, 'v) hash_map"
  show "hm_get (hm_insert k v m) k' = (if k' = k then Some v else hm_get m k')"
    by (simp add: hm_get_def hm_insert_def update_conv')
  show "hm_get (hm_remove k m) k' = (if k' = k then None else hm_get m k')"
    by (simp add: hm_get_def hm_remove_def delete_conv')
  show "k \<in> hm_keys m \<longleftrightarrow> hm_get m k \<noteq> None"
    by (auto simp: hm_get_def hm_keys_def map_of_eq_None_iff)
  show "hm_distinct m \<Longrightarrow> hm_distinct (hm_insert k v m)"
    unfolding hm_distinct_def hm_insert_def by (rule distinct_update)
  show "hm_distinct m \<Longrightarrow> hm_distinct (hm_remove k m)"
    unfolding hm_distinct_def hm_remove_def by (rule distinct_delete)
qed (simp_all add: hm_get_def hm_new_def hm_distinct_def)

declare hm.get_new [simp, hash_map_simps]
declare hm.get_insert_entry [simp, hash_map_simps]
declare hm.keys_insert_entry [simp, hash_map_simps]
declare hm.invar_new [simp, hash_map_simps]
declare hm.invar_insert_entry [simp, hash_map_simps]
declare hm.invar_remove [simp, hash_map_simps]

lemma hm_get_remove [simp, hash_map_simps]:
  "hm_get (hm_remove k m) k' = (if k' = k then None else hm_get m k')"
  by (simp add: hm_get_def hm_remove_def delete_conv')

lemma hm_keys_remove [simp, hash_map_simps]: "hm_keys (hm_remove k m) = hm_keys m - {k}"
  by (auto simp: hm.keys_get split: if_splits)

lemma hm_keys_new [simp, hash_map_simps]: "hm_keys hm_new = {}"
  by (simp add: hm_keys_def hm_new_def)

lemma hm_contains_key_iff [hash_map_simps]: "hm_contains_key m k \<longleftrightarrow> k \<in> hm_keys m"
  by (simp add: hm_contains_key_def hm.keys_get)

lemma hm_get_in_keys: "hm_get m k = Some v \<Longrightarrow> k \<in> hm_keys m"
  by (simp add: hm.keys_get)

lemma hm_get_Some_in_set: "hm_get m k = Some v \<Longrightarrow> (k, v) \<in> set m"
  unfolding hm_get_def by (rule map_of_SomeD)

lemma hm_in_set_get: "hm_distinct m \<Longrightarrow> (k, v) \<in> set m \<longleftrightarrow> hm_get m k = Some v"
  by (simp add: hm_distinct_def hm_get_def)

lemma hm_keys_retain:
  assumes "\<And>k v. P k v = Q k"
  shows "hm_keys (hm_retain P m) = {k \<in> hm_keys m. Q k}"
  using assms by (auto simp: hm_keys_def hm_retain_def image_iff)

section \<open>Loops over a map\<close>

lemma hm_iter_mut_keys [simp]: "map fst (snd (hm_iter_mut f m)) = map fst m"
  by (induction m rule: hm_iter_mut.induct) (auto split: prod.splits res.splits)

lemma hm_iter_mut_distinct [simp]: "hm_distinct (snd (hm_iter_mut f m)) = hm_distinct m"
  by (simp add: hm_distinct_def)

lemma hm_iter_mut_key_set [simp]: "hm_keys (snd (hm_iter_mut f m)) = hm_keys m"
  using hm_iter_mut_keys [of f m] by (metis hm_keys_def set_map)

text \<open>A property that the body establishes for every value holds for all the values.\<close>

lemma hm_iter_mut_values:
  assumes "\<And>k v. (k, v) \<in> set m \<Longrightarrow> P k v"
    and "\<And>k v. P k v \<Longrightarrow> P k (snd (f k v))"
    and "(k, v) \<in> set (snd (hm_iter_mut f m))"
  shows "P k v"
  using assms(1,3)
proof (induction m)
  case Nil
  then show ?case by simp
next
  case (Cons kv m)
  obtain k0 v0 r v' where kv: "kv = (k0, v0)" and f: "f k0 v0 = (r, v')"
    by (cases kv; cases "f (fst kv) (snd kv)") auto
  have "P k0 v'"
    using assms(2) [of k0 v0] Cons.prems(1) f kv by simp
  then show ?case
    using Cons f kv by (cases r) (auto split: prod.splits)
qed

text \<open>A loop whose body never fails: all outputs in order, every entry updated.\<close>

lemma hm_iter_mut_total:
  assumes "\<And>k v. (k, v) \<in> set m \<Longrightarrow> f k v = (Ok (out k v), upd k v)"
  shows "hm_iter_mut f m =
    (Ok (concat (map (\<lambda>(k, v). out k v) m)), map (\<lambda>(k, v). (k, upd k v)) m)"
  using assms by (induction m) auto

text \<open>A property of every output of every body holds of the whole output.\<close>

lemma hm_iter_mut_out:
  assumes "hm_iter_mut f m = (Ok out, m')"
    and "\<And>k v out v'. (k, v) \<in> set m \<Longrightarrow> f k v = (Ok out, v') \<Longrightarrow> \<forall>x\<in>set out. P x"
  shows "\<forall>x\<in>set out. P x"
  using assms
proof (induction m arbitrary: out m')
  case Nil
  then show ?case by simp
next
  case (Cons kv m)
  obtain k v where kv: "kv = (k, v)" by (cases kv)
  obtain o1 v' where f: "f k v = (Ok o1, v')"
    using Cons.prems(1) kv by (auto split: prod.splits res.splits)
  obtain o2 m2 where rest: "hm_iter_mut f m = (Ok o2, m2)" and out: "out = o1 @ o2"
    using Cons.prems(1) kv f by (cases "hm_iter_mut f m"; cases "fst (hm_iter_mut f m)") auto
  have "\<forall>x\<in>set o2. P x"
    by (rule Cons.IH [OF rest]) (rule Cons.prems(2); simp)
  moreover have "\<forall>x\<in>set o1. P x"
    using Cons.prems(2) [of k v o1 v'] f kv by simp
  ultimately show ?case by (auto simp: out)
qed

lemma hm_iter_mut_get:
  assumes "hm_get (snd (hm_iter_mut f m)) k = Some v'"
  obtains v where "hm_get m k = Some v" and "v' = v \<or> v' = snd (f k v)"
proof -
  have "\<exists>v. hm_get m k = Some v \<and> (v' = v \<or> v' = snd (f k v))"
    using assms
    by (induction m rule: hm_iter_mut.induct)
      (auto simp: hm_get_def split: prod.splits res.splits if_splits)
  then show thesis using that by blast
qed

text \<open>A loop none of whose bodies fails does not fail, and updates every entry.\<close>

lemma hm_iter_mut_ok:
  assumes "\<And>k v. (k, v) \<in> set m \<Longrightarrow> is_ok (fst (f k v))"
  shows "is_ok (fst (hm_iter_mut f m))"
    and "snd (hm_iter_mut f m) = map (\<lambda>(k, v). (k, snd (f k v))) m"
proof -
  have "f k v = (Ok (SOME out. fst (f k v) = Ok out), snd (f k v))" if "(k, v) \<in> set m" for k v
    using someI_ex [of "\<lambda>out. fst (f k v) = Ok out"] assms [OF that]
    by (simp add: is_ok_iff prod_eq_iff)
  note total = hm_iter_mut_total [of m f "\<lambda>k v. SOME out. fst (f k v) = Ok out" "\<lambda>k v. snd (f k v)", OF this]
  show "is_ok (fst (hm_iter_mut f m))"
    and "snd (hm_iter_mut f m) = map (\<lambda>(k, v). (k, snd (f k v))) m"
    by (simp_all add: total)
qed

lemma hm_iter_mut_mem:
  assumes "hm_iter_mut f m = (Ok out, m')" and "(k, v) \<in> set m"
  obtains out1 v' where "f k v = (Ok out1, v')" and "set out1 \<subseteq> set out" and "(k, v') \<in> set m'"
proof -
  have "\<exists>out1 v'. f k v = (Ok out1, v') \<and> set out1 \<subseteq> set out \<and> (k, v') \<in> set m'"
    using assms
  proof (induction f m arbitrary: out m' rule: hm_iter_mut.induct)
    case (2 f k0 v0 m)
    obtain o1 v1 where f: "f k0 v0 = (Ok o1, v1)"
      using "2.prems"(1) by (auto split: prod.splits res.splits)
    obtain o2 m2 where rest: "hm_iter_mut f m = (Ok o2, m2)" "out = o1 @ o2" "m' = (k0, v1) # m2"
      using "2.prems"(1) f by (cases "hm_iter_mut f m"; cases "fst (hm_iter_mut f m)") auto
    then show ?case
      using "2.IH" [OF f [symmetric] refl rest(1)] "2.prems"(2) f by auto
  qed simp
  then show thesis using that by blast
qed

lemma hm_in_set_keys: "(k, v) \<in> set m \<Longrightarrow> k \<in> hm_keys m"
  by (force simp: hm_keys_def)

lemma hm_get_map_values:
  "hm_get (map (\<lambda>(k, v). (k, f k v)) m) k = map_option (f k) (hm_get m k)"
  by (induction m) (auto simp: hm_get_def)

end
