(* ===== verification/Tproxy_Types.thy ===== *)
theory Tproxy_Types
  imports Hash_Map
begin

unbundle bit_operations_syntax

text \<open>
  The translator proxy (\<open>miner-apps/translator\<close>): its error type, the Stratum V1 messages as far
  as the code reads their fields, the state of one miner's connection
  (\<open>sv1/downstream/data.rs\<close>, \<open>downstream.rs\<close>) and the job storage it validates shares
  against. Every foreign payload of an error has the type \<open>'x\<close>; a JSON-RPC message is a value
  of \<open>'msg\<close> that is only inspected through the functions of \<open>sv1_api\<close>.
\<close>

datatype 'x tproxy_error =
    SV1Error
  | NetworkHelpersError 'x
  | ParserError 'x
  | BadCliArgs
  | BadSerdeJson 'x
  | BadConfigDeserialize 'x
  | BinarySv2 'x
  | CodecNoise 'x
  | FramingSv2 'x
  | TpIo 'x
  | ParseInt 'x
  | PoisonLock
  | ChannelErrorReceiver 'x
  | ChannelErrorSender
  | BroadcastChannelErrorReceiver 'x
  | TokioChannelErrorRecv 'x
  | SetDifficultyToMessage 'x
  | UnexpectedMessage u16 u8
  | JobNotFound
  | InvalidMerkleRoot
  | Shutdown
  | Fallback
  | PendingChannelNotFound u32
  | RequiredExtensionsNotSupported "u16 list"
  | ServerRequiresUnsupportedExtensions "u16 list"
  | General string
  | TranslatorCore 'x
  | DownstreamNotFound u32
  | TlvError 'x

section \<open>Stratum V1 data\<close>

text \<open>\<open>Target\<close> is compared as the 256-bit number it is; \<open>Hashrate\<close> is an \<open>f32\<close>.\<close>

type_synonym target = u256
type_synonym hashrate = f32

record notify =
  n_job_id :: string
  n_prev_hash :: bytes
  n_coin_base1 :: bytes
  n_coin_base2 :: bytes
  n_merkle_branch :: "bytes list"
  n_version :: u32
  n_bits :: u32
  n_time :: u32
  n_clean_jobs :: bool

record submit =
  sb_user_name :: string
  sb_job_id :: string
  sb_extra_nonce2 :: bytes
  sb_time :: u32
  sb_nonce :: u32
  sb_version_bits :: "u32 option"

record submit_share =
  ss_channel_id :: u32
  ss_downstream_id :: usize
  ss_share :: submit
  ss_extranonce :: bytes
  ss_extranonce2_len :: usize
  ss_version_rolling_mask :: "u32 option"
  ss_job_version :: "u32 option"

datatype downstream_message = SubmitShares submit_share | OpenChannel usize

section \<open>State of a miner's connection\<close>

record 'msg sv1_data =
  sd_channel_id :: "u32 option"
  sd_downstream_id :: usize
  extranonce1 :: bytes
  extranonce2_len :: usize
  version_rolling_mask :: "u32 option"
  version_rolling_min_bit :: "u32 option"
  last_job_version_field :: "u32 option"
  authorized_worker_name :: string
  user_identity :: string
  sd_target :: target
  sd_hashrate :: "hashrate option"
  cached_set_difficulty :: "'msg option"
  cached_notify :: "'msg option"
  pending_target :: "target option"
  pending_hashrate :: "hashrate option"
  sv1_handshake_complete :: bool
  queued_sv1_handshake_messages :: "'msg list"
  processing_queued :: bool
  pending_share :: "submit_share option"
  upstream_target :: "target option"

definition sv1_data_new :: "usize \<Rightarrow> target \<Rightarrow> hashrate option \<Rightarrow> 'msg sv1_data" where
  "sv1_data_new d t h =
     \<lparr> sd_channel_id = None, sd_downstream_id = d, extranonce1 = replicate 8 0, extranonce2_len = 4,
       version_rolling_mask = None, version_rolling_min_bit = None, last_job_version_field = None,
       authorized_worker_name = [], user_identity = [], sd_target = t, sd_hashrate = h,
       cached_set_difficulty = None, cached_notify = None, pending_target = None,
       pending_hashrate = None, sv1_handshake_complete = False, queued_sv1_handshake_messages = [],
       processing_queued = False, pending_share = None, upstream_target = None \<rparr>"

definition set_pending_target :: "target \<Rightarrow> 'msg sv1_data \<Rightarrow> 'msg sv1_data" where
  "set_pending_target t d = d \<lparr> pending_target := Some t \<rparr>"

definition set_pending_hashrate :: "hashrate option \<Rightarrow> 'msg sv1_data \<Rightarrow> 'msg sv1_data" where
  "set_pending_hashrate h d = d \<lparr> pending_hashrate := h \<rparr>"

definition set_upstream_target :: "target \<Rightarrow> 'msg sv1_data \<Rightarrow> 'msg sv1_data" where
  "set_upstream_target t d = d \<lparr> upstream_target := Some t \<rparr>"

text \<open>
  The channels of a connection: what was sent to the miner and to the Sv1 server, and whether
  the other side still receives. They are unbounded, so that a send fails only when the
  receiver is gone.
\<close>

record 'msg sv1_channels =
  to_miner :: "'msg list"
  miner_open :: bool
  to_server :: "downstream_message list"
  server_open :: bool

record 'msg sv1_downstream =
  downstream_data :: "'msg sv1_data"
  downstream_channel_state :: "'msg sv1_channels"

definition sv1_downstream_new :: "usize \<Rightarrow> target \<Rightarrow> hashrate option \<Rightarrow> 'msg sv1_downstream" where
  "sv1_downstream_new d t h =
     \<lparr> downstream_data = sv1_data_new d t h,
       downstream_channel_state =
         \<lparr> to_miner = [], miner_open = True, to_server = [], server_open = True \<rparr> \<rparr>"

text \<open>The jobs announced to the miners: shared in aggregated mode, per channel otherwise.\<close>

record job_store =
  aggregated_valid_jobs :: "notify list option"
  non_aggregated_valid_jobs :: "(u32, notify list) hash_map option"

section \<open>Foreign code\<close>

text \<open>
  The Stratum V1 message library: the method of a notification and of a request, the
  conversions from and to \<open>mining.notify\<close>, and the default method \<open>handle_message\<close> of the
  trait \<open>IsServer\<close>, which calls the handlers of the connection. The rest is what share
  validation computes with: the parser of a 256-bit hash, the Merkle root and the hash of a
  block header as a target.
\<close>

record header =
  hd_version :: u32
  hd_prev_blockhash :: bytes
  hd_merkle_root :: bytes
  hd_time :: u32
  hd_bits :: u32
  hd_nonce :: u32

record ('msg, 'x) sv1_api =
  notification_method :: "'msg \<Rightarrow> string option"
  request_method :: "'msg \<Rightarrow> string option"
  notify_try_from :: "'msg \<Rightarrow> notify option"
  notify_into :: "notify \<Rightarrow> 'msg"
  handle_message :: "job_store \<Rightarrow> 'msg \<Rightarrow> 'msg sv1_data \<Rightarrow> ('x, 'msg option) res \<times> 'msg sv1_data"
  version_params_ok :: "u32 \<Rightarrow> u32 \<Rightarrow> bool"
  u256_from_vec :: "bytes \<Rightarrow> 'x + bytes"
  merkle_root_from_path :: "bytes \<Rightarrow> bytes \<Rightarrow> bytes \<Rightarrow> bytes list \<Rightarrow> bytes option"
  block_hash_as_target :: "header \<Rightarrow> target"

section \<open>Share validation\<close>

definition find_job :: "string \<Rightarrow> notify list \<Rightarrow> notify option" where
  "find_job j js = find (\<lambda>n. n_job_id n = j) js"

definition valid_job :: "job_store \<Rightarrow> u32 \<Rightarrow> string \<Rightarrow> notify option" where
  "valid_job js c j =
     (case aggregated_valid_jobs js of
        Some ns \<Rightarrow> find_job j ns
      | None \<Rightarrow>
          (case non_aggregated_valid_jobs js of
             Some m \<Rightarrow> Option.bind (hm_get m c) (find_job j)
           | None \<Rightarrow> None))"

definition VERSION_ROLLING_MASK :: u32 where
  "VERSION_ROLLING_MASK = 0x1FFFE000"

definition rolled_version :: "notify \<Rightarrow> submit \<Rightarrow> u32 option \<Rightarrow> u32" where
  "rolled_version job share msk =
     (let share_version = (case sb_version_bits share of Some vb \<Rightarrow> vb | None \<Rightarrow> n_version job);
          mask = (case msk of Some m \<Rightarrow> m | None \<Rightarrow> VERSION_ROLLING_MASK)
      in (n_version job AND NOT mask) OR (share_version AND mask))"

definition validate_sv1_share ::
  "('msg, 'x) sv1_api \<Rightarrow> submit \<Rightarrow> target \<Rightarrow> bytes \<Rightarrow> u32 option \<Rightarrow> job_store \<Rightarrow> u32 \<Rightarrow>
     ('x tproxy_error, bool) res" where
  "validate_sv1_share A share t en1 msk js c =
     (case valid_job js c (sb_job_id share) of
        None \<Rightarrow> Err JobNotFound
      | Some job \<Rightarrow>
          (case u256_from_vec A (n_prev_hash job) of
             Inl e \<Rightarrow> Err (BinarySv2 e)
           | Inr prev_hash \<Rightarrow>
               (case merkle_root_from_path A (n_coin_base1 job) (n_coin_base2 job)
                       (en1 @ sb_extra_nonce2 share) (n_merkle_branch job) of
                  None \<Rightarrow> Err InvalidMerkleRoot
                | Some root \<Rightarrow>
                    if length root \<noteq> 32 then Err InvalidMerkleRoot
                    else
                      Ok (block_hash_as_target A
                            \<lparr> hd_version = rolled_version job share msk, hd_prev_blockhash = prev_hash,
                              hd_merkle_root = root, hd_time = sb_time share, hd_bits = n_bits job,
                              hd_nonce = sb_nonce share \<rparr> < t))))"

text \<open>
  \<open>proxy_extranonce_prefix_len\<close> subtracts unsigned sizes: with overflow checks a
  larger subtrahend panics, without them the result wraps around.
\<close>

definition proxy_extranonce_prefix_len :: "bool \<Rightarrow> usize \<Rightarrow> usize \<Rightarrow> ('e, usize) res" where
  "proxy_extranonce_prefix_len checked a b =
     (if checked \<and> a < b then Panic ''attempt to subtract with overflow'' else Ok (a - b))"

text \<open>
  The header that is hashed differs from the job's version only in bits of the mask, and a
  negotiated mask only has bits that miners may roll.
\<close>

lemma rolled_version_bit:
  "bit (rolled_version job share (Some m)) i =
     (if bit m i then bit (case sb_version_bits share of Some vb \<Rightarrow> vb | None \<Rightarrow> n_version job) i
      else bit (n_version job) i)"
  by (auto simp: rolled_version_def bit_simps Let_def dest: bit_imp_le_length)

lemma rolled_version_unmasked:
  "rolled_version job share (Some m) AND NOT m = n_version job AND NOT m"
  by (rule bit_word_eqI) (auto simp: bit_simps rolled_version_bit)

lemma rolled_version_no_bits: "sb_version_bits share = None \<Longrightarrow> rolled_version job share m = n_version job"
  by (rule bit_word_eqI) (auto simp: rolled_version_def bit_simps Let_def)

lemma validate_Ok_iff:
  "validate_sv1_share A share t en1 msk js c = Ok True \<longleftrightarrow>
     (\<exists>job prev root. valid_job js c (sb_job_id share) = Some job \<and>
        u256_from_vec A (n_prev_hash job) = Inr prev \<and>
        merkle_root_from_path A (n_coin_base1 job) (n_coin_base2 job)
          (en1 @ sb_extra_nonce2 share) (n_merkle_branch job) = Some root \<and> length root = 32 \<and>
        block_hash_as_target A
          \<lparr> hd_version = rolled_version job share msk, hd_prev_blockhash = prev,
            hd_merkle_root = root, hd_time = sb_time share, hd_bits = n_bits job,
            hd_nonce = sb_nonce share \<rparr> < t)"
  by (auto simp: validate_sv1_share_def split: option.splits sum.splits)

end
