(* ===== verification/Tproxy_State.thy ===== *)
theory Tproxy_State
  imports Tproxy_Types
begin

text \<open>
  The shared state of the translator: the Sv2 mining messages its Sv1 server and its channel
  manager exchange, the data of the server (\<open>sv1/sv1_server/data.rs\<close>, \<open>sv1_server.rs\<close>) and the
  foreign code it calls. \<open>'b\<close> is the part of a job or prev-hash message that the translator
  only hands on, \<open>'v\<close> a vardiff state, \<open>'tlv\<close> an extension field.
\<close>

section \<open>Sv2 messages\<close>

record open_extended =
  oe_request_id :: u32
  oe_user_identity :: string
  oe_nominal_hash_rate :: hashrate
  oe_max_target :: target
  oe_min_extranonce_size :: u16

record open_extended_success =
  os_request_id :: u32
  os_channel_id :: u32
  os_target :: target
  os_extranonce_size :: u16
  os_extranonce_prefix :: bytes

record submit_extended =
  se_channel_id :: u32
  se_sequence_number :: u32
  se_job_id :: u32
  se_nonce :: u32
  se_ntime :: u32
  se_version :: u32
  se_extranonce :: bytes

record update_channel =
  uc_channel_id :: u32
  uc_nominal_hash_rate :: hashrate
  uc_maximum_target :: target

record 'b extended_job =
  ej_channel_id :: u32
  ej_job_id :: u32
  ej_future :: bool
  ej_body :: 'b

record 'b prev_hash_msg =
  ph_channel_id :: u32
  ph_job_id :: u32
  ph_body :: 'b

datatype 'b tp_mining =
    OpenExtended open_extended
  | OpenExtendedSuccess open_extended_success
  | SubmitExtended submit_extended
  | UpdateChan update_channel
  | CloseChan u32 string
  | NewExtendedJob "'b extended_job"
  | NewPrevHash "'b prev_hash_msg"
  | NewTarget u32 target

section \<open>The Sv1 server's state\<close>

record pending_target_update =
  pu_downstream_id :: usize
  pu_new_target :: target
  pu_new_hashrate :: hashrate

record ('msg, 'v, 'b) sv1_server_data =
  downstreams :: "(usize, 'msg sv1_downstream) hash_map"
  request_id_to_downstream_id :: "(u32, usize) hash_map"
  sv_vardiff :: "(usize, 'v) hash_map"
  sv_prevhash :: "'b prev_hash_msg option"
  downstream_id_factory :: usize
  request_id_factory :: u32
  valid_jobs :: job_store
  pending_target_updates :: "pending_target_update list"
  initial_target :: "target option"

definition sv1_server_data_new :: "bool \<Rightarrow> ('msg, 'v, 'b) sv1_server_data" where
  "sv1_server_data_new aggregate =
     \<lparr> downstreams = hm_new, request_id_to_downstream_id = hm_new, sv_vardiff = hm_new,
       sv_prevhash = None, downstream_id_factory = 1, request_id_factory = 1,
       valid_jobs =
         \<lparr> aggregated_valid_jobs = (if aggregate then Some [] else None),
           non_aggregated_valid_jobs = (if aggregate then None else Some hm_new) \<rparr>,
       pending_target_updates = [], initial_target = None \<rparr>"

record tp_config =
  aggregate_channels :: bool
  enable_vardiff :: bool
  shares_per_minute :: f32
  min_individual_miner_hashrate :: hashrate
  config_user_identity :: string
  downstream_extranonce2_size :: u16

text \<open>
  The server itself: its data, what it has sent to the channel manager and on the broadcast
  channel to the connections, whether those channels still have receivers, and its atomics.
\<close>

record ('msg, 'v, 'b, 'tlv) sv1_server =
  sv1_server_data :: "('msg, 'v, 'b) sv1_server_data"
  to_manager :: "('b tp_mining \<times> 'tlv list option) list"
  manager_open :: bool
  to_downstreams :: "(u32 \<times> usize option \<times> 'msg) list"
  downstreams_open :: bool
  clean_job :: bool
  sequence_counter :: u32
  miner_counter :: u32

definition sv1_server_new :: "tp_config \<Rightarrow> ('msg, 'v, 'b, 'tlv) sv1_server" where
  "sv1_server_new C =
     \<lparr> sv1_server_data = sv1_server_data_new (aggregate_channels C), to_manager = [], manager_open = True,
       to_downstreams = [], downstreams_open = True, clean_job = True, sequence_counter = 0,
       miner_counter = 0 \<rparr>"

section \<open>Foreign code\<close>

record ('msg, 'x, 'v, 'b, 'tlv) tp_lib =
  sv1_lib :: "('msg, 'x) sv1_api"
  hash_rate_to_target :: "hashrate \<Rightarrow> f32 \<Rightarrow> target option"
  f32_sum :: "hashrate list \<Rightarrow> hashrate"
  vardiff_state_new :: "'v option"
  vardiff_increment :: "'v \<Rightarrow> 'v"
  try_vardiff :: "hashrate \<Rightarrow> target \<Rightarrow> f32 \<Rightarrow> 'v \<Rightarrow> hashrate option \<times> 'v"
  build_set_difficulty :: "target \<Rightarrow> 'msg option"
  build_notify :: "'b prev_hash_msg \<Rightarrow> 'b extended_job \<Rightarrow> bool \<Rightarrow> 'x + notify"
  build_submit :: "submit \<Rightarrow> u32 \<Rightarrow> u32 \<Rightarrow> u32 \<Rightarrow> u32 option \<Rightarrow> submit_extended option"
  user_identity_tlv :: "string \<Rightarrow> 'tlv option option"
  build_open_extended :: "u32 \<Rightarrow> string \<Rightarrow> hashrate \<Rightarrow> target \<Rightarrow> u16 \<Rightarrow> open_extended option"
  show_u32 :: "u32 \<Rightarrow> string"

section \<open>Sending and locking\<close>

type_synonym ('msg, 'x, 'v, 'b, 'tlv, 'a) server_step =
  "('x tproxy_error, 'a) res \<times> ('msg, 'v, 'b, 'tlv) sv1_server"

definition send_manager ::
  "'b tp_mining \<Rightarrow> 'tlv list option \<Rightarrow> ('msg, 'v, 'b, 'tlv) sv1_server \<Rightarrow>
     ('msg, 'x, 'v, 'b, 'tlv, unit) server_step" where
  "send_manager m tlv S =
     (if manager_open S then (Ok (), S \<lparr> to_manager := to_manager S @ [(m, tlv)] \<rparr>)
      else (Err ChannelErrorSender, S))"

definition send_downstreams ::
  "u32 \<Rightarrow> usize option \<Rightarrow> 'msg \<Rightarrow> ('msg, 'v, 'b, 'tlv) sv1_server \<Rightarrow>
     ('msg, 'x, 'v, 'b, 'tlv, unit) server_step" where
  "send_downstreams c i m S =
     (if downstreams_open S then (Ok (), S \<lparr> to_downstreams := to_downstreams S @ [(c, i, m)] \<rparr>)
      else (Err ChannelErrorSender, S))"

text \<open>A send whose error is only logged.\<close>

definition post_manager ::
  "'b tp_mining \<Rightarrow> ('msg, 'v, 'b, 'tlv) sv1_server \<Rightarrow> ('msg, 'v, 'b, 'tlv) sv1_server" where
  "post_manager m S = (if manager_open S then S \<lparr> to_manager := to_manager S @ [(m, None)] \<rparr> else S)"

definition post_downstreams ::
  "u32 \<Rightarrow> usize option \<Rightarrow> 'msg \<Rightarrow> ('msg, 'v, 'b, 'tlv) sv1_server \<Rightarrow> ('msg, 'v, 'b, 'tlv) sv1_server" where
  "post_downstreams c i m S =
     (if downstreams_open S then S \<lparr> to_downstreams := to_downstreams S @ [(c, i, m)] \<rparr> else S)"

abbreviation upd_server ::
  "(('msg, 'v, 'b) sv1_server_data \<Rightarrow> ('msg, 'v, 'b) sv1_server_data) \<Rightarrow>
     ('msg, 'v, 'b, 'tlv) sv1_server \<Rightarrow> ('msg, 'v, 'b, 'tlv) sv1_server" where
  "upd_server f S \<equiv> S \<lparr> sv1_server_data := f (sv1_server_data S) \<rparr>"

abbreviation get_down :: "('msg, 'v, 'b, 'tlv) sv1_server \<Rightarrow> usize \<Rightarrow> 'msg sv1_downstream option" where
  "get_down S i \<equiv> hm_get (downstreams (sv1_server_data S)) i"

text \<open>
  A change of one connection's data under its lock, and of every connection in the map. The
  map is changed in place, as the connections are shared references.
\<close>

definition lock_down ::
  "('msg sv1_data \<Rightarrow> 'msg sv1_data) \<Rightarrow> usize \<Rightarrow> ('msg, 'v, 'b, 'tlv) sv1_server \<Rightarrow>
     ('msg, 'v, 'b, 'tlv) sv1_server" where
  "lock_down f i S =
     (case get_down S i of
        None \<Rightarrow> S
      | Some D \<Rightarrow>
          upd_server (\<lambda>s. s \<lparr> downstreams :=
            hm_insert i (D \<lparr> downstream_data := f (downstream_data D) \<rparr>) (downstreams s) \<rparr>) S)"

definition lock_all_downs ::
  "('msg sv1_data \<Rightarrow> 'msg sv1_data) \<Rightarrow> ('msg, 'v, 'b, 'tlv) sv1_server \<Rightarrow>
     ('msg, 'v, 'b, 'tlv) sv1_server" where
  "lock_all_downs f S =
     upd_server (\<lambda>s. s \<lparr> downstreams :=
       map (\<lambda>(i, D). (i, D \<lparr> downstream_data := f (downstream_data D) \<rparr>)) (downstreams s) \<rparr>) S"

text \<open>\<open>iter().find_map\<close> over the connections: the first one on a channel.\<close>

definition down_on_channel :: "u32 \<Rightarrow> (usize, 'msg sv1_downstream) hash_map \<Rightarrow> usize option" where
  "down_on_channel c m =
     map_option fst (find (\<lambda>(i, D). sd_channel_id (downstream_data D) = Some c) m)"

lemma post_simps [simp]:
  "sv1_server_data (post_manager m S) = sv1_server_data S"
  "to_downstreams (post_manager m S) = to_downstreams S"
  "downstreams_open (post_manager m S) = downstreams_open S"
  "sv1_server_data (post_downstreams c i x S) = sv1_server_data S"
  "to_manager (post_downstreams c i x S) = to_manager S"
  "downstreams_open (post_downstreams c i x S) = downstreams_open S"
  by (simp_all add: post_manager_def post_downstreams_def)

lemma lock_down_frame [simp, frame_simps]:
  "to_manager (lock_down f i S) = to_manager S"
  "to_downstreams (lock_down f i S) = to_downstreams S"
  "manager_open (lock_down f i S) = manager_open S"
  "downstreams_open (lock_down f i S) = downstreams_open S"
  "pending_target_updates (sv1_server_data (lock_down f i S)) = pending_target_updates (sv1_server_data S)"
  "sv_vardiff (sv1_server_data (lock_down f i S)) = sv_vardiff (sv1_server_data S)"
  "valid_jobs (sv1_server_data (lock_down f i S)) = valid_jobs (sv1_server_data S)"
  by (simp_all add: lock_down_def split: option.split)

lemma get_lock_down [simp]:
  "get_down (lock_down f i S) j =
     (if j = i then map_option (\<lambda>D. D \<lparr> downstream_data := f (downstream_data D) \<rparr>) (get_down S i)
      else get_down S j)"
  by (auto simp: lock_down_def split: option.split)

lemma get_lock_all_downs [simp]:
  "get_down (lock_all_downs f S) j =
     map_option (\<lambda>D. D \<lparr> downstream_data := f (downstream_data D) \<rparr>) (get_down S j)"
  by (simp add: lock_all_downs_def hm_get_def map_of_map)

lemma down_on_channel_Some:
  assumes "down_on_channel c m = Some i" and "hm_distinct m"
  shows "\<exists>D. hm_get m i = Some D \<and> sd_channel_id (downstream_data D) = Some c"
  using assms by (auto simp: down_on_channel_def find_Some_iff in_set_conv_nth hm_in_set_get [symmetric])
    (metis nth_mem)

end
