(* ===== verification/Tproxy_Downstream.thy ===== *)
theory Tproxy_Downstream
  imports Tproxy_Types
begin

unbundle bit_operations_syntax

text \<open>
  One miner's connection of the translator (\<open>sv1/downstream/downstream.rs\<close> and
  \<open>message_handler.rs\<close>): the handlers of the trait \<open>IsServer\<close>, the messages of the Sv1 server,
  the messages of the miner and the completion of the handshake. A connection runs one handler
  at a time; the loop ends at the first error.
\<close>

section \<open>Handlers of the trait \<open>IsServer\<close>\<close>

definition handle_configure ::
  "('msg, 'x) sv1_api \<Rightarrow> u32 option \<Rightarrow> u32 option \<Rightarrow> 'msg sv1_data \<Rightarrow>
     ('x, (u32 \<times> u32) option \<times> bool option) res \<times> 'msg sv1_data" where
  "handle_configure A msk min_bit d =
     (let d' = d \<lparr> version_rolling_mask := map_option (\<lambda>m. m AND VERSION_ROLLING_MASK) msk,
                   version_rolling_min_bit := min_bit \<rparr>;
          m = (case version_rolling_mask d' of Some m \<Rightarrow> m | None \<Rightarrow> 0);
          b = (case version_rolling_min_bit d' of Some b \<Rightarrow> b | None \<Rightarrow> 0)
      in if version_params_ok A m b then (Ok (Some (m, b), Some False), d')
         else (Panic ''Version mask invalid'', d'))"

definition handle_subscribe :: "(usize \<Rightarrow> string) \<Rightarrow> 'msg sv1_data \<Rightarrow> (string \<times> string) list" where
  "handle_subscribe show_id d =
     [(''mining.set_difficulty'', show_id (sd_downstream_id d)),
      (''mining.notify'', ''ae6812eb4cd7735a302a8a9dd95cf71f'')]"

definition handle_authorize :: "'msg sv1_data \<Rightarrow> bool" where
  "handle_authorize d = True"

definition is_authorized :: "'msg sv1_data \<Rightarrow> string \<Rightarrow> bool" where
  "is_authorized d name = (authorized_worker_name d = name)"

definition authorize :: "string \<Rightarrow> 'msg sv1_data \<Rightarrow> 'msg sv1_data" where
  "authorize name d =
     (let d1 = (if is_authorized d name then d else d \<lparr> authorized_worker_name := name \<rparr>)
      in d1 \<lparr> user_identity := name \<rparr>)"

definition handle_submit ::
  "('msg, 'x) sv1_api \<Rightarrow> job_store \<Rightarrow> submit \<Rightarrow> 'msg sv1_data \<Rightarrow> bool \<times> 'msg sv1_data" where
  "handle_submit A js request d =
     (case sd_channel_id d of
        None \<Rightarrow> (False, d)
      | Some c \<Rightarrow>
          if validate_sv1_share A request (sd_target d) (extranonce1 d) (version_rolling_mask d) js c
               \<noteq> Ok True
          then (False, d)
          else
            (True, d \<lparr> pending_share := Some
               \<lparr> ss_channel_id = c, ss_downstream_id = sd_downstream_id d, ss_share = request,
                 ss_extranonce = extranonce1 d, ss_extranonce2_len = extranonce2_len d,
                 ss_version_rolling_mask = version_rolling_mask d,
                 ss_job_version = last_job_version_field d \<rparr> \<rparr>))"

definition set_version_rolling_mask :: "u32 option \<Rightarrow> 'msg sv1_data \<Rightarrow> 'msg sv1_data" where
  "set_version_rolling_mask m d = d \<lparr> version_rolling_mask := m \<rparr>"

definition set_version_rolling_min_bit :: "u32 option \<Rightarrow> 'msg sv1_data \<Rightarrow> 'msg sv1_data" where
  "set_version_rolling_min_bit m d = d \<lparr> version_rolling_min_bit := m \<rparr>"

text \<open>
  A default method of the trait is generic in the type that implements it, so that it changes
  a connection only through the handlers above: \<open>handled\<close> is what any sequence of them can
  reach.
\<close>

inductive handled :: "('msg, 'x) sv1_api \<Rightarrow> job_store \<Rightarrow> 'msg sv1_data \<Rightarrow> 'msg sv1_data \<Rightarrow> bool"
  for A :: "('msg, 'x) sv1_api" and js :: job_store where
  handled_refl: "handled A js d d"
| handled_configure: "handled A js d d' \<Longrightarrow> handled A js d (snd (handle_configure A m b d'))"
| handled_authorize: "handled A js d d' \<Longrightarrow> handled A js d (authorize name d')"
| handled_submit: "handled A js d d' \<Longrightarrow> handled A js d (snd (handle_submit A js request d'))"
| handled_mask: "handled A js d d' \<Longrightarrow> handled A js d (set_version_rolling_mask m d')"
| handled_min_bit: "handled A js d d' \<Longrightarrow> handled A js d (set_version_rolling_min_bit m d')"

section \<open>Sending\<close>

type_synonym ('msg, 'x) down_step =
  "('x tproxy_error, unit) res \<times> 'msg sv1_downstream"

abbreviation upd_data ::
  "('msg sv1_data \<Rightarrow> 'msg sv1_data) \<Rightarrow> 'msg sv1_downstream \<Rightarrow> 'msg sv1_downstream" where
  "upd_data f D \<equiv> D \<lparr> downstream_data := f (downstream_data D) \<rparr>"

definition send_miner :: "'msg \<Rightarrow> 'msg sv1_downstream \<Rightarrow> ('msg, 'x) down_step" where
  "send_miner m D =
     (let ch = downstream_channel_state D in
      if miner_open ch
      then (Ok (), D \<lparr> downstream_channel_state := ch \<lparr> to_miner := to_miner ch @ [m] \<rparr> \<rparr>)
      else (Err ChannelErrorSender, D))"

definition send_server :: "downstream_message \<Rightarrow> 'msg sv1_downstream \<Rightarrow> ('msg, 'x) down_step" where
  "send_server m D =
     (let ch = downstream_channel_state D in
      if server_open ch
      then (Ok (), D \<lparr> downstream_channel_state := ch \<lparr> to_server := to_server ch @ [m] \<rparr> \<rparr>)
      else (Err ChannelErrorSender, D))"

definition send_opt :: "'msg option \<Rightarrow> 'msg sv1_downstream \<Rightarrow> ('msg, 'x) down_step" where
  "send_opt m D = (case m of None \<Rightarrow> (Ok (), D) | Some x \<Rightarrow> send_miner x D)"

section \<open>Messages of the Sv1 server\<close>

text \<open>
  The target and hashrate that wait for their \<open>mining.set_difficulty\<close> become the
  connection's own.
\<close>

definition apply_pending :: "'msg sv1_data \<Rightarrow> 'msg sv1_data" where
  "apply_pending d =
     (let d1 = (case pending_target d of
                  Some t \<Rightarrow> d \<lparr> pending_target := None, sd_target := t \<rparr>
                | None \<Rightarrow> d)
      in case pending_hashrate d1 of
           Some h \<Rightarrow> d1 \<lparr> pending_hashrate := None, sd_hashrate := Some h \<rparr>
         | None \<Rightarrow> d1)"

definition forward_notify ::
  "('msg, 'x) sv1_api \<Rightarrow> 'msg \<Rightarrow> 'msg sv1_downstream \<Rightarrow> ('msg, 'x) down_step" where
  "forward_notify A message D =
     (let cached = cached_set_difficulty (downstream_data D);
          d0 = (downstream_data D) \<lparr> cached_set_difficulty := None \<rparr>
      in case notify_try_from A message of
           Some notify \<Rightarrow>
             let notify' = (if cached \<noteq> None then notify \<lparr> n_clean_jobs := True \<rparr> else notify);
                 d1 = d0 \<lparr> last_job_version_field := Some (n_version notify') \<rparr>;
                 d2 = (if cached \<noteq> None then apply_pending d1 else d1)
             in and_then (send_opt cached (D \<lparr> downstream_data := d2 \<rparr>))
                  (\<lambda>_. send_miner (notify_into A notify'))
         | None \<Rightarrow> send_opt cached (D \<lparr> downstream_data := d0 \<rparr>))"

definition sv1_id_matches :: "'msg sv1_data \<Rightarrow> u32 \<Rightarrow> usize option \<Rightarrow> bool" where
  "sv1_id_matches d c i \<longleftrightarrow>
     (sd_channel_id d = Some c \<or> c = 0) \<and> (i = None \<or> i = Some (sd_downstream_id d))"

definition before_handshake ::
  "('msg, 'x) sv1_api \<Rightarrow> string \<Rightarrow> 'msg \<Rightarrow> 'msg sv1_downstream \<Rightarrow> ('msg, 'x) down_step" where
  "before_handshake A meth message D =
     (if meth = ''mining.set_difficulty'' then
        (Ok (), upd_data (\<lambda>d. d \<lparr> cached_set_difficulty := Some message \<rparr>) D)
      else if meth = ''mining.notify'' then
        (case notify_try_from A message of
           None \<Rightarrow>
             (Panic ''this must be a mining.notify'',
              upd_data (\<lambda>d. d \<lparr> cached_notify := Some message \<rparr>) D)
         | Some n \<Rightarrow>
             (Ok (), upd_data (\<lambda>d. d \<lparr> cached_notify := Some message,
                                      last_job_version_field := Some (n_version n) \<rparr>) D))
      else (Ok (), D))"

definition handle_sv1_server_message ::
  "('msg, 'x) sv1_api \<Rightarrow> 'x + (u32 \<times> usize option \<times> 'msg) \<Rightarrow> 'msg sv1_downstream \<Rightarrow>
     ('msg, 'x) down_step" where
  "handle_sv1_server_message A received D =
     (case received of
        Inl e \<Rightarrow> (Err (BroadcastChannelErrorReceiver e), D)
      | Inr (c, i, message) \<Rightarrow>
          if \<not> sv1_id_matches (downstream_data D) c i then (Ok (), D)
          else
            (case notification_method A message of
               Some meth \<Rightarrow>
                 if sv1_handshake_complete (downstream_data D) then
                   if meth = ''mining.set_difficulty'' then
                     (Ok (), upd_data (\<lambda>d. d \<lparr> cached_set_difficulty := Some message \<rparr>) D)
                   else if meth = ''mining.notify'' then forward_notify A message D
                   else send_miner message D
                 else before_handshake A meth message D
             | None \<Rightarrow>
                 if processing_queued (downstream_data D) then send_miner message D else (Ok (), D)))"

section \<open>Messages of the miner\<close>

definition handle_sv1_handshake_completion :: "'msg sv1_downstream \<Rightarrow> ('msg, 'x) down_step" where
  "handle_sv1_handshake_completion D =
     (let d = downstream_data D;
          D1 = D \<lparr> downstream_data := d \<lparr> sv1_handshake_complete := True,
                     cached_set_difficulty := None, cached_notify := None \<rparr> \<rparr>
      in and_then
           (case cached_set_difficulty d of
              None \<Rightarrow> (Ok (), D1)
            | Some m \<Rightarrow> and_then (send_miner m D1) (\<lambda>_ D2. (Ok (), upd_data apply_pending D2)))
           (\<lambda>_. send_opt (cached_notify d)))"

definition queue_message :: "'msg \<Rightarrow> 'msg sv1_downstream \<Rightarrow> ('msg, 'x) down_step" where
  "queue_message message D =
     and_then
       (if queued_sv1_handshake_messages (downstream_data D) = []
        then send_server (OpenChannel (sd_downstream_id (downstream_data D))) D
        else (Ok (), D))
       (\<lambda>_ D1. (Ok (), upd_data (\<lambda>d. d \<lparr> queued_sv1_handshake_messages :=
                   queued_sv1_handshake_messages d @ [message] \<rparr>) D1))"

definition forward_share :: "'msg sv1_downstream \<Rightarrow> ('msg, 'x) down_step" where
  "forward_share D =
     (case pending_share (downstream_data D) of
        None \<Rightarrow> (Ok (), D)
      | Some s \<Rightarrow> send_server (SubmitShares s) (upd_data (\<lambda>d. d \<lparr> pending_share := None \<rparr>) D))"

definition answer_miner ::
  "('msg, 'x) sv1_api \<Rightarrow> 'msg \<Rightarrow> ('x, 'msg option) res \<Rightarrow> 'msg sv1_downstream \<Rightarrow> ('msg, 'x) down_step" where
  "answer_miner A message r D =
     (case r of
        Panic p \<Rightarrow> (Panic p, D)
      | Err e \<Rightarrow> (Err SV1Error, D)
      | Ok None \<Rightarrow> (Ok (), D)
      | Ok (Some response) \<Rightarrow>
          and_then (send_miner response D)
            (\<lambda>_ D1. if request_method A message = Some ''mining.authorize''
                     then handle_sv1_handshake_completion D1 else (Ok (), D1)))"

definition handle_sv1_downstream_message ::
  "('msg, 'x) sv1_api \<Rightarrow> job_store \<Rightarrow> 'x + 'msg \<Rightarrow> 'msg sv1_downstream \<Rightarrow> ('msg, 'x) down_step" where
  "handle_sv1_downstream_message A js received D =
     (case received of
        Inl e \<Rightarrow> (Err (ChannelErrorReceiver e), D)
      | Inr message \<Rightarrow>
          if sd_channel_id (downstream_data D) = None then queue_message message D
          else
            (case handle_message A js message (downstream_data D) of (r, d) \<Rightarrow>
              and_then (answer_miner A message r (D \<lparr> downstream_data := d \<rparr>)) (\<lambda>_. forward_share)))"

section \<open>Changes made by the Sv1 server\<close>

text \<open>
  The server keeps the same connection and changes it under its lock: when the Sv2 channel is
  open it stores the channel, takes the queue and handles the queued messages, and the
  difficulty manager sets pending and upstream targets.
\<close>

datatype 'msg server_lock =
    SetChannel u32 bytes usize target
  | TakeQueue
  | HandleQueued job_store 'msg
  | SetPendingTarget target
  | SetPendingHashrate "hashrate option"
  | SetUpstreamTarget target
  | SetIdentity string

definition open_channel :: "u32 \<Rightarrow> bytes \<Rightarrow> usize \<Rightarrow> target \<Rightarrow> 'msg sv1_data \<Rightarrow> 'msg sv1_data" where
  "open_channel c pre sz t d =
     set_upstream_target t
       (d \<lparr> extranonce1 := pre, extranonce2_len := sz, sd_channel_id := Some c \<rparr>)"

definition take_queue :: "'msg sv1_data \<Rightarrow> 'msg list \<times> 'msg sv1_data" where
  "take_queue d =
     (let q = queued_sv1_handshake_messages d;
          d' = d \<lparr> queued_sv1_handshake_messages := [] \<rparr>
      in (q, if q = [] then d' else d' \<lparr> processing_queued := True \<rparr>))"

primrec server_lock_step ::
  "('msg, 'x) sv1_api \<Rightarrow> 'msg server_lock \<Rightarrow> 'msg sv1_data \<Rightarrow> 'msg sv1_data" where
  "server_lock_step A (SetChannel c pre sz t) d = open_channel c pre sz t d"
| "server_lock_step A TakeQueue d = snd (take_queue d)"
| "server_lock_step A (HandleQueued js m) d = snd (handle_message A js m d)"
| "server_lock_step A (SetPendingTarget t) d = set_pending_target t d"
| "server_lock_step A (SetPendingHashrate h) d = set_pending_hashrate h d"
| "server_lock_step A (SetUpstreamTarget t) d = set_upstream_target t d"
| "server_lock_step A (SetIdentity name) d = d \<lparr> user_identity := name \<rparr>"

section \<open>Runs\<close>

datatype ('msg, 'x) down_event =
    FromServer "'x + (u32 \<times> usize option \<times> 'msg)"
  | FromMiner job_store "'x + 'msg"
  | ByServer "'msg server_lock"

primrec down_event_step ::
  "('msg, 'x) sv1_api \<Rightarrow> ('msg, 'x) down_event \<Rightarrow> 'msg sv1_downstream \<Rightarrow> ('msg, 'x) down_step" where
  "down_event_step A (FromServer r) D = handle_sv1_server_message A r D"
| "down_event_step A (FromMiner js r) D = handle_sv1_downstream_message A js r D"
| "down_event_step A (ByServer l) D = (Ok (), upd_data (server_lock_step A l) D)"

fun run_downstream_tasks ::
  "('msg, 'x) sv1_api \<Rightarrow> ('msg, 'x) down_event list \<Rightarrow> 'msg sv1_downstream \<Rightarrow> ('msg, 'x) down_step" where
  "run_downstream_tasks A [] D = (Ok (), D)"
| "run_downstream_tasks A (e # es) D =
     and_then (down_event_step A e D) (\<lambda>_. run_downstream_tasks A es)"

section \<open>What the trait promises\<close>

text \<open>
  The laws of the message library the theorems rely on: \<open>handle_message\<close> changes a
  connection through its handlers only and answers with a response, never with a notification,
  and a \<open>mining.notify\<close> is sent as a notification of that method.
\<close>

definition sv1_api_ok :: "('msg, 'x) sv1_api \<Rightarrow> bool" where
  "sv1_api_ok A \<longleftrightarrow>
     (\<forall>js m d. handled A js d (snd (handle_message A js m d))) \<and>
     (\<forall>js m d r. fst (handle_message A js m d) = Ok (Some r) \<longrightarrow> notification_method A r = None) \<and>
     (\<forall>n. notification_method A (notify_into A n) = Some ''mining.notify'')"

text \<open>The part of a connection's state that no handler of the trait touches.\<close>

definition sv1_core where
  "sv1_core d =
     (sd_channel_id d, sd_downstream_id d, extranonce1 d, sd_target d, cached_set_difficulty d,
      cached_notify d, pending_target d, sv1_handshake_complete d, queued_sv1_handshake_messages d,
      processing_queued d)"

definition valid_share :: "('msg, 'x) sv1_api \<Rightarrow> job_store \<Rightarrow> 'msg sv1_data \<Rightarrow> submit_share \<Rightarrow> bool" where
  "valid_share A js d s \<longleftrightarrow>
     sd_channel_id d = Some (ss_channel_id s) \<and> ss_downstream_id s = sd_downstream_id d \<and>
     ss_extranonce s = extranonce1 d \<and>
     validate_sv1_share A (ss_share s) (sd_target d) (ss_extranonce s) (ss_version_rolling_mask s) js
       (ss_channel_id s) = Ok True"

lemmas handler_defs =
  handle_configure_def authorize_def handle_submit_def set_version_rolling_mask_def
  set_version_rolling_min_bit_def

lemma handled_core: "handled A js d d' \<Longrightarrow> sv1_core d' = sv1_core d"
  by (induction rule: handled.induct)
    (auto simp: handler_defs sv1_core_def Let_def split: option.splits)

lemma handled_share:
  assumes "handled A js d d'" and "pending_share d' = Some s"
  shows "pending_share d = Some s \<or> valid_share A js d s"
  using assms
proof (induction arbitrary: s rule: handled.induct)
  case (handled_submit d d' request)
  then have core: "sv1_core d' = sv1_core d" by (blast intro: handled_core)
  show ?case
  proof (cases "snd (handle_submit A js request d') = d'")
    case True
    with handled_submit show ?thesis by simp
  next
    case False
    with handled_submit.prems core show ?thesis
      by (auto simp: handle_submit_def valid_share_def sv1_core_def split: option.splits if_splits)
  qed
qed (auto simp: handler_defs Let_def split: if_splits)

section \<open>Difficulties, jobs and targets\<close>

abbreviation is_difficulty :: "('msg, 'x) sv1_api \<Rightarrow> 'msg \<Rightarrow> bool" where
  "is_difficulty A m \<equiv> notification_method A m = Some ''mining.set_difficulty''"

abbreviation is_notify :: "('msg, 'x) sv1_api \<Rightarrow> 'msg \<Rightarrow> bool" where
  "is_notify A m \<equiv> notification_method A m = Some ''mining.notify''"

definition last_difficulty :: "('msg, 'x) sv1_api \<Rightarrow> 'msg list \<Rightarrow> 'msg option" where
  "last_difficulty A ms = find (is_difficulty A) (rev ms)"

text \<open>The difficulty in force: the one that waits for the next job, or the last one sent.\<close>

definition current_difficulty :: "('msg, 'x) sv1_api \<Rightarrow> 'msg sv1_downstream \<Rightarrow> 'msg option" where
  "current_difficulty A D =
     (case cached_set_difficulty (downstream_data D) of
        Some m \<Rightarrow> Some m
      | None \<Rightarrow> last_difficulty A (to_miner (downstream_channel_state D)))"

fun event_difficulty ::
  "('msg, 'x) sv1_api \<Rightarrow> 'msg sv1_data \<Rightarrow> ('msg, 'x) down_event \<Rightarrow> 'msg option" where
  "event_difficulty A d (FromServer (Inr (c, i, m))) =
     (if sv1_id_matches d c i \<and> is_difficulty A m then Some m else None)"
| "event_difficulty A d e = None"

definition caches_ok :: "('msg, 'x) sv1_api \<Rightarrow> 'msg sv1_data \<Rightarrow> bool" where
  "caches_ok A d \<longleftrightarrow>
     (\<forall>m. cached_set_difficulty d = Some m \<longrightarrow> is_difficulty A m) \<and>
     (\<forall>m. cached_notify d = Some m \<longrightarrow> is_notify A m)"

text \<open>
  What one step sends to the miner: a job comes last, after every difficulty that was
  waiting, and the target changes only together with a difficulty.
\<close>

definition well_announced ::
  "('msg, 'x) sv1_api \<Rightarrow> 'msg sv1_downstream \<Rightarrow> 'msg sv1_downstream \<Rightarrow> bool" where
  "well_announced A D D' \<longleftrightarrow>
     (\<exists>out. to_miner (downstream_channel_state D') = to_miner (downstream_channel_state D) @ out \<and>
        (\<forall>n\<in>set out. is_notify A n \<longrightarrow>
           cached_set_difficulty (downstream_data D') = None \<and> last out = n \<and>
           \<not> (\<exists>n'\<in>set (butlast out). is_notify A n')) \<and>
        (sd_target (downstream_data D') \<noteq> sd_target (downstream_data D) \<longrightarrow>
           (\<exists>m\<in>set out. is_difficulty A m)))"

lemma last_difficulty_append [simp]:
  "last_difficulty A (ms @ [m]) = (if is_difficulty A m then Some m else last_difficulty A ms)"
  by (simp add: last_difficulty_def)

lemma last_difficulty_append2 [simp]:
  "last_difficulty A (ms @ [m, n]) =
     (if is_difficulty A n then Some n else if is_difficulty A m then Some m else last_difficulty A ms)"
  by (simp add: last_difficulty_def)

lemma last_difficulty_append3 [simp]:
  "last_difficulty A (ms @ [l, m, n]) =
     (if is_difficulty A n then Some n else if is_difficulty A m then Some m
      else if is_difficulty A l then Some l else last_difficulty A ms)"
  by (simp add: last_difficulty_def)

lemma send_miner_Ok:
  "send_miner m D = (Ok u, D') \<longleftrightarrow>
     miner_open (downstream_channel_state D) \<and>
     D' = D \<lparr> downstream_channel_state := (downstream_channel_state D)
              \<lparr> to_miner := to_miner (downstream_channel_state D) @ [m] \<rparr> \<rparr>"
  by (auto simp: send_miner_def Let_def)

lemma send_server_Ok:
  "send_server m D = (Ok u, D') \<longleftrightarrow>
     server_open (downstream_channel_state D) \<and>
     D' = D \<lparr> downstream_channel_state := (downstream_channel_state D)
              \<lparr> to_server := to_server (downstream_channel_state D) @ [m] \<rparr> \<rparr>"
  by (auto simp: send_server_def Let_def)

lemma apply_pending_core [simp]:
  "cached_set_difficulty (apply_pending d) = cached_set_difficulty d"
  "cached_notify (apply_pending d) = cached_notify d"
  "pending_share (apply_pending d) = pending_share d"
  "sd_channel_id (apply_pending d) = sd_channel_id d"
  "sd_downstream_id (apply_pending d) = sd_downstream_id d"
  "sd_target (apply_pending d) = (case pending_target d of Some t \<Rightarrow> t | None \<Rightarrow> sd_target d)"
  "pending_target (apply_pending d) = None"
  "last_job_version_field (apply_pending d) = last_job_version_field d"
  by (auto simp: apply_pending_def Let_def split: option.split)

lemmas step_simps =
  and_then_Ok send_miner_Ok send_server_Ok send_opt_def well_announced_def caches_ok_def
  current_difficulty_def

text \<open>The three facts about a step, kept together.\<close>

definition step_ok ::
  "('msg, 'x) sv1_api \<Rightarrow> 'msg option \<Rightarrow> 'msg sv1_downstream \<Rightarrow> 'msg sv1_downstream \<Rightarrow> bool" where
  "step_ok A new D D' \<longleftrightarrow>
     well_announced A D D' \<and> caches_ok A (downstream_data D') \<and>
     current_difficulty A D' = (case new of Some m \<Rightarrow> Some m | None \<Rightarrow> current_difficulty A D)"

lemma step_ok_refl: "caches_ok A (downstream_data D) \<Longrightarrow> step_ok A None D D"
  by (simp add: step_ok_def step_simps)

lemma send_miner_ok:
  assumes "caches_ok A (downstream_data D)" and "send_miner m D = (Ok (), D')"
    and "\<not> is_difficulty A m" and "\<not> is_notify A m"
  shows "step_ok A None D D'"
  using assms by (auto simp: step_ok_def step_simps split: option.splits)

lemma forward_notify_ok:
  assumes "sv1_api_ok A" and "caches_ok A (downstream_data D)"
    and "forward_notify A m D = (Ok (), D')"
  shows "step_ok A None D D'"
proof (cases "cached_set_difficulty (downstream_data D)")
  case None
  with assms show ?thesis
    by (auto simp: sv1_api_ok_def forward_notify_def step_ok_def step_simps Let_def split: option.splits)
next
  case (Some c)
  with assms show ?thesis
    by (auto simp: sv1_api_ok_def forward_notify_def step_ok_def step_simps Let_def split: option.splits)
qed

lemma before_handshake_ok:
  assumes "caches_ok A (downstream_data D)" and "notification_method A m = Some meth"
    and "before_handshake A meth m D = (Ok (), D')"
  shows "step_ok A (if is_difficulty A m then Some m else None) D D'"
  using assms
  by (auto simp: before_handshake_def step_ok_def step_simps split: option.splits if_splits)

lemma server_step_ok:
  fixes A :: "('msg, 'x) sv1_api"
  assumes "sv1_api_ok A" and "caches_ok A (downstream_data D)"
    and "handle_sv1_server_message A r D = (Ok (), D')"
  shows "step_ok A (event_difficulty A (downstream_data D) (FromServer r)) D D'"
proof (cases r)
  case (Inl e)
  with assms(3) show ?thesis by (simp add: handle_sv1_server_message_def)
next
  case (Inr cim)
  obtain c i m where r: "r = Inr (c, i, m)" using Inr by (cases cim) auto
  show ?thesis
  proof (cases "sv1_id_matches (downstream_data D) c i \<and> notification_method A m \<noteq> None")
    case False
    with assms r show ?thesis
      by (auto simp: handle_sv1_server_message_def step_ok_refl intro: send_miner_ok split: if_splits)
  next
    case True
    then obtain meth where meth: "notification_method A m = Some meth" by blast
    consider "sv1_handshake_complete (downstream_data D)" "is_difficulty A m"
      | "sv1_handshake_complete (downstream_data D)" "is_notify A m"
      | "sv1_handshake_complete (downstream_data D)" "\<not> is_difficulty A m" "\<not> is_notify A m"
      | "\<not> sv1_handshake_complete (downstream_data D)" by blast
    then show ?thesis
    proof cases
      case 1
      then show ?thesis
        using assms True unfolding r handle_sv1_server_message_def by (auto simp: step_ok_def step_simps)
    next
      case 2
      then have "forward_notify A m D = (Ok (), D')"
        using assms True unfolding r handle_sv1_server_message_def by simp
      from forward_notify_ok [OF assms(1,2) this] 2(2) show ?thesis unfolding r by simp
    next
      case 3
      with assms True meth have sent: "send_miner m D = (Ok () :: ('x tproxy_error, unit) res, D')"
        unfolding r handle_sv1_server_message_def by simp
      from send_miner_ok [OF assms(2) sent 3(2,3)] 3(2) show ?thesis unfolding r by simp
    next
      case 4
      then have "before_handshake A meth m D = (Ok (), D')"
        using assms True meth unfolding r handle_sv1_server_message_def by simp
      from before_handshake_ok [OF assms(2) meth this] True show ?thesis unfolding r by simp
    qed
  qed
qed

lemma queue_message_ok:
  assumes "caches_ok A (downstream_data D)" and "queue_message m D = (Ok (), D')"
  shows "step_ok A None D D'"
  using assms by (auto simp: queue_message_def step_ok_def step_simps split: option.splits if_splits)

text \<open>
  The answer to a request of the miner, then for \<open>mining.authorize\<close> the cached
  difficulty and job.
\<close>

lemma completion_ok:
  assumes "caches_ok A (downstream_data D)" and "notification_method A response = None"
    and "miner_open (downstream_channel_state D)"
    and "handle_sv1_handshake_completion
           (D \<lparr> downstream_channel_state := (downstream_channel_state D)
                \<lparr> to_miner := to_miner (downstream_channel_state D) @ [response] \<rparr> \<rparr>) = (Ok (), D')"
  shows "step_ok A None D D'"
proof (cases "cached_set_difficulty (downstream_data D)")
  case None
  with assms show ?thesis
    by (auto simp: handle_sv1_handshake_completion_def step_ok_def step_simps Let_def
        split: option.splits)
next
  case (Some c)
  with assms show ?thesis
    by (auto simp: handle_sv1_handshake_completion_def step_ok_def step_simps Let_def
        split: option.splits)
qed

lemma handled_facts:
  assumes "handled A js d d'"
  shows "sd_channel_id d' = sd_channel_id d" and "sd_downstream_id d' = sd_downstream_id d"
    and "sd_target d' = sd_target d" and "cached_set_difficulty d' = cached_set_difficulty d"
    and "cached_notify d' = cached_notify d"
  using handled_core [OF assms] by (simp_all add: sv1_core_def)

lemma step_ok_handled:
  assumes "handled A js (downstream_data D) d" and "step_ok A new (D \<lparr> downstream_data := d \<rparr>) D'"
  shows "step_ok A new D D'"
  using assms(2) handled_facts [OF assms(1)] by (auto simp: step_ok_def step_simps split: option.splits)

lemma step_ok_cong:
  assumes "sv1_core (downstream_data D2) = sv1_core (downstream_data D1)"
    and "to_miner (downstream_channel_state D2) = to_miner (downstream_channel_state D1)"
  shows "step_ok A new D D2 \<longleftrightarrow> step_ok A new D D1"
proof -
  have "current_difficulty A D2 = current_difficulty A D1"
    using assms by (auto simp: current_difficulty_def sv1_core_def split: option.split)
  with assms show ?thesis
    by (simp add: step_ok_def well_announced_def caches_ok_def sv1_core_def)
qed

lemma step_ok_forward_share:
  assumes "step_ok A new D D1" and "forward_share D1 = (Ok (), D')"
  shows "step_ok A new D D'"
proof -
  have "sv1_core (downstream_data D') = sv1_core (downstream_data D1)"
    and "to_miner (downstream_channel_state D') = to_miner (downstream_channel_state D1)"
    using assms(2) by (auto simp: forward_share_def send_server_Ok sv1_core_def split: option.splits)
  then show ?thesis using assms(1) step_ok_cong by blast
qed

lemma caches_ok_handled: "handled A js d d' \<Longrightarrow> caches_ok A d \<Longrightarrow> caches_ok A d'"
  by (drule handled_core) (simp add: caches_ok_def sv1_core_def)

lemma miner_step_ok:
  fixes A :: "('msg, 'x) sv1_api"
  assumes "sv1_api_ok A" and caches: "caches_ok A (downstream_data D)"
    and step: "handle_sv1_downstream_message A js r D = (Ok (), D')"
  shows "step_ok A None D D'"
proof (cases r)
  case (Inl e)
  with step show ?thesis by (simp add: handle_sv1_downstream_message_def)
next
  case (Inr m)
  show ?thesis
  proof (cases "sd_channel_id (downstream_data D) = None")
    case True
    with step Inr have "queue_message m D = (Ok () :: ('x tproxy_error, unit) res, D')"
      by (simp add: handle_sv1_downstream_message_def)
    with caches show ?thesis by (rule queue_message_ok)
  next
    case False
    obtain a d where hm: "handle_message A js m (downstream_data D) = (a, d)" by fastforce
    let ?D1 = "D \<lparr> downstream_data := d \<rparr>"
    have h: "handled A js (downstream_data D) d"
      using assms(1) hm unfolding sv1_api_ok_def by (metis snd_conv)
    have caches1: "caches_ok A (downstream_data ?D1)"
      using caches_ok_handled [OF h caches] by simp
    from step False Inr hm obtain D2 where
        answer: "answer_miner A m a ?D1 = (Ok (), D2)"
        and share: "forward_share D2 = (Ok () :: ('x tproxy_error, unit) res, D')"
      by (auto simp: handle_sv1_downstream_message_def and_then_Ok)
    have "step_ok A None ?D1 D2"
    proof (cases a)
      case (Ok response)
      show ?thesis
      proof (cases response)
        case None
        with answer Ok caches1 show ?thesis by (simp add: answer_miner_def step_ok_refl)
      next
        case (Some x)
        then have "notification_method A x = None"
          using assms(1) hm Ok unfolding sv1_api_ok_def by (metis fst_conv)
        with answer Ok Some caches1 completion_ok [of A ?D1 x D2] send_miner_ok [of A ?D1 x D2]
        show ?thesis by (auto simp: answer_miner_def and_then_Ok send_miner_Ok split: if_splits)
      qed
    qed (use answer in \<open>auto simp: answer_miner_def\<close>)
    then show ?thesis by (intro step_ok_forward_share [OF step_ok_handled [OF h] share])
  qed
qed

lemma server_lock_ok:
  assumes "sv1_api_ok A" and "caches_ok A (downstream_data D)"
  shows "step_ok A None D (upd_data (server_lock_step A l) D)"
proof (cases l)
  case (HandleQueued js m)
  then have "handled A js (downstream_data D) (server_lock_step A l (downstream_data D))"
    using assms(1) by (simp add: sv1_api_ok_def)
  from step_ok_handled [OF this step_ok_refl] caches_ok_handled [OF this assms(2)]
  show ?thesis by simp
qed (use assms(2) in \<open>auto simp: step_ok_def step_simps open_channel_def set_upstream_target_def
  take_queue_def set_pending_target_def set_pending_hashrate_def Let_def split: option.split\<close>)

section \<open>Whole runs\<close>

lemma event_step_ok:
  assumes "sv1_api_ok A" and "caches_ok A (downstream_data D)"
    and "down_event_step A e D = (Ok (), D')"
  shows "step_ok A (event_difficulty A (downstream_data D) e) D D'"
  using assms server_step_ok [OF assms(1,2)] miner_step_ok [OF assms(1,2)]
    server_lock_ok [OF assms(1,2)] by (cases e) auto

text \<open>The last difficulty among the server's messages for a connection, along a run.\<close>

fun received_difficulty ::
  "('msg, 'x) sv1_api \<Rightarrow> ('msg, 'x) down_event list \<Rightarrow> 'msg sv1_downstream \<Rightarrow> 'msg option \<Rightarrow>
     'msg option" where
  "received_difficulty A [] D acc = acc"
| "received_difficulty A (e # es) D acc =
     received_difficulty A es (snd (down_event_step A e D))
       (case event_difficulty A (downstream_data D) e of Some m \<Rightarrow> Some m | None \<Rightarrow> acc)"

lemma run_append:
  "run_downstream_tasks A (es @ es') D =
     and_then (run_downstream_tasks A es D) (\<lambda>_. run_downstream_tasks A es')"
  by (induction es arbitrary: D) (auto simp: and_then_def split: prod.splits res.splits)

lemma run_ok:
  assumes "sv1_api_ok A" and "caches_ok A (downstream_data D)"
    and "run_downstream_tasks A es D = (Ok (), D')"
  shows "caches_ok A (downstream_data D') \<and>
    current_difficulty A D' = received_difficulty A es D (current_difficulty A D)"
  using assms(2,3)
proof (induction es arbitrary: D)
  case (Cons e es)
  then obtain D1 where D1: "down_event_step A e D = (Ok (), D1)"
      "run_downstream_tasks A es D1 = (Ok (), D')" by (auto simp: and_then_Ok)
  have "step_ok A (event_difficulty A (downstream_data D) e) D D1"
    by (rule event_step_ok [OF assms(1) Cons.prems(1) D1(1)])
  with Cons.IH [OF _ D1(2)] D1(1) show ?case by (simp add: step_ok_def)
qed simp

lemma fresh_connection:
  "caches_ok A (downstream_data (sv1_downstream_new i t h))"
  "current_difficulty A (sv1_downstream_new i t h) = None"
  by (simp_all add: sv1_downstream_new_def sv1_data_new_def caches_ok_def current_difficulty_def
      last_difficulty_def)

end
