(* ===== verification/Tproxy_Downstream_Laws.thy ===== *)
theory Tproxy_Downstream_Laws
  imports Tproxy_Downstream
begin

unbundle bit_operations_syntax

text \<open>
  What a miner's connection of the translator promises over whole runs: the order of
  difficulties and jobs, the announcement of targets, the shares it forwards, and the
  handshake before and after the Sv2 channel is open. The witnesses use \<open>demo_api\<close>, a concrete
  message library whose messages are their method names.
\<close>

section \<open>A concrete message library\<close>

definition demo_notify :: notify where
  "demo_notify = \<lparr> n_job_id = ''1'', n_prev_hash = [], n_coin_base1 = [], n_coin_base2 = [],
     n_merkle_branch = [], n_version = 0x20000000, n_bits = 0, n_time = 0, n_clean_jobs = False \<rparr>"

definition demo_submit :: submit where
  "demo_submit = \<lparr> sb_user_name = ''w'', sb_job_id = ''1'', sb_extra_nonce2 = [1], sb_time = 0,
     sb_nonce = 7, sb_version_bits = Some 0x2000 \<rparr>"

definition demo_base :: "(string, string) sv1_api" where
  "demo_base = \<lparr>
     notification_method =
       (\<lambda>m. if m = ''mining.set_difficulty'' \<or> m = ''mining.notify'' then Some m else None),
     request_method = (\<lambda>m. if m = ''mining.set_difficulty'' \<or> m = ''mining.notify'' then None else Some m),
     notify_try_from = (\<lambda>m. if m = ''mining.notify'' then Some demo_notify else None),
     notify_into = (\<lambda>n. ''mining.notify''),
     handle_message = (\<lambda>js m d. (Ok None, d)),
     version_params_ok = (\<lambda>m b. True),
     u256_from_vec = Inr,
     merkle_root_from_path = (\<lambda>a b en path. Some (replicate 32 0)),
     block_hash_as_target = (\<lambda>h. ucast (hd_nonce h)) \<rparr>"

definition demo_handle ::
  "job_store \<Rightarrow> string \<Rightarrow> string sv1_data \<Rightarrow> (string, string option) res \<times> string sv1_data" where
  "demo_handle js m d =
     (if m = ''mining.authorize'' then (Ok (Some ''true''), authorize ''w'' d)
      else if m = ''mining.submit'' then
        (case handle_submit demo_base js demo_submit d of (ok, d') \<Rightarrow>
           (Ok (Some (if ok then ''true'' else ''false'')), d'))
      else (Ok None, d))"

definition demo_api :: "(string, string) sv1_api" where
  "demo_api = demo_base \<lparr> handle_message := demo_handle \<rparr>"

lemma demo_api_simps [env_simps]:
  "notification_method demo_api m =
     (if m = ''mining.set_difficulty'' \<or> m = ''mining.notify'' then Some m else None)"
  "request_method demo_api m =
     (if m = ''mining.set_difficulty'' \<or> m = ''mining.notify'' then None else Some m)"
  "notify_try_from demo_api m = (if m = ''mining.notify'' then Some demo_notify else None)"
  "notify_into demo_api n = ''mining.notify''"
  "handle_message demo_api = demo_handle"
  by (simp_all add: demo_api_def demo_base_def)

lemma demo_handle_submit: "handle_submit demo_base js request d = handle_submit demo_api js request d"
proof -
  have "validate_sv1_share demo_base = validate_sv1_share demo_api"
    by (intro ext) (simp add: validate_sv1_share_def demo_api_def cong: option.case_cong sum.case_cong if_cong)
  then show ?thesis by (simp add: handle_submit_def split: option.split)
qed

lemma demo_api_ok: "sv1_api_ok demo_api"
proof -
  have "handled demo_api js d (snd (demo_handle js m d))" for js m d
    using handled_authorize [OF handled_refl, of demo_api js d "''w''"]
      handled_submit [OF handled_refl, of demo_api js d demo_submit] handled_refl [of demo_api js d]
    by (auto simp: demo_handle_def demo_handle_submit split: prod.split)
  then show ?thesis
    by (auto simp: sv1_api_ok_def demo_api_simps demo_handle_def split: prod.splits if_splits)
qed

text \<open>A connection whose miner waits for the channel before it authorizes.\<close>

definition demo_jobs :: job_store where
  "demo_jobs = \<lparr> aggregated_valid_jobs = Some [demo_notify], non_aggregated_valid_jobs = None \<rparr>"

definition demo_opened :: "(string, string) down_event list" where
  "demo_opened =
     [FromMiner demo_jobs (Inr ''mining.subscribe''), ByServer (SetChannel 2 [9] 4 100), ByServer TakeQueue,
      FromMiner demo_jobs (Inr ''mining.authorize''), ByServer (SetPendingTarget 50),
      FromServer (Inr (2, None, ''mining.set_difficulty''))]"

lemmas demo_run_simps =
  demo_opened_def run_downstream_tasks.simps down_event_step.simps handle_sv1_downstream_message_def
  handle_sv1_server_message_def answer_miner_def queue_message_def send_server_def send_miner_def send_opt_def
  server_lock_step.simps open_channel_def take_queue_def set_upstream_target_def
  set_pending_target_def demo_handle_def authorize_def is_authorized_def
  handle_sv1_handshake_completion_def forward_share_def sv1_id_matches_def forward_notify_def
  apply_pending_def before_handshake_def sv1_downstream_new_def sv1_data_new_def Let_def env_simps
  demo_notify_def

section \<open>A handshake that is over before the channel is open\<close>

definition no_job_yet :: "('msg, 'x) sv1_api \<Rightarrow> 'msg sv1_downstream \<Rightarrow> bool" where
  "no_job_yet A D \<longleftrightarrow>
     \<not> sv1_handshake_complete (downstream_data D) \<and>
     (\<forall>n\<in>set (to_miner (downstream_channel_state D)). \<not> is_notify A n)"

fun is_authorize :: "('msg, 'x) sv1_api \<Rightarrow> ('msg, 'x) down_event \<Rightarrow> bool" where
  "is_authorize A (FromMiner js (Inr m)) = (request_method A m = Some ''mining.authorize'')"
| "is_authorize A e = False"

lemma no_job_handled:
  "handled A js d d' \<Longrightarrow> sv1_handshake_complete d' = sv1_handshake_complete d"
  by (drule handled_core) (simp add: sv1_core_def)

lemma no_job_server:
  assumes "no_job_yet A D" and "handle_sv1_server_message A r D = (Ok (), D')"
  shows "no_job_yet A D'"
  using assms
  by (auto simp: no_job_yet_def handle_sv1_server_message_def before_handshake_def send_miner_Ok
      split: sum.splits prod.splits option.splits if_splits)

lemma no_job_forward_share:
  assumes "no_job_yet A D" and "forward_share D = (Ok (), D')"
  shows "no_job_yet A D'"
  using assms by (auto simp: no_job_yet_def forward_share_def send_server_Ok split: option.splits)

lemma no_job_queue:
  assumes "no_job_yet A D" and "queue_message m D = (Ok (), D')"
  shows "no_job_yet A D'"
  using assms by (auto simp: no_job_yet_def queue_message_def and_then_Ok send_server_Ok split: if_splits)

lemma no_job_miner:
  fixes A :: "('msg, 'x) sv1_api"
  assumes api: "sv1_api_ok A" and "no_job_yet A D" and "request_method A m \<noteq> Some ''mining.authorize''"
    and step: "handle_sv1_downstream_message A js (Inr m) D = (Ok (), D')"
  shows "no_job_yet A D'"
proof (cases "sd_channel_id (downstream_data D) = None")
  case True
  with step assms(2) show ?thesis
    by (auto simp: handle_sv1_downstream_message_def intro: no_job_queue)
next
  case False
  obtain a d where hm: "handle_message A js m (downstream_data D) = (a, d)" by fastforce
  let ?D1 = "D \<lparr> downstream_data := d \<rparr>"
  have "handled A js (downstream_data D) d"
    using api hm unfolding sv1_api_ok_def by (metis snd_conv)
  with assms(2) have D1: "no_job_yet A ?D1" by (simp add: no_job_yet_def no_job_handled)
  have resp: "notification_method A x = None" if "a = Ok (Some x)" for x
    using api hm that unfolding sv1_api_ok_def by (metis fst_conv)
  from step False hm assms(3) obtain D2 where
      "(a = Ok None \<and> D2 = ?D1) \<or>
       (\<exists>x. a = Ok (Some x) \<and> send_miner x ?D1 = (Ok () :: ('x tproxy_error, unit) res, D2))"
    and share: "forward_share D2 = (Ok () :: ('x tproxy_error, unit) res, D')"
    by (cases a) (auto simp: handle_sv1_downstream_message_def answer_miner_def and_then_Ok split: option.splits)
  then have "no_job_yet A D2"
    using D1 resp by (auto simp: no_job_yet_def send_miner_Ok)
  then show ?thesis using share by (rule no_job_forward_share)
qed

lemma no_job_lock:
  assumes "sv1_api_ok A" and "no_job_yet A D"
  shows "no_job_yet A (upd_data (server_lock_step A l) D)"
proof (cases l)
  case (HandleQueued js m)
  then have "handled A js (downstream_data D) (server_lock_step A l (downstream_data D))"
    using assms(1) by (simp add: sv1_api_ok_def)
  with assms(2) show ?thesis by (simp add: no_job_yet_def no_job_handled)
qed (use assms(2) in \<open>simp_all add: no_job_yet_def open_channel_def set_upstream_target_def
  take_queue_def set_pending_target_def set_pending_hashrate_def Let_def\<close>)

lemma no_job_run:
  assumes "sv1_api_ok A" and "no_job_yet A D" and "\<not> (\<exists>e\<in>set es. is_authorize A e)"
    and "run_downstream_tasks A es D = (Ok (), D')"
  shows "no_job_yet A D'"
  using assms(2-)
proof (induction es arbitrary: D)
  case (Cons e es)
  then obtain D1 where D1: "down_event_step A e D = (Ok (), D1)"
      "run_downstream_tasks A es D1 = (Ok (), D')" by (auto simp: and_then_Ok)
  have "no_job_yet A D1"
  proof (cases e)
    case (FromServer r)
    with D1(1) Cons.prems(1) show ?thesis by (auto intro: no_job_server)
  next
    case (FromMiner js r)
    show ?thesis
    proof (cases r)
      case (Inl x)
      with FromMiner D1(1) show ?thesis by (simp add: handle_sv1_downstream_message_def)
    next
      case (Inr m)
      with FromMiner D1(1) Cons.prems(1,2) show ?thesis by (auto intro: no_job_miner [OF assms(1)])
    qed
  next
    case (ByServer l)
    with D1(1) no_job_lock [OF assms(1) Cons.prems(1)] show ?thesis by auto
  qed
  with Cons.IH [OF _ _ D1(2)] Cons.prems(2) show ?case by simp
qed simp

lemma queue_run:
  assumes "sd_channel_id (downstream_data D) = None" and "server_open (downstream_channel_state D)"
  shows "\<exists>D'. run_downstream_tasks A (map (\<lambda>m. FromMiner js (Inr m)) ms) D = (Ok (), D') \<and>
    downstream_data D' = (downstream_data D)
      \<lparr> queued_sv1_handshake_messages := queued_sv1_handshake_messages (downstream_data D) @ ms \<rparr> \<and>
    downstream_channel_state D' = (downstream_channel_state D)
      \<lparr> to_server := to_server (downstream_channel_state D) @
          (if ms \<noteq> [] \<and> queued_sv1_handshake_messages (downstream_data D) = []
           then [OpenChannel (sd_downstream_id (downstream_data D))] else []) \<rparr>"
  using assms
proof (induction ms arbitrary: D)
  case (Cons m ms)
  let ?first = "queued_sv1_handshake_messages (downstream_data D) = []"
  let ?D1 = "D \<lparr> downstream_data := (downstream_data D)
      \<lparr> queued_sv1_handshake_messages := queued_sv1_handshake_messages (downstream_data D) @ [m] \<rparr>,
    downstream_channel_state := (downstream_channel_state D)
      \<lparr> to_server := to_server (downstream_channel_state D) @
          (if ?first then [OpenChannel (sd_downstream_id (downstream_data D))] else []) \<rparr> \<rparr>"
  have "handle_sv1_downstream_message A js (Inr m) D = (Ok (), ?D1)"
    using Cons.prems
    by (auto simp: handle_sv1_downstream_message_def queue_message_def send_server_def Let_def)
  with Cons.IH [of ?D1] Cons.prems show ?case by simp
qed simp

section \<open>Properties\<close>

text \<open>
  C6. Whatever mix of server messages, miner messages and changes by the server came before, a job
  reaches the miner only after the last difficulty the server announced to it: the job is the
  last message its event sends, and the last difficulty the miner then has is the last one the
  server sent for this connection.
\<close>

theorem difficulty_before_job:
  assumes "sv1_api_ok A"
    and "run_downstream_tasks A es (sv1_downstream_new i t h) = (Ok (), D)"
    and "down_event_step A e D = (Ok (), D')"
    and "to_miner (downstream_channel_state D') = to_miner (downstream_channel_state D) @ out"
    and "n \<in> set out" and "is_notify A n"
  shows "last out = n \<and>
    last_difficulty A (to_miner (downstream_channel_state D')) =
      received_difficulty A (es @ [e]) (sv1_downstream_new i t h) None"
proof -
  let ?D0 = "sv1_downstream_new i t h"
  have caches: "caches_ok A (downstream_data D)"
    using run_ok [OF assms(1) fresh_connection(1) assms(2)] by simp
  have "run_downstream_tasks A (es @ [e]) ?D0 = (Ok (), D')"
    using assms(2,3) by (simp add: run_append)
  from run_ok [OF assms(1) fresh_connection(1) this] have
    cur: "current_difficulty A D' = received_difficulty A (es @ [e]) ?D0 None"
    by (simp add: fresh_connection(2))
  from event_step_ok [OF assms(1) caches assms(3)] have
    "cached_set_difficulty (downstream_data D') = None" and last: "last out = n"
    using assms(4,5,6) by (auto simp: step_ok_def well_announced_def)
  then have "last_difficulty A (to_miner (downstream_channel_state D')) = current_difficulty A D'"
    by (simp add: current_difficulty_def)
  with cur last show ?thesis by simp
qed

theorem difficulty_before_job_witness:
  "\<exists>D D'. run_downstream_tasks demo_api demo_opened (sv1_downstream_new 1 100 None) = (Ok (), D) \<and>
     down_event_step demo_api (FromServer (Inr (2, None, ''mining.notify''))) D = (Ok (), D') \<and>
     last_difficulty demo_api (to_miner (downstream_channel_state D')) = Some ''mining.set_difficulty''"
proof -
  let ?e = "FromServer (Inr (2, None, ''mining.notify''))"
  obtain D where D: "run_downstream_tasks demo_api demo_opened (sv1_downstream_new 1 100 None) = (Ok (), D)"
    by (simp add: demo_run_simps)
  obtain D' where D': "down_event_step demo_api ?e D = (Ok (), D')"
      "to_miner (downstream_channel_state D') =
         to_miner (downstream_channel_state D) @ [''mining.set_difficulty'', ''mining.notify'']"
    using D by (auto simp: demo_run_simps)
  have r: "received_difficulty demo_api (demo_opened @ [?e]) (sv1_downstream_new 1 100 None) None =
      Some ''mining.set_difficulty''"
    by (simp add: demo_run_simps)
  from difficulty_before_job [OF demo_api_ok D D'(1) D'(2), of "''mining.notify''"] D D'(1) r
  show ?thesis by (auto simp: demo_api_simps)
qed

text \<open>
  The target that shares are checked against changes only in an event that also sends the
  miner a difficulty.
\<close>

theorem target_changes_announced:
  assumes "sv1_api_ok A"
    and "run_downstream_tasks A es (sv1_downstream_new i t h) = (Ok (), D)"
    and "down_event_step A e D = (Ok (), D')"
    and "sd_target (downstream_data D') \<noteq> sd_target (downstream_data D)"
  shows "\<exists>out m. to_miner (downstream_channel_state D') = to_miner (downstream_channel_state D) @ out \<and>
    m \<in> set out \<and> is_difficulty A m"
proof -
  have "caches_ok A (downstream_data D)"
    using run_ok [OF assms(1) fresh_connection(1) assms(2)] by simp
  from event_step_ok [OF assms(1) this assms(3)] assms(4) show ?thesis
    by (auto simp: step_ok_def well_announced_def)
qed

theorem target_changes_announced_witness:
  "\<exists>D D' out m. run_downstream_tasks demo_api demo_opened (sv1_downstream_new 1 100 None) = (Ok (), D) \<and>
     down_event_step demo_api (FromServer (Inr (2, None, ''mining.notify''))) D = (Ok (), D') \<and>
     to_miner (downstream_channel_state D') = to_miner (downstream_channel_state D) @ out \<and>
     m \<in> set out \<and> is_difficulty demo_api m"
proof -
  let ?e = "FromServer (Inr (2, None, ''mining.notify''))"
  obtain D where D: "run_downstream_tasks demo_api demo_opened (sv1_downstream_new 1 100 None) = (Ok (), D)"
    by (simp add: demo_run_simps)
  obtain D' where D': "down_event_step demo_api ?e D = (Ok (), D')"
      "sd_target (downstream_data D') \<noteq> sd_target (downstream_data D)"
    using D by (auto simp: demo_run_simps)
  from target_changes_announced [OF demo_api_ok D D'] D D'(1) show ?thesis by blast
qed

text \<open>
  A miner that sends all its handshake messages, \<open>mining.authorize\<close> included, before the Sv2
  channel is open gets no job afterwards: the queued \<open>mining.authorize\<close> is answered, but
  nothing marks the handshake as complete, so that every job is only cached, whatever
  the server and the miner send, until the miner authorizes a second time.
\<close>

theorem queued_authorize_gets_no_job:
  assumes "sv1_api_ok A"
    and "run_downstream_tasks A (map (\<lambda>m. FromMiner js (Inr m)) ms @ es) (sv1_downstream_new i t h) =
      (Ok (), D)"
    and "\<not> (\<exists>e\<in>set es. is_authorize A e)"
  shows "\<forall>n\<in>set (to_miner (downstream_channel_state D)). \<not> is_notify A n"
proof -
  obtain D1 where run1: "run_downstream_tasks A (map (\<lambda>m. FromMiner js (Inr m)) ms)
        (sv1_downstream_new i t h) = (Ok (), D1)"
      and "no_job_yet A D1"
    using queue_run [of "sv1_downstream_new i t h" A js ms]
    by (auto simp: sv1_downstream_new_def sv1_data_new_def no_job_yet_def)
  moreover have "run_downstream_tasks A es D1 = (Ok (), D)"
    using assms(2) run1 by (simp add: run_append)
  ultimately have "no_job_yet A D" using no_job_run [OF assms(1) _ assms(3)] by blast
  then show ?thesis by (simp add: no_job_yet_def)
qed

theorem queued_authorize_gets_no_job_witness:
  "\<exists>D. run_downstream_tasks demo_api
       (map (\<lambda>m. FromMiner demo_jobs (Inr m)) [''mining.subscribe'', ''mining.authorize''] @
        [ByServer (SetChannel 2 [9] 4 100), ByServer TakeQueue,
         ByServer (HandleQueued demo_jobs ''mining.subscribe''),
         ByServer (HandleQueued demo_jobs ''mining.authorize''),
         FromServer (Inr (2, Some 1, ''true'')),
         FromServer (Inr (2, None, ''mining.set_difficulty'')), FromServer (Inr (2, None, ''mining.notify''))])
       (sv1_downstream_new 1 100 None) = (Ok (), D) \<and>
     to_miner (downstream_channel_state D) = [''true''] \<and>
     (\<forall>n\<in>set (to_miner (downstream_channel_state D)). \<not> is_notify demo_api n)"
proof -
  let ?es = "[ByServer (SetChannel 2 [9] 4 100), ByServer TakeQueue,
         ByServer (HandleQueued demo_jobs ''mining.subscribe''),
         ByServer (HandleQueued demo_jobs ''mining.authorize''),
         FromServer (Inr (2, Some 1, ''true'')),
         FromServer (Inr (2, None, ''mining.set_difficulty'')), FromServer (Inr (2, None, ''mining.notify''))]
         :: (string, string) down_event list"
  obtain D where D: "run_downstream_tasks demo_api
      (map (\<lambda>m. FromMiner demo_jobs (Inr m)) [''mining.subscribe'', ''mining.authorize''] @ ?es)
      (sv1_downstream_new 1 100 None) = (Ok (), D)"
    and out: "to_miner (downstream_channel_state D) = [''true'']"
    by (simp add: demo_run_simps)
  have "\<not> (\<exists>e\<in>set ?es. is_authorize demo_api e)" by simp
  from queued_authorize_gets_no_job [OF demo_api_ok D this] D out show ?thesis by blast
qed

text \<open>
  The messages a miner sends before the channel is open are all queued in order, and the first
  of them, and only it, makes the connection ask the server for a channel.
\<close>

theorem first_message_opens_channel:
  assumes "ms \<noteq> []"
  shows "\<exists>D. run_downstream_tasks A (map (\<lambda>m. FromMiner js (Inr m)) ms) (sv1_downstream_new i t h) =
      (Ok (), D) \<and>
    queued_sv1_handshake_messages (downstream_data D) = ms \<and>
    to_server (downstream_channel_state D) = [OpenChannel i] \<and>
    to_miner (downstream_channel_state D) = []"
  using assms queue_run [of "sv1_downstream_new i t h" A js ms]
  by (auto simp: sv1_downstream_new_def sv1_data_new_def)

theorem first_message_opens_channel_witness:
  "\<exists>D. run_downstream_tasks demo_api
      (map (\<lambda>m. FromMiner demo_jobs (Inr m)) [''mining.subscribe'', ''mining.authorize''])
      (sv1_downstream_new 1 100 None) = (Ok (), D) \<and>
    queued_sv1_handshake_messages (downstream_data D) = [''mining.subscribe'', ''mining.authorize''] \<and>
    to_server (downstream_channel_state D) = [OpenChannel 1] \<and>
    to_miner (downstream_channel_state D) = []"
  by (rule first_message_opens_channel) simp

section \<open>Shares\<close>

lemma completion_shares:
  assumes "handle_sv1_handshake_completion D = (r, D')"
  shows "to_server (downstream_channel_state D') = to_server (downstream_channel_state D)"
    and "pending_share (downstream_data D') = pending_share (downstream_data D)"
  using assms
  by (auto simp: handle_sv1_handshake_completion_def send_miner_def send_opt_def and_then_def Let_def
      split: option.splits if_splits prod.splits res.splits)

text \<open>The shares that a connection has forwarded or is about to forward.\<close>

definition share_known :: "'msg sv1_downstream \<Rightarrow> submit_share \<Rightarrow> bool" where
  "share_known D s \<longleftrightarrow>
     SubmitShares s \<in> set (to_server (downstream_channel_state D)) \<or> pending_share (downstream_data D) = Some s"

lemma share_known_sends:
  "share_known (snd (send_miner m D)) s \<longleftrightarrow> share_known D s"
  "share_known (snd (send_opt mo D)) s \<longleftrightarrow> share_known D s"
  by (simp_all add: share_known_def send_miner_def send_opt_def Let_def split: option.split)

lemma share_known_upd:
  "pending_share d = pending_share (downstream_data D) \<Longrightarrow>
     share_known (D \<lparr> downstream_data := d \<rparr>) s \<longleftrightarrow> share_known D s"
  by (simp add: share_known_def)

lemma forward_share_known: "share_known (snd (forward_share D)) s \<Longrightarrow> share_known D s"
  by (auto simp: share_known_def forward_share_def send_server_def Let_def split: option.splits if_splits)

lemma answer_share_known: "share_known (snd (answer_miner A m a D :: ('a, 'b) down_step)) s \<longleftrightarrow> share_known D s"
proof -
  have "share_known (snd (handle_sv1_handshake_completion D1 :: ('a, 'b) down_step)) s \<longleftrightarrow> share_known D1 s" for D1
    using completion_shares [of D1 "fst (handle_sv1_handshake_completion D1 :: ('a, 'b) down_step)"
        "snd (handle_sv1_handshake_completion D1 :: ('a, 'b) down_step)"] by (simp add: share_known_def)
  moreover have "share_known D1 s \<longleftrightarrow> share_known D s" if "send_miner x D = (r :: ('b tproxy_error, unit) res, D1)" for x r D1
    using that by (auto simp: send_miner_def share_known_def Let_def split: if_splits)
  ultimately show ?thesis
    by (auto simp: answer_miner_def and_then_def split: res.split option.split prod.split)
qed

lemma server_share_known: "share_known (snd (handle_sv1_server_message A r D)) s \<longleftrightarrow> share_known D s"
proof -
  have "share_known (snd (forward_notify A m D)) s \<longleftrightarrow> share_known D s" for m
    by (auto simp: forward_notify_def share_known_def and_then_def send_opt_def send_miner_def Let_def
        split: option.split)
  then show ?thesis
    by (auto simp: handle_sv1_server_message_def before_handshake_def share_known_sends
        share_known_upd split: sum.split prod.split option.split)
qed

text \<open>A share appears only in an event that runs the message handler, and is valid there.\<close>

lemma event_share_known:
  fixes A :: "('msg, 'x) sv1_api"
  assumes api: "sv1_api_ok A" and known: "share_known (snd (down_event_step A e D)) s"
  shows "share_known D s \<or> (\<exists>js m. (e = FromMiner js (Inr m) \<or> e = ByServer (HandleQueued js m)) \<and>
    valid_share A js (downstream_data D) s)"
proof -
  have handled: "share_known D s \<or> valid_share A js (downstream_data D) s"
    if "share_known (D \<lparr> downstream_data := snd (handle_message A js m (downstream_data D)) \<rparr>) s" for js m
    using that handled_share [of A js "downstream_data D" "snd (handle_message A js m (downstream_data D))" s] api
    by (auto simp: share_known_def sv1_api_ok_def)
  show ?thesis
  proof (cases e)
    case (FromServer r)
    with known show ?thesis by (simp add: server_share_known)
  next
    case (FromMiner js r)
    show ?thesis
    proof (cases r)
      case (Inl x)
      with FromMiner known show ?thesis by (simp add: handle_sv1_downstream_message_def)
    next
      case (Inr m)
      show ?thesis
      proof (cases "sd_channel_id (downstream_data D) = None")
        case True
        with FromMiner Inr known show ?thesis
          by (auto simp: handle_sv1_downstream_message_def queue_message_def and_then_def send_server_def
              share_known_def Let_def split: if_splits)
      next
        case False
        obtain a d where hm: "handle_message A js m (downstream_data D) = (a, d)" by fastforce
        obtain r2 D2 where answer:
            "answer_miner A m a (D \<lparr> downstream_data := d \<rparr>) = (r2 :: ('x tproxy_error, unit) res, D2)" by fastforce
        have "snd (down_event_step A e D) = D2 \<or>
            snd (down_event_step A e D) = snd (forward_share D2 :: ('msg, 'x) down_step)"
          using FromMiner Inr False hm answer by (cases r2) (auto simp: handle_sv1_downstream_message_def)
        with known have "share_known D2 s" by (auto dest: forward_share_known)
        with answer answer_share_known [of A m a "D \<lparr> downstream_data := d \<rparr>" s]
        have "share_known (D \<lparr> downstream_data := d \<rparr>) s" by simp
        with handled [of js m] hm FromMiner Inr show ?thesis by auto
      qed
    qed
  next
    case (ByServer l)
    show ?thesis
    proof (cases l)
      case (HandleQueued js m)
      with ByServer known handled [of js m] show ?thesis by auto
    qed (use ByServer known in \<open>auto simp: share_known_def open_channel_def take_queue_def
      set_upstream_target_def set_pending_target_def set_pending_hashrate_def Let_def split: if_splits\<close>)
  qed
qed

text \<open>
  C22. Every share that a connection forwards, whatever events it saw before, was valid when the
  message that carried it was handled: that event of the run is a message of the miner, or one
  from the queue of the time before the channel was open, and in the state
  before it the share has the channel, identifier and extranonce of the connection and meets its
  target on a job the server had announced for that channel. The
  target is the one of that moment: a share from the queue is not checked again when it is forwarded.
\<close>

theorem forwarded_shares_valid:
  assumes "sv1_api_ok A" and "run_downstream_tasks A es (sv1_downstream_new i t h) = (r, D)"
    and "SubmitShares s \<in> set (to_server (downstream_channel_state D))"
  shows "\<exists>es1 e es2 js m D1. es = es1 @ e # es2 \<and>
    run_downstream_tasks A es1 (sv1_downstream_new i t h) = (Ok (), D1) \<and>
    (e = FromMiner js (Inr m) \<or> e = ByServer (HandleQueued js m)) \<and> valid_share A js (downstream_data D1) s"
proof -
  have "share_known D s" using assms(3) by (simp add: share_known_def)
  with assms(2) show ?thesis
  proof (induction es arbitrary: r D rule: rev_induct)
    case Nil
    then show ?case by (auto simp: share_known_def sv1_downstream_new_def sv1_data_new_def)
  next
    case (snoc e es)
    obtain r1 D1 where run: "run_downstream_tasks A es (sv1_downstream_new i t h) = (r1, D1)" by fastforce
    have ih: ?case if "share_known D1 s"
    proof -
      from snoc.IH [OF run that] obtain es1 e1 es2 js m D2 where "es = es1 @ e1 # es2"
          and D2: "run_downstream_tasks A es1 (sv1_downstream_new i t h) = (Ok (), D2)"
          "e1 = FromMiner js (Inr m) \<or> e1 = ByServer (HandleQueued js m)" "valid_share A js (downstream_data D2) s"
        by blast
      then have "es @ [e] = es1 @ e1 # (es2 @ [e])" by simp
      with D2 show ?thesis by blast
    qed
    show ?case
    proof (cases "r1 = Ok ()")
      case True
      with run snoc.prems(1) have "D = snd (down_event_step A e D1)"
        by (cases "down_event_step A e D1"; cases "fst (down_event_step A e D1)") (auto simp: run_append)
      with event_share_known [OF assms(1), of e D1 s] snoc.prems(2) consider "share_known D1 s"
        | js m where "e = FromMiner js (Inr m) \<or> e = ByServer (HandleQueued js m)"
            "valid_share A js (downstream_data D1) s" by blast
      then show ?thesis
      proof cases
        case 2
        have "es @ [e] = es @ e # []" by simp
        with 2 run True show ?thesis by blast
      qed (rule ih)
    next
      case False
      with run snoc.prems(1) have "D = D1" by (cases r1) (auto simp: run_append)
      with ih snoc.prems(2) show ?thesis by simp
    qed
  qed
qed

theorem forwarded_shares_valid_witness:
  "\<exists>D s js D1. run_downstream_tasks demo_api
       [FromMiner demo_jobs (Inr ''mining.submit''), ByServer (SetChannel 2 [9] 4 100), ByServer TakeQueue,
        ByServer (HandleQueued demo_jobs ''mining.submit''), ByServer (SetUpstreamTarget 5),
        FromMiner demo_jobs (Inr ''mining.subscribe'')] (sv1_downstream_new 1 100 None) = (Ok (), D) \<and>
     to_server (downstream_channel_state D) = [OpenChannel 1, SubmitShares s] \<and>
     valid_share demo_api js (downstream_data (D1 :: string sv1_downstream)) s"
proof -
  let ?es = "[FromMiner demo_jobs (Inr ''mining.submit''), ByServer (SetChannel 2 [9] 4 100), ByServer TakeQueue,
        ByServer (HandleQueued demo_jobs ''mining.submit''), ByServer (SetUpstreamTarget 5),
        FromMiner demo_jobs (Inr ''mining.subscribe'')] :: (string, string) down_event list"
  have valid: "validate_sv1_share demo_base demo_submit 100 [9] None demo_jobs 2 = Ok True"
    by (simp add: validate_Ok_iff valid_job_def demo_jobs_def find_job_def demo_submit_def demo_notify_def
        demo_base_def)
  obtain D s where run: "run_downstream_tasks demo_api ?es (sv1_downstream_new 1 100 None) = (Ok (), D)"
    and out: "to_server (downstream_channel_state D) = [OpenChannel 1, SubmitShares s]"
    using valid by (simp add: demo_run_simps handle_submit_def)
  from forwarded_shares_valid [OF demo_api_ok run, of s] out obtain js and D1 :: "string sv1_downstream" where
      "valid_share demo_api js (downstream_data D1) s" by auto
  with out run show ?thesis by blast
qed

text \<open>
  C25. After \<open>mining.configure\<close> the header of a share differs from the version of its job only in
  the bits \<open>0x1FFFE000\<close> that miners may roll, whatever mask and version the miner asks for.
\<close>

theorem configured_versions_bounded:
  assumes "handle_configure A msk b d = (Ok p, d')"
  shows "rolled_version job share (version_rolling_mask d') AND NOT VERSION_ROLLING_MASK =
    n_version job AND NOT VERSION_ROLLING_MASK"
proof -
  obtain m where m: "version_rolling_mask d' = Some (m AND VERSION_ROLLING_MASK) \<or> version_rolling_mask d' = None"
    using assms by (cases msk) (auto simp: handle_configure_def Let_def split: if_splits)
  have none: "rolled_version job share None = rolled_version job share (Some VERSION_ROLLING_MASK)"
    by (simp add: rolled_version_def)
  have "bit (rolled_version job share (version_rolling_mask d')) i = bit (n_version job) i"
    if "\<not> bit VERSION_ROLLING_MASK i" for i
    using that m by (auto simp: none rolled_version_bit bit_and_iff)
  then show ?thesis by (intro bit_word_eqI) (auto simp: bit_and_iff bit_not_iff)
qed

theorem configured_versions_bounded_witness:
  "rolled_version demo_notify demo_submit
     (version_rolling_mask (snd (handle_configure demo_api (Some 0xFFFFFFFF) None
        (sv1_data_new 1 100 None)))) AND NOT VERSION_ROLLING_MASK = n_version demo_notify AND NOT VERSION_ROLLING_MASK"
proof -
  have "handle_configure demo_api (Some 0xFFFFFFFF) None (sv1_data_new 1 100 None) =
      (Ok (Some (0xFFFFFFFF AND VERSION_ROLLING_MASK, 0), Some False),
       snd (handle_configure demo_api (Some 0xFFFFFFFF) None (sv1_data_new 1 100 None)))"
    by (simp add: handle_configure_def Let_def demo_api_def demo_base_def)
  from configured_versions_bounded [OF this] show ?thesis .
qed

end
