(* ===== verification/Tproxy_Difficulty.thy ===== *)
theory Tproxy_Difficulty
  imports Tproxy_State Tproxy_Downstream_Laws
begin

text \<open>
  The difficulty manager of the translator (\<open>sv1/sv1_server/difficulty_manager.rs\<close>): the
  periodic adjustment of every connection, the \<open>UpdateChannel\<close> messages that announce it
  upstream, and the release of delayed difficulties by a \<open>SetTarget\<close> from upstream.
\<close>

section \<open>Effective targets and hashrates\<close>

definition effective_target :: "'msg sv1_data \<Rightarrow> target" where
  "effective_target d = (case pending_target d of Some t \<Rightarrow> t | None \<Rightarrow> sd_target d)"

text \<open>\<open>pending_hashrate.unwrap_or(hashrate.unwrap())\<close> evaluates the inner \<open>unwrap\<close> first.\<close>

definition effective_hashrate :: "'msg sv1_data \<Rightarrow> hashrate option" where
  "effective_hashrate d =
     (case sd_hashrate d of
        None \<Rightarrow> None
      | Some h \<Rightarrow> Some (case pending_hashrate d of Some p \<Rightarrow> p | None \<Rightarrow> h))"

fun min_target :: "target list \<Rightarrow> target option" where
  "min_target [] = None"
| "min_target (t # ts) = Some (case min_target ts of None \<Rightarrow> t | Some u \<Rightarrow> if u < t then u else t)"

definition all_data :: "('msg, 'v, 'b, 'tlv) sv1_server \<Rightarrow> 'msg sv1_data list" where
  "all_data S = map (\<lambda>(i, D). downstream_data D) (downstreams (sv1_server_data S))"

definition total_hashrate ::
  "('msg, 'x, 'v, 'b, 'tlv) tp_lib \<Rightarrow> ('msg, 'v, 'b, 'tlv) sv1_server \<Rightarrow> hashrate option" where
  "total_hashrate L S = map_option (f32_sum L) (those (map effective_hashrate (all_data S)))"

section \<open>Announcing updates upstream\<close>

type_synonym target_update = "usize \<times> u32 \<times> target \<times> hashrate"

abbreviation update_downstream :: "target_update \<Rightarrow> usize" where
  "update_downstream u \<equiv> fst u"

abbreviation update_channel_of :: "target_update \<Rightarrow> u32" where
  "update_channel_of u \<equiv> fst (snd u)"

abbreviation update_target :: "target_update \<Rightarrow> target" where
  "update_target u \<equiv> fst (snd (snd u))"

definition update_message :: "target_update \<Rightarrow> 'b tp_mining" where
  "update_message u =
     (case u of (i, c, t, h) \<Rightarrow>
        UpdateChan \<lparr> uc_channel_id = c, uc_nominal_hash_rate = h, uc_maximum_target = t \<rparr>)"

definition send_update_channel_messages ::
  "('msg, 'x, 'v, 'b, 'tlv) tp_lib \<Rightarrow> bool \<Rightarrow> target_update list \<Rightarrow> ('msg, 'v, 'b, 'tlv) sv1_server \<Rightarrow>
     ('msg, 'x, 'v, 'b, 'tlv, unit) server_step" where
  "send_update_channel_messages L aggregated updates S =
     (if aggregated then
        (case updates of
           [] \<Rightarrow> (Ok (), S)
         | (_, c, _, _) # _ \<Rightarrow>
             (case min_target (map effective_target (all_data S)) of
                None \<Rightarrow> (Panic ''At least one downstream should exist'', S)
              | Some t \<Rightarrow>
                  (case total_hashrate L S of
                     None \<Rightarrow> (Panic ''called `Option::unwrap()` on a `None` value'', S)
                   | Some h \<Rightarrow>
                       (Ok (), post_manager (UpdateChan
                          \<lparr> uc_channel_id = c, uc_nominal_hash_rate = h, uc_maximum_target = t \<rparr>) S))))
      else
        (Ok (), fold post_manager (map update_message updates) S))"

definition send_update_channel_on_downstream_state_change ::
  "('msg, 'x, 'v, 'b, 'tlv) tp_lib \<Rightarrow> bool \<Rightarrow> ('msg, 'v, 'b, 'tlv) sv1_server \<Rightarrow>
     ('msg, 'x, 'v, 'b, 'tlv, unit) server_step" where
  "send_update_channel_on_downstream_state_change L aggregated S =
     (if \<not> aggregated then (Ok (), S)
      else
        (case total_hashrate L S of
           None \<Rightarrow> (Panic ''called `Option::unwrap()` on a `None` value'', S)
         | Some h \<Rightarrow>
             (case min_target (map effective_target (all_data S)) of
                Some t \<Rightarrow>
                  (Ok (), post_manager (UpdateChan
                     \<lparr> uc_channel_id = 0, uc_nominal_hash_rate = h, uc_maximum_target = t \<rparr>) S)
              | None \<Rightarrow>
                  (Ok (), post_manager (UpdateChan
                     \<lparr> uc_channel_id = 0, uc_nominal_hash_rate = 0, uc_maximum_target = - 1 \<rparr>) S))))"

section \<open>The periodic adjustment\<close>

text \<open>One entry of the vardiff map; the flag tells whether the difficulty is sent at once.\<close>

definition vardiff_downstream ::
  "('msg, 'x, 'v, 'b, 'tlv) tp_lib \<Rightarrow> f32 \<Rightarrow> usize \<Rightarrow> 'v \<Rightarrow> ('msg, 'v, 'b, 'tlv) sv1_server \<Rightarrow>
     ('msg, 'x, 'v, 'b, 'tlv, (target_update \<times> bool) option) server_step" where
  "vardiff_downstream L spm i v S =
     (case get_down S i of
        None \<Rightarrow> (Ok None, S)
      | Some D \<Rightarrow>
          (let d = downstream_data D in
           case sd_hashrate d of
             None \<Rightarrow> (Panic ''called `Option::unwrap()` on a `None` value'', S)
           | Some h \<Rightarrow>
               (case sd_channel_id d of
                  None \<Rightarrow> (Ok None, S)
                | Some c \<Rightarrow>
                    (case try_vardiff L h (sd_target d) spm v of (r, v') \<Rightarrow>
                      let S1 = upd_server (\<lambda>s. s \<lparr> sv_vardiff := hm_insert i v' (sv_vardiff s) \<rparr>) S in
                      case r of
                        None \<Rightarrow> (Ok None, S1)
                      | Some h' \<Rightarrow>
                          (case hash_rate_to_target L h' spm of
                             None \<Rightarrow> (Ok None, S1)
                           | Some t \<Rightarrow>
                               let S2 = lock_down (set_pending_hashrate (Some h') \<circ> set_pending_target t) i S1;
                                   now = (case upstream_target d of Some u \<Rightarrow> u \<le> t | None \<Rightarrow> True);
                                   S3 = (if now then S2
                                         else upd_server (\<lambda>s. s \<lparr> pending_target_updates :=
                                                pending_target_updates s @
                                                [\<lparr> pu_downstream_id = i, pu_new_target = t,
                                                   pu_new_hashrate = h' \<rparr>] \<rparr>) S2)
                               in (Ok (Some ((i, c, t, h'), now)), S3))))))"

fun vardiff_all ::
  "('msg, 'x, 'v, 'b, 'tlv) tp_lib \<Rightarrow> f32 \<Rightarrow> (usize \<times> 'v) list \<Rightarrow> ('msg, 'v, 'b, 'tlv) sv1_server \<Rightarrow>
     ('msg, 'x, 'v, 'b, 'tlv, (target_update \<times> bool) list) server_step" where
  "vardiff_all L spm [] S = (Ok [], S)"
| "vardiff_all L spm ((i, v) # vs) S =
     and_then (vardiff_downstream L spm i v S)
       (\<lambda>u S1. and_then (vardiff_all L spm vs S1)
          (\<lambda>us S2. (Ok (case u of None \<Rightarrow> us | Some x \<Rightarrow> x # us), S2)))"

definition send_difficulty ::
  "('msg, 'x, 'v, 'b, 'tlv) tp_lib \<Rightarrow> u32 \<Rightarrow> usize \<Rightarrow> target \<Rightarrow> ('msg, 'v, 'b, 'tlv) sv1_server \<Rightarrow>
     ('msg, 'v, 'b, 'tlv) sv1_server" where
  "send_difficulty L c i t S =
     (case build_set_difficulty L t of None \<Rightarrow> S | Some m \<Rightarrow> post_downstreams c (Some i) m S)"

definition announce_updates ::
  "('msg, 'x, 'v, 'b, 'tlv) tp_lib \<Rightarrow> bool \<Rightarrow> (target_update \<times> bool) list \<Rightarrow>
     ('msg, 'v, 'b, 'tlv) sv1_server \<Rightarrow> ('msg, 'x, 'v, 'b, 'tlv, unit) server_step" where
  "announce_updates L aggregated us S =
     (if us = [] then (Ok (), S) else send_update_channel_messages L aggregated (map fst us) S)"

definition send_immediate ::
  "('msg, 'x, 'v, 'b, 'tlv) tp_lib \<Rightarrow> (target_update \<times> bool) list \<Rightarrow> ('msg, 'v, 'b, 'tlv) sv1_server \<Rightarrow>
     ('msg, 'v, 'b, 'tlv) sv1_server" where
  "send_immediate L us S =
     fold (\<lambda>u. send_difficulty L (update_channel_of u) (update_downstream u) (update_target u))
       (map fst (filter snd us)) S"

definition handle_vardiff_updates ::
  "('msg, 'x, 'v, 'b, 'tlv) tp_lib \<Rightarrow> bool \<Rightarrow> f32 \<Rightarrow> ('msg, 'v, 'b, 'tlv) sv1_server \<Rightarrow>
     ('msg, 'x, 'v, 'b, 'tlv, unit) server_step" where
  "handle_vardiff_updates L aggregated spm S =
     and_then (vardiff_all L spm (sv_vardiff (sv1_server_data S)) S)
       (\<lambda>us S1. and_then (announce_updates L aggregated us S1) (\<lambda>_ S2. (Ok (), send_immediate L us S2)))"

section \<open>A target from upstream\<close>

definition get_pending_difficulty_updates ::
  "target \<Rightarrow> usize option \<Rightarrow> ('msg, 'v, 'b, 'tlv) sv1_server \<Rightarrow>
     pending_target_update list \<times> ('msg, 'v, 'b, 'tlv) sv1_server" where
  "get_pending_difficulty_updates t who S =
     (let process = (\<lambda>u. case who of Some i \<Rightarrow> pu_downstream_id u = i | None \<Rightarrow> True);
          ps = pending_target_updates (sv1_server_data S)
      in (filter (\<lambda>u. process u \<and> t \<le> pu_new_target u) ps,
          upd_server (\<lambda>s. s \<lparr> pending_target_updates := filter (\<lambda>u. \<not> process u) ps \<rparr>) S))"

definition send_pending_set_difficulty_messages_to_downstream ::
  "('msg, 'x, 'v, 'b, 'tlv) tp_lib \<Rightarrow> pending_target_update list \<Rightarrow> ('msg, 'v, 'b, 'tlv) sv1_server \<Rightarrow>
     ('msg, 'v, 'b, 'tlv) sv1_server" where
  "send_pending_set_difficulty_messages_to_downstream L us S =
     fold (\<lambda>u S. case Option.bind (get_down S (pu_downstream_id u)) (\<lambda>D. sd_channel_id (downstream_data D)) of
                    None \<Rightarrow> S
                  | Some c \<Rightarrow> send_difficulty L c (pu_downstream_id u) (pu_new_target u) S) us S"

definition handle_aggregated_set_target ::
  "('msg, 'x, 'v, 'b, 'tlv) tp_lib \<Rightarrow> target \<Rightarrow> ('msg, 'v, 'b, 'tlv) sv1_server \<Rightarrow>
     ('msg, 'v, 'b, 'tlv) sv1_server" where
  "handle_aggregated_set_target L t S =
     (case get_pending_difficulty_updates t None (lock_all_downs (set_upstream_target t) S) of
        (us, S1) \<Rightarrow> send_pending_set_difficulty_messages_to_downstream L us S1)"

definition handle_non_aggregated_set_target ::
  "('msg, 'x, 'v, 'b, 'tlv) tp_lib \<Rightarrow> u32 \<Rightarrow> target \<Rightarrow> ('msg, 'v, 'b, 'tlv) sv1_server \<Rightarrow>
     ('msg, 'v, 'b, 'tlv) sv1_server" where
  "handle_non_aggregated_set_target L c t S =
     (case down_on_channel c (downstreams (sv1_server_data S)) of
        None \<Rightarrow> S
      | Some i \<Rightarrow>
          (case get_pending_difficulty_updates t (Some i) (lock_down (set_upstream_target t) i S) of
             (us, S1) \<Rightarrow> send_pending_set_difficulty_messages_to_downstream L us S1))"

definition handle_set_target_message ::
  "('msg, 'x, 'v, 'b, 'tlv) tp_lib \<Rightarrow> bool \<Rightarrow> u32 \<Rightarrow> target \<Rightarrow> ('msg, 'v, 'b, 'tlv) sv1_server \<Rightarrow>
     ('msg, 'v, 'b, 'tlv) sv1_server" where
  "handle_set_target_message L aggregated c t S =
     (if aggregated then handle_aggregated_set_target L t S
      else handle_non_aggregated_set_target L c t S)"

section \<open>Minimum of the targets\<close>

lemma min_target_None [simp]: "min_target ts = None \<longleftrightarrow> ts = []"
  by (cases ts) simp_all

lemma min_target_Min: "ts \<noteq> [] \<Longrightarrow> min_target ts = Some (Min (set ts))"
proof (induction ts)
  case (Cons t ts)
  show ?case
  proof (cases "ts = []")
    case False
    with Cons.IH have "min_target ts = Some (Min (set ts))" by blast
    moreover have "(if m < t then m else t) = min t m" for m by (auto simp: min_def)
    ultimately show ?thesis using False by simp
  qed simp
qed simp

section \<open>What an adjustment keeps\<close>

text \<open>The part of a connection that an adjustment only reads.\<close>

definition down_view :: "('msg, 'v, 'b, 'tlv) sv1_server \<Rightarrow> usize \<Rightarrow> (u32 option \<times> target option \<times> hashrate option) option" where
  "down_view S i =
     map_option (\<lambda>D. (sd_channel_id (downstream_data D), upstream_target (downstream_data D),
       sd_hashrate (downstream_data D))) (get_down S i)"

lemma down_view_cong:
  "downstreams (sv1_server_data S) = downstreams (sv1_server_data S') \<Longrightarrow> down_view S = down_view S'"
  by (simp add: down_view_def fun_eq_iff)

lemma down_view_lock_down:
  assumes "\<And>d. sd_channel_id (f d) = sd_channel_id d" and "\<And>d. upstream_target (f d) = upstream_target d"
    and "\<And>d. sd_hashrate (f d) = sd_hashrate d"
  shows "down_view (lock_down f i S) = down_view S"
  using assms by (cases "get_down S i") (auto simp: down_view_def fun_eq_iff)

lemmas pending_setters = set_pending_hashrate_def set_pending_target_def set_upstream_target_def

text \<open>The outcome of one entry, on every branch.\<close>

lemma vardiff_downstream_frame:
  assumes "vardiff_downstream L spm i v S = (r, S')"
  shows "down_view S' = down_view S" and "to_manager S' = to_manager S"
    and "to_downstreams S' = to_downstreams S" and "downstreams_open S' = downstreams_open S"
    and "manager_open S' = manager_open S"
proof -
  show "down_view S' = down_view S"
    using assms
    by (auto simp: vardiff_downstream_def Let_def down_view_def fun_eq_iff pending_setters
        split: option.splits prod.splits if_splits)
  show "to_manager S' = to_manager S" "to_downstreams S' = to_downstreams S"
    "downstreams_open S' = downstreams_open S" "manager_open S' = manager_open S"
    using assms
    by (auto simp: vardiff_downstream_def Let_def split: option.splits prod.splits if_splits)
qed

lemma vardiff_downstream_outcome:
  assumes "vardiff_downstream L spm i v S = (r, S')"
  shows "r = Ok (Some ((j, c, t, h), now)) \<Longrightarrow>
      j = i \<and> (\<exists>u h0. down_view S i = Some (Some c, u, h0) \<and> (now \<longleftrightarrow> u = None \<or> the u \<le> t))"
    and "r = Panic p \<Longrightarrow> \<exists>c u. down_view S i = Some (c, u, None)"
    and "r \<noteq> Err e"
  using assms by (auto simp: vardiff_downstream_def Let_def down_view_def split: option.splits prod.splits)

text \<open>
  The upstream's target allows a difficulty: no target is known for the connection, or the
  difficulty's target is at least as easy.
\<close>

definition allowed :: "('msg, 'v, 'b, 'tlv) sv1_server \<Rightarrow> u32 \<Rightarrow> usize \<Rightarrow> target \<Rightarrow> bool" where
  "allowed S c i t \<longleftrightarrow> (\<exists>u h. down_view S i = Some (Some c, u, h) \<and> (u = None \<or> the u \<le> t))"

lemma vardiff_all_outcome:
  assumes "vardiff_all L spm vs S = (r, S')"
  shows "down_view S' = down_view S \<and> to_manager S' = to_manager S \<and>
    to_downstreams S' = to_downstreams S \<and> downstreams_open S' = downstreams_open S \<and>
    manager_open S' = manager_open S \<and>
    (\<forall>us. r = Ok us \<longrightarrow> (\<forall>((i, c, t, h), now)\<in>set us. now = allowed S c i t \<and> down_view S i \<noteq> None)) \<and>
    (\<forall>p. r = Panic p \<longrightarrow> (\<exists>i c u. down_view S i = Some (c, u, None))) \<and> (\<forall>e. r \<noteq> Err e)"
  using assms
proof (induction vs arbitrary: S r S')
  case (Cons iv vs)
  obtain i v where iv: "iv = (i, v)" by fastforce
  obtain r1 S1 where 1: "vardiff_downstream L spm i v S = (r1, S1)" by fastforce
  note frame = vardiff_downstream_frame [OF 1] and out = vardiff_downstream_outcome [OF 1]
  have allowed: "allowed S1 = allowed S" by (simp add: allowed_def frame fun_eq_iff)
  show ?case
  proof (cases r1)
    case (Ok u)
    obtain r2 S2 where 2: "vardiff_all L spm vs S1 = (r2, S2)" by fastforce
    have hd: "now = allowed S c j t \<and> down_view S j \<noteq> None" if "u = Some ((j, c, t, h), now)" for j c t h now
      using out(1) [of j c t h now] Ok that by (auto simp: allowed_def)
    from Cons.prems iv 1 2 Ok have r: "S' = S2"
        "r = (case r2 of Ok us \<Rightarrow> Ok (case u of None \<Rightarrow> us | Some x \<Rightarrow> x # us) | Err e \<Rightarrow> Err e | Panic p \<Rightarrow> Panic p)"
      by (cases r2; auto)+
    from Cons.IH [OF 2] show ?thesis
      unfolding r frame allowed using hd by (cases r2; cases u) (auto simp: allowed_def)
  next
    case (Err e)
    with out(3) show ?thesis by blast
  next
    case (Panic p)
    with Cons.prems iv 1 have "S' = S1" "r = Panic p" by simp_all
    with out(2) [OF Panic] frame show ?thesis by auto
  qed
qed simp

text \<open>The messages a list of difficulties puts on the broadcast channel.\<close>

definition difficulty_msgs ::
  "('msg, 'x, 'v, 'b, 'tlv) tp_lib \<Rightarrow> (u32 \<times> usize \<times> target) list \<Rightarrow> (u32 \<times> usize option \<times> 'msg) list" where
  "difficulty_msgs L ds =
     concat (map (\<lambda>(c, i, t). case build_set_difficulty L t of None \<Rightarrow> [] | Some m \<Rightarrow> [(c, Some i, m)]) ds)"

lemma send_difficulty_eq:
  "send_difficulty L c i t S =
     S \<lparr> to_downstreams := to_downstreams S @ (if downstreams_open S then difficulty_msgs L [(c, i, t)] else []) \<rparr>"
  by (simp add: send_difficulty_def post_downstreams_def difficulty_msgs_def split: option.split)

lemma difficulty_msgs_append: "difficulty_msgs L (ds @ ds') = difficulty_msgs L ds @ difficulty_msgs L ds'"
  by (simp add: difficulty_msgs_def)

lemma fold_send_difficulty:
  "fold (\<lambda>u. send_difficulty L (f u) (g u) (k u)) us S =
     S \<lparr> to_downstreams := to_downstreams S @
         (if downstreams_open S then difficulty_msgs L (map (\<lambda>u. (f u, g u, k u)) us) else []) \<rparr>"
proof (induction us arbitrary: S)
  case (Cons u us)
  then show ?case
    using difficulty_msgs_append [of L "[(f u, g u, k u)]" "map (\<lambda>u. (f u, g u, k u)) us"]
    by (simp add: send_difficulty_eq)
qed (simp add: difficulty_msgs_def)

lemma fold_post_manager:
  "fold post_manager ms S =
     S \<lparr> to_manager := to_manager S @ (if manager_open S then map (\<lambda>m. (m, None)) ms else []) \<rparr>"
  by (induction ms arbitrary: S) (simp_all add: post_manager_def)

lemma send_update_frame:
  assumes "send_update_channel_messages L aggregated us S = (r, S')"
  shows "sv1_server_data S' = sv1_server_data S" and "to_downstreams S' = to_downstreams S"
    and "downstreams_open S' = downstreams_open S"
  using assms
  by (simp_all add: send_update_channel_messages_def fold_post_manager
      split: if_splits list.splits option.splits prod.splits) auto

lemma announce_frame:
  assumes "announce_updates L aggregated us S = (r, S')"
  shows "sv1_server_data S' = sv1_server_data S" and "to_downstreams S' = to_downstreams S"
    and "downstreams_open S' = downstreams_open S"
  using assms send_update_frame [of L aggregated "map fst us" S r S']
  by (auto simp: announce_updates_def split: if_splits)

lemma send_immediate_eq:
  "send_immediate L us S =
     S \<lparr> to_downstreams := to_downstreams S @
         (if downstreams_open S
          then difficulty_msgs L (map (\<lambda>u. (update_channel_of u, update_downstream u, update_target u))
                 (map fst (filter snd us)))
          else []) \<rparr>"
  unfolding send_immediate_def by (rule fold_send_difficulty)

lemma in_difficulty_msgs:
  "(c, who, m) \<in> set (difficulty_msgs L ds) \<longleftrightarrow>
     (\<exists>i t. who = Some i \<and> build_set_difficulty L t = Some m \<and> (c, i, t) \<in> set ds)"
  by (induction ds) (auto simp: difficulty_msgs_def split: option.splits)

section \<open>Pending updates\<close>

definition channel_of :: "('msg, 'v, 'b, 'tlv) sv1_server \<Rightarrow> usize \<Rightarrow> u32 option" where
  "channel_of S i = Option.bind (get_down S i) (\<lambda>D. sd_channel_id (downstream_data D))"

text \<open>The difficulties of a list of updates, for the connections that are still there.\<close>

definition pending_messages ::
  "('msg, 'x, 'v, 'b, 'tlv) tp_lib \<Rightarrow> ('msg, 'v, 'b, 'tlv) sv1_server \<Rightarrow> pending_target_update list \<Rightarrow>
     (u32 \<times> usize option \<times> 'msg) list" where
  "pending_messages L S us =
     difficulty_msgs L (concat (map (\<lambda>u. case channel_of S (pu_downstream_id u) of
        None \<Rightarrow> [] | Some c \<Rightarrow> [(c, pu_downstream_id u, pu_new_target u)]) us))"

lemma pending_messages_Cons:
  "pending_messages L S (u # us) = pending_messages L S [u] @ pending_messages L S us"
  by (simp add: pending_messages_def difficulty_msgs_append)

lemma pending_messages_cong:
  "channel_of S = channel_of S' \<Longrightarrow> pending_messages L S us = pending_messages L S' us"
  by (simp add: pending_messages_def)

lemma channel_of_cong:
  "downstreams (sv1_server_data S) = downstreams (sv1_server_data S') \<Longrightarrow> channel_of S = channel_of S'"
  by (simp add: channel_of_def fun_eq_iff)

lemma send_pending_eq:
  "send_pending_set_difficulty_messages_to_downstream L us S =
     S \<lparr> to_downstreams := to_downstreams S @ (if downstreams_open S then pending_messages L S us else []) \<rparr>"
proof (induction us arbitrary: S)
  case (Cons u us)
  let ?S1 = "S \<lparr> to_downstreams := to_downstreams S @ (if downstreams_open S then pending_messages L S [u] else []) \<rparr>"
  have "(case channel_of S (pu_downstream_id u) of
      None \<Rightarrow> S
    | Some c \<Rightarrow> send_difficulty L c (pu_downstream_id u) (pu_new_target u) S) = ?S1"
    by (simp add: pending_messages_def send_difficulty_eq difficulty_msgs_def split: option.split)
  then have "send_pending_set_difficulty_messages_to_downstream L (u # us) S =
      send_pending_set_difficulty_messages_to_downstream L us ?S1"
    by (simp add: send_pending_set_difficulty_messages_to_downstream_def channel_of_def)
  also have "\<dots> = S \<lparr> to_downstreams := to_downstreams S @
      (if downstreams_open S then pending_messages L S (u # us) else []) \<rparr>"
    unfolding Cons.IH
    using pending_messages_cong [of ?S1 S L us, OF channel_of_cong] pending_messages_Cons [of L S u us]
    by auto
  finally show ?case .
qed (simp add: send_pending_set_difficulty_messages_to_downstream_def pending_messages_def difficulty_msgs_def)

lemma channel_of_lock:
  assumes "\<And>d. sd_channel_id (f d) = sd_channel_id d"
  shows "channel_of (lock_all_downs f S) = channel_of S" and "channel_of (lock_down f i S) = channel_of S"
proof -
  show "channel_of (lock_all_downs f S) = channel_of S"
  proof
    fix j show "channel_of (lock_all_downs f S) j = channel_of S j"
      using assms by (cases "get_down S j") (simp_all add: channel_of_def)
  qed
  show "channel_of (lock_down f i S) = channel_of S"
  proof
    fix j show "channel_of (lock_down f i S) j = channel_of S j"
      using assms by (cases "get_down S i") (simp_all add: channel_of_def)
  qed
qed

lemma lock_all_downs_frame [simp]:
  "to_downstreams (lock_all_downs f S) = to_downstreams S"
  "downstreams_open (lock_all_downs f S) = downstreams_open S"
  "pending_target_updates (sv1_server_data (lock_all_downs f S)) = pending_target_updates (sv1_server_data S)"
  by (simp_all add: lock_all_downs_def)

section \<open>Announcing in aggregated mode\<close>

lemma send_update_aggregated:
  assumes "us \<noteq> []" and "total_hashrate L S = Some h" and "all_data S \<noteq> []"
  shows "send_update_channel_messages L True us S =
    (Ok (), post_manager (UpdateChan
       \<lparr> uc_channel_id = update_channel_of (hd us), uc_nominal_hash_rate = h,
         uc_maximum_target = Min (effective_target ` set (all_data S)) \<rparr>) S)"
  using assms min_target_Min [of "map effective_target (all_data S)"]
  by (cases us) (auto simp: send_update_channel_messages_def split: prod.split)

lemma send_update_aggregated_Ok:
  assumes "us \<noteq> []" and "send_update_channel_messages L True us S = (Ok (), S')"
  shows "all_data S \<noteq> [] \<and> (\<exists>h. total_hashrate L S = Some h)"
  using assms by (cases us) (auto simp: send_update_channel_messages_def split: option.splits prod.splits)

section \<open>Hashrates are always known\<close>

definition hashrates_known :: "('msg, 'v, 'b, 'tlv) sv1_server \<Rightarrow> bool" where
  "hashrates_known S \<longleftrightarrow>
     hm_distinct (downstreams (sv1_server_data S)) \<and>
     (\<forall>i c u h. down_view S i = Some (c, u, h) \<longrightarrow> h \<noteq> None)"

lemma lock_down_distinct:
  "hm_distinct (downstreams (sv1_server_data S)) \<Longrightarrow> hm_distinct (downstreams (sv1_server_data (lock_down f i S)))"
  by (simp add: lock_down_def split: option.split)

lemma vardiff_downstream_distinct:
  assumes "vardiff_downstream L spm i v S = (r, S')" and "hm_distinct (downstreams (sv1_server_data S))"
  shows "hm_distinct (downstreams (sv1_server_data S'))"
  using assms
  by (auto simp: vardiff_downstream_def Let_def lock_down_distinct split: option.splits prod.splits if_splits)

lemma vardiff_all_known:
  assumes "vardiff_all L spm vs S = (r, S')" and "hashrates_known S"
  shows "hashrates_known S' \<and> is_ok r"
proof -
  have "hm_distinct (downstreams (sv1_server_data S'))"
    using assms(1) assms(2) [unfolded hashrates_known_def, THEN conjunct1]
  proof (induction vs arbitrary: S r S')
    case (Cons iv vs)
    obtain i v where iv: "iv = (i, v)" by fastforce
    obtain r1 S1 where 1: "vardiff_downstream L spm i v S = (r1, S1)" by fastforce
    obtain r2 S2 where 2: "vardiff_all L spm vs S1 = (r2, S2)" by fastforce
    have d1: "hm_distinct (downstreams (sv1_server_data S1))"
      by (rule vardiff_downstream_distinct [OF 1 Cons.prems(2)])
    have "S' = S1 \<or> S' = S2"
      using Cons.prems(1) iv 1 2 by (cases r1; cases r2) auto
    with d1 Cons.IH [OF 2 d1] show ?case by blast
  qed simp
  moreover have "down_view S' = down_view S" "is_ok r"
    using vardiff_all_outcome [OF assms(1)] assms(2) by (cases r; auto simp: hashrates_known_def)+
  ultimately show ?thesis using assms(2) by (simp add: hashrates_known_def)
qed

lemma effective_hashrate_known: "effective_hashrate d \<noteq> None \<longleftrightarrow> sd_hashrate d \<noteq> None"
  by (cases "sd_hashrate d") (simp_all add: effective_hashrate_def)

lemma total_hashrate_known:
  assumes "hashrates_known S"
  shows "\<exists>h. total_hashrate L S = Some h"
proof -
  have "sd_hashrate (downstream_data D) \<noteq> None" if "(i, D) \<in> set (downstreams (sv1_server_data S))" for i D
  proof -
    have "get_down S i = Some D" using assms that by (simp add: hashrates_known_def hm_in_set_get)
    then show ?thesis using assms unfolding hashrates_known_def down_view_def by fastforce
  qed
  then have "\<forall>d\<in>set (all_data S). effective_hashrate d \<noteq> None"
    by (auto simp: all_data_def effective_hashrate_known simp del: not_None_eq)
  moreover have "\<forall>d\<in>set ds. effective_hashrate d \<noteq> None \<Longrightarrow> those (map effective_hashrate ds) \<noteq> None" for ds :: "'a sv1_data list"
    by (induction ds) auto
  ultimately show ?thesis by (auto simp: total_hashrate_def)
qed

text \<open>
  As long as every connection has a hashrate a pass completes: none of its \<open>unwrap\<close> and
  \<open>expect\<close> calls panics.
\<close>

lemma vardiff_pass_total:
  assumes "hashrates_known S"
  shows "\<exists>S'. handle_vardiff_updates L aggregated spm S = (Ok (), S') \<and> hashrates_known S'"
proof -
  obtain r S1 where 1: "vardiff_all L spm (sv_vardiff (sv1_server_data S)) S = (r, S1)" by fastforce
  from vardiff_all_known [OF 1 assms] have known: "hashrates_known S1" and "is_ok r" by blast+
  then obtain us where us: "r = Ok us" by (auto simp: is_ok_iff)
  obtain h where h: "total_hashrate L S1 = Some h" using total_hashrate_known [OF known] by blast
  have "us = [] \<or> all_data S1 \<noteq> []"
  proof (cases us)
    case (Cons u us')
    obtain i c t h now where "u = ((i, c, t, h), now)" by (metis prod_cases5 surj_pair)
    with vardiff_all_outcome [OF 1] us Cons have "down_view S1 i \<noteq> None" by auto
    then show ?thesis by (auto simp: down_view_def all_data_def hm_get_def)
  qed simp
  then have "fst (announce_updates L aggregated us S1) = Ok ()"
    using h send_update_aggregated [of "map fst us" L S1 h]
    by (cases aggregated) (auto simp: announce_updates_def send_update_channel_messages_def)
  then obtain S2 where S2: "announce_updates L aggregated us S1 = (Ok (), S2)" by (metis prod.collapse)
  have "hashrates_known (send_immediate L us S2)"
    using known announce_frame(1) [OF S2] by (simp add: hashrates_known_def down_view_def send_immediate_eq)
  moreover have "handle_vardiff_updates L aggregated spm S = (Ok (), send_immediate L us S2)"
    using 1 us S2 by (simp add: handle_vardiff_updates_def)
  ultimately show ?thesis by blast
qed

section \<open>A concrete server\<close>

definition demo_tp_lib :: "(string, string, nat, unit, string) tp_lib" where
  "demo_tp_lib = \<lparr> sv1_lib = demo_api, hash_rate_to_target = (\<lambda>h s. Some (ucast h)), f32_sum = sum_list,
     vardiff_state_new = Some 0, vardiff_increment = Suc, try_vardiff = (\<lambda>h t s v. (Some 60, 0)),
     build_set_difficulty = (\<lambda>t. Some ''mining.set_difficulty''),
     build_notify = (\<lambda>p j b. Inr (demo_notify \<lparr> n_clean_jobs := b \<rparr>)),
     build_submit = (\<lambda>s c n v m. Some \<lparr> se_channel_id = c, se_sequence_number = n, se_job_id = 1,
       se_nonce = sb_nonce s, se_ntime = sb_time s, se_version = v, se_extranonce = sb_extra_nonce2 s \<rparr>),
     user_identity_tlv = (\<lambda>n. Some (Some n)),
     build_open_extended = (\<lambda>r n h t e. Some \<lparr> oe_request_id = r, oe_user_identity = n,
       oe_nominal_hash_rate = h, oe_max_target = t, oe_min_extranonce_size = e \<rparr>),
     show_u32 = (\<lambda>n. ''1'') \<rparr>"

definition demo_miner :: "string sv1_downstream" where
  "demo_miner = upd_data (open_channel 2 [9] 4 50) (sv1_downstream_new 1 100 (Some 10))"

definition demo_server :: "(string, nat, unit, string) sv1_server" where
  "demo_server = \<lparr> sv1_server_data = (sv1_server_data_new True)
       \<lparr> downstreams := [(1, demo_miner)], sv_vardiff := [(1, 0)],
         pending_target_updates := [\<lparr> pu_downstream_id = 1, pu_new_target = 40, pu_new_hashrate = 10 \<rparr>] \<rparr>,
     to_manager = [], manager_open = True, to_downstreams = [], downstreams_open = True, clean_job = True,
     sequence_counter = 0, miner_counter = 0 \<rparr>"

lemma demo_server_simps [env_simps]:
  "downstreams (sv1_server_data demo_server) = [(1, demo_miner)]"
  "get_down demo_server i = (if i = 1 then Some demo_miner else None)"
  "sd_channel_id (downstream_data demo_miner) = Some 2"
  "sd_hashrate (downstream_data demo_miner) = Some 10"
  "pending_target_updates (sv1_server_data demo_server) =
     [\<lparr> pu_downstream_id = 1, pu_new_target = 40, pu_new_hashrate = 10 \<rparr>]"
  "to_downstreams demo_server = []" "downstreams_open demo_server"
  "build_set_difficulty demo_tp_lib t = Some ''mining.set_difficulty''"
  by (auto simp: demo_server_def demo_tp_lib_def demo_miner_def open_channel_def set_upstream_target_def
      sv1_downstream_new_def sv1_data_new_def sv1_server_data_new_def hm_get_def)

lemma demo_server_known: "hashrates_known demo_server"
  unfolding hashrates_known_def down_view_def
  by (auto simp: hm_distinct_def hm_get_def env_simps split: if_splits)

section \<open>Properties\<close>

text \<open>
  C24. Every difficulty that a vardiff pass sends goes to the connection of its channel and is no
  harder for the miner than the upstream's target allows: the pass delays the others.
\<close>

theorem vardiff_difficulties_allowed:
  "\<exists>new. to_downstreams (snd (handle_vardiff_updates L aggregated spm S)) = to_downstreams S @ new \<and>
     (\<forall>(c, who, m)\<in>set new.
        \<exists>i t. who = Some i \<and> build_set_difficulty L t = Some m \<and> allowed S c i t)"
proof -
  obtain r S1 where 1: "vardiff_all L spm (sv_vardiff (sv1_server_data S)) S = (r, S1)" by fastforce
  note out = vardiff_all_outcome [OF 1]
  show ?thesis
  proof (cases r)
    case (Ok us)
    obtain r2 S2 where 2: "announce_updates L aggregated us S1 = (r2, S2)" by fastforce
    have to: "to_downstreams S2 = to_downstreams S" using out announce_frame [OF 2] by simp
    have allowed: "allowed S c i t" if "((i, c, t, h), True) \<in> set us" for i c t h
      using out Ok that by fastforce
    show ?thesis
      using 1 2 Ok to
      by (cases r2; auto simp: handle_vardiff_updates_def send_immediate_eq in_difficulty_msgs;
          blast dest: allowed)
  qed (use 1 out in \<open>auto simp: handle_vardiff_updates_def\<close>)
qed

theorem vardiff_difficulties_allowed_witness:
  "\<exists>m t. to_downstreams (snd (handle_vardiff_updates demo_tp_lib True 6 demo_server)) = [(2, Some 1, m)] \<and>
     build_set_difficulty demo_tp_lib t = Some m \<and> allowed demo_server 2 1 t"
proof -
  have "to_downstreams (snd (handle_vardiff_updates demo_tp_lib True 6 demo_server)) =
      [(2, Some 1, ''mining.set_difficulty'')]" and "to_downstreams demo_server = []"
    by (simp_all add: handle_vardiff_updates_def announce_updates_def send_immediate_def
        vardiff_downstream_def send_update_channel_messages_def all_data_def total_hashrate_def
        effective_target_def effective_hashrate_def demo_server_def demo_tp_lib_def sv1_server_data_new_def
        demo_miner_def open_channel_def sv1_downstream_new_def sv1_data_new_def lock_down_def
        pending_setters hm_get_def hm_insert_def send_difficulty_def post_manager_def
        post_downstreams_def Let_def)
  with vardiff_difficulties_allowed [of demo_tp_lib True 6 demo_server] show ?thesis by auto
qed

text \<open>
  C23. A \<open>SetTarget\<close> in aggregated mode becomes the upstream target of every connection, empties the
  list of delayed updates, and sends exactly the delayed difficulties that the new target
  allows, in the order in which they were delayed.
\<close>

theorem set_target_releases_pending:
  "pending_target_updates (sv1_server_data (handle_set_target_message L True c t S)) = [] \<and>
   to_downstreams (handle_set_target_message L True c t S) = to_downstreams S @
     (if downstreams_open S
      then pending_messages L S
        (filter (\<lambda>u. t \<le> pu_new_target u) (pending_target_updates (sv1_server_data S)))
      else []) \<and>
   get_down (handle_set_target_message L True c t S) i =
     map_option (upd_data (set_upstream_target t)) (get_down S i)"
proof -
  let ?S1 = "lock_all_downs (set_upstream_target t) S"
  let ?S2 = "upd_server (\<lambda>s. s \<lparr> pending_target_updates := [] \<rparr>) ?S1"
  have "channel_of ?S2 = channel_of S"
    using channel_of_lock(1) [of "set_upstream_target t" S] channel_of_cong [of ?S2 ?S1]
    by (simp add: set_upstream_target_def)
  then show ?thesis
    using pending_messages_cong [of ?S2 S L] get_lock_all_downs [of "set_upstream_target t" S i]
    by (simp add: handle_set_target_message_def handle_aggregated_set_target_def
        get_pending_difficulty_updates_def send_pending_eq Let_def)
qed

text \<open>
  A \<open>SetTarget\<close> in non-aggregated mode concerns the connection of its channel only: its delayed
  updates leave the list and those the target allows are sent; the delayed updates and the
  state of every other connection stay as they are.
\<close>

theorem set_target_one_connection:
  assumes "down_on_channel c (downstreams (sv1_server_data S)) = Some i"
  shows "pending_target_updates (sv1_server_data (handle_set_target_message L False c t S)) =
      filter (\<lambda>u. pu_downstream_id u \<noteq> i) (pending_target_updates (sv1_server_data S)) \<and>
    to_downstreams (handle_set_target_message L False c t S) = to_downstreams S @
      (if downstreams_open S
       then pending_messages L S
         (filter (\<lambda>u. pu_downstream_id u = i \<and> t \<le> pu_new_target u) (pending_target_updates (sv1_server_data S)))
       else []) \<and>
    get_down (handle_set_target_message L False c t S) j =
      (if j = i then map_option (upd_data (set_upstream_target t)) (get_down S i) else get_down S j)"
proof -
  let ?ps = "pending_target_updates (sv1_server_data S)"
  let ?S1 = "lock_down (set_upstream_target t) i S"
  let ?S2 = "upd_server (\<lambda>s. s \<lparr> pending_target_updates := filter (\<lambda>u. pu_downstream_id u \<noteq> i) ?ps \<rparr>) ?S1"
  have "channel_of ?S2 = channel_of S"
    using channel_of_lock(2) [of "set_upstream_target t" i S] channel_of_cong [of ?S2 ?S1]
    by (simp add: set_upstream_target_def)
  then show ?thesis
    using assms pending_messages_cong [of ?S2 S L] get_lock_down [of "set_upstream_target t" i S j]
    by (simp add: handle_set_target_message_def handle_non_aggregated_set_target_def
        get_pending_difficulty_updates_def send_pending_eq Let_def)
qed

theorem set_target_one_connection_witness:
  "pending_target_updates (sv1_server_data (handle_set_target_message demo_tp_lib False 2 30 demo_server)) = [] \<and>
   to_downstreams (handle_set_target_message demo_tp_lib False 2 30 demo_server) =
     [(2, Some 1, ''mining.set_difficulty'')]"
proof -
  have "down_on_channel 2 (downstreams (sv1_server_data demo_server)) = Some 1"
    by (simp add: down_on_channel_def env_simps)
  from set_target_one_connection [OF this, of demo_tp_lib 30 1] show ?thesis
    by (simp add: pending_messages_def channel_of_def difficulty_msgs_def hm_get_def env_simps)
qed

text \<open>
  In aggregated mode a vardiff pass that adjusts anything announces one \<open>UpdateChannel\<close>, whose
  target is the smallest of the targets the connections have or wait for: no connection is
  then given a target below what the upstream was asked for.
\<close>

theorem update_channel_announces_minimum:
  fixes L :: "('msg, 'x, 'v, 'b, 'tlv) tp_lib"
  assumes "handle_vardiff_updates L True spm S = (Ok (), S')" and "to_manager S' \<noteq> to_manager S"
  shows "\<exists>c h t. to_manager S' = to_manager S @
      [(UpdateChan \<lparr> uc_channel_id = c, uc_nominal_hash_rate = h, uc_maximum_target = t \<rparr>, None)] \<and>
    t = Min (effective_target ` set (all_data S')) \<and> total_hashrate L S' = Some h"
proof -
  obtain r S1 where 1: "vardiff_all L spm (sv_vardiff (sv1_server_data S)) S = (r, S1)" by fastforce
  with assms(1) obtain us where us: "r = Ok us"
    by (cases r) (auto simp: handle_vardiff_updates_def)
  with assms(1) 1 obtain S2 where S2: "announce_updates L True us S1 = (Ok (), S2)"
      and S': "S' = send_immediate L us S2"
    by (auto simp: handle_vardiff_updates_def and_then_Ok)
  have to: "to_manager S1 = to_manager S" using vardiff_all_outcome [OF 1] by blast
  have eq: "all_data S' = all_data S2" "total_hashrate L S' = total_hashrate L S2" "to_manager S' = to_manager S2"
    unfolding S' by (simp_all add: send_immediate_eq all_data_def total_hashrate_def)
  from assms(2) to eq(3) S2 have us_ne: "map fst us \<noteq> []" by (auto simp: announce_updates_def)
  with S2 have sent: "send_update_channel_messages L True (map fst us) S1 = (Ok (), S2)"
    by (simp add: announce_updates_def)
  obtain h' where ne: "all_data S1 \<noteq> []" and h': "total_hashrate L S1 = Some h'"
    using send_update_aggregated_Ok [OF us_ne sent] by blast
  let ?m = "\<lparr> uc_channel_id = update_channel_of (hd (map fst us)), uc_nominal_hash_rate = h',
      uc_maximum_target = Min (effective_target ` set (all_data S1)) \<rparr>"
  have S2': "S2 = post_manager (UpdateChan ?m) S1"
    using sent send_update_aggregated [OF us_ne h' ne] by simp
  have data: "all_data S2 = all_data S1" "total_hashrate L S2 = total_hashrate L S1"
    unfolding S2' by (simp_all add: all_data_def total_hashrate_def)
  have "manager_open S1"
    using assms(2) eq(3) to S2' by (auto simp: post_manager_def split: if_splits)
  then show ?thesis using S2' eq data h' to by (simp add: post_manager_def)
qed

theorem update_channel_announces_minimum_witness:
  "\<exists>S' c h. handle_vardiff_updates demo_tp_lib True 6 demo_server = (Ok (), S') \<and>
     to_manager S' =
       [(UpdateChan \<lparr> uc_channel_id = c, uc_nominal_hash_rate = h, uc_maximum_target = 60 \<rparr>, None)]"
proof -
  obtain S' where S': "handle_vardiff_updates demo_tp_lib True 6 demo_server = (Ok (), S')"
      "to_manager S' \<noteq> to_manager demo_server" "effective_target ` set (all_data S') = {60}"
    by (simp add: handle_vardiff_updates_def announce_updates_def send_immediate_def
        vardiff_downstream_def send_update_channel_messages_def all_data_def total_hashrate_def
        effective_target_def effective_hashrate_def demo_server_def demo_tp_lib_def sv1_server_data_new_def
        demo_miner_def open_channel_def sv1_downstream_new_def sv1_data_new_def lock_down_def
        pending_setters hm_get_def hm_insert_def send_difficulty_def post_manager_def
        post_downstreams_def Let_def)
  from update_channel_announces_minimum [OF S'(1,2)] S'(1,3) show ?thesis
    by (auto simp: demo_server_def)
qed

end
