(* ===== verification/Tproxy_Server.thy ===== *)
theory Tproxy_Server
  imports Tproxy_Difficulty
begin

text \<open>
  The Sv1 server of the translator (\<open>sv1/sv1_server/sv1_server.rs\<close>): accepting and removing
  miners, opening a channel for a miner's first message, forwarding shares to the channel
  manager, and the messages that come back from it.
\<close>

section \<open>Connections\<close>

definition accept_miner ::
  "('msg, 'x, 'v, 'b, 'tlv) tp_lib \<Rightarrow> tp_config \<Rightarrow> target \<Rightarrow> ('msg, 'v, 'b, 'tlv) sv1_server \<Rightarrow>
     ('msg, 'x, 'v, 'b, 'tlv, usize) server_step" where
  "accept_miner L C first_target S =
     (let s = sv1_server_data S;
          i = fst (fetch_add (downstream_id_factory s));
          S1 = upd_server (\<lambda>s. s \<lparr> downstream_id_factory := snd (fetch_add (downstream_id_factory s)),
                 downstreams := hm_insert i
                   (sv1_downstream_new i first_target (Some (min_individual_miner_hashrate C)))
                   (downstreams s) \<rparr>) S
      in if enable_vardiff C then
           (case vardiff_state_new L of
              None \<Rightarrow> (Panic ''Failed to create vardiffstate'', S1)
            | Some v \<Rightarrow> (Ok i, upd_server (\<lambda>s. s \<lparr> sv_vardiff := hm_insert i v (sv_vardiff s) \<rparr>) S1))
         else (Ok i, S1))"

definition downstream_shutdown ::
  "('msg, 'x, 'v, 'b, 'tlv) tp_lib \<Rightarrow> tp_config \<Rightarrow> usize \<Rightarrow> ('msg, 'v, 'b, 'tlv) sv1_server \<Rightarrow>
     ('msg, 'x, 'v, 'b, 'tlv, unit) server_step" where
  "downstream_shutdown L C i S =
     (let S1 = upd_server (\<lambda>s. s \<lparr>
                 sv_vardiff := (if enable_vardiff C then hm_remove i (sv_vardiff s) else sv_vardiff s),
                 downstreams := hm_remove i (downstreams s) \<rparr>) S
      in case get_down S i of
           None \<Rightarrow> (Ok (), S1)
         | Some D \<Rightarrow>
             and_then
               (if enable_vardiff C
                then send_update_channel_on_downstream_state_change L (aggregate_channels C) S1
                else (Ok (), S1))
               (\<lambda>_ S2.
                  (case sd_channel_id (downstream_data D) of
                     Some c \<Rightarrow>
                       if aggregate_channels C then (Ok (), S2)
                       else (Ok (), post_manager (CloseChan c ''downstream disconnected'') S2)
                   | None \<Rightarrow> (Ok (), S2))))"

definition sv1_upstream_fallback ::
  "tp_config \<Rightarrow> ('msg, 'v, 'b, 'tlv) sv1_server \<Rightarrow> ('msg, 'v, 'b, 'tlv) sv1_server" where
  "sv1_upstream_fallback C S =
     upd_server (\<lambda>s. s \<lparr> sv_vardiff := (if enable_vardiff C then hm_new else sv_vardiff s),
       downstreams := hm_new \<rparr>) S"

section \<open>Messages of the connections\<close>

definition increment_vardiff ::
  "('msg, 'x, 'v, 'b, 'tlv) tp_lib \<Rightarrow> usize \<Rightarrow> ('msg, 'v, 'b, 'tlv) sv1_server \<Rightarrow>
     ('msg, 'v, 'b, 'tlv) sv1_server" where
  "increment_vardiff L i S =
     (case hm_get (sv_vardiff (sv1_server_data S)) i of
        None \<Rightarrow> S
      | Some v \<Rightarrow>
          upd_server (\<lambda>s. s \<lparr> sv_vardiff := hm_insert i (vardiff_increment L v) (sv_vardiff s) \<rparr>) S)"

text \<open>The extension field with the miner's identity: only in non-aggregated mode.\<close>

definition share_tlv ::
  "('msg, 'x, 'v, 'b, 'tlv) tp_lib \<Rightarrow> tp_config \<Rightarrow> usize \<Rightarrow> ('msg, 'v, 'b, 'tlv) sv1_server \<Rightarrow>
     ('x tproxy_error, 'tlv list option) res" where
  "share_tlv L C i S =
     (if aggregate_channels C then Ok None
      else
        (case get_down S i of
           None \<Rightarrow> Panic ''called `Option::unwrap()` on a `None` value''
         | Some D \<Rightarrow>
             (case user_identity_tlv L (user_identity (downstream_data D)) of
                None \<Rightarrow> Panic ''called `Result::unwrap()` on an `Err` value''
              | Some tlv \<Rightarrow> Ok (map_option (\<lambda>x. [x]) tlv))))"

definition handle_submit_shares ::
  "('msg, 'x, 'v, 'b, 'tlv) tp_lib \<Rightarrow> tp_config \<Rightarrow> submit_share \<Rightarrow> ('msg, 'v, 'b, 'tlv) sv1_server \<Rightarrow>
     ('msg, 'x, 'v, 'b, 'tlv, unit) server_step" where
  "handle_submit_shares L C message S =
     (let S1 = (if enable_vardiff C then increment_vardiff L (ss_downstream_id message) S else S) in
      case ss_job_version message of
        None \<Rightarrow> (Ok (), S1)
      | Some version \<Rightarrow>
          (case build_submit L (ss_share message) (ss_channel_id message) (sequence_counter S1) version
                  (ss_version_rolling_mask message) of
             None \<Rightarrow> (Err SV1Error, S1)
           | Some m \<Rightarrow>
               and_then (share_tlv L C (ss_downstream_id message) S1, S1)
                 (\<lambda>tlv S2. and_then (send_manager (SubmitExtended m) tlv S2)
                    (\<lambda>_ S3. (Ok (), S3 \<lparr> sequence_counter := sequence_counter S3 + 1 \<rparr>)))))"

definition remember_initial_target ::
  "target \<Rightarrow> ('msg, 'v, 'b, 'tlv) sv1_server \<Rightarrow> ('msg, 'v, 'b, 'tlv) sv1_server" where
  "remember_initial_target t S =
     upd_server (\<lambda>s. if initial_target s = None then s \<lparr> initial_target := Some t \<rparr> else s) S"

definition open_extended_mining_channel ::
  "('msg, 'x, 'v, 'b, 'tlv) tp_lib \<Rightarrow> tp_config \<Rightarrow> u32 \<Rightarrow> usize \<Rightarrow> ('msg, 'v, 'b, 'tlv) sv1_server \<Rightarrow>
     ('msg, 'x, 'v, 'b, 'tlv, unit) server_step" where
  "open_extended_mining_channel L C request_id i S =
     (case (if enable_vardiff C then hash_rate_to_target L (min_individual_miner_hashrate C) (shares_per_minute C)
            else Some (- 1)) of
        None \<Rightarrow> (Panic ''called `Result::unwrap()` on an `Err` value'', S)
      | Some max_target \<Rightarrow>
          (let S1 = remember_initial_target max_target S;
               miner_id = fst (fetch_add (miner_counter S1)) + 1;
               name = config_user_identity C @ ''.miner'' @ show_u32 L miner_id;
               S2 = lock_down (\<lambda>d. d \<lparr> user_identity := name \<rparr>) i
                      (S1 \<lparr> miner_counter := snd (fetch_add (miner_counter S1)) \<rparr>)
           in case build_open_extended L request_id name (min_individual_miner_hashrate C) max_target
                     (downstream_extranonce2_size C) of
                Some m \<Rightarrow> send_manager (OpenExtended m) None S2
              | None \<Rightarrow> (Ok (), S2)))"

definition handle_open_channel_request ::
  "('msg, 'x, 'v, 'b, 'tlv) tp_lib \<Rightarrow> tp_config \<Rightarrow> usize \<Rightarrow> ('msg, 'v, 'b, 'tlv) sv1_server \<Rightarrow>
     ('msg, 'x, 'v, 'b, 'tlv, unit) server_step" where
  "handle_open_channel_request L C i S =
     (let r = fst (fetch_add (request_id_factory (sv1_server_data S)));
          S1 = upd_server (\<lambda>s. s \<lparr> request_id_factory := snd (fetch_add (request_id_factory s)),
                 request_id_to_downstream_id := hm_insert r i (request_id_to_downstream_id s) \<rparr>) S
      in if get_down S1 i \<noteq> None then open_extended_mining_channel L C r i S1 else (Ok (), S1))"

primrec handle_miner_message ::
  "('msg, 'x, 'v, 'b, 'tlv) tp_lib \<Rightarrow> tp_config \<Rightarrow> downstream_message \<Rightarrow> ('msg, 'v, 'b, 'tlv) sv1_server \<Rightarrow>
     ('msg, 'x, 'v, 'b, 'tlv, unit) server_step" where
  "handle_miner_message L C (SubmitShares m) S = handle_submit_shares L C m S"
| "handle_miner_message L C (OpenChannel i) S = handle_open_channel_request L C i S"

section \<open>Messages of the channel manager\<close>

fun handle_queued ::
  "('msg, 'x, 'v, 'b, 'tlv) tp_lib \<Rightarrow> u32 \<Rightarrow> usize \<Rightarrow> 'msg list \<Rightarrow> ('msg, 'v, 'b, 'tlv) sv1_server \<Rightarrow>
     ('msg, 'x, 'v, 'b, 'tlv, unit) server_step" where
  "handle_queued L c i [] S = (Ok (), S)"
| "handle_queued L c i (m # ms) S =
     (case get_down S i of
        None \<Rightarrow> (Ok (), S)
      | Some D \<Rightarrow>
          (case handle_message (sv1_lib L) (valid_jobs (sv1_server_data S)) m (downstream_data D) of (r, d) \<Rightarrow>
            let S1 = lock_down (\<lambda>_. d) i S in
            (case r of
               Panic p \<Rightarrow> (Panic p, S1)
             | Err e \<Rightarrow> handle_queued L c i ms S1
             | Ok None \<Rightarrow> handle_queued L c i ms S1
             | Ok (Some response) \<Rightarrow>
                 and_then (send_downstreams c (Some i) response S1) (\<lambda>_. handle_queued L c i ms))))"

definition on_open_success ::
  "('msg, 'x, 'v, 'b, 'tlv) tp_lib \<Rightarrow> target \<Rightarrow> open_extended_success \<Rightarrow> ('msg, 'v, 'b, 'tlv) sv1_server \<Rightarrow>
     ('msg, 'x, 'v, 'b, 'tlv, unit) server_step" where
  "on_open_success L first_target m S =
     (let S1 = upd_server (\<lambda>s. s \<lparr> request_id_to_downstream_id :=
                 hm_remove (os_request_id m) (request_id_to_downstream_id s) \<rparr>) S;
          c = os_channel_id m
      in case hm_get (request_id_to_downstream_id (sv1_server_data S)) (os_request_id m) of
           None \<Rightarrow> (Err (DownstreamNotFound (os_request_id m)), S1)
         | Some i \<Rightarrow>
             (case get_down S1 i of
                None \<Rightarrow> (Ok (), S1)
              | Some D \<Rightarrow>
                  let S2 = lock_down (snd \<circ> take_queue \<circ>
                             open_channel c (os_extranonce_prefix m) (ucast (os_extranonce_size m)) (os_target m))
                             i S1;
                      queued = fst (take_queue (downstream_data D))
                  in and_then (handle_queued L c i queued S2)
                       (\<lambda>_ S3. case build_set_difficulty L first_target of
                          None \<Rightarrow> (Err (General ''Failed to generate set_difficulty''), S3)
                        | Some d \<Rightarrow> send_downstreams c None d S3)))"

definition store_job :: "u32 \<Rightarrow> bool \<Rightarrow> notify \<Rightarrow> job_store \<Rightarrow> job_store" where
  "store_job c clean n js =
     (case aggregated_valid_jobs js of
        Some ns \<Rightarrow> js \<lparr> aggregated_valid_jobs := Some ((if clean then [] else ns) @ [n]) \<rparr>
      | None \<Rightarrow>
          (case non_aggregated_valid_jobs js of
             Some m \<Rightarrow>
               let ns = (case hm_get m c of Some ns \<Rightarrow> ns | None \<Rightarrow> [])
               in js \<lparr> non_aggregated_valid_jobs := Some (hm_insert c ((if clean then [] else ns) @ [n]) m) \<rparr>
           | None \<Rightarrow> js))"

definition on_new_job ::
  "('msg, 'x, 'v, 'b, 'tlv) tp_lib \<Rightarrow> 'b extended_job \<Rightarrow> ('msg, 'v, 'b, 'tlv) sv1_server \<Rightarrow>
     ('msg, 'x, 'v, 'b, 'tlv, unit) server_step" where
  "on_new_job L m S =
     (case sv_prevhash (sv1_server_data S) of
        None \<Rightarrow> (Ok (), S)
      | Some ph \<Rightarrow>
          (case build_notify L ph m (clean_job S) of
             Inl e \<Rightarrow> (Err (TranslatorCore e), S)
           | Inr n \<Rightarrow>
               (let S1 = upd_server (\<lambda>s. s \<lparr> valid_jobs :=
                           store_job (ej_channel_id m) (clean_job S) n (valid_jobs s) \<rparr>)
                           (S \<lparr> clean_job := False \<rparr>)
                in (Ok (), post_downstreams (ej_channel_id m) None (notify_into (sv1_lib L) n) S1))))"

definition on_new_prev_hash ::
  "'b prev_hash_msg \<Rightarrow> ('msg, 'v, 'b, 'tlv) sv1_server \<Rightarrow> ('msg, 'v, 'b, 'tlv) sv1_server" where
  "on_new_prev_hash m S = upd_server (\<lambda>s. s \<lparr> sv_prevhash := Some m \<rparr>) (S \<lparr> clean_job := True \<rparr>)"

section \<open>Targets without vardiff\<close>

definition forward_target ::
  "('msg, 'x, 'v, 'b, 'tlv) tp_lib \<Rightarrow> target \<Rightarrow> usize \<Rightarrow> ('msg, 'v, 'b, 'tlv) sv1_server \<Rightarrow>
     ('msg, 'v, 'b, 'tlv) sv1_server" where
  "forward_target L t i S =
     (case channel_of S i of
        None \<Rightarrow> S
      | Some c \<Rightarrow> send_difficulty L c i t (lock_down (set_pending_target t \<circ> set_upstream_target t) i S))"

definition handle_set_target_without_vardiff ::
  "('msg, 'x, 'v, 'b, 'tlv) tp_lib \<Rightarrow> tp_config \<Rightarrow> u32 \<Rightarrow> target \<Rightarrow> ('msg, 'v, 'b, 'tlv) sv1_server \<Rightarrow>
     ('msg, 'v, 'b, 'tlv) sv1_server" where
  "handle_set_target_without_vardiff L C c t S =
     (if aggregate_channels C then fold (forward_target L t) (map fst (downstreams (sv1_server_data S))) S
      else
        (case down_on_channel c (downstreams (sv1_server_data S)) of
           None \<Rightarrow> S
         | Some i \<Rightarrow> forward_target L t i S))"

fun handle_upstream_message ::
  "('msg, 'x, 'v, 'b, 'tlv) tp_lib \<Rightarrow> tp_config \<Rightarrow> target \<Rightarrow> 'b tp_mining \<Rightarrow>
     ('msg, 'v, 'b, 'tlv) sv1_server \<Rightarrow> ('msg, 'x, 'v, 'b, 'tlv, unit) server_step" where
  "handle_upstream_message L C ft (OpenExtendedSuccess m) S = on_open_success L ft m S"
| "handle_upstream_message L C ft (NewExtendedJob m) S = on_new_job L m S"
| "handle_upstream_message L C ft (NewPrevHash m) S = (Ok (), on_new_prev_hash m S)"
| "handle_upstream_message L C ft (NewTarget c t) S =
     (Ok (), if enable_vardiff C then handle_set_target_message L (aggregate_channels C) c t S
             else handle_set_target_without_vardiff L C c t S)"
| "handle_upstream_message L C ft m S = (Panic ''Invalid message: should have been filtered earlier'', S)"

end
