(* ===== verification/Tproxy_Server_Laws.thy ===== *)
theory Tproxy_Server_Laws
  imports Tproxy_Server
begin

text \<open>
  The Sv1 server and its connections as one transition system, its invariant, and what the
  server promises about channels, jobs and shares.
\<close>

section \<open>Invariant\<close>

definition server_inv :: "tp_config \<Rightarrow> ('msg, 'v, 'b, 'tlv) sv1_server \<Rightarrow> bool" where
  "server_inv C S \<longleftrightarrow>
     hm_distinct (downstreams (sv1_server_data S)) \<and>
     (\<forall>i D. get_down S i = Some D \<longrightarrow>
        i < downstream_id_factory (sv1_server_data S) \<and> sd_downstream_id (downstream_data D) = i \<and>
        sd_hashrate (downstream_data D) \<noteq> None) \<and>
     (enable_vardiff C \<longrightarrow> hm_keys (sv_vardiff (sv1_server_data S)) = hm_keys (downstreams (sv1_server_data S)))"

text \<open>A change of one connection that keeps its identifier and that its hashrate is known.\<close>

definition data_kept :: "'msg sv1_data \<Rightarrow> 'msg sv1_data \<Rightarrow> bool" where
  "data_kept d d' \<longleftrightarrow>
     sd_downstream_id d' = sd_downstream_id d \<and> (sd_hashrate d \<noteq> None \<longrightarrow> sd_hashrate d' \<noteq> None)"

abbreviation down_rel :: "'msg sv1_downstream option \<Rightarrow> 'msg sv1_downstream option \<Rightarrow> bool" where
  "down_rel \<equiv> rel_option (\<lambda>D D'. data_kept (downstream_data D) (downstream_data D'))"

lemma data_kept_refl [simp]: "data_kept d d"
  by (simp add: data_kept_def)

lemma data_kept_trans: "data_kept d d1 \<Longrightarrow> data_kept d1 d2 \<Longrightarrow> data_kept d d2"
  by (simp add: data_kept_def)

lemma down_rel_trans:
  assumes "down_rel a b" and "down_rel b c"
  shows "down_rel a c"
  using assms by (cases a; cases b; cases c) (auto intro: data_kept_trans)

lemma down_rel_None: "down_rel a b \<Longrightarrow> b = None \<longleftrightarrow> a = None"
  by (cases a; cases b) simp_all

text \<open>A step of the server that adds and removes no connection.\<close>

definition downs_kept :: "('msg, 'v, 'b, 'tlv) sv1_server \<Rightarrow> ('msg, 'v, 'b, 'tlv) sv1_server \<Rightarrow> bool" where
  "downs_kept S S' \<longleftrightarrow>
     (hm_distinct (downstreams (sv1_server_data S)) \<longrightarrow> hm_distinct (downstreams (sv1_server_data S'))) \<and>
     downstream_id_factory (sv1_server_data S') = downstream_id_factory (sv1_server_data S) \<and>
     hm_keys (sv_vardiff (sv1_server_data S')) = hm_keys (sv_vardiff (sv1_server_data S)) \<and>
     (\<forall>i. down_rel (get_down S i) (get_down S' i))"

lemma downs_kept_refl [simp]: "downs_kept S S"
  by (auto simp: downs_kept_def intro: option.rel_refl)

lemma downs_kept_trans:
  assumes "downs_kept S S1" and "downs_kept S1 S2"
  shows "downs_kept S S2"
proof -
  have "down_rel (get_down S i) (get_down S2 i)" for i
    using assms by (auto simp: downs_kept_def intro: down_rel_trans)
  with assms show ?thesis by (simp add: downs_kept_def)
qed

lemma downs_kept_same:
  assumes "downstreams (sv1_server_data S') = downstreams (sv1_server_data S)"
    and "downstream_id_factory (sv1_server_data S') = downstream_id_factory (sv1_server_data S)"
    and "hm_keys (sv_vardiff (sv1_server_data S')) = hm_keys (sv_vardiff (sv1_server_data S))"
  shows "downs_kept S S'"
  using assms by (auto simp: downs_kept_def intro: option.rel_refl)

lemma downs_kept_keys:
  assumes "downs_kept S S'"
  shows "hm_keys (downstreams (sv1_server_data S')) = hm_keys (downstreams (sv1_server_data S))"
proof -
  have "get_down S' i = None \<longleftrightarrow> get_down S i = None" for i
    using assms by (intro down_rel_None) (simp add: downs_kept_def)
  then show ?thesis by (auto simp: hm.keys_get set_eq_iff simp del: not_None_eq)
qed

lemma downs_kept_inv:
  assumes "downs_kept S S'" and "server_inv C S"
  shows "server_inv C S'"
proof -
  have "i < downstream_id_factory (sv1_server_data S') \<and> sd_downstream_id (downstream_data D') = i \<and>
      sd_hashrate (downstream_data D') \<noteq> None" if "get_down S' i = Some D'" for i D'
  proof -
    have "down_rel (get_down S i) (get_down S' i)"
      using assms(1) by (simp add: downs_kept_def)
    with that obtain D where "get_down S i = Some D" "data_kept (downstream_data D) (downstream_data D')"
      by (auto simp: rel_option_iff split: option.splits)
    with assms show ?thesis by (auto simp: server_inv_def downs_kept_def data_kept_def)
  qed
  with assms downs_kept_keys [OF assms(1)] show ?thesis
    by (simp add: server_inv_def downs_kept_def)
qed

lemma lock_down_kept:
  assumes "\<And>D. get_down S i = Some D \<Longrightarrow> data_kept (downstream_data D) (f (downstream_data D))"
  shows "downs_kept S (lock_down f i S)"
  using assms
  by (auto simp: downs_kept_def lock_down_def rel_option_iff split: option.splits)

lemma lock_all_kept:
  assumes "\<And>d. data_kept d (f d)"
  shows "downs_kept S (lock_all_downs f S)"
proof -
  have "down_rel (get_down S i) (get_down (lock_all_downs f S) i)" for i
    using assms by (cases "get_down S i") simp_all
  then show ?thesis
    by (simp add: downs_kept_def lock_all_downs_def hm_distinct_def comp_def case_prod_beta)
qed

lemma kept_setters [simp]:
  "data_kept d (set_upstream_target t d') = data_kept d d'"
  "data_kept d (set_pending_target t d') = data_kept d d'"
  "data_kept d (set_pending_hashrate h d') = data_kept d d'"
  "data_kept d (open_channel c e n t d') = data_kept d d'"
  "data_kept d (snd (take_queue d')) = data_kept d d'"
  "data_kept d (d' \<lparr> user_identity := name \<rparr>) = data_kept d d'"
  by (simp_all add: data_kept_def pending_setters open_channel_def take_queue_def Let_def)

lemma handled_kept: "handled A js d d' \<Longrightarrow> data_kept d d'"
  by (induction rule: handled.induct)
    (auto simp: handler_defs data_kept_def Let_def split: option.splits)

section \<open>Steps of a connection\<close>

lemma apply_pending_kept: "data_kept d d' \<Longrightarrow> data_kept d (apply_pending d')"
  by (simp add: data_kept_def apply_pending_def Let_def split: option.split)

lemma send_kept [simp]:
  "downstream_data (snd (send_miner m D)) = downstream_data D"
  "downstream_data (snd (send_server sm D)) = downstream_data D"
  "downstream_data (snd (send_opt mo D)) = downstream_data D"
  by (simp_all add: send_miner_def send_server_def send_opt_def Let_def split: option.split)

lemma and_then_kept:
  assumes "data_kept d (downstream_data (snd m))"
    and "\<And>a D. m = (Ok a, D) \<Longrightarrow> data_kept (downstream_data D) (downstream_data (snd (k a D)))"
  shows "data_kept d (downstream_data (snd (and_then m k)))"
  using assms by (cases m) (auto simp: and_then_def split: res.split intro: data_kept_trans)

lemma data_kept_core:
  "data_kept d (d0 \<lparr> cached_set_difficulty := x \<rparr>) = data_kept d d0"
  "data_kept d (d0 \<lparr> cached_notify := y \<rparr>) = data_kept d d0"
  "data_kept d (d0 \<lparr> last_job_version_field := z \<rparr>) = data_kept d d0"
  "data_kept d (d0 \<lparr> pending_share := w \<rparr>) = data_kept d d0"
  "data_kept d (d0 \<lparr> sv1_handshake_complete := b \<rparr>) = data_kept d d0"
  "data_kept d (d0 \<lparr> queued_sv1_handshake_messages := q \<rparr>) = data_kept d d0"
  by (simp_all add: data_kept_def)

lemma forward_notify_kept: "data_kept (downstream_data D) (downstream_data (snd (forward_notify A m D)))"
proof (cases "notify_try_from A m")
  case None
  then show ?thesis by (simp add: forward_notify_def data_kept_core)
next
  case (Some n)
  then show ?thesis
    by (auto simp: forward_notify_def Let_def data_kept_core intro!: and_then_kept apply_pending_kept)
qed

lemma server_message_kept:
  "data_kept (downstream_data D) (downstream_data (snd (handle_sv1_server_message A r D)))"
  by (auto simp: handle_sv1_server_message_def before_handshake_def data_kept_core forward_notify_kept
      split: sum.split prod.split option.split)

lemma completion_kept:
  "data_kept (downstream_data D) (downstream_data (snd (handle_sv1_handshake_completion D)))"
  unfolding handle_sv1_handshake_completion_def Let_def
  by (rule and_then_kept)
    (auto simp: data_kept_core send_miner_def Let_def split: option.split
      intro!: and_then_kept apply_pending_kept)

lemma miner_message_kept:
  assumes "sv1_api_ok A"
  shows "data_kept (downstream_data D) (downstream_data (snd (handle_sv1_downstream_message A js r D)))"
proof (cases r)
  case (Inr m)
  obtain a d where hm: "handle_message A js m (downstream_data D) = (a, d)" by fastforce
  have "handled A js (downstream_data D) d"
    using assms hm unfolding sv1_api_ok_def by (metis snd_conv)
  then have kept: "data_kept (downstream_data D) d" by (rule handled_kept)
  have answer: "data_kept d (downstream_data (snd (answer_miner A m a (D \<lparr> downstream_data := d \<rparr>))))"
    by (auto simp: answer_miner_def completion_kept split: res.split option.split intro!: and_then_kept)
  have share: "data_kept (downstream_data D2) (downstream_data (snd (forward_share D2)))" for D2 :: "'a sv1_downstream"
    by (simp add: forward_share_def data_kept_core split: option.split)
  have queue: "data_kept (downstream_data D) (downstream_data (snd (queue_message m D)))"
    by (auto simp: queue_message_def data_kept_core intro!: and_then_kept)
  show ?thesis
    using Inr hm kept answer queue
    by (auto simp: handle_sv1_downstream_message_def share intro!: and_then_kept dest: data_kept_trans
        intro: data_kept_trans)
qed (simp add: handle_sv1_downstream_message_def)

section \<open>Steps of the server\<close>

text \<open>Fields that do not matter to \<open>downs_kept\<close>.\<close>

lemma downs_kept_fields [simp]:
  "downs_kept S (S1 \<lparr> to_downstreams := o' \<rparr>) = downs_kept S S1"
  "downs_kept S (S1 \<lparr> sequence_counter := n \<rparr>) = downs_kept S S1"
  "downs_kept S (S1 \<lparr> miner_counter := n \<rparr>) = downs_kept S S1"
  "downs_kept S (S1 \<lparr> clean_job := b \<rparr>) = downs_kept S S1"
  "downs_kept S (S1 \<lparr> sv1_server_data := d \<lparr> pending_target_updates := p \<rparr> \<rparr>) = downs_kept S (S1 \<lparr> sv1_server_data := d \<rparr>)"
  "downs_kept S (S1 \<lparr> sv1_server_data := d \<lparr> initial_target := t \<rparr> \<rparr>) = downs_kept S (S1 \<lparr> sv1_server_data := d \<rparr>)"
  "downs_kept S (S1 \<lparr> sv1_server_data := d \<lparr> valid_jobs := j \<rparr> \<rparr>) = downs_kept S (S1 \<lparr> sv1_server_data := d \<rparr>)"
  "downs_kept S (S1 \<lparr> sv1_server_data := d \<lparr> sv_prevhash := h \<rparr> \<rparr>) = downs_kept S (S1 \<lparr> sv1_server_data := d \<rparr>)"
  "downs_kept S (S1 \<lparr> sv1_server_data := d \<lparr> request_id_factory := n \<rparr> \<rparr>) = downs_kept S (S1 \<lparr> sv1_server_data := d \<rparr>)"
  "downs_kept S (S1 \<lparr> sv1_server_data := d \<lparr> request_id_to_downstream_id := r \<rparr> \<rparr>) = downs_kept S (S1 \<lparr> sv1_server_data := d \<rparr>)"
  "downs_kept S (S1 \<lparr> sv1_server_data := sv1_server_data S1 \<rparr>) = downs_kept S S1"
  by (simp_all add: downs_kept_def)

lemma kept_and_then:
  assumes "downs_kept S (snd m)" and "\<And>a S1. m = (Ok a, S1) \<Longrightarrow> downs_kept S1 (snd (k a S1))"
  shows "downs_kept S (snd (and_then m k))"
  using assms by (cases m) (auto simp: and_then_def split: res.split intro: downs_kept_trans)

lemma send_downs_kept [simp]:
  "downs_kept S (snd (send_manager m tlv S))" "downs_kept S (snd (send_downstreams c i x S))"
  "downs_kept S (post_manager m S)" "downs_kept S (post_downstreams c i x S)"
  "downs_kept S (send_difficulty L c j t S)" "downs_kept S (send_immediate L us S)"
  by (auto simp: send_manager_def send_downstreams_def post_manager_def post_downstreams_def
      send_difficulty_eq send_immediate_eq intro!: downs_kept_same)

lemma vardiff_downstream_kept:
  assumes "i \<in> hm_keys (sv_vardiff (sv1_server_data S))"
  shows "downs_kept S (snd (vardiff_downstream L spm i v S))"
proof -
  let ?S1 = "\<lambda>v'. upd_server (\<lambda>s. s \<lparr> sv_vardiff := hm_insert i v' (sv_vardiff s) \<rparr>) S"
  have S1: "downs_kept S (?S1 v')" for v' using assms by (intro downs_kept_same) auto
  have S2: "downs_kept S (lock_down (set_pending_hashrate h \<circ> set_pending_target t) i (?S1 v'))" for h t v'
    by (rule downs_kept_trans [OF S1 lock_down_kept]) simp
  from S1 S2 show ?thesis
    by (simp add: vardiff_downstream_def Let_def split: option.split prod.split)
qed

lemma vardiff_all_kept:
  "fst ` set vs \<subseteq> hm_keys (sv_vardiff (sv1_server_data S)) \<Longrightarrow> downs_kept S (snd (vardiff_all L spm vs S))"
proof (induction vs arbitrary: S)
  case (Cons iv vs)
  obtain i v where iv: "iv = (i, v)" by fastforce
  have first: "downs_kept S (snd (vardiff_downstream L spm i v S))"
    using Cons.prems iv by (intro vardiff_downstream_kept) simp
  have "downs_kept S1 (snd (vardiff_all L spm vs S1))" if "vardiff_downstream L spm i v S = (Ok a, S1)" for a S1
    using Cons.prems first that by (intro Cons.IH) (auto simp: downs_kept_def)
  then show ?case
    unfolding iv by (auto intro!: kept_and_then first)
qed simp

lemma announce_kept: "downs_kept S (snd (announce_updates L aggregated us S))"
  using announce_frame(1) [of L aggregated us S "fst (announce_updates L aggregated us S)"
      "snd (announce_updates L aggregated us S)"] by (intro downs_kept_same) simp_all

lemma vardiff_kept: "downs_kept S (snd (handle_vardiff_updates L aggregated spm S))"
proof -
  have "downs_kept S (snd (vardiff_all L spm (sv_vardiff (sv1_server_data S)) S))"
    by (rule vardiff_all_kept) (simp add: hm_keys_def)
  then show ?thesis
    unfolding handle_vardiff_updates_def by (auto intro!: kept_and_then announce_kept)
qed

lemma set_target_kept: "downs_kept S (handle_set_target_message L aggregated c t S)"
  by (auto simp: handle_set_target_message_def handle_aggregated_set_target_def
      handle_non_aggregated_set_target_def get_pending_difficulty_updates_def Let_def send_pending_eq
      split: option.split intro!: lock_all_kept lock_down_kept)

lemma forward_target_kept: "downs_kept S (forward_target L t i S)"
  unfolding forward_target_def
  by (auto split: option.split intro!: downs_kept_trans [OF lock_down_kept send_downs_kept(5)])

lemma without_vardiff_kept: "downs_kept S (handle_set_target_without_vardiff L C c t S)"
proof -
  have "downs_kept S (fold (forward_target L t) is S)" for "is"
    by (induction "is" arbitrary: S) (auto intro: downs_kept_trans forward_target_kept)
  then show ?thesis
    by (simp add: handle_set_target_without_vardiff_def forward_target_kept split: option.split)
qed

lemma submit_kept: "downs_kept S (snd (handle_submit_shares L C m S))"
proof -
  have inc: "downs_kept S (increment_vardiff L i S)" for i
    by (auto simp: increment_vardiff_def split: option.split intro!: downs_kept_same dest: hm_get_in_keys)
  have "downs_kept S (if enable_vardiff C then increment_vardiff L (ss_downstream_id m) S else S)"
    using inc by simp
  then show ?thesis
    unfolding handle_submit_shares_def Let_def
    by (rule downs_kept_trans) (auto split: option.split intro!: kept_and_then)
qed

lemma open_extended_kept: "downs_kept S (snd (open_extended_mining_channel L C r i S))"
proof -
  have "downs_kept S (remember_initial_target t S \<lparr> miner_counter := n \<rparr>)" for t n
    by (simp add: remember_initial_target_def)
  then have "downs_kept S (lock_down (\<lambda>d. d \<lparr> user_identity := name \<rparr>) i
      (remember_initial_target t S \<lparr> miner_counter := n \<rparr>))" for t n name
    by (rule downs_kept_trans [OF _ lock_down_kept]) simp
  then show ?thesis
    by (auto simp: open_extended_mining_channel_def Let_def split: option.split
        intro!: downs_kept_trans [OF _ send_downs_kept(1)])
qed

lemma open_request_kept: "downs_kept S (snd (handle_open_channel_request L C i S))"
  unfolding handle_open_channel_request_def Let_def
  by (auto intro!: downs_kept_trans [OF _ open_extended_kept])

lemma handle_queued_kept:
  assumes "sv1_api_ok (sv1_lib L)"
  shows "downs_kept S (snd (handle_queued L c i ms S))"
proof (induction ms arbitrary: S)
  case (Cons m ms)
  have "downs_kept S (lock_down (\<lambda>_. snd (handle_message (sv1_lib L) (valid_jobs (sv1_server_data S)) m
      (downstream_data D))) i S)" if "get_down S i = Some D" for D
  proof (rule lock_down_kept)
    fix D' assume "get_down S i = Some D'"
    with that assms show "data_kept (downstream_data D') (snd (handle_message (sv1_lib L)
        (valid_jobs (sv1_server_data S)) m (downstream_data D)))"
      by (auto simp: sv1_api_ok_def intro!: handled_kept)
  qed
  then show ?case
    by (auto simp: Let_def split: option.split prod.split res.split
        intro!: kept_and_then downs_kept_trans [OF _ send_downs_kept(2)] Cons.IH
        intro: downs_kept_trans [OF _ Cons.IH])
qed simp

lemma open_success_kept:
  assumes "sv1_api_ok (sv1_lib L)"
  shows "downs_kept S (snd (on_open_success L ft m S))"
proof -
  have "downs_kept S (lock_down (snd \<circ> take_queue \<circ> open_channel c e n t) i
      (upd_server (\<lambda>s. s \<lparr> request_id_to_downstream_id := r \<rparr>) S))" for c e n t i r
    by (rule downs_kept_trans [OF _ lock_down_kept]) simp_all
  then show ?thesis
    unfolding on_open_success_def Let_def
    by (auto split: option.split
        intro!: kept_and_then downs_kept_trans [OF _ handle_queued_kept [OF assms]])
qed

lemma new_job_kept: "downs_kept S (snd (on_new_job L m S))"
  by (auto simp: on_new_job_def Let_def split: option.split sum.split
      intro!: downs_kept_trans [OF _ send_downs_kept(4)])

lemma upstream_message_kept:
  assumes "sv1_api_ok (sv1_lib L)"
  shows "downs_kept S (snd (handle_upstream_message L C ft m S))"
  by (cases m) (simp_all add: open_success_kept [OF assms] new_job_kept set_target_kept
      without_vardiff_kept on_new_prev_hash_def)

section \<open>The server and its connections\<close>

text \<open>
  The transition system: the server's select loop runs one handler at a time, and between them
  each connection's task handles messages of the server and of its miner. An event of a
  connection sees the server's jobs. The counter of connections does not wrap around.
\<close>

definition connection_step ::
  "('msg, 'x, 'v, 'b, 'tlv) tp_lib \<Rightarrow> usize \<Rightarrow> ('msg, 'x) down_event \<Rightarrow> ('msg, 'v, 'b, 'tlv) sv1_server \<Rightarrow>
     ('msg, 'v, 'b, 'tlv) sv1_server" where
  "connection_step L i e S =
     (case get_down S i of
        None \<Rightarrow> S
      | Some D \<Rightarrow>
          upd_server (\<lambda>s. s \<lparr> downstreams :=
            hm_insert i (snd (down_event_step (sv1_lib L) e D)) (downstreams s) \<rparr>) S)"

inductive tp_reachable ::
  "('msg, 'x, 'v, 'b, 'tlv) tp_lib \<Rightarrow> tp_config \<Rightarrow> target \<Rightarrow> ('msg, 'v, 'b, 'tlv) sv1_server \<Rightarrow> bool"
  for L :: "('msg, 'x, 'v, 'b, 'tlv) tp_lib" and C :: tp_config and ft :: target where
  tp_start: "tp_reachable L C ft (sv1_server_new C)"
| tp_accept:
    "tp_reachable L C ft S \<Longrightarrow> unat (downstream_id_factory (sv1_server_data S)) + 1 < 2 ^ 64 \<Longrightarrow>
     accept_miner L C ft S = (Ok i, S') \<Longrightarrow> tp_reachable L C ft S'"
| tp_shutdown:
    "tp_reachable L C ft S \<Longrightarrow> downstream_shutdown L C i S = (Ok (), S') \<Longrightarrow> tp_reachable L C ft S'"
| tp_miner:
    "tp_reachable L C ft S \<Longrightarrow> handle_miner_message L C m S = (Ok (), S') \<Longrightarrow> tp_reachable L C ft S'"
| tp_upstream:
    "tp_reachable L C ft S \<Longrightarrow> handle_upstream_message L C ft mm S = (Ok (), S') \<Longrightarrow> tp_reachable L C ft S'"
| tp_vardiff:
    "tp_reachable L C ft S \<Longrightarrow>
     handle_vardiff_updates L (aggregate_channels C) (shares_per_minute C) S = (Ok (), S') \<Longrightarrow>
     tp_reachable L C ft S'"
| tp_from_server: "tp_reachable L C ft S \<Longrightarrow> tp_reachable L C ft (connection_step L i (FromServer r) S)"
| tp_from_miner:
    "tp_reachable L C ft S \<Longrightarrow>
     tp_reachable L C ft (connection_step L i (FromMiner (valid_jobs (sv1_server_data S)) x) S)"

lemma connection_kept:
  assumes "sv1_api_ok (sv1_lib L)" and "\<And>l. e \<noteq> ByServer l"
  shows "downs_kept S (connection_step L i e S)"
proof (cases "get_down S i")
  case (Some D)
  have "data_kept (downstream_data D) (downstream_data (snd (down_event_step (sv1_lib L) e D)))"
    using assms by (cases e) (auto intro: server_message_kept miner_message_kept)
  with Some show ?thesis
    by (auto simp: connection_step_def downs_kept_def intro!: option.rel_refl)
qed (simp add: connection_step_def)

lemma accept_inv:
  assumes "server_inv C S" and "unat (downstream_id_factory (sv1_server_data S)) + 1 < 2 ^ 64"
    and "accept_miner L C ft S = (Ok i, S')"
  shows "server_inv C S' \<and> get_down S i = None"
proof -
  let ?f = "downstream_id_factory (sv1_server_data S)"
  have i: "i = ?f" using assms(3) by (auto simp: accept_miner_def Let_def split: if_splits option.splits)
  have less: "j < ?f + 1" if "j < ?f" for j using that assms(2) less_next_word [of ?f j] by simp
  have free: "get_down S ?f = None"
    using assms(1) unfolding server_inv_def by (cases "get_down S ?f") blast+
  moreover have "?f < ?f + 1" using assms(2) less_next_word [of ?f ?f] by simp
  ultimately show ?thesis
    using assms(1,3) less free unfolding i
    by (auto simp: accept_miner_def server_inv_def Let_def sv1_downstream_new_def sv1_data_new_def
        split: if_splits option.splits)
qed

lemma shutdown_inv:
  assumes "server_inv C S"
  shows "server_inv C (snd (downstream_shutdown L C i S))"
proof -
  let ?S1 = "upd_server (\<lambda>s. s \<lparr>
      sv_vardiff := (if enable_vardiff C then hm_remove i (sv_vardiff s) else sv_vardiff s),
      downstreams := hm_remove i (downstreams s) \<rparr>) S"
  have S1: "server_inv C ?S1"
    using assms by (auto simp: server_inv_def split: if_splits)
  have upd: "downs_kept S1 (snd (send_update_channel_on_downstream_state_change L b S1))"
    for S1 b
    by (simp add: send_update_channel_on_downstream_state_change_def split: option.split)
  have "downs_kept ?S1 (snd (downstream_shutdown L C i S))"
    unfolding downstream_shutdown_def Let_def
    by (auto split: option.split intro!: kept_and_then upd)
  then show ?thesis using S1 downs_kept_inv by blast
qed

lemma tp_reachable_inv:
  assumes "sv1_api_ok (sv1_lib L)" and "tp_reachable L C ft S"
  shows "server_inv C S"
  using assms(2)
proof induction
  case tp_start
  show ?case by (simp add: server_inv_def sv1_server_new_def sv1_server_data_new_def)
next
  case (tp_accept S i S')
  then show ?case using accept_inv by blast
next
  case (tp_shutdown S i S')
  then show ?case using shutdown_inv [of C S L i] by simp
next
  case (tp_miner S m S')
  have "downs_kept S (snd (handle_miner_message L C m S))"
    by (cases m) (simp_all add: submit_kept open_request_kept)
  with tp_miner show ?case by (auto intro: downs_kept_inv)
next
  case (tp_upstream S mm S')
  with upstream_message_kept [OF assms(1), of S C ft mm] show ?case by (auto intro: downs_kept_inv)
next
  case (tp_vardiff S S')
  with vardiff_kept [of S L "aggregate_channels C" "shares_per_minute C"] show ?case
    by (auto intro: downs_kept_inv)
next
  case (tp_from_server S i r)
  then show ?case by (intro downs_kept_inv [OF connection_kept [OF assms(1)]]) auto
next
  case (tp_from_miner S i x)
  then show ?case by (intro downs_kept_inv [OF connection_kept [OF assms(1)]]) auto
qed

definition demo_tp_config :: tp_config where
  "demo_tp_config = \<lparr> aggregate_channels = True, enable_vardiff = True, shares_per_minute = 6,
     min_individual_miner_hashrate = 10, config_user_identity = ''pool'', downstream_extranonce2_size = 4 \<rparr>"

section \<open>Properties\<close>

text \<open>
  C7. In every reachable state the identifiers of the connections are distinct, below the counter
  and stored in the connection itself, every connection has a hashrate, and with vardiff
  enabled exactly the connections have a vardiff state. The periodic vardiff pass
  therefore completes without a panic.
\<close>

theorem translator_vardiff_runs:
  assumes "sv1_api_ok (sv1_lib L)" and "tp_reachable L C ft S"
  shows "server_inv C S \<and>
    (\<exists>S'. handle_vardiff_updates L (aggregate_channels C) (shares_per_minute C) S = (Ok (), S'))"
proof -
  have inv: "server_inv C S" by (rule tp_reachable_inv [OF assms])
  then have "hashrates_known S" by (auto simp: server_inv_def hashrates_known_def down_view_def)
  from vardiff_pass_total [OF \<open>hashrates_known S\<close>] inv show ?thesis by blast
qed

theorem translator_vardiff_runs_witness:
  "\<exists>S. tp_reachable demo_tp_lib demo_tp_config 100 S \<and> get_down S 1 \<noteq> None \<and> server_inv demo_tp_config S \<and>
     (\<exists>S'. handle_vardiff_updates demo_tp_lib True 6 S = (Ok (), S'))"
proof -
  let ?S = "snd (accept_miner demo_tp_lib demo_tp_config 100 (sv1_server_new demo_tp_config))"
  have "accept_miner demo_tp_lib demo_tp_config 100 (sv1_server_new demo_tp_config) = (Ok 1, ?S)"
    and get: "get_down ?S 1 \<noteq> None"
    by (simp_all add: accept_miner_def demo_tp_config_def demo_tp_lib_def sv1_server_new_def sv1_server_data_new_def)
  moreover have "unat (downstream_id_factory (sv1_server_data
      (sv1_server_new demo_tp_config :: (string, nat, unit, string) sv1_server))) + 1 < 2 ^ 64"
    by (simp add: sv1_server_new_def sv1_server_data_new_def)
  ultimately have r: "tp_reachable demo_tp_lib demo_tp_config 100 ?S"
    by (intro tp_accept [OF tp_start])
  have "sv1_api_ok (sv1_lib demo_tp_lib)" by (simp add: demo_tp_lib_def demo_api_ok)
  from translator_vardiff_runs [OF this r] r get show ?thesis
    by (auto simp: demo_tp_config_def)
qed

text \<open>
  A share that is still queued when its miner is removed stops the server in non-aggregated
  mode: the lookup of the miner's identity is unwrapped and panics.
\<close>

theorem queued_share_of_removed_miner_panics:
  assumes "\<not> aggregate_channels C" and "downstream_shutdown L C i S = (Ok (), S1)"
    and "ss_downstream_id m = i" and "ss_job_version m = Some v"
    and "\<And>c n. build_submit L (ss_share m) c n v (ss_version_rolling_mask m) \<noteq> None"
  shows "\<exists>p S2. handle_miner_message L C (SubmitShares m) S1 = (Panic p, S2)"
proof -
  have "get_down S1 i = None"
  proof (cases "get_down S i")
    case None
    with assms(2) show ?thesis by (auto simp: downstream_shutdown_def Let_def split: option.splits)
  next
    case (Some D)
    with assms(1,2) show ?thesis
      by (auto simp: downstream_shutdown_def send_update_channel_on_downstream_state_change_def Let_def
          split: option.splits if_splits)
  qed
  define S1' where "S1' = (if enable_vardiff C then increment_vardiff L i S1 else S1)"
  have gone: "get_down S1' i = None"
    using \<open>get_down S1 i = None\<close> by (simp add: S1'_def increment_vardiff_def split: option.split)
  obtain sm where "build_submit L (ss_share m) (ss_channel_id m) (sequence_counter S1') v
      (ss_version_rolling_mask m) = Some sm"
    using assms(5) by blast
  with gone assms(1,3,4) show ?thesis
    by (cases "enable_vardiff C") (simp_all add: handle_submit_shares_def share_tlv_def S1'_def Let_def)
qed

theorem queued_share_of_removed_miner_panics_witness:
  "\<exists>S1 p S2. downstream_shutdown demo_tp_lib (demo_tp_config \<lparr> aggregate_channels := False \<rparr>) 1 demo_server = (Ok (), S1) \<and>
     handle_miner_message demo_tp_lib (demo_tp_config \<lparr> aggregate_channels := False \<rparr>)
       (SubmitShares \<lparr> ss_channel_id = 2, ss_downstream_id = 1, ss_share = demo_submit, ss_extranonce = [9],
          ss_extranonce2_len = 4, ss_version_rolling_mask = None, ss_job_version = Some 1 \<rparr>) S1 = (Panic p, S2)"
proof -
  let ?C = "demo_tp_config \<lparr> aggregate_channels := False \<rparr>"
  let ?m = "\<lparr> ss_channel_id = 2, ss_downstream_id = 1, ss_share = demo_submit, ss_extranonce = [9],
      ss_extranonce2_len = 4, ss_version_rolling_mask = None, ss_job_version = Some 1 \<rparr>"
  obtain S1 where S1: "downstream_shutdown demo_tp_lib ?C 1 demo_server = (Ok (), S1)"
    by (simp add: downstream_shutdown_def send_update_channel_on_downstream_state_change_def demo_tp_config_def
        Let_def hm_get_def env_simps)
  have "\<exists>p S2. handle_miner_message demo_tp_lib ?C (SubmitShares ?m) S1 = (Panic p, S2)"
    by (rule queued_share_of_removed_miner_panics [OF _ S1, of _ 1]) (simp_all add: demo_tp_lib_def demo_tp_config_def)
  with S1 show ?thesis by blast
qed

text \<open>
  A job that the server announces on a channel is the one a share for it is later checked
  against, in either mode, provided its identifier is not that of a job still stored
  for the channel.
\<close>

theorem announced_job_is_valid:
  assumes "aggregated_valid_jobs js \<noteq> None \<or> non_aggregated_valid_jobs js \<noteq> None"
    and "clean \<or> valid_job js c (n_job_id n) = None"
  shows "valid_job (store_job c clean n js) c (n_job_id n) = Some n"
proof -
  have find: "find_job (n_job_id n) ns = None \<Longrightarrow> find_job (n_job_id n) (ns @ [n]) = Some n" for ns
    by (induction ns) (auto simp: find_job_def split: if_splits)
  show ?thesis
  proof (cases "aggregated_valid_jobs js")
    case (Some ns)
    with assms find [of ns] show ?thesis by (auto simp: store_job_def valid_job_def find_job_def)
  next
    case None
    with assms(1) obtain m where m: "non_aggregated_valid_jobs js = Some m" by blast
    with None assms(2) find show ?thesis
      by (cases "hm_get m c") (auto simp: store_job_def valid_job_def Let_def find_job_def)
  qed
qed

theorem announced_job_is_valid_witness:
  "valid_job (store_job 2 False (demo_notify \<lparr> n_job_id := ''2'' \<rparr>) demo_jobs) 2 ''2'' =
     Some (demo_notify \<lparr> n_job_id := ''2'' \<rparr>)"
  using announced_job_is_valid [of demo_jobs False 2 "demo_notify \<lparr> n_job_id := ''2'' \<rparr>"]
  by (simp add: demo_jobs_def demo_notify_def valid_job_def find_job_def)

section \<open>Opening a channel\<close>

text \<open>What a handler leaves of the other connections and of the open requests.\<close>

definition only_changes :: "usize \<Rightarrow> ('msg, 'v, 'b, 'tlv) sv1_server \<Rightarrow> ('msg, 'v, 'b, 'tlv) sv1_server \<Rightarrow> bool" where
  "only_changes i S S' \<longleftrightarrow>
     (\<forall>j. j \<noteq> i \<longrightarrow> get_down S' j = get_down S j) \<and>
     request_id_to_downstream_id (sv1_server_data S') = request_id_to_downstream_id (sv1_server_data S)"

lemma only_changes_send [simp]:
  "only_changes i S (snd (send_downstreams c x m S))" "only_changes i S (snd (send_manager mm tlv S))"
  "only_changes i S (lock_down f i S)"
  by (simp_all add: only_changes_def send_downstreams_def send_manager_def lock_down_def split: option.split)

lemma only_changes_trans: "only_changes i S S1 \<Longrightarrow> only_changes i S1 S2 \<Longrightarrow> only_changes i S S2"
  by (simp add: only_changes_def)

lemma get_down_send [simp]:
  "get_down (snd (send_downstreams c x m S)) j = get_down S j"
  "get_down (snd (send_manager mm tlv S)) j = get_down S j"
  by (simp_all add: send_downstreams_def send_manager_def)

lemma handle_queued_core:
  assumes "sv1_api_ok (sv1_lib L)" and "get_down S i = Some D" and "handle_queued L c i ms S = (Ok (), S')"
  shows "only_changes i S S' \<and>
    (\<exists>D'. get_down S' i = Some D' \<and> sv1_core (downstream_data D') = sv1_core (downstream_data D))"
  using assms(2,3)
proof (induction ms arbitrary: S D)
  case Nil
  then show ?case by (simp add: only_changes_def)
next
  case (Cons m ms)
  obtain r d where hm: "handle_message (sv1_lib L) (valid_jobs (sv1_server_data S)) m (downstream_data D) = (r, d)"
    by fastforce
  let ?S1 = "lock_down (\<lambda>_. d) i S" and ?D1 = "D \<lparr> downstream_data := d \<rparr>"
  have "handled (sv1_lib L) (valid_jobs (sv1_server_data S)) (downstream_data D) d"
    using assms(1) hm unfolding sv1_api_ok_def by (metis snd_conv)
  then have core: "sv1_core d = sv1_core (downstream_data D)" by (rule handled_core)
  have D1: "get_down ?S1 i = Some ?D1" using Cons.prems(1) by simp
  obtain S2 where S2: "only_changes i S S2" "get_down S2 i = Some ?D1" "handle_queued L c i ms S2 = (Ok (), S')"
  proof (cases "\<exists>x. r = Ok (Some x)")
    case True
    then obtain x where x: "r = Ok (Some x)" by blast
    let ?S2 = "snd (send_downstreams c (Some i) x ?S1 :: ('a, 'b, 'c, 'd, 'e, unit) server_step)"
    have "only_changes i S ?S2" by (rule only_changes_trans [OF only_changes_send(3) only_changes_send(1)])
    moreover have "get_down ?S2 i = Some ?D1" by (simp add: D1 del: get_lock_down)
    moreover have "handle_queued L c i ms ?S2 = (Ok (), S')"
      using Cons.prems hm x by (auto simp: and_then_Ok send_downstreams_def Let_def split: if_splits)
    ultimately show thesis by (rule that)
  next
    case False
    then have "handle_queued L c i ms ?S1 = (Ok (), S')"
      using Cons.prems hm by (cases r) (auto simp: Let_def split: option.splits)
    then show thesis using D1 by (intro that [of ?S1]) simp_all
  qed
  from Cons.IH [OF S2(2,3)] S2(1) core show ?case by (auto intro: only_changes_trans)
qed

section \<open>Open requests\<close>

text \<open>
  The requests that wait for their answer: only a request for a channel, a success message and
  nothing else change them.
\<close>

definition open_requests :: "('msg, 'v, 'b, 'tlv) sv1_server \<Rightarrow> (u32, usize) hash_map \<times> u32" where
  "open_requests S =
     (request_id_to_downstream_id (sv1_server_data S), request_id_factory (sv1_server_data S))"

lemma open_requests_upd [simp]:
  "open_requests (lock_down f i S) = open_requests S" "open_requests (lock_all_downs f S) = open_requests S"
  "open_requests (post_manager m S) = open_requests S" "open_requests (post_downstreams c k x S) = open_requests S"
  "open_requests (snd (send_manager m tlv S)) = open_requests S"
  "open_requests (snd (send_downstreams c k x S)) = open_requests S"
  "open_requests (send_difficulty L c j t S) = open_requests S" "open_requests (send_immediate L us S) = open_requests S"
  "open_requests (remember_initial_target t S) = open_requests S"
  "open_requests (increment_vardiff L i S) = open_requests S"
  by (auto simp: open_requests_def lock_down_def lock_all_downs_def send_manager_def send_downstreams_def
      send_difficulty_eq send_immediate_eq remember_initial_target_def increment_vardiff_def split: option.split)

lemma open_requests_fields [simp]:
  "open_requests (S \<lparr> sequence_counter := n \<rparr>) = open_requests S"
  "open_requests (S \<lparr> miner_counter := n \<rparr>) = open_requests S"
  "open_requests (S \<lparr> clean_job := b \<rparr>) = open_requests S"
  by (simp_all add: open_requests_def)

lemma open_requests_and_then:
  assumes "open_requests (snd m) = r" and "\<And>a S1. open_requests (snd (k a S1)) = open_requests S1"
  shows "open_requests (snd (and_then m k)) = r"
  using assms by (cases m) (simp add: and_then_def split: res.split)

lemma open_requests_vardiff [simp]:
  "open_requests (snd (handle_vardiff_updates L aggregated spm S)) = open_requests S"
proof -
  have one: "open_requests (snd (vardiff_downstream L spm i v S)) = open_requests S"
    for i v and S :: "('a, 'b, 'c, 'd) sv1_server"
    by (auto simp: vardiff_downstream_def open_requests_def lock_down_def Let_def
        split: option.split prod.split)
  have all: "open_requests (snd (vardiff_all L spm vs S)) = open_requests S" for vs
    by (induction vs arbitrary: S) (auto simp: one intro!: open_requests_and_then)
  have "open_requests (snd (announce_updates L aggregated us S)) = open_requests S"
    for us and S :: "('a, 'b, 'c, 'd) sv1_server"
    using announce_frame(1) [of L aggregated us S "fst (announce_updates L aggregated us S)"
        "snd (announce_updates L aggregated us S)"] by (simp add: open_requests_def)
  then show ?thesis
    unfolding handle_vardiff_updates_def by (auto simp: all intro!: open_requests_and_then)
qed

lemma open_requests_targets [simp]:
  "open_requests (handle_set_target_message L aggregated c t S) = open_requests S"
  "open_requests (handle_set_target_without_vardiff L C c t S) = open_requests S"
proof -
  show "open_requests (handle_set_target_message L aggregated c t S) = open_requests S"
    by (auto simp: handle_set_target_message_def handle_aggregated_set_target_def open_requests_def
        handle_non_aggregated_set_target_def get_pending_difficulty_updates_def Let_def send_pending_eq
        lock_down_def lock_all_downs_def split: option.split)
  have one: "open_requests (forward_target L t i S) = open_requests S" for i and S :: "('a, 'b, 'c, 'd) sv1_server"
    by (simp add: forward_target_def split: option.split)
  then have "open_requests (fold (forward_target L t) is S) = open_requests S" for "is"
    by (induction "is" arbitrary: S) simp_all
  with one show "open_requests (handle_set_target_without_vardiff L C c t S) = open_requests S"
    by (simp add: handle_set_target_without_vardiff_def split: option.split)
qed

lemma open_requests_messages [simp]:
  "open_requests (snd (handle_submit_shares L C sm S)) = open_requests S"
  "open_requests (snd (open_extended_mining_channel L C r i S)) = open_requests S"
  "open_requests (snd (on_new_job L j S)) = open_requests S"
  "open_requests (on_new_prev_hash ph S) = open_requests S"
  "open_requests (snd (downstream_shutdown L C i S)) = open_requests S"
  "open_requests (snd (accept_miner L C ft S)) = open_requests S"
  "open_requests (sv1_upstream_fallback C S) = open_requests S"
  "open_requests (connection_step L i e S) = open_requests S"
proof -
  show "open_requests (snd (handle_submit_shares L C sm S)) = open_requests S"
    unfolding handle_submit_shares_def Let_def by (auto split: option.split intro!: open_requests_and_then)
  show "open_requests (snd (open_extended_mining_channel L C r i S)) = open_requests S"
    by (simp add: open_extended_mining_channel_def Let_def split: option.split)
  show "open_requests (snd (on_new_job L j S)) = open_requests S"
    by (simp add: on_new_job_def Let_def split: option.split sum.split) (simp add: open_requests_def)
  show "open_requests (on_new_prev_hash ph S) = open_requests S"
    by (simp add: on_new_prev_hash_def open_requests_def)
  have upd: "open_requests (snd (send_update_channel_on_downstream_state_change L b S1)) = open_requests S1" for b S1
    by (simp add: send_update_channel_on_downstream_state_change_def split: option.split)
  have "open_requests (upd_server (\<lambda>s. s \<lparr> sv_vardiff := v, downstreams := d \<rparr>) S) = open_requests S"
    "open_requests (upd_server (\<lambda>s. s \<lparr> downstreams := d \<rparr>) S) = open_requests S" for v d
    by (simp_all add: open_requests_def)
  then show "open_requests (snd (downstream_shutdown L C i S)) = open_requests S"
    unfolding downstream_shutdown_def Let_def by (auto simp: upd split: option.split intro!: open_requests_and_then)
  show "open_requests (snd (accept_miner L C ft S)) = open_requests S"
    by (simp add: accept_miner_def open_requests_def Let_def split: option.split)
  show "open_requests (sv1_upstream_fallback C S) = open_requests S"
    by (simp add: sv1_upstream_fallback_def open_requests_def)
  show "open_requests (connection_step L i e S) = open_requests S"
    by (simp add: connection_step_def open_requests_def split: option.split)
qed

lemma open_requests_success:
  "open_requests (snd (on_open_success L ft m S)) =
     (hm_remove (os_request_id m) (fst (open_requests S)), snd (open_requests S))"
proof -
  have queued: "open_requests (snd (handle_queued L c i ms S)) = open_requests S"
    for c i ms and S :: "('a, 'b, 'c, 'd) sv1_server"
    by (induction ms arbitrary: S)
      (auto simp: Let_def split: option.split prod.split res.split intro!: open_requests_and_then)
  show ?thesis
    unfolding on_open_success_def Let_def
    by (auto simp: queued split: option.split intro!: open_requests_and_then) (simp_all add: open_requests_def)
qed

section \<open>Runs of the server\<close>

text \<open>Everything that the server's loop and the connections do, as events.\<close>

datatype ('msg, 'x, 'b) server_event =
    MinerAccepted
  | MinerLeft usize
  | MinerMessage downstream_message
  | ManagerMessage "'b tp_mining"
  | VardiffPass
  | FallbackDone
  | ToConnection usize "'x + (u32 \<times> usize option \<times> 'msg)"
  | AtConnection usize "'x + 'msg"

primrec server_event_step ::
  "('msg, 'x, 'v, 'b, 'tlv) tp_lib \<Rightarrow> tp_config \<Rightarrow> target \<Rightarrow> ('msg, 'x, 'b) server_event \<Rightarrow>
     ('msg, 'v, 'b, 'tlv) sv1_server \<Rightarrow> ('msg, 'x, 'v, 'b, 'tlv, unit) server_step" where
  "server_event_step L C ft MinerAccepted S = and_then (accept_miner L C ft S) (\<lambda>_ S1. (Ok (), S1))"
| "server_event_step L C ft (MinerLeft i) S = downstream_shutdown L C i S"
| "server_event_step L C ft (MinerMessage m) S = handle_miner_message L C m S"
| "server_event_step L C ft (ManagerMessage m) S = handle_upstream_message L C ft m S"
| "server_event_step L C ft VardiffPass S =
     handle_vardiff_updates L (aggregate_channels C) (shares_per_minute C) S"
| "server_event_step L C ft FallbackDone S = (Ok (), sv1_upstream_fallback C S)"
| "server_event_step L C ft (ToConnection i r) S = (Ok (), connection_step L i (FromServer r) S)"
| "server_event_step L C ft (AtConnection i x) S =
     (Ok (), connection_step L i (FromMiner (valid_jobs (sv1_server_data S)) x) S)"

fun run_server ::
  "('msg, 'x, 'v, 'b, 'tlv) tp_lib \<Rightarrow> tp_config \<Rightarrow> target \<Rightarrow> ('msg, 'x, 'b) server_event list \<Rightarrow>
     ('msg, 'v, 'b, 'tlv) sv1_server \<Rightarrow> ('msg, 'x, 'v, 'b, 'tlv, unit) server_step" where
  "run_server L C ft [] S = (Ok (), S)"
| "run_server L C ft (e # es) S = and_then (server_event_step L C ft e S) (\<lambda>_. run_server L C ft es)"

fun answers :: "u32 \<Rightarrow> ('msg, 'x, 'b) server_event \<Rightarrow> bool" where
  "answers r (ManagerMessage (OpenExtendedSuccess m)) = (os_request_id m = r)"
| "answers r e = False"

lemma server_step_requests:
  assumes "server_event_step L C ft e S = (x, S')" and "hm_get (fst (open_requests S)) r = Some i"
    and "snd (open_requests S) \<noteq> r" and "\<not> answers r e"
  shows "hm_get (fst (open_requests S')) r = Some i \<and>
    snd (open_requests S') \<in> {snd (open_requests S), snd (open_requests S) + 1}"
proof -
  have S': "S' = snd (server_event_step L C ft e S)" using assms(1) by simp
  show ?thesis
  proof (cases e)
    case MinerAccepted
    have "open_requests S' = open_requests S"
      unfolding S' MinerAccepted by (auto intro!: open_requests_and_then)
    with assms(2) show ?thesis by simp
  next
    case (MinerMessage m)
    show ?thesis
    proof (cases m)
      case (OpenChannel k)
      let ?S1 = "upd_server (\<lambda>s. s \<lparr> request_id_factory := snd (fetch_add (request_id_factory s)),
          request_id_to_downstream_id := hm_insert (fst (fetch_add (request_id_factory (sv1_server_data S)))) k
            (request_id_to_downstream_id s) \<rparr>) S"
      have "open_requests S' = open_requests ?S1"
        unfolding S' MinerMessage OpenChannel by (simp add: handle_open_channel_request_def Let_def)
      then show ?thesis using assms(2,3) by (simp add: open_requests_def)
    qed (use S' MinerMessage assms(2) in auto)
  next
    case (ManagerMessage m)
    have "open_requests S' = (case m of OpenExtendedSuccess sm \<Rightarrow>
        (hm_remove (os_request_id sm) (fst (open_requests S)), snd (open_requests S)) | _ \<Rightarrow> open_requests S)"
      unfolding S' ManagerMessage by (cases m) (simp_all add: open_requests_success)
    with assms(2,4) ManagerMessage show ?thesis by (cases m) auto
  qed (use S' assms(2) in simp_all)
qed

text \<open>A request stays with its miner until it is answered, as long as the counter does not come
  round to its identifier.\<close>

lemma run_server_requests:
  assumes "run_server L C ft es S = (x, S')" and "hm_get (fst (open_requests S)) r = Some i"
    and "snd (open_requests S) = r + of_nat k" and "0 < k" and "k + length es < 2 ^ 32"
    and "\<not> (\<exists>e\<in>set es. answers r e)"
  shows "hm_get (fst (open_requests S')) r = Some i"
  using assms
proof (induction es arbitrary: S k)
  case (Cons e es)
  obtain y S1 where 1: "server_event_step L C ft e S = (y, S1)" by fastforce
  have "(of_nat k :: u32) \<noteq> 0"
    using Cons.prems(4,5) nat_dvd_not_less [of k "2 ^ 32"] by (simp add: word_of_nat_eq_0_iff)
  then have "snd (open_requests S) \<noteq> r" using Cons.prems(3) by simp
  from server_step_requests [OF 1 Cons.prems(2) this] Cons.prems(6) have
      kept: "hm_get (fst (open_requests S1)) r = Some i"
      and next_id: "snd (open_requests S1) \<in> {r + of_nat k, r + of_nat k + 1}"
    using Cons.prems(3) by auto
  have "\<exists>k'\<in>{k, Suc k}. snd (open_requests S1) = r + of_nat k'"
    using next_id by (auto simp: add.assoc add.commute [of 1])
  then obtain k' where k': "snd (open_requests S1) = r + of_nat k'" "k' \<in> {k, Suc k}" by blast
  show ?case
  proof (cases "y = Ok ()")
    case True
    with 1 Cons.prems(1) have "run_server L C ft es S1 = (x, S')" by simp
    from Cons.IH [OF this kept k'(1)] k'(2) Cons.prems(4,5,6) show ?thesis by auto
  next
    case False
    with 1 Cons.prems(1) have "S' = S1" by (cases y) auto
    with kept show ?thesis by simp
  qed
qed simp

text \<open>
  The answer to an open request, for the connection it belongs to and for all others.
\<close>

lemma success_reaches_miner:
  assumes api: "sv1_api_ok (sv1_lib L)"
    and map1: "hm_get (request_id_to_downstream_id (sv1_server_data S1)) (os_request_id m) = Some i"
    and succ: "handle_upstream_message L C ft (OpenExtendedSuccess m) S1 = (Ok (), S2)"
  shows "(case get_down S1 i of None \<Rightarrow> get_down S2 i = None
      | Some D \<Rightarrow> (\<exists>D'. get_down S2 i = Some D' \<and> sd_channel_id (downstream_data D') = Some (os_channel_id m) \<and>
          extranonce1 (downstream_data D') = os_extranonce_prefix m \<and>
          queued_sv1_handshake_messages (downstream_data D') = [])) \<and>
    (\<forall>j. j \<noteq> i \<longrightarrow> get_down S2 j = get_down S1 j)"
proof (cases "get_down S1 i")
  case None
  with succ map1 show ?thesis by (auto simp: on_open_success_def Let_def)
next
  case (Some D1)
  let ?r = "os_request_id m" and ?c = "os_channel_id m"
  let ?S1' = "upd_server (\<lambda>s. s \<lparr> request_id_to_downstream_id := hm_remove ?r (request_id_to_downstream_id s) \<rparr>) S1"
  let ?f = "snd \<circ> take_queue \<circ> open_channel ?c (os_extranonce_prefix m) (ucast (os_extranonce_size m)) (os_target m)"
  let ?S2 = "lock_down ?f i ?S1'"
  have down2: "get_down ?S2 i = Some (upd_data ?f D1)" using Some by simp
  from succ map1 Some obtain S3 where
      q: "handle_queued L ?c i (fst (take_queue (downstream_data D1))) ?S2 = (Ok (), S3)"
      and S2: "get_down S2 = get_down S3"
    by (auto simp: on_open_success_def Let_def and_then_Ok send_downstreams_def split: option.splits if_splits)
  from handle_queued_core [OF api down2 q] obtain D' where
      S3: "only_changes i ?S2 S3" and D': "get_down S3 i = Some D'"
      and core: "sv1_core (downstream_data D') = sv1_core (?f (downstream_data D1))" by auto
  have "sd_channel_id (downstream_data D') = Some ?c \<and> extranonce1 (downstream_data D') = os_extranonce_prefix m \<and>
      queued_sv1_handshake_messages (downstream_data D') = []"
    using core by (simp add: sv1_core_def open_channel_def take_queue_def set_upstream_target_def Let_def split: if_splits)
  moreover have "get_down S2 j = get_down S1 j" if "j \<noteq> i" for j
    using S3 S2 that by (simp add: only_changes_def)
  ultimately show ?thesis using D' S2 Some by auto
qed

lemma open_request_sends:
  assumes "handle_miner_message L C (OpenChannel i) S = (Ok (), S1)" and "get_down S i \<noteq> None"
  shows "open_requests S1 =
      (hm_insert (request_id_factory (sv1_server_data S)) i (request_id_to_downstream_id (sv1_server_data S)),
       request_id_factory (sv1_server_data S) + 1)"
    and "\<exists>name h t n. to_manager S1 = to_manager S @
      (case build_open_extended L (request_id_factory (sv1_server_data S)) name h t n of
         None \<Rightarrow> [] | Some om \<Rightarrow> [(OpenExtended om, None)])"
proof -
  let ?S0 = "upd_server (\<lambda>s. s \<lparr> request_id_factory := request_id_factory s + 1,
      request_id_to_downstream_id := hm_insert (request_id_factory (sv1_server_data S)) i
        (request_id_to_downstream_id s) \<rparr>) S"
  have run: "open_extended_mining_channel L C (request_id_factory (sv1_server_data S)) i ?S0 = (Ok (), S1)"
    using assms by (auto simp: handle_open_channel_request_def Let_def)
  with open_requests_messages(2) [of L C "request_id_factory (sv1_server_data S)" i ?S0]
  show "open_requests S1 =
      (hm_insert (request_id_factory (sv1_server_data S)) i (request_id_to_downstream_id (sv1_server_data S)),
       request_id_factory (sv1_server_data S) + 1)" by (simp add: open_requests_def)
  show "\<exists>name h t n. to_manager S1 = to_manager S @
      (case build_open_extended L (request_id_factory (sv1_server_data S)) name h t n of
         None \<Rightarrow> [] | Some om \<Rightarrow> [(OpenExtended om, None)])"
    using run by (fastforce simp: open_extended_mining_channel_def remember_initial_target_def send_manager_def
        Let_def split: option.splits if_splits)
qed

text \<open>
  C19. The answer to a channel request reaches the miner that asked, whatever happens between the
  request and its answer: other miners come, leave and ask for channels of their own, other requests
  are answered, jobs, targets, vardiff passes and a fallback are handled. The request goes out with an
  identifier of its own; when the success message with that identifier is handled, that miner's
  connection, if it is still there, has the channel and the extranonce prefix of the message and an
  empty queue, no other connection changes, and a second success for the request is refused. The
  bound keeps the 32-bit request counter from coming round between request and answer.
\<close>

theorem channel_request_roundtrip:
  assumes api: "sv1_api_ok (sv1_lib L)" and down: "get_down S i \<noteq> None"
    and req: "handle_miner_message L C (OpenChannel i) S = (Ok (), S0)"
    and between: "run_server L C ft es S0 = (Ok (), S1)" "length es < 2 ^ 32 - 1"
      "\<not> (\<exists>e\<in>set es. answers (request_id_factory (sv1_server_data S)) e)"
    and rid: "os_request_id m = request_id_factory (sv1_server_data S)"
    and succ: "handle_upstream_message L C ft (OpenExtendedSuccess m) S1 = (Ok (), S2)"
  shows "(\<exists>name h t n. to_manager S0 = to_manager S @
      (case build_open_extended L (os_request_id m) name h t n of
         None \<Rightarrow> [] | Some om \<Rightarrow> [(OpenExtended om, None)])) \<and>
    (case get_down S1 i of None \<Rightarrow> get_down S2 i = None
     | Some D \<Rightarrow> (\<exists>D'. get_down S2 i = Some D' \<and> sd_channel_id (downstream_data D') = Some (os_channel_id m) \<and>
         extranonce1 (downstream_data D') = os_extranonce_prefix m \<and>
         queued_sv1_handshake_messages (downstream_data D') = [])) \<and>
    (\<forall>j. j \<noteq> i \<longrightarrow> get_down S2 j = get_down S1 j) \<and>
    fst (handle_upstream_message L C ft (OpenExtendedSuccess m) S2) = Err (DownstreamNotFound (os_request_id m))"
proof -
  let ?r = "os_request_id m"
  note opened = open_request_sends [OF req down]
  have "hm_get (fst (open_requests S1)) ?r = Some i"
    by (rule run_server_requests [OF between(1), of _ _ 1]) (use opened(1) between(2,3) rid in simp_all)
  then have map1: "hm_get (request_id_to_downstream_id (sv1_server_data S1)) ?r = Some i"
    by (simp add: open_requests_def)
  have "open_requests S2 = (hm_remove ?r (fst (open_requests S1)), snd (open_requests S1))"
    using open_requests_success [of L ft m S1] succ by simp
  then have "hm_get (request_id_to_downstream_id (sv1_server_data S2)) ?r = None" by (simp add: open_requests_def)
  then have "fst (handle_upstream_message L C ft (OpenExtendedSuccess m) S2) = Err (DownstreamNotFound ?r)"
    by (simp add: on_open_success_def Let_def)
  with success_reaches_miner [OF api map1 succ] opened(2) rid show ?thesis by simp
qed

definition demo_success :: open_extended_success where
  "demo_success = \<lparr> os_request_id = 1, os_channel_id = 7, os_target = 50, os_extranonce_size = 4,
     os_extranonce_prefix = [1, 2] \<rparr>"

text \<open>Two miners, whose requests are open at the same time and answered in the other order.\<close>

definition demo_two_miners :: "(string, nat, unit, string) sv1_server" where
  "demo_two_miners = snd (run_server demo_tp_lib demo_tp_config 100 [MinerAccepted, MinerAccepted]
     (sv1_server_new demo_tp_config))"

definition demo_between :: "(string, string, unit) server_event list" where
  "demo_between = [MinerMessage (OpenChannel 2),
     ManagerMessage (OpenExtendedSuccess (demo_success \<lparr> os_request_id := 2, os_channel_id := 8 \<rparr>))]"

theorem channel_request_roundtrip_witness:
  "\<exists>S0 S1 S2. handle_miner_message demo_tp_lib demo_tp_config (OpenChannel 1) demo_two_miners = (Ok (), S0) \<and>
     run_server demo_tp_lib demo_tp_config 100 demo_between S0 = (Ok (), S1) \<and>
     handle_upstream_message demo_tp_lib demo_tp_config 100 (OpenExtendedSuccess demo_success) S1 = (Ok (), S2) \<and>
     (\<exists>D'. get_down S2 1 = Some D' \<and> sd_channel_id (downstream_data D') = Some 7) \<and>
     get_down S2 2 = get_down S1 2"
proof -
  note eval = handle_open_channel_request_def open_extended_mining_channel_def remember_initial_target_def
    lock_down_def send_manager_def demo_tp_lib_def demo_tp_config_def demo_two_miners_def sv1_server_data_new_def
    sv1_server_new_def accept_miner_def demo_between_def hm_get_def hm_insert_def hm_remove_def Let_def
    on_open_success_def demo_success_def take_queue_def open_channel_def set_upstream_target_def
    sv1_downstream_new_def sv1_data_new_def send_downstreams_def hm_new_def
  let ?S0 = "snd (handle_miner_message demo_tp_lib demo_tp_config (OpenChannel 1) demo_two_miners)"
  let ?S1 = "snd (run_server demo_tp_lib demo_tp_config 100 demo_between ?S0)"
  let ?S2 = "snd (handle_upstream_message demo_tp_lib demo_tp_config 100 (OpenExtendedSuccess demo_success) ?S1)"
  have req: "handle_miner_message demo_tp_lib demo_tp_config (OpenChannel 1) demo_two_miners = (Ok (), ?S0)"
    and run: "run_server demo_tp_lib demo_tp_config 100 demo_between ?S0 = (Ok (), ?S1)"
    and succ: "handle_upstream_message demo_tp_lib demo_tp_config 100 (OpenExtendedSuccess demo_success) ?S1 = (Ok (), ?S2)"
    by (simp_all add: eval)
  have down: "get_down demo_two_miners 1 \<noteq> None" "get_down ?S1 1 \<noteq> None"
    and rid: "request_id_factory (sv1_server_data demo_two_miners) = 1" by (simp_all add: eval)
  have between: "length demo_between < 2 ^ 32 - 1"
      "\<not> (\<exists>e\<in>set demo_between. answers (request_id_factory (sv1_server_data demo_two_miners)) e)"
    unfolding rid by (simp_all add: demo_between_def demo_success_def)
  have "os_request_id demo_success = request_id_factory (sv1_server_data demo_two_miners)"
    unfolding rid by (simp add: demo_success_def)
  moreover have "sv1_api_ok (sv1_lib demo_tp_lib)" by (simp add: demo_tp_lib_def demo_api_ok)
  ultimately have res: "case get_down ?S1 1 of None \<Rightarrow> get_down ?S2 1 = None
     | Some D \<Rightarrow> (\<exists>D'. get_down ?S2 1 = Some D' \<and> sd_channel_id (downstream_data D') = Some (os_channel_id demo_success) \<and>
         extranonce1 (downstream_data D') = os_extranonce_prefix demo_success \<and>
         queued_sv1_handshake_messages (downstream_data D') = [])"
    and other: "get_down ?S2 2 = get_down ?S1 2"
    using channel_request_roundtrip [OF _ down(1) req run between _ succ] by simp_all
  from res down(2) have "\<exists>D'. get_down ?S2 1 = Some D' \<and> sd_channel_id (downstream_data D') = Some 7"
    by (auto simp: demo_success_def simp del: not_None_eq split: option.splits)
  with req run succ other show ?thesis by blast
qed

end
