(* ===== verification/Tproxy_Channels.thy ===== *)
theory Tproxy_Channels
  imports Tproxy_State
begin

text \<open>
  The channel manager of the translator (\<open>sv2/channel_manager\<close>): the channels it keeps with the
  upstream, the requests of the Sv1 server, the upstream's mining messages and the extension
  negotiation. An extended channel is a value of \<open>'c\<close> and an extranonce factory one of \<open>'f\<close>;
  both belong to foreign code and are only used through \<open>chan_lib\<close>.
\<close>

section \<open>State\<close>

datatype channel_mode = Aggregated | NonAggregated

record ('c, 'f) tp_channel_data =
  pending_channels :: "(usize, string \<times> hashrate \<times> usize) hash_map"
  extended_channels :: "(u32, 'c) hash_map"
  upstream_extended_channel :: "'c option"
  extranonce_prefix_factory :: "'f option"
  tp_mode :: channel_mode
  share_sequence_counters :: "(u32, u32) hash_map"
  extranonce_factories :: "(u32, 'f) hash_map option"
  tp_negotiated_extensions :: "u16 list"

definition tp_channel_data_new :: "channel_mode \<Rightarrow> ('c, 'f) tp_channel_data" where
  "tp_channel_data_new m =
     \<lparr> pending_channels = hm_new, extended_channels = hm_new, upstream_extended_channel = None,
       extranonce_prefix_factory = None, tp_mode = m, share_sequence_counters = hm_new,
       extranonce_factories = None, tp_negotiated_extensions = [] \<rparr>"

definition reset_for_upstream_reconnection :: "('c, 'f) tp_channel_data \<Rightarrow> ('c, 'f) tp_channel_data" where
  "reset_for_upstream_reconnection d =
     d \<lparr> pending_channels := hm_new, extended_channels := hm_new, upstream_extended_channel := None,
         extranonce_prefix_factory := None, share_sequence_counters := hm_new,
         extranonce_factories := None, tp_negotiated_extensions := [] \<rparr>"

text \<open>Frames to the upstream: a mining message, possibly with an extension field, or a request
  for extensions.\<close>

datatype ('b, 'tlv) upstream_frame =
    MiningFrame "'b tp_mining" "'tlv option"
  | RequestExtensionsFrame u16 "u16 list"

record ('c, 'f, 'b, 'tlv) tp_manager =
  tp_data :: "('c, 'f) tp_channel_data"
  to_upstream :: "('b, 'tlv) upstream_frame list"
  upstream_open :: bool
  to_sv1_server :: "'b tp_mining list"
  sv1_server_open :: bool
  upstream_shutdowns :: nat

section \<open>Foreign code\<close>

record ('c, 'f, 'b, 'tlv, 'x, 'tip) chan_lib =
  ec_new :: "u32 \<Rightarrow> string \<Rightarrow> bytes \<Rightarrow> target \<Rightarrow> hashrate \<Rightarrow> bool \<Rightarrow> u16 \<Rightarrow> 'c"
  ec_channel_id :: "'c \<Rightarrow> u32"
  ec_target :: "'c \<Rightarrow> target"
  ec_extranonce_prefix :: "'c \<Rightarrow> bytes"
  ec_set_target :: "target \<Rightarrow> 'c \<Rightarrow> 'c"
  ec_chain_tip :: "'c \<Rightarrow> 'tip option"
  ec_set_chain_tip :: "'tip \<Rightarrow> 'c \<Rightarrow> 'c"
  ec_active_job :: "'c \<Rightarrow> 'b extended_job option"
  ec_on_new_job :: "'b extended_job \<Rightarrow> 'c \<Rightarrow> 'c"
  ec_on_prev_hash :: "'b prev_hash_msg \<Rightarrow> 'c \<Rightarrow> 'c"
  ec_validate_share :: "submit_extended \<Rightarrow> 'c \<Rightarrow> bool \<times> 'c"
  ef_from_upstream :: "bytes \<Rightarrow> usize \<Rightarrow> usize \<Rightarrow> usize \<Rightarrow> 'f option"
  ef_next_prefix :: "usize \<Rightarrow> 'f \<Rightarrow> bytes option \<times> 'f"
  ef_range0_len :: "'f \<Rightarrow> usize"
  ef_range2_len :: "'f \<Rightarrow> usize"
  b032_try_from :: "bytes \<Rightarrow> 'x + bytes"
  frame_error :: "'b tp_mining \<Rightarrow> 'x option"
  tlv_frame_error :: "submit_extended \<Rightarrow> 'tlv \<Rightarrow> 'x tproxy_error option"
  is_user_identity_tlv :: "'tlv \<Rightarrow> bool"
  worker_hashrate_extension :: u16
  show_extensions :: "u16 list \<Rightarrow> string"
  str0255_fits :: "string \<Rightarrow> bool"
  overflow_checks :: bool

section \<open>Sending\<close>

type_synonym ('c, 'f, 'b, 'tlv, 'x, 'a) manager_step =
  "('x tproxy_error, 'a) res \<times> ('c, 'f, 'b, 'tlv) tp_manager"

definition send_frame_upstream ::
  "('b, 'tlv) upstream_frame \<Rightarrow> ('c, 'f, 'b, 'tlv) tp_manager \<Rightarrow> ('c, 'f, 'b, 'tlv, 'x, unit) manager_step" where
  "send_frame_upstream m S =
     (if upstream_open S then (Ok (), S \<lparr> to_upstream := to_upstream S @ [m] \<rparr>)
      else (Err ChannelErrorSender, S))"

definition send_upstream ::
  "('c, 'f, 'b, 'tlv, 'x, 'tip) chan_lib \<Rightarrow> 'b tp_mining \<Rightarrow> ('c, 'f, 'b, 'tlv) tp_manager \<Rightarrow>
     ('c, 'f, 'b, 'tlv, 'x, unit) manager_step" where
  "send_upstream L m S =
     (case frame_error L m of
        Some e \<Rightarrow> (Err (ParserError e), S)
      | None \<Rightarrow> send_frame_upstream (MiningFrame m None) S)"

definition send_sv1 ::
  "'b tp_mining \<Rightarrow> ('c, 'f, 'b, 'tlv) tp_manager \<Rightarrow> ('c, 'f, 'b, 'tlv, 'x, unit) manager_step" where
  "send_sv1 m S =
     (if sv1_server_open S then (Ok (), S \<lparr> to_sv1_server := to_sv1_server S @ [m] \<rparr>)
      else (Err ChannelErrorSender, S))"

abbreviation upd_chan ::
  "(('c, 'f) tp_channel_data \<Rightarrow> ('c, 'f) tp_channel_data) \<Rightarrow> ('c, 'f, 'b, 'tlv) tp_manager \<Rightarrow>
     ('c, 'f, 'b, 'tlv) tp_manager" where
  "upd_chan f S \<equiv> S \<lparr> tp_data := f (tp_data S) \<rparr>"

abbreviation get_chan :: "('c, 'f, 'b, 'tlv) tp_manager \<Rightarrow> u32 \<Rightarrow> 'c option" where
  "get_chan S c \<equiv> hm_get (extended_channels (tp_data S)) c"

text \<open>A change of one channel, of every downstream channel, and of the upstream channel.\<close>

definition upd_one :: "('c \<Rightarrow> 'c) \<Rightarrow> u32 \<Rightarrow> ('c, 'f, 'b, 'tlv) tp_manager \<Rightarrow> ('c, 'f, 'b, 'tlv) tp_manager" where
  "upd_one f c S =
     (case get_chan S c of
        None \<Rightarrow> S
      | Some x \<Rightarrow> upd_chan (\<lambda>d. d \<lparr> extended_channels := hm_insert c (f x) (extended_channels d) \<rparr>) S)"

definition upd_all :: "('c \<Rightarrow> 'c) \<Rightarrow> ('c, 'f, 'b, 'tlv) tp_manager \<Rightarrow> ('c, 'f, 'b, 'tlv) tp_manager" where
  "upd_all f S =
     upd_chan (\<lambda>d. d \<lparr> extended_channels := map (\<lambda>(c, x). (c, f x)) (extended_channels d) \<rparr>) S"

definition upd_up :: "('c \<Rightarrow> 'c) \<Rightarrow> ('c, 'f, 'b, 'tlv) tp_manager \<Rightarrow> ('c, 'f, 'b, 'tlv) tp_manager" where
  "upd_up f S = upd_chan (\<lambda>d. d \<lparr> upstream_extended_channel := map_option f (upstream_extended_channel d) \<rparr>) S"

section \<open>Sequence numbers\<close>

definition add_one :: "bool \<Rightarrow> u32 \<Rightarrow> ('e, u32) res" where
  "add_one checked x = (if checked \<and> x = - 1 then Panic ''attempt to add with overflow'' else Ok (x + 1))"

definition next_share_sequence_number ::
  "bool \<Rightarrow> u32 \<Rightarrow> ('c, 'f) tp_channel_data \<Rightarrow> ('e, u32) res \<times> ('c, 'f) tp_channel_data" where
  "next_share_sequence_number checked k d =
     (let current = (case hm_get (share_sequence_counters d) k of Some n \<Rightarrow> n | None \<Rightarrow> 1);
          d1 = d \<lparr> share_sequence_counters := hm_insert k current (share_sequence_counters d) \<rparr>
      in case add_one checked current of
           Ok n \<Rightarrow> (Ok current, d1 \<lparr> share_sequence_counters := hm_insert k n (share_sequence_counters d1) \<rparr>)
         | Err e \<Rightarrow> (Err e, d1)
         | Panic p \<Rightarrow> (Panic p, d1))"

definition lock_next_sequence_number ::
  "('c, 'f, 'b, 'tlv, 'x, 'tip) chan_lib \<Rightarrow> u32 \<Rightarrow> ('c, 'f, 'b, 'tlv) tp_manager \<Rightarrow>
     ('c, 'f, 'b, 'tlv, 'x, u32) manager_step" where
  "lock_next_sequence_number L k S =
     (case next_share_sequence_number (overflow_checks L) k (tp_data S) of (r, d) \<Rightarrow> (r, S \<lparr> tp_data := d \<rparr>))"

section \<open>Requests of the Sv1 server\<close>

definition AGGREGATED_MODE_TRANSLATOR_SEARCH_SPACE_BYTES :: usize where
  "AGGREGATED_MODE_TRANSLATOR_SEARCH_SPACE_BYTES = 4"

definition translator_identity :: "string \<Rightarrow> string" where
  "translator_identity name = takeWhile (\<lambda>c. c \<noteq> CHR ''.'') name @ ''.translator-proxy''"

definition max_key :: "(u32, 'c) hash_map \<Rightarrow> u32" where
  "max_key m = fold max (map fst m) 0"

text \<open>The active job and the chain tip of the upstream channel reach a new channel.\<close>

definition send_active_job ::
  "('c, 'f, 'b, 'tlv, 'x, 'tip) chan_lib \<Rightarrow> u32 \<Rightarrow> ('c, 'f, 'b, 'tlv) tp_manager \<Rightarrow>
     ('c, 'f, 'b, 'tlv, 'x, unit) manager_step" where
  "send_active_job L c S =
     (case Option.bind (upstream_extended_channel (tp_data S)) (ec_active_job L) of
        None \<Rightarrow> (Ok (), S)
      | Some job \<Rightarrow>
          (let S1 = (case Option.bind (upstream_extended_channel (tp_data S)) (ec_chain_tip L) of
                       Some tip \<Rightarrow> upd_one (ec_set_chain_tip L tip) c S
                     | None \<Rightarrow> S);
               job' = job \<lparr> ej_channel_id := c \<rparr>
           in send_sv1 (NewExtendedJob job') (upd_one (ec_on_new_job L job') c S1)))"

definition open_on_upstream_channel ::
  "('c, 'f, 'b, 'tlv, 'x, 'tip) chan_lib \<Rightarrow> open_extended \<Rightarrow> 'c \<Rightarrow> ('c, 'f, 'b, 'tlv) tp_manager \<Rightarrow>
     ('c, 'f, 'b, 'tlv, 'x, unit) manager_step" where
  "open_on_upstream_channel L m up S =
     (case extranonce_prefix_factory (tp_data S) of
        None \<Rightarrow> (Panic ''called `Option::unwrap()` on a `None` value'', S)
      | Some f \<Rightarrow>
          (case ef_next_prefix L (ucast (oe_min_extranonce_size m)) f of (p, f') \<Rightarrow>
             let S1 = upd_chan (\<lambda>d. d \<lparr> extranonce_prefix_factory := Some f' \<rparr>) S;
                 sz = ef_range2_len L f'
             in case p of
                  None \<Rightarrow> (Ok (), S1)
                | Some pre \<Rightarrow>
                    if sz < ucast (oe_min_extranonce_size m) then (Ok (), S1)
                    else
                      and_then (add_one (overflow_checks L) (max_key (extended_channels (tp_data S1))), S1)
                        (\<lambda>c S2.
                           let S3 = upd_chan (\<lambda>d. d \<lparr> extended_channels := hm_insert c
                                      (ec_new L c (oe_user_identity m) pre (ec_target L up)
                                         (oe_nominal_hash_rate m) True (ucast sz)) (extended_channels d) \<rparr>) S2
                           in and_then (send_sv1 (OpenExtendedSuccess
                                  \<lparr> os_request_id = oe_request_id m, os_channel_id = c, os_target = ec_target L up,
                                    os_extranonce_size = ucast sz, os_extranonce_prefix = pre \<rparr>) S3)
                                (\<lambda>_. send_active_job L c))))"

definition request_channel ::
  "('c, 'f, 'b, 'tlv, 'x, 'tip) chan_lib \<Rightarrow> open_extended \<Rightarrow> ('c, 'f, 'b, 'tlv) tp_manager \<Rightarrow>
     ('c, 'f, 'b, 'tlv, 'x, unit) manager_step" where
  "request_channel L m S =
     (let aggregated = (tp_mode (tp_data S) = Aggregated);
          name = (if aggregated then translator_identity (oe_user_identity m) else oe_user_identity m);
          len = (ucast (oe_min_extranonce_size m) :: usize);
          up_len = (if aggregated then len + AGGREGATED_MODE_TRANSLATOR_SEARCH_SPACE_BYTES else len);
          S1 = upd_chan (\<lambda>d. d \<lparr> pending_channels := hm_insert (ucast (oe_request_id m))
                 (name, oe_nominal_hash_rate m, len) (pending_channels d) \<rparr>) S
      in if aggregated \<and> \<not> str0255_fits L name
         then (Panic ''called `Result::unwrap()` on an `Err` value'', S)
         else send_upstream L (OpenExtended (m \<lparr> oe_user_identity := name, oe_min_extranonce_size := ucast up_len \<rparr>)) S1)"

definition on_open_extended ::
  "('c, 'f, 'b, 'tlv, 'x, 'tip) chan_lib \<Rightarrow> open_extended \<Rightarrow> ('c, 'f, 'b, 'tlv) tp_manager \<Rightarrow>
     ('c, 'f, 'b, 'tlv, 'x, unit) manager_step" where
  "on_open_extended L m S =
     (case (tp_mode (tp_data S), upstream_extended_channel (tp_data S)) of
        (Aggregated, Some up) \<Rightarrow> open_on_upstream_channel L m up S
      | _ \<Rightarrow> request_channel L m S)"

text \<open>
  The extranonce of a share for the upstream: the part of the channel's prefix that the
  translator added, then the miner's bytes. The slice panics when the prefix is too short.
\<close>

definition upstream_extranonce ::
  "('c, 'f, 'b, 'tlv, 'x, 'tip) chan_lib \<Rightarrow> usize \<Rightarrow> submit_extended \<Rightarrow> ('c, 'f, 'b, 'tlv) tp_manager \<Rightarrow>
     ('x tproxy_error, submit_extended) res" where
  "upstream_extranonce L r0 m S =
     (case get_chan S (se_channel_id m) of
        None \<Rightarrow> Ok m
      | Some x \<Rightarrow>
          if length (ec_extranonce_prefix L x) < unat r0 then Panic ''range start index out of range for slice''
          else
            (case b032_try_from L (drop (unat r0) (ec_extranonce_prefix L x) @ se_extranonce m) of
               Inl e \<Rightarrow> Err (BinarySv2 e)
             | Inr en \<Rightarrow> Ok (m \<lparr> se_extranonce := en \<rparr>)))"

definition adjust_share ::
  "('c, 'f, 'b, 'tlv, 'x, 'tip) chan_lib \<Rightarrow> submit_extended \<Rightarrow> ('c, 'f, 'b, 'tlv) tp_manager \<Rightarrow>
     ('c, 'f, 'b, 'tlv, 'x, submit_extended) manager_step" where
  "adjust_share L m S =
     (case (tp_mode (tp_data S), upstream_extended_channel (tp_data S)) of
        (Aggregated, Some up) \<Rightarrow>
          and_then (lock_next_sequence_number L (ec_channel_id L up) S)
            (\<lambda>n S1.
               (case extranonce_prefix_factory (tp_data S1) of
                  None \<Rightarrow> (Panic ''called `Option::unwrap()` on a `None` value'', S1)
                | Some f \<Rightarrow>
                    and_then (upstream_extranonce L (ef_range0_len L f) (m \<lparr> se_sequence_number := n \<rparr>) S1, S1)
                      (\<lambda>m' S2. (Ok (m' \<lparr> se_channel_id := ec_channel_id L up \<rparr>), S2))))
      | _ \<Rightarrow>
          and_then (lock_next_sequence_number L (se_channel_id m) S)
            (\<lambda>n S1.
               (case Option.bind (extranonce_factories (tp_data S1)) (\<lambda>fs. hm_get fs (se_channel_id m)) of
                  None \<Rightarrow> (Ok (m \<lparr> se_sequence_number := n \<rparr>), S1)
                | Some f \<Rightarrow> (upstream_extranonce L (ef_range0_len L f) (m \<lparr> se_sequence_number := n \<rparr>) S1, S1))))"

definition send_share ::
  "('c, 'f, 'b, 'tlv, 'x, 'tip) chan_lib \<Rightarrow> submit_extended \<Rightarrow> 'tlv list option \<Rightarrow> ('c, 'f, 'b, 'tlv) tp_manager \<Rightarrow>
     ('c, 'f, 'b, 'tlv, 'x, unit) manager_step" where
  "send_share L m tlvs S =
     (case (if worker_hashrate_extension L \<in> set (tp_negotiated_extensions (tp_data S))
            then Option.bind tlvs (find (is_user_identity_tlv L)) else None) of
        Some tlv \<Rightarrow>
          (case tlv_frame_error L m tlv of
             Some e \<Rightarrow> (Err e, S)
           | None \<Rightarrow> send_frame_upstream (MiningFrame (SubmitExtended m) (Some tlv)) S)
      | None \<Rightarrow> send_upstream L (SubmitExtended m) S)"

definition on_submit_extended ::
  "('c, 'f, 'b, 'tlv, 'x, 'tip) chan_lib \<Rightarrow> submit_extended \<Rightarrow> 'tlv list option \<Rightarrow> ('c, 'f, 'b, 'tlv) tp_manager \<Rightarrow>
     ('c, 'f, 'b, 'tlv, 'x, unit) manager_step" where
  "on_submit_extended L m tlvs S =
     (case get_chan S (se_channel_id m) of
        None \<Rightarrow> (Ok (), S)
      | Some x \<Rightarrow>
          (case ec_validate_share L m x of (ok, x') \<Rightarrow>
             let S1 = upd_one (\<lambda>_. x') (se_channel_id m) S in
             if ok then and_then (adjust_share L m S1) (\<lambda>m'. send_share L m' tlvs) else (Ok (), S1)))"

definition on_update_channel ::
  "('c, 'f, 'b, 'tlv, 'x, 'tip) chan_lib \<Rightarrow> update_channel \<Rightarrow> ('c, 'f, 'b, 'tlv) tp_manager \<Rightarrow>
     ('c, 'f, 'b, 'tlv, 'x, unit) manager_step" where
  "on_update_channel L m S =
     (if tp_mode (tp_data S) = Aggregated then
        (case upstream_extended_channel (tp_data S) of
           None \<Rightarrow> (Panic ''called `Option::unwrap()` on a `None` value'', S)
         | Some up \<Rightarrow> send_upstream L (UpdateChan (m \<lparr> uc_channel_id := ec_channel_id L up \<rparr>)) S)
      else send_upstream L (UpdateChan m) S)"

fun handle_sv1_request ::
  "('c, 'f, 'b, 'tlv, 'x, 'tip) chan_lib \<Rightarrow> 'b tp_mining \<Rightarrow> 'tlv list option \<Rightarrow> ('c, 'f, 'b, 'tlv) tp_manager \<Rightarrow>
     ('c, 'f, 'b, 'tlv, 'x, unit) manager_step" where
  "handle_sv1_request L (OpenExtended m) tlvs S = on_open_extended L m S"
| "handle_sv1_request L (SubmitExtended m) tlvs S = on_submit_extended L m tlvs S"
| "handle_sv1_request L (UpdateChan m) tlvs S = on_update_channel L m S"
| "handle_sv1_request L (CloseChan c r) tlvs S = send_upstream L (CloseChan c r) S"
| "handle_sv1_request L m tlvs S = (Ok (), S)"

section \<open>Messages of the upstream\<close>

definition make_factory ::
  "('c, 'f, 'b, 'tlv, 'x, 'tip) chan_lib \<Rightarrow> bytes \<Rightarrow> u16 \<Rightarrow> usize \<Rightarrow> ('x tproxy_error, 'f) res" where
  "make_factory L pre sz len =
     (case proxy_extranonce_prefix_len (overflow_checks L) (ucast sz) len of
        Panic p \<Rightarrow> Panic p
      | Err e \<Rightarrow> Err e
      | Ok n \<Rightarrow>
          (let r0 = of_nat (length pre); r1 = r0 + n; r2 = r1 + len
           in expect ''Failed to create ExtendedExtranonce from upstream extranonce''
                (ef_from_upstream L pre r0 r1 r2)))"

definition next_prefix ::
  "('c, 'f, 'b, 'tlv, 'x, 'tip) chan_lib \<Rightarrow> usize \<Rightarrow> 'f \<Rightarrow> ('x tproxy_error, bytes) res \<times> 'f" where
  "next_prefix L n f =
     (case ef_next_prefix L n f of (p, f') \<Rightarrow>
        (expect ''next_prefix_extended should return a value for valid input'' p, f'))"

text \<open>The new channel of a success message, and the message that goes to the Sv1 server.\<close>

definition open_aggregated ::
  "('c, 'f, 'b, 'tlv, 'x, 'tip) chan_lib \<Rightarrow> open_extended_success \<Rightarrow> string \<times> hashrate \<times> usize \<Rightarrow>
     ('c, 'f, 'b, 'tlv) tp_manager \<Rightarrow> ('c, 'f, 'b, 'tlv, 'x, open_extended_success) manager_step" where
  "open_aggregated L m who S =
     (case who of (name, h, len) \<Rightarrow>
       let S1 = upd_chan (\<lambda>d. d \<lparr> upstream_extended_channel := Some
                  (ec_new L (os_channel_id m) name (os_extranonce_prefix m) (os_target m) h True
                     (os_extranonce_size m)) \<rparr>) S
       in and_then (make_factory L (os_extranonce_prefix m) (os_extranonce_size m) len, S1)
            (\<lambda>f S2.
               let sz = (ucast (ef_range2_len L f) :: u16)
               in case next_prefix L (ucast sz) f of (p, f') \<Rightarrow>
                    and_then (p, upd_chan (\<lambda>d. d \<lparr> extranonce_prefix_factory := Some f' \<rparr>) S2)
                      (\<lambda>pre S3.
                         (Ok (m \<lparr> os_extranonce_prefix := pre, os_extranonce_size := sz \<rparr>),
                          upd_chan (\<lambda>d. d \<lparr> extended_channels := hm_insert (os_channel_id m)
                            (ec_new L (os_channel_id m) name pre (os_target m) h True sz) (extended_channels d) \<rparr>) S3))))"

definition open_non_aggregated ::
  "('c, 'f, 'b, 'tlv, 'x, 'tip) chan_lib \<Rightarrow> open_extended_success \<Rightarrow> string \<times> hashrate \<times> usize \<Rightarrow>
     ('c, 'f, 'b, 'tlv) tp_manager \<Rightarrow> ('c, 'f, 'b, 'tlv, 'x, open_extended_success) manager_step" where
  "open_non_aggregated L m who S =
     (case who of (name, h, len) \<Rightarrow>
       if ucast (os_extranonce_size m) \<noteq> len then
         and_then (make_factory L (os_extranonce_prefix m) (os_extranonce_size m) len, S)
           (\<lambda>f S1.
              case next_prefix L len f of (p, f') \<Rightarrow>
                and_then (p, S1)
                  (\<lambda>pre S2.
                     (Ok (m \<lparr> os_extranonce_prefix := pre, os_extranonce_size := ucast len \<rparr>),
                      upd_chan (\<lambda>d. d \<lparr>
                        extended_channels := hm_insert (os_channel_id m)
                          (ec_new L (os_channel_id m) name pre (os_target m) h True (ucast len)) (extended_channels d),
                        extranonce_factories := Some (hm_insert (os_channel_id m) f'
                          (case extranonce_factories d of Some fs \<Rightarrow> fs | None \<Rightarrow> hm_new)) \<rparr>) S2)))
       else
         (Ok m, upd_chan (\<lambda>d. d \<lparr> extended_channels := hm_insert (os_channel_id m)
            (ec_new L (os_channel_id m) name (os_extranonce_prefix m) (os_target m) h True (os_extranonce_size m))
            (extended_channels d) \<rparr>) S))"

definition handle_open_extended_mining_channel_success ::
  "('c, 'f, 'b, 'tlv, 'x, 'tip) chan_lib \<Rightarrow> open_extended_success \<Rightarrow> ('c, 'f, 'b, 'tlv) tp_manager \<Rightarrow>
     ('c, 'f, 'b, 'tlv, 'x, unit) manager_step" where
  "handle_open_extended_mining_channel_success L m S =
     (case hm_get (pending_channels (tp_data S)) (ucast (os_request_id m)) of
        None \<Rightarrow> (Err (PendingChannelNotFound (os_request_id m)), S)
      | Some who \<Rightarrow>
          (let S1 = upd_chan (\<lambda>d. d \<lparr> pending_channels :=
                      hm_remove (ucast (os_request_id m)) (pending_channels d) \<rparr>) S
           in and_then
                (if tp_mode (tp_data S1) = Aggregated then open_aggregated L m who S1
                 else open_non_aggregated L m who S1)
                (\<lambda>success. send_sv1 (OpenExtendedSuccess success))))"

definition handle_upstream_close_channel ::
  "u32 \<Rightarrow> ('c, 'f, 'b, 'tlv) tp_manager \<Rightarrow> ('c, 'f, 'b, 'tlv) tp_manager" where
  "handle_upstream_close_channel c S =
     upd_chan (\<lambda>d. if tp_mode d = Aggregated then d \<lparr> upstream_extended_channel := None \<rparr>
                    else d \<lparr> extended_channels := hm_remove c (extended_channels d) \<rparr>) S"

definition handle_open_mining_channel_error ::
  "('c, 'f, 'b, 'tlv) tp_manager \<Rightarrow> ('c, 'f, 'b, 'tlv) tp_manager" where
  "handle_open_mining_channel_error S = S \<lparr> upstream_shutdowns := upstream_shutdowns S + 1 \<rparr>"

definition handle_new_extended_mining_job ::
  "('c, 'f, 'b, 'tlv, 'x, 'tip) chan_lib \<Rightarrow> 'b extended_job \<Rightarrow> ('c, 'f, 'b, 'tlv) tp_manager \<Rightarrow>
     ('c, 'f, 'b, 'tlv, 'x, unit) manager_step" where
  "handle_new_extended_mining_job L m S =
     (let aggregated = (tp_mode (tp_data S) = Aggregated);
          job = (if aggregated \<and> upstream_extended_channel (tp_data S) \<noteq> None
                 then m \<lparr> ej_channel_id := 0 \<rparr> else m);
          S1 = (if aggregated then upd_all (ec_on_new_job L job) (upd_up (ec_on_new_job L m) S)
                else upd_one (ec_on_new_job L m) (ej_channel_id m) S)
      in if ej_future job then (Ok (), S1) else send_sv1 (NewExtendedJob job) S1)"

definition handle_upstream_prev_hash ::
  "('c, 'f, 'b, 'tlv, 'x, 'tip) chan_lib \<Rightarrow> 'b prev_hash_msg \<Rightarrow> ('c, 'f, 'b, 'tlv) tp_manager \<Rightarrow>
     ('c, 'f, 'b, 'tlv, 'x, unit) manager_step" where
  "handle_upstream_prev_hash L m S =
     (let aggregated = (tp_mode (tp_data S) = Aggregated);
          S1 = (if aggregated then upd_all (ec_on_prev_hash L m) (upd_up (ec_on_prev_hash L m) S)
                else upd_one (ec_on_prev_hash L m) (ph_channel_id m) S)
      in and_then (send_sv1 (NewPrevHash m) S1)
           (\<lambda>_ S2.
              (case Option.bind (if aggregated then upstream_extended_channel (tp_data S2)
                                 else get_chan S2 (ph_channel_id m)) (ec_active_job L) of
                 None \<Rightarrow> (Ok (), S2)
               | Some job \<Rightarrow>
                   send_sv1 (NewExtendedJob (if aggregated then job \<lparr> ej_channel_id := 0 \<rparr> else job)) S2)))"

definition handle_upstream_set_target ::
  "('c, 'f, 'b, 'tlv, 'x, 'tip) chan_lib \<Rightarrow> u32 \<Rightarrow> target \<Rightarrow> ('c, 'f, 'b, 'tlv) tp_manager \<Rightarrow>
     ('c, 'f, 'b, 'tlv, 'x, unit) manager_step" where
  "handle_upstream_set_target L c t S =
     (let S1 = (if tp_mode (tp_data S) = Aggregated then upd_all (ec_set_target L t) (upd_up (ec_set_target L t) S)
                else upd_one (ec_set_target L t) c S)
      in send_sv1 (NewTarget c t) S1)"

section \<open>Extension negotiation\<close>

definition handle_request_extensions_success ::
  "('c, 'f, 'b, 'tlv, 'x, 'tip) chan_lib \<Rightarrow> u16 list \<Rightarrow> u16 list \<Rightarrow> ('c, 'f, 'b, 'tlv) tp_manager \<Rightarrow>
     ('c, 'f, 'b, 'tlv, 'x, unit) manager_step" where
  "handle_request_extensions_success L required supported S =
     (let missing = filter (\<lambda>e. e \<notin> set supported) required
      in if missing \<noteq> []
         then (Err (General (''Server does not support required extensions: '' @ show_extensions L missing)), S)
         else (Ok (), upd_chan (\<lambda>d. d \<lparr> tp_negotiated_extensions := supported \<rparr>) S))"

definition handle_request_extensions_error ::
  "u16 list \<Rightarrow> u16 list \<Rightarrow> u16 \<Rightarrow> u16 list \<Rightarrow> u16 list \<Rightarrow> ('c, 'f, 'b, 'tlv) tp_manager \<Rightarrow>
     ('c, 'f, 'b, 'tlv, 'x, unit) manager_step" where
  "handle_request_extensions_error our_supported our_required rid unsupported required_by_server S =
     (let missing = filter (\<lambda>e. e \<in> set unsupported) our_required;
          can = filter (\<lambda>e. e \<in> set our_supported) required_by_server;
          cannot = filter (\<lambda>e. e \<notin> set our_supported) required_by_server
      in if missing \<noteq> [] then (Err (RequiredExtensionsNotSupported missing), S)
         else if required_by_server = [] then (Ok (), S)
         else if cannot \<noteq> [] then (Err (ServerRequiresUnsupportedExtensions cannot), S)
         else send_frame_upstream (RequestExtensionsFrame (rid + 1) can) S)"

end
