(* ===== verification/Tproxy_Channels_Laws.thy ===== *)
theory Tproxy_Channels_Laws
  imports Tproxy_Channels
begin

text \<open>
  What the channel manager of the translator promises: consecutive sequence numbers of the shares
  it sends, shares whose extranonce the upstream reads as the miner mined it, and the two
  situations in which the aggregated mode breaks that promise.
\<close>

section \<open>Sequence numbers\<close>

definition next_number :: "('c, 'f) tp_channel_data \<Rightarrow> u32 \<Rightarrow> u32" where
  "next_number d k = (case hm_get (share_sequence_counters d) k of Some n \<Rightarrow> n | None \<Rightarrow> 1)"

lemma next_sequence_Ok:
  assumes "lock_next_sequence_number L k S = (Ok n, S')"
  shows "n = next_number (tp_data S) k"
    and "next_number (tp_data S') j = (if j = k then next_number (tp_data S) k + 1 else next_number (tp_data S) j)"
    and "to_upstream S' = to_upstream S"
  using assms
  by (auto simp: lock_next_sequence_number_def next_share_sequence_number_def next_number_def add_one_def Let_def
      split: if_splits)

section \<open>Extranonces in aggregated mode\<close>

text \<open>
  The laws of the foreign channels and factories: a channel has the identifier and the prefix
  it was created with, and no other operation changes them; every prefix of a factory that was
  made from an upstream prefix \<open>upstream f\<close> starts with it, and \<open>range0\<close> is its length.
\<close>

definition channels_ok :: "('c, 'f, 'b, 'tlv, 'x, 'tip) chan_lib \<Rightarrow> bool" where
  "channels_ok L \<longleftrightarrow>
     (\<forall>c n p t h b z. ec_extranonce_prefix L (ec_new L c n p t h b z) = p \<and> ec_channel_id L (ec_new L c n p t h b z) = c) \<and>
     (\<forall>x t. ec_extranonce_prefix L (ec_set_target L t x) = ec_extranonce_prefix L x) \<and>
     (\<forall>x t. ec_extranonce_prefix L (ec_set_chain_tip L t x) = ec_extranonce_prefix L x) \<and>
     (\<forall>x j. ec_extranonce_prefix L (ec_on_new_job L j x) = ec_extranonce_prefix L x) \<and>
     (\<forall>x j. ec_extranonce_prefix L (ec_on_prev_hash L j x) = ec_extranonce_prefix L x) \<and>
     (\<forall>x m. ec_extranonce_prefix L (snd (ec_validate_share L m x)) = ec_extranonce_prefix L x)"

definition factories_ok :: "('c, 'f, 'b, 'tlv, 'x, 'tip) chan_lib \<Rightarrow> ('f \<Rightarrow> bytes) \<Rightarrow> bool" where
  "factories_ok L upstream \<longleftrightarrow>
     (\<forall>p r0 r1 r2 f. ef_from_upstream L p r0 r1 r2 = Some f \<longrightarrow>
        upstream f = p \<and> unat (ef_range0_len L f) = length p) \<and>
     (\<forall>n f. upstream (snd (ef_next_prefix L n f)) = upstream f \<and>
        ef_range0_len L (snd (ef_next_prefix L n f)) = ef_range0_len L f \<and>
        (\<forall>p. fst (ef_next_prefix L n f) = Some p \<longrightarrow> take (length (upstream f)) p = upstream f)) \<and>
     (\<forall>bs en. b032_try_from L bs = Inr en \<longrightarrow> en = bs)"

definition chan_lib_ok :: "('c, 'f, 'b, 'tlv, 'x, 'tip) chan_lib \<Rightarrow> ('f \<Rightarrow> bytes) \<Rightarrow> bool" where
  "chan_lib_ok L upstream \<longleftrightarrow> channels_ok L \<and> factories_ok L upstream"

text \<open>
  The invariant of the aggregated mode: the factory belongs to the upstream channel, and the
  prefix of every miner's channel starts with the upstream channel's.
\<close>

definition prefixes_inv ::
  "('c, 'f, 'b, 'tlv, 'x, 'tip) chan_lib \<Rightarrow> ('f \<Rightarrow> bytes) \<Rightarrow> ('c, 'f, 'b, 'tlv) tp_manager \<Rightarrow> bool" where
  "prefixes_inv L upstream S \<longleftrightarrow>
     tp_mode (tp_data S) = Aggregated \<and>
     (\<exists>u f. upstream_extended_channel (tp_data S) = Some u \<and> extranonce_prefix_factory (tp_data S) = Some f \<and>
        upstream f = ec_extranonce_prefix L u \<and> unat (ef_range0_len L f) = length (ec_extranonce_prefix L u) \<and>
        (\<forall>c x. get_chan S c = Some x \<longrightarrow>
           take (length (ec_extranonce_prefix L u)) (ec_extranonce_prefix L x) = ec_extranonce_prefix L u))"

text \<open>What the invariant reads of a state, up to changes of channels that keep their prefix.\<close>

definition prefixes_kept ::
  "('c, 'f, 'b, 'tlv, 'x, 'tip) chan_lib \<Rightarrow> ('c, 'f, 'b, 'tlv) tp_manager \<Rightarrow> ('c, 'f, 'b, 'tlv) tp_manager \<Rightarrow> bool" where
  "prefixes_kept L S S' \<longleftrightarrow>
     tp_mode (tp_data S') = tp_mode (tp_data S) \<and>
     extranonce_prefix_factory (tp_data S') = extranonce_prefix_factory (tp_data S) \<and>
     map_option (ec_extranonce_prefix L) (upstream_extended_channel (tp_data S')) =
       map_option (ec_extranonce_prefix L) (upstream_extended_channel (tp_data S)) \<and>
     (\<forall>c. map_option (ec_extranonce_prefix L) (get_chan S' c) = map_option (ec_extranonce_prefix L) (get_chan S c))"

lemma prefixes_kept_refl [simp]: "prefixes_kept L S S"
  by (simp add: prefixes_kept_def)

lemma prefixes_kept_trans: "prefixes_kept L S S1 \<Longrightarrow> prefixes_kept L S1 S2 \<Longrightarrow> prefixes_kept L S S2"
  by (simp add: prefixes_kept_def)

lemma prefixes_kept_inv:
  assumes "prefixes_kept L S S'" and "prefixes_inv L upstream S"
  shows "prefixes_inv L upstream S'"
proof -
  obtain u f where u: "upstream_extended_channel (tp_data S) = Some u" "extranonce_prefix_factory (tp_data S) = Some f"
      "upstream f = ec_extranonce_prefix L u" "unat (ef_range0_len L f) = length (ec_extranonce_prefix L u)"
    and chans: "\<And>c x. get_chan S c = Some x \<Longrightarrow>
      take (length (ec_extranonce_prefix L u)) (ec_extranonce_prefix L x) = ec_extranonce_prefix L u"
    using assms(2) unfolding prefixes_inv_def by blast
  from assms(1) u(1) obtain u' where u': "upstream_extended_channel (tp_data S') = Some u'"
      "ec_extranonce_prefix L u' = ec_extranonce_prefix L u"
    by (auto simp: prefixes_kept_def map_option_eq_Some)
  have "take (length (ec_extranonce_prefix L u)) (ec_extranonce_prefix L x') = ec_extranonce_prefix L u"
    if "get_chan S' c = Some x'" for c x'
  proof -
    have "map_option (ec_extranonce_prefix L) (get_chan S c) = Some (ec_extranonce_prefix L x')"
      using assms(1) that unfolding prefixes_kept_def by (metis option.simps(9))
    then obtain z where z: "get_chan S c = Some z" "ec_extranonce_prefix L z = ec_extranonce_prefix L x'"
      by (auto simp: map_option_eq_Some)
    from chans [OF z(1)] z(2) show ?thesis by simp
  qed
  with assms u u' show ?thesis by (auto simp: prefixes_inv_def prefixes_kept_def)
qed

lemma get_upd_one [simp]:
  "get_chan (upd_one f c S) j = (if j = c then map_option f (get_chan S c) else get_chan S j)"
  by (auto simp: upd_one_def split: option.split)

lemma get_upd_all [simp]: "get_chan (upd_all f S) j = map_option f (get_chan S j)"
  by (simp add: upd_all_def hm_get_def map_of_map)

lemma upd_frame [simp]:
  "tp_mode (tp_data (upd_one f c S)) = tp_mode (tp_data S)"
  "upstream_extended_channel (tp_data (upd_one f c S)) = upstream_extended_channel (tp_data S)"
  "extranonce_prefix_factory (tp_data (upd_one f c S)) = extranonce_prefix_factory (tp_data S)"
  "tp_mode (tp_data (upd_all f S)) = tp_mode (tp_data S)"
  "upstream_extended_channel (tp_data (upd_all f S)) = upstream_extended_channel (tp_data S)"
  "extranonce_prefix_factory (tp_data (upd_all f S)) = extranonce_prefix_factory (tp_data S)"
  "tp_mode (tp_data (upd_up f S)) = tp_mode (tp_data S)"
  "upstream_extended_channel (tp_data (upd_up f S)) = map_option f (upstream_extended_channel (tp_data S))"
  "extranonce_prefix_factory (tp_data (upd_up f S)) = extranonce_prefix_factory (tp_data S)"
  "get_chan (upd_up f S) j = get_chan S j"
  by (simp_all add: upd_one_def upd_all_def upd_up_def split: option.split)

lemma upd_kept:
  assumes "\<And>x. ec_extranonce_prefix L (f x) = ec_extranonce_prefix L x"
  shows "prefixes_kept L S (upd_one f c S)" and "prefixes_kept L S (upd_all f S)"
    and "prefixes_kept L S (upd_up f S)"
  using assms by (auto simp: prefixes_kept_def option.map_comp comp_def)

lemma send_prefixes_kept [simp]:
  "prefixes_kept L S (snd (send_frame_upstream m S))" "prefixes_kept L S (snd (send_upstream L mm S))"
  "prefixes_kept L S (snd (send_sv1 mm S))"
  by (simp_all add: prefixes_kept_def send_frame_upstream_def send_upstream_def send_sv1_def split: option.split)

lemma prefixes_and_then:
  assumes "prefixes_kept L S (snd m)" and "\<And>a S1. m = (Ok a, S1) \<Longrightarrow> prefixes_kept L S1 (snd (k a S1))"
  shows "prefixes_kept L S (snd (and_then m k))"
  using assms by (cases m) (auto simp: and_then_def split: res.split intro: prefixes_kept_trans)

section \<open>Events of the manager\<close>

datatype ('b, 'tlv) manager_event =
    SvRequest "'b tp_mining" "'tlv list option"
  | UpSuccess open_extended_success
  | UpJob "'b extended_job"
  | UpPrevHash "'b prev_hash_msg"
  | UpTarget u32 target
  | UpClose u32

primrec manager_event_step ::
  "('c, 'f, 'b, 'tlv, 'x, 'tip) chan_lib \<Rightarrow> ('b, 'tlv) manager_event \<Rightarrow> ('c, 'f, 'b, 'tlv) tp_manager \<Rightarrow>
     ('c, 'f, 'b, 'tlv, 'x, unit) manager_step" where
  "manager_event_step L (SvRequest m tlvs) S = handle_sv1_request L m tlvs S"
| "manager_event_step L (UpSuccess m) S = handle_open_extended_mining_channel_success L m S"
| "manager_event_step L (UpJob m) S = handle_new_extended_mining_job L m S"
| "manager_event_step L (UpPrevHash m) S = handle_upstream_prev_hash L m S"
| "manager_event_step L (UpTarget c t) S = handle_upstream_set_target L c t S"
| "manager_event_step L (UpClose c) S = (Ok (), handle_upstream_close_channel c S)"

fun run_manager ::
  "('c, 'f, 'b, 'tlv, 'x, 'tip) chan_lib \<Rightarrow> ('b, 'tlv) manager_event list \<Rightarrow> ('c, 'f, 'b, 'tlv) tp_manager \<Rightarrow>
     ('c, 'f, 'b, 'tlv, 'x, unit) manager_step" where
  "run_manager L [] S = (Ok (), S)"
| "run_manager L (e # es) S = and_then (manager_event_step L e S) (\<lambda>_. run_manager L es)"

fun opens_or_closes :: "('b, 'tlv) manager_event \<Rightarrow> bool" where
  "opens_or_closes (UpSuccess m) = True"
| "opens_or_closes (UpClose c) = True"
| "opens_or_closes e = False"

section \<open>Share frames\<close>

text \<open>The shares among the frames for the upstream, and the numbers of the shares of a channel.\<close>

fun share_of :: "('b, 'tlv) upstream_frame \<Rightarrow> submit_extended option" where
  "share_of (MiningFrame (SubmitExtended m) tlv) = Some m"
| "share_of f = None"

definition shares_of :: "('b, 'tlv) upstream_frame list \<Rightarrow> submit_extended list" where
  "shares_of fs = List.map_filter share_of fs"

definition share_numbers :: "u32 \<Rightarrow> ('b, 'tlv) upstream_frame list \<Rightarrow> u32 list" where
  "share_numbers k fs = map se_sequence_number (filter (\<lambda>m. se_channel_id m = k) (shares_of fs))"

lemma shares_of_simps [simp]:
  "shares_of [] = []"
  "shares_of (f # fs) = (case share_of f of Some m \<Rightarrow> m # shares_of fs | None \<Rightarrow> shares_of fs)"
  "shares_of (fs @ gs) = shares_of fs @ shares_of gs"
  by (simp_all add: shares_of_def List.map_filter_def split: option.split)

lemma share_numbers_simps [simp]:
  "share_numbers k [] = []"
  "share_numbers k (fs @ gs) = share_numbers k fs @ share_numbers k gs"
  "share_numbers k [MiningFrame (SubmitExtended m) tlv] = (if se_channel_id m = k then [se_sequence_number m] else [])"
  by (simp_all add: share_numbers_def)

lemma no_share_numbers: "shares_of fs = [] \<Longrightarrow> share_numbers k fs = []"
  by (simp add: share_numbers_def)

text \<open>A step that forwards no share and numbers none.\<close>

definition quiet :: "('c, 'f, 'b, 'tlv) tp_manager \<Rightarrow> ('c, 'f, 'b, 'tlv) tp_manager \<Rightarrow> bool" where
  "quiet S S' \<longleftrightarrow>
     share_sequence_counters (tp_data S') = share_sequence_counters (tp_data S) \<and>
     (\<exists>fs. to_upstream S' = to_upstream S @ fs \<and> shares_of fs = [])"

lemma quiet_refl [simp]: "quiet S S"
  by (simp add: quiet_def)

lemma quiet_trans: "quiet S S1 \<Longrightarrow> quiet S1 S2 \<Longrightarrow> quiet S S2"
  by (fastforce simp: quiet_def)

lemma quiet_and_then:
  assumes "quiet S (snd m)" and "\<And>a S1. quiet S1 (snd (k a S1))"
  shows "quiet S (snd (and_then m k))"
  using assms by (cases m) (auto simp: and_then_def split: res.split intro: quiet_trans)

lemma quiet_upd [simp]:
  "quiet S (upd_one f c S1) \<longleftrightarrow> quiet S S1" "quiet S (upd_all f S1) \<longleftrightarrow> quiet S S1"
  "quiet S (upd_up f S1) \<longleftrightarrow> quiet S S1"
  by (auto simp: quiet_def upd_one_def upd_all_def upd_up_def split: option.split)

lemma quiet_send:
  "quiet S (snd (send_sv1 m S))"
  "share_of (MiningFrame mm None :: ('b, 'tlv) upstream_frame) = None \<Longrightarrow>
     quiet (S :: ('c, 'f, 'b, 'tlv) tp_manager) (snd (send_upstream L mm S))"
  by (auto simp: quiet_def send_sv1_def send_upstream_def send_frame_upstream_def split: option.split)

lemma quiet_open_upstream: "quiet S (snd (open_on_upstream_channel L m up S))"
  unfolding open_on_upstream_channel_def send_active_job_def Let_def
  by (auto split: option.split prod.split intro!: quiet_and_then quiet_trans [OF _ quiet_send(1)])
    (auto simp: quiet_def)

lemma quiet_requests:
  "quiet S (snd (on_open_extended L m S))" "quiet S (snd (on_update_channel L u S))"
  "quiet S (snd (send_upstream L (CloseChan c r) S))"
proof -
  have "quiet S (snd (request_channel L m S))"
    unfolding request_channel_def Let_def
    by (auto intro!: quiet_trans [OF _ quiet_send(2)]) (auto simp: quiet_def)
  then show "quiet S (snd (on_open_extended L m S))"
    by (auto simp: on_open_extended_def quiet_open_upstream split: channel_mode.split option.split)
  show "quiet S (snd (on_update_channel L u S))"
    by (auto simp: on_update_channel_def intro!: quiet_send(2) split: option.split)
  show "quiet S (snd (send_upstream L (CloseChan c r) S))" by (rule quiet_send(2)) simp
qed

lemma quiet_open:
  "quiet S (snd (open_aggregated L m who S))" "quiet S (snd (open_non_aggregated L m who S))"
  unfolding open_aggregated_def open_non_aggregated_def Let_def
  by (auto split: prod.split intro!: quiet_and_then) (auto simp: quiet_def)

lemma quiet_upstream:
  "quiet S (snd (handle_open_extended_mining_channel_success L m S))"
  "quiet S (snd (handle_new_extended_mining_job L j S))" "quiet S (snd (handle_upstream_prev_hash L ph S))"
  "quiet S (snd (handle_upstream_set_target L c t S))" "quiet S (handle_upstream_close_channel c S)"
proof -
  show "quiet S (snd (handle_open_extended_mining_channel_success L m S))"
    unfolding handle_open_extended_mining_channel_success_def Let_def
    by (auto split: option.split intro!: quiet_and_then quiet_send(1) quiet_trans [OF _ quiet_open(1)]
        quiet_trans [OF _ quiet_open(2)])
      (auto simp: quiet_def)
  show "quiet S (snd (handle_new_extended_mining_job L j S))"
    by (auto simp: handle_new_extended_mining_job_def Let_def intro!: quiet_trans [OF _ quiet_send(1)])
  show "quiet S (snd (handle_upstream_prev_hash L ph S))"
    by (auto simp: handle_upstream_prev_hash_def Let_def split: option.split
        intro!: quiet_and_then quiet_send(1) quiet_trans [OF _ quiet_send(1)])
  show "quiet S (snd (handle_upstream_set_target L c t S))"
    by (auto simp: handle_upstream_set_target_def Let_def intro!: quiet_trans [OF _ quiet_send(1)])
  show "quiet S (handle_upstream_close_channel c S)"
    by (auto simp: handle_upstream_close_channel_def quiet_def)
qed

text \<open>A forwarded share carries the next number of the channel it is sent for.\<close>

definition numbered_share ::
  "submit_extended \<Rightarrow> ('c, 'f, 'b, 'tlv) tp_manager \<Rightarrow> ('c, 'f, 'b, 'tlv) tp_manager \<Rightarrow> bool" where
  "numbered_share m S S' \<longleftrightarrow>
     se_sequence_number m = next_number (tp_data S) (se_channel_id m) \<and>
     (\<forall>j. next_number (tp_data S') j =
        (if j = se_channel_id m then next_number (tp_data S) j + 1 else next_number (tp_data S) j))"

lemma upstream_extranonce_kept:
  assumes "upstream_extranonce L r m S = Ok m'"
  shows "se_sequence_number m' = se_sequence_number m \<and> se_channel_id m' = se_channel_id m"
  using assms by (auto simp: upstream_extranonce_def split: option.splits if_splits sum.splits)

lemma adjust_share_numbered:
  assumes "adjust_share L m S = (Ok m', S')"
  shows "numbered_share m' S S' \<and> to_upstream S' = to_upstream S"
proof -
  show ?thesis
  proof (cases "tp_mode (tp_data S) = Aggregated \<and> upstream_extended_channel (tp_data S) \<noteq> None")
    case True
    then obtain up where up: "tp_mode (tp_data S) = Aggregated" "upstream_extended_channel (tp_data S) = Some up" by auto
    with assms obtain n f m1 where n: "lock_next_sequence_number L (ec_channel_id L up) S = (Ok n, S')"
      and m1: "upstream_extranonce L (ef_range0_len L f) (m \<lparr> se_sequence_number := n \<rparr>) S' = Ok m1"
        "m' = m1 \<lparr> se_channel_id := ec_channel_id L up \<rparr>"
      by (auto simp: adjust_share_def and_then_Ok split: option.splits)
    show ?thesis
      using next_sequence_Ok [OF n] upstream_extranonce_kept [OF m1(1)] m1(2) by (simp add: numbered_share_def)
  next
    case False
    then have "adjust_share L m S =
        and_then (lock_next_sequence_number L (se_channel_id m) S)
          (\<lambda>n S1.
             (case Option.bind (extranonce_factories (tp_data S1)) (\<lambda>fs. hm_get fs (se_channel_id m)) of
                None \<Rightarrow> (Ok (m \<lparr> se_sequence_number := n \<rparr>), S1)
              | Some f \<Rightarrow> (upstream_extranonce L (ef_range0_len L f) (m \<lparr> se_sequence_number := n \<rparr>) S1, S1)))"
      by (auto simp: adjust_share_def split: channel_mode.split option.split)
    with assms obtain n where n: "lock_next_sequence_number L (se_channel_id m) S = (Ok n, S')"
      and "se_sequence_number m' = n" "se_channel_id m' = se_channel_id m"
      using upstream_extranonce_kept [of L _ "m \<lparr> se_sequence_number := _ \<rparr>"]
      by (fastforce simp: and_then_Ok split: option.splits)
    with next_sequence_Ok [OF n] show ?thesis by (simp add: numbered_share_def)
  qed
qed

lemma adjust_share_sends_nothing: "to_upstream (snd (adjust_share L m S)) = to_upstream S"
  by (auto simp: adjust_share_def and_then_def lock_next_sequence_number_def next_share_sequence_number_def Let_def
      split: channel_mode.split option.split res.split prod.split)

lemma submit_step:
  assumes "on_submit_extended L m tlvs S = (r, S')"
  shows "(r = Ok () \<and> (quiet S S' \<or> (\<exists>m' tlv. to_upstream S' = to_upstream S @ [MiningFrame (SubmitExtended m') tlv] \<and>
      numbered_share m' S S'))) \<or> (r \<noteq> Ok () \<and> to_upstream S' = to_upstream S)"
proof (cases "\<exists>x x'. get_chan S (se_channel_id m) = Some x \<and> ec_validate_share L m x = (True, x')")
  case True
  then obtain x x' where x: "get_chan S (se_channel_id m) = Some x" "ec_validate_share L m x = (True, x')" by blast
  let ?S1 = "upd_one (\<lambda>_. x') (se_channel_id m) S"
  obtain r1 S2 where adj: "adjust_share L m ?S1 = (r1, S2)" by fastforce
  have run: "and_then (r1, S2) (\<lambda>m'. send_share L m' tlvs) = (r, S')"
    using assms x adj by (simp add: on_submit_extended_def Let_def)
  have S1: "to_upstream ?S1 = to_upstream S" "next_number (tp_data ?S1) k = next_number (tp_data S) k" for k
    by (simp_all add: upd_one_def next_number_def split: option.split)
  have S2: "to_upstream S2 = to_upstream S"
    using adjust_share_sends_nothing [of L m ?S1] adj S1(1) by simp
  show ?thesis
  proof (cases r1)
    case (Ok m')
    from adjust_share_numbered [of L m ?S1 m' S2] adj Ok have num: "numbered_share m' S S2"
      by (simp add: numbered_share_def S1(2))
    from run Ok S2 have "(r = Ok () \<and> (\<exists>tlv. to_upstream S' = to_upstream S @ [MiningFrame (SubmitExtended m') tlv] \<and>
        tp_data S' = tp_data S2)) \<or> (r \<noteq> Ok () \<and> to_upstream S' = to_upstream S)"
      by (auto simp: send_share_def send_upstream_def send_frame_upstream_def split: option.splits if_splits)
    with num show ?thesis unfolding numbered_share_def by fastforce
  qed (use run S2 in auto)
next
  case False
  with assms have "r = Ok () \<and> quiet S S'"
    by (auto simp: on_submit_extended_def Let_def split: option.splits prod.splits)
  then show ?thesis by blast
qed

lemma manager_step_numbers:
  assumes "manager_event_step L e S = (r, S')"
  shows "quiet S S' \<or> (r \<noteq> Ok () \<and> to_upstream S' = to_upstream S) \<or>
    (\<exists>m' tlv. to_upstream S' = to_upstream S @ [MiningFrame (SubmitExtended m') tlv] \<and> numbered_share m' S S')"
proof -
  have S': "S' = snd (manager_event_step L e S)" using assms by simp
  show ?thesis
  proof (cases e)
    case (SvRequest m tlvs)
    show ?thesis
    proof (cases m)
      case (SubmitExtended se)
      with submit_step [of L se tlvs S r S'] assms SvRequest show ?thesis by auto
    qed (use S' SvRequest in \<open>auto simp: quiet_requests\<close>)
  qed (use S' in \<open>auto simp: quiet_upstream\<close>)
qed

text \<open>The shares of a channel number \<open>s k\<close> so far; the counters stand at the next numbers.\<close>

lemma run_manager_numbers:
  assumes "run_manager L es S = (r, S')" and "\<And>k. next_number (tp_data S) k = of_nat (Suc (s k))"
  shows "\<exists>fs. to_upstream S' = to_upstream S @ fs \<and>
    (\<exists>n\<le>length es. share_numbers k fs = map of_nat [Suc (s k)..<Suc (s k + n)])"
  using assms
proof (induction es arbitrary: S s)
  case (Cons e es)
  obtain r1 S1 where 1: "manager_event_step L e S = (r1, S1)" by fastforce
  with Cons.prems(1) have rest: "if r1 = Ok () then run_manager L es S1 = (r, S') else S' = S1"
    by (cases r1) auto
  from manager_step_numbers [OF 1] consider
      (quiet) "quiet S S1"
    | (failed) "r1 \<noteq> Ok ()" "to_upstream S1 = to_upstream S"
    | (share) m tlv where "to_upstream S1 = to_upstream S @ [MiningFrame (SubmitExtended m) tlv]"
        "numbered_share m S S1"
    by blast
  then show ?case
  proof cases
    case quiet
    then obtain gs where gs: "to_upstream S1 = to_upstream S @ gs" "share_numbers k gs = []"
      unfolding quiet_def by (blast intro: no_share_numbers)
    have next1: "next_number (tp_data S1) j = of_nat (Suc (s j))" for j
      using quiet Cons.prems(2) [of j] by (simp add: quiet_def next_number_def)
    show ?thesis
    proof (cases "r1 = Ok ()")
      case True
      with rest Cons.IH [OF _ next1] obtain fs n where "to_upstream S' = to_upstream S1 @ fs" "n \<le> length es"
          "share_numbers k fs = map of_nat [Suc (s k)..<Suc (s k + n)]" by auto
      with gs show ?thesis by (intro exI [of _ "gs @ fs"]) (auto intro!: exI [of _ n])
    next
      case False
      with rest gs show ?thesis by (intro exI [of _ gs]) (auto intro!: exI [of _ 0])
    qed
  next
    case failed
    with rest show ?thesis by (intro exI [of _ "[]"]) (auto intro!: exI [of _ 0])
  next
    case share
    let ?s = "s(se_channel_id m := Suc (s (se_channel_id m)))"
    let ?g = "[MiningFrame (SubmitExtended m) tlv]"
    have g: "share_numbers k ?g = (if se_channel_id m = k then [of_nat (Suc (s k))] else [])"
      using share(2) Cons.prems(2) by (auto simp: numbered_share_def)
    show ?thesis
    proof (cases "r1 = Ok ()")
      case True
      have next1: "next_number (tp_data S1) j = of_nat (Suc (?s j))" for j
        using share(2) Cons.prems(2) [of j] by (cases "j = se_channel_id m") (auto simp: numbered_share_def)
      with True rest Cons.IH [OF _ next1] obtain fs n where fs: "to_upstream S' = to_upstream S1 @ fs" "n \<le> length es"
          "share_numbers k fs = map of_nat [Suc (?s k)..<Suc (?s k + n)]" by auto
      have "share_numbers k (?g @ fs) =
          map of_nat [Suc (s k)..<Suc (s k + (if se_channel_id m = k then Suc n else n))]"
        unfolding share_numbers_simps(2) g fs(3) by (cases "se_channel_id m = k") (simp_all add: upt_conv_Cons del: upt_Suc)
      with fs(1,2) share(1) show ?thesis
        by (intro exI [of _ "?g @ fs"]) (auto intro!: exI [of _ "if se_channel_id m = k then Suc n else n"])
    next
      case False
      have "share_numbers k ?g = map of_nat [Suc (s k)..<Suc (s k + (if se_channel_id m = k then 1 else 0))]"
        unfolding g by simp
      with False rest share(1) show ?thesis
        by (intro exI [of _ ?g]) (auto intro!: exI [of _ "if se_channel_id m = k then 1 else 0"] simp del: share_numbers_simps(3))
    qed
  qed
qed auto

lemma chan_lib_prefix:
  assumes "chan_lib_ok L upstream"
  shows "ec_extranonce_prefix L (ec_set_target L t x) = ec_extranonce_prefix L x"
    and "ec_extranonce_prefix L (ec_set_chain_tip L tip x) = ec_extranonce_prefix L x"
    and "ec_extranonce_prefix L (ec_on_new_job L j x) = ec_extranonce_prefix L x"
    and "ec_extranonce_prefix L (ec_on_prev_hash L ph x) = ec_extranonce_prefix L x"
    and "ec_extranonce_prefix L (snd (ec_validate_share L m x)) = ec_extranonce_prefix L x"
    and "ec_extranonce_prefix L (ec_new L c n p t h b z) = p"
    and "ec_channel_id L (ec_new L c n p t h b z) = c"
  using assms by (simp_all add: chan_lib_ok_def channels_ok_def)

lemma chan_lib_factory:
  assumes "chan_lib_ok L upstream"
  shows "ef_from_upstream L p r0 r1 r2 = Some f \<Longrightarrow> upstream f = p \<and> unat (ef_range0_len L f) = length p"
    and "ef_next_prefix L n f = (q, f') \<Longrightarrow> upstream f' = upstream f \<and> ef_range0_len L f' = ef_range0_len L f"
    and "ef_next_prefix L n f = (Some p, f') \<Longrightarrow> take (length (upstream f)) p = upstream f"
    and "b032_try_from L bs = Inr en \<Longrightarrow> en = bs"
proof -
  have f: "factories_ok L upstream" using assms by (simp add: chan_lib_ok_def)
  show "ef_from_upstream L p r0 r1 r2 = Some f \<Longrightarrow> upstream f = p \<and> unat (ef_range0_len L f) = length p"
    using f unfolding factories_ok_def by blast
  have "upstream (snd (ef_next_prefix L n f)) = upstream f \<and>
      ef_range0_len L (snd (ef_next_prefix L n f)) = ef_range0_len L f \<and>
      (\<forall>p. fst (ef_next_prefix L n f) = Some p \<longrightarrow> take (length (upstream f)) p = upstream f)"
    using f unfolding factories_ok_def by blast
  then show "ef_next_prefix L n f = (q, f') \<Longrightarrow> upstream f' = upstream f \<and> ef_range0_len L f' = ef_range0_len L f"
    and "ef_next_prefix L n f = (Some p, f') \<Longrightarrow> take (length (upstream f)) p = upstream f" by simp_all
  show "b032_try_from L bs = Inr en \<Longrightarrow> en = bs" using f unfolding factories_ok_def by blast
qed

lemma job_events_kept:
  assumes "chan_lib_ok L upstream"
  shows "prefixes_kept L S (snd (handle_new_extended_mining_job L m S))"
    and "prefixes_kept L S (snd (handle_upstream_prev_hash L ph S))"
    and "prefixes_kept L S (snd (handle_upstream_set_target L c t S))"
proof -
  note upd = upd_kept [OF chan_lib_prefix(3) [OF assms]] upd_kept [OF chan_lib_prefix(4) [OF assms]]
    upd_kept [OF chan_lib_prefix(1) [OF assms]]
  have both: "prefixes_kept L S (upd_all f (upd_up g S))"
    if "\<And>x. ec_extranonce_prefix L (f x) = ec_extranonce_prefix L x"
      "\<And>x. ec_extranonce_prefix L (g x) = ec_extranonce_prefix L x" for f g
    by (rule prefixes_kept_trans [OF upd_kept(3) upd_kept(2)]) (simp_all add: that)
  show "prefixes_kept L S (snd (handle_new_extended_mining_job L m S))"
    using upd both [OF chan_lib_prefix(3,3) [OF assms]]
    by (auto simp: handle_new_extended_mining_job_def Let_def intro: prefixes_kept_trans [OF _ send_prefixes_kept(3)])
  have "prefixes_kept L S (if tp_mode (tp_data S) = Aggregated
      then upd_all (ec_on_prev_hash L ph) (upd_up (ec_on_prev_hash L ph) S)
      else upd_one (ec_on_prev_hash L ph) (ph_channel_id ph) S)"
    using upd both [OF chan_lib_prefix(4,4) [OF assms]] by simp
  then show "prefixes_kept L S (snd (handle_upstream_prev_hash L ph S))"
    unfolding handle_upstream_prev_hash_def Let_def
    by (intro prefixes_and_then) (auto intro: prefixes_kept_trans [OF _ send_prefixes_kept(3)] split: option.split)
  show "prefixes_kept L S (snd (handle_upstream_set_target L c t S))"
    using upd both [OF chan_lib_prefix(1,1) [OF assms]]
    by (auto simp: handle_upstream_set_target_def Let_def intro: prefixes_kept_trans [OF _ send_prefixes_kept(3)])
qed

lemma send_active_job_kept:
  assumes "chan_lib_ok L upstream"
  shows "prefixes_kept L S (snd (send_active_job L c S))"
proof -
  note tip = upd_kept(1) [OF chan_lib_prefix(2) [OF assms]]
    and job = upd_kept(1) [OF chan_lib_prefix(3) [OF assms]]
  have "prefixes_kept L S (upd_one (ec_on_new_job L j) c S1)" if "prefixes_kept L S S1" for S1 j
    using that job by (rule prefixes_kept_trans)
  then show ?thesis
    using tip by (auto simp: send_active_job_def Let_def split: option.split
        intro!: prefixes_kept_trans [OF _ send_prefixes_kept(3)])
qed

lemma sequence_kept: "prefixes_kept L S (snd (lock_next_sequence_number L k S))"
  by (simp add: lock_next_sequence_number_def next_share_sequence_number_def prefixes_kept_def Let_def
      split: prod.split res.split)

lemma adjust_share_kept: "prefixes_kept L S (snd (adjust_share L m S))"
  unfolding adjust_share_def
  by (auto split: channel_mode.split option.split intro!: prefixes_and_then sequence_kept)

lemma submit_prefixes_kept:
  assumes "chan_lib_ok L upstream"
  shows "prefixes_kept L S (snd (on_submit_extended L m tlvs S))"
proof (cases "get_chan S (se_channel_id m)")
  case (Some x)
  obtain ok x' where v: "ec_validate_share L m x = (ok, x')" by fastforce
  have "ec_extranonce_prefix L x' = ec_extranonce_prefix L x"
    using chan_lib_prefix(5) [OF assms, of m x] v by simp
  then have S1: "prefixes_kept L S (upd_one (\<lambda>_. x') (se_channel_id m) S)"
    using Some by (simp add: prefixes_kept_def)
  have send: "prefixes_kept L S1 (snd (send_share L m' tlvs S1))" for m' S1
    by (auto simp: send_share_def split: option.split)
  have "prefixes_kept L S1 (snd (and_then (adjust_share L m S1) (\<lambda>m'. send_share L m' tlvs)))" for S1
    by (intro prefixes_and_then adjust_share_kept send)
  with S1 Some v show ?thesis
    by (auto simp: on_submit_extended_def Let_def intro: prefixes_kept_trans)
qed (simp add: on_submit_extended_def)

lemma open_upstream_inv:
  assumes ok: "chan_lib_ok L upstream" and inv: "prefixes_inv L upstream S"
    and up: "upstream_extended_channel (tp_data S) = Some u"
  shows "prefixes_inv L upstream (snd (open_on_upstream_channel L m u S))"
proof -
  from inv up obtain f where f: "extranonce_prefix_factory (tp_data S) = Some f"
      "upstream f = ec_extranonce_prefix L u" "unat (ef_range0_len L f) = length (ec_extranonce_prefix L u)"
    unfolding prefixes_inv_def by auto
  obtain p f' where nx: "ef_next_prefix L (ucast (oe_min_extranonce_size m)) f = (p, f')" by fastforce
  let ?S1 = "upd_chan (\<lambda>d. d \<lparr> extranonce_prefix_factory := Some f' \<rparr>) S"
  have S1: "prefixes_inv L upstream ?S1"
    using inv up f chan_lib_factory(2) [OF ok nx] by (auto simp: prefixes_inv_def)
  show ?thesis
  proof (cases p)
    case None
    with f nx S1 show ?thesis by (simp add: open_on_upstream_channel_def Let_def)
  next
    case (Some pre)
    let ?S3 = "\<lambda>c S. upd_chan (\<lambda>d. d \<lparr> extended_channels := hm_insert c
        (ec_new L c (oe_user_identity m) pre (ec_target L u) (oe_nominal_hash_rate m) True
           (ucast (ef_range2_len L f'))) (extended_channels d) \<rparr>) S"
    have pre: "take (length (ec_extranonce_prefix L u)) pre = ec_extranonce_prefix L u"
      using chan_lib_factory(3) [OF ok] nx Some f(2) by metis
    have S3: "prefixes_inv L upstream (?S3 c ?S1)" for c
      using S1 pre up chan_lib_prefix(6) [OF ok] by (auto simp: prefixes_inv_def split: if_splits)
    have kept: "prefixes_kept L S3 (snd (and_then (send_sv1 x S3) (\<lambda>_. send_active_job L c)))" for S3 x c
      by (intro prefixes_and_then send_active_job_kept [OF ok]) simp
    have "prefixes_inv L upstream (snd (and_then (send_sv1 x (?S3 c ?S1)) (\<lambda>_. send_active_job L c)))" for x c
      using kept S3 by (rule prefixes_kept_inv)
    with f nx Some S1 show ?thesis
      by (auto simp: open_on_upstream_channel_def add_one_def Let_def)
  qed
qed

lemma manager_step_inv:
  assumes "chan_lib_ok L upstream" and inv: "prefixes_inv L upstream S" and "\<not> opens_or_closes e"
  shows "prefixes_inv L upstream (snd (manager_event_step L e S))"
proof (cases e)
  case (SvRequest m tlvs)
  from inv obtain u where mode: "tp_mode (tp_data S) = Aggregated"
    and u: "upstream_extended_channel (tp_data S) = Some u"
    unfolding prefixes_inv_def by blast
  show ?thesis
  proof (cases m)
    case (OpenExtended oe)
    with SvRequest mode u open_upstream_inv [OF assms(1) inv u] show ?thesis by (simp add: on_open_extended_def)
  next
    case (SubmitExtended se)
    with SvRequest show ?thesis
      using prefixes_kept_inv [OF submit_prefixes_kept [OF assms(1)] inv] by simp
  qed (use SvRequest mode u inv prefixes_kept_inv [OF send_prefixes_kept(2) inv] in \<open>auto simp: on_update_channel_def\<close>)
qed (use assms prefixes_kept_inv [OF job_events_kept(1) [OF assms(1)] inv]
  prefixes_kept_inv [OF job_events_kept(2) [OF assms(1)] inv]
  prefixes_kept_inv [OF job_events_kept(3) [OF assms(1)] inv] in auto)

lemma run_manager_inv:
  assumes "chan_lib_ok L upstream" and "prefixes_inv L upstream S" and "\<not> (\<exists>e\<in>set es. opens_or_closes e)"
    and "run_manager L es S = (r, S')"
  shows "prefixes_inv L upstream S'"
  using assms(2-)
proof (induction es arbitrary: S)
  case (Cons e es)
  obtain r1 S1 where 1: "manager_event_step L e S = (r1, S1)" by fastforce
  have S1: "prefixes_inv L upstream S1"
    using manager_step_inv [OF assms(1) Cons.prems(1), of e] Cons.prems(2) 1 by simp
  show ?case
    using Cons.IH [OF S1] Cons.prems(2,3) 1 S1 by (cases r1) auto
qed simp

text \<open>The channels and the factory after a success message in aggregated mode.\<close>

lemma open_success_facts:
  assumes ok: "chan_lib_ok L upstream" and "tp_mode (tp_data S) = Aggregated"
    and "handle_open_extended_mining_channel_success L m S = (Ok (), S')"
  shows "\<exists>u x f. tp_mode (tp_data S') = Aggregated \<and> upstream_extended_channel (tp_data S') = Some u \<and>
    ec_extranonce_prefix L u = os_extranonce_prefix m \<and> ec_channel_id L u = os_channel_id m \<and>
    extranonce_prefix_factory (tp_data S') = Some f \<and> upstream f = os_extranonce_prefix m \<and>
    unat (ef_range0_len L f) = length (os_extranonce_prefix m) \<and>
    extended_channels (tp_data S') = hm_insert (os_channel_id m) x (extended_channels (tp_data S)) \<and>
    take (length (os_extranonce_prefix m)) (ec_extranonce_prefix L x) = os_extranonce_prefix m"
proof -
  from assms(3) obtain who where who: "hm_get (pending_channels (tp_data S)) (ucast (os_request_id m)) = Some who"
    by (auto simp: handle_open_extended_mining_channel_success_def split: option.splits)
  obtain name h len where w: "who = (name, h, len)" by (cases who) auto
  let ?S0 = "upd_chan (\<lambda>d. d \<lparr> pending_channels := hm_remove (ucast (os_request_id m)) (pending_channels d) \<rparr>) S"
  from assms(2,3) who obtain su S1 where
      opened: "open_aggregated L m who ?S0 = (Ok su, S1)" and sent: "tp_data S' = tp_data S1"
    by (auto simp: handle_open_extended_mining_channel_success_def Let_def and_then_Ok send_sv1_def
        split: if_splits)
  from opened obtain f where f: "make_factory L (os_extranonce_prefix m) (os_extranonce_size m) len = Ok f"
    unfolding w by (cases "make_factory L (os_extranonce_prefix m) (os_extranonce_size m) len")
      (auto simp: open_aggregated_def Let_def)
  let ?sz = "ucast (ef_range2_len L f) :: u16"
  obtain p f' where np: "next_prefix L (ucast ?sz) f = (p, f')" by fastforce
  from opened f np obtain pre where pre: "p = Ok pre"
    unfolding w by (cases p) (auto simp: open_aggregated_def Let_def)
  have nx: "next_prefix L (ucast ?sz) f = (Ok pre, f')" using np pre by simp
  from opened f nx assms(2) have S1: "tp_mode (tp_data S1) = Aggregated"
      "upstream_extended_channel (tp_data S1) = Some (ec_new L (os_channel_id m) name (os_extranonce_prefix m)
         (os_target m) h True (os_extranonce_size m))"
      "extranonce_prefix_factory (tp_data S1) = Some f'"
      "extended_channels (tp_data S1) = hm_insert (os_channel_id m) (ec_new L (os_channel_id m) name pre
         (os_target m) h True ?sz) (extended_channels (tp_data S))"
    unfolding w by (auto simp: open_aggregated_def Let_def)
  from f have "upstream f = os_extranonce_prefix m \<and> unat (ef_range0_len L f) = length (os_extranonce_prefix m)"
    using chan_lib_factory(1) [OF ok]
    by (auto simp: make_factory_def Let_def expect_def split: res.splits option.splits)
  moreover from nx have en: "ef_next_prefix L (ucast ?sz) f = (Some pre, f')"
    by (auto simp: next_prefix_def split: prod.splits)
  ultimately show ?thesis
    unfolding sent using S1 chan_lib_factory(2,3) [OF ok en] chan_lib_prefix(6,7) [OF ok]
    by (auto intro!: exI [of _ "ec_new L (os_channel_id m) name pre (os_target m) h True ?sz"])
qed

lemma open_success_inv:
  assumes ok: "chan_lib_ok L upstream" and "tp_mode (tp_data S) = Aggregated"
    and "extended_channels (tp_data S) = hm_new"
    and "handle_open_extended_mining_channel_success L m S = (Ok (), S')"
  shows "prefixes_inv L upstream S'"
  using open_success_facts [OF ok assms(2,4)] assms(3) by (auto simp: prefixes_inv_def split: if_splits)

section \<open>Concrete channels and factories\<close>

type_synonym demo_manager_lib = "(u32 \<times> bytes, bytes \<times> nat, unit, string, string, unit) chan_lib"

definition demo_channels :: demo_manager_lib where
  "demo_channels = \<lparr> ec_new = (\<lambda>c n p t h b z. (c, p)), ec_channel_id = fst, ec_target = (\<lambda>x. 100),
     ec_extranonce_prefix = snd, ec_set_target = (\<lambda>t x. x), ec_chain_tip = (\<lambda>x. None),
     ec_set_chain_tip = (\<lambda>t x. x), ec_active_job = (\<lambda>x. None), ec_on_new_job = (\<lambda>j x. x),
     ec_on_prev_hash = (\<lambda>j x. x), ec_validate_share = (\<lambda>m x. (True, x)),
     ef_from_upstream = (\<lambda>p r0 r1 r2. if length p < 2 ^ 64 then Some (p, 0) else None),
     ef_next_prefix = (\<lambda>n (p, k). (Some (p @ [of_nat k]), (p, Suc k))),
     ef_range0_len = (\<lambda>(p, k). of_nat (length p)), ef_range2_len = (\<lambda>f. 4), b032_try_from = Inr,
     frame_error = (\<lambda>m. None), tlv_frame_error = (\<lambda>m t. None), is_user_identity_tlv = (\<lambda>t. True),
     worker_hashrate_extension = 2, show_extensions = (\<lambda>es. []), str0255_fits = (\<lambda>n. length n \<le> 255),
     overflow_checks = True \<rparr>"

lemma demo_channels_ok: "chan_lib_ok demo_channels fst"
  by (auto simp: chan_lib_ok_def channels_ok_def factories_ok_def demo_channels_def unat_of_nat
      split: if_splits)

definition demo_tp_manager :: "(u32 \<times> bytes, bytes \<times> nat, unit, string) tp_manager" where
  "demo_tp_manager = \<lparr> tp_data = tp_channel_data_new Aggregated, to_upstream = [], upstream_open = True,
     to_sv1_server = [], sv1_server_open = True, upstream_shutdowns = 0 \<rparr>"

definition demo_tp_open :: "u32 \<Rightarrow> open_extended" where
  "demo_tp_open r = \<lparr> oe_request_id = r, oe_user_identity = ''pool.miner1'', oe_nominal_hash_rate = 10,
     oe_max_target = 100, oe_min_extranonce_size = 4 \<rparr>"

definition demo_opened_channel :: "u32 \<Rightarrow> u32 \<Rightarrow> u8 \<Rightarrow> open_extended_success" where
  "demo_opened_channel r c b = \<lparr> os_request_id = r, os_channel_id = c, os_target = 100, os_extranonce_size = 8,
     os_extranonce_prefix = [b, 0] \<rparr>"

definition demo_tp_share :: "u32 \<Rightarrow> submit_extended" where
  "demo_tp_share c = \<lparr> se_channel_id = c, se_sequence_number = 0, se_job_id = 1, se_nonce = 7, se_ntime = 0,
     se_version = 1, se_extranonce = [1, 2, 3, 4] \<rparr>"

lemmas demo_tp_manager_simps =
  on_open_extended_def request_channel_def send_upstream_def send_frame_upstream_def
  handle_open_extended_mining_channel_success_def open_aggregated_def make_factory_def next_prefix_def
  proxy_extranonce_prefix_len_def send_sv1_def on_submit_extended_def adjust_share_def upstream_extranonce_def
  lock_next_sequence_number_def next_share_sequence_number_def add_one_def send_share_def upd_one_def
  demo_channels_def demo_tp_manager_def demo_tp_open_def demo_opened_channel_def demo_tp_share_def
  tp_channel_data_new_def translator_identity_def AGGREGATED_MODE_TRANSLATOR_SEARCH_SPACE_BYTES_def Let_def

section \<open>Share numbers\<close>

text \<open>
  C26. The shares that the manager forwards for an upstream channel identifier are numbered 1, 2, 3
  and so on in the order in which they are sent, in both modes, however shares of other channels, new
  channels, jobs, targets and closed channels come between them, and also when the run ends with an
  error or a panic. No number is used twice as long as fewer than \<open>2\<close>\<open>^32\<close> messages are handled.
  A run starts with empty counters, as a new manager and a reset after a reconnection have them.
\<close>

theorem sequence_numbers_consecutive:
  assumes "run_manager L es S0 = (r, S)" and "share_sequence_counters (tp_data S0) = hm_new"
  shows "\<exists>fs n. to_upstream S = to_upstream S0 @ fs \<and> n \<le> length es \<and>
    share_numbers k fs = map of_nat [1..<Suc n] \<and> (n < 2 ^ 32 \<longrightarrow> distinct (share_numbers k fs))"
proof -
  have "next_number (tp_data S0) j = of_nat (Suc ((\<lambda>_. 0) j))" for j by (simp add: next_number_def assms(2))
  from run_manager_numbers [OF assms(1) this, of k] obtain fs n where fs: "to_upstream S = to_upstream S0 @ fs"
      "n \<le> length es" "share_numbers k fs = map of_nat [1..<Suc n]" by (auto simp del: upt_Suc)
  have "distinct (map (of_nat :: nat \<Rightarrow> u32) [1..<Suc n])" if "n < 2 ^ 32"
    using that by (auto simp: distinct_map inj_on_def word_of_nat_eq_iff take_bit_nat_eq_self simp del: upt_Suc)
  with fs show ?thesis by metis
qed

theorem sequence_numbers_consecutive_witness:
  "\<exists>S fs. run_manager demo_channels
      [SvRequest (OpenExtended (demo_tp_open 1)) None, UpSuccess (demo_opened_channel 1 5 8),
       SvRequest (SubmitExtended (demo_tp_share 5)) None, SvRequest (SubmitExtended (demo_tp_share 5)) None]
      demo_tp_manager = (Ok (), S) \<and>
    to_upstream S = to_upstream demo_tp_manager @ fs \<and> share_numbers 5 fs = [1, 2]"
proof -
  let ?es = "[SvRequest (OpenExtended (demo_tp_open 1)) None, UpSuccess (demo_opened_channel 1 5 8),
    SvRequest (SubmitExtended (demo_tp_share 5)) None, SvRequest (SubmitExtended (demo_tp_share 5)) None]"
  let ?S = "snd (run_manager demo_channels ?es demo_tp_manager)"
  have run: "run_manager demo_channels ?es demo_tp_manager = (Ok (), ?S)"
    and start: "share_sequence_counters (tp_data demo_tp_manager) = hm_new"
    and sent: "to_upstream demo_tp_manager = []" "share_numbers 5 (to_upstream ?S) = [1, 2]"
    by (simp_all add: demo_tp_manager_simps share_numbers_def)
  from sequence_numbers_consecutive [OF run start, of 5] obtain fs where
      "to_upstream ?S = to_upstream demo_tp_manager @ fs" by blast
  with run sent show ?thesis by (metis append_Nil)
qed

section \<open>Properties of the aggregated mode\<close>

lemma adjust_share_aggregated:
  assumes ok: "chan_lib_ok L upstream" and "prefixes_inv L upstream S" and "get_chan S (se_channel_id m) = Some x"
    and "upstream_extended_channel (tp_data S) = Some u" and "adjust_share L m S = (Ok m', S')"
  shows "se_channel_id m' = ec_channel_id L u \<and>
    ec_extranonce_prefix L u @ se_extranonce m' = ec_extranonce_prefix L x @ se_extranonce m \<and>
    to_upstream S' = to_upstream S"
proof -
  from assms(2,4) obtain f where mode: "tp_mode (tp_data S) = Aggregated"
      and f: "extranonce_prefix_factory (tp_data S) = Some f"
      "unat (ef_range0_len L f) = length (ec_extranonce_prefix L u)"
    unfolding prefixes_inv_def by auto
  from assms(2,3,4) have tk: "take (length (ec_extranonce_prefix L u)) (ec_extranonce_prefix L x) = ec_extranonce_prefix L u"
    unfolding prefixes_inv_def by auto
  obtain n S1 where n: "lock_next_sequence_number L (ec_channel_id L u) S = (Ok n, S1)"
    using assms(4,5) mode by (cases "lock_next_sequence_number L (ec_channel_id L u) S"; cases "fst (lock_next_sequence_number L (ec_channel_id L u) S)")
      (auto simp: adjust_share_def)
  have S1: "extranonce_prefix_factory (tp_data S1) = Some f" "get_chan S1 (se_channel_id m) = Some x"
      "to_upstream S1 = to_upstream S"
    using n f assms(3)
    by (auto simp: lock_next_sequence_number_def next_share_sequence_number_def Let_def split: prod.splits res.splits)
  from assms(4,5) mode n S1(1) obtain m1 where
      m1: "upstream_extranonce L (ef_range0_len L f) (m \<lparr> se_sequence_number := n \<rparr>) S1 = Ok m1"
      "m' = m1 \<lparr> se_channel_id := ec_channel_id L u \<rparr>" "S' = S1"
    by (auto simp: adjust_share_def and_then_Ok)
  from m1(1) S1(2) f(2) obtain en where
      "b032_try_from L (drop (length (ec_extranonce_prefix L u)) (ec_extranonce_prefix L x) @ se_extranonce m) = Inr en"
      "m1 = m \<lparr> se_sequence_number := n, se_extranonce := en \<rparr>"
    by (auto simp: upstream_extranonce_def split: if_splits sum.splits)
  with chan_lib_factory(4) [OF ok] have "se_extranonce m1 =
      drop (length (ec_extranonce_prefix L u)) (ec_extranonce_prefix L x) @ se_extranonce m" by fastforce
  then show ?thesis
    using m1 S1(3) tk append_take_drop_id [of "length (ec_extranonce_prefix L u)" "ec_extranonce_prefix L x"] by simp
qed

text \<open>
  C8. Aggregated mode with one upstream channel: after the upstream opened its channel for a
  manager without channels, and whatever requests, jobs, prev-hashes and targets followed,
  a valid share is forwarded as one frame for the upstream channel, and the full extranonce
  that the upstream reads, its own prefix followed by the share's bytes, is the one
  the miner mined with, the prefix of the miner's channel followed by the miner's bytes.
\<close>

theorem aggregated_share_extranonce:
  fixes L :: "('c, 'f, 'b, 'tlv, 'x, 'tip) chan_lib"
  assumes ok: "chan_lib_ok L upstream"
    and start: "tp_mode (tp_data S0) = Aggregated" "extended_channels (tp_data S0) = hm_new"
    and opened: "handle_open_extended_mining_channel_success L m0 S0 = (Ok (), S1)"
    and run: "run_manager L es S1 = (Ok (), S)" "\<not> (\<exists>e\<in>set es. opens_or_closes e)"
    and share: "get_chan S (se_channel_id m) = Some x" "fst (ec_validate_share L m x)"
      "handle_sv1_request L (SubmitExtended m) tlvs S = (Ok (), S')"
  shows "\<exists>u m' tlv. upstream_extended_channel (tp_data S) = Some u \<and>
    to_upstream S' = to_upstream S @ [MiningFrame (SubmitExtended m') tlv] \<and>
    se_channel_id m' = ec_channel_id L u \<and>
    ec_extranonce_prefix L u @ se_extranonce m' = ec_extranonce_prefix L x @ se_extranonce m"
proof -
  have inv: "prefixes_inv L upstream S"
    by (rule run_manager_inv [OF ok open_success_inv [OF ok start opened] run(2,1)])
  then obtain u where u: "upstream_extended_channel (tp_data S) = Some u" unfolding prefixes_inv_def by blast
  obtain x' where v: "ec_validate_share L m x = (True, x')" using share(2) by (cases "ec_validate_share L m x") simp
  let ?S1 = "upd_one (\<lambda>_. x') (se_channel_id m) S"
  have px: "ec_extranonce_prefix L x' = ec_extranonce_prefix L x"
    using chan_lib_prefix(5) [OF ok, of m x] v by simp
  have "prefixes_kept L S ?S1" using share(1) px by (simp add: prefixes_kept_def)
  then have inv1: "prefixes_inv L upstream ?S1" using inv by (rule prefixes_kept_inv)
  from share v obtain m' S2 where
      adj: "adjust_share L m ?S1 = (Ok m', S2)"
      and sent: "send_share L m' tlvs S2 = (Ok () :: ('x tproxy_error, unit) res, S')"
    by (auto simp: on_submit_extended_def Let_def and_then_Ok)
  have "to_upstream ?S1 = to_upstream S" by (simp add: upd_one_def split: option.split)
  moreover have "\<exists>tlv. to_upstream S' = to_upstream S2 @ [MiningFrame (SubmitExtended m') tlv]"
    using sent by (auto simp: send_share_def send_upstream_def send_frame_upstream_def
        split: option.splits if_splits)
  ultimately show ?thesis
    using adjust_share_aggregated [OF ok inv1 _ _ adj] u share(1) px by auto
qed

theorem aggregated_share_extranonce_witness:
  "\<exists>S0 S S' x. handle_sv1_request demo_channels (OpenExtended (demo_tp_open 1)) None demo_tp_manager = (Ok (), S0) \<and>
     get_chan S 5 = Some x \<and>
     handle_sv1_request demo_channels (SubmitExtended (demo_tp_share 5)) None S = (Ok (), S') \<and>
     (\<exists>u m' tlv. upstream_extended_channel (tp_data S) = Some u \<and>
        to_upstream S' = to_upstream S @ [MiningFrame (SubmitExtended m') tlv] \<and>
        ec_extranonce_prefix demo_channels u @ se_extranonce m' =
          ec_extranonce_prefix demo_channels x @ [1, 2, 3, 4])"
proof -
  let ?asked = "snd (handle_sv1_request demo_channels (OpenExtended (demo_tp_open 1)) None demo_tp_manager)"
  let ?opened = "snd (handle_open_extended_mining_channel_success demo_channels (demo_opened_channel 1 5 8) ?asked)"
  let ?mid = "snd (run_manager demo_channels [SvRequest (OpenExtended (demo_tp_open 2)) None, UpTarget 5 90] ?opened)"
  let ?sent = "snd (handle_sv1_request demo_channels (SubmitExtended (demo_tp_share 5)) None ?mid)"
  have S0: "handle_sv1_request demo_channels (OpenExtended (demo_tp_open 1)) None demo_tp_manager = (Ok (), ?asked)"
    and start: "tp_mode (tp_data ?asked) = Aggregated" "extended_channels (tp_data ?asked) = hm_new"
    by (simp_all add: demo_tp_manager_simps)
  have opened: "handle_open_extended_mining_channel_success demo_channels (demo_opened_channel 1 5 8) ?asked = (Ok (), ?opened)"
    by (simp add: demo_tp_manager_simps)
  have run: "run_manager demo_channels [SvRequest (OpenExtended (demo_tp_open 2)) None, UpTarget 5 90] ?opened = (Ok (), ?mid)"
    and chan: "get_chan ?mid 5 = Some (5, [8, 0, 0])"
    and share: "handle_sv1_request demo_channels (SubmitExtended (demo_tp_share 5)) None ?mid = (Ok (), ?sent)"
    by (simp_all add: demo_tp_manager_simps open_on_upstream_channel_def send_active_job_def
        handle_upstream_set_target_def upd_all_def upd_up_def max_key_def hm_new_def hm_insert_def hm_get_def)
  have "se_channel_id (demo_tp_share 5) = 5" "se_extranonce (demo_tp_share 5) = [1, 2, 3, 4]"
    "fst (ec_validate_share demo_channels (demo_tp_share 5) (5, [8, 0, 0]))"
    by (simp_all add: demo_tp_share_def demo_channels_def)
  then have "\<exists>u m' tlv. upstream_extended_channel (tp_data ?mid) = Some u \<and>
      to_upstream ?sent = to_upstream ?mid @ [MiningFrame (SubmitExtended m') tlv] \<and>
      se_channel_id m' = ec_channel_id demo_channels u \<and>
      ec_extranonce_prefix demo_channels u @ se_extranonce m' =
        ec_extranonce_prefix demo_channels (5, [8, 0, 0]) @ se_extranonce (demo_tp_share 5)"
    using aggregated_share_extranonce [OF demo_channels_ok start opened run _ _ _ share] chan by simp
  then have "\<exists>u m' tlv. upstream_extended_channel (tp_data ?mid) = Some u \<and>
      to_upstream ?sent = to_upstream ?mid @ [MiningFrame (SubmitExtended m') tlv] \<and>
      ec_extranonce_prefix demo_channels u @ se_extranonce m' =
        ec_extranonce_prefix demo_channels (5, [8, 0, 0]) @ [1, 2, 3, 4]"
    unfolding \<open>se_extranonce (demo_tp_share 5) = [1, 2, 3, 4]\<close> by blast
  with S0 chan share show ?thesis by blast
qed

text \<open>
  After the upstream closes the channel of the aggregated mode, the next \<open>UpdateChannel\<close> of the
  Sv1 server, which a vardiff pass or a leaving miner sends, panics in the channel manager.
\<close>

theorem update_after_close_panics:
  assumes "tp_mode (tp_data S) = Aggregated"
  shows "\<exists>p. handle_sv1_request L (UpdateChan m) tlvs (handle_upstream_close_channel c S) =
    (Panic p, handle_upstream_close_channel c S)"
  using assms by (simp add: on_update_channel_def handle_upstream_close_channel_def)

theorem update_after_close_panics_witness:
  "\<exists>p. handle_sv1_request demo_channels (UpdateChan \<lparr> uc_channel_id = 0, uc_nominal_hash_rate = 1,
        uc_maximum_target = 1 \<rparr>) None (handle_upstream_close_channel 1 demo_tp_manager) =
      (Panic p, handle_upstream_close_channel 1 demo_tp_manager)"
  by (rule update_after_close_panics) (simp add: demo_tp_manager_def tp_channel_data_new_def)

text \<open>
  C27. Two miners that ask for a channel before the upstream has answered are both sent upstream in
  aggregated mode, and the second answer replaces the upstream channel: a share of the first
  miner is then forwarded on the second channel with an extranonce that the upstream
  does not read as the one mined with.
\<close>

theorem second_open_misroutes_shares:
  fixes L :: "('c, 'f, 'b, 'tlv, 'x, 'tip) chan_lib"
  assumes ok: "chan_lib_ok L upstream" and mode: "tp_mode (tp_data S0) = Aggregated"
    "upstream_extended_channel (tp_data S0) = None"
    and req: "handle_sv1_request L (OpenExtended a) None S0 = (Ok (), S1)"
      "handle_sv1_request L (OpenExtended b) None S1 = (Ok (), S2)"
    and succ: "handle_open_extended_mining_channel_success L m1 S2 = (Ok (), S3)"
      "handle_open_extended_mining_channel_success L m2 S3 = (Ok (), S4)"
    and diff: "os_channel_id m1 \<noteq> os_channel_id m2"
      "length (os_extranonce_prefix m1) = length (os_extranonce_prefix m2)"
      "os_extranonce_prefix m1 \<noteq> os_extranonce_prefix m2"
    and share: "se_channel_id m = os_channel_id m1" "get_chan S4 (os_channel_id m1) = Some x"
      "adjust_share L m S4 = (Ok m', S5)"
  shows "(\<exists>a' b'. to_upstream S2 = to_upstream S0 @
        [MiningFrame (OpenExtended a') None, MiningFrame (OpenExtended b') None]) \<and>
    se_channel_id m' = os_channel_id m2 \<and>
    os_extranonce_prefix m2 @ se_extranonce m' \<noteq> ec_extranonce_prefix L x @ se_extranonce m"
proof -
  from req mode have sent: "\<exists>a' b'. to_upstream S2 = to_upstream S0 @
        [MiningFrame (OpenExtended a') None, MiningFrame (OpenExtended b') None]"
    and mode2: "tp_mode (tp_data S2) = Aggregated"
    by (auto simp: on_open_extended_def request_channel_def send_upstream_def send_frame_upstream_def Let_def
        split: option.splits if_splits)
  from open_success_facts [OF ok mode2 succ(1)] obtain x1 where
      mode3: "tp_mode (tp_data S3) = Aggregated"
      and x1: "extended_channels (tp_data S3) = hm_insert (os_channel_id m1) x1 (extended_channels (tp_data S2))"
        "take (length (os_extranonce_prefix m1)) (ec_extranonce_prefix L x1) = os_extranonce_prefix m1" by blast
  from open_success_facts [OF ok mode3 succ(2)] obtain u x2 where
      u: "tp_mode (tp_data S4) = Aggregated" "upstream_extended_channel (tp_data S4) = Some u"
        "ec_channel_id L u = os_channel_id m2"
      and x2: "extended_channels (tp_data S4) = hm_insert (os_channel_id m2) x2 (extended_channels (tp_data S3))" by blast
  have "x = x1" using share(2) x1(1) x2 diff(1) by simp
  then obtain rest where rest: "ec_extranonce_prefix L x = os_extranonce_prefix m1 @ rest"
    using x1(2) append_take_drop_id [of "length (os_extranonce_prefix m1)" "ec_extranonce_prefix L x1"] by metis
  have "os_extranonce_prefix m2 @ se_extranonce m' \<noteq> ec_extranonce_prefix L x @ se_extranonce m"
    unfolding rest using diff(2,3) by (auto simp: append_eq_append_conv)
  moreover have "se_channel_id m' = os_channel_id m2"
    using share(3) u by (auto simp: adjust_share_def and_then_Ok split: option.splits)
  ultimately show ?thesis using sent by blast
qed

theorem second_open_misroutes_shares_witness:
  "\<exists>S4 x m' S5. get_chan S4 5 = Some x \<and>
     adjust_share demo_channels (demo_tp_share 5) S4 = (Ok m', S5) \<and> se_channel_id m' = 6 \<and>
     [9, 0] @ se_extranonce m' \<noteq> ec_extranonce_prefix demo_channels x @ [1, 2, 3, 4]"
proof -
  let ?S1 = "snd (handle_sv1_request demo_channels (OpenExtended (demo_tp_open 1)) None demo_tp_manager)"
  let ?S2 = "snd (handle_sv1_request demo_channels (OpenExtended (demo_tp_open 2)) None ?S1)"
  let ?S3 = "snd (handle_open_extended_mining_channel_success demo_channels (demo_opened_channel 1 5 8) ?S2)"
  let ?S4 = "snd (handle_open_extended_mining_channel_success demo_channels (demo_opened_channel 2 6 9) ?S3)"
  have mode: "tp_mode (tp_data demo_tp_manager) = Aggregated" "upstream_extended_channel (tp_data demo_tp_manager) = None"
    by (simp_all add: demo_tp_manager_simps)
  have req: "handle_sv1_request demo_channels (OpenExtended (demo_tp_open 1)) None demo_tp_manager = (Ok (), ?S1)"
      "handle_sv1_request demo_channels (OpenExtended (demo_tp_open 2)) None ?S1 = (Ok (), ?S2)"
    by (simp_all add: demo_tp_manager_simps)
  have succ: "handle_open_extended_mining_channel_success demo_channels (demo_opened_channel 1 5 8) ?S2 = (Ok (), ?S3)"
      "handle_open_extended_mining_channel_success demo_channels (demo_opened_channel 2 6 9) ?S3 = (Ok (), ?S4)"
    by (simp_all add: demo_tp_manager_simps)
  have ids: "os_channel_id (demo_opened_channel r c b) = c" "os_extranonce_prefix (demo_opened_channel r c b) = [b, 0]"
      "se_channel_id (demo_tp_share c) = c" "se_extranonce (demo_tp_share c) = [1, 2, 3, 4]" for r c b
    by (simp_all add: demo_opened_channel_def demo_tp_share_def)
  obtain x where x: "get_chan ?S4 5 = Some x" by (simp add: demo_tp_manager_simps)
  obtain m' S5 where m': "adjust_share demo_channels (demo_tp_share 5) ?S4 = (Ok m', S5)"
    by (simp add: demo_tp_manager_simps)
  have "se_channel_id m' = 6 \<and> [9, 0] @ se_extranonce m' \<noteq> ec_extranonce_prefix demo_channels x @ [1, 2, 3, 4]"
    using second_open_misroutes_shares [OF demo_channels_ok mode req succ _ _ _ _ _ m'] x by (simp add: ids)
  with x m' show ?thesis by blast
qed

end
