(* ===== verification/Message_Type.thy ===== *)
theory Message_Type
  imports Prelude
begin

text \<open>
  The classification of Sv2 frames by protocol (\<open>stratum-apps\<close>,
  \<open>utils/protocol_message_type.rs\<close>). The numeric values of the message types are constants
  of the protocol crates; a function from their names to bytes, and the extension type of the
  negotiation extension, are arguments here.
\<close>

unbundle bit_operations_syntax

datatype message_const =
    MESSAGE_TYPE_SETUP_CONNECTION
  | MESSAGE_TYPE_SETUP_CONNECTION_SUCCESS
  | MESSAGE_TYPE_SETUP_CONNECTION_ERROR
  | MESSAGE_TYPE_CHANNEL_ENDPOINT_CHANGED
  | MESSAGE_TYPE_RECONNECT
  | MESSAGE_TYPE_OPEN_STANDARD_MINING_CHANNEL
  | MESSAGE_TYPE_OPEN_STANDARD_MINING_CHANNEL_SUCCESS
  | MESSAGE_TYPE_OPEN_MINING_CHANNEL_ERROR
  | MESSAGE_TYPE_OPEN_EXTENDED_MINING_CHANNEL
  | MESSAGE_TYPE_OPEN_EXTENDED_MINING_CHANNEL_SUCCESS
  | MESSAGE_TYPE_NEW_MINING_JOB
  | MESSAGE_TYPE_UPDATE_CHANNEL
  | MESSAGE_TYPE_UPDATE_CHANNEL_ERROR
  | MESSAGE_TYPE_CLOSE_CHANNEL
  | MESSAGE_TYPE_SET_EXTRANONCE_PREFIX
  | MESSAGE_TYPE_SUBMIT_SHARES_STANDARD
  | MESSAGE_TYPE_SUBMIT_SHARES_EXTENDED
  | MESSAGE_TYPE_SUBMIT_SHARES_SUCCESS
  | MESSAGE_TYPE_SUBMIT_SHARES_ERROR
  | MESSAGE_TYPE_NEW_EXTENDED_MINING_JOB
  | MESSAGE_TYPE_MINING_SET_NEW_PREV_HASH
  | MESSAGE_TYPE_SET_TARGET
  | MESSAGE_TYPE_SET_CUSTOM_MINING_JOB
  | MESSAGE_TYPE_SET_CUSTOM_MINING_JOB_SUCCESS
  | MESSAGE_TYPE_SET_CUSTOM_MINING_JOB_ERROR
  | MESSAGE_TYPE_SET_GROUP_CHANNEL
  | MESSAGE_TYPE_ALLOCATE_MINING_JOB_TOKEN
  | MESSAGE_TYPE_ALLOCATE_MINING_JOB_TOKEN_SUCCESS
  | MESSAGE_TYPE_PROVIDE_MISSING_TRANSACTIONS
  | MESSAGE_TYPE_PROVIDE_MISSING_TRANSACTIONS_SUCCESS
  | MESSAGE_TYPE_DECLARE_MINING_JOB
  | MESSAGE_TYPE_DECLARE_MINING_JOB_SUCCESS
  | MESSAGE_TYPE_DECLARE_MINING_JOB_ERROR
  | MESSAGE_TYPE_PUSH_SOLUTION
  | MESSAGE_TYPE_COINBASE_OUTPUT_CONSTRAINTS
  | MESSAGE_TYPE_NEW_TEMPLATE
  | MESSAGE_TYPE_SET_NEW_PREV_HASH
  | MESSAGE_TYPE_REQUEST_TRANSACTION_DATA
  | MESSAGE_TYPE_REQUEST_TRANSACTION_DATA_SUCCESS
  | MESSAGE_TYPE_REQUEST_TRANSACTION_DATA_ERROR
  | MESSAGE_TYPE_SUBMIT_SOLUTION
  | MESSAGE_TYPE_REQUEST_EXTENSIONS
  | MESSAGE_TYPE_REQUEST_EXTENSIONS_ERROR
  | MESSAGE_TYPE_REQUEST_EXTENSIONS_SUCCESS

text \<open>
  A frame with the extension and message type of its header, and the message that asks for
  extensions, which the pool and the job declarator client both answer.
\<close>

record frame =
  fr_header :: "(u16 \<times> u8) option"
  fr_payload :: bytes

record request_extensions =
  rx_request_id :: u16
  rx_requested :: "u16 list"

type_synonym message_values = "message_const \<Rightarrow> u8"

definition common_consts :: "message_const list" where
  "common_consts =
     [MESSAGE_TYPE_SETUP_CONNECTION, MESSAGE_TYPE_SETUP_CONNECTION_SUCCESS,
      MESSAGE_TYPE_SETUP_CONNECTION_ERROR, MESSAGE_TYPE_CHANNEL_ENDPOINT_CHANGED,
      MESSAGE_TYPE_RECONNECT]"

definition mining_consts :: "message_const list" where
  "mining_consts =
     [MESSAGE_TYPE_OPEN_STANDARD_MINING_CHANNEL, MESSAGE_TYPE_OPEN_STANDARD_MINING_CHANNEL_SUCCESS,
      MESSAGE_TYPE_OPEN_MINING_CHANNEL_ERROR, MESSAGE_TYPE_OPEN_EXTENDED_MINING_CHANNEL,
      MESSAGE_TYPE_OPEN_EXTENDED_MINING_CHANNEL_SUCCESS, MESSAGE_TYPE_NEW_MINING_JOB,
      MESSAGE_TYPE_UPDATE_CHANNEL, MESSAGE_TYPE_UPDATE_CHANNEL_ERROR, MESSAGE_TYPE_CLOSE_CHANNEL,
      MESSAGE_TYPE_SET_EXTRANONCE_PREFIX, MESSAGE_TYPE_SUBMIT_SHARES_STANDARD,
      MESSAGE_TYPE_SUBMIT_SHARES_EXTENDED, MESSAGE_TYPE_SUBMIT_SHARES_SUCCESS,
      MESSAGE_TYPE_SUBMIT_SHARES_ERROR, MESSAGE_TYPE_NEW_EXTENDED_MINING_JOB,
      MESSAGE_TYPE_MINING_SET_NEW_PREV_HASH, MESSAGE_TYPE_SET_TARGET,
      MESSAGE_TYPE_SET_CUSTOM_MINING_JOB, MESSAGE_TYPE_SET_CUSTOM_MINING_JOB_SUCCESS,
      MESSAGE_TYPE_SET_CUSTOM_MINING_JOB_ERROR, MESSAGE_TYPE_SET_GROUP_CHANNEL]"

definition job_declaration_consts :: "message_const list" where
  "job_declaration_consts =
     [MESSAGE_TYPE_ALLOCATE_MINING_JOB_TOKEN, MESSAGE_TYPE_ALLOCATE_MINING_JOB_TOKEN_SUCCESS,
      MESSAGE_TYPE_PROVIDE_MISSING_TRANSACTIONS, MESSAGE_TYPE_PROVIDE_MISSING_TRANSACTIONS_SUCCESS,
      MESSAGE_TYPE_DECLARE_MINING_JOB, MESSAGE_TYPE_DECLARE_MINING_JOB_SUCCESS,
      MESSAGE_TYPE_DECLARE_MINING_JOB_ERROR, MESSAGE_TYPE_PUSH_SOLUTION]"

definition template_distribution_consts :: "message_const list" where
  "template_distribution_consts =
     [MESSAGE_TYPE_COINBASE_OUTPUT_CONSTRAINTS, MESSAGE_TYPE_NEW_TEMPLATE,
      MESSAGE_TYPE_SET_NEW_PREV_HASH, MESSAGE_TYPE_REQUEST_TRANSACTION_DATA,
      MESSAGE_TYPE_REQUEST_TRANSACTION_DATA_SUCCESS, MESSAGE_TYPE_REQUEST_TRANSACTION_DATA_ERROR,
      MESSAGE_TYPE_SUBMIT_SOLUTION]"

definition extensions_consts :: "message_const list" where
  "extensions_consts =
     [MESSAGE_TYPE_REQUEST_EXTENSIONS, MESSAGE_TYPE_REQUEST_EXTENSIONS_ERROR,
      MESSAGE_TYPE_REQUEST_EXTENSIONS_SUCCESS]"

text \<open>
  The task of a connection takes shutdown signals, frames of its peer and messages of its channel
  manager one at a time; a turn gives whether the loop goes on, the statuses it reports and the
  new state.
\<close>

datatype ('c, 'o) link_event =
    Signal "'c option"
  | From_Peer "frame option"
  | From_Manager "'o option"

fun run_loop :: "('e \<Rightarrow> 's \<Rightarrow> bool \<times> 'q list \<times> 's) \<Rightarrow> 'e list \<Rightarrow> 's \<Rightarrow> bool \<times> 'q list \<times> 's" where
  "run_loop f [] s = (True, [], s)"
| "run_loop f (e # es) s =
     (case f e s of
        (True, q, s1) \<Rightarrow> (case run_loop f es s1 of (b, q', s2) \<Rightarrow> (b, q @ q', s2))
      | (False, q, s1) \<Rightarrow> (False, q, s1))"

section \<open>The classifiers\<close>

definition is_common_message :: "message_values \<Rightarrow> u16 \<Rightarrow> u8 \<Rightarrow> bool" where
  "is_common_message vals ext mt \<longleftrightarrow> ext = 0 \<and> mt \<in> vals ` set common_consts"

definition is_mining_message :: "message_values \<Rightarrow> u16 \<Rightarrow> u8 \<Rightarrow> bool" where
  "is_mining_message vals ext mt \<longleftrightarrow> ext = 0 \<and> (mt \<in> vals ` set mining_consts \<or> mt = 0x1e)"

definition is_job_declaration_message :: "message_values \<Rightarrow> u16 \<Rightarrow> u8 \<Rightarrow> bool" where
  "is_job_declaration_message vals ext mt \<longleftrightarrow> ext = 0 \<and> mt \<in> vals ` set job_declaration_consts"

definition is_template_distribution_message :: "message_values \<Rightarrow> u16 \<Rightarrow> u8 \<Rightarrow> bool" where
  "is_template_distribution_message vals ext mt \<longleftrightarrow>
     ext = 0 \<and> mt \<in> vals ` set template_distribution_consts"

definition is_extensions_message :: "message_values \<Rightarrow> u16 \<Rightarrow> u16 \<Rightarrow> u8 \<Rightarrow> bool" where
  "is_extensions_message vals negotiation ext mt \<longleftrightarrow>
     ext = negotiation \<and> mt \<in> vals ` set extensions_consts"

datatype message_type =
    Common_Message | Mining_Message | JobDeclaration_Message | TemplateDistribution_Message
  | Extensions_Message | Unknown_Message

definition CHANNEL_MSG_MASK :: u16 where
  "CHANNEL_MSG_MASK = 0x8000"

definition protocol_message_type :: "message_values \<Rightarrow> u16 \<Rightarrow> u16 \<Rightarrow> u8 \<Rightarrow> message_type" where
  "protocol_message_type vals negotiation extension_type mt =
     (let ext = extension_type AND NOT CHANNEL_MSG_MASK in
      if is_common_message vals ext mt then Common_Message
      else if is_mining_message vals ext mt then Mining_Message
      else if is_job_declaration_message vals ext mt then JobDeclaration_Message
      else if is_template_distribution_message vals ext mt then TemplateDistribution_Message
      else if is_extensions_message vals negotiation ext mt then Extensions_Message
      else Unknown_Message)"

section \<open>What the classification means\<close>

text \<open>
  The protocol that each constant belongs to, by the crate that declares it, written out message by
  message: the reference for the classification, which does not use the lists of the classifiers.
\<close>

primrec protocol_of :: "message_const \<Rightarrow> message_type" where
  "protocol_of MESSAGE_TYPE_SETUP_CONNECTION = Common_Message"
| "protocol_of MESSAGE_TYPE_SETUP_CONNECTION_SUCCESS = Common_Message"
| "protocol_of MESSAGE_TYPE_SETUP_CONNECTION_ERROR = Common_Message"
| "protocol_of MESSAGE_TYPE_CHANNEL_ENDPOINT_CHANGED = Common_Message"
| "protocol_of MESSAGE_TYPE_RECONNECT = Common_Message"
| "protocol_of MESSAGE_TYPE_OPEN_STANDARD_MINING_CHANNEL = Mining_Message"
| "protocol_of MESSAGE_TYPE_OPEN_STANDARD_MINING_CHANNEL_SUCCESS = Mining_Message"
| "protocol_of MESSAGE_TYPE_OPEN_MINING_CHANNEL_ERROR = Mining_Message"
| "protocol_of MESSAGE_TYPE_OPEN_EXTENDED_MINING_CHANNEL = Mining_Message"
| "protocol_of MESSAGE_TYPE_OPEN_EXTENDED_MINING_CHANNEL_SUCCESS = Mining_Message"
| "protocol_of MESSAGE_TYPE_NEW_MINING_JOB = Mining_Message"
| "protocol_of MESSAGE_TYPE_UPDATE_CHANNEL = Mining_Message"
| "protocol_of MESSAGE_TYPE_UPDATE_CHANNEL_ERROR = Mining_Message"
| "protocol_of MESSAGE_TYPE_CLOSE_CHANNEL = Mining_Message"
| "protocol_of MESSAGE_TYPE_SET_EXTRANONCE_PREFIX = Mining_Message"
| "protocol_of MESSAGE_TYPE_SUBMIT_SHARES_STANDARD = Mining_Message"
| "protocol_of MESSAGE_TYPE_SUBMIT_SHARES_EXTENDED = Mining_Message"
| "protocol_of MESSAGE_TYPE_SUBMIT_SHARES_SUCCESS = Mining_Message"
| "protocol_of MESSAGE_TYPE_SUBMIT_SHARES_ERROR = Mining_Message"
| "protocol_of MESSAGE_TYPE_NEW_EXTENDED_MINING_JOB = Mining_Message"
| "protocol_of MESSAGE_TYPE_MINING_SET_NEW_PREV_HASH = Mining_Message"
| "protocol_of MESSAGE_TYPE_SET_TARGET = Mining_Message"
| "protocol_of MESSAGE_TYPE_SET_CUSTOM_MINING_JOB = Mining_Message"
| "protocol_of MESSAGE_TYPE_SET_CUSTOM_MINING_JOB_SUCCESS = Mining_Message"
| "protocol_of MESSAGE_TYPE_SET_CUSTOM_MINING_JOB_ERROR = Mining_Message"
| "protocol_of MESSAGE_TYPE_SET_GROUP_CHANNEL = Mining_Message"
| "protocol_of MESSAGE_TYPE_ALLOCATE_MINING_JOB_TOKEN = JobDeclaration_Message"
| "protocol_of MESSAGE_TYPE_ALLOCATE_MINING_JOB_TOKEN_SUCCESS = JobDeclaration_Message"
| "protocol_of MESSAGE_TYPE_PROVIDE_MISSING_TRANSACTIONS = JobDeclaration_Message"
| "protocol_of MESSAGE_TYPE_PROVIDE_MISSING_TRANSACTIONS_SUCCESS = JobDeclaration_Message"
| "protocol_of MESSAGE_TYPE_DECLARE_MINING_JOB = JobDeclaration_Message"
| "protocol_of MESSAGE_TYPE_DECLARE_MINING_JOB_SUCCESS = JobDeclaration_Message"
| "protocol_of MESSAGE_TYPE_DECLARE_MINING_JOB_ERROR = JobDeclaration_Message"
| "protocol_of MESSAGE_TYPE_PUSH_SOLUTION = JobDeclaration_Message"
| "protocol_of MESSAGE_TYPE_COINBASE_OUTPUT_CONSTRAINTS = TemplateDistribution_Message"
| "protocol_of MESSAGE_TYPE_NEW_TEMPLATE = TemplateDistribution_Message"
| "protocol_of MESSAGE_TYPE_SET_NEW_PREV_HASH = TemplateDistribution_Message"
| "protocol_of MESSAGE_TYPE_REQUEST_TRANSACTION_DATA = TemplateDistribution_Message"
| "protocol_of MESSAGE_TYPE_REQUEST_TRANSACTION_DATA_SUCCESS = TemplateDistribution_Message"
| "protocol_of MESSAGE_TYPE_REQUEST_TRANSACTION_DATA_ERROR = TemplateDistribution_Message"
| "protocol_of MESSAGE_TYPE_SUBMIT_SOLUTION = TemplateDistribution_Message"
| "protocol_of MESSAGE_TYPE_REQUEST_EXTENSIONS = Extensions_Message"
| "protocol_of MESSAGE_TYPE_REQUEST_EXTENSIONS_ERROR = Extensions_Message"
| "protocol_of MESSAGE_TYPE_REQUEST_EXTENSIONS_SUCCESS = Extensions_Message"

text \<open>
  The values documented by the protocol: within extension type 0 no two message types share
  a value, none is the reserved 0x1e, and the negotiation extension is another extension,
  with the channel bit clear.
\<close>

definition protocol_values :: "message_values \<Rightarrow> u16 \<Rightarrow> bool" where
  "protocol_values vals negotiation \<longleftrightarrow>
     distinct (0x1e # map vals (common_consts @ mining_consts @ job_declaration_consts @
       template_distribution_consts)) \<and>
     negotiation \<noteq> 0 \<and> negotiation AND NOT CHANNEL_MSG_MASK = negotiation"

definition extension_of :: "u16 \<Rightarrow> message_const \<Rightarrow> u16" where
  "extension_of negotiation c = (if protocol_of c = Extensions_Message then negotiation else 0)"

lemma mask_channel_bit: "(ext OR CHANNEL_MSG_MASK) AND NOT CHANNEL_MSG_MASK = ext AND NOT CHANNEL_MSG_MASK"
  for ext :: u16
  by (intro bit_word_eqI) (auto simp: bit_simps)

lemma channel_bit_ignored:
  "protocol_message_type vals negotiation (ext OR CHANNEL_MSG_MASK) mt =
   protocol_message_type vals negotiation ext mt"
  by (simp only: protocol_message_type_def mask_channel_bit)

lemma consts_protocol:
  "c \<in> set common_consts \<longleftrightarrow> protocol_of c = Common_Message"
  "c \<in> set mining_consts \<longleftrightarrow> protocol_of c = Mining_Message"
  "c \<in> set job_declaration_consts \<longleftrightarrow> protocol_of c = JobDeclaration_Message"
  "c \<in> set template_distribution_consts \<longleftrightarrow> protocol_of c = TemplateDistribution_Message"
  "c \<in> set extensions_consts \<longleftrightarrow> protocol_of c = Extensions_Message"
  by (cases c; simp add: common_consts_def mining_consts_def job_declaration_consts_def
      template_distribution_consts_def extensions_consts_def)+

lemma protocol_known: "protocol_of c \<noteq> Unknown_Message"
  by (cases c) simp_all

lemma protocol_message_type_const:
  assumes "protocol_values vals negotiation"
  shows "protocol_message_type vals negotiation (extension_of negotiation c) (vals c) = protocol_of c"
proof (cases "protocol_of c = Extensions_Message")
  case True
  then have "c \<in> set extensions_consts" by (simp add: consts_protocol)
  then show ?thesis
    using assms True
    by (simp add: protocol_message_type_def extension_of_def protocol_values_def is_common_message_def
        is_mining_message_def is_job_declaration_message_def is_template_distribution_message_def
        is_extensions_message_def)
next
  case False
  let ?all = "common_consts @ mining_consts @ job_declaration_consts @ template_distribution_consts"
  have c: "c \<in> set ?all"
    using False unfolding set_append Un_iff consts_protocol by (cases "protocol_of c") (auto simp: protocol_known)
  have inj: "inj_on vals (set ?all)" and res: "(0x1e :: u8) \<notin> vals ` set ?all"
    using assms unfolding protocol_values_def distinct.simps distinct_map set_map by blast+
  have "vals c \<in> vals ` A \<longleftrightarrow> c \<in> A" if "A \<subseteq> set ?all" for A
    using inj c that by (rule inj_on_image_mem_iff)
  then have mem: "vals c \<in> vals ` set common_consts \<longleftrightarrow> protocol_of c = Common_Message"
      "vals c \<in> vals ` set mining_consts \<longleftrightarrow> protocol_of c = Mining_Message"
      "vals c \<in> vals ` set job_declaration_consts \<longleftrightarrow> protocol_of c = JobDeclaration_Message"
      "vals c \<in> vals ` set template_distribution_consts \<longleftrightarrow> protocol_of c = TemplateDistribution_Message"
    unfolding consts_protocol [symmetric] by (simp_all add: le_supI1 le_supI2)
  have "vals c \<noteq> 0x1e"
    using res c by auto
  then show ?thesis
    using False mem protocol_known [of c]
    by (cases "protocol_of c") (simp_all add: protocol_message_type_def extension_of_def is_common_message_def
        is_mining_message_def is_job_declaration_message_def is_template_distribution_message_def)
qed

section \<open>The values of the protocol crates\<close>

text \<open>The values of the Sv2 specification, as an example of the hypothesis.\<close>

fun sv2_values :: message_values where
  "sv2_values MESSAGE_TYPE_SETUP_CONNECTION = 0x00"
| "sv2_values MESSAGE_TYPE_SETUP_CONNECTION_SUCCESS = 0x01"
| "sv2_values MESSAGE_TYPE_SETUP_CONNECTION_ERROR = 0x02"
| "sv2_values MESSAGE_TYPE_CHANNEL_ENDPOINT_CHANGED = 0x03"
| "sv2_values MESSAGE_TYPE_RECONNECT = 0x04"
| "sv2_values MESSAGE_TYPE_OPEN_STANDARD_MINING_CHANNEL = 0x10"
| "sv2_values MESSAGE_TYPE_OPEN_STANDARD_MINING_CHANNEL_SUCCESS = 0x11"
| "sv2_values MESSAGE_TYPE_OPEN_MINING_CHANNEL_ERROR = 0x12"
| "sv2_values MESSAGE_TYPE_OPEN_EXTENDED_MINING_CHANNEL = 0x13"
| "sv2_values MESSAGE_TYPE_OPEN_EXTENDED_MINING_CHANNEL_SUCCESS = 0x14"
| "sv2_values MESSAGE_TYPE_NEW_MINING_JOB = 0x15"
| "sv2_values MESSAGE_TYPE_UPDATE_CHANNEL = 0x16"
| "sv2_values MESSAGE_TYPE_UPDATE_CHANNEL_ERROR = 0x17"
| "sv2_values MESSAGE_TYPE_CLOSE_CHANNEL = 0x18"
| "sv2_values MESSAGE_TYPE_SET_EXTRANONCE_PREFIX = 0x19"
| "sv2_values MESSAGE_TYPE_SUBMIT_SHARES_STANDARD = 0x1a"
| "sv2_values MESSAGE_TYPE_SUBMIT_SHARES_EXTENDED = 0x1b"
| "sv2_values MESSAGE_TYPE_SUBMIT_SHARES_SUCCESS = 0x1c"
| "sv2_values MESSAGE_TYPE_SUBMIT_SHARES_ERROR = 0x1d"
| "sv2_values MESSAGE_TYPE_NEW_EXTENDED_MINING_JOB = 0x1f"
| "sv2_values MESSAGE_TYPE_MINING_SET_NEW_PREV_HASH = 0x20"
| "sv2_values MESSAGE_TYPE_SET_TARGET = 0x21"
| "sv2_values MESSAGE_TYPE_SET_CUSTOM_MINING_JOB = 0x22"
| "sv2_values MESSAGE_TYPE_SET_CUSTOM_MINING_JOB_SUCCESS = 0x23"
| "sv2_values MESSAGE_TYPE_SET_CUSTOM_MINING_JOB_ERROR = 0x24"
| "sv2_values MESSAGE_TYPE_SET_GROUP_CHANNEL = 0x25"
| "sv2_values MESSAGE_TYPE_ALLOCATE_MINING_JOB_TOKEN = 0x50"
| "sv2_values MESSAGE_TYPE_ALLOCATE_MINING_JOB_TOKEN_SUCCESS = 0x51"
| "sv2_values MESSAGE_TYPE_PROVIDE_MISSING_TRANSACTIONS = 0x55"
| "sv2_values MESSAGE_TYPE_PROVIDE_MISSING_TRANSACTIONS_SUCCESS = 0x56"
| "sv2_values MESSAGE_TYPE_DECLARE_MINING_JOB = 0x57"
| "sv2_values MESSAGE_TYPE_DECLARE_MINING_JOB_SUCCESS = 0x58"
| "sv2_values MESSAGE_TYPE_DECLARE_MINING_JOB_ERROR = 0x59"
| "sv2_values MESSAGE_TYPE_PUSH_SOLUTION = 0x60"
| "sv2_values MESSAGE_TYPE_COINBASE_OUTPUT_CONSTRAINTS = 0x70"
| "sv2_values MESSAGE_TYPE_NEW_TEMPLATE = 0x71"
| "sv2_values MESSAGE_TYPE_SET_NEW_PREV_HASH = 0x72"
| "sv2_values MESSAGE_TYPE_REQUEST_TRANSACTION_DATA = 0x73"
| "sv2_values MESSAGE_TYPE_REQUEST_TRANSACTION_DATA_SUCCESS = 0x74"
| "sv2_values MESSAGE_TYPE_REQUEST_TRANSACTION_DATA_ERROR = 0x75"
| "sv2_values MESSAGE_TYPE_SUBMIT_SOLUTION = 0x76"
| "sv2_values MESSAGE_TYPE_REQUEST_EXTENSIONS = 0x00"
| "sv2_values MESSAGE_TYPE_REQUEST_EXTENSIONS_SUCCESS = 0x01"
| "sv2_values MESSAGE_TYPE_REQUEST_EXTENSIONS_ERROR = 0x02"

lemma sv2_protocol_values: "protocol_values sv2_values 1"
  by (simp add: protocol_values_def common_consts_def mining_consts_def job_declaration_consts_def
      template_distribution_consts_def CHANNEL_MSG_MASK_def)

text \<open>
  C40. Every message type of the protocols is classified as a message of the protocol that
  declares it, when it arrives with that protocol's extension type, whether or not the channel
  bit of the extension type is set: no classifier shadows another one, and no message is in the
  list of another protocol.
\<close>

theorem protocol_message_type_exact:
  assumes "protocol_values vals negotiation"
    and "ext = extension_of negotiation c \<or> ext = extension_of negotiation c OR CHANNEL_MSG_MASK"
  shows "protocol_message_type vals negotiation ext (vals c) = protocol_of c"
  using assms(2) protocol_message_type_const [OF assms(1)] channel_bit_ignored by auto

theorem protocol_message_type_exact_witness:
  "protocol_message_type sv2_values 1 0x8000 0x1a = Mining_Message"
  using protocol_message_type_exact
    [where ext = "0x8000" and c = MESSAGE_TYPE_SUBMIT_SHARES_STANDARD, OF sv2_protocol_values]
  by (simp add: extension_of_def CHANNEL_MSG_MASK_def)

end
