(* ===== verification/Tproxy_Upstream.thy ===== *)
theory Tproxy_Upstream
  imports Tproxy_Server Tproxy_Channels Message_Type
begin

text \<open>
  The connection of the translator to its upstream (\<open>sv2/upstream/\<close>), the statuses of its tasks
  (\<open>status.rs\<close>) and its main task (\<open>lib/mod.rs\<close>), which tries the configured upstreams in turn and
  falls back to the next one when a connection is lost. What the network does is a parameter; its
  clock is the number of connection attempts so far.
\<close>

section \<open>Messages\<close>

record tp_setup =
  ts_min_version :: u16
  ts_max_version :: u16
  ts_flags :: u32
  ts_endpoint_host :: bytes
  ts_endpoint_port :: u16
  ts_vendor :: bytes
  ts_hardware_version :: bytes
  ts_firmware :: bytes
  ts_device_id :: bytes

datatype tp_common =
    Common_SetupSuccess u16 u32
  | Common_SetupError u32 string
  | Common_EndpointChanged u32
  | Common_Reconnect bytes u16

text \<open>What is put into the outbound queue; \<open>'o\<close> is a frame of the channel manager.\<close>

datatype 'o tp_outgoing =
    Out_Setup tp_setup
  | Out_RequestExtensions u16 "u16 list"
  | Out_Frame 'o

text \<open>
  Conversions of the protocol crates: \<open>tw_str\<close> makes a string of at most 255 bytes, \<open>tw_seq\<close> a
  sequence of extensions; \<open>tw_noise\<close> and \<open>tw_closed\<close> are the payloads of the two errors that the
  code raises itself.
\<close>

record 'x tp_wire =
  tw_values :: message_values
  tw_negotiation :: u16
  tw_str :: "string \<Rightarrow> 'x + bytes"
  tw_seq :: "u16 list \<Rightarrow> u16 list option"
  tw_setup_error :: "tp_setup \<Rightarrow> 'x option"
  tw_extensions_error :: "u16 list \<Rightarrow> 'x option"
  tw_parse_common :: "u16 \<times> u8 \<Rightarrow> bytes \<Rightarrow> 'x tproxy_error + tp_common"
  tw_noise :: 'x
  tw_closed :: 'x

record 'o tp_link =
  tk_sent :: "'o tp_outgoing list"
  tk_open :: bool
  tk_manager :: "frame list"
  tk_manager_open :: bool

definition tp_link_new :: "'o tp_link" where
  "tp_link_new = \<lparr>tk_sent = [], tk_open = True, tk_manager = [], tk_manager_open = True\<rparr>"

definition tp_send :: "'o tp_outgoing \<Rightarrow> 'o tp_link \<Rightarrow> ('x tproxy_error, unit) res \<times> 'o tp_link" where
  "tp_send m c =
     (if tk_open c then (Ok (), c\<lparr>tk_sent := tk_sent c @ [m]\<rparr>) else (Err ChannelErrorSender, c))"

section \<open>Status and shutdown\<close>

datatype 'x tp_state =
    Tp_DownstreamShutdown usize "'x tproxy_error"
  | Tp_Sv1ServerShutdown "'x tproxy_error"
  | Tp_ChannelManagerShutdown "'x tproxy_error"
  | Tp_UpstreamShutdown "'x tproxy_error"

datatype tp_status_sender = Tp_Downstream usize | Tp_Sv1Server | Tp_ChannelManager | Tp_Upstream

primrec tp_state_of :: "tp_status_sender \<Rightarrow> 'x tproxy_error \<Rightarrow> 'x tp_state" where
  "tp_state_of (Tp_Downstream i) e = Tp_DownstreamShutdown i e"
| "tp_state_of Tp_Sv1Server e = Tp_Sv1ServerShutdown e"
| "tp_state_of Tp_ChannelManager e = Tp_ChannelManagerShutdown e"
| "tp_state_of Tp_Upstream e = Tp_UpstreamShutdown e"

datatype tp_shutdown = Tp_ShutdownAll | Tp_ShutdownDownstream usize | Tp_UpstreamFallback

section \<open>The connection\<close>

definition tp_get_setup_connection_message ::
  "'x tp_wire \<Rightarrow> u16 \<Rightarrow> u16 \<Rightarrow> bool \<Rightarrow> ('x tproxy_error, tp_setup) res" where
  "tp_get_setup_connection_message W min_version max_version work_selection =
     (case tw_str W ''0.0.0.0'' of Inl e \<Rightarrow> Err (BinarySv2 e) | Inr host \<Rightarrow>
     (case tw_str W ''SRI'' of Inl e \<Rightarrow> Err (BinarySv2 e) | Inr vendor \<Rightarrow>
     (case tw_str W ''Translator Proxy'' of Inl e \<Rightarrow> Err (BinarySv2 e) | Inr hardware \<Rightarrow>
     (case tw_str W [] of Inl e \<Rightarrow> Err (BinarySv2 e) | Inr blank \<Rightarrow>
        Ok \<lparr>ts_min_version = min_version, ts_max_version = max_version,
            ts_flags = (if work_selection then 6 else 4), ts_endpoint_host = host, ts_endpoint_port = 50,
            ts_vendor = vendor, ts_hardware_version = hardware, ts_firmware = blank,
            ts_device_id = blank\<rparr>))))"

text \<open>Two of the four handlers are not written: \<open>todo!()\<close> panics.\<close>

definition tp_handle_common :: "tp_common \<Rightarrow> ('x tproxy_error, unit) res" where
  "tp_handle_common m =
     (case m of
        Common_SetupSuccess _ _ \<Rightarrow> Ok ()
      | Common_SetupError _ _ \<Rightarrow> Err Fallback
      | Common_EndpointChanged _ \<Rightarrow> Panic ''not yet implemented''
      | Common_Reconnect _ _ \<Rightarrow> Panic ''not yet implemented'')"

definition tp_request_extensions ::
  "'x tp_wire \<Rightarrow> u16 list \<Rightarrow> 'o tp_link \<Rightarrow> ('x tproxy_error, unit) res \<times> 'o tp_link" where
  "tp_request_extensions W required c =
     (if required = [] then (Ok (), c)
      else case tw_seq W required of
        None \<Rightarrow> (Panic ''called `Result::unwrap()` on an `Err` value'', c)
      | Some exts \<Rightarrow>
          (case tw_extensions_error W exts of
             Some e \<Rightarrow> (Err (ParserError e), c)
           | None \<Rightarrow> tp_send (Out_RequestExtensions 1 exts) c))"

definition tp_setup_connection ::
  "'x tp_wire \<Rightarrow> u16 list \<Rightarrow> frame option \<Rightarrow> 'o tp_link \<Rightarrow> ('x tproxy_error, unit) res \<times> 'o tp_link" where
  "tp_setup_connection W required answer c =
     and_then (tp_get_setup_connection_message W 2 2 False, c) (\<lambda>msg c.
     case tw_setup_error W msg of
       Some e \<Rightarrow> (Err (ParserError e), c)
     | None \<Rightarrow>
         and_then (tp_send (Out_Setup msg) c) (\<lambda>_ c.
         case answer of
           None \<Rightarrow> (Err (CodecNoise (tw_noise W)), c)
         | Some fr \<Rightarrow>
             (case fr_header fr of
                None \<Rightarrow> (Err (UnexpectedMessage 0 0), c)
              | Some h \<Rightarrow>
                  (case tw_parse_common W h (fr_payload fr) of
                     Inl e \<Rightarrow> (Err e, c)
                   | Inr m \<Rightarrow> and_then (tp_handle_common m, c) (\<lambda>_. tp_request_extensions W required)))))"

definition on_upstream_message ::
  "'x tp_wire \<Rightarrow> frame \<Rightarrow> 'o tp_link \<Rightarrow> ('x tproxy_error, unit) res \<times> 'o tp_link" where
  "on_upstream_message W fr c =
     (case fr_header fr of
        None \<Rightarrow> (Err (UnexpectedMessage 0 0), c)
      | Some (ext, mt) \<Rightarrow>
          (case protocol_message_type (tw_values W) (tw_negotiation W) ext mt of
             Common_Message \<Rightarrow>
               (case tw_parse_common W (ext, mt) (fr_payload fr) of
                  Inl e \<Rightarrow> (Err e, c)
                | Inr m \<Rightarrow> (tp_handle_common m, c))
           | Mining_Message \<Rightarrow>
               if tk_manager_open c then (Ok (), c\<lparr>tk_manager := tk_manager c @ [fr]\<rparr>)
               else (Err ChannelErrorSender, c)
           | Extensions_Message \<Rightarrow>
               if tk_manager_open c then (Ok (), c\<lparr>tk_manager := tk_manager c @ [fr]\<rparr>)
               else (Err ChannelErrorSender, c)
           | _ \<Rightarrow> (Err (UnexpectedMessage ext mt), c)))"

text \<open>
  A turn of the loop. An error of a message or of a send is reported and the loop goes on; a
  closed queue is reported and ends it; a panic ends the task without a status.
\<close>

definition upstream_reports ::
  "('x tproxy_error, unit) res \<times> 'o tp_link \<Rightarrow> bool \<times> 'x tp_state list \<times> 'o tp_link" where
  "upstream_reports m =
     (case m of
        (Ok _, c) \<Rightarrow> (True, [], c)
      | (Err e, c) \<Rightarrow> (True, [tp_state_of Tp_Upstream e], c)
      | (Panic p, c) \<Rightarrow> (False, [], c))"

definition upstream_task_turn ::
  "'x tp_wire \<Rightarrow> (tp_shutdown, 'o) link_event \<Rightarrow> 'o tp_link \<Rightarrow> bool \<times> 'x tp_state list \<times> 'o tp_link" where
  "upstream_task_turn W ev c =
     (case ev of
        Signal None \<Rightarrow> (False, [], c)
      | Signal (Some Tp_ShutdownAll) \<Rightarrow> (False, [], c)
      | Signal (Some Tp_UpstreamFallback) \<Rightarrow> (False, [], c)
      | Signal (Some (Tp_ShutdownDownstream i)) \<Rightarrow> (True, [], c)
      | From_Peer None \<Rightarrow> (False, [tp_state_of Tp_Upstream (ChannelErrorReceiver (tw_closed W))], c)
      | From_Peer (Some fr) \<Rightarrow> upstream_reports (on_upstream_message W fr c)
      | From_Manager None \<Rightarrow> (False, [tp_state_of Tp_Upstream (ChannelErrorReceiver (tw_closed W))], c)
      | From_Manager (Some m) \<Rightarrow> upstream_reports (tp_send (Out_Frame m) c))"

section \<open>The main task\<close>

record upstream_entry =
  ue_addr :: "string \<times> u16"
  ue_key :: bytes
  tried_or_flagged :: bool

text \<open>
  The outcome of an attempt to reach an upstream (\<open>Upstream::new\<close>: connection and encryption),
  given by its answer to the setup, and the outcome of starting the Sv1 server, which binds a
  socket.
\<close>

record 'x tp_network =
  tn_connect :: "nat \<Rightarrow> string \<times> u16 \<Rightarrow> bytes \<Rightarrow> 'x tproxy_error + frame option"
  tn_server :: "nat \<Rightarrow> 'x tproxy_error + unit"

definition try_initialize_upstream ::
  "'x tp_wire \<Rightarrow> 'x tp_network \<Rightarrow> u16 list \<Rightarrow> nat \<Rightarrow> upstream_entry \<Rightarrow> ('x tproxy_error, 'o tp_link) res" where
  "try_initialize_upstream W N required n u =
     (case tn_connect N n (ue_addr u) (ue_key u) of
        Inl e \<Rightarrow> Err e
      | Inr answer \<Rightarrow>
          (case tp_setup_connection W required answer tp_link_new of (r, c) \<Rightarrow> map_res (\<lambda>_. c) r))"

text \<open>
  The attempts for one upstream: the first that does not fail with an error, and the clock. A
  panic in the setup unwinds the main task.
\<close>

fun upstream_attempts ::
  "(nat \<Rightarrow> ('e, 'a) res) \<Rightarrow> nat \<Rightarrow> nat \<Rightarrow> ('e, 'a) res option \<times> nat" where
  "upstream_attempts f 0 n = (None, n)"
| "upstream_attempts f (Suc k) n =
     (case f n of
        Err e \<Rightarrow> upstream_attempts f k (Suc n)
      | r \<Rightarrow> (Some r, Suc n))"

definition TP_MAX_RETRIES :: nat where
  "TP_MAX_RETRIES = 3"

fun initialize_upstream ::
  "'x tp_wire \<Rightarrow> 'x tp_network \<Rightarrow> u16 list \<Rightarrow> nat \<Rightarrow> upstream_entry list \<Rightarrow>
     ('x tproxy_error, upstream_entry \<times> 'o tp_link) res \<times> upstream_entry list \<times> nat" where
  "initialize_upstream W N required n [] = (Err Shutdown, [], n)"
| "initialize_upstream W N required n (u # us) =
     (if tried_or_flagged u then
        (case initialize_upstream W N required n us of (r, us1, n1) \<Rightarrow> (r, u # us1, n1))
      else
        (case upstream_attempts (\<lambda>n. try_initialize_upstream W N required n u) TP_MAX_RETRIES n of
           (Some (Ok c), n1) \<Rightarrow>
             (case tn_server N n1 of
                Inl e \<Rightarrow> (Err e, u # us, n1)
              | Inr _ \<Rightarrow> (Ok (u, c), u\<lparr>tried_or_flagged := True\<rparr> # us, n1))
         | (Some (Err e), n1) \<Rightarrow> (Err e, u # us, n1)
         | (Some (Panic p), n1) \<Rightarrow> (Panic p, u # us, n1)
         | (None, n1) \<Rightarrow>
             (case initialize_upstream W N required n1 us of
                (r, us1, n2) \<Rightarrow> (r, u\<lparr>tried_or_flagged := True\<rparr> # us1, n2))))"

record ('msg, 'v, 'b, 'tlv, 'c, 'f) translator =
  tr_server :: "('msg, 'v, 'b, 'tlv) sv1_server"
  tr_manager :: "('c, 'f, 'b, 'tlv) tp_manager"
  tr_upstreams :: "upstream_entry list"
  tr_clock :: nat
  tr_broadcast :: "tp_shutdown list"
  tr_link :: "(upstream_entry \<times> ('b, 'tlv) upstream_frame tp_link) option"

text \<open>
  \<open>TranslatorSv2::start\<close> up to its loop: without an upstream the translator ends. The signals of
  the main task act on the other tasks: \<open>downstream_shutdown\<close> is what the Sv1 server does with
  the one for a connection.
\<close>

definition translator_connect ::
  "'x tp_wire \<Rightarrow> 'x tp_network \<Rightarrow> u16 list \<Rightarrow> ('msg, 'v, 'b, 'tlv, 'c, 'f) translator \<Rightarrow>
     ('x tproxy_error, unit) res \<times> ('msg, 'v, 'b, 'tlv, 'c, 'f) translator" where
  "translator_connect W N required T =
     (case initialize_upstream W N required (tr_clock T) (tr_upstreams T) of
        (r, us, n) \<Rightarrow>
          let T1 = T\<lparr>tr_upstreams := us, tr_clock := n\<rparr> in
          (map_res (\<lambda>_. ()) r, T1\<lparr>tr_link := (case r of Ok l \<Rightarrow> Some l | _ \<Rightarrow> None)\<rparr>))"

definition translator_start ::
  "'x tp_wire \<Rightarrow> 'x tp_network \<Rightarrow> u16 list \<Rightarrow> tp_config \<Rightarrow> ('c, 'f, 'b, 'tlv) tp_manager \<Rightarrow> upstream_entry list \<Rightarrow>
     bool \<times> ('msg, 'v, 'b, 'tlv, 'c, 'f) translator" where
  "translator_start W N required C M us =
     (case translator_connect W N required
       \<lparr>tr_server = sv1_server_new C, tr_manager = M,
        tr_upstreams = map (\<lambda>u. u\<lparr>tried_or_flagged := False\<rparr>) us, tr_clock = 0, tr_broadcast = [],
        tr_link = None\<rparr> of (r, T) \<Rightarrow> (is_ok r, T))"

text \<open>
  A lost upstream: after the signal the Sv1 server has dropped its connections and the channel
  manager its channels; then the next upstream is tried, and if there is none the translator
  ends.
\<close>

definition translator_fallback ::
  "'x tp_wire \<Rightarrow> 'x tp_network \<Rightarrow> u16 list \<Rightarrow> tp_config \<Rightarrow> ('msg, 'v, 'b, 'tlv, 'c, 'f) translator \<Rightarrow>
     bool \<times> ('msg, 'v, 'b, 'tlv, 'c, 'f) translator" where
  "translator_fallback W N required C T =
     (let T1 = T\<lparr>tr_broadcast := tr_broadcast T @ [Tp_UpstreamFallback], tr_link := None,
                tr_server := sv1_upstream_fallback C (tr_server T),
                tr_manager := (tr_manager T)\<lparr>tp_data := reset_for_upstream_reconnection (tp_data (tr_manager T))\<rparr>\<rparr> in
      case translator_connect W N required T1 of
        (Ok _, T2) \<Rightarrow> (True, T2)
      | (Err e, T2) \<Rightarrow> (False, T2\<lparr>tr_broadcast := tr_broadcast T2 @ [Tp_ShutdownAll]\<rparr>)
      | (Panic p, T2) \<Rightarrow> (False, T2))"

fun translator_on_status ::
  "'x tp_wire \<Rightarrow> 'x tp_network \<Rightarrow> u16 list \<Rightarrow> tp_config \<Rightarrow> 'x tp_state \<Rightarrow>
     ('msg, 'v, 'b, 'tlv, 'c, 'f) translator \<Rightarrow> bool \<times> ('msg, 'v, 'b, 'tlv, 'c, 'f) translator" where
  "translator_on_status W N required C (Tp_DownstreamShutdown i e) T =
     (True, T\<lparr>tr_broadcast := tr_broadcast T @ [Tp_ShutdownDownstream i]\<rparr>)"
| "translator_on_status W N required C (Tp_Sv1ServerShutdown e) T =
     (False, T\<lparr>tr_broadcast := tr_broadcast T @ [Tp_ShutdownAll]\<rparr>)"
| "translator_on_status W N required C (Tp_ChannelManagerShutdown e) T =
     (False, T\<lparr>tr_broadcast := tr_broadcast T @ [Tp_ShutdownAll]\<rparr>)"
| "translator_on_status W N required C (Tp_UpstreamShutdown e) T = translator_fallback W N required C T"

fun run_translator ::
  "'x tp_wire \<Rightarrow> 'x tp_network \<Rightarrow> u16 list \<Rightarrow> tp_config \<Rightarrow> 'x tp_state list \<Rightarrow>
     ('msg, 'v, 'b, 'tlv, 'c, 'f) translator \<Rightarrow> bool \<times> ('msg, 'v, 'b, 'tlv, 'c, 'f) translator" where
  "run_translator W N required C [] T = (True, T)"
| "run_translator W N required C (st # sts) T =
     (case translator_on_status W N required C st T of
        (True, T1) \<Rightarrow> run_translator W N required C sts T1
      | (False, T1) \<Rightarrow> (False, T1))"

end
