(* ===== verification/Tproxy_Fallback.thy ===== *)
theory Tproxy_Fallback
  imports Tproxy_Upstream
begin

text \<open>
  What the main task of the translator guarantees when upstreams are lost, and how messages of an
  upstream can make it fail.
\<close>

section \<open>Attempts\<close>

definition unflagged :: "upstream_entry list \<Rightarrow> nat" where
  "unflagged us = length (filter (\<lambda>u. \<not> tried_or_flagged u) us)"

lemma unflagged_simps [simp]:
  "unflagged [] = 0"
  "unflagged (u # us) = (if tried_or_flagged u then unflagged us else Suc (unflagged us))"
  "unflagged (map (\<lambda>u. u\<lparr>tried_or_flagged := False\<rparr>) us) = length us"
  by (simp_all add: unflagged_def filter_map o_def)

lemma attempts_clock: "upstream_attempts f k n = (r, n1) \<Longrightarrow> n \<le> n1 \<and> n1 \<le> n + k"
proof (induction k arbitrary: n)
  case (Suc k)
  then show ?case by (cases "f n") (auto dest: Suc.IH)
qed simp

lemma attempts_first: "f n = Ok a \<Longrightarrow> 0 < k \<Longrightarrow> upstream_attempts f k n = (Some (Ok a), Suc n)"
  by (cases k) simp_all

text \<open>Attempts are paid for by flags, unless the translator ends.\<close>

lemma initialize_upstream_cost:
  fixes r :: "('x tproxy_error, upstream_entry \<times> 'o tp_link) res"
  shows "initialize_upstream W N required n us = (r, us1, n1) \<Longrightarrow>
     n1 \<le> n + 3 * unflagged us \<and>
     (is_ok r \<longrightarrow> n1 + 3 * unflagged us1 \<le> n + 3 * unflagged us \<and> unflagged us1 < unflagged us)"
proof (induction us arbitrary: n r us1 n1)
  case (Cons u us)
  show ?case
  proof (cases "tried_or_flagged u")
    case True
    then show ?thesis using Cons.prems Cons.IH by (fastforce split: prod.splits)
  next
    case False
    obtain a :: "('x tproxy_error, 'o tp_link) res option" and m
      where a: "upstream_attempts (\<lambda>n. try_initialize_upstream W N required n u) TP_MAX_RETRIES n = (a, m)"
      by fastforce
    have m: "m \<le> n + 3" using attempts_clock [OF a] by (simp add: TP_MAX_RETRIES_def)
    show ?thesis
    proof (cases a)
      case None
      then obtain us2 where "initialize_upstream W N required m us = (r, us2, n1)"
          "us1 = u\<lparr>tried_or_flagged := True\<rparr> # us2"
        using Cons.prems a False by (auto split: prod.splits)
      then show ?thesis using Cons.IH [of m r us2 n1] m False by auto
    next
      case (Some x)
      then show ?thesis using Cons.prems a False m by (cases x) (auto split: sum.splits)
    qed
  qed
qed simp

lemma initialize_upstream_exhausted:
  "unflagged us = 0 \<Longrightarrow> initialize_upstream W N required n us = (Err Shutdown, us, n)"
  by (induction us) (auto split: if_splits)

definition translator_cost :: "('msg, 'v, 'b, 'tlv, 'c, 'f) translator \<Rightarrow> nat" where
  "translator_cost T = tr_clock T + 3 * unflagged (tr_upstreams T)"

lemma connect_upstream_cost:
  assumes "translator_connect W N required T = (r, T1)"
  shows "tr_clock T1 \<le> translator_cost T \<and>
    (is_ok r \<longrightarrow> translator_cost T1 \<le> translator_cost T \<and> unflagged (tr_upstreams T1) < unflagged (tr_upstreams T))"
  using assms initialize_upstream_cost [of W N required "tr_clock T" "tr_upstreams T"]
  by (fastforce simp: translator_connect_def translator_cost_def Let_def split: prod.splits)

lemma fallback_upstream_cost:
  assumes "translator_fallback W N required C T = (b, T1)"
  shows "tr_clock T1 \<le> translator_cost T \<and>
    (b \<longrightarrow> translator_cost T1 \<le> translator_cost T \<and> unflagged (tr_upstreams T1) < unflagged (tr_upstreams T))"
proof -
  let ?T = "T\<lparr>tr_broadcast := tr_broadcast T @ [Tp_UpstreamFallback], tr_link := None,
              tr_server := sv1_upstream_fallback C (tr_server T),
              tr_manager := (tr_manager T)\<lparr>tp_data := reset_for_upstream_reconnection (tp_data (tr_manager T))\<rparr>\<rparr>"
  obtain r T2 where c: "translator_connect W N required ?T = (r, T2)" by fastforce
  have "translator_cost ?T = translator_cost T" "tr_upstreams ?T = tr_upstreams T" by (simp_all add: translator_cost_def)
  with connect_upstream_cost [OF c] c assms show ?thesis
    by (cases r) (auto simp: translator_fallback_def Let_def)
qed

definition lost_upstreams :: "'x tp_state list \<Rightarrow> nat" where
  "lost_upstreams sts = length (filter (\<lambda>st. case st of Tp_UpstreamShutdown e \<Rightarrow> True | _ \<Rightarrow> False) sts)"

lemma status_cost:
  assumes "translator_on_status W N required C st T = (b, T1)"
  shows "tr_clock T1 \<le> translator_cost T \<and>
    (b \<longrightarrow> translator_cost T1 \<le> translator_cost T \<and>
       unflagged (tr_upstreams T1) + lost_upstreams [st] \<le> unflagged (tr_upstreams T))"
proof (cases st)
  case (Tp_UpstreamShutdown e)
  then show ?thesis using assms fallback_upstream_cost [of W N required C T b T1] by (auto simp: lost_upstreams_def)
qed (use assms in \<open>auto simp: lost_upstreams_def translator_cost_def\<close>)

lemma run_translator_cost:
  "run_translator W N required C sts T = (b, T1) \<Longrightarrow>
     tr_clock T1 \<le> translator_cost T \<and>
     (b \<longrightarrow> unflagged (tr_upstreams T1) + lost_upstreams sts \<le> unflagged (tr_upstreams T))"
proof (induction sts arbitrary: T)
  case Nil
  then show ?case by (auto simp: lost_upstreams_def translator_cost_def)
next
  case (Cons st sts)
  obtain b2 T2 where st: "translator_on_status W N required C st T = (b2, T2)" by fastforce
  note step = status_cost [OF st]
  show ?case
  proof (cases b2)
    case True
    then have "run_translator W N required C sts T2 = (b, T1)" using Cons.prems st by simp
    from Cons.IH [OF this] step True show ?thesis
      by (auto simp: lost_upstreams_def intro: le_trans)
  next
    case False
    then show ?thesis using Cons.prems st step by auto
  qed
qed

text \<open>
  C17. The translator and its upstreams. In its whole life the translator makes at most three
  attempts for each configured upstream. While it runs it has lost fewer upstreams than are
  configured, because every start and every fallback uses one up for good; when all are used up,
  the next lost upstream makes it shut all its tasks down without another attempt.
\<close>

theorem translator_uses_each_upstream_once:
  assumes "translator_start W N required C M us = (True, T0)"
    and "run_translator W N required C sts T0 = (b, T)"
  shows "tr_clock T \<le> 3 * length us \<and>
    (b \<longrightarrow> lost_upstreams sts < length us) \<and>
    (b \<and> Suc (lost_upstreams sts) = length us \<longrightarrow>
       (\<exists>T'. translator_on_status W N required C (Tp_UpstreamShutdown e) T = (False, T') \<and>
         tr_clock T' = tr_clock T \<and> tr_broadcast T' = tr_broadcast T @ [Tp_UpstreamFallback, Tp_ShutdownAll]))"
proof -
  let ?T = "\<lparr>tr_server = sv1_server_new C, tr_manager = M,
        tr_upstreams = map (\<lambda>u. u\<lparr>tried_or_flagged := False\<rparr>) us, tr_clock = 0, tr_broadcast = [], tr_link = None\<rparr>"
  obtain r where c: "translator_connect W N required ?T = (r, T0)" and r: "is_ok r"
    using assms(1) by (auto simp: translator_start_def split: prod.splits)
  from connect_upstream_cost [OF c] r
  have "translator_cost T0 \<le> 3 * length us" "unflagged (tr_upstreams T0) < length us"
    by (auto simp: translator_cost_def)
  then have clock: "tr_clock T \<le> 3 * length us" and lost: "b \<Longrightarrow> unflagged (tr_upstreams T) + lost_upstreams sts < length us"
    using run_translator_cost [OF assms(2)] by auto
  moreover have "\<exists>T'. translator_on_status W N required C (Tp_UpstreamShutdown e) T = (False, T') \<and>
      tr_clock T' = tr_clock T \<and> tr_broadcast T' = tr_broadcast T @ [Tp_UpstreamFallback, Tp_ShutdownAll]"
    if "b" "Suc (lost_upstreams sts) = length us"
  proof -
    have "unflagged (tr_upstreams T) = 0" using lost that by auto
    then show ?thesis
      by (simp add: translator_fallback_def translator_connect_def Let_def initialize_upstream_exhausted)
  qed
  ultimately show ?thesis by fastforce
qed

section \<open>Messages that make the translator fail\<close>

text \<open>
  A message to reconnect stops the translator's traffic. When the upstream sends a
  \<open>Reconnect\<close> or a \<open>ChannelEndpointChanged\<close>, the task of the connection panics and reports
  nothing: no fallback follows, the main task goes on, and none of the messages of the channel
  manager is sent any more.
\<close>

theorem reconnect_ends_upstream_task:
  assumes "fr_header fr = Some (ext, mt)"
    and "protocol_message_type (tw_values W) (tw_negotiation W) ext mt = Common_Message"
    and "tw_parse_common W (ext, mt) (fr_payload fr) = Inr m"
    and "m = Common_Reconnect host port \<or> m = Common_EndpointChanged cid"
  shows "run_loop (upstream_task_turn W) (From_Peer (Some fr) # evs) c = (False, [], c)"
  using assms by (auto simp: upstream_task_turn_def on_upstream_message_def tp_handle_common_def upstream_reports_def)

text \<open>
  C33. Two unsupported frames cost two upstreams. A frame of an unknown type is reported as a lost
  upstream, but the loop goes on and reports the next one too. The main task answers the first
  report with a connection to another upstream, and the second, which is about the old
  connection, with one more fallback: with one other upstream configured, the translator shuts
  down although that upstream has accepted the connection.
\<close>

theorem stale_report_abandons_upstream:
  fixes c :: "'o tp_link"
  assumes "\<forall>fr\<in>{fr1, fr2}. \<exists>ext mt. fr_header fr = Some (ext, mt) \<and>
      protocol_message_type (tw_values W) (tw_negotiation W) ext mt = Unknown_Message"
    and "tr_upstreams T = [u1, u2]" and "tried_or_flagged u1" and "\<not> tried_or_flagged u2"
    and "try_initialize_upstream W N required (tr_clock T) u2 = Ok l" and "tn_server N (Suc (tr_clock T)) = Inr ()"
  shows "\<exists>st1 st2 T1 T2.
    run_loop (upstream_task_turn W) [From_Peer (Some fr1), From_Peer (Some fr2)] c = (True, [st1, st2], c) \<and>
    translator_on_status W N required C st1 T = (True, T1) \<and> tr_link T1 = Some (u2, l) \<and>
    run_translator W N required C [st1, st2] T = (False, T2) \<and> tr_link T2 = None \<and>
    tr_broadcast T2 = tr_broadcast T @ [Tp_UpstreamFallback, Tp_UpstreamFallback, Tp_ShutdownAll]"
proof -
  obtain e1 e2 where turn: "\<And>c :: 'o tp_link. upstream_task_turn W (From_Peer (Some fr1)) c = (True, [Tp_UpstreamShutdown e1], c)"
      "\<And>c :: 'o tp_link. upstream_task_turn W (From_Peer (Some fr2)) c = (True, [Tp_UpstreamShutdown e2], c)"
    using assms(1) by (fastforce simp: upstream_task_turn_def on_upstream_message_def upstream_reports_def)
  have "upstream_attempts (\<lambda>n. try_initialize_upstream W N required n u2) TP_MAX_RETRIES (tr_clock T) =
      (Some (Ok l), Suc (tr_clock T))"
    by (rule attempts_first) (simp_all add: assms(5) TP_MAX_RETRIES_def)
  then have "initialize_upstream W N required (tr_clock T) [u1, u2] =
      (Ok (u2, l), [u1, u2\<lparr>tried_or_flagged := True\<rparr>], Suc (tr_clock T))"
    using assms(3,4,6) by simp
  then have first: "\<exists>T1. translator_on_status W N required C (Tp_UpstreamShutdown e1) T = (True, T1) \<and>
      tr_link T1 = Some (u2, l) \<and> tr_upstreams T1 = [u1, u2\<lparr>tried_or_flagged := True\<rparr>] \<and>
      tr_broadcast T1 = tr_broadcast T @ [Tp_UpstreamFallback]"
    by (simp add: translator_fallback_def translator_connect_def Let_def assms(2))
  then obtain T1 where T1: "translator_on_status W N required C (Tp_UpstreamShutdown e1) T = (True, T1)"
      "tr_link T1 = Some (u2, l)" "tr_upstreams T1 = [u1, u2\<lparr>tried_or_flagged := True\<rparr>]"
      "tr_broadcast T1 = tr_broadcast T @ [Tp_UpstreamFallback]"
    by blast
  have "unflagged (tr_upstreams T1) = 0" using T1(3) assms(3) by simp
  then have "\<exists>T2. translator_on_status W N required C (Tp_UpstreamShutdown e2) T1 = (False, T2) \<and>
      tr_link T2 = None \<and> tr_broadcast T2 = tr_broadcast T1 @ [Tp_UpstreamFallback, Tp_ShutdownAll]"
    by (simp add: translator_fallback_def translator_connect_def Let_def initialize_upstream_exhausted)
  then obtain T2 where T2: "translator_on_status W N required C (Tp_UpstreamShutdown e2) T1 = (False, T2)"
      "tr_link T2 = None" "tr_broadcast T2 = tr_broadcast T1 @ [Tp_UpstreamFallback, Tp_ShutdownAll]"
    by blast
  have "run_loop (upstream_task_turn W) [From_Peer (Some fr1), From_Peer (Some fr2)] c =
      (True, [Tp_UpstreamShutdown e1, Tp_UpstreamShutdown e2], c)"
    by (simp add: turn)
  then show ?thesis
    using T1(1,2,4) T2 by (intro exI [of _ "Tp_UpstreamShutdown e1"] exI [of _ "Tp_UpstreamShutdown e2"]
        exI [of _ T1] exI [of _ T2]) simp
qed

section \<open>An example\<close>

text \<open>
  Errors are numbers; a common message with an empty payload is a \<open>Reconnect\<close>, any other grants
  the setup. All upstreams can be reached and the Sv1 server always starts.
\<close>

definition tdemo_wire :: "nat tp_wire" where
  "tdemo_wire =
     \<lparr>tw_values = sv2_values, tw_negotiation = 1, tw_str = (\<lambda>s. Inr (map of_char s)), tw_seq = Some,
      tw_setup_error = (\<lambda>m. None), tw_extensions_error = (\<lambda>exts. None),
      tw_parse_common = (\<lambda>h bs. Inr (if bs = [] then Common_Reconnect [] 0 else Common_SetupSuccess 2 4)),
      tw_noise = 0, tw_closed = 1\<rparr>"

definition tdemo_network :: "nat tp_network" where
  "tdemo_network =
     \<lparr>tn_connect = (\<lambda>n addr key. Inr (Some \<lparr>fr_header = Some (0, 1), fr_payload = [1]\<rparr>)), tn_server = (\<lambda>n. Inr ())\<rparr>"

definition tdemo_entry :: "string \<Rightarrow> bool \<Rightarrow> upstream_entry" where
  "tdemo_entry host flag = \<lparr>ue_addr = (host, 1), ue_key = [], tried_or_flagged = flag\<rparr>"

definition tdemo_tp_config :: tp_config where
  "tdemo_tp_config =
     \<lparr>aggregate_channels = True, enable_vardiff = True, shares_per_minute = 1, min_individual_miner_hashrate = 1,
      config_user_identity = ''proxy'', downstream_extranonce2_size = 4\<rparr>"

definition tdemo_manager :: "(unit, unit, unit, unit) tp_manager" where
  "tdemo_manager =
     \<lparr>tp_data = tp_channel_data_new Aggregated, to_upstream = [], upstream_open = True, to_sv1_server = [],
      sv1_server_open = True, upstream_shutdowns = 0\<rparr>"

lemmas tdemo_defs = tdemo_wire_def tdemo_network_def tdemo_entry_def

lemma tdemo_attempt:
  "\<exists>l. try_initialize_upstream tdemo_wire tdemo_network [] n (tdemo_entry host flag) = Ok (l :: 'o tp_link)"
  by (simp add: tdemo_defs try_initialize_upstream_def tp_setup_connection_def tp_get_setup_connection_message_def
      tp_send_def tp_link_new_def tp_handle_common_def tp_request_extensions_def)

lemma tdemo_attempts:
  "\<exists>l :: 'o tp_link. upstream_attempts (\<lambda>n. try_initialize_upstream tdemo_wire tdemo_network [] n (tdemo_entry host flag))
     TP_MAX_RETRIES n = (Some (Ok l), Suc n)"
  using tdemo_attempt [of n host flag] attempts_first [of _ n _ TP_MAX_RETRIES]
  by (fastforce simp: TP_MAX_RETRIES_def)

definition tdemo_translator :: "(unit, unit, unit, unit, unit, unit) translator" where
  "tdemo_translator =
     \<lparr>tr_server = sv1_server_new tdemo_tp_config, tr_manager = tdemo_manager,
      tr_upstreams = [tdemo_entry ''a'' True, tdemo_entry ''b'' False], tr_clock = 1, tr_broadcast = [], tr_link = None\<rparr>"

theorem translator_uses_each_upstream_once_witness:
  "\<exists>(T0 :: (unit, unit, unit, unit, unit, unit) translator) T'.
     translator_start tdemo_wire tdemo_network [] tdemo_tp_config tdemo_manager [tdemo_entry ''a'' False] = (True, T0) \<and>
     tr_clock T0 \<le> 3 \<and>
     translator_on_status tdemo_wire tdemo_network [] tdemo_tp_config (Tp_UpstreamShutdown Fallback) T0 = (False, T')"
proof -
  obtain l :: "(unit, unit) upstream_frame tp_link" where
    l: "upstream_attempts (\<lambda>n. try_initialize_upstream tdemo_wire tdemo_network [] n (tdemo_entry ''a'' False))
      TP_MAX_RETRIES 0 = (Some (Ok l), Suc 0)"
    using tdemo_attempts [of "''a''" False 0] by blast
  have "(tdemo_entry ''a'' False)\<lparr>tried_or_flagged := False\<rparr> = tdemo_entry ''a'' False" by (simp add: tdemo_entry_def)
  moreover have "\<not> tried_or_flagged (tdemo_entry ''a'' False)" "tn_server tdemo_network n = Inr ()" for n
    by (simp_all add: tdemo_defs)
  ultimately obtain T0 :: "(unit, unit, unit, unit, unit, unit) translator" where
    T0: "translator_start tdemo_wire tdemo_network [] tdemo_tp_config tdemo_manager [tdemo_entry ''a'' False] = (True, T0)"
    using l by (simp add: translator_start_def translator_connect_def Let_def)
  have "run_translator tdemo_wire tdemo_network [] tdemo_tp_config [] T0 = (True, T0)" by simp
  from translator_uses_each_upstream_once [OF T0 this, of Fallback] T0 show ?thesis
    by (auto simp: lost_upstreams_def simp del: translator_on_status.simps)
qed

theorem reconnect_ends_upstream_task_witness:
  "run_loop (upstream_task_turn tdemo_wire)
     [From_Peer (Some \<lparr>fr_header = Some (0, 4), fr_payload = []\<rparr>), From_Manager (Some (7 :: nat))] tp_link_new =
   (False, [], tp_link_new)"
proof (rule reconnect_ends_upstream_task)
  show "fr_header \<lparr>fr_header = Some (0, 4), fr_payload = []\<rparr> = Some (0, 4)" by simp
  show "protocol_message_type (tw_values tdemo_wire) (tw_negotiation tdemo_wire) 0 4 = Common_Message"
    by (simp add: tdemo_wire_def protocol_message_type_def is_common_message_def common_consts_def CHANNEL_MSG_MASK_def)
  show "tw_parse_common tdemo_wire (0, 4) (fr_payload \<lparr>fr_header = Some (0, 4), fr_payload = []\<rparr>) = Inr (Common_Reconnect [] 0)"
    by (simp add: tdemo_wire_def)
  show "Common_Reconnect [] 0 = Common_Reconnect [] 0 \<or> Common_Reconnect [] 0 = Common_EndpointChanged 0" by simp
qed

lemma tdemo_unknown: "protocol_message_type (tw_values tdemo_wire) (tw_negotiation tdemo_wire) 0 0xff = Unknown_Message"
  by (simp add: tdemo_wire_def protocol_message_type_def is_common_message_def is_mining_message_def
      is_job_declaration_message_def is_template_distribution_message_def is_extensions_message_def
      common_consts_def mining_consts_def job_declaration_consts_def template_distribution_consts_def
      CHANNEL_MSG_MASK_def)

theorem stale_report_abandons_upstream_witness:
  "\<exists>st1 st2 T1 T2.
    run_loop (upstream_task_turn tdemo_wire)
      [From_Peer (Some \<lparr>fr_header = Some (0, 0xff), fr_payload = []\<rparr>), From_Peer (Some \<lparr>fr_header = Some (0, 0xff), fr_payload = [1]\<rparr>)]
      (tp_link_new :: nat tp_link) = (True, [st1, st2], tp_link_new) \<and>
    translator_on_status tdemo_wire tdemo_network [] tdemo_tp_config st1 tdemo_translator = (True, T1) \<and>
    tr_link T1 \<noteq> None \<and>
    run_translator tdemo_wire tdemo_network [] tdemo_tp_config [st1, st2] tdemo_translator = (False, T2)"
proof -
  let ?f1 = "\<lparr>fr_header = Some (0, 0xff), fr_payload = []\<rparr> :: frame"
  let ?f2 = "\<lparr>fr_header = Some (0, 0xff), fr_payload = [1]\<rparr> :: frame"
  obtain l :: "(unit, unit) upstream_frame tp_link" where
    l: "try_initialize_upstream tdemo_wire tdemo_network [] (tr_clock tdemo_translator) (tdemo_entry ''b'' False) = Ok l"
    using tdemo_attempt [of "tr_clock tdemo_translator" "''b''" False] by blast
  have frames: "\<forall>fr\<in>{?f1, ?f2}. \<exists>ext mt. fr_header fr = Some (ext, mt) \<and>
      protocol_message_type (tw_values tdemo_wire) (tw_negotiation tdemo_wire) ext mt = Unknown_Message"
    using tdemo_unknown by simp
  have us: "tr_upstreams tdemo_translator = [tdemo_entry ''a'' True, tdemo_entry ''b'' False]"
    by (simp add: tdemo_translator_def)
  have flags: "tried_or_flagged (tdemo_entry ''a'' True)" "\<not> tried_or_flagged (tdemo_entry ''b'' False)"
    "tn_server tdemo_network (Suc (tr_clock tdemo_translator)) = Inr ()"
    by (simp_all add: tdemo_defs)
  from stale_report_abandons_upstream [OF frames us flags(1,2) l flags(3), of "tp_link_new :: nat tp_link" tdemo_tp_config]
  show ?thesis by (elim exE conjE) (intro exI conjI, assumption+, simp_all del: run_translator.simps translator_on_status.simps)
qed

end
