(* ===== verification/Persistence.thy ===== *)
theory Persistence
  imports Hash_Map "HOL-Library.Sublist"
begin

text \<open>
  The persistence layer of \<open>stratum-apps/src/persistence\<close>: the share event, the trait
  \<open>PersistenceBackend\<close>, the backends (no-op, file, metrics, composite), the file writer's
  worker loop and the dispatcher \<open>Persistence\<close>. Backends are shared through \<open>Arc\<close>, so a
  backend is a reference into a store and a composite route holds references. The bounded
  channel, the file and the Prometheus client are external: the channel operations, the
  file writes and the debug formatter are arguments, and a metrics backend records the
  calls made on the Prometheus client.
\<close>

section \<open>Events and errors\<close>

datatype entity_type = ShareEntity

record share_event =
  se_error_code :: "string option"
  se_extranonce_prefix :: bytes
  se_is_block_found :: bool
  se_is_valid :: bool
  se_nominal_hash_rate :: f32
  se_nonce :: u32
  se_ntime :: u32
  se_rollable_extranonce_size :: "u16 option"
  se_share_hash :: "u256 option"
  se_share_work :: f64
  se_target :: u256
  se_template_id :: "u64 option"
  se_timestamp :: u64
  se_user_identity :: string
  se_version :: u32

datatype persistence_event = Share share_event

fun event_entity_type :: "persistence_event \<Rightarrow> entity_type" where
  "event_entity_type (Share e) = ShareEntity"

datatype persistence_error =
    ChannelFull | Io string | Connection string | Encoding string | Shutdown | Custom string

fun display_persistence_error :: "persistence_error \<Rightarrow> string" where
  "display_persistence_error ChannelFull = ''Persistence channel is full''"
| "display_persistence_error (Io msg) = ''IO error: '' @ msg"
| "display_persistence_error (Connection msg) = ''Connection error: '' @ msg"
| "display_persistence_error (Encoding msg) = ''Encoding error: '' @ msg"
| "display_persistence_error Shutdown = ''Backend has been shut down''"
| "display_persistence_error (Custom msg) = msg"

type_synonym persistence_result = "persistence_error + unit"

section \<open>The file backend\<close>

datatype file_command = Write string | FlushFile | ShutdownFile

text \<open>
  The operations of the bounded channel between the backend and its worker:
  \<open>try_send\<close> is \<open>None\<close> when the channel is full or closed.
\<close>

record 'c channel_ops =
  bounded :: "nat \<Rightarrow> 'c"
  try_send :: "file_command \<Rightarrow> 'c \<Rightarrow> 'c option"
  pending :: "'c \<Rightarrow> nat"

definition file_send :: "'c channel_ops \<Rightarrow> file_command \<Rightarrow> 'c \<Rightarrow> persistence_result \<times> 'c" where
  "file_send ch cmd q =
     (case try_send ch cmd q of
        None \<Rightarrow> (Inl ChannelFull, q)
      | Some q' \<Rightarrow> (Inr (), q'))"

definition file_persist_event ::
  "'c channel_ops \<Rightarrow> (persistence_event \<Rightarrow> string) \<Rightarrow> persistence_event \<Rightarrow> 'c \<Rightarrow>
     persistence_result \<times> 'c" where
  "file_persist_event ch debug ev q = file_send ch (Write (debug ev)) q"

definition file_flush :: "'c channel_ops \<Rightarrow> 'c \<Rightarrow> persistence_result \<times> 'c" where
  "file_flush ch q = file_send ch FlushFile q"

definition file_shutdown :: "'c channel_ops \<Rightarrow> 'c \<Rightarrow> persistence_result \<times> 'c" where
  "file_shutdown ch q = file_send ch ShutdownFile q"

definition pending_events :: "'c channel_ops \<Rightarrow> 'c \<Rightarrow> nat" where
  "pending_events ch q = pending ch q"

text \<open>
  The worker. Its input is what the channel delivers: \<open>Some cmd\<close> is a command, \<open>None\<close> a
  moment at which the channel is empty, which \<open>recv\<close> waits through and at which
  \<open>try_recv\<close> fails; the end of the input is the closed channel. Write and flush errors are
  only logged, so the file operations are functions on the file; \<open>line\<close> is the text
  with a newline.
\<close>

record 'f file_ops =
  write_all :: "string \<Rightarrow> 'f \<Rightarrow> 'f"
  flush_file :: "'f \<Rightarrow> 'f"

definition line :: "string \<Rightarrow> string" where
  "line text = text @ [CHR 0x0A]"

fun drain :: "'f file_ops \<Rightarrow> file_command option list \<Rightarrow> 'f \<Rightarrow> 'f" where
  "drain fo [] f = f"
| "drain fo (None # cmds) f = f"
| "drain fo (Some (Write text) # cmds) f = drain fo cmds (write_all fo (line text) f)"
| "drain fo (Some FlushFile # cmds) f = drain fo cmds (flush_file fo f)"
| "drain fo (Some ShutdownFile # cmds) f = f"

fun worker_loop :: "'f file_ops \<Rightarrow> file_command option list \<Rightarrow> 'f \<Rightarrow> 'f" where
  "worker_loop fo [] f = flush_file fo f"
| "worker_loop fo (None # cmds) f = worker_loop fo cmds f"
| "worker_loop fo (Some (Write text) # cmds) f = worker_loop fo cmds (write_all fo (line text) f)"
| "worker_loop fo (Some FlushFile # cmds) f = worker_loop fo cmds (flush_file fo f)"
| "worker_loop fo (Some ShutdownFile # cmds) f = flush_file fo (drain fo cmds f)"

section \<open>The metrics backend\<close>

text \<open>
  Float values handed to Prometheus are kept as expressions over bit patterns, as the code
  computes them.
\<close>

datatype f64_expr = F64 f64 | F64Mul f64_expr f64_expr | F32AsF64 f32

datatype metric = SharesValidTotal | SharesInvalidTotal | BlocksFoundTotal | ShareWorkTotal
  | ShareDifficulty | EstimatedHashrate

datatype metric_call =
    Inc metric "string list"
  | IncBy metric "string list" f64_expr
  | SetGauge metric "string list" f64_expr

text \<open>The bit pattern of \<open>4_294_967_296.0\<close>: exponent 1023 + 32, mantissa 0.\<close>

definition HASHES_PER_DIFF :: f64 where
  "HASHES_PER_DIFF = 0x41F0000000000000"

fun digits :: "nat \<Rightarrow> string" where
  "digits n = (if n < 10 then [char_of (48 + n)] else digits (n div 10) @ [char_of (48 + n mod 10)])"

declare digits.simps [simp del]

definition u64_to_string :: "u64 \<Rightarrow> string" where
  "u64_to_string x = digits (unat x)"

definition metrics_calls :: "share_event \<Rightarrow> metric_call list" where
  "metrics_calls share =
     (let user = se_user_identity share;
          tid = (case se_template_id share of None \<Rightarrow> ''unknown'' | Some i \<Rightarrow> u64_to_string i) in
      if se_is_valid share then
        [Inc SharesValidTotal [user, tid],
         IncBy ShareWorkTotal [user] (F64Mul (F64 (se_share_work share)) (F64 HASHES_PER_DIFF)),
         SetGauge ShareDifficulty [user] (F64 (se_share_work share)),
         SetGauge EstimatedHashrate [user] (F32AsF64 (se_nominal_hash_rate share))]
        @ (if se_is_block_found share then [Inc BlocksFoundTotal [user]] else [])
      else
        [Inc SharesInvalidTotal
           [user, (case se_error_code share of None \<Rightarrow> ''unknown'' | Some c \<Rightarrow> c)]])"

fun metrics_persist_event ::
  "persistence_event \<Rightarrow> metric_call list \<Rightarrow> persistence_result \<times> metric_call list" where
  "metrics_persist_event (Share share) calls = (Inr (), calls @ metrics_calls share)"

section \<open>The store of backends and the trait's dispatch\<close>

datatype 'c backend_state = NoOpBackend | FileBackend 'c | MetricsBackend "metric_call list"

type_synonym backend_ref = nat
type_synonym 'c store = "backend_ref \<Rightarrow> 'c backend_state"

definition backend_persist_event ::
  "'c channel_ops \<Rightarrow> (persistence_event \<Rightarrow> string) \<Rightarrow> backend_ref \<Rightarrow> persistence_event \<Rightarrow>
     'c store \<Rightarrow> persistence_result \<times> 'c store" where
  "backend_persist_event ch debug b ev s =
     (case s b of
        NoOpBackend \<Rightarrow> (Inr (), s)
      | FileBackend q \<Rightarrow>
          (case file_persist_event ch debug ev q of (r, q') \<Rightarrow> (r, s(b := FileBackend q')))
      | MetricsBackend calls \<Rightarrow>
          (case metrics_persist_event ev calls of (r, calls') \<Rightarrow> (r, s(b := MetricsBackend calls'))))"

definition backend_flush ::
  "'c channel_ops \<Rightarrow> backend_ref \<Rightarrow> 'c store \<Rightarrow> persistence_result \<times> 'c store" where
  "backend_flush ch b s =
     (case s b of
        FileBackend q \<Rightarrow> (case file_flush ch q of (r, q') \<Rightarrow> (r, s(b := FileBackend q')))
      | _ \<Rightarrow> (Inr (), s))"

definition backend_shutdown ::
  "'c channel_ops \<Rightarrow> backend_ref \<Rightarrow> 'c store \<Rightarrow> persistence_result \<times> 'c store" where
  "backend_shutdown ch b s =
     (case s b of
        FileBackend q \<Rightarrow> (case file_shutdown ch q of (r, q') \<Rightarrow> (r, s(b := FileBackend q')))
      | _ \<Rightarrow> (Inr (), s))"

section \<open>The composite backend\<close>

record backend_route =
  route_name :: string
  route_backend :: backend_ref
  route_entities :: "entity_type set"
  route_fallback :: "backend_ref option"

definition new_route :: "string \<Rightarrow> backend_ref \<Rightarrow> entity_type set \<Rightarrow> backend_route" where
  "new_route name b entities =
     \<lparr>route_name = name, route_backend = b, route_entities = entities, route_fallback = None\<rparr>"

definition with_fallback :: "backend_ref \<Rightarrow> backend_route \<Rightarrow> backend_route" where
  "with_fallback b r = r\<lparr>route_fallback := Some b\<rparr>"

definition handles :: "backend_route \<Rightarrow> entity_type \<Rightarrow> bool" where
  "handles r t = (t \<in> route_entities r)"

text \<open>
  The composite is a client of the trait: \<open>persist\<close>, \<open>flush\<close> and \<open>shutdown\<close> are the
  trait's methods of the child backends, on any state they share. One route at a time; the
  accumulator is \<open>last_error\<close>.
\<close>

definition route_persist ::
  "(backend_ref \<Rightarrow> persistence_event \<Rightarrow> 's \<Rightarrow> persistence_result \<times> 's) \<Rightarrow> persistence_event \<Rightarrow>
     backend_route \<Rightarrow> persistence_error option \<times> 's \<Rightarrow> persistence_error option \<times> 's" where
  "route_persist persist ev route acc =
     (case acc of (last_error, s) \<Rightarrow>
        if \<not> handles route (event_entity_type ev) then (last_error, s)
        else
          (case persist (route_backend route) ev s of
             (Inr _, s1) \<Rightarrow> (last_error, s1)
           | (Inl e, s1) \<Rightarrow>
               (case route_fallback route of
                  None \<Rightarrow> (last_error, s1)
                | Some fb \<Rightarrow>
                    (case persist fb ev s1 of
                       (Inr _, s2) \<Rightarrow> (last_error, s2)
                     | (Inl e2, s2) \<Rightarrow> (Some e2, s2)))))"

definition last_error_result :: "persistence_error option \<times> 's \<Rightarrow> persistence_result \<times> 's" where
  "last_error_result acc =
     (case acc of (None, s) \<Rightarrow> (Inr (), s) | (Some e, s) \<Rightarrow> (Inl e, s))"

definition composite_persist_event ::
  "(backend_ref \<Rightarrow> persistence_event \<Rightarrow> 's \<Rightarrow> persistence_result \<times> 's) \<Rightarrow> backend_route list \<Rightarrow>
     persistence_event \<Rightarrow> 's \<Rightarrow> persistence_result \<times> 's" where
  "composite_persist_event persist routes ev s =
     last_error_result (fold (route_persist persist ev) routes (None, s))"

text \<open>\<open>flush\<close> and \<open>shutdown\<close> visit the primary and the fallback of every route.\<close>

definition route_call ::
  "(backend_ref \<Rightarrow> 's \<Rightarrow> persistence_result \<times> 's) \<Rightarrow> backend_ref \<Rightarrow>
     persistence_error option \<times> 's \<Rightarrow> persistence_error option \<times> 's" where
  "route_call op b acc =
     (case acc of (last_error, s) \<Rightarrow>
        (case op b s of (Inr _, s') \<Rightarrow> (last_error, s') | (Inl e, s') \<Rightarrow> (Some e, s')))"

definition route_visit ::
  "(backend_ref \<Rightarrow> 's \<Rightarrow> persistence_result \<times> 's) \<Rightarrow> backend_route \<Rightarrow>
     persistence_error option \<times> 's \<Rightarrow> persistence_error option \<times> 's" where
  "route_visit op route acc =
     (let acc1 = route_call op (route_backend route) acc in
      case route_fallback route of None \<Rightarrow> acc1 | Some fb \<Rightarrow> route_call op fb acc1)"

definition composite_flush ::
  "(backend_ref \<Rightarrow> 's \<Rightarrow> persistence_result \<times> 's) \<Rightarrow> backend_route list \<Rightarrow> 's \<Rightarrow>
     persistence_result \<times> 's" where
  "composite_flush flush_op routes s = last_error_result (fold (route_visit flush_op) routes (None, s))"

definition composite_shutdown ::
  "(backend_ref \<Rightarrow> 's \<Rightarrow> persistence_result \<times> 's) \<Rightarrow> backend_route list \<Rightarrow> 's \<Rightarrow>
     persistence_result \<times> 's" where
  "composite_shutdown shutdown_op routes s =
     last_error_result (fold (route_visit shutdown_op) routes (None, s))"

section \<open>The dispatcher\<close>

datatype backend = Composite "backend_route list" | Single backend_ref

record persistence =
  backend :: backend
  enabled_entities :: "entity_type set"

definition noop :: "backend_ref \<Rightarrow> persistence" where
  "noop b = \<lparr>backend = Single b, enabled_entities = {}\<rparr>"

definition with_backend :: "backend \<Rightarrow> entity_type list \<Rightarrow> persistence" where
  "with_backend b entities = \<lparr>backend = b, enabled_entities = set entities\<rparr>"

text \<open>
  \<open>Persistence::persist\<close>: an entity type that is not enabled is dropped; a backend error is
  logged and not propagated.
\<close>

definition persist ::
  "'c channel_ops \<Rightarrow> (persistence_event \<Rightarrow> string) \<Rightarrow> persistence \<Rightarrow> persistence_event \<Rightarrow>
     'c store \<Rightarrow> 'c store" where
  "persist ch debug p ev s =
     (if event_entity_type ev \<in> enabled_entities p then
        (case backend p of
           Composite routes \<Rightarrow>
             snd (composite_persist_event (backend_persist_event ch debug) routes ev s)
         | Single b \<Rightarrow> snd (backend_persist_event ch debug b ev s))
      else s)"

definition persistence_flush :: "'c channel_ops \<Rightarrow> persistence \<Rightarrow> 'c store \<Rightarrow> 'c store" where
  "persistence_flush ch p s =
     (case backend p of
        Composite routes \<Rightarrow> snd (composite_flush (backend_flush ch) routes s)
      | Single b \<Rightarrow> snd (backend_flush ch b s))"

definition persistence_shutdown :: "'c channel_ops \<Rightarrow> persistence \<Rightarrow> 'c store \<Rightarrow> 'c store" where
  "persistence_shutdown ch p s =
     (case backend p of
        Composite routes \<Rightarrow> snd (composite_shutdown (backend_shutdown ch) routes s)
      | Single b \<Rightarrow> snd (backend_shutdown ch b s))"

section \<open>One route, case by case\<close>

lemma route_persist_cases:
  obtains
    (unhandled) "\<not> handles r (event_entity_type ev)" "route_persist pe ev r (le, s) = (le, s)"
  | (primary) s1 where "handles r (event_entity_type ev)"
      "pe (route_backend r) ev s = (Inr (), s1)" "route_persist pe ev r (le, s) = (le, s1)"
  | (dropped) e s1 where "handles r (event_entity_type ev)"
      "pe (route_backend r) ev s = (Inl e, s1)" "route_fallback r = None"
      "route_persist pe ev r (le, s) = (le, s1)"
  | (fallback) e s1 fb s2 where "handles r (event_entity_type ev)"
      "pe (route_backend r) ev s = (Inl e, s1)" "route_fallback r = Some fb"
      "pe fb ev s1 = (Inr (), s2)" "route_persist pe ev r (le, s) = (le, s2)"
  | (failed) e s1 fb e2 s2 where "handles r (event_entity_type ev)"
      "pe (route_backend r) ev s = (Inl e, s1)" "route_fallback r = Some fb"
      "pe fb ev s1 = (Inl e2, s2)" "route_persist pe ev r (le, s) = (Some e2, s2)"
proof (cases "handles r (event_entity_type ev)")
  case False
  then show thesis by (intro unhandled) (simp_all add: route_persist_def)
next
  case h: True
  obtain q s1 where p: "pe (route_backend r) ev s = (q, s1)"
    by (cases "pe (route_backend r) ev s")
  show thesis
  proof (cases q)
    case (Inr u)
    with h p show thesis by (intro primary [of s1]) (simp_all add: route_persist_def)
  next
    case (Inl e)
    show thesis
    proof (cases "route_fallback r")
      case None
      with h p Inl show thesis by (intro dropped [of e s1]) (simp_all add: route_persist_def)
    next
      case fb: (Some fb)
      obtain q2 s2 where p2: "pe fb ev s1 = (q2, s2)" by (cases "pe fb ev s1")
      show thesis
      proof (cases q2)
        case (Inr u)
        with h p Inl fb p2 show thesis
          by (intro fallback [of e s1 fb s2]) (simp_all add: route_persist_def)
      next
        case (Inl e2)
        with h p \<open>q = Inl e\<close> fb p2 show thesis
          by (intro failed [of e s1 fb e2 s2]) (simp_all add: route_persist_def)
      qed
    qed
  qed
qed

section \<open>The contract of the trait\<close>

text \<open>
  What a composite relies on when it calls a child: a failing \<open>persist_event\<close> leaves the
  shared state as it was, and a call on one backend does not touch another. \<open>state_of\<close>
  observes one backend in the shared state.
\<close>

locale persistence_backend =
  fixes persist_event :: "backend_ref \<Rightarrow> persistence_event \<Rightarrow> 's \<Rightarrow> persistence_result \<times> 's"
    and state_of :: "'s \<Rightarrow> backend_ref \<Rightarrow> 'b"
  assumes persist_err: "persist_event b ev s = (Inl e, s') \<Longrightarrow> s' = s"
    and persist_frame: "b' \<noteq> b \<Longrightarrow> state_of (snd (persist_event b ev s)) b' = state_of s b'"
begin

lemma route_persist_frame:
  assumes "\<not> handles r (event_entity_type ev) \<or>
      (b \<noteq> route_backend r \<and> route_fallback r \<noteq> Some b)"
  shows "state_of (snd (route_persist persist_event ev r acc)) b = state_of (snd acc) b"
proof -
  obtain le s where acc: "acc = (le, s)" by (cases acc)
  show ?thesis
  proof (cases rule: route_persist_cases [of r ev persist_event le s])
    case unhandled
    then show ?thesis by (simp add: acc)
  next
    case (primary s1)
    then show ?thesis using assms persist_frame [of b "route_backend r" ev s] by (simp add: acc)
  next
    case (dropped e s1)
    then show ?thesis using persist_err [of "route_backend r" ev s e s1] by (simp add: acc)
  next
    case (fallback e s1 fb s2)
    then have "s1 = s" and "b \<noteq> fb" using persist_err assms by auto
    then show ?thesis using fallback persist_frame [of b fb ev s] by (simp add: acc)
  next
    case (failed e s1 fb e2 s2)
    then show ?thesis using persist_err by (metis acc snd_conv)
  qed
qed

lemma fold_route_persist_frame:
  assumes "\<forall>r\<in>set routes. \<not> handles r (event_entity_type ev) \<or>
      (b \<noteq> route_backend r \<and> route_fallback r \<noteq> Some b)"
  shows "state_of (snd (fold (route_persist persist_event ev) routes acc)) b = state_of (snd acc) b"
  using assms
  by (induction routes arbitrary: acc) (simp_all add: route_persist_frame)

lemma snd_last_error_result [simp]: "snd (last_error_result acc) = snd acc"
  by (auto simp: last_error_result_def split: prod.splits option.splits)

lemma composite_frame:
  assumes "\<forall>r\<in>set routes. \<not> handles r (event_entity_type ev) \<or>
      (b \<noteq> route_backend r \<and> route_fallback r \<noteq> Some b)"
  shows "state_of (snd (composite_persist_event persist_event routes ev s)) b = state_of s b"
  using fold_route_persist_frame [OF assms, of "(None, s)"]
  by (simp add: composite_persist_event_def)

text \<open>A route whose backends all fail leaves the state of every backend as it was.\<close>

lemma route_persist_all_fail:
  assumes "\<exists>e. fst (persist_event (route_backend r) ev (snd acc)) = Inl e"
    and "\<forall>fb. route_fallback r = Some fb \<longrightarrow> (\<exists>e. fst (persist_event fb ev (snd acc)) = Inl e)"
  shows "snd (route_persist persist_event ev r acc) = snd acc"
proof -
  obtain le s where acc: "acc = (le, s)" by (cases acc)
  obtain e where p: "persist_event (route_backend r) ev s = (Inl e, s)"
    using assms(1) acc persist_err by (metis fst_conv prod.exhaust_sel snd_conv)
  have fb: "\<exists>e. persist_event fb ev s = (Inl e, s)" if "route_fallback r = Some fb" for fb
    using assms(2) that acc persist_err by (metis fst_conv prod.exhaust_sel snd_conv)
  show ?thesis
    by (rule route_persist_cases [of r ev persist_event le s]) (use p fb acc in auto)
qed

end

lemma file_send_err: "file_send ch cmd q = (Inl e, q') \<Longrightarrow> q' = q"
  by (auto simp: file_send_def split: option.splits)

interpretation backend_store: persistence_backend "backend_persist_event ch debug" "\<lambda>s. s"
proof unfold_locales
  fix b b' :: backend_ref and ev e and s s' :: "'a store"
  show "backend_persist_event ch debug b ev s = (Inl e, s') \<Longrightarrow> s' = s"
    by (cases ev)
      (auto simp: backend_persist_event_def file_persist_event_def
        split: backend_state.splits prod.splits dest!: file_send_err)
  show "b' \<noteq> b \<Longrightarrow> snd (backend_persist_event ch debug b ev s) b' = s b'"
    by (auto simp: backend_persist_event_def split: backend_state.splits prod.splits)
qed

section \<open>What the composite promises\<close>

text \<open>The state in which the composite reaches its \<open>i\<close>-th route.\<close>

definition state_before ::
  "(backend_ref \<Rightarrow> persistence_event \<Rightarrow> 's \<Rightarrow> persistence_result \<times> 's) \<Rightarrow> backend_route list \<Rightarrow>
     persistence_event \<Rightarrow> 's \<Rightarrow> nat \<Rightarrow> 's" where
  "state_before pe routes ev s i = snd (fold (route_persist pe ev) (take i routes) (None, s))"

text \<open>
  A route succeeds when it does not handle the event, when the primary accepts it, when
  there is no fallback, or when the fallback accepts it after the primary failed.
\<close>

definition route_ok ::
  "(backend_ref \<Rightarrow> persistence_event \<Rightarrow> 's \<Rightarrow> persistence_result \<times> 's) \<Rightarrow> persistence_event \<Rightarrow>
     backend_route \<Rightarrow> 's \<Rightarrow> bool" where
  "route_ok pe ev r s \<longleftrightarrow>
     \<not> handles r (event_entity_type ev)
     \<or> fst (pe (route_backend r) ev s) = Inr ()
     \<or> (case route_fallback r of
          None \<Rightarrow> True
        | Some fb \<Rightarrow> fst (pe fb ev (snd (pe (route_backend r) ev s))) = Inr ())"

lemma route_persist_error:
  "fst (route_persist pe ev r (le, s)) = None \<longleftrightarrow> le = None \<and> route_ok pe ev r s"
  by (rule route_persist_cases [of r ev pe le s]) (simp_all add: route_ok_def)

lemma route_persist_state_indep:
  "snd (route_persist pe ev r (le, s)) = snd (route_persist pe ev r (None, s))"
  by (rule route_persist_cases [of r ev pe le s]) (simp_all add: route_persist_def)

lemma fold_route_persist_state_indep:
  "snd (fold (route_persist pe ev) routes (le, s)) =
     snd (fold (route_persist pe ev) routes (None, s))"
proof (induction routes arbitrary: le s)
  case Nil
  then show ?case by simp
next
  case (Cons r routes)
  obtain le1 s1 where 1: "route_persist pe ev r (le, s) = (le1, s1)"
    by (cases "route_persist pe ev r (le, s)")
  obtain le2 s2 where 2: "route_persist pe ev r (None, s) = (le2, s2)"
    by (cases "route_persist pe ev r (None, s)")
  have "s1 = s2"
    using route_persist_state_indep [of pe ev r le s] 1 2 by simp
  then show ?case
    using Cons.IH [of le1 s1] Cons.IH [of le2 s2] 1 2 by simp
qed

lemma fold_route_persist_error:
  "fst (fold (route_persist pe ev) routes (le, s)) = None \<longleftrightarrow>
     le = None \<and> (\<forall>i<length routes. route_ok pe ev (routes ! i) (state_before pe routes ev s i))"
proof (induction routes arbitrary: le s)
  case Nil
  then show ?case by simp
next
  case (Cons r routes)
  obtain le1 s1 where 1: "route_persist pe ev r (le, s) = (le1, s1)"
    by (cases "route_persist pe ev r (le, s)")
  have s1: "s1 = snd (route_persist pe ev r (None, s))"
    using route_persist_state_indep [of pe ev r le s] 1 by simp
  have before: "state_before pe (r # routes) ev s (Suc i) = state_before pe routes ev s1 i" for i
    using fold_route_persist_state_indep [of pe ev "take i routes" "fst (route_persist pe ev r (None, s))" s1]
    by (simp add: state_before_def s1)
  have first: "state_before pe (r # routes) ev s 0 = s"
    by (simp add: state_before_def)
  show ?case
    using Cons.IH [of le1 s1] route_persist_error [of pe ev r le s] 1
    by (auto simp: before first All_less_Suc2)
qed

lemma fst_last_error_result: "fst (last_error_result acc) = Inr () \<longleftrightarrow> fst acc = None"
  by (auto simp: last_error_result_def split: prod.splits option.splits)

lemma composite_result:
  "fst (composite_persist_event pe routes ev s) = Inr () \<longleftrightarrow>
     (\<forall>i<length routes. route_ok pe ev (routes ! i) (state_before pe routes ev s i))"
  by (simp add: composite_persist_event_def fst_last_error_result fold_route_persist_error)

section \<open>The file writer\<close>

text \<open>The effect of one command, and the commands of an input without its empty moments.\<close>

fun apply_command :: "'f file_ops \<Rightarrow> file_command \<Rightarrow> 'f \<Rightarrow> 'f" where
  "apply_command fo (Write text) f = write_all fo (line text) f"
| "apply_command fo FlushFile f = flush_file fo f"
| "apply_command fo ShutdownFile f = f"

definition commands :: "file_command option list \<Rightarrow> file_command list" where
  "commands cmds = List.map_filter id cmds"

lemma commands_simps [simp]:
  "commands [] = []"
  "commands (None # cmds) = commands cmds"
  "commands (Some c # cmds) = c # commands cmds"
  "commands (cs @ ds) = commands cs @ commands ds"
  by (simp_all add: commands_def List.map_filter_def)

text \<open>What \<open>try_recv\<close> still delivers after a shutdown command.\<close>

definition drained :: "file_command option list \<Rightarrow> file_command option list" where
  "drained cmds = takeWhile (\<lambda>c. c \<noteq> None \<and> c \<noteq> Some ShutdownFile) cmds"

lemma drain_eq: "drain fo cmds f = fold (apply_command fo) (commands (drained cmds)) f"
  by (induction fo cmds f rule: drain.induct) (simp_all add: drained_def)

lemma worker_loop_open:
  "Some ShutdownFile \<notin> set cmds \<Longrightarrow>
     worker_loop fo cmds f = flush_file fo (fold (apply_command fo) (commands cmds) f)"
  by (induction fo cmds f rule: worker_loop.induct) simp_all

lemma worker_loop_append:
  "Some ShutdownFile \<notin> set pre \<Longrightarrow>
     worker_loop fo (pre @ cmds) f = worker_loop fo cmds (fold (apply_command fo) (commands pre) f)"
  by (induction fo pre f rule: worker_loop.induct) simp_all

lemma worker_loop_shutdown:
  "Some ShutdownFile \<notin> set pre \<Longrightarrow>
     worker_loop fo (pre @ Some ShutdownFile # post) f =
       flush_file fo (fold (apply_command fo) (commands pre @ commands (drained post)) f)"
  by (simp add: worker_loop_append drain_eq)

section \<open>Order of the events in the file\<close>

text \<open>
  The documented law of a bounded first-in first-out channel: a message that \<open>try_send\<close>
  accepts becomes the last one of the channel's contents.
\<close>

definition fifo_channel :: "'c channel_ops \<Rightarrow> ('c \<Rightarrow> file_command list) \<Rightarrow> bool" where
  "fifo_channel ch contents \<longleftrightarrow>
     (\<forall>cmd q q'. try_send ch cmd q = Some q' \<longrightarrow> contents q' = contents q @ [cmd])"

fun persist_all ::
  "'c channel_ops \<Rightarrow> (persistence_event \<Rightarrow> string) \<Rightarrow> persistence \<Rightarrow> persistence_event list \<Rightarrow>
     'c store \<Rightarrow> 'c store" where
  "persist_all ch debug p [] s = s"
| "persist_all ch debug p (ev # evs) s = persist_all ch debug p evs (persist ch debug p ev s)"

lemma persist_file:
  assumes "fifo_channel ch contents" and "backend p = Single b" and "s b = FileBackend q"
  obtains q' evs where "persist ch debug p ev s b = FileBackend q'"
    and "contents q' = contents q @ map (\<lambda>e. Write (debug e)) evs" and "subseq evs [ev]"
proof (cases "event_entity_type ev \<in> enabled_entities p")
  case False
  then show thesis
    using assms(3) by (intro that [of q "[]"]) (simp_all add: persist_def)
next
  case True
  show thesis
  proof (cases "try_send ch (Write (debug ev)) q")
    case None
    with True assms(2,3) show thesis
      by (intro that [of q "[]"])
        (simp_all add: persist_def backend_persist_event_def file_persist_event_def file_send_def)
  next
    case (Some q')
    with True assms show thesis
      by (intro that [of q' "[ev]"])
        (auto simp: persist_def backend_persist_event_def file_persist_event_def file_send_def
          fifo_channel_def)
  qed
qed

lemma persist_all_file:
  assumes "fifo_channel ch contents" and "backend p = Single b" and "s b = FileBackend q"
  shows "\<exists>q' kept. persist_all ch debug p evs s b = FileBackend q' \<and> subseq kept evs \<and>
     contents q' = contents q @ map (\<lambda>e. Write (debug e)) kept"
  using assms(3)
proof (induction evs arbitrary: s q)
  case Nil
  then show ?case by (intro exI [of _ q] exI [of _ "[]"]) simp
next
  case (Cons ev evs)
  obtain q1 k1 where 1: "persist ch debug p ev s b = FileBackend q1"
      "contents q1 = contents q @ map (\<lambda>e. Write (debug e)) k1" "subseq k1 [ev]"
    using persist_file [where s = s and q = q, OF assms(1,2) Cons.prems] by blast
  obtain q' k2 where 2: "persist_all ch debug p evs (persist ch debug p ev s) b = FileBackend q'"
      "subseq k2 evs" "contents q' = contents q1 @ map (\<lambda>e. Write (debug e)) k2"
    using Cons.IH [where s = "persist ch debug p ev s" and q = q1, OF 1(1)] by blast
  have "subseq (k1 @ k2) (ev # evs)"
    using list_emb_append_mono [OF 1(3) 2(2)] by simp
  then show ?case
    using 1 2 by (intro exI [of _ q'] exI [of _ "k1 @ k2"]) simp
qed

section \<open>What the metrics count\<close>

definition counted :: "metric \<Rightarrow> string \<Rightarrow> metric_call list \<Rightarrow> nat" where
  "counted m user calls =
     length (filter (\<lambda>c. case c of Inc m' (u # _) \<Rightarrow> m' = m \<and> u = user | _ \<Rightarrow> False) calls)"

fun record_shares :: "share_event list \<Rightarrow> metric_call list \<Rightarrow> metric_call list" where
  "record_shares [] calls = calls"
| "record_shares (e # es) calls = record_shares es (snd (metrics_persist_event (Share e) calls))"

lemma counted_append [simp]: "counted m u (xs @ ys) = counted m u xs + counted m u ys"
  by (simp add: counted_def)

lemma counted_metrics_calls:
  "counted SharesValidTotal u (metrics_calls e) = (if se_is_valid e \<and> se_user_identity e = u then 1 else 0)"
  "counted SharesInvalidTotal u (metrics_calls e) = (if \<not> se_is_valid e \<and> se_user_identity e = u then 1 else 0)"
  "counted BlocksFoundTotal u (metrics_calls e) =
     (if se_is_valid e \<and> se_is_block_found e \<and> se_user_identity e = u then 1 else 0)"
  by (simp_all add: counted_def metrics_calls_def Let_def)

lemma counted_record_shares:
  assumes "\<And>e. counted m u (metrics_calls e) = (if P e then 1 else 0)"
  shows "counted m u (record_shares es calls) = counted m u calls + length (filter P es)"
  by (induction es arbitrary: calls) (simp_all add: assms)

end
