(* ===== verification/Pool_Types.thy ===== *)
theory Pool_Types
  imports Persistence
begin

text \<open>
  The data of the pool: the Sv2 messages its channel manager exchanges, its errors, the
  per-connection and channel-manager state, and the interface of the external channel
  library. The types \<open>'sc\<close>, \<open>'ec\<close>, \<open>'gc\<close>, \<open>'vd\<close> and \<open>'xf\<close> are the library's
  \<open>StandardChannel\<close>, \<open>ExtendedChannel\<close>, \<open>GroupChannel\<close>, \<open>VardiffState\<close> and
  \<open>ExtendedExtranonce\<close>; their operations are the fields of the record \<open>channel_lib\<close>, an
  argument of every definition that calls them. A 256-bit target and its little-endian
  encoding in a message are the same number.
\<close>

type_synonym downstream_id = usize
type_synonym channel_id = u32
type_synonym request_id = u32

section \<open>Template distribution messages\<close>

record new_template =
  nt_template_id :: u64
  nt_future_template :: bool
  nt_version :: u32
  nt_coinbase_tx_version :: u32
  nt_coinbase_prefix :: bytes
  nt_coinbase_tx_input_sequence :: u32
  nt_coinbase_tx_value_remaining :: u64
  nt_coinbase_tx_outputs_count :: u32
  nt_coinbase_tx_outputs :: bytes
  nt_coinbase_tx_locktime :: u32
  nt_merkle_path :: "u256 list"

record set_new_prev_hash_tdp =
  ph_template_id :: u64
  ph_prev_hash :: u256
  ph_header_timestamp :: u32
  ph_n_bits :: u32
  ph_target :: u256

record submit_solution =
  ss_template_id :: u64
  ss_version :: u32
  ss_header_timestamp :: u32
  ss_header_nonce :: u32
  ss_coinbase_tx :: bytes

record tx_out =
  tx_value :: u64
  tx_script_pubkey :: bytes

section \<open>Mining messages\<close>

text \<open>
  A job message is forwarded unread; beside the two identifiers its remaining fields are
  the encoded payload. A job couples the message with the identifier the library files it
  under.
\<close>

record job_message =
  jm_channel_id :: u32
  jm_job_id :: u32
  jm_payload :: bytes

record job =
  job_id :: u32
  job_msg :: job_message

record open_standard_mining_channel =
  os_request_id :: u32
  os_user_identity :: bytes
  os_nominal_hash_rate :: f32
  os_max_target :: u256

record open_extended_mining_channel =
  oe_request_id :: u32
  oe_user_identity :: bytes
  oe_nominal_hash_rate :: f32
  oe_max_target :: u256
  oe_min_extranonce_size :: u16

record submit_shares_standard =
  sh_channel_id :: u32
  sh_sequence_number :: u32
  sh_job_id :: u32
  sh_nonce :: u32
  sh_ntime :: u32
  sh_version :: u32

record submit_shares_extended = submit_shares_standard +
  sh_extranonce :: bytes

record update_channel =
  uc_channel_id :: u32
  uc_nominal_hash_rate :: f32
  uc_maximum_target :: u256

record set_custom_mining_job =
  cj_channel_id :: u32
  cj_request_id :: u32
  cj_coinbase_tx_outputs :: bytes
  cj_payload :: bytes

record set_new_prev_hash =
  sp_channel_id :: u32
  sp_job_id :: u32
  sp_prev_hash :: u256
  sp_min_ntime :: u32
  sp_nbits :: u32

record open_standard_success =
  oss_request_id :: u32
  oss_channel_id :: u32
  oss_target :: u256
  oss_extranonce_prefix :: bytes
  oss_group_channel_id :: u32

record open_extended_success =
  oes_request_id :: u32
  oes_channel_id :: u32
  oes_target :: u256
  oes_extranonce_prefix :: bytes
  oes_extranonce_size :: u16

record submit_shares_success =
  sss_channel_id :: u32
  sss_last_sequence_number :: u32
  sss_new_submits_accepted_count :: u32
  sss_new_shares_sum :: u64

text \<open>
  The mining messages that a channel manager sends to its clients; errors carry their error
  code. The pool never sends the last one, the job declarator client does.
\<close>

datatype mining =
    OpenMiningChannelError u32 string
  | OpenStandardMiningChannelSuccess open_standard_success
  | OpenExtendedMiningChannelSuccess open_extended_success
  | NewMiningJob job_message
  | NewExtendedMiningJob job_message
  | SetNewPrevHash set_new_prev_hash
  | SetTarget u32 u256
  | SubmitSharesSuccess submit_shares_success
  | SubmitSharesError u32 u32 string
  | UpdateChannelError u32 string
  | SetCustomMiningJobSuccess u32 u32 u32
  | SetCustomMiningJobError u32 u32 string
  | SetExtranoncePrefix u32 bytes

datatype template_distribution = SubmitSolution submit_solution

datatype route_message_to =
    TemplateProvider template_distribution
  | Downstream downstream_id mining

section \<open>Errors\<close>

text \<open>
  Of the library's error enumerations only the constructors the pool tells apart are
  named; the others carry a number.
\<close>

datatype standard_channel_error =
    SC_InvalidNominalHashrate | SC_RequestedMaxTargetOutOfRange | SC_Other nat

datatype extended_channel_error =
    EC_InvalidNominalHashrate | EC_RequestedMaxTargetOutOfRange
  | EC_RequestedMinExtranonceSizeTooLarge | EC_Other nat

datatype group_channel_error = GC_Error nat
datatype extranonce_error = ExtranonceError nat
datatype vardiff_error = VardiffError nat
datatype binary_error = BinaryError nat
datatype encode_error = EncodeError nat

datatype share_validation_error =
    SV_Invalid | SV_Stale | SV_InvalidJobId | SV_DoesNotMeetTarget | SV_DuplicateShare
  | SV_BadExtranonceSize | SV_Other nat

datatype share_validation_result =
    Valid u256
  | BlockFound u256 "u64 option" bytes

datatype channel_sv2_error =
    ExtendedChannelServerSide extended_channel_error
  | StandardChannelServerSide standard_channel_error
  | GroupChannelServerSide group_channel_error
  | ExtranonceErr extranonce_error
  | ShareValidationErr share_validation_error

text \<open>The constructors of \<open>PoolError\<close> that the modelled code raises.\<close>

datatype pool_error =
    BinarySv2 binary_error
  | BitcoinEncodeError encode_error
  | ChannelSv2 channel_sv2_error
  | Vardiff vardiff_error
  | UnexpectedMessage u16 u8
  | ChannelErrorSender
  | ChannelSend
  | ChannelRecv
  | DownstreamNotFound downstream_id
  | DownstreamIdNotFound
  | FutureTemplateNotPresent
  | LastNewPrevhashNotFound
  | VardiffNotFound channel_id
  | FailedToCreateGroupChannel group_channel_error
  | InvalidUnsupportedExtensionsSequence binary_error
  | InvalidRequiredExtensionsSequence binary_error
  | InvalidSupportedExtensionsSequence binary_error
  | ClientDoesNotSupportRequiredExtensions "u16 list"
  | FramingMissingHeader
  | NoiseExpectedIncomingHandshakeMessage
  | Parser nat

type_synonym 'a pool_result = "(pool_error, 'a) res"

section \<open>The channel library\<close>

record share_accounting =
  should_acknowledge :: bool
  last_share_sequence_number :: u32
  last_batch_accepted :: u32
  last_batch_work_sum :: f64

record 'sc standard_lib =
  sc_new_for_pool ::
    "channel_id \<Rightarrow> string \<Rightarrow> bytes \<Rightarrow> u256 \<Rightarrow> f32 \<Rightarrow> usize \<Rightarrow> f32 \<Rightarrow> string \<Rightarrow>
       standard_channel_error + 'sc"
  sc_on_new_template :: "'sc \<Rightarrow> new_template \<Rightarrow> tx_out list \<Rightarrow> (standard_channel_error + unit) \<times> 'sc"
  sc_on_set_new_prev_hash :: "'sc \<Rightarrow> set_new_prev_hash_tdp \<Rightarrow> (standard_channel_error + unit) \<times> 'sc"
  sc_on_group_channel_job :: "'sc \<Rightarrow> job \<Rightarrow> (standard_channel_error + unit) \<times> 'sc"
  sc_update_channel :: "'sc \<Rightarrow> f32 \<Rightarrow> u256 option \<Rightarrow> (standard_channel_error + unit) \<times> 'sc"
  sc_validate_share ::
    "'sc \<Rightarrow> submit_shares_standard \<Rightarrow> (share_validation_error + share_validation_result) \<times> 'sc"
  sc_target :: "'sc \<Rightarrow> u256"
  sc_extranonce_prefix :: "'sc \<Rightarrow> bytes"
  sc_user_identity :: "'sc \<Rightarrow> string"
  sc_nominal_hashrate :: "'sc \<Rightarrow> f32"
  sc_shares_per_minute :: "'sc \<Rightarrow> f32"
  sc_share_accounting :: "'sc \<Rightarrow> share_accounting"
  sc_future_template_to_job_id :: "'sc \<Rightarrow> u64 \<Rightarrow> u32 option"
  sc_future_jobs :: "'sc \<Rightarrow> u32 \<Rightarrow> job option"
  sc_active_job :: "'sc \<Rightarrow> job option"

record ('sc, 'ec) extended_lib = "'sc standard_lib" +
  ec_new_for_pool ::
    "channel_id \<Rightarrow> string \<Rightarrow> bytes \<Rightarrow> u256 \<Rightarrow> f32 \<Rightarrow> bool \<Rightarrow> u16 \<Rightarrow> usize \<Rightarrow> f32 \<Rightarrow> string \<Rightarrow>
       extended_channel_error + 'ec"
  ec_on_new_template :: "'ec \<Rightarrow> new_template \<Rightarrow> tx_out list \<Rightarrow> (extended_channel_error + unit) \<times> 'ec"
  ec_on_set_new_prev_hash :: "'ec \<Rightarrow> set_new_prev_hash_tdp \<Rightarrow> (extended_channel_error + unit) \<times> 'ec"
  ec_on_set_custom_mining_job ::
    "'ec \<Rightarrow> set_custom_mining_job \<Rightarrow> (extended_channel_error + u32) \<times> 'ec"
  ec_update_channel :: "'ec \<Rightarrow> f32 \<Rightarrow> u256 option \<Rightarrow> (extended_channel_error + unit) \<times> 'ec"
  ec_validate_share ::
    "'ec \<Rightarrow> submit_shares_extended \<Rightarrow> (share_validation_error + share_validation_result) \<times> 'ec"
  ec_target :: "'ec \<Rightarrow> u256"
  ec_extranonce_prefix :: "'ec \<Rightarrow> bytes"
  ec_rollable_extranonce_size :: "'ec \<Rightarrow> u16"
  ec_user_identity :: "'ec \<Rightarrow> string"
  ec_nominal_hashrate :: "'ec \<Rightarrow> f32"
  ec_shares_per_minute :: "'ec \<Rightarrow> f32"
  ec_share_accounting :: "'ec \<Rightarrow> share_accounting"
  ec_future_template_to_job_id :: "'ec \<Rightarrow> u64 \<Rightarrow> u32 option"
  ec_future_jobs :: "'ec \<Rightarrow> u32 \<Rightarrow> job option"
  ec_active_job :: "'ec \<Rightarrow> job option"

record ('sc, 'ec, 'gc) group_lib = "('sc, 'ec) extended_lib" +
  gc_new_for_pool :: "u32 \<Rightarrow> usize \<Rightarrow> string \<Rightarrow> group_channel_error + 'gc"
  gc_on_new_template :: "'gc \<Rightarrow> new_template \<Rightarrow> tx_out list \<Rightarrow> (group_channel_error + unit) \<times> 'gc"
  gc_on_set_new_prev_hash :: "'gc \<Rightarrow> set_new_prev_hash_tdp \<Rightarrow> (group_channel_error + unit) \<times> 'gc"
  gc_group_channel_id :: "'gc \<Rightarrow> u32"
  gc_add_standard_channel_id :: "'gc \<Rightarrow> u32 \<Rightarrow> 'gc"
  gc_future_template_to_job_id :: "'gc \<Rightarrow> u64 \<Rightarrow> u32 option"
  gc_future_jobs :: "'gc \<Rightarrow> u32 \<Rightarrow> job option"
  gc_active_job :: "'gc \<Rightarrow> job option"

record ('sc, 'ec, 'gc, 'vd, 'xf) channel_lib = "('sc, 'ec, 'gc) group_lib" +
  vd_new :: "vardiff_error + 'vd"
  vd_increment_shares_since_last_update :: "'vd \<Rightarrow> 'vd"
  vd_try_vardiff :: "'vd \<Rightarrow> f32 \<Rightarrow> u256 \<Rightarrow> f32 \<Rightarrow> (vardiff_error + f32 option) \<times> 'vd"
  xf_new :: "bytes \<Rightarrow> 'xf option"
  xf_next_prefix_standard :: "'xf \<Rightarrow> (extranonce_error + bytes) \<times> 'xf"
  xf_next_prefix_extended :: "'xf \<Rightarrow> usize \<Rightarrow> (extranonce_error + bytes) \<times> 'xf"
  difficulty_float :: "u256 \<Rightarrow> f64"
  as_utf8_or_hex :: "bytes \<Rightarrow> string"
  b032_try_from :: "bytes \<Rightarrow> binary_error + bytes"
  b064k_try_from :: "bytes \<Rightarrow> binary_error + bytes"
  seq064k_new :: "u16 list \<Rightarrow> binary_error + u16 list"
  consensus_decode_outputs :: "bytes \<Rightarrow> encode_error + tx_out list"
  deserialize_outputs :: "bytes \<Rightarrow> tx_out list option"
  has_work_selection :: "u32 \<Rightarrow> bool"
  has_requires_std_job :: "u32 \<Rightarrow> bool"

section \<open>State\<close>

record ('sc, 'ec, 'gc) downstream_data =
  group_channels :: "'gc option"
  extended_channels :: "(channel_id, 'ec) hash_map"
  standard_channels :: "(channel_id, 'sc) hash_map"
  channel_id_factory :: u32
  negotiated_extensions :: "u16 list"

record ('sc, 'ec, 'gc) downstream =
  downstream_data :: "('sc, 'ec, 'gc) downstream_data"
  ds_id :: downstream_id
  requires_standard_jobs :: bool
  requires_custom_work :: bool
  ds_supported_extensions :: "u16 list"
  ds_required_extensions :: "u16 list"

type_synonym vardiff_key = "downstream_id \<times> channel_id"

record ('sc, 'ec, 'gc, 'vd, 'xf) channel_manager_data =
  cm_downstream :: "(downstream_id, ('sc, 'ec, 'gc) downstream) hash_map"
  extranonce_prefix_factory_extended :: 'xf
  extranonce_prefix_factory_standard :: 'xf
  downstream_id_factory :: usize
  vardiff :: "(vardiff_key, 'vd) hash_map"
  coinbase_outputs :: bytes
  last_new_prev_hash :: "set_new_prev_hash_tdp option"
  last_future_template :: "new_template option"

text \<open>The immutable part of \<open>ChannelManager\<close>.\<close>

record pool_config =
  pool_tag_string :: string
  share_batch_size :: usize
  shares_per_minute :: f32
  coinbase_reward_script_pubkey :: bytes
  supported_extensions :: "u16 list"
  required_extensions :: "u16 list"

text \<open>
  A channel manager as the handlers see it: the locked data, the events handed to
  \<open>Persistence::persist\<close> and the messages handed to \<open>RouteMessageTo::forward\<close>, both in
  the order of the calls.
\<close>

record ('sc, 'ec, 'gc, 'vd, 'xf) channel_manager =
  channel_manager_data :: "('sc, 'ec, 'gc, 'vd, 'xf) channel_manager_data"
  persisted :: "persistence_event list"
  forwarded :: "route_message_to list"

definition POOL_ALLOCATION_BYTES :: usize where
  "POOL_ALLOCATION_BYTES = 4"

definition CLIENT_SEARCH_SPACE_BYTES :: usize where
  "CLIENT_SEARCH_SPACE_BYTES = 16"

definition FULL_EXTRANONCE_SIZE :: usize where
  "FULL_EXTRANONCE_SIZE = POOL_ALLOCATION_BYTES + CLIENT_SEARCH_SPACE_BYTES"

text \<open>
  The end of a handler: the locked closure has returned, and on success its messages are
  forwarded one by one.
\<close>

definition forward_all ::
  "route_message_to list pool_result \<Rightarrow> ('sc, 'ec, 'gc, 'vd, 'xf) channel_manager \<Rightarrow>
     unit pool_result \<times> ('sc, 'ec, 'gc, 'vd, 'xf) channel_manager" where
  "forward_all r cm =
     (case r of
        Ok messages \<Rightarrow> (Ok (), cm\<lparr>forwarded := forwarded cm @ messages\<rparr>)
      | Err e \<Rightarrow> (Err e, cm)
      | Panic p \<Rightarrow> (Panic p, cm))"

text \<open>
  \<open>downstream.downstream_data.super_safe_lock(f)\<close> inside the channel manager's lock: \<open>f\<close>
  works on the data of one downstream and on the rest of the channel manager's data.
\<close>

definition lock_downstream ::
  "downstream_id \<Rightarrow> ('sc, 'ec, 'gc) downstream \<Rightarrow>
    (('sc, 'ec, 'gc, 'vd, 'xf) channel_manager_data \<times> ('sc, 'ec, 'gc) downstream_data \<Rightarrow>
       'a pool_result \<times> ('sc, 'ec, 'gc, 'vd, 'xf) channel_manager_data \<times> ('sc, 'ec, 'gc) downstream_data) \<Rightarrow>
    ('sc, 'ec, 'gc, 'vd, 'xf) channel_manager_data \<Rightarrow>
    'a pool_result \<times> ('sc, 'ec, 'gc, 'vd, 'xf) channel_manager_data" where
  "lock_downstream did ds f d =
     (case f (d, downstream_data ds) of
        (r, d', dd') \<Rightarrow>
          (r, d'\<lparr>cm_downstream := hm_insert did (ds\<lparr>downstream_data := dd'\<rparr>) (cm_downstream d')\<rparr>))"

end
