(* ===== verification/Jdc_Types.thy ===== *)
theory Jdc_Types
  imports Pool_Types
begin

text \<open>
  The data of the job declarator client (\<open>src/miner-apps/jd-client\<close>): its messages, errors
  and state, the operations of the external channel library that the pool does not use, and
  the queues between its tasks. Messages to miners, templates, jobs and the channel objects are
  those of \<open>Pool_Types\<close>.
\<close>

section \<open>Operating mode and upstream state\<close>

datatype jd_mode = CoinbaseOnly | FullTemplate | SoloMining

primrec jd_mode_as_u8 :: "jd_mode \<Rightarrow> u8" where
  "jd_mode_as_u8 CoinbaseOnly = 0"
| "jd_mode_as_u8 FullTemplate = 1"
| "jd_mode_as_u8 SoloMining = 2"

definition jd_mode_from_u8 :: "u8 \<Rightarrow> jd_mode" where
  "jd_mode_from_u8 v = (if v = 0 then CoinbaseOnly else if v = 1 then FullTemplate else SoloMining)"

lemma jd_mode_roundtrip [simp]: "jd_mode_from_u8 (jd_mode_as_u8 m) = m"
  by (cases m) (simp_all add: jd_mode_from_u8_def)

datatype upstream_state = NoChannel | Pending | Connected | SoloState

text \<open>\<open>AtomicUpstreamState::compare_and_set\<close>: the result and the state afterwards.\<close>

definition compare_and_set ::
  "upstream_state \<Rightarrow> upstream_state \<Rightarrow> upstream_state \<Rightarrow> (upstream_state + unit) \<times> upstream_state" where
  "compare_and_set current new s = (if s = current then (Inr (), new) else (Inl s, s))"

section \<open>Messages\<close>

datatype pending_request =
    ExtendedChannel downstream_id open_extended_mining_channel
  | StandardChannel downstream_id open_standard_mining_channel

primrec pending_downstream_id :: "pending_request \<Rightarrow> downstream_id" where
  "pending_downstream_id (ExtendedChannel i m) = i"
| "pending_downstream_id (StandardChannel i m) = i"

primrec pending_hashrate :: "pending_request \<Rightarrow> f32" where
  "pending_hashrate (ExtendedChannel i m) = oe_nominal_hash_rate m"
| "pending_hashrate (StandardChannel i m) = os_nominal_hash_rate m"

text \<open>
  Identifier of a job of a downstream channel: connection, channel and job.
\<close>

type_synonym downstream_channel_job_id = "downstream_id \<times> channel_id \<times> u32"

record allocate_token_success =
  at_request_id :: u32
  at_mining_job_token :: bytes
  at_coinbase_outputs :: bytes

record jdc_declare_mining_job =
  jd_request_id :: u32
  jd_mining_job_token :: bytes
  jd_version :: u32
  jd_coinbase_tx_prefix :: bytes
  jd_coinbase_tx_suffix :: bytes
  jd_tx_ids_list :: "u256 list"
  jd_excess_data :: bytes

record jdc_push_solution =
  so_extranonce :: bytes
  so_ntime :: u32
  so_nonce :: u32
  so_version :: u32
  so_nbits :: u32
  so_prev_hash :: u256

record custom_job_success =
  cs_channel_id :: u32
  cs_request_id :: u32
  cs_job_id :: u32

text \<open>Messages to the pool, to the job declarator server and to the template provider.\<close>

datatype upstream_mining =
    OpenExtendedUpstream open_extended_mining_channel
  | UpdateUpstream update_channel
  | SubmitUpstream submit_shares_extended
  | CustomJobUpstream set_custom_mining_job
  | CloseUpstream u32 string
  | RequestExtensions u16 "u16 list"

datatype jd_request =
    AllocateMiningJobToken u32 bytes
  | DeclareMiningJob jdc_declare_mining_job
  | ProvideMissingSuccess u32 "bytes list"
  | PushSolution jdc_push_solution

datatype tp_request =
    RequestTransactionData u64
  | CoinbaseOutputConstraints u32 u16
  | SolutionToProvider submit_solution

datatype jdc_route =
    ToUpstream upstream_mining
  | ToJobDeclarator jd_request
  | ToTemplateProvider tp_request
  | ToDownstream downstream_id mining

section \<open>Errors\<close>

text \<open>
  Errors of the client-side channel, of the job factory and of the conversion of a message to a
  frame carry a number. Of \<open>JDCError\<close> the constructors that the modelled code raises are named.
\<close>

datatype client_channel_error = ClientChannelError nat
datatype job_factory_error = JobFactoryError nat
datatype parser_error = ParserError nat

datatype jdc_channel_error =
    ExtendedChannelClientSide client_channel_error
  | ExtendedChannelServerSide extended_channel_error
  | StandardChannelServerSide standard_channel_error
  | GroupChannelServerSide group_channel_error

datatype jdc_error =
    BinarySv2 binary_error
  | FramingMissingHeader
  | Parser parser_error
  | ChannelErrorSender
  | Shutdown
  | UnexpectedMessage u16 u8
  | BitcoinEncodeError encode_error
  | LastDeclareJobNotFound u32
  | TokenNotFound
  | TemplateNotFound u64
  | DownstreamNotFound downstream_id
  | FutureTemplateNotPresent
  | LastNewPrevhashNotFound
  | VardiffNotFound vardiff_key
  | TxDataError
  | FailedToCreateCustomJob
  | ChannelManagerHasBadCoinbaseOutputs
  | DeclaredJobHasBadCoinbaseOutputs
  | ExtranonceSizeTooLarge
  | FailedToCreateGroupChannel group_channel_error
  | ChannelSv2 jdc_channel_error
  | ExtranoncePrefixFactoryError extranonce_error
  | RequiredExtensionsNotSupported "u16 list"
  | ServerRequiresUnsupportedExtensions "u16 list"
  | CodecNoise
  | ChannelErrorReceiver
  | InvalidUnsupportedExtensionsSequence
  | InvalidRequiredExtensionsSequence
  | InvalidSupportedExtensionsSequence

definition is_critical :: "jdc_error \<Rightarrow> bool" where
  "is_critical e =
     (case e of
        LastNewPrevhashNotFound \<Rightarrow> False
      | FutureTemplateNotPresent \<Rightarrow> False
      | LastDeclareJobNotFound _ \<Rightarrow> False
      | TokenNotFound \<Rightarrow> False
      | TemplateNotFound _ \<Rightarrow> False
      | DownstreamNotFound _ \<Rightarrow> False
      | VardiffNotFound _ \<Rightarrow> False
      | TxDataError \<Rightarrow> False
      | FailedToCreateCustomJob \<Rightarrow> False
      | RequiredExtensionsNotSupported _ \<Rightarrow> False
      | ServerRequiresUnsupportedExtensions _ \<Rightarrow> False
      | _ \<Rightarrow> True)"

datatype jdc_status = JobDeclaratorFallback | UpstreamFallback

section \<open>The channel library\<close>

text \<open>
  What the client uses beyond \<open>channel_lib\<close>: the constructors for a job declarator client, new
  extranonce prefixes for open channels, the client side of the upstream channel (\<open>'uc\<close>), the
  job factory (\<open>'jf\<close>) and conversions. \<open>xf_from_upstream p m t\<close> has the ranges \<open>0..p\<close>, \<open>p..m\<close> and
  \<open>m..t\<close>; \<open>xf_new_ranges m t\<close> has \<open>0..0\<close>, \<open>0..m\<close> and \<open>m..t\<close>.
\<close>

datatype client_share_error =
    CS_Invalid | CS_Stale | CS_InvalidJobId | CS_DoesNotMeetTarget | CS_DuplicateShare | CS_Other nat

datatype client_share_result = ClientValid u256 | ClientBlockFound u256

record ('sc, 'ec, 'gc, 'vd, 'xf, 'uc) jdc_channels = "('sc, 'ec, 'gc, 'vd, 'xf) channel_lib" +
  sc_new_for_jdc ::
    "channel_id \<Rightarrow> string \<Rightarrow> bytes \<Rightarrow> u256 \<Rightarrow> f32 \<Rightarrow> usize \<Rightarrow> f32 \<Rightarrow> string option \<Rightarrow> string \<Rightarrow>
       standard_channel_error + 'sc"
  ec_new_for_jdc ::
    "channel_id \<Rightarrow> string \<Rightarrow> bytes \<Rightarrow> u256 \<Rightarrow> f32 \<Rightarrow> bool \<Rightarrow> u16 \<Rightarrow> usize \<Rightarrow> f32 \<Rightarrow> string option \<Rightarrow>
       string \<Rightarrow> extended_channel_error + 'ec"
  gc_new_for_jdc :: "u32 \<Rightarrow> usize \<Rightarrow> string option \<Rightarrow> string \<Rightarrow> group_channel_error + 'gc"
  sc_set_extranonce_prefix :: "'sc \<Rightarrow> bytes \<Rightarrow> (standard_channel_error + unit) \<times> 'sc"
  ec_set_extranonce_prefix :: "'ec \<Rightarrow> bytes \<Rightarrow> (extended_channel_error + unit) \<times> 'ec"
  xf_new_ranges :: "usize \<Rightarrow> usize \<Rightarrow> 'xf option"
  xf_from_upstream :: "bytes \<Rightarrow> usize \<Rightarrow> usize \<Rightarrow> usize \<Rightarrow> extranonce_error + 'xf"
  up_new :: "u32 \<Rightarrow> string \<Rightarrow> bytes \<Rightarrow> u256 \<Rightarrow> f32 \<Rightarrow> bool \<Rightarrow> u16 \<Rightarrow> 'uc"
  up_on_chain_tip_update :: "'uc \<Rightarrow> set_new_prev_hash_tdp \<Rightarrow> (client_channel_error + unit) \<times> 'uc"
  up_on_custom_job_success ::
    "'uc \<Rightarrow> set_custom_mining_job \<Rightarrow> custom_job_success \<Rightarrow> (client_channel_error + unit) \<times> 'uc"
  up_set_extranonce_prefix :: "'uc \<Rightarrow> bytes \<Rightarrow> (client_channel_error + unit) \<times> 'uc"
  up_set_target :: "'uc \<Rightarrow> u256 \<Rightarrow> 'uc"
  up_validate_share ::
    "'uc \<Rightarrow> submit_shares_extended \<Rightarrow> (client_share_error + client_share_result) \<times> 'uc"
  up_channel_id :: "'uc \<Rightarrow> u32"
  up_extranonce_prefix :: "'uc \<Rightarrow> bytes"
  up_rollable_extranonce_size :: "'uc \<Rightarrow> u16"
  up_full_extranonce_size :: "'uc \<Rightarrow> usize"

record ('sc, 'ec, 'gc, 'vd, 'xf, 'uc, 'jf) jdc_lib = "('sc, 'ec, 'gc, 'vd, 'xf, 'uc) jdc_channels" +
  jf_new :: "bool \<Rightarrow> string option \<Rightarrow> string option \<Rightarrow> 'jf"
  jf_new_custom_job ::
    "'jf \<Rightarrow> u32 \<Rightarrow> u32 \<Rightarrow> bytes \<Rightarrow> set_new_prev_hash_tdp \<Rightarrow> new_template \<Rightarrow> tx_out list \<Rightarrow> usize \<Rightarrow>
       (job_factory_error + set_custom_mining_job) \<times> 'jf"
  jf_new_coinbase ::
    "'jf \<Rightarrow> new_template \<Rightarrow> tx_out list \<Rightarrow> usize \<Rightarrow> (job_factory_error + bytes \<times> bytes) \<times> 'jf"
  f32_add :: "f32 \<Rightarrow> f32 \<Rightarrow> f32"
  str0255_try_from :: "string \<Rightarrow> binary_error + bytes"
  b0255_try_from :: "bytes \<Rightarrow> binary_error + bytes"
  seq064k_hashes :: "u256 list \<Rightarrow> binary_error + u256 list"
  seq064k_bytes :: "bytes list \<Rightarrow> binary_error + bytes list"
  frame_try_from :: "upstream_mining \<Rightarrow> parser_error + unit"
  serialize_outputs :: "tx_out list \<Rightarrow> bytes"
  raw_txid :: "bytes \<Rightarrow> u256 option"
  tx_out_size :: "tx_out \<Rightarrow> usize"
  total_sigop_cost :: "tx_out list \<Rightarrow> usize"

section \<open>State\<close>

record ('sc, 'ec, 'gc) jdc_downstream_data = "('sc, 'ec, 'gc) downstream_data" +
  require_std_job :: bool
  dd_supported_extensions :: "u16 list"
  dd_required_extensions :: "u16 list"

record ('sc, 'ec, 'gc) jdc_downstream =
  jdc_downstream_data :: "('sc, 'ec, 'gc) jdc_downstream_data"
  jdc_downstream_id :: downstream_id

record declared_job =
  dj_declare_mining_job :: "jdc_declare_mining_job option"
  dj_template :: new_template
  dj_prev_hash :: "set_new_prev_hash_tdp option"
  dj_set_custom_mining_job :: "set_custom_mining_job option"
  dj_coinbase_output :: bytes
  dj_tx_list :: "bytes list"

record ('sc, 'ec, 'gc, 'vd, 'xf, 'uc, 'jf) jdc_data =
  jc_downstream :: "(downstream_id, ('sc, 'ec, 'gc) jdc_downstream) hash_map"
  jc_factory_extended :: 'xf
  jc_factory_standard :: 'xf
  jc_request_id_factory :: u32
  jc_downstream_id_factory :: usize
  jc_sequence_number_factory :: u32
  jc_last_future_template :: "new_template option"
  jc_last_new_prev_hash :: "set_new_prev_hash_tdp option"
  jc_allocate_tokens :: "allocate_token_success option"
  jc_template_store :: "(u64, new_template) hash_map"
  jc_last_declare_job_store :: "(u32, declared_job) hash_map"
  jc_template_to_upstream_job :: "(u64, u32) hash_map"
  jc_job_to_template :: "(downstream_channel_job_id, u64) hash_map"
  jc_coinbase_outputs :: bytes
  jc_upstream_channel :: "'uc option"
  jc_pool_tag_string :: "string option"
  jc_pending_requests :: "pending_request list"
  jc_job_factory :: "'jf option"
  jc_vardiff :: "(vardiff_key, 'vd) hash_map"
  jc_negotiated_extensions :: "u16 list"
  jc_supported_extensions :: "u16 list"
  jc_required_extensions :: "u16 list"

record jdc_config =
  miner_tag_string :: string
  jc_share_batch_size :: usize
  jc_shares_per_minute :: f32
  jc_user_identity :: string

text \<open>
  The channel manager with its queues: what it has sent to the upstream, the job declarator, the
  template provider, the connections and the status listener, and whether the receivers of these
  queues are still there. The queues have no bound. The operating mode is a global of the
  program.
\<close>

record ('sc, 'ec, 'gc, 'vd, 'xf, 'uc, 'jf) jdc =
  jc_data :: "('sc, 'ec, 'gc, 'vd, 'xf, 'uc, 'jf) jdc_data"
  jc_upstream_state :: upstream_state
  jc_mode :: jd_mode
  out_upstream :: "upstream_mining list"
  out_jd :: "jd_request list"
  out_tp :: "tp_request list"
  out_downstream :: "(downstream_id \<times> mining) list"
  out_status :: "jdc_status list"
  upstream_open :: bool
  jd_open :: bool
  tp_open :: bool
  status_open :: bool

type_synonym ('sc, 'ec, 'gc, 'vd, 'xf, 'uc, 'jf, 'a) jdc_step =
  "(jdc_error, 'a) res \<times> ('sc, 'ec, 'gc, 'vd, 'xf, 'uc, 'jf) jdc"

abbreviation upd_jc ::
  "(('sc, 'ec, 'gc, 'vd, 'xf, 'uc, 'jf) jdc_data \<Rightarrow> ('sc, 'ec, 'gc, 'vd, 'xf, 'uc, 'jf) jdc_data) \<Rightarrow>
     ('sc, 'ec, 'gc, 'vd, 'xf, 'uc, 'jf) jdc \<Rightarrow> ('sc, 'ec, 'gc, 'vd, 'xf, 'uc, 'jf) jdc" where
  "upd_jc f S \<equiv> S\<lparr>jc_data := f (jc_data S)\<rparr>"

definition JDC_SEARCH_SPACE_BYTES :: usize where
  "JDC_SEARCH_SPACE_BYTES = 4"

definition MAX_EXTRANONCE_LEN :: usize where
  "MAX_EXTRANONCE_LEN = 32"

section \<open>Queues\<close>

definition send_upstream ::
  "('sc, 'ec, 'gc, 'vd, 'xf, 'uc, 'jf) jdc_lib \<Rightarrow> upstream_mining \<Rightarrow>
     ('sc, 'ec, 'gc, 'vd, 'xf, 'uc, 'jf) jdc \<Rightarrow> ('sc, 'ec, 'gc, 'vd, 'xf, 'uc, 'jf, unit) jdc_step" where
  "send_upstream L m S =
     (case frame_try_from L m of
        Inl e \<Rightarrow> (Err (Parser e), S)
      | Inr _ \<Rightarrow>
          if upstream_open S then (Ok (), S\<lparr>out_upstream := out_upstream S @ [m]\<rparr>)
          else (Err ChannelErrorSender, S))"

definition send_jd ::
  "jd_request \<Rightarrow> ('sc, 'ec, 'gc, 'vd, 'xf, 'uc, 'jf) jdc \<Rightarrow>
     ('sc, 'ec, 'gc, 'vd, 'xf, 'uc, 'jf, unit) jdc_step" where
  "send_jd m S =
     (if jd_open S then (Ok (), S\<lparr>out_jd := out_jd S @ [m]\<rparr>) else (Err ChannelErrorSender, S))"

definition send_tp ::
  "tp_request \<Rightarrow> ('sc, 'ec, 'gc, 'vd, 'xf, 'uc, 'jf) jdc \<Rightarrow>
     ('sc, 'ec, 'gc, 'vd, 'xf, 'uc, 'jf, unit) jdc_step" where
  "send_tp m S =
     (if tp_open S then (Ok (), S\<lparr>out_tp := out_tp S @ [m]\<rparr>) else (Err ChannelErrorSender, S))"

definition jdc_send_status ::
  "jdc_status \<Rightarrow> ('sc, 'ec, 'gc, 'vd, 'xf, 'uc, 'jf) jdc \<Rightarrow>
     ('sc, 'ec, 'gc, 'vd, 'xf, 'uc, 'jf, unit) jdc_step" where
  "jdc_send_status m S =
     (if status_open S then (Ok (), S\<lparr>out_status := out_status S @ [m]\<rparr>) else (Err ChannelErrorSender, S))"

text \<open>\<open>_ = f()\<close>: an error is dropped, a panic is not.\<close>

definition ignore_err :: "('e, 'a) res \<times> 's \<Rightarrow> ('e, unit) res \<times> 's" where
  "ignore_err m = (case m of (Panic p, s) \<Rightarrow> (Panic p, s) | (_, s) \<Rightarrow> (Ok (), s))"

text \<open>
  \<open>RouteMessageTo::forward\<close>: only the conversion of a message to the upstream can fail, and in
  solo mode nothing is sent to the upstream.
\<close>

fun forward ::
  "('sc, 'ec, 'gc, 'vd, 'xf, 'uc, 'jf) jdc_lib \<Rightarrow> jdc_route \<Rightarrow>
     ('sc, 'ec, 'gc, 'vd, 'xf, 'uc, 'jf) jdc \<Rightarrow> ('sc, 'ec, 'gc, 'vd, 'xf, 'uc, 'jf, unit) jdc_step" where
  "forward L (ToDownstream i m) S = (Ok (), S\<lparr>out_downstream := out_downstream S @ [(i, m)]\<rparr>)"
| "forward L (ToUpstream m) S =
     (if jc_mode S = SoloMining then (Ok (), S)
      else case frame_try_from L m of
             Inl e \<Rightarrow> (Err (Parser e), S)
           | Inr _ \<Rightarrow> ignore_err (send_upstream L m S))"
| "forward L (ToJobDeclarator m) S = ignore_err (send_jd m S)"
| "forward L (ToTemplateProvider m) S = ignore_err (send_tp m S)"

primrec forward_each ::
  "('sc, 'ec, 'gc, 'vd, 'xf, 'uc, 'jf) jdc_lib \<Rightarrow> jdc_route list \<Rightarrow>
     ('sc, 'ec, 'gc, 'vd, 'xf, 'uc, 'jf) jdc \<Rightarrow> ('sc, 'ec, 'gc, 'vd, 'xf, 'uc, 'jf, unit) jdc_step" where
  "forward_each L [] S = (Ok (), S)"
| "forward_each L (m # ms) S = and_then (ignore_err (forward L m S)) (\<lambda>_. forward_each L ms)"

text \<open>The variant of \<open>handle_submit_shares_extended\<close>, which stops at the first error.\<close>

primrec forward_try ::
  "('sc, 'ec, 'gc, 'vd, 'xf, 'uc, 'jf) jdc_lib \<Rightarrow> jdc_route list \<Rightarrow>
     ('sc, 'ec, 'gc, 'vd, 'xf, 'uc, 'jf) jdc \<Rightarrow> ('sc, 'ec, 'gc, 'vd, 'xf, 'uc, 'jf, unit) jdc_step" where
  "forward_try L [] S = (Ok (), S)"
| "forward_try L (m # ms) S = and_then (forward L m S) (\<lambda>_. forward_try L ms)"

text \<open>
  The end of a handler that ran a closure under the lock of the data.
\<close>

definition locked ::
  "(('sc, 'ec, 'gc, 'vd, 'xf, 'uc, 'jf) jdc_data \<Rightarrow>
      (jdc_error, 'a) res \<times> ('sc, 'ec, 'gc, 'vd, 'xf, 'uc, 'jf) jdc_data) \<Rightarrow>
     ('sc, 'ec, 'gc, 'vd, 'xf, 'uc, 'jf) jdc \<Rightarrow> ('sc, 'ec, 'gc, 'vd, 'xf, 'uc, 'jf, 'a) jdc_step" where
  "locked f S = (case f (jc_data S) of (r, d) \<Rightarrow> (r, S\<lparr>jc_data := d\<rparr>))"

text \<open>The lock of a connection's data inside the lock of the channel manager's data.\<close>

definition lock_jdc_downstream ::
  "downstream_id \<Rightarrow> ('sc, 'ec, 'gc) jdc_downstream \<Rightarrow>
    (('sc, 'ec, 'gc, 'vd, 'xf, 'uc, 'jf) jdc_data \<times> ('sc, 'ec, 'gc) jdc_downstream_data \<Rightarrow>
       (jdc_error, 'a) res \<times> ('sc, 'ec, 'gc, 'vd, 'xf, 'uc, 'jf) jdc_data \<times>
         ('sc, 'ec, 'gc) jdc_downstream_data) \<Rightarrow>
    ('sc, 'ec, 'gc, 'vd, 'xf, 'uc, 'jf) jdc_data \<Rightarrow>
    (jdc_error, 'a) res \<times> ('sc, 'ec, 'gc, 'vd, 'xf, 'uc, 'jf) jdc_data" where
  "lock_jdc_downstream did ds f d =
     (case f (d, jdc_downstream_data ds) of
        (r, d', dd') \<Rightarrow>
          (r, d'\<lparr>jc_downstream := hm_insert did (ds\<lparr>jdc_downstream_data := dd'\<rparr>) (jc_downstream d')\<rparr>))"

text \<open>
  \<open>for (k, v) in m.iter_mut()\<close> with a body that changes the value and a state beside the map and
  appends to a vector.
\<close>

fun hm_iter_state ::
  "('k \<Rightarrow> 'v \<Rightarrow> 's \<Rightarrow> ('e, 'o list) res \<times> 'v \<times> 's) \<Rightarrow> ('k, 'v) hash_map \<Rightarrow> 's \<Rightarrow>
     ('e, 'o list) res \<times> ('k, 'v) hash_map \<times> 's" where
  "hm_iter_state f [] s = (Ok [], [], s)"
| "hm_iter_state f ((k, v) # m) s =
     (case f k v s of
        (Ok out, v', s') \<Rightarrow>
          (case hm_iter_state f m s' of (r, m', s'') \<Rightarrow> (map_res ((@) out) r, (k, v') # m', s''))
      | (Err e, v', s') \<Rightarrow> (Err e, (k, v') # m, s')
      | (Panic p, v', s') \<Rightarrow> (Panic p, (k, v') # m, s'))"

end
