(* ===== verification/Jdc_Mining.thy ===== *)
theory Jdc_Mining
  imports Jdc_Types
begin

text \<open>
  The handlers of the job declarator client for mining messages of its miners
  (\<open>channel_manager/downstream_message_handler.rs\<close>): closing and opening channels, channel updates
  and shares, which are validated twice, on the miner's channel and on the upstream channel.
\<close>

type_synonym ('sc, 'ec, 'gc, 'vd, 'xf, 'uc, 'jf) jdc_pair =
  "('sc, 'ec, 'gc, 'vd, 'xf, 'uc, 'jf) jdc_data \<times> ('sc, 'ec, 'gc) jdc_downstream_data"

type_synonym ('sc, 'ec, 'gc, 'vd, 'xf, 'uc, 'jf, 'a) jdc_closure =
  "(jdc_error, 'a) res \<times> ('sc, 'ec, 'gc, 'vd, 'xf, 'uc, 'jf) jdc_pair"

section \<open>Closing a channel\<close>

definition jdc_close_channel ::
  "downstream_id \<Rightarrow> channel_id \<Rightarrow> ('sc, 'ec, 'gc, 'vd, 'xf, 'uc, 'jf) jdc \<Rightarrow>
     ('sc, 'ec, 'gc, 'vd, 'xf, 'uc, 'jf, unit) jdc_step" where
  "jdc_close_channel did cid =
     locked (\<lambda>d. case hm_get (jc_downstream d) did of
        None \<Rightarrow> (Err (DownstreamNotFound did), d)
      | Some ds \<Rightarrow>
          let dd = jdc_downstream_data ds;
              dd' = dd\<lparr>extended_channels := hm_remove cid (extended_channels dd),
                       standard_channels := hm_remove cid (standard_channels dd)\<rparr>
          in (Ok (), d\<lparr>jc_downstream := hm_insert did (ds\<lparr>jdc_downstream_data := dd'\<rparr>) (jc_downstream d),
                       jc_vardiff := hm_remove (did, cid) (jc_vardiff d)\<rparr>))"

section \<open>Opening a standard channel\<close>

definition full_extranonce_size ::
  "('sc, 'ec, 'gc, 'vd, 'xf, 'uc, 'jf) jdc_lib \<Rightarrow> 'uc option \<Rightarrow> usize" where
  "full_extranonce_size L u = (case u of None \<Rightarrow> 32 | Some uc \<Rightarrow> up_full_extranonce_size L uc)"

definition jdc_ensure_group ::
  "('sc, 'ec, 'gc, 'vd, 'xf, 'uc, 'jf) jdc_lib \<Rightarrow> jdc_config \<Rightarrow> new_template \<Rightarrow> set_new_prev_hash_tdp \<Rightarrow>
     tx_out list \<Rightarrow> ('sc, 'ec, 'gc, 'vd, 'xf, 'uc, 'jf) jdc_pair \<Rightarrow>
     ('sc, 'ec, 'gc, 'vd, 'xf, 'uc, 'jf, unit) jdc_closure" where
  "jdc_ensure_group L cfg template prev_hash outputs s =
     (case s of (d, dd) \<Rightarrow>
      if \<not> require_std_job dd \<and> group_channels dd = None then
        (let gid = fst (fetch_add (channel_id_factory dd));
             dd1 = dd\<lparr>channel_id_factory := snd (fetch_add (channel_id_factory dd))\<rparr> in
         case gc_new_for_jdc L gid (full_extranonce_size L (jc_upstream_channel d))
                (jc_pool_tag_string d) (miner_tag_string cfg) of
           Inl e \<Rightarrow> (Err (FailedToCreateGroupChannel e), d, dd1)
         | Inr gc \<Rightarrow>
             (case gc_on_new_template L gc template outputs of
                (Inl e, gc1) \<Rightarrow> (Err (ChannelSv2 (GroupChannelServerSide e)), d, dd1)
              | (Inr _, gc1) \<Rightarrow>
                  (case gc_on_set_new_prev_hash L gc1 prev_hash of
                     (Inl e, gc2) \<Rightarrow> (Err (ChannelSv2 (GroupChannelServerSide e)), d, dd1)
                   | (Inr _, gc2) \<Rightarrow> (Ok (), d, dd1\<lparr>group_channels := Some gc2\<rparr>))))
      else (Ok (), d, dd))"

definition jdc_activation :: "set_new_prev_hash_tdp \<Rightarrow> channel_id \<Rightarrow> u32 \<Rightarrow> set_new_prev_hash" where
  "jdc_activation prev_hash cid jid =
     \<lparr>sp_channel_id = cid, sp_job_id = jid, sp_prev_hash = ph_prev_hash prev_hash,
      sp_min_ntime = ph_header_timestamp prev_hash, sp_nbits = ph_n_bits prev_hash\<rparr>"

text \<open>
  From the created channel on: the success message, the future job, its activation, and the
  registration of the channel with its vardiff state and of the template of the job.
\<close>

definition jdc_finish_standard ::
  "('sc, 'ec, 'gc, 'vd, 'xf, 'uc, 'jf) jdc_lib \<Rightarrow> downstream_id \<Rightarrow> request_id \<Rightarrow> channel_id \<Rightarrow> u32 \<Rightarrow> 'sc \<Rightarrow>
     new_template \<Rightarrow> set_new_prev_hash_tdp \<Rightarrow> tx_out list \<Rightarrow>
     ('sc, 'ec, 'gc, 'vd, 'xf, 'uc, 'jf) jdc_pair \<Rightarrow>
     ('sc, 'ec, 'gc, 'vd, 'xf, 'uc, 'jf, jdc_route list) jdc_closure" where
  "jdc_finish_standard L did rid cid gid sc template prev_hash outputs s =
     (case s of (d, dd) \<Rightarrow>
      case b032_try_from L (sc_extranonce_prefix L sc) of
        Inl e \<Rightarrow> (Panic ''extranonce_prefix must be valid'', d, dd)
      | Inr pfx \<Rightarrow>
        let success = \<lparr>oss_request_id = rid, oss_channel_id = cid, oss_target = sc_target L sc,
                       oss_extranonce_prefix = pfx, oss_group_channel_id = gid\<rparr> in
        case sc_on_new_template L sc template outputs of
          (Inl e, sc1) \<Rightarrow> (Err (ChannelSv2 (StandardChannelServerSide e)), d, dd)
        | (Inr _, sc1) \<Rightarrow>
          (case sc_future_template_to_job_id L sc1 (nt_template_id template) of
             None \<Rightarrow> (Panic ''future job id must exist'', d, dd)
           | Some jid \<Rightarrow>
             (case sc_future_jobs L sc1 jid of
                None \<Rightarrow> (Panic ''future job must exist'', d, dd)
              | Some future_job \<Rightarrow>
                (case sc_on_set_new_prev_hash L sc1 prev_hash of
                   (Inl e, sc2) \<Rightarrow> (Err (ChannelSv2 (StandardChannelServerSide e)), d, dd)
                 | (Inr _, sc2) \<Rightarrow>
                   (case vd_new L of
                      Inl e \<Rightarrow> (Panic ''Vardiff state should instantiate.'', d, dd)
                    | Inr vd \<Rightarrow>
                        (Ok [ToDownstream did (OpenStandardMiningChannelSuccess success),
                             ToDownstream did (NewMiningJob (job_msg future_job)),
                             ToDownstream did (SetNewPrevHash (jdc_activation prev_hash cid jid))],
                         d\<lparr>jc_vardiff := hm_insert (did, cid) vd (jc_vardiff d),
                           jc_job_to_template :=
                             hm_insert (did, cid, jid) (nt_template_id template) (jc_job_to_template d)\<rparr>,
                         dd\<lparr>standard_channels := hm_insert cid sc2 (standard_channels dd),
                            group_channels :=
                              map_option (\<lambda>gc. gc_add_standard_channel_id L gc cid) (group_channels dd)\<rparr>))))))"

definition jdc_open_error :: "downstream_id \<Rightarrow> request_id \<Rightarrow> string \<Rightarrow> jdc_route list" where
  "jdc_open_error did rid code = [ToDownstream did (OpenMiningChannelError rid code)]"

definition jdc_create_standard ::
  "('sc, 'ec, 'gc, 'vd, 'xf, 'uc, 'jf) jdc_lib \<Rightarrow> jdc_config \<Rightarrow> downstream_id \<Rightarrow>
     open_standard_mining_channel \<Rightarrow> new_template \<Rightarrow> set_new_prev_hash_tdp \<Rightarrow> tx_out list \<Rightarrow>
     ('sc, 'ec, 'gc, 'vd, 'xf, 'uc, 'jf) jdc_pair \<Rightarrow>
     ('sc, 'ec, 'gc, 'vd, 'xf, 'uc, 'jf, jdc_route list) jdc_closure" where
  "jdc_create_standard L cfg did msg template prev_hash outputs s =
     (case s of (d, dd) \<Rightarrow>
      let gid = (case group_channels dd of None \<Rightarrow> 0 | Some gc \<Rightarrow> gc_group_channel_id L gc);
          cid = fst (fetch_add (channel_id_factory dd));
          dd1 = dd\<lparr>channel_id_factory := snd (fetch_add (channel_id_factory dd))\<rparr> in
      case xf_next_prefix_standard L (jc_factory_standard d) of (r, xf) \<Rightarrow>
      let d1 = d\<lparr>jc_factory_standard := xf\<rparr> in
      case r of
        Inl e \<Rightarrow> (Err (ExtranoncePrefixFactoryError e), d1, dd1)
      | Inr pfx \<Rightarrow>
        (case sc_new_for_jdc L cid (as_utf8_or_hex L (os_user_identity msg)) pfx (os_max_target msg)
                (os_nominal_hash_rate msg) (jc_share_batch_size cfg) (jc_shares_per_minute cfg)
                (jc_pool_tag_string d1) (miner_tag_string cfg) of
           Inl SC_InvalidNominalHashrate \<Rightarrow>
             (Ok (jdc_open_error did (os_request_id msg) ''invalid-nominal-hashrate''), d1, dd1)
         | Inl SC_RequestedMaxTargetOutOfRange \<Rightarrow>
             (Ok (jdc_open_error did (os_request_id msg) ''max-target-out-of-range''), d1, dd1)
         | Inl (SC_Other n) \<Rightarrow> (Err (ChannelSv2 (StandardChannelServerSide (SC_Other n))), d1, dd1)
         | Inr sc \<Rightarrow>
             jdc_finish_standard L did (os_request_id msg) cid gid sc template prev_hash outputs (d1, dd1)))"

definition jdc_open_standard ::
  "('sc, 'ec, 'gc, 'vd, 'xf, 'uc, 'jf) jdc_lib \<Rightarrow> jdc_config \<Rightarrow> downstream_id \<Rightarrow>
     open_standard_mining_channel \<Rightarrow> ('sc, 'ec, 'gc, 'vd, 'xf, 'uc, 'jf) jdc \<Rightarrow>
     ('sc, 'ec, 'gc, 'vd, 'xf, 'uc, 'jf, unit) jdc_step" where
  "jdc_open_standard L cfg did msg S =
     (case deserialize_outputs L (jc_coinbase_outputs (jc_data S)) of
        None \<Rightarrow> (Err ChannelManagerHasBadCoinbaseOutputs, S)
      | Some outputs \<Rightarrow>
          and_then
            (locked (\<lambda>d.
               case jc_last_future_template d of
                 None \<Rightarrow> (Err FutureTemplateNotPresent, d)
               | Some template \<Rightarrow>
                   (case jc_last_new_prev_hash d of
                      None \<Rightarrow> (Err LastNewPrevhashNotFound, d)
                    | Some prev_hash \<Rightarrow>
                        (case hm_get (jc_downstream d) did of
                           None \<Rightarrow> (Err (DownstreamNotFound did), d)
                         | Some ds \<Rightarrow>
                             (case outputs of
                                [] \<Rightarrow> (Panic ''index out of bounds'', d)
                              | out # outs \<Rightarrow>
                                  let outputs' = out\<lparr>tx_value := nt_coinbase_tx_value_remaining template\<rparr> # outs in
                                  lock_jdc_downstream did ds
                                    (\<lambda>s. and_then (jdc_ensure_group L cfg template prev_hash outputs' s)
                                       (\<lambda>_. jdc_create_standard L cfg did msg template prev_hash outputs')) d)))) S)
            (\<lambda>messages. forward_each L messages))"

section \<open>Opening an extended channel\<close>

definition jdc_finish_extended ::
  "('sc, 'ec, 'gc, 'vd, 'xf, 'uc, 'jf) jdc_lib \<Rightarrow> downstream_id \<Rightarrow> request_id \<Rightarrow> channel_id \<Rightarrow> 'ec \<Rightarrow>
     new_template \<Rightarrow> set_new_prev_hash_tdp \<Rightarrow> ('sc, 'ec, 'gc, 'vd, 'xf, 'uc, 'jf) jdc_pair \<Rightarrow>
     ('sc, 'ec, 'gc, 'vd, 'xf, 'uc, 'jf, jdc_route list) jdc_closure" where
  "jdc_finish_extended L did rid cid ec template prev_hash s =
     (case s of (d, dd) \<Rightarrow>
      case b032_try_from L (ec_extranonce_prefix L ec) of
        Inl e \<Rightarrow> (Panic ''valid extranonce prefix'', d, dd)
      | Inr pfx \<Rightarrow>
        let success = \<lparr>oes_request_id = rid, oes_channel_id = cid, oes_target = ec_target L ec,
                       oes_extranonce_prefix = pfx, oes_extranonce_size = ec_rollable_extranonce_size L ec\<rparr> in
        (case deserialize_outputs L (jc_coinbase_outputs d) of
           None \<Rightarrow> (Err ChannelManagerHasBadCoinbaseOutputs, d, dd)
         | Some [] \<Rightarrow> (Panic ''index out of bounds'', d, dd)
         | Some (out # outs) \<Rightarrow>
           (case ec_on_new_template L ec template
                   (out\<lparr>tx_value := nt_coinbase_tx_value_remaining template\<rparr> # outs) of
              (Inl e, ec1) \<Rightarrow> (Err (ChannelSv2 (ExtendedChannelServerSide e)), d, dd)
            | (Inr _, ec1) \<Rightarrow>
              (case ec_future_template_to_job_id L ec1 (nt_template_id template) of
                 None \<Rightarrow> (Panic ''future job id must exist'', d, dd)
               | Some jid \<Rightarrow>
                 (case ec_future_jobs L ec1 jid of
                    None \<Rightarrow> (Panic ''future job must exist'', d, dd)
                  | Some future_job \<Rightarrow>
                    (case ec_on_set_new_prev_hash L ec1 prev_hash of
                       (Inl e, ec2) \<Rightarrow> (Err (ChannelSv2 (ExtendedChannelServerSide e)), d, dd)
                     | (Inr _, ec2) \<Rightarrow>
                       (case vd_new L of
                          Inl e \<Rightarrow> (Panic ''Vardiff should instantiate.'', d, dd)
                        | Inr vd \<Rightarrow>
                            (Ok [ToDownstream did (OpenExtendedMiningChannelSuccess success),
                                 ToDownstream did (NewExtendedMiningJob (job_msg future_job)),
                                 ToDownstream did (SetNewPrevHash (jdc_activation prev_hash cid jid))],
                             d\<lparr>jc_vardiff := hm_insert (did, cid) vd (jc_vardiff d),
                               jc_job_to_template :=
                                 hm_insert (did, cid, jid) (nt_template_id template) (jc_job_to_template d)\<rparr>,
                             dd\<lparr>extended_channels := hm_insert cid ec2 (extended_channels dd)\<rparr>))))))))"

definition jdc_create_extended ::
  "('sc, 'ec, 'gc, 'vd, 'xf, 'uc, 'jf) jdc_lib \<Rightarrow> jdc_config \<Rightarrow> downstream_id \<Rightarrow>
     open_extended_mining_channel \<Rightarrow> new_template \<Rightarrow> set_new_prev_hash_tdp \<Rightarrow>
     ('sc, 'ec, 'gc, 'vd, 'xf, 'uc, 'jf) jdc_pair \<Rightarrow>
     ('sc, 'ec, 'gc, 'vd, 'xf, 'uc, 'jf, jdc_route list) jdc_closure" where
  "jdc_create_extended L cfg did msg template prev_hash s =
     (case s of (d, dd) \<Rightarrow>
      let cid = fst (fetch_add (channel_id_factory dd));
          dd1 = dd\<lparr>channel_id_factory := snd (fetch_add (channel_id_factory dd))\<rparr> in
      case xf_next_prefix_extended L (jc_factory_extended d) (ucast (oe_min_extranonce_size msg)) of (r, xf) \<Rightarrow>
      let d1 = d\<lparr>jc_factory_extended := xf\<rparr> in
      case r of
        Inl e \<Rightarrow> (Err (ExtranoncePrefixFactoryError e), d1, dd1)
      | Inr pfx \<Rightarrow>
        (case ec_new_for_jdc L cid (as_utf8_or_hex L (oe_user_identity msg)) pfx (oe_max_target msg)
                (oe_nominal_hash_rate msg) True (oe_min_extranonce_size msg) (jc_share_batch_size cfg)
                (jc_shares_per_minute cfg) (jc_pool_tag_string d1) (miner_tag_string cfg) of
           Inl EC_InvalidNominalHashrate \<Rightarrow>
             (Ok (jdc_open_error did (oe_request_id msg) ''invalid-nominal-hashrate''), d1, dd1)
         | Inl EC_RequestedMaxTargetOutOfRange \<Rightarrow>
             (Ok (jdc_open_error did (oe_request_id msg) ''max-target-out-of-range''), d1, dd1)
         | Inl EC_RequestedMinExtranonceSizeTooLarge \<Rightarrow>
             (Ok (jdc_open_error did (oe_request_id msg) ''min-extranonce-size-too-large''), d1, dd1)
         | Inl (EC_Other n) \<Rightarrow> (Err (ChannelSv2 (ExtendedChannelServerSide (EC_Other n))), d1, dd1)
         | Inr ec \<Rightarrow>
             jdc_finish_extended L did (oe_request_id msg) cid ec template prev_hash (d1, dd1)))"

definition jdc_open_extended ::
  "('sc, 'ec, 'gc, 'vd, 'xf, 'uc, 'jf) jdc_lib \<Rightarrow> jdc_config \<Rightarrow> downstream_id \<Rightarrow>
     open_extended_mining_channel \<Rightarrow> ('sc, 'ec, 'gc, 'vd, 'xf, 'uc, 'jf) jdc \<Rightarrow>
     ('sc, 'ec, 'gc, 'vd, 'xf, 'uc, 'jf, unit) jdc_step" where
  "jdc_open_extended L cfg did msg S =
     and_then
       (locked (\<lambda>d.
          case jc_last_future_template d of
            None \<Rightarrow> (Err FutureTemplateNotPresent, d)
          | Some template \<Rightarrow>
              (case jc_last_new_prev_hash d of
                 None \<Rightarrow> (Err LastNewPrevhashNotFound, d)
               | Some prev_hash \<Rightarrow>
                   (case hm_get (jc_downstream d) did of
                      None \<Rightarrow> (Err (DownstreamNotFound did), d)
                    | Some ds \<Rightarrow>
                        lock_jdc_downstream did ds (jdc_create_extended L cfg did msg template prev_hash) d))) S)
       (\<lambda>messages. forward_each L messages)"

section \<open>Channel updates\<close>

definition jdc_update_error :: "downstream_id \<Rightarrow> channel_id \<Rightarrow> string \<Rightarrow> jdc_route" where
  "jdc_update_error did cid code = ToDownstream did (UpdateChannelError cid code)"

text \<open>
  The target announced is the one the channel has after the update, also when the update failed
  with an internal error.
\<close>

definition jdc_update_downstream ::
  "('sc, 'ec, 'gc, 'vd, 'xf, 'uc, 'jf) jdc_lib \<Rightarrow> downstream_id \<Rightarrow> update_channel \<Rightarrow>
     ('sc, 'ec, 'gc) jdc_downstream_data \<Rightarrow> jdc_route list \<times> ('sc, 'ec, 'gc) jdc_downstream_data" where
  "jdc_update_downstream L did msg dd =
     (let cid = uc_channel_id msg in
      case hm_get (standard_channels dd) cid of
        Some sc \<Rightarrow>
          (case sc_update_channel L sc (uc_nominal_hash_rate msg) (Some (uc_maximum_target msg)) of (r, sc1) \<Rightarrow>
             let dd1 = dd\<lparr>standard_channels := hm_insert cid sc1 (standard_channels dd)\<rparr> in
             (case r of
                Inl SC_InvalidNominalHashrate \<Rightarrow> [jdc_update_error did cid ''invalid-nominal-hashrate'']
              | Inl SC_RequestedMaxTargetOutOfRange \<Rightarrow>
                  [jdc_update_error did cid ''requested-max-target-out-of-range'']
              | _ \<Rightarrow> [ToDownstream did (SetTarget cid (sc_target L sc1))], dd1))
      | None \<Rightarrow>
          (case hm_get (extended_channels dd) cid of
             Some ec \<Rightarrow>
               (case ec_update_channel L ec (uc_nominal_hash_rate msg) (Some (uc_maximum_target msg)) of (r, ec1) \<Rightarrow>
                  let dd1 = dd\<lparr>extended_channels := hm_insert cid ec1 (extended_channels dd)\<rparr> in
                  (case r of
                     Inl EC_InvalidNominalHashrate \<Rightarrow> [jdc_update_error did cid ''invalid-nominal-hashrate'']
                   | Inl EC_RequestedMaxTargetOutOfRange \<Rightarrow>
                       [jdc_update_error did cid ''requested-max-target-out-of-range'']
                   | _ \<Rightarrow> [ToDownstream did (SetTarget cid (ec_target L ec1))], dd1))
           | None \<Rightarrow> ([jdc_update_error did cid ''invalid-channel-id''], dd)))"

text \<open>Hashrate and target of every channel of every connection, in the order of iteration.\<close>

definition channel_loads ::
  "('sc, 'ec, 'gc, 'vd, 'xf, 'uc, 'jf) jdc_lib \<Rightarrow>
     (downstream_id, ('sc, 'ec, 'gc) jdc_downstream) hash_map \<Rightarrow> (f32 \<times> u256) list" where
  "channel_loads L m =
     concat (map (\<lambda>(i, ds).
       map (\<lambda>(c, sc). (sc_nominal_hashrate L sc, sc_target L sc)) (standard_channels (jdc_downstream_data ds)) @
       map (\<lambda>(c, ec). (ec_nominal_hashrate L ec, ec_target L ec)) (extended_channels (jdc_downstream_data ds))) m)"

definition jdc_total_hashrate :: "('sc, 'ec, 'gc, 'vd, 'xf, 'uc, 'jf) jdc_lib \<Rightarrow> (f32 \<times> u256) list \<Rightarrow> f32" where
  "jdc_total_hashrate L loads = fold (\<lambda>(h, t) s. f32_add L s h) loads 0"

definition minimum_target :: "(f32 \<times> u256) list \<Rightarrow> u256" where
  "minimum_target loads = fold (\<lambda>(h, t) m. min t m) loads (- 1)"

definition jdc_update_channel ::
  "('sc, 'ec, 'gc, 'vd, 'xf, 'uc, 'jf) jdc_lib \<Rightarrow> downstream_id \<Rightarrow> update_channel \<Rightarrow>
     ('sc, 'ec, 'gc, 'vd, 'xf, 'uc, 'jf) jdc \<Rightarrow> ('sc, 'ec, 'gc, 'vd, 'xf, 'uc, 'jf, unit) jdc_step" where
  "jdc_update_channel L did msg S =
     and_then
       (locked (\<lambda>d.
          let (answer, d1) =
                (case hm_get (jc_downstream d) did of
                   None \<Rightarrow> ([], d)
                 | Some ds \<Rightarrow>
                     (case jdc_update_downstream L did msg (jdc_downstream_data ds) of (ms, dd) \<Rightarrow>
                        (ms, d\<lparr>jc_downstream := hm_insert did (ds\<lparr>jdc_downstream_data := dd\<rparr>) (jc_downstream d)\<rparr>)));
              loads = channel_loads L (jc_downstream d1);
              up = (case jc_upstream_channel d1 of
                      None \<Rightarrow> []
                    | Some uc \<Rightarrow>
                        [ToUpstream (UpdateUpstream \<lparr>uc_channel_id = up_channel_id L uc,
                           uc_nominal_hash_rate = jdc_total_hashrate L loads,
                           uc_maximum_target = minimum_target loads\<rparr>)])
          in (Ok (answer @ up), d1)) S)
       (\<lambda>messages. forward_each L messages)"

section \<open>Shares\<close>

definition jdc_share_success :: "channel_id \<Rightarrow> share_accounting \<Rightarrow> submit_shares_success" where
  "jdc_share_success cid acc =
     \<lparr>sss_channel_id = cid, sss_last_sequence_number = last_share_sequence_number acc,
      sss_new_submits_accepted_count = last_batch_accepted acc,
      sss_new_shares_sum = f64_as_u64 (last_batch_work_sum acc)\<rparr>"

text \<open>
  The match on the validation by the miner's channel: the messages so far and whether the share
  is valid. Errors that have no code are \<open>unreachable!()\<close>.
\<close>

definition answer_share ::
  "('sc, 'ec, 'gc, 'vd, 'xf, 'uc, 'jf) jdc_lib \<Rightarrow> downstream_id \<Rightarrow> downstream_id \<Rightarrow>
     'a submit_shares_standard_scheme \<Rightarrow> share_accounting \<Rightarrow>
     share_validation_error + share_validation_result \<Rightarrow> (jdc_error, jdc_route list \<times> bool) res" where
  "answer_share L did owner msg acc res =
     (let cid = sh_channel_id msg;
          success = ToDownstream owner (SubmitSharesSuccess (jdc_share_success cid acc));
          failed = (\<lambda>code. Ok ([ToDownstream did (SubmitSharesError cid (sh_sequence_number msg) code)], False)) in
      case res of
        Inr (Valid h) \<Rightarrow> Ok (if should_acknowledge acc then [success] else [], True)
      | Inr (BlockFound h tid coinbase) \<Rightarrow>
          (case tid of
             None \<Rightarrow> Ok ([success], True)
           | Some t \<Rightarrow>
               (case b064k_try_from L coinbase of
                  Inl e \<Rightarrow> Err (BinarySv2 e)
                | Inr cb \<Rightarrow>
                    Ok ([ToTemplateProvider (SolutionToProvider
                           \<lparr>ss_template_id = t, ss_version = sh_version msg,
                            ss_header_timestamp = sh_ntime msg, ss_header_nonce = sh_nonce msg,
                            ss_coinbase_tx = cb\<rparr>), success], True)))
      | Inl SV_Invalid \<Rightarrow> failed ''invalid-share''
      | Inl SV_Stale \<Rightarrow> failed ''stale-share''
      | Inl SV_InvalidJobId \<Rightarrow> failed ''invalid-job-id''
      | Inl SV_DoesNotMeetTarget \<Rightarrow> failed ''difficulty-too-low''
      | Inl SV_DuplicateShare \<Rightarrow> failed ''duplicate-share''
      | Inl _ \<Rightarrow> Panic ''internal error: entered unreachable code'')"

text \<open>
  The second half: the share on the upstream channel. \<open>pfx\<close> is the extranonce prefix of the
  miner's channel and \<open>tail\<close> the extranonce the miner chose, empty on a standard channel. A share
  of a job whose template has no upstream job is not forwarded.
\<close>

definition upstream_share ::
  "('sc, 'ec, 'gc, 'vd, 'xf, 'uc, 'jf) jdc_lib \<Rightarrow> downstream_id \<Rightarrow> 'a submit_shares_standard_scheme \<Rightarrow>
     bytes \<Rightarrow> bytes \<Rightarrow> 'uc \<Rightarrow> ('sc, 'ec, 'gc, 'vd, 'xf, 'uc, 'jf) jdc_data \<Rightarrow>
     (jdc_error, submit_shares_extended option) res" where
  "upstream_share L did msg pfx tail uc d =
     (if length pfx < length (up_extranonce_prefix L uc) then
        Panic ''range start index out of range for slice''
      else
        case Option.bind (hm_get (jc_job_to_template d) (did, sh_channel_id msg, sh_job_id msg))
               (hm_get (jc_template_to_upstream_job d)) of
          None \<Rightarrow> Ok None
        | Some upstream_job_id \<Rightarrow>
            (case b032_try_from L (drop (length (up_extranonce_prefix L uc)) pfx @ tail) of
               Inl e \<Rightarrow> Panic ''called `Result::unwrap()` on an `Err` value''
             | Inr en \<Rightarrow>
                 Ok (Some \<lparr>sh_channel_id = up_channel_id L uc, sh_sequence_number = 0,
                   sh_job_id = upstream_job_id, sh_nonce = sh_nonce msg, sh_ntime = sh_ntime msg,
                   sh_version = sh_version msg, sh_extranonce = en\<rparr>)))"

definition jdc_solution ::
  "submit_shares_extended \<Rightarrow> set_new_prev_hash_tdp \<Rightarrow> bytes \<Rightarrow> jdc_push_solution" where
  "jdc_solution m prev_hash extranonce =
     \<lparr>so_extranonce = extranonce, so_ntime = sh_ntime m, so_nonce = sh_nonce m, so_version = sh_version m,
      so_nbits = ph_n_bits prev_hash, so_prev_hash = ph_prev_hash prev_hash\<rparr>"

text \<open>
  The match on the validation by the upstream channel. \<open>solved\<close> computes the extranonce of a
  solution from the upstream channel and the share.
\<close>

definition submit_upstream ::
  "('sc, 'ec, 'gc, 'vd, 'xf, 'uc, 'jf) jdc_lib \<Rightarrow> ('uc \<Rightarrow> submit_shares_extended \<Rightarrow> bytes) \<Rightarrow>
     set_new_prev_hash_tdp \<Rightarrow> submit_shares_extended \<Rightarrow> 'uc \<Rightarrow>
     ('sc, 'ec, 'gc, 'vd, 'xf, 'uc, 'jf) jdc_data \<Rightarrow>
     (jdc_error, jdc_route list) res \<times> ('sc, 'ec, 'gc, 'vd, 'xf, 'uc, 'jf) jdc_data" where
  "submit_upstream L solved prev_hash m uc d =
     (case up_validate_share L uc m of (res, uc1) \<Rightarrow>
      let d1 = d\<lparr>jc_upstream_channel := Some uc1\<rparr>;
          n = fst (fetch_add (jc_sequence_number_factory d1));
          m1 = m\<lparr>sh_sequence_number := n\<rparr>;
          d2 = d1\<lparr>jc_sequence_number_factory := snd (fetch_add (jc_sequence_number_factory d1))\<rparr> in
      case res of
        Inr (ClientValid h) \<Rightarrow> (Ok [ToUpstream (SubmitUpstream m1)], d2)
      | Inr (ClientBlockFound h) \<Rightarrow>
          (case b032_try_from L (solved uc1 m1) of
             Inl e \<Rightarrow> (Err (BinarySv2 e), d2)
           | Inr en \<Rightarrow>
               (Ok [ToJobDeclarator (PushSolution (jdc_solution m1 prev_hash en)),
                    ToUpstream (SubmitUpstream m1)], d2))
      | Inl (CS_Other n) \<Rightarrow> (Panic ''internal error: entered unreachable code'', d1)
      | Inl _ \<Rightarrow> (Ok [], d1))"

definition forward_share_upstream ::
  "('sc, 'ec, 'gc, 'vd, 'xf, 'uc, 'jf) jdc_lib \<Rightarrow> ('uc \<Rightarrow> submit_shares_extended \<Rightarrow> bytes) \<Rightarrow>
     downstream_id \<Rightarrow> 'a submit_shares_standard_scheme \<Rightarrow> bytes \<Rightarrow> bytes \<Rightarrow> set_new_prev_hash_tdp \<Rightarrow>
     ('sc, 'ec, 'gc, 'vd, 'xf, 'uc, 'jf) jdc_data \<Rightarrow>
     (jdc_error, jdc_route list) res \<times> ('sc, 'ec, 'gc, 'vd, 'xf, 'uc, 'jf) jdc_data" where
  "forward_share_upstream L solved did msg pfx tail prev_hash d =
     (case jc_upstream_channel d of
        None \<Rightarrow> (Ok [], d)
      | Some uc \<Rightarrow>
          and_then (upstream_share L did msg pfx tail uc d, d)
            (\<lambda>m d. case m of
               None \<Rightarrow> (Ok [], d)
             | Some up \<Rightarrow> submit_upstream L solved prev_hash up uc d))"

definition jdc_share_standard ::
  "('sc, 'ec, 'gc, 'vd, 'xf, 'uc, 'jf) jdc_lib \<Rightarrow> downstream_id \<Rightarrow> downstream_id \<Rightarrow> submit_shares_standard \<Rightarrow>
     set_new_prev_hash_tdp \<Rightarrow> ('sc, 'ec, 'gc, 'vd, 'xf, 'uc, 'jf) jdc_pair \<Rightarrow>
     ('sc, 'ec, 'gc, 'vd, 'xf, 'uc, 'jf, jdc_route list) jdc_closure" where
  "jdc_share_standard L did owner msg prev_hash s =
     (case s of (d, dd) \<Rightarrow>
      let cid = sh_channel_id msg in
      case hm_get (standard_channels dd) cid of
        None \<Rightarrow>
          (Ok [ToDownstream did (SubmitSharesError cid (sh_sequence_number msg) ''invalid-channel-id'')], d, dd)
      | Some sc \<Rightarrow>
          (case hm_get (jc_vardiff d) (did, cid) of
             None \<Rightarrow> (Err (VardiffNotFound (did, cid)), d, dd)
           | Some vd \<Rightarrow>
               let d1 = d\<lparr>jc_vardiff :=
                     hm_insert (did, cid) (vd_increment_shares_since_last_update L vd) (jc_vardiff d)\<rparr> in
               (case sc_validate_share L sc msg of (res, sc1) \<Rightarrow>
                let dd1 = dd\<lparr>standard_channels := hm_insert cid sc1 (standard_channels dd)\<rparr> in
                and_then (answer_share L did owner msg (sc_share_accounting L sc1) res, d1, dd1)
                  (\<lambda>(ms, valid) (d, dd).
                     if \<not> valid then (Ok ms, d, dd)
                     else
                       (case forward_share_upstream L (\<lambda>uc m. sc_extranonce_prefix L sc1) did msg
                               (sc_extranonce_prefix L sc1) [] prev_hash d of
                          (r, d') \<Rightarrow> (map_res ((@) ms) r, d', dd))))))"

definition jdc_share_extended ::
  "('sc, 'ec, 'gc, 'vd, 'xf, 'uc, 'jf) jdc_lib \<Rightarrow> downstream_id \<Rightarrow> downstream_id \<Rightarrow> submit_shares_extended \<Rightarrow>
     set_new_prev_hash_tdp \<Rightarrow> ('sc, 'ec, 'gc, 'vd, 'xf, 'uc, 'jf) jdc_pair \<Rightarrow>
     ('sc, 'ec, 'gc, 'vd, 'xf, 'uc, 'jf, jdc_route list) jdc_closure" where
  "jdc_share_extended L did owner msg prev_hash s =
     (case s of (d, dd) \<Rightarrow>
      let cid = sh_channel_id msg in
      case hm_get (extended_channels dd) cid of
        None \<Rightarrow>
          (Ok [ToDownstream did (SubmitSharesError cid (sh_sequence_number msg) ''invalid-channel-id'')], d, dd)
      | Some ec \<Rightarrow>
          (case hm_get (jc_vardiff d) (did, cid) of
             None \<Rightarrow> (Err (VardiffNotFound (did, cid)), d, dd)
           | Some vd \<Rightarrow>
               let d1 = d\<lparr>jc_vardiff :=
                     hm_insert (did, cid) (vd_increment_shares_since_last_update L vd) (jc_vardiff d)\<rparr> in
               (case ec_validate_share L ec msg of (res, ec1) \<Rightarrow>
                let dd1 = dd\<lparr>extended_channels := hm_insert cid ec1 (extended_channels dd)\<rparr> in
                and_then (answer_share L did owner msg (ec_share_accounting L ec1) res, d1, dd1)
                  (\<lambda>(ms, valid) (d, dd).
                     if \<not> valid then (Ok ms, d, dd)
                     else
                       (case forward_share_upstream L (\<lambda>uc m. up_extranonce_prefix L uc @ sh_extranonce m)
                               did msg (ec_extranonce_prefix L ec1) (sh_extranonce msg) prev_hash d of
                          (r, d') \<Rightarrow> (map_res ((@) ms) r, d', dd))))))"

definition share_locked ::
  "downstream_id \<Rightarrow>
    (downstream_id \<Rightarrow> set_new_prev_hash_tdp \<Rightarrow> ('sc, 'ec, 'gc, 'vd, 'xf, 'uc, 'jf) jdc_pair \<Rightarrow>
       ('sc, 'ec, 'gc, 'vd, 'xf, 'uc, 'jf, 'a) jdc_closure) \<Rightarrow>
    ('sc, 'ec, 'gc, 'vd, 'xf, 'uc, 'jf) jdc_data \<Rightarrow>
    (jdc_error, 'a) res \<times> ('sc, 'ec, 'gc, 'vd, 'xf, 'uc, 'jf) jdc_data" where
  "share_locked did f d =
     (case hm_get (jc_downstream d) did of
        None \<Rightarrow> (Err (DownstreamNotFound did), d)
      | Some ds \<Rightarrow>
          (case jc_last_new_prev_hash d of
             None \<Rightarrow> (Err LastNewPrevhashNotFound, d)
           | Some prev_hash \<Rightarrow> lock_jdc_downstream did ds (f (jdc_downstream_id ds) prev_hash) d))"

definition jdc_submit_shares_standard ::
  "('sc, 'ec, 'gc, 'vd, 'xf, 'uc, 'jf) jdc_lib \<Rightarrow> downstream_id \<Rightarrow> submit_shares_standard \<Rightarrow>
     ('sc, 'ec, 'gc, 'vd, 'xf, 'uc, 'jf) jdc \<Rightarrow> ('sc, 'ec, 'gc, 'vd, 'xf, 'uc, 'jf, unit) jdc_step" where
  "jdc_submit_shares_standard L did msg S =
     and_then (locked (share_locked did (\<lambda>owner. jdc_share_standard L did owner msg)) S)
       (\<lambda>messages. forward_each L messages)"

text \<open>
  The extensions negotiated with the miner are read first and unwrapped, so that a share of an
  unknown connection panics; the user identity found in the TLV fields is not used.
\<close>

definition jdc_submit_shares_extended ::
  "('sc, 'ec, 'gc, 'vd, 'xf, 'uc, 'jf) jdc_lib \<Rightarrow> downstream_id \<Rightarrow> submit_shares_extended \<Rightarrow>
     ('sc, 'ec, 'gc, 'vd, 'xf, 'uc, 'jf) jdc \<Rightarrow> ('sc, 'ec, 'gc, 'vd, 'xf, 'uc, 'jf, unit) jdc_step" where
  "jdc_submit_shares_extended L did msg S =
     (case hm_get (jc_downstream (jc_data S)) did of
        None \<Rightarrow> (Panic ''negotiated_extensions must be present'', S)
      | Some ds \<Rightarrow>
          and_then (locked (share_locked did (\<lambda>owner. jdc_share_extended L did owner msg)) S)
            (\<lambda>messages. forward_try L messages))"

end
