(* ===== verification/Jdc_Upstream.thy ===== *)
theory Jdc_Upstream
  imports Jdc_Mining
begin

text \<open>
  The messages that the job declarator client gets from its servers: the job declarator
  (\<open>channel_manager/jd_message_handler.rs\<close>), the pool (\<open>upstream_message_handler.rs\<close>) and the
  extension negotiation (\<open>extensions_message_handler.rs\<close>). Handlers that only log are left out.
\<close>

section \<open>Tokens\<close>

definition allocate_token ::
  "('sc, 'ec, 'gc, 'vd, 'xf, 'uc, 'jf) jdc_lib \<Rightarrow> jdc_config \<Rightarrow>
     ('sc, 'ec, 'gc, 'vd, 'xf, 'uc, 'jf) jdc \<Rightarrow> ('sc, 'ec, 'gc, 'vd, 'xf, 'uc, 'jf, unit) jdc_step" where
  "allocate_token L cfg S =
     (let rid = fst (fetch_add (jc_request_id_factory (jc_data S)));
          S1 = upd_jc (\<lambda>d. d\<lparr>jc_request_id_factory := snd (fetch_add (jc_request_id_factory d))\<rparr>) S in
      case str0255_try_from L (jc_user_identity cfg) of
        Inl e \<Rightarrow> (Panic ''Static string should always convert'', S1)
      | Inr user \<Rightarrow> send_jd (AllocateMiningJobToken rid user) S1)"

primrec allocate_tokens ::
  "('sc, 'ec, 'gc, 'vd, 'xf, 'uc, 'jf) jdc_lib \<Rightarrow> jdc_config \<Rightarrow> nat \<Rightarrow>
     ('sc, 'ec, 'gc, 'vd, 'xf, 'uc, 'jf) jdc \<Rightarrow> ('sc, 'ec, 'gc, 'vd, 'xf, 'uc, 'jf, unit) jdc_step" where
  "allocate_tokens L cfg 0 S = (Ok (), S)"
| "allocate_tokens L cfg (Suc n) S =
     and_then (allocate_token L cfg S) (\<lambda>_. allocate_tokens L cfg n)"

section \<open>Messages of the job declarator\<close>

definition coinbase_constraints ::
  "('sc, 'ec, 'gc, 'vd, 'xf, 'uc, 'jf) jdc_lib \<Rightarrow> tx_out list \<Rightarrow> tp_request" where
  "coinbase_constraints L outputs =
     CoinbaseOutputConstraints (ucast (sum_list (map (tx_out_size L) outputs)))
       (ucast (total_sigop_cost L outputs))"

definition jdc_allocate_mining_job_token_success ::
  "('sc, 'ec, 'gc, 'vd, 'xf, 'uc, 'jf) jdc_lib \<Rightarrow> allocate_token_success \<Rightarrow>
     ('sc, 'ec, 'gc, 'vd, 'xf, 'uc, 'jf) jdc \<Rightarrow> ('sc, 'ec, 'gc, 'vd, 'xf, 'uc, 'jf, unit) jdc_step" where
  "jdc_allocate_mining_job_token_success L msg S =
     (let changed = (jc_coinbase_outputs (jc_data S) \<noteq> at_coinbase_outputs msg);
          S1 = upd_jc (\<lambda>d. d\<lparr>jc_coinbase_outputs := at_coinbase_outputs msg,
                             jc_allocate_tokens := Some msg\<rparr>) S in
      if changed then
        (case consensus_decode_outputs L (at_coinbase_outputs msg) of
           Inl e \<Rightarrow> (Err (BitcoinEncodeError e), S1)
         | Inr outputs \<Rightarrow> send_tp (coinbase_constraints L outputs) S1)
      else (Ok (), S1))"

definition jdc_declare_mining_job_error ::
  "('sc, 'ec, 'gc, 'vd, 'xf, 'uc, 'jf) jdc \<Rightarrow> ('sc, 'ec, 'gc, 'vd, 'xf, 'uc, 'jf, unit) jdc_step" where
  "jdc_declare_mining_job_error S = jdc_send_status JobDeclaratorFallback S"

definition jdc_custom_job ::
  "('sc, 'ec, 'gc, 'vd, 'xf, 'uc, 'jf) jdc_lib \<Rightarrow> u32 \<Rightarrow> bytes \<Rightarrow> set_new_prev_hash_tdp \<Rightarrow> new_template \<Rightarrow>
     tx_out list \<Rightarrow> ('sc, 'ec, 'gc, 'vd, 'xf, 'uc, 'jf) jdc_data \<Rightarrow>
     (job_factory_error + set_custom_mining_job) option \<times> ('sc, 'ec, 'gc, 'vd, 'xf, 'uc, 'jf) jdc_data" where
  "jdc_custom_job L rid token prev_hash template outputs d =
     (case (jc_job_factory d, jc_upstream_channel d) of
        (Some jf, Some uc) \<Rightarrow>
          (case jf_new_custom_job L jf (up_channel_id L uc) rid token prev_hash template outputs
                  (up_full_extranonce_size L uc) of
             (r, jf1) \<Rightarrow> (Some r, d\<lparr>jc_job_factory := Some jf1\<rparr>))
      | _ \<Rightarrow> (None, d))"

definition jdc_declare_mining_job_success ::
  "('sc, 'ec, 'gc, 'vd, 'xf, 'uc, 'jf) jdc_lib \<Rightarrow> u32 \<Rightarrow> bytes \<Rightarrow>
     ('sc, 'ec, 'gc, 'vd, 'xf, 'uc, 'jf) jdc \<Rightarrow> ('sc, 'ec, 'gc, 'vd, 'xf, 'uc, 'jf, unit) jdc_step" where
  "jdc_declare_mining_job_success L rid token S =
     (case hm_get (jc_last_declare_job_store (jc_data S)) rid of
        None \<Rightarrow> (Err (LastDeclareJobNotFound rid), S)
      | Some job \<Rightarrow>
          (case dj_prev_hash job of
             None \<Rightarrow> (Err LastNewPrevhashNotFound, S)
           | Some prev_hash \<Rightarrow>
               (case deserialize_outputs L (dj_coinbase_output job) of
                  None \<Rightarrow> (Err ChannelManagerHasBadCoinbaseOutputs, S)
                | Some outputs \<Rightarrow>
                    (case jdc_custom_job L rid token prev_hash (dj_template job) outputs (jc_data S) of
                       (r, d) \<Rightarrow>
                         let S1 = S\<lparr>jc_data := d\<rparr> in
                         (case r of
                            Some (Inr custom_job) \<Rightarrow>
                              send_upstream L (CustomJobUpstream custom_job)
                                (upd_jc (\<lambda>d. case hm_get (jc_last_declare_job_store d) rid of
                                    None \<Rightarrow> d
                                  | Some j \<Rightarrow> d\<lparr>jc_last_declare_job_store := hm_insert rid
                                      (j\<lparr>dj_set_custom_mining_job := Some custom_job\<rparr>)
                                      (jc_last_declare_job_store d)\<rparr>) S1)
                          | _ \<Rightarrow> (Err FailedToCreateCustomJob, S1))))))"

text \<open>The transactions at the given positions; positions out of range are skipped.\<close>

definition transactions_at :: "bytes list \<Rightarrow> u16 list \<Rightarrow> bytes list" where
  "transactions_at txs ps = List.map_filter (\<lambda>p. if unat p < length txs then Some (txs ! unat p) else None) ps"

definition jdc_provide_missing_transactions ::
  "('sc, 'ec, 'gc, 'vd, 'xf, 'uc, 'jf) jdc_lib \<Rightarrow> u32 \<Rightarrow> u16 list \<Rightarrow>
     ('sc, 'ec, 'gc, 'vd, 'xf, 'uc, 'jf) jdc \<Rightarrow> ('sc, 'ec, 'gc, 'vd, 'xf, 'uc, 'jf, unit) jdc_step" where
  "jdc_provide_missing_transactions L rid positions S =
     (case hm_get (jc_last_declare_job_store (jc_data S)) rid of
        None \<Rightarrow> (Err (LastDeclareJobNotFound rid), S)
      | Some job \<Rightarrow>
          (case seq064k_bytes L (transactions_at (dj_tx_list job) positions) of
             Inl e \<Rightarrow> (Err (BinarySv2 e), S)
           | Inr txs \<Rightarrow> send_jd (ProvideMissingSuccess rid txs) S))"

section \<open>Messages of the pool\<close>

record upstream_opened =
  uo_channel_id :: u32
  uo_target :: u256
  uo_extranonce_prefix :: bytes
  uo_extranonce_size :: u16

text \<open>
  The factory for the miners' prefixes: the prefix of the upstream, the search space of the
  client, and the rest.
\<close>

definition upstream_factory ::
  "('sc, 'ec, 'gc, 'vd, 'xf, 'uc, 'jf) jdc_lib \<Rightarrow> bytes \<Rightarrow> u16 \<Rightarrow> extranonce_error + 'xf" where
  "upstream_factory L pfx extranonce_size =
     (let p = of_nat (length pfx)
      in xf_from_upstream L pfx p (p + JDC_SEARCH_SPACE_BYTES) (p + ucast extranonce_size))"

text \<open>
  In coinbase-only mode a custom job for the last future template; the factory it needs is the
  one of an earlier upstream channel, as the new one is stored only afterwards.
\<close>

definition open_custom_job ::
  "('sc, 'ec, 'gc, 'vd, 'xf, 'uc, 'jf) jdc_lib \<Rightarrow> 'uc \<Rightarrow> tx_out list \<Rightarrow>
     ('sc, 'ec, 'gc, 'vd, 'xf, 'uc, 'jf) jdc_data \<Rightarrow>
     set_custom_mining_job option \<times> ('sc, 'ec, 'gc, 'vd, 'xf, 'uc, 'jf) jdc_data" where
  "open_custom_job L uc outputs d =
     (case (jc_job_factory d, jc_allocate_tokens d, jc_last_future_template d, jc_last_new_prev_hash d) of
        (Some jf, Some token, Some template, Some prev_hash) \<Rightarrow>
          (let rid = fst (fetch_add (jc_request_id_factory d));
               d1 = d\<lparr>jc_request_id_factory := snd (fetch_add (jc_request_id_factory d))\<rparr> in
           case jf_new_custom_job L jf (up_channel_id L uc) rid (at_mining_job_token token) prev_hash
                  template outputs (up_full_extranonce_size L uc) of
             (Inl e, jf1) \<Rightarrow> (None, d1\<lparr>jc_job_factory := Some jf1\<rparr>)
           | (Inr job, jf1) \<Rightarrow>
               (Some job, d1\<lparr>jc_job_factory := Some jf1,
                  jc_last_declare_job_store := hm_insert rid
                    \<lparr>dj_declare_mining_job = None, dj_template = template, dj_prev_hash = Some prev_hash,
                     dj_set_custom_mining_job = Some job, dj_coinbase_output = jc_coinbase_outputs d1,
                     dj_tx_list = []\<rparr> (jc_last_declare_job_store d1)\<rparr>))
      | _ \<Rightarrow> (None, d))"

text \<open>
  The closure of \<open>OpenExtendedMiningChannelSuccess\<close>: \<open>Inl\<close> with the reason if the channel is of
  no use, otherwise the template to request and the custom job.
\<close>

definition open_success_locked ::
  "('sc, 'ec, 'gc, 'vd, 'xf, 'uc, 'jf) jdc_lib \<Rightarrow> jdc_config \<Rightarrow> tx_out list \<Rightarrow> upstream_opened \<Rightarrow>
     ('sc, 'ec, 'gc, 'vd, 'xf, 'uc, 'jf) jdc \<Rightarrow>
     (string + new_template option \<times> set_custom_mining_job option) \<times>
       ('sc, 'ec, 'gc, 'vd, 'xf, 'uc, 'jf) jdc" where
  "open_success_locked L cfg outputs msg S =
     (let d = jc_data S; refused = S\<lparr>jc_upstream_state := NoChannel\<rparr> in
      case jc_pending_requests d of
        [] \<Rightarrow> (Inl ''downstream not available'', refused)
      | request # _ \<Rightarrow>
          (case upstream_factory L (uo_extranonce_prefix msg) (uo_extranonce_size msg) of
             Inl e \<Rightarrow> (Inl ''downstream not available'', refused)
           | Inr xf \<Rightarrow>
               let factory = jf_new L True (jc_pool_tag_string d) (Some (miner_tag_string cfg));
                   uc = up_new L (uo_channel_id msg) (jc_user_identity cfg) (uo_extranonce_prefix msg)
                          (uo_target msg) (pending_hashrate request) True (uo_extranonce_size msg);
                   uc1 = (case jc_last_new_prev_hash d of
                            None \<Rightarrow> uc
                          | Some prev_hash \<Rightarrow> snd (up_on_chain_tip_update L uc prev_hash));
                   (job, d1) = (if jc_mode S = CoinbaseOnly then open_custom_job L uc1 outputs d else (None, d));
                   d2 = d1\<lparr>jc_factory_extended := xf, jc_factory_standard := xf,
                           jc_upstream_channel := Some uc1, jc_job_factory := Some factory\<rparr>
               in (Inr (jc_last_future_template d2, job),
                   S\<lparr>jc_data := d2, jc_upstream_state := Connected\<rparr>)))"

fun open_pending ::
  "('sc, 'ec, 'gc, 'vd, 'xf, 'uc, 'jf) jdc_lib \<Rightarrow> jdc_config \<Rightarrow> pending_request \<Rightarrow>
     ('sc, 'ec, 'gc, 'vd, 'xf, 'uc, 'jf) jdc \<Rightarrow> ('sc, 'ec, 'gc, 'vd, 'xf, 'uc, 'jf, unit) jdc_step" where
  "open_pending L cfg (ExtendedChannel i m) = jdc_open_extended L cfg i m"
| "open_pending L cfg (StandardChannel i m) = jdc_open_standard L cfg i m"

primrec open_all_pending ::
  "('sc, 'ec, 'gc, 'vd, 'xf, 'uc, 'jf) jdc_lib \<Rightarrow> jdc_config \<Rightarrow> pending_request list \<Rightarrow>
     ('sc, 'ec, 'gc, 'vd, 'xf, 'uc, 'jf) jdc \<Rightarrow> ('sc, 'ec, 'gc, 'vd, 'xf, 'uc, 'jf, unit) jdc_step" where
  "open_all_pending L cfg [] S = (Ok (), S)"
| "open_all_pending L cfg (r # rs) S = and_then (open_pending L cfg r S) (\<lambda>_. open_all_pending L cfg rs)"

definition after_open ::
  "('sc, 'ec, 'gc, 'vd, 'xf, 'uc, 'jf) jdc_lib \<Rightarrow> jdc_config \<Rightarrow> new_template option \<Rightarrow>
     set_custom_mining_job option \<Rightarrow> ('sc, 'ec, 'gc, 'vd, 'xf, 'uc, 'jf) jdc \<Rightarrow>
     ('sc, 'ec, 'gc, 'vd, 'xf, 'uc, 'jf, unit) jdc_step" where
  "after_open L cfg template job S =
     and_then
       (case template of
          Some t \<Rightarrow>
            if jc_mode S = FullTemplate then send_tp (RequestTransactionData (nt_template_id t)) S else (Ok (), S)
        | None \<Rightarrow> (Ok (), S))
       (\<lambda>_ S1. and_then
          (case job of
             Some j \<Rightarrow>
               if jc_mode S1 = CoinbaseOnly then
                 and_then (send_upstream L (CustomJobUpstream j) S1)
                   (\<lambda>_ S2. ignore_err (allocate_tokens L cfg 1 S2))
               else (Ok (), S1)
           | None \<Rightarrow> (Ok (), S1))
          (\<lambda>_ S2. open_all_pending L cfg (jc_pending_requests (jc_data S2))
                    (upd_jc (\<lambda>d. d\<lparr>jc_pending_requests := []\<rparr>) S2)))"

definition jdc_open_success ::
  "('sc, 'ec, 'gc, 'vd, 'xf, 'uc, 'jf) jdc_lib \<Rightarrow> jdc_config \<Rightarrow> upstream_opened \<Rightarrow>
     ('sc, 'ec, 'gc, 'vd, 'xf, 'uc, 'jf) jdc \<Rightarrow> ('sc, 'ec, 'gc, 'vd, 'xf, 'uc, 'jf, unit) jdc_step" where
  "jdc_open_success L cfg msg S =
     (case deserialize_outputs L (jc_coinbase_outputs (jc_data S)) of
        None \<Rightarrow> (Err DeclaredJobHasBadCoinbaseOutputs, S)
      | Some outputs \<Rightarrow>
          (case open_success_locked L cfg outputs msg S of
             (Inr (template, job), S1) \<Rightarrow> after_open L cfg template job S1
           | (Inl reason, S1) \<Rightarrow>
               and_then (send_upstream L (CloseUpstream (uo_channel_id msg) reason) S1)
                 (\<lambda>_ S2. ignore_err (allocate_tokens L cfg 1 S2))))"

definition jdc_upstream_refused ::
  "('sc, 'ec, 'gc, 'vd, 'xf, 'uc, 'jf) jdc \<Rightarrow> ('sc, 'ec, 'gc, 'vd, 'xf, 'uc, 'jf, unit) jdc_step" where
  "jdc_upstream_refused S = ignore_err (jdc_send_status UpstreamFallback S)"

definition jdc_upstream_closed ::
  "('sc, 'ec, 'gc, 'vd, 'xf, 'uc, 'jf) jdc \<Rightarrow> ('sc, 'ec, 'gc, 'vd, 'xf, 'uc, 'jf, unit) jdc_step" where
  "jdc_upstream_closed S =
     ignore_err (jdc_send_status UpstreamFallback (upd_jc (\<lambda>d. d\<lparr>jc_upstream_channel := None\<rparr>) S))"

section \<open>A new extranonce prefix\<close>

text \<open>
  The bodies of the loops over the channels: the channel gets the next prefix of the factory. A
  failure of the factory or of the channel is collected and dropped later, so it only means
  that this channel gets no message.
\<close>

definition new_prefix_standard ::
  "('sc, 'ec, 'gc, 'vd, 'xf, 'uc, 'jf) jdc_lib \<Rightarrow> downstream_id \<Rightarrow> channel_id \<Rightarrow> 'sc \<Rightarrow> 'xf \<Rightarrow>
     (jdc_error, jdc_route list) res \<times> 'sc \<times> 'xf" where
  "new_prefix_standard L did cid sc xf =
     (case xf_next_prefix_standard L xf of
        (Inl e, xf1) \<Rightarrow> (Ok [], sc, xf1)
      | (Inr pfx, xf1) \<Rightarrow>
          (case sc_set_extranonce_prefix L sc pfx of
             (Inl e, sc1) \<Rightarrow> (Ok [], sc1, xf1)
           | (Inr _, sc1) \<Rightarrow> (Ok [ToDownstream did (SetExtranoncePrefix cid pfx)], sc1, xf1)))"

definition new_prefix_extended ::
  "('sc, 'ec, 'gc, 'vd, 'xf, 'uc, 'jf) jdc_lib \<Rightarrow> downstream_id \<Rightarrow> channel_id \<Rightarrow> 'ec \<Rightarrow> 'xf \<Rightarrow>
     (jdc_error, jdc_route list) res \<times> 'ec \<times> 'xf" where
  "new_prefix_extended L did cid ec xf =
     (case xf_next_prefix_extended L xf (ucast (ec_rollable_extranonce_size L ec)) of
        (Inl e, xf1) \<Rightarrow> (Ok [], ec, xf1)
      | (Inr pfx, xf1) \<Rightarrow>
          (case ec_set_extranonce_prefix L ec pfx of
             (Inl e, ec1) \<Rightarrow> (Ok [], ec1, xf1)
           | (Inr _, ec1) \<Rightarrow> (Ok [ToDownstream did (SetExtranoncePrefix cid pfx)], ec1, xf1)))"

definition new_prefix_downstream ::
  "('sc, 'ec, 'gc, 'vd, 'xf, 'uc, 'jf) jdc_lib \<Rightarrow> downstream_id \<Rightarrow> ('sc, 'ec, 'gc) jdc_downstream \<Rightarrow>
     'xf \<times> 'xf \<Rightarrow> (jdc_error, jdc_route list) res \<times> ('sc, 'ec, 'gc) jdc_downstream \<times> ('xf \<times> 'xf)" where
  "new_prefix_downstream L did ds fs =
     (let dd = jdc_downstream_data ds in
      case hm_iter_state (new_prefix_standard L did) (standard_channels dd) (fst fs) of (sr, scs, xfs) \<Rightarrow>
      case hm_iter_state (new_prefix_extended L did) (extended_channels dd) (snd fs) of (er, ecs, xfe) \<Rightarrow>
      (case sr of Ok sm \<Rightarrow> map_res ((@) sm) er | _ \<Rightarrow> sr,
       ds\<lparr>jdc_downstream_data := dd\<lparr>standard_channels := scs, extended_channels := ecs\<rparr>\<rparr>, xfs, xfe))"

definition jdc_set_extranonce_prefix ::
  "('sc, 'ec, 'gc, 'vd, 'xf, 'uc, 'jf) jdc_lib \<Rightarrow> bytes \<Rightarrow>
     ('sc, 'ec, 'gc, 'vd, 'xf, 'uc, 'jf) jdc \<Rightarrow> ('sc, 'ec, 'gc, 'vd, 'xf, 'uc, 'jf, unit) jdc_step" where
  "jdc_set_extranonce_prefix L pfx S =
     and_then
       (locked (\<lambda>d.
          case jc_upstream_channel d of
            None \<Rightarrow> (Ok [], d)
          | Some uc \<Rightarrow>
              (case up_set_extranonce_prefix L uc pfx of (r, uc1) \<Rightarrow>
               let d1 = d\<lparr>jc_upstream_channel := Some uc1\<rparr> in
               case r of
                 Inl e \<Rightarrow> (Err (ChannelSv2 (ExtendedChannelClientSide e)), d1)
               | Inr _ \<Rightarrow>
                   if MAX_EXTRANONCE_LEN < of_nat (length pfx) + ucast (up_rollable_extranonce_size L uc1) then
                     (Err ExtranonceSizeTooLarge, d1)
                   else
                     (case upstream_factory L pfx (up_rollable_extranonce_size L uc1) of
                        Inl e \<Rightarrow> (Err (ExtranoncePrefixFactoryError e), d1)
                      | Inr xf \<Rightarrow>
                          (case hm_iter_state (new_prefix_downstream L) (jc_downstream d1) (xf, xf) of
                             (ms, m, xfs, xfe) \<Rightarrow>
                               (ms, d1\<lparr>jc_downstream := m, jc_factory_standard := xfs,
                                      jc_factory_extended := xfe\<rparr>))))) S)
       (\<lambda>messages. forward_each L messages)"

section \<open>Custom jobs and targets\<close>

definition jdc_custom_job_success ::
  "('sc, 'ec, 'gc, 'vd, 'xf, 'uc, 'jf) jdc_lib \<Rightarrow> custom_job_success \<Rightarrow>
     ('sc, 'ec, 'gc, 'vd, 'xf, 'uc, 'jf) jdc \<Rightarrow> ('sc, 'ec, 'gc, 'vd, 'xf, 'uc, 'jf, unit) jdc_step" where
  "jdc_custom_job_success L msg =
     locked (\<lambda>d.
       case hm_get (jc_last_declare_job_store d) (cs_request_id msg) of
         None \<Rightarrow> (Ok (), d)
       | Some job \<Rightarrow>
           let tid = nt_template_id (dj_template job);
               d1 = d\<lparr>jc_last_declare_job_store :=
                        hm_retain (\<lambda>_ j. nt_template_id (dj_template j) \<noteq> tid)
                          (hm_remove (cs_request_id msg) (jc_last_declare_job_store d)),
                      jc_template_to_upstream_job :=
                        hm_insert tid (cs_job_id msg) (jc_template_to_upstream_job d)\<rparr>
           in (Ok (),
               case (jc_upstream_channel d1, dj_set_custom_mining_job job) of
                 (Some uc, Some j) \<Rightarrow>
                   d1\<lparr>jc_upstream_channel := Some (snd (up_on_custom_job_success L uc j msg))\<rparr>
               | _ \<Rightarrow> d1))"

definition jdc_upstream_set_target ::
  "('sc, 'ec, 'gc, 'vd, 'xf, 'uc, 'jf) jdc_lib \<Rightarrow> u256 \<Rightarrow>
     ('sc, 'ec, 'gc, 'vd, 'xf, 'uc, 'jf) jdc \<Rightarrow> ('sc, 'ec, 'gc, 'vd, 'xf, 'uc, 'jf, unit) jdc_step" where
  "jdc_upstream_set_target L t S =
     (Ok (), upd_jc (\<lambda>d. d\<lparr>jc_upstream_channel :=
        map_option (\<lambda>uc. up_set_target L uc t) (jc_upstream_channel d)\<rparr>) S)"

section \<open>Extensions\<close>

definition jdc_extensions_success ::
  "u16 list \<Rightarrow> ('sc, 'ec, 'gc, 'vd, 'xf, 'uc, 'jf) jdc \<Rightarrow>
     ('sc, 'ec, 'gc, 'vd, 'xf, 'uc, 'jf, unit) jdc_step" where
  "jdc_extensions_success supported S =
     (let missing = filter (\<lambda>e. e \<notin> set supported) (jc_required_extensions (jc_data S)) in
      if missing \<noteq> [] then (Err (RequiredExtensionsNotSupported missing), S)
      else (Ok (), upd_jc (\<lambda>d. d\<lparr>jc_negotiated_extensions := supported\<rparr>) S))"

text \<open>The request identifier is incremented without a check for overflow in release builds.\<close>

definition jdc_extensions_error ::
  "('sc, 'ec, 'gc, 'vd, 'xf, 'uc, 'jf) jdc_lib \<Rightarrow> u16 \<Rightarrow> u16 list \<Rightarrow> u16 list \<Rightarrow>
     ('sc, 'ec, 'gc, 'vd, 'xf, 'uc, 'jf) jdc \<Rightarrow> ('sc, 'ec, 'gc, 'vd, 'xf, 'uc, 'jf, unit) jdc_step" where
  "jdc_extensions_error L rid unsupported required_by_server S =
     (let d = jc_data S;
          missing = filter (\<lambda>e. e \<in> set unsupported) (jc_required_extensions d);
          can = filter (\<lambda>e. e \<in> set (jc_supported_extensions d)) required_by_server;
          cannot = filter (\<lambda>e. e \<notin> set (jc_supported_extensions d)) required_by_server in
      if missing \<noteq> [] then (Err (RequiredExtensionsNotSupported missing), S)
      else if required_by_server = [] then (Ok (), S)
      else if cannot \<noteq> [] then (Err (ServerRequiresUnsupportedExtensions cannot), S)
      else
        (case seq064k_new L can of
           Inl e \<Rightarrow> (Panic ''called `Result::unwrap()` on an `Err` value'', S)
         | Inr exts \<Rightarrow> send_upstream L (RequestExtensions (rid + 1) exts) S))"

end
