(* ===== verification/Jdc_Templates.thy ===== *)
theory Jdc_Templates
  imports Jdc_Upstream
begin

text \<open>
  The template provider's messages to the job declarator client
  (\<open>channel_manager/template_message_handler.rs\<close>): templates, the transactions of a template, which
  start the declaration of a job, and prev-hashes.
\<close>

section \<open>New templates\<close>

definition jdc_group_job ::
  "('sc, 'ec, 'gc, 'vd, 'xf, 'uc, 'jf) jdc_lib \<Rightarrow> new_template \<Rightarrow> tx_out list \<Rightarrow> 'gc option \<Rightarrow>
     (jdc_error, job option) res \<times> 'gc option" where
  "jdc_group_job L msg outputs g =
     (case g of
        None \<Rightarrow> (Ok None, None)
      | Some gc \<Rightarrow>
          (case gc_on_new_template L gc msg outputs of
             (Inl e, gc1) \<Rightarrow> (Ok None, Some gc1)
           | (Inr _, gc1) \<Rightarrow>
               (if nt_future_template msg then
                  (case gc_future_template_to_job_id L gc1 (nt_template_id msg) of
                     None \<Rightarrow> Panic ''job_id must exist''
                   | Some jid \<Rightarrow> map_res Some (expect ''future job must exist'' (gc_future_jobs L gc1 jid)))
                else map_res Some (expect ''active job must exist'' (gc_active_job L gc1)),
                Some gc1)))"

text \<open>
  In coinbase-only mode an active template becomes a custom job for the upstream. The code does
  this inside the loop over the connections, once for each of them.
\<close>

definition template_custom_job ::
  "('sc, 'ec, 'gc, 'vd, 'xf, 'uc, 'jf) jdc_lib \<Rightarrow> jd_mode \<Rightarrow> new_template \<Rightarrow> tx_out list \<Rightarrow>
     ('sc, 'ec, 'gc, 'vd, 'xf, 'uc, 'jf) jdc_data \<Rightarrow>
     (jdc_error, jdc_route list) res \<times> ('sc, 'ec, 'gc, 'vd, 'xf, 'uc, 'jf) jdc_data" where
  "template_custom_job L mode msg outputs d =
     (case (jc_upstream_channel d, jc_allocate_tokens d, jc_last_new_prev_hash d) of
        (Some uc, Some token, Some prev_hash) \<Rightarrow>
          if nt_future_template msg \<or> mode \<noteq> CoinbaseOnly then (Ok [], d)
          else
            (let rid = fst (fetch_add (jc_request_id_factory d));
                 d1 = d\<lparr>jc_request_id_factory := snd (fetch_add (jc_request_id_factory d))\<rparr> in
             case jc_job_factory d1 of
               None \<Rightarrow> (Panic ''called `Option::unwrap()` on a `None` value'', d1)
             | Some jf \<Rightarrow>
                 (case jf_new_custom_job L jf (up_channel_id L uc) rid (at_mining_job_token token) prev_hash
                         msg outputs (up_full_extranonce_size L uc) of
                    (Inl e, jf1) \<Rightarrow> (Ok [], d1\<lparr>jc_job_factory := Some jf1\<rparr>)
                  | (Inr custom_job, jf1) \<Rightarrow>
                      (Ok [ToUpstream (CustomJobUpstream custom_job)],
                       d1\<lparr>jc_job_factory := Some jf1,
                          jc_last_declare_job_store := hm_insert rid
                            \<lparr>dj_declare_mining_job = None, dj_template = msg, dj_prev_hash = Some prev_hash,
                             dj_set_custom_mining_job = Some custom_job,
                             dj_coinbase_output = jc_coinbase_outputs d1, dj_tx_list = []\<rparr>
                            (jc_last_declare_job_store d1)\<rparr>)))
      | _ \<Rightarrow> (Ok [], d))"

definition jdc_standard_job ::
  "('sc, 'ec, 'gc, 'vd, 'xf, 'uc, 'jf) jdc_lib \<Rightarrow> new_template \<Rightarrow> 'sc \<Rightarrow> (jdc_error, u32 \<times> job) res" where
  "jdc_standard_job L msg sc =
     (if nt_future_template msg then
        (case sc_future_template_to_job_id L sc (nt_template_id msg) of
           None \<Rightarrow> Panic ''job_id must exist''
         | Some jid \<Rightarrow> map_res (Pair jid) (expect ''standard job must exist'' (sc_future_jobs L sc jid)))
      else map_res (\<lambda>j. (job_id j, j)) (expect ''standard job must exist'' (sc_active_job L sc)))"

definition jdc_extended_job ::
  "('sc, 'ec, 'gc, 'vd, 'xf, 'uc, 'jf) jdc_lib \<Rightarrow> new_template \<Rightarrow> 'ec \<Rightarrow> (jdc_error, u32 \<times> job) res" where
  "jdc_extended_job L msg ec =
     (if nt_future_template msg then
        (case ec_future_template_to_job_id L ec (nt_template_id msg) of
           None \<Rightarrow> Panic ''job_id must exist''
         | Some jid \<Rightarrow> map_res (Pair jid) (expect ''extended job must exist'' (ec_future_jobs L ec jid)))
      else map_res (\<lambda>j. (job_id j, j)) (expect ''extended job must exist'' (ec_active_job L ec)))"

text \<open>
  The loop bodies; the state beside the channels is the map from jobs to templates. The job of
  a standard channel is entered there only if the connection has no group channel.
\<close>

definition jdc_template_standard ::
  "('sc, 'ec, 'gc, 'vd, 'xf, 'uc, 'jf) jdc_lib \<Rightarrow> new_template \<Rightarrow> tx_out list \<Rightarrow> downstream_id \<Rightarrow> bool \<Rightarrow>
     job option \<Rightarrow> channel_id \<Rightarrow> 'sc \<Rightarrow> (downstream_channel_job_id, u64) hash_map \<Rightarrow>
     (jdc_error, jdc_route list) res \<times> 'sc \<times> (downstream_channel_job_id, u64) hash_map" where
  "jdc_template_standard L msg outputs did no_group group_job cid sc jt =
     (let with_group = (\<lambda>out sc1.
            case group_job of
              None \<Rightarrow> (out, sc1)
            | Some j \<Rightarrow>
                (case sc_on_new_template L sc1 msg outputs of
                   (Inl e, sc2) \<Rightarrow> (out, sc2)
                 | (Inr _, sc2) \<Rightarrow> (out, snd (sc_on_group_channel_job L sc2 j)))) in
      if no_group then
        (case sc_on_new_template L sc msg outputs of
           (Inl e, sc1) \<Rightarrow> (Ok [], sc1, jt)
         | (Inr _, sc1) \<Rightarrow>
             (case jdc_standard_job L msg sc1 of
                Ok (jid, j) \<Rightarrow>
                  (case with_group [ToDownstream did (NewMiningJob (job_msg j))] sc1 of
                     (out, sc2) \<Rightarrow> (Ok out, sc2, hm_insert (did, cid, jid) (nt_template_id msg) jt))
              | Err e \<Rightarrow> (Err e, sc1, jt)
              | Panic p \<Rightarrow> (Panic p, sc1, jt)))
      else (case with_group [] sc of (out, sc1) \<Rightarrow> (Ok out, sc1, jt)))"

definition jdc_template_extended ::
  "('sc, 'ec, 'gc, 'vd, 'xf, 'uc, 'jf) jdc_lib \<Rightarrow> new_template \<Rightarrow> tx_out list \<Rightarrow> downstream_id \<Rightarrow>
     channel_id \<Rightarrow> 'ec \<Rightarrow> (downstream_channel_job_id, u64) hash_map \<Rightarrow>
     (jdc_error, jdc_route list) res \<times> 'ec \<times> (downstream_channel_job_id, u64) hash_map" where
  "jdc_template_extended L msg outputs did cid ec jt =
     (case ec_on_new_template L ec msg outputs of
        (Inl e, ec1) \<Rightarrow> (Ok [], ec1, jt)
      | (Inr _, ec1) \<Rightarrow>
          (case jdc_extended_job L msg ec1 of
             Ok (jid, j) \<Rightarrow>
               (Ok [ToDownstream did (NewExtendedMiningJob (job_msg j))], ec1,
                hm_insert (did, cid, jid) (nt_template_id msg) jt)
           | Err e \<Rightarrow> (Err e, ec1, jt)
           | Panic p \<Rightarrow> (Panic p, ec1, jt)))"

definition jdc_template_downstream ::
  "('sc, 'ec, 'gc, 'vd, 'xf, 'uc, 'jf) jdc_lib \<Rightarrow> jd_mode \<Rightarrow> new_template \<Rightarrow> tx_out list \<Rightarrow> downstream_id \<Rightarrow>
     ('sc, 'ec, 'gc) jdc_downstream \<Rightarrow> ('sc, 'ec, 'gc, 'vd, 'xf, 'uc, 'jf) jdc_data \<Rightarrow>
     (jdc_error, jdc_route list) res \<times> ('sc, 'ec, 'gc) jdc_downstream \<times>
       ('sc, 'ec, 'gc, 'vd, 'xf, 'uc, 'jf) jdc_data" where
  "jdc_template_downstream L mode msg outputs did ds d =
     (let put = (\<lambda>dd. ds\<lparr>jdc_downstream_data := dd\<rparr>); dd = jdc_downstream_data ds in
      case jdc_group_job L msg outputs (group_channels dd) of (gr, g) \<Rightarrow>
      let dd1 = dd\<lparr>group_channels := g\<rparr> in
      and_then (gr, put dd1, d) (\<lambda>group_job (ds1, d).
      case template_custom_job L mode msg outputs d of (ur, d1) \<Rightarrow>
      and_then (ur, ds1, d1) (\<lambda>custom_messages (ds1, d1).
      case hm_iter_state
             (jdc_template_standard L msg outputs did (group_channels dd1 = None) group_job)
             (standard_channels dd1) (jc_job_to_template d1) of (sr, scs, jt1) \<Rightarrow>
      let dd2 = dd1\<lparr>standard_channels := scs\<rparr>; d2 = d1\<lparr>jc_job_to_template := jt1\<rparr> in
      and_then (sr, put dd2, d2) (\<lambda>standard_messages (ds2, d2).
      let group_messages = (case group_job of
            None \<Rightarrow> []
          | Some j \<Rightarrow> [ToDownstream did (NewExtendedMiningJob (job_msg j))]) in
      case hm_iter_state (jdc_template_extended L msg outputs did) (extended_channels dd2)
             (jc_job_to_template d2) of (er, ecs, jt2) \<Rightarrow>
      and_then (er, put (dd2\<lparr>extended_channels := ecs\<rparr>), d2\<lparr>jc_job_to_template := jt2\<rparr>)
        (\<lambda>extended_messages s.
           (Ok (custom_messages @ standard_messages @ group_messages @ extended_messages), s))))))"

definition jdc_new_template ::
  "('sc, 'ec, 'gc, 'vd, 'xf, 'uc, 'jf) jdc_lib \<Rightarrow> jdc_config \<Rightarrow> new_template \<Rightarrow>
     ('sc, 'ec, 'gc, 'vd, 'xf, 'uc, 'jf) jdc \<Rightarrow> ('sc, 'ec, 'gc, 'vd, 'xf, 'uc, 'jf, unit) jdc_step" where
  "jdc_new_template L cfg msg S =
     (let S1 = upd_jc (\<lambda>d. d\<lparr>jc_template_store := hm_insert (nt_template_id msg) msg (jc_template_store d),
                 jc_last_future_template :=
                   (if nt_future_template msg then Some msg else jc_last_future_template d)\<rparr>) S in
      case deserialize_outputs L (jc_coinbase_outputs (jc_data S1)) of
        None \<Rightarrow> (Err ChannelManagerHasBadCoinbaseOutputs, S1)
      | Some outputs \<Rightarrow>
          and_then
            (if jc_mode S1 = FullTemplate then send_tp (RequestTransactionData (nt_template_id msg)) S1
             else (Ok (), S1))
            (\<lambda>_ S2.
               and_then
                 (locked (\<lambda>d.
                    case outputs of
                      [] \<Rightarrow> (Panic ''index out of bounds'', d)
                    | out # outs \<Rightarrow>
                        let outputs' = out\<lparr>tx_value := nt_coinbase_tx_value_remaining msg\<rparr> # outs in
                        (case hm_iter_state (jdc_template_downstream L (jc_mode S2) msg outputs')
                                (jc_downstream d) d of
                           (r, m, d1) \<Rightarrow> (r, d1\<lparr>jc_downstream := m\<rparr>))) S2)
                 (\<lambda>messages S3.
                    and_then
                      (if jc_mode S3 = CoinbaseOnly \<and> \<not> nt_future_template msg
                       then ignore_err (allocate_tokens L cfg 1 S3) else (Ok (), S3))
                      (\<lambda>_. forward_each L messages))))"

section \<open>Transactions of a template\<close>

definition jdc_tx_data_error ::
  "string \<Rightarrow> ('sc, 'ec, 'gc, 'vd, 'xf, 'uc, 'jf) jdc \<Rightarrow> ('sc, 'ec, 'gc, 'vd, 'xf, 'uc, 'jf, unit) jdc_step" where
  "jdc_tx_data_error code S =
     (if code = ''template-id-not-found'' \<or> code = ''stale-template-id'' then (Ok (), S)
      else (Err TxDataError, S))"

definition build_declare_job ::
  "('sc, 'ec, 'gc, 'vd, 'xf, 'uc, 'jf) jdc_lib \<Rightarrow> u32 \<Rightarrow> bytes \<Rightarrow> new_template \<Rightarrow> u256 list \<Rightarrow> bytes \<Rightarrow>
     bytes \<times> bytes \<Rightarrow> (jdc_error, jdc_declare_mining_job) res" where
  "build_declare_job L rid token template tx_ids excess coinbase =
     (case (b0255_try_from L token, b064k_try_from L (fst coinbase), b064k_try_from L (snd coinbase),
            b064k_try_from L excess) of
        (Inr t, Inr p, Inr s, Inr x) \<Rightarrow>
          Ok \<lparr>jd_request_id = rid, jd_mining_job_token = t, jd_version = nt_version template,
              jd_coinbase_tx_prefix = p, jd_coinbase_tx_suffix = s, jd_tx_ids_list = tx_ids, jd_excess_data = x\<rparr>
      | _ \<Rightarrow> Panic ''called `Result::unwrap()` on an `Err` value'')"

text \<open>The closure that builds and stores the declaration.\<close>

definition store_declare_job ::
  "('sc, 'ec, 'gc, 'vd, 'xf, 'uc, 'jf) jdc_lib \<Rightarrow> u32 \<Rightarrow> bytes \<Rightarrow> new_template \<Rightarrow> tx_out list \<Rightarrow> u256 list \<Rightarrow>
     bytes list \<Rightarrow> bytes \<Rightarrow> ('sc, 'ec, 'gc, 'vd, 'xf, 'uc, 'jf) jdc_data \<Rightarrow>
     (jdc_error, jdc_declare_mining_job option) res \<times> ('sc, 'ec, 'gc, 'vd, 'xf, 'uc, 'jf) jdc_data" where
  "store_declare_job L rid token template outputs tx_ids txs excess d =
     (case jc_job_factory d of
        None \<Rightarrow> (Ok None, d)
      | Some jf \<Rightarrow>
          (case jf_new_coinbase L jf template outputs (full_extranonce_size L (jc_upstream_channel d)) of
             (Inl e, jf1) \<Rightarrow> (Ok None, d\<lparr>jc_job_factory := Some jf1\<rparr>)
           | (Inr coinbase, jf1) \<Rightarrow>
               and_then (build_declare_job L rid token template tx_ids excess coinbase,
                         d\<lparr>jc_job_factory := Some jf1\<rparr>)
                 (\<lambda>job d. (Ok (Some job), d\<lparr>jc_last_declare_job_store := hm_insert rid
                    \<lparr>dj_declare_mining_job = Some job, dj_template = template,
                     dj_prev_hash = jc_last_new_prev_hash d, dj_set_custom_mining_job = None,
                     dj_coinbase_output = serialize_outputs L outputs, dj_tx_list = txs\<rparr>
                    (jc_last_declare_job_store d)\<rparr>))))"

definition jdc_tx_data_success ::
  "('sc, 'ec, 'gc, 'vd, 'xf, 'uc, 'jf) jdc_lib \<Rightarrow> jdc_config \<Rightarrow> u64 \<Rightarrow> bytes \<Rightarrow> bytes list \<Rightarrow>
     ('sc, 'ec, 'gc, 'vd, 'xf, 'uc, 'jf) jdc \<Rightarrow> ('sc, 'ec, 'gc, 'vd, 'xf, 'uc, 'jf, unit) jdc_step" where
  "jdc_tx_data_success L cfg tid excess txs S =
     (case deserialize_outputs L (jc_coinbase_outputs (jc_data S)) of
        None \<Rightarrow> (Err ChannelManagerHasBadCoinbaseOutputs, S)
      | Some outputs \<Rightarrow>
          (let d = jc_data S;
               token = jc_allocate_tokens d;
               template = hm_get (jc_template_store d) tid;
               rid = fst (fetch_add (jc_request_id_factory d));
               prev_hash = jc_last_new_prev_hash d;
               S1 = upd_jc (\<lambda>d. d\<lparr>jc_template_store := hm_remove tid (jc_template_store d),
                      jc_request_id_factory := snd (fetch_add (jc_request_id_factory d))\<rparr>) S in
           and_then (ignore_err (allocate_tokens L cfg 1 S1)) (\<lambda>_ S2.
           case token of
             None \<Rightarrow> (Err TokenNotFound, S2)
           | Some tok \<Rightarrow>
               (case template of
                  None \<Rightarrow> (Err (TemplateNotFound tid), S2)
                | Some t \<Rightarrow>
                    (case outputs of
                       [] \<Rightarrow> (Panic ''index out of bounds'', S2)
                     | out # outs \<Rightarrow>
                         let outputs' = out\<lparr>tx_value := nt_coinbase_tx_value_remaining t\<rparr> # outs in
                         (case those (map (raw_txid L) txs) of
                            None \<Rightarrow> (Panic ''invalid tx'', S2)
                          | Some ids \<Rightarrow>
                              (case seq064k_hashes L ids of
                                 Inl e \<Rightarrow> (Err (BinarySv2 e), S2)
                               | Inr tx_ids \<Rightarrow>
                                   and_then
                                     (locked (store_declare_job L rid (at_mining_job_token tok) t outputs'
                                        tx_ids txs excess) S2)
                                     (\<lambda>job S3.
                                        let inactive = nt_future_template t \<and>
                                              (case prev_hash of None \<Rightarrow> True
                                               | Some p \<Rightarrow> ph_template_id p \<noteq> nt_template_id t) in
                                        case job of
                                          Some j \<Rightarrow>
                                            if inactive then (Ok (), S3)
                                            else ignore_err (send_jd (DeclareMiningJob j) S3)
                                        | None \<Rightarrow> (Ok (), S3)))))))))"

section \<open>New prev-hash\<close>

definition activate_declared_job :: "set_new_prev_hash_tdp \<Rightarrow> declared_job \<Rightarrow> declared_job" where
  "activate_declared_job msg j =
     (if nt_future_template (dj_template j) \<and> nt_template_id (dj_template j) = ph_template_id msg
      then j\<lparr>dj_prev_hash := Some msg, dj_template := (dj_template j)\<lparr>nt_future_template := False\<rparr>\<rparr>
      else j)"

definition prev_hash_custom_job ::
  "('sc, 'ec, 'gc, 'vd, 'xf, 'uc, 'jf) jdc_lib \<Rightarrow> jd_mode \<Rightarrow> set_new_prev_hash_tdp \<Rightarrow> new_template option \<Rightarrow>
     tx_out list \<Rightarrow> ('sc, 'ec, 'gc, 'vd, 'xf, 'uc, 'jf) jdc_data \<Rightarrow>
     jdc_route list \<times> ('sc, 'ec, 'gc, 'vd, 'xf, 'uc, 'jf) jdc_data" where
  "prev_hash_custom_job L mode msg future_template outputs d =
     (case jc_upstream_channel d of
        None \<Rightarrow> ([], d)
      | Some uc0 \<Rightarrow>
          let uc = snd (up_on_chain_tip_update L uc0 msg); d1 = d\<lparr>jc_upstream_channel := Some uc\<rparr> in
          if mode \<noteq> CoinbaseOnly then ([], d1)
          else
            (case (jc_job_factory d1, jc_allocate_tokens d1, future_template) of
               (Some jf, Some token, Some template) \<Rightarrow>
                 (let rid = fst (fetch_add (jc_request_id_factory d1));
                      d2 = d1\<lparr>jc_request_id_factory := snd (fetch_add (jc_request_id_factory d1))\<rparr> in
                  case jf_new_custom_job L jf (up_channel_id L uc) rid (at_mining_job_token token) msg
                         template outputs (up_full_extranonce_size L uc) of
                    (Inl e, jf1) \<Rightarrow> ([], d2\<lparr>jc_job_factory := Some jf1\<rparr>)
                  | (Inr custom_job, jf1) \<Rightarrow>
                      ([ToUpstream (CustomJobUpstream custom_job)],
                       d2\<lparr>jc_job_factory := Some jf1,
                          jc_last_declare_job_store := hm_insert rid
                            \<lparr>dj_declare_mining_job = None, dj_template = template, dj_prev_hash = Some msg,
                             dj_set_custom_mining_job = Some custom_job,
                             dj_coinbase_output = jc_coinbase_outputs d2, dj_tx_list = []\<rparr>
                            (jc_last_declare_job_store d2)\<rparr>))
             | _ \<Rightarrow> ([], d1)))"

definition jdc_prev_hash_group ::
  "('sc, 'ec, 'gc, 'vd, 'xf, 'uc, 'jf) jdc_lib \<Rightarrow> set_new_prev_hash_tdp \<Rightarrow> downstream_id \<Rightarrow> 'gc option \<Rightarrow>
     (jdc_error, jdc_route list) res \<times> 'gc option" where
  "jdc_prev_hash_group L msg did g =
     (case g of
        None \<Rightarrow> (Ok [], None)
      | Some gc \<Rightarrow>
          let gc1 = snd (gc_on_set_new_prev_hash L gc msg) in
          (map_res (\<lambda>j. [ToDownstream did
               (SetNewPrevHash (jdc_activation msg (gc_group_channel_id L gc1) (job_id j)))])
             (expect ''active job must exist'' (gc_active_job L gc1)), Some gc1))"

definition jdc_prev_hash_standard ::
  "('sc, 'ec, 'gc, 'vd, 'xf, 'uc, 'jf) jdc_lib \<Rightarrow> set_new_prev_hash_tdp \<Rightarrow> downstream_id \<Rightarrow> bool \<Rightarrow>
     channel_id \<Rightarrow> 'sc \<Rightarrow> (jdc_error, jdc_route list) res \<times> 'sc" where
  "jdc_prev_hash_standard L msg did no_group cid sc =
     (case sc_on_set_new_prev_hash L sc msg of
        (Inl e, sc1) \<Rightarrow> (Ok [], sc1)
      | (Inr _, sc1) \<Rightarrow>
          (if no_group then
             map_res (\<lambda>j. [ToDownstream did (SetNewPrevHash (jdc_activation msg cid (job_id j)))])
               (expect ''active job must exist'' (sc_active_job L sc1))
           else Ok [], sc1))"

definition jdc_prev_hash_extended ::
  "('sc, 'ec, 'gc, 'vd, 'xf, 'uc, 'jf) jdc_lib \<Rightarrow> set_new_prev_hash_tdp \<Rightarrow> downstream_id \<Rightarrow>
     channel_id \<Rightarrow> 'ec \<Rightarrow> (jdc_error, jdc_route list) res \<times> 'ec" where
  "jdc_prev_hash_extended L msg did cid ec =
     (case ec_on_set_new_prev_hash L ec msg of
        (Inl e, ec1) \<Rightarrow> (Ok [], ec1)
      | (Inr _, ec1) \<Rightarrow>
          (map_res (\<lambda>j. [ToDownstream did (SetNewPrevHash (jdc_activation msg cid (job_id j)))])
             (expect ''active job must exist'' (ec_active_job L ec1)), ec1))"

definition jdc_prev_hash_downstream ::
  "('sc, 'ec, 'gc, 'vd, 'xf, 'uc, 'jf) jdc_lib \<Rightarrow> set_new_prev_hash_tdp \<Rightarrow> downstream_id \<Rightarrow>
     ('sc, 'ec, 'gc) jdc_downstream \<Rightarrow> (jdc_error, jdc_route list) res \<times> ('sc, 'ec, 'gc) jdc_downstream" where
  "jdc_prev_hash_downstream L msg did ds =
     (let put = (\<lambda>dd. ds\<lparr>jdc_downstream_data := dd\<rparr>); dd = jdc_downstream_data ds in
      case jdc_prev_hash_group L msg did (group_channels dd) of (gr, g) \<Rightarrow>
      let dd1 = dd\<lparr>group_channels := g\<rparr> in
      and_then (gr, put dd1) (\<lambda>group_messages _.
      case hm_iter_mut (jdc_prev_hash_standard L msg did (g = None)) (standard_channels dd1) of (sr, scs) \<Rightarrow>
      let dd2 = dd1\<lparr>standard_channels := scs\<rparr> in
      and_then (sr, put dd2) (\<lambda>standard_messages _.
      case hm_iter_mut (jdc_prev_hash_extended L msg did) (extended_channels dd2) of (er, ecs) \<Rightarrow>
      and_then (er, put (dd2\<lparr>extended_channels := ecs\<rparr>))
        (\<lambda>extended_messages ds. (Ok (group_messages @ standard_messages @ extended_messages), ds)))))"

text \<open>
  The declaration that is sent again: the first stored job of the last future template.
\<close>

definition declared_future_job ::
  "('sc, 'ec, 'gc, 'vd, 'xf, 'uc, 'jf) jdc_data \<Rightarrow> jdc_declare_mining_job option" where
  "declared_future_job d =
     (case List.find (\<lambda>(k, j). Some (nt_template_id (dj_template j)) =
              map_option nt_template_id (jc_last_future_template d)) (jc_last_declare_job_store d) of
        None \<Rightarrow> None
      | Some (k, j) \<Rightarrow> dj_declare_mining_job j)"

definition jdc_set_new_prev_hash ::
  "('sc, 'ec, 'gc, 'vd, 'xf, 'uc, 'jf) jdc_lib \<Rightarrow> jdc_config \<Rightarrow> set_new_prev_hash_tdp \<Rightarrow>
     ('sc, 'ec, 'gc, 'vd, 'xf, 'uc, 'jf) jdc \<Rightarrow> ('sc, 'ec, 'gc, 'vd, 'xf, 'uc, 'jf, unit) jdc_step" where
  "jdc_set_new_prev_hash L cfg msg S =
     (case deserialize_outputs L (jc_coinbase_outputs (jc_data S)) of
        None \<Rightarrow> (Err ChannelManagerHasBadCoinbaseOutputs, S)
      | Some outputs \<Rightarrow>
          (let S1 = upd_jc (\<lambda>d. d\<lparr>jc_upstream_channel :=
                 map_option (\<lambda>uc. snd (up_on_chain_tip_update L uc msg)) (jc_upstream_channel d)\<rparr>) S;
               future_template = jc_last_future_template (jc_data S1) in
           and_then
             (case declared_future_job (jc_data S1) of
                Some job \<Rightarrow>
                  if jc_mode S1 = FullTemplate then send_jd (DeclareMiningJob job) S1 else (Ok (), S1)
              | None \<Rightarrow> (Ok (), S1))
             (\<lambda>_ S2. and_then
                (locked (\<lambda>d.
                   let d1 = d\<lparr>jc_last_new_prev_hash := Some msg,
                          jc_last_declare_job_store :=
                            map (\<lambda>(k, j). (k, activate_declared_job msg j)) (jc_last_declare_job_store d)\<rparr>;
                       (custom_messages, d2) =
                          prev_hash_custom_job L (jc_mode S2) msg future_template outputs d1 in
                   (case hm_iter_mut (jdc_prev_hash_downstream L msg) (jc_downstream d2) of
                      (r, m) \<Rightarrow> (map_res ((@) custom_messages) r, d2\<lparr>jc_downstream := m\<rparr>))) S2)
                (\<lambda>messages S3. and_then
                   (if jc_mode S3 = CoinbaseOnly then ignore_err (allocate_tokens L cfg 1 S3) else (Ok (), S3))
                   (\<lambda>_. forward_each L messages)))))"

end
