(* ===== verification/Jdc_Manager.thy ===== *)
theory Jdc_Manager
  imports Jdc_Templates
begin

text \<open>
  The channel manager of the job declarator client (\<open>channel_manager/mod.rs\<close>): its constructor and
  reset, connections that come and go, the opening of the single upstream channel on behalf of
  the first miner, the vardiff pass, and the loop that handles one message after the other. The
  events of the loop also contain the two steps of \<open>lib/mod.rs\<close> that change the manager: the
  upstream is ready, and the fallback to another upstream.
\<close>

section \<open>Start and reset\<close>

definition jdc_data_new ::
  "('sc, 'ec, 'gc, 'vd, 'xf, 'uc, 'jf) jdc_lib \<Rightarrow> bytes \<Rightarrow> u16 list \<Rightarrow> u16 list \<Rightarrow>
     (jdc_error, ('sc, 'ec, 'gc, 'vd, 'xf, 'uc, 'jf) jdc_data) res" where
  "jdc_data_new L outputs supported required =
     map_res (\<lambda>xf.
       \<lparr>jc_downstream = hm_new, jc_factory_extended = xf, jc_factory_standard = xf,
        jc_request_id_factory = 0, jc_downstream_id_factory = 0, jc_sequence_number_factory = 0,
        jc_last_future_template = None, jc_last_new_prev_hash = None, jc_allocate_tokens = None,
        jc_template_store = hm_new, jc_last_declare_job_store = hm_new,
        jc_template_to_upstream_job = hm_new, jc_job_to_template = hm_new,
        jc_coinbase_outputs = outputs, jc_upstream_channel = None, jc_pool_tag_string = None,
        jc_pending_requests = [], jc_job_factory = None, jc_vardiff = hm_new,
        jc_negotiated_extensions = [], jc_supported_extensions = supported,
        jc_required_extensions = required\<rparr>)
       (expect ''Failed to create ExtendedExtranonce with valid ranges''
          (xf_new_ranges L JDC_SEARCH_SPACE_BYTES MAX_EXTRANONCE_LEN))"

definition jdc_new ::
  "('sc, 'ec, 'gc, 'vd, 'xf, 'uc, 'jf) jdc_data \<Rightarrow> jd_mode \<Rightarrow> ('sc, 'ec, 'gc, 'vd, 'xf, 'uc, 'jf) jdc" where
  "jdc_new d mode =
     \<lparr>jc_data = d, jc_upstream_state = SoloState, jc_mode = mode, out_upstream = [], out_jd = [],
      out_tp = [], out_downstream = [], out_status = [], upstream_open = True, jd_open = True,
      tp_open = True, status_open = True\<rparr>"

text \<open>
  The reset of a fallback. The vardiff states, the job factory, the sequence numbers, the last
  template and prev-hash and the negotiated extensions stay.
\<close>

definition jdc_reset ::
  "('sc, 'ec, 'gc, 'vd, 'xf, 'uc, 'jf) jdc_lib \<Rightarrow> bytes \<Rightarrow>
     ('sc, 'ec, 'gc, 'vd, 'xf, 'uc, 'jf) jdc_data \<Rightarrow>
     (jdc_error, unit) res \<times> ('sc, 'ec, 'gc, 'vd, 'xf, 'uc, 'jf) jdc_data" where
  "jdc_reset L outputs d =
     (let d1 = d\<lparr>jc_downstream := hm_new, jc_template_store := hm_new, jc_last_declare_job_store := hm_new,
                jc_template_to_upstream_job := hm_new, jc_job_to_template := hm_new,
                jc_pending_requests := [], jc_downstream_id_factory := 0, jc_request_id_factory := 0\<rparr> in
      case xf_new_ranges L JDC_SEARCH_SPACE_BYTES MAX_EXTRANONCE_LEN of
        None \<Rightarrow> (Panic ''valid ranges'', d1)
      | Some xf \<Rightarrow>
          (Ok (), d1\<lparr>jc_factory_extended := xf, jc_factory_standard := xf, jc_allocate_tokens := None,
                     jc_upstream_channel := None, jc_pool_tag_string := None,
                     jc_coinbase_outputs := outputs\<rparr>))"

section \<open>Connections\<close>

definition jdc_downstream_new ::
  "downstream_id \<Rightarrow> u16 list \<Rightarrow> u16 list \<Rightarrow> ('sc, 'ec, 'gc) jdc_downstream" where
  "jdc_downstream_new did supported required =
     \<lparr>jdc_downstream_data =
        \<lparr>group_channels = None, extended_channels = hm_new, standard_channels = hm_new,
         channel_id_factory = 0, negotiated_extensions = [], require_std_job = False,
         dd_supported_extensions = supported, dd_required_extensions = required\<rparr>,
      jdc_downstream_id = did\<rparr>"

definition jdc_accept ::
  "u16 list \<Rightarrow> u16 list \<Rightarrow> ('sc, 'ec, 'gc, 'vd, 'xf, 'uc, 'jf) jdc_data \<Rightarrow>
     ('sc, 'ec, 'gc, 'vd, 'xf, 'uc, 'jf) jdc_data" where
  "jdc_accept supported required d =
     (let did = fst (fetch_add (jc_downstream_id_factory d));
          d1 = d\<lparr>jc_downstream_id_factory := snd (fetch_add (jc_downstream_id_factory d))\<rparr>
      in d1\<lparr>jc_downstream := hm_insert did (jdc_downstream_new did supported required) (jc_downstream d1)\<rparr>)"

definition jdc_remove_downstream ::
  "downstream_id \<Rightarrow> ('sc, 'ec, 'gc, 'vd, 'xf, 'uc, 'jf) jdc_data \<Rightarrow>
     ('sc, 'ec, 'gc, 'vd, 'xf, 'uc, 'jf) jdc_data" where
  "jdc_remove_downstream did d =
     d\<lparr>jc_downstream := hm_remove did (jc_downstream d),
       jc_job_to_template := hm_retain (\<lambda>k _. fst k \<noteq> did) (jc_job_to_template d),
       jc_vardiff := hm_retain (\<lambda>k _. fst k \<noteq> did) (jc_vardiff d)\<rparr>"

section \<open>Messages of the miners\<close>

datatype miner_message =
    MinerClose channel_id
  | MinerOpenStandard open_standard_mining_channel
  | MinerOpenExtended open_extended_mining_channel
  | MinerUpdate update_channel
  | MinerShareStandard submit_shares_standard
  | MinerShareExtended submit_shares_extended
  | MinerCustomJob set_custom_mining_job

definition MESSAGE_TYPE_SET_CUSTOM_MINING_JOB :: u8 where
  "MESSAGE_TYPE_SET_CUSTOM_MINING_JOB = 0x22"

fun jdc_handle_mining ::
  "('sc, 'ec, 'gc, 'vd, 'xf, 'uc, 'jf) jdc_lib \<Rightarrow> jdc_config \<Rightarrow> downstream_id \<Rightarrow> miner_message \<Rightarrow>
     ('sc, 'ec, 'gc, 'vd, 'xf, 'uc, 'jf) jdc \<Rightarrow> ('sc, 'ec, 'gc, 'vd, 'xf, 'uc, 'jf, unit) jdc_step" where
  "jdc_handle_mining L cfg did (MinerClose cid) S = jdc_close_channel did cid S"
| "jdc_handle_mining L cfg did (MinerOpenStandard m) S = jdc_open_standard L cfg did m S"
| "jdc_handle_mining L cfg did (MinerOpenExtended m) S = jdc_open_extended L cfg did m S"
| "jdc_handle_mining L cfg did (MinerUpdate m) S = jdc_update_channel L did m S"
| "jdc_handle_mining L cfg did (MinerShareStandard m) S = jdc_submit_shares_standard L did m S"
| "jdc_handle_mining L cfg did (MinerShareExtended m) S = jdc_submit_shares_extended L did m S"
| "jdc_handle_mining L cfg did (MinerCustomJob m) S =
     (Err (UnexpectedMessage 0 MESSAGE_TYPE_SET_CUSTOM_MINING_JOB), S)"

text \<open>
  The first request of a miner opens the upstream channel: it is put at the front of the
  queue, the state becomes \<open>Pending\<close>, and a request in the name of the client is sent. The size is
  added without a check for overflow in release builds.
\<close>

definition request_upstream ::
  "('sc, 'ec, 'gc, 'vd, 'xf, 'uc, 'jf) jdc_lib \<Rightarrow> pending_request \<Rightarrow>
     (jdc_error, open_extended_mining_channel) res \<Rightarrow> ('sc, 'ec, 'gc, 'vd, 'xf, 'uc, 'jf) jdc \<Rightarrow>
     ('sc, 'ec, 'gc, 'vd, 'xf, 'uc, 'jf, unit) jdc_step" where
  "request_upstream L request opening S =
     (let S1 = upd_jc (\<lambda>d. d\<lparr>jc_pending_requests := request # jc_pending_requests d\<rparr>) S in
      case compare_and_set NoChannel Pending (jc_upstream_state S1) of
        (Inl s, s') \<Rightarrow> (Ok (), S1)
      | (Inr _, s') \<Rightarrow>
          and_then (opening, S1\<lparr>jc_upstream_state := s'\<rparr>)
            (\<lambda>m. send_upstream L (OpenExtendedUpstream m)))"

definition upstream_request ::
  "('sc, 'ec, 'gc, 'vd, 'xf, 'uc, 'jf) jdc_lib \<Rightarrow> jdc_config \<Rightarrow> pending_request \<Rightarrow>
     (jdc_error, open_extended_mining_channel) res" where
  "upstream_request L cfg request =
     (case request of
        ExtendedChannel i m \<Rightarrow>
          (case str0255_try_from L (jc_user_identity cfg) of
             Inl e \<Rightarrow> Err (BinarySv2 e)
           | Inr user \<Rightarrow>
               Ok (m\<lparr>oe_user_identity := user, oe_request_id := 1,
                     oe_min_extranonce_size := oe_min_extranonce_size m + ucast JDC_SEARCH_SPACE_BYTES\<rparr>))
      | StandardChannel i m \<Rightarrow>
          (case str0255_try_from L (jc_user_identity cfg) of
             Inl e \<Rightarrow> Panic ''called `Result::unwrap()` on an `Err` value''
           | Inr user \<Rightarrow>
               Ok \<lparr>oe_request_id = 1, oe_user_identity = user, oe_nominal_hash_rate = os_nominal_hash_rate m,
                   oe_max_target = os_max_target m, oe_min_extranonce_size = ucast JDC_SEARCH_SPACE_BYTES\<rparr>))"

definition jdc_open_request ::
  "('sc, 'ec, 'gc, 'vd, 'xf, 'uc, 'jf) jdc_lib \<Rightarrow> jdc_config \<Rightarrow> pending_request \<Rightarrow>
     ('sc, 'ec, 'gc, 'vd, 'xf, 'uc, 'jf) jdc \<Rightarrow> ('sc, 'ec, 'gc, 'vd, 'xf, 'uc, 'jf, unit) jdc_step" where
  "jdc_open_request L cfg request S =
     (case jc_upstream_state S of
        NoChannel \<Rightarrow> request_upstream L request (upstream_request L cfg request) S
      | Pending \<Rightarrow> (Ok (), upd_jc (\<lambda>d. d\<lparr>jc_pending_requests := jc_pending_requests d @ [request]\<rparr>) S)
      | Connected \<Rightarrow> open_pending L cfg request S
      | SoloState \<Rightarrow> open_pending L cfg request S)"

definition jdc_handle_downstream_message ::
  "('sc, 'ec, 'gc, 'vd, 'xf, 'uc, 'jf) jdc_lib \<Rightarrow> jdc_config \<Rightarrow> downstream_id \<Rightarrow> miner_message \<Rightarrow>
     ('sc, 'ec, 'gc, 'vd, 'xf, 'uc, 'jf) jdc \<Rightarrow> ('sc, 'ec, 'gc, 'vd, 'xf, 'uc, 'jf, unit) jdc_step" where
  "jdc_handle_downstream_message L cfg did msg S =
     (case msg of
        MinerOpenExtended m \<Rightarrow> jdc_open_request L cfg (ExtendedChannel did m) S
      | MinerOpenStandard m \<Rightarrow> jdc_open_request L cfg (StandardChannel did m) S
      | _ \<Rightarrow> jdc_handle_mining L cfg did msg S)"

section \<open>Vardiff\<close>

definition jdc_vardiff_standard ::
  "('sc, 'ec, 'gc, 'vd, 'xf, 'uc, 'jf) jdc_lib \<Rightarrow> downstream_id \<Rightarrow> channel_id \<Rightarrow> 'sc \<Rightarrow> 'vd \<Rightarrow>
     jdc_route list \<times> 'sc \<times> 'vd" where
  "jdc_vardiff_standard L did cid sc vd =
     (case vd_try_vardiff L vd (sc_nominal_hashrate L sc) (sc_target L sc) (sc_shares_per_minute L sc) of
        (Inr (Some h), vd1) \<Rightarrow>
          (case sc_update_channel L sc h None of
             (Inr _, sc1) \<Rightarrow> ([ToDownstream did (SetTarget cid (sc_target L sc1))], sc1, vd1)
           | (Inl e, sc1) \<Rightarrow> ([], sc1, vd1))
      | (_, vd1) \<Rightarrow> ([], sc, vd1))"

definition jdc_vardiff_extended ::
  "('sc, 'ec, 'gc, 'vd, 'xf, 'uc, 'jf) jdc_lib \<Rightarrow> downstream_id \<Rightarrow> channel_id \<Rightarrow> 'ec \<Rightarrow> 'vd \<Rightarrow>
     jdc_route list \<times> 'ec \<times> 'vd" where
  "jdc_vardiff_extended L did cid ec vd =
     (case vd_try_vardiff L vd (ec_nominal_hashrate L ec) (ec_target L ec) (ec_shares_per_minute L ec) of
        (Inr (Some h), vd1) \<Rightarrow>
          (case ec_update_channel L ec h None of
             (Inr _, ec1) \<Rightarrow> ([ToDownstream did (SetTarget cid (ec_target L ec1))], ec1, vd1)
           | (Inl e, ec1) \<Rightarrow> ([], ec1, vd1))
      | (_, vd1) \<Rightarrow> ([], ec, vd1))"

definition jdc_vardiff_entry ::
  "('sc, 'ec, 'gc, 'vd, 'xf, 'uc, 'jf) jdc_lib \<Rightarrow> vardiff_key \<Rightarrow> 'vd \<Rightarrow>
     (downstream_id, ('sc, 'ec, 'gc) jdc_downstream) hash_map \<Rightarrow>
     (jdc_error, jdc_route list) res \<times> 'vd \<times> (downstream_id, ('sc, 'ec, 'gc) jdc_downstream) hash_map" where
  "jdc_vardiff_entry L key vd m =
     (case key of (did, cid) \<Rightarrow>
      case hm_get m did of
        None \<Rightarrow> (Ok [], vd, m)
      | Some ds \<Rightarrow>
          let dd = jdc_downstream_data ds;
              (sm, dd1, vd1) =
                (case hm_get (standard_channels dd) cid of
                   None \<Rightarrow> ([], dd, vd)
                 | Some sc \<Rightarrow>
                     (case jdc_vardiff_standard L did cid sc vd of (ms, sc1, vd1) \<Rightarrow>
                        (ms, dd\<lparr>standard_channels := hm_insert cid sc1 (standard_channels dd)\<rparr>, vd1)));
              (em, dd2, vd2) =
                (case hm_get (extended_channels dd1) cid of
                   None \<Rightarrow> ([], dd1, vd1)
                 | Some ec \<Rightarrow>
                     (case jdc_vardiff_extended L did cid ec vd1 of (ms, ec1, vd2) \<Rightarrow>
                        (ms, dd1\<lparr>extended_channels := hm_insert cid ec1 (extended_channels dd1)\<rparr>, vd2)))
          in (Ok (sm @ em), vd2, hm_insert did (ds\<lparr>jdc_downstream_data := dd2\<rparr>) m))"

text \<open>
  The minimum of the targets: the code compares the little-endian byte arrays, whose first byte
  is the least significant one.
\<close>

definition target_le_bytes :: "u256 \<Rightarrow> u8 list" where
  "target_le_bytes t = map (\<lambda>i. ucast (drop_bit (8 * i) t)) [0..<32]"

fun bytes_le :: "u8 list \<Rightarrow> u8 list \<Rightarrow> bool" where
  "bytes_le [] ys = True"
| "bytes_le (x # xs) [] = False"
| "bytes_le (x # xs) (y # ys) = (x < y \<or> x = y \<and> bytes_le xs ys)"

definition vardiff_minimum :: "(f32 \<times> u256) list \<Rightarrow> u256" where
  "vardiff_minimum loads =
     fold (\<lambda>(h, t) m. if bytes_le (target_le_bytes t) (target_le_bytes m) then t else m) loads (- 1)"

definition jdc_run_vardiff ::
  "('sc, 'ec, 'gc, 'vd, 'xf, 'uc, 'jf) jdc_lib \<Rightarrow> ('sc, 'ec, 'gc, 'vd, 'xf, 'uc, 'jf) jdc \<Rightarrow>
     ('sc, 'ec, 'gc, 'vd, 'xf, 'uc, 'jf, unit) jdc_step" where
  "jdc_run_vardiff L S =
     and_then
       (locked (\<lambda>d.
          case hm_iter_state (jdc_vardiff_entry L) (jc_vardiff d) (jc_downstream d) of (r, vs, m) \<Rightarrow>
          let d1 = d\<lparr>jc_vardiff := vs, jc_downstream := m\<rparr>;
              loads = channel_loads L (jc_downstream d1) in
          (map_res (\<lambda>ms.
             ms @ (case jc_upstream_channel d1 of
                     None \<Rightarrow> []
                   | Some uc \<Rightarrow>
                       if ms = [] then []
                       else [ToUpstream (UpdateUpstream \<lparr>uc_channel_id = up_channel_id L uc,
                               uc_nominal_hash_rate = jdc_total_hashrate L loads,
                               uc_maximum_target = vardiff_minimum loads\<rparr>)])) r, d1)) S)
       (\<lambda>messages. forward_each L messages)"

section \<open>The loop\<close>

text \<open>
  The messages of the three servers, and everything that changes the manager.
\<close>

datatype jdc_event =
    FromMiner downstream_id miner_message
  | TokenAllocated allocate_token_success
  | DeclarationRefused
  | DeclarationAccepted u32 bytes
  | TransactionsMissing u32 "u16 list"
  | UpstreamOpened upstream_opened
  | UpstreamRefused
  | UpstreamClosed
  | UpstreamPrefix bytes
  | CustomJobAccepted custom_job_success
  | CustomJobRefused
  | UpstreamTarget u256
  | ExtensionsAccepted "u16 list"
  | ExtensionsRefused u16 "u16 list" "u16 list"
  | Template new_template
  | TxData u64 bytes "bytes list"
  | TxDataRefused string
  | PrevHash set_new_prev_hash_tdp
  | VardiffTick
  | MinerAccepted
  | MinerLeft downstream_id
  | UpstreamReady jd_mode
  | Fallback bytes

fun jdc_handle ::
  "('sc, 'ec, 'gc, 'vd, 'xf, 'uc, 'jf) jdc_lib \<Rightarrow> jdc_config \<Rightarrow> jdc_event \<Rightarrow>
     ('sc, 'ec, 'gc, 'vd, 'xf, 'uc, 'jf) jdc \<Rightarrow> ('sc, 'ec, 'gc, 'vd, 'xf, 'uc, 'jf, unit) jdc_step" where
  "jdc_handle L cfg (FromMiner did m) S = jdc_handle_downstream_message L cfg did m S"
| "jdc_handle L cfg (TokenAllocated m) S = jdc_allocate_mining_job_token_success L m S"
| "jdc_handle L cfg DeclarationRefused S = jdc_declare_mining_job_error S"
| "jdc_handle L cfg (DeclarationAccepted rid token) S = jdc_declare_mining_job_success L rid token S"
| "jdc_handle L cfg (TransactionsMissing rid ps) S = jdc_provide_missing_transactions L rid ps S"
| "jdc_handle L cfg (UpstreamOpened m) S = jdc_open_success L cfg m S"
| "jdc_handle L cfg UpstreamRefused S = jdc_upstream_refused S"
| "jdc_handle L cfg UpstreamClosed S = jdc_upstream_closed S"
| "jdc_handle L cfg (UpstreamPrefix pfx) S = jdc_set_extranonce_prefix L pfx S"
| "jdc_handle L cfg (CustomJobAccepted m) S = jdc_custom_job_success L m S"
| "jdc_handle L cfg CustomJobRefused S = jdc_upstream_refused S"
| "jdc_handle L cfg (UpstreamTarget t) S = jdc_upstream_set_target L t S"
| "jdc_handle L cfg (ExtensionsAccepted es) S = jdc_extensions_success es S"
| "jdc_handle L cfg (ExtensionsRefused rid us rs) S = jdc_extensions_error L rid us rs S"
| "jdc_handle L cfg (Template m) S = jdc_new_template L cfg m S"
| "jdc_handle L cfg (TxData tid excess txs) S = jdc_tx_data_success L cfg tid excess txs S"
| "jdc_handle L cfg (TxDataRefused code) S = jdc_tx_data_error code S"
| "jdc_handle L cfg (PrevHash m) S = jdc_set_new_prev_hash L cfg m S"
| "jdc_handle L cfg VardiffTick S = jdc_run_vardiff L S"
| "jdc_handle L cfg MinerAccepted S =
     (Ok (), upd_jc (\<lambda>d. jdc_accept (jc_supported_extensions d) (jc_required_extensions d) d) S)"
| "jdc_handle L cfg (MinerLeft did) S = (Ok (), upd_jc (jdc_remove_downstream did) S)"
| "jdc_handle L cfg (UpstreamReady mode) S =
     ignore_err (allocate_tokens L cfg 1 (S\<lparr>jc_upstream_state := NoChannel, jc_mode := mode\<rparr>))"
| "jdc_handle L cfg (Fallback outputs) S =
     locked (jdc_reset L outputs) (S\<lparr>jc_upstream_state := SoloState, jc_mode := SoloMining\<rparr>)"

text \<open>
  The loop goes on after an error that is not critical, and ends with a critical error or a
  panic.
\<close>

fun run_jdc ::
  "('sc, 'ec, 'gc, 'vd, 'xf, 'uc, 'jf) jdc_lib \<Rightarrow> jdc_config \<Rightarrow> jdc_event list \<Rightarrow>
     ('sc, 'ec, 'gc, 'vd, 'xf, 'uc, 'jf) jdc \<Rightarrow> ('sc, 'ec, 'gc, 'vd, 'xf, 'uc, 'jf, unit) jdc_step" where
  "run_jdc L cfg [] S = (Ok (), S)"
| "run_jdc L cfg (e # es) S =
     (case jdc_handle L cfg e S of
        (Ok _, S1) \<Rightarrow> run_jdc L cfg es S1
      | (Err x, S1) \<Rightarrow> if is_critical x then (Err x, S1) else run_jdc L cfg es S1
      | (Panic p, S1) \<Rightarrow> (Panic p, S1))"

end
