(* ===== verification/Jdc_Laws.thy ===== *)
theory Jdc_Laws
  imports Jdc_Manager
begin

text \<open>
  Lemmas about the job declarator client: what forwarding does to the queues, and the invariant of
  the channel manager in all states that its loop reaches.
\<close>

section \<open>Forwarding\<close>

definition downstream_part :: "jdc_route list \<Rightarrow> (downstream_id \<times> mining) list" where
  "downstream_part ms = List.map_filter (\<lambda>r. case r of ToDownstream i m \<Rightarrow> Some (i, m) | _ \<Rightarrow> None) ms"

definition upstream_part :: "('sc, 'ec, 'gc, 'vd, 'xf, 'uc, 'jf) jdc_lib \<Rightarrow> jdc_route list \<Rightarrow> upstream_mining list" where
  "upstream_part L ms =
     List.map_filter (\<lambda>r. case r of ToUpstream m \<Rightarrow> if isl (frame_try_from L m) then None else Some m | _ \<Rightarrow> None) ms"

definition jd_part :: "jdc_route list \<Rightarrow> jd_request list" where
  "jd_part ms = List.map_filter (\<lambda>r. case r of ToJobDeclarator m \<Rightarrow> Some m | _ \<Rightarrow> None) ms"

definition tp_part :: "jdc_route list \<Rightarrow> tp_request list" where
  "tp_part ms = List.map_filter (\<lambda>r. case r of ToTemplateProvider m \<Rightarrow> Some m | _ \<Rightarrow> None) ms"

lemmas part_defs = downstream_part_def upstream_part_def jd_part_def tp_part_def

lemma part_simps [simp]:
  "downstream_part [] = []" "upstream_part L [] = []" "jd_part [] = []" "tp_part [] = []"
  "downstream_part (ToDownstream i m # rs) = (i, m) # downstream_part rs"
  "downstream_part (ToUpstream u # rs) = downstream_part rs"
  "downstream_part (ToJobDeclarator j # rs) = downstream_part rs"
  "downstream_part (ToTemplateProvider t # rs) = downstream_part rs"
  "upstream_part L (ToUpstream u # rs) =
     (if isl (frame_try_from L u) then upstream_part L rs else u # upstream_part L rs)"
  "upstream_part L (ToDownstream i m # rs) = upstream_part L rs"
  "upstream_part L (ToJobDeclarator j # rs) = upstream_part L rs"
  "upstream_part L (ToTemplateProvider t # rs) = upstream_part L rs"
  "jd_part (ToJobDeclarator j # rs) = j # jd_part rs"
  "jd_part (ToDownstream i m # rs) = jd_part rs"
  "jd_part (ToUpstream u # rs) = jd_part rs"
  "jd_part (ToTemplateProvider t # rs) = jd_part rs"
  "tp_part (ToTemplateProvider t # rs) = t # tp_part rs"
  "tp_part (ToDownstream i m # rs) = tp_part rs"
  "tp_part (ToUpstream u # rs) = tp_part rs"
  "tp_part (ToJobDeclarator j # rs) = tp_part rs"
  by (simp_all add: part_defs List.map_filter_simps)

lemma part_append [simp]:
  "downstream_part (xs @ ys) = downstream_part xs @ downstream_part ys"
  "upstream_part L (xs @ ys) = upstream_part L xs @ upstream_part L ys"
  "jd_part (xs @ ys) = jd_part xs @ jd_part ys"
  "tp_part (xs @ ys) = tp_part xs @ tp_part ys"
  by (simp_all add: part_defs List.map_filter_def)

text \<open>The state after the messages were forwarded.\<close>

definition forwarded_state ::
  "('sc, 'ec, 'gc, 'vd, 'xf, 'uc, 'jf) jdc_lib \<Rightarrow> jdc_route list \<Rightarrow>
     ('sc, 'ec, 'gc, 'vd, 'xf, 'uc, 'jf) jdc \<Rightarrow> ('sc, 'ec, 'gc, 'vd, 'xf, 'uc, 'jf) jdc" where
  "forwarded_state L ms S =
     S\<lparr>out_downstream := out_downstream S @ downstream_part ms,
       out_upstream := out_upstream S @
         (if jc_mode S \<noteq> SoloMining \<and> upstream_open S then upstream_part L ms else []),
       out_jd := out_jd S @ (if jd_open S then jd_part ms else []),
       out_tp := out_tp S @ (if tp_open S then tp_part ms else [])\<rparr>"

lemma forward_eq: "ignore_err (forward L m S) = (Ok (), forwarded_state L [m] S)"
  by (cases m)
    (auto simp: forwarded_state_def ignore_err_def send_upstream_def send_jd_def send_tp_def
      split: sum.splits if_splits)

lemma forwarded_state_append:
  "forwarded_state L ys (forwarded_state L xs S) = forwarded_state L (xs @ ys) S"
  by (simp add: forwarded_state_def)

lemma forward_each_eq [simp]: "forward_each L ms S = (Ok (), forwarded_state L ms S)"
proof (induction ms arbitrary: S)
  case Nil
  then show ?case by (simp add: forwarded_state_def)
next
  case (Cons m ms)
  then show ?case by (simp add: forward_eq forwarded_state_append)
qed

lemma forward_try_eq:
  assumes "forward_try L ms S = (Ok (), S')"
  shows "S' = forwarded_state L ms S"
  using assms
proof (induction ms arbitrary: S)
  case Nil
  then show ?case by (simp add: forwarded_state_def)
next
  case (Cons m ms)
  then obtain S1 where 1: "forward L m S = (Ok (), S1)" "forward_try L ms S1 = (Ok (), S')"
    by (auto elim: and_then_cases)
  then have "S1 = forwarded_state L [m] S" using forward_eq [of L m S] by (simp add: ignore_err_def)
  with Cons.IH [OF 1(2)] show ?case by (simp add: forwarded_state_append)
qed

lemma forward_try_ok:
  assumes "\<And>m. frame_try_from L m = Inr ()"
  shows "forward_try L ms S = (Ok (), forwarded_state L ms S)"
proof (induction ms arbitrary: S)
  case Nil
  then show ?case by (simp add: forwarded_state_def)
next
  case (Cons m ms)
  have "\<not> isl (frame_try_from L u)" for u using assms by simp
  then have "forward L m S = (Ok (), forwarded_state L [m] S)"
    using forward_eq [of L m S] assms
    by (cases m) (auto simp: ignore_err_def split: prod.splits res.splits if_splits)
  then show ?case using Cons by (simp add: forwarded_state_append)
qed

lemma forward_no_panic: "fst (forward L m S) \<noteq> Panic p"
  by (cases m) (auto simp: ignore_err_def send_upstream_def send_jd_def send_tp_def split: sum.splits)

lemma forward_try_data:
  "jc_data (snd (forward_try L ms S)) = jc_data S" "jc_upstream_state (snd (forward_try L ms S)) = jc_upstream_state S"
  "jc_mode (snd (forward_try L ms S)) = jc_mode S"
proof -
  have one: "jc_data (snd (forward L m S)) = jc_data S \<and> jc_upstream_state (snd (forward L m S)) = jc_upstream_state S \<and>
      jc_mode (snd (forward L m S)) = jc_mode S" for m and S :: "('a, 'b, 'c, 'd, 'e, 'f, 'g) jdc"
    by (cases m) (auto simp: ignore_err_def send_upstream_def send_jd_def send_tp_def split: sum.splits)
  have all: "jc_data (snd (forward_try L ms S)) = jc_data S \<and>
      jc_upstream_state (snd (forward_try L ms S)) = jc_upstream_state S \<and>
      jc_mode (snd (forward_try L ms S)) = jc_mode S"
  proof (induction ms arbitrary: S)
    case Nil
    then show ?case by simp
  next
    case (Cons m ms)
    then show ?case using one [of m S] by (auto simp: and_then_def split: prod.splits res.splits)
  qed
  then show "jc_data (snd (forward_try L ms S)) = jc_data S"
    "jc_upstream_state (snd (forward_try L ms S)) = jc_upstream_state S"
    "jc_mode (snd (forward_try L ms S)) = jc_mode S" by simp_all
qed

lemma forwarded_state_simps [simp]:
  "jc_data (forwarded_state L ms S) = jc_data S" "jc_upstream_state (forwarded_state L ms S) = jc_upstream_state S"
  "jc_mode (forwarded_state L ms S) = jc_mode S"
  "out_downstream (forwarded_state L ms S) = out_downstream S @ downstream_part ms"
  "out_status (forwarded_state L ms S) = out_status S"
  by (simp_all add: forwarded_state_def)

section \<open>What the handlers leave alone\<close>

text \<open>
  The part of the data that only a few events change: the waiting requests, and whether there is
  an upstream channel and a job factory.
\<close>

definition data_core ::
  "('sc, 'ec, 'gc, 'vd, 'xf, 'uc, 'jf) jdc_data \<Rightarrow> pending_request list \<times> bool \<times> bool" where
  "data_core d = (jc_pending_requests d, jc_upstream_channel d = None, jc_job_factory d = None)"

definition jdc_core ::
  "('sc, 'ec, 'gc, 'vd, 'xf, 'uc, 'jf) jdc \<Rightarrow> upstream_state \<times> pending_request list \<times> bool \<times> bool" where
  "jdc_core S = (jc_upstream_state S, data_core (jc_data S))"

lemma core_updates [simp, frame_simps]:
  "data_core (d\<lparr>jc_downstream := x0\<rparr>) = data_core d"
  "data_core (d\<lparr>jc_factory_extended := x1\<rparr>) = data_core d"
  "data_core (d\<lparr>jc_factory_standard := x2\<rparr>) = data_core d"
  "data_core (d\<lparr>jc_request_id_factory := x3\<rparr>) = data_core d"
  "data_core (d\<lparr>jc_downstream_id_factory := x4\<rparr>) = data_core d"
  "data_core (d\<lparr>jc_sequence_number_factory := x5\<rparr>) = data_core d"
  "data_core (d\<lparr>jc_last_future_template := x6\<rparr>) = data_core d"
  "data_core (d\<lparr>jc_last_new_prev_hash := x7\<rparr>) = data_core d"
  "data_core (d\<lparr>jc_allocate_tokens := x8\<rparr>) = data_core d"
  "data_core (d\<lparr>jc_template_store := x9\<rparr>) = data_core d"
  "data_core (d\<lparr>jc_last_declare_job_store := x10\<rparr>) = data_core d"
  "data_core (d\<lparr>jc_template_to_upstream_job := x11\<rparr>) = data_core d"
  "data_core (d\<lparr>jc_job_to_template := x12\<rparr>) = data_core d"
  "data_core (d\<lparr>jc_coinbase_outputs := x13\<rparr>) = data_core d"
  "data_core (d\<lparr>jc_pool_tag_string := x14\<rparr>) = data_core d"
  "data_core (d\<lparr>jc_vardiff := x15\<rparr>) = data_core d"
  "data_core (d\<lparr>jc_negotiated_extensions := x16\<rparr>) = data_core d"
  by (simp_all add: data_core_def)

lemma core_locked:
  assumes "data_core (snd (f (jc_data S))) = data_core (jc_data S)" and "jdc_core S = c"
  shows "jdc_core (snd (locked f S)) = c"
  using assms by (auto simp: locked_def jdc_core_def split: prod.splits)

lemma core_forwarded [simp, frame_simps]: "jdc_core (forwarded_state L ms S) = jdc_core S"
  by (simp add: jdc_core_def)

lemma core_forward_try [simp, frame_simps]: "jdc_core (snd (forward_try L ms S)) = jdc_core S"
  by (simp add: jdc_core_def forward_try_data)

lemma core_and_then [intro]:
  assumes "jdc_core (snd m) = c" and "\<And>a S1. jdc_core S1 = c \<Longrightarrow> jdc_core (snd (k a S1)) = c"
  shows "jdc_core (snd (and_then m k)) = c"
  using assms by (auto simp: and_then_def split: prod.split res.split)

lemma core_locked_forward:
  assumes "data_core (snd (f (jc_data S))) = data_core (jc_data S)"
  shows "jdc_core (snd (and_then (locked f S) (forward_each L))) = jdc_core S"
    and "jdc_core (snd (and_then (locked f S) (forward_try L))) = jdc_core S"
  by (rule core_and_then, rule core_locked [of f, OF assms refl], simp)+

lemma core_ignore [simp, frame_simps]: "snd (ignore_err m) = snd m"
  by (auto simp: ignore_err_def split: prod.split res.split)

lemma core_send [simp, frame_simps]:
  "jdc_core (snd (send_upstream L u S)) = jdc_core S" "jdc_core (snd (send_jd j S)) = jdc_core S"
  "jdc_core (snd (send_tp t S)) = jdc_core S" "jdc_core (snd (jdc_send_status st S)) = jdc_core S"
  by (simp_all add: jdc_core_def send_upstream_def send_jd_def send_tp_def jdc_send_status_def split: sum.split)

lemma core_upd [simp]:
  assumes "data_core d = data_core (jc_data S)"
  shows "jdc_core (S\<lparr>jc_data := d\<rparr>) = jdc_core S"
  using assms by (simp add: jdc_core_def)

lemma core_lock_downstream:
  assumes "data_core (fst (snd (f (d, jdc_downstream_data ds)))) = data_core d"
  shows "data_core (snd (lock_jdc_downstream did ds f d)) = data_core d"
  using assms by (auto simp: lock_jdc_downstream_def data_core_def split: prod.splits)

lemma core_open_closures:
  "data_core (fst (snd (jdc_ensure_group L cfg t p outs s))) = data_core (fst s)"
  "data_core (fst (snd (jdc_finish_standard L did rid cid gid sc t p outs s))) = data_core (fst s)"
  "data_core (fst (snd (jdc_finish_extended L did rid cid ec t p s))) = data_core (fst s)"
  by (simp_all add: jdc_ensure_group_def jdc_finish_standard_def jdc_finish_extended_def data_core_def Let_def
      split: prod.split sum.split option.split list.split)

lemma core_create:
  "data_core (fst (snd (jdc_create_standard L cfg did os t p outs s))) = data_core (fst s)"
  "data_core (fst (snd (jdc_create_extended L cfg did oe t p s))) = data_core (fst s)"
  unfolding jdc_create_standard_def jdc_create_extended_def Let_def
  by (auto simp: core_open_closures split: prod.split sum.split standard_channel_error.split extended_channel_error.split)

lemma core_open_standard: "jdc_core (snd (jdc_open_standard L cfg did m S)) = jdc_core S"
proof -
  have "data_core (fst (snd (and_then (jdc_ensure_group L cfg t p outs s)
      (\<lambda>_. jdc_create_standard L cfg did m t p outs)))) = data_core (fst s)" for t p outs s
    using core_open_closures(1) [of L cfg t p outs s]
    by (auto simp: and_then_def core_create split: prod.split res.split)
  then show ?thesis
    unfolding jdc_open_standard_def
    by (auto simp: Let_def intro!: core_locked_forward core_lock_downstream split: option.split list.split)
qed

lemma core_open_extended: "jdc_core (snd (jdc_open_extended L cfg did m S)) = jdc_core S"
  unfolding jdc_open_extended_def
  by (auto simp: core_create intro!: core_locked_forward core_lock_downstream split: option.split)

lemma core_close: "jdc_core (snd (jdc_close_channel did cid S)) = jdc_core S"
  unfolding jdc_close_channel_def by (rule core_locked) (simp_all add: Let_def split: option.split)

lemma core_update: "jdc_core (snd (jdc_update_channel L did m S)) = jdc_core S"
  unfolding jdc_update_channel_def
  by (rule core_locked_forward) (simp add: Let_def split: option.split prod.split)

lemma core_upstream [simp, frame_simps]:
  "jc_upstream_channel d = Some uc \<Longrightarrow> data_core (d\<lparr>jc_upstream_channel := Some uc'\<rparr>) = data_core d"
  "jc_job_factory d = Some jf \<Longrightarrow> data_core (d\<lparr>jc_job_factory := Some jf'\<rparr>) = data_core d"
  "data_core (d\<lparr>jc_upstream_channel := map_option f (jc_upstream_channel d)\<rparr>) = data_core d"
  by (simp_all add: data_core_def)

lemma core_submit_upstream:
  "jc_upstream_channel d = Some uc' \<Longrightarrow> data_core (snd (submit_upstream L solved p m uc d)) = data_core d"
  by (auto simp: submit_upstream_def Let_def
      split: prod.split sum.split client_share_result.split client_share_error.split)

lemma core_forward_share: "data_core (snd (forward_share_upstream L solved did m pfx tail p d)) = data_core d"
  by (auto simp: forward_share_upstream_def and_then_def core_submit_upstream
      split: option.split prod.split res.split)

lemma core_shares:
  "data_core (fst (snd (jdc_share_standard L did owner m p s))) = data_core (fst s)"
  "data_core (fst (snd (jdc_share_extended L did owner me p s))) = data_core (fst s)"
proof -
  have fwd: "forward_share_upstream L solved did m pfx tail p d = (r, d') \<Longrightarrow> data_core d' = data_core d"
    for solved pfx tail d r d' and m :: "'z submit_shares_standard_scheme"
    using core_forward_share [of L solved did m pfx tail p d] by simp
  show "data_core (fst (snd (jdc_share_standard L did owner m p s))) = data_core (fst s)"
    "data_core (fst (snd (jdc_share_extended L did owner me p s))) = data_core (fst s)"
    unfolding jdc_share_standard_def jdc_share_extended_def
    by (auto simp: Let_def and_then_def dest!: fwd split: prod.split option.split res.split)
qed

lemma core_share_locked:
  assumes "\<And>owner p s. data_core (fst (snd (f owner p s))) = data_core (fst s)"
  shows "data_core (snd (share_locked did f d)) = data_core d"
  using assms by (auto simp: share_locked_def intro!: core_lock_downstream split: option.split)

lemma core_submit_shares:
  "jdc_core (snd (jdc_submit_shares_standard L did m S)) = jdc_core S"
  "jdc_core (snd (jdc_submit_shares_extended L did me S)) = jdc_core S"
  unfolding jdc_submit_shares_standard_def jdc_submit_shares_extended_def
  by (auto intro!: core_locked_forward core_share_locked simp: core_shares split: option.split)

lemma core_token [simp, frame_simps]: "jdc_core (snd (allocate_token L cfg S)) = jdc_core S"
  by (simp add: allocate_token_def Let_def split: sum.split)

lemma core_tokens [simp, frame_simps]: "jdc_core (snd (allocate_tokens L cfg n S)) = jdc_core S"
proof (induction n arbitrary: S)
  case 0
  then show ?case by simp
next
  case (Suc n)
  then show ?case by (auto intro!: core_and_then)
qed

lemma core_jd_handlers:
  "jdc_core (snd (jdc_allocate_mining_job_token_success L m S)) = jdc_core S"
  "jdc_core (snd (jdc_declare_mining_job_error S)) = jdc_core S"
  "jdc_core (snd (jdc_provide_missing_transactions L rid ps S)) = jdc_core S"
  by (simp_all add: jdc_allocate_mining_job_token_success_def jdc_declare_mining_job_error_def
      jdc_provide_missing_transactions_def Let_def split: sum.split option.split)

lemma core_custom_job: "data_core (snd (jdc_custom_job L rid tok p t outs d)) = data_core d"
  by (auto simp: jdc_custom_job_def split: option.split prod.split)

lemma core_declare_success: "jdc_core (snd (jdc_declare_mining_job_success L rid tok S)) = jdc_core S"
proof -
  have "jdc_custom_job L rid tok p t outs (jc_data S) = (r, d) \<Longrightarrow> data_core d = data_core (jc_data S)"
    for p t outs r d
    using core_custom_job [of L rid tok p t outs "jc_data S"] by simp
  then show ?thesis
    by (auto simp: jdc_declare_mining_job_success_def Let_def split: option.split prod.split sum.split)
qed

lemma core_template_custom_job: "data_core (snd (template_custom_job L mode m outs d)) = data_core d"
  by (auto simp: template_custom_job_def Let_def split: option.split prod.split sum.split)

lemma core_pair_and_then:
  assumes "data_core (snd (snd m)) = c"
    and "\<And>a s d. data_core d = c \<Longrightarrow> data_core (snd (snd (k a (s, d)))) = c"
  shows "data_core (snd (snd (and_then m k))) = c"
  using assms by (cases m, cases "snd m", cases "fst m") auto

lemma core_template_downstream:
  "data_core (snd (snd (jdc_template_downstream L mode m outs did ds d))) = data_core d"
proof -
  have job: "data_core d1 = data_core d0" if "template_custom_job L mode m outs d0 = (r, d1)" for r d0 d1
    using core_template_custom_job [of L mode m outs d0] that by simp
  show ?thesis
    unfolding jdc_template_downstream_def Let_def
    apply (split prod.split, intro allI impI, rule core_pair_and_then, simp)
    apply (simp del: split_paired_All, split prod.split, intro allI impI, drule job, rule core_pair_and_then, simp)
    apply (simp, split prod.split, intro allI impI, split prod.split, intro allI impI, rule core_pair_and_then, simp)
    apply (simp, split prod.split, intro allI impI, split prod.split, intro allI impI, rule core_pair_and_then, simp, simp)
    done
qed

lemma core_iter:
  assumes "\<And>k v d. data_core (snd (snd (f k v d))) = data_core d"
  shows "data_core (snd (snd (hm_iter_state f m d))) = data_core d"
proof (induction m arbitrary: d)
  case Nil
  then show ?case by simp
next
  case (Cons e m)
  obtain k v where e: "e = (k, v)" by (cases e)
  obtain r v' d' where f: "f k v d = (r, v', d')" by (cases "f k v d")
  then have "data_core d' = data_core d" using assms [of k v d] by simp
  then show ?case using Cons [of d'] f e by (auto split: res.split prod.split)
qed

lemma core_new_template: "jdc_core (snd (jdc_new_template L cfg m S)) = jdc_core S"
proof -
  have iter: "data_core (snd (case hm_iter_state (jdc_template_downstream L mode m outs) dm d of
      (r, ds, d1) \<Rightarrow> (r, d1\<lparr>jc_downstream := ds\<rparr>))) = data_core d" for mode outs dm d
    using core_iter [of "jdc_template_downstream L mode m outs" dm d,
        OF core_template_downstream]
    by (auto split: prod.splits)
  let ?upd = "\<lambda>d. d\<lparr>jc_template_store := hm_insert (nt_template_id m) m (jc_template_store d),
      jc_last_future_template := (if nt_future_template m then Some m else jc_last_future_template d)\<rparr>"
  have "jdc_core (upd_jc ?upd S) = jdc_core S" by simp
  then show ?thesis
    unfolding jdc_new_template_def Let_def
    by (auto simp: iter intro!: core_and_then core_locked split: option.split list.split)
qed

lemma core_tx_data: "jdc_core (snd (jdc_tx_data_success L cfg tid excess txs S)) = jdc_core S"
proof -
  have "data_core (snd (store_declare_job L rid tok t outs ids txs excess d)) = data_core d" for rid tok t outs ids d
    by (auto simp: store_declare_job_def and_then_def split: option.split prod.split sum.split res.split)
  then show ?thesis
    unfolding jdc_tx_data_success_def Let_def
    by (auto intro!: core_and_then core_locked split: option.split list.split sum.split)
qed

lemma core_prev_hash: "jdc_core (snd (jdc_set_new_prev_hash L cfg m S)) = jdc_core S"
proof -
  have job: "prev_hash_custom_job L mode m t outs d = (ms, d1) \<Longrightarrow> data_core d1 = data_core d" for mode t outs d ms d1
    by (auto simp: prev_hash_custom_job_def Let_def split: option.splits prod.splits sum.splits if_splits)
  let ?upd = "\<lambda>d. d\<lparr>jc_upstream_channel :=
      map_option (\<lambda>uc. snd (up_on_chain_tip_update L uc m)) (jc_upstream_channel d)\<rparr>"
  have "jdc_core (upd_jc ?upd S) = jdc_core S" by simp
  then show ?thesis
    unfolding jdc_set_new_prev_hash_def Let_def
    by (auto dest!: job intro!: core_and_then core_locked split: option.split prod.split)
qed

lemma core_vardiff: "jdc_core (snd (jdc_run_vardiff L S)) = jdc_core S"
  unfolding jdc_run_vardiff_def by (rule core_locked_forward) (simp add: Let_def split: prod.split)

lemma core_prefix: "jdc_core (snd (jdc_set_extranonce_prefix L pfx S)) = jdc_core S"
  unfolding jdc_set_extranonce_prefix_def
  by (rule core_locked_forward) (auto simp: Let_def split: prod.split option.split sum.split)

lemma core_upstream_handlers:
  "jdc_core (snd (jdc_upstream_refused S)) = jdc_core S"
  "jdc_core (snd (jdc_custom_job_success L cs S)) = jdc_core S"
  "jdc_core (snd (jdc_upstream_set_target L t S)) = jdc_core S"
  "jdc_core (snd (jdc_extensions_success es S)) = jdc_core S"
  "jdc_core (snd (jdc_extensions_error L r us rs S)) = jdc_core S"
  "jdc_core (snd (jdc_tx_data_error code S)) = jdc_core S"
  unfolding jdc_custom_job_success_def
  by (auto simp: jdc_upstream_refused_def jdc_upstream_set_target_def jdc_extensions_success_def
      jdc_extensions_error_def jdc_tx_data_error_def Let_def intro!: core_locked split: option.split sum.split)

section \<open>The invariant of the loop\<close>

text \<open>
  An upstream channel comes with a job factory; requests wait only while there is no upstream
  channel, and while one is being opened there is a request for it; without an upstream there
  is no upstream channel and nothing waits.
\<close>

definition core_inv :: "upstream_state \<times> pending_request list \<times> bool \<times> bool \<Rightarrow> bool" where
  "core_inv c =
     (case c of (st, waiting, no_channel, no_factory) \<Rightarrow>
        (no_factory \<longrightarrow> no_channel) \<and>
        (st = Connected \<longrightarrow> waiting = []) \<and> (st = Pending \<longrightarrow> waiting \<noteq> []) \<and>
        (st = SoloState \<longrightarrow> waiting = [] \<and> no_channel))"

definition jdc_inv :: "('sc, 'ec, 'gc, 'vd, 'xf, 'uc, 'jf) jdc \<Rightarrow> bool" where
  "jdc_inv S \<longleftrightarrow> core_inv (jdc_core S)"

text \<open>The loop goes on after this outcome.\<close>

definition continues :: "(jdc_error, 'a) res \<Rightarrow> bool" where
  "continues r = (case r of Ok _ \<Rightarrow> True | Err x \<Rightarrow> \<not> is_critical x | Panic _ \<Rightarrow> False)"

lemma continues_simps [simp]:
  "continues (Ok a)" "continues (Err x) \<longleftrightarrow> \<not> is_critical x" "\<not> continues (Panic p)"
  by (simp_all add: continues_def)

lemma critical_send [simp]: "is_critical ChannelErrorSender" "is_critical (Parser e)" "is_critical (BinarySv2 b)"
  by (simp_all add: is_critical_def)

lemma jdc_inv_cong: "jdc_core S' = jdc_core S \<Longrightarrow> jdc_inv S' = jdc_inv S"
  by (simp add: jdc_inv_def)

lemma core_open_pending: "jdc_core (snd (open_pending L cfg r S)) = jdc_core S"
  by (cases r) (simp_all add: core_open_standard core_open_extended)

lemma core_open_all_pending: "jdc_core (snd (open_all_pending L cfg rs S)) = jdc_core S"
  by (induction rs arbitrary: S) (auto simp: core_open_pending intro!: core_and_then)

lemma core_request_upstream:
  assumes "jc_upstream_state S = NoChannel"
  shows "jdc_core (snd (request_upstream L r opening S)) = (Pending, r # jc_pending_requests (jc_data S),
    jc_upstream_channel (jc_data S) = None, jc_job_factory (jc_data S) = None)"
proof -
  let ?S1 = "upd_jc (\<lambda>d. d\<lparr>jc_pending_requests := r # jc_pending_requests d\<rparr>) S\<lparr>jc_upstream_state := Pending\<rparr>"
  have "request_upstream L r opening S =
      and_then (opening, ?S1) (\<lambda>m. send_upstream L (OpenExtendedUpstream m))"
    using assms by (simp add: request_upstream_def compare_and_set_def Let_def)
  moreover have "jdc_core (snd (and_then (opening, ?S1) (\<lambda>m. send_upstream L (OpenExtendedUpstream m)))) = jdc_core ?S1"
    by (rule core_and_then) simp_all
  moreover have "jdc_core ?S1 = (Pending, r # jc_pending_requests (jc_data S),
      jc_upstream_channel (jc_data S) = None, jc_job_factory (jc_data S) = None)"
    by (simp add: jdc_core_def data_core_def)
  ultimately show ?thesis by simp
qed

lemma core_inv_simps:
  "core_inv (NoChannel, w, c, f) \<longleftrightarrow> (f \<longrightarrow> c)"
  "core_inv (Pending, w, c, f) \<longleftrightarrow> (f \<longrightarrow> c) \<and> w \<noteq> []"
  "core_inv (Connected, w, c, f) \<longleftrightarrow> (f \<longrightarrow> c) \<and> w = []"
  "core_inv (SoloState, w, c, f) \<longleftrightarrow> c \<and> w = []"
  by (auto simp: core_inv_def)

lemma jdc_core_eq:
  "jdc_core S = (jc_upstream_state S, jc_pending_requests (jc_data S), jc_upstream_channel (jc_data S) = None,
     jc_job_factory (jc_data S) = None)"
  by (simp add: jdc_core_def data_core_def)

lemma open_request_inv:
  assumes "jdc_inv S"
  shows "jdc_inv (snd (jdc_open_request L cfg r S))"
proof -
  have inv: "core_inv (jc_upstream_state S, jc_pending_requests (jc_data S), jc_upstream_channel (jc_data S) = None,
     jc_job_factory (jc_data S) = None)"
    using assms unfolding jdc_inv_def jdc_core_eq .
  have same: ?thesis if "jdc_open_request L cfg r S = open_pending L cfg r S"
    using assms core_open_pending [of L cfg r S] unfolding jdc_inv_def that by simp
  show ?thesis
  proof (cases "jc_upstream_state S")
    case NoChannel
    then have "jdc_open_request L cfg r S = request_upstream L r (upstream_request L cfg r) S"
      unfolding jdc_open_request_def by simp
    then show ?thesis
      using inv unfolding jdc_inv_def NoChannel by (simp only: core_request_upstream [OF NoChannel] core_inv_simps) simp
  next
    case Pending
    then have "snd (jdc_open_request L cfg r S) =
        upd_jc (\<lambda>d. d\<lparr>jc_pending_requests := jc_pending_requests d @ [r]\<rparr>) S"
      unfolding jdc_open_request_def by simp
    then show ?thesis
      using inv unfolding jdc_inv_def jdc_core_eq Pending by (simp add: Pending core_inv_simps)
  next
    case Connected
    then show ?thesis by (intro same) (simp add: jdc_open_request_def)
  next
    case SoloState
    then show ?thesis by (intro same) (simp add: jdc_open_request_def)
  qed
qed

text \<open>A first step whose errors are all critical has succeeded if the loop goes on.\<close>

lemma and_then_continues:
  assumes "and_then m k = (r, S')" and "continues r" and "continues (fst m) \<longrightarrow> (\<exists>a. fst m = Ok a)"
  obtains a where "k a (snd m) = (r, S')"
  using assms by (cases m; cases "fst m") auto

lemma send_continues:
  "continues (fst (send_upstream L u S)) \<Longrightarrow> \<exists>a. fst (send_upstream L u S) = Ok a"
  "continues (fst (send_tp t S)) \<Longrightarrow> \<exists>a. fst (send_tp t S) = Ok a"
  by (simp_all add: send_upstream_def send_tp_def split: sum.splits if_splits)

lemma ignore_err_continues: "continues (fst (ignore_err m)) \<Longrightarrow> \<exists>a. fst (ignore_err m) = Ok a"
  by (auto simp: ignore_err_def split: prod.splits res.splits)

lemma and_then_ignored_continues:
  assumes "continues (fst m) \<Longrightarrow> \<exists>a. fst m = Ok a"
    and "continues (fst (and_then m (\<lambda>a s. ignore_err (f a s))))"
  shows "\<exists>a. fst (and_then m (\<lambda>a s. ignore_err (f a s))) = Ok a"
proof (cases "fst m")
  case (Ok a)
  then show ?thesis using assms(2) ignore_err_continues [of "f a (snd m)"] by (cases m) simp
qed (use assms in \<open>cases m; auto\<close>)+

lemma after_open_core:
  assumes "after_open L cfg t j S = (r, S')" and "continues r"
  shows "jdc_core S' = (jc_upstream_state S, [], jc_upstream_channel (jc_data S) = None, jc_job_factory (jc_data S) = None)"
proof -
  let ?clear = "upd_jc (\<lambda>d. d\<lparr>jc_pending_requests := []\<rparr>)"
  let ?m1 = "case t of Some t \<Rightarrow>
      if jc_mode S = FullTemplate then send_tp (RequestTransactionData (nt_template_id t)) S else (Ok (), S)
    | None \<Rightarrow> (Ok (), S)"
  let ?m2 = "\<lambda>S1. case j of
      Some j \<Rightarrow> if jc_mode S1 = CoinbaseOnly then
          and_then (send_upstream L (CustomJobUpstream j) S1) (\<lambda>_ S2. ignore_err (allocate_tokens L cfg 1 S2))
        else (Ok (), S1)
    | None \<Rightarrow> (Ok (), S1)"
  let ?rest = "\<lambda>S2. open_all_pending L cfg (jc_pending_requests (jc_data S2)) (?clear S2)"
  have eq: "after_open L cfg t j S = and_then ?m1 (\<lambda>_ S1. and_then (?m2 S1) (\<lambda>_. ?rest))"
    by (simp add: after_open_def)
  have m1: "jdc_core (snd ?m1) = jdc_core S" by (simp split: option.split)
  have m1_ok: "continues (fst ?m1) \<longrightarrow> (\<exists>a. fst ?m1 = Ok a)"
    using send_continues(2) by (auto split: option.splits if_splits)
  have m2: "jdc_core (snd (?m2 S1)) = jdc_core S1" for S1
    by (auto intro!: core_and_then split: option.split)
  have m2_ok: "continues (fst (?m2 S1)) \<longrightarrow> (\<exists>a. fst (?m2 S1) = Ok a)" for S1
    using and_then_ignored_continues [OF send_continues(1), where f = "\<lambda>_. allocate_tokens L cfg 1"]
    by (cases "\<exists>x. j = Some x \<and> jc_mode S1 = CoinbaseOnly") (auto simp del: allocate_tokens.simps split: option.splits)
  obtain S1 where S1: "S1 = snd ?m1" "and_then (?m2 S1) (\<lambda>_. ?rest) = (r, S')"
    using assms(1)[unfolded eq] assms(2) m1_ok
    by (rule and_then_continues) (rule that [OF refl])
  obtain S2 where S2: "S2 = snd (?m2 S1)" "?rest S2 = (r, S')"
    using S1(2) assms(2) m2_ok by (rule and_then_continues) (rule that [OF refl])
  have "jdc_core S' = jdc_core (?clear S2)"
    using core_open_all_pending [of L cfg "jc_pending_requests (jc_data S2)" "?clear S2"] S2(2) by simp
  moreover have "jdc_core S2 = jdc_core S" using m1 m2 [of S1] S1(1) S2(1) by simp
  ultimately show ?thesis by (simp add: jdc_core_eq)
qed

lemma core_open_custom_job: "data_core (snd (open_custom_job L uc outs d)) = data_core d"
  by (auto simp: open_custom_job_def Let_def split: option.split prod.split sum.split)

lemma open_success_locked_core:
  assumes "open_success_locked L cfg outs msg S = (Inr x, S1)"
  shows "jc_upstream_state S1 = Connected" "jc_upstream_channel (jc_data S1) \<noteq> None" "jc_job_factory (jc_data S1) \<noteq> None"
  using assms
  by (auto simp: open_success_locked_def Let_def split: list.splits sum.splits prod.splits)

lemma open_success_refused_core:
  assumes "open_success_locked L cfg outs msg S = (Inl x, S1)"
  shows "S1 = S\<lparr>jc_upstream_state := NoChannel\<rparr>"
  using assms
  by (auto simp: open_success_locked_def Let_def split: list.splits sum.splits prod.splits)

lemma jdc_open_success_inv:
  assumes "jdc_inv S" and "jdc_open_success L cfg msg S = (r, S')" and "continues r"
  shows "jdc_inv S'"
proof (cases "deserialize_outputs L (jc_coinbase_outputs (jc_data S))")
  case None
  then show ?thesis using assms by (simp add: jdc_open_success_def)
next
  case (Some outs)
  obtain x S1 where x: "open_success_locked L cfg outs msg S = (x, S1)" by fastforce
  show ?thesis
  proof (cases x)
    case (Inl reason)
    have "jdc_core S1 = (NoChannel, snd (jdc_core S))"
      using open_success_refused_core [OF x [unfolded Inl]] by (simp add: jdc_core_def)
    moreover have "jdc_core (snd (jdc_open_success L cfg msg S)) = jdc_core S1"
      unfolding jdc_open_success_def by (simp only: Some x Inl option.simps prod.case sum.case) 
          (rule core_and_then; simp del: allocate_tokens.simps)
    ultimately show ?thesis using assms by (simp add: jdc_inv_def core_inv_def split: prod.splits)
  next
    case (Inr tj)
    obtain t j where tj: "tj = (t, j)" by (cases tj)
    have "after_open L cfg t j S1 = (r, S')" using assms(2) x Some Inr tj by (simp add: jdc_open_success_def)
    from after_open_core [OF this assms(3)] open_success_locked_core [OF x [unfolded Inr]]
    show ?thesis by (simp add: jdc_inv_def core_inv_simps)
  qed
qed

lemma core_handle_mining: "jdc_core (snd (jdc_handle_mining L cfg did m S)) = jdc_core S"
  by (cases m) (simp_all add: core_close core_open_standard core_open_extended core_update core_submit_shares)

lemma downstream_message_inv:
  assumes "jdc_inv S"
  shows "jdc_inv (snd (jdc_handle_downstream_message L cfg did m S))"
  using assms
  by (cases m) (simp_all add: jdc_handle_downstream_message_def open_request_inv jdc_inv_cong [OF core_handle_mining]
      del: jdc_handle_mining.simps)

lemma closed_inv:
  assumes "jdc_inv S"
  shows "jdc_inv (snd (jdc_upstream_closed S))"
  using assms by (auto simp: jdc_upstream_closed_def jdc_send_status_def jdc_inv_def jdc_core_eq core_inv_def)

lemma fallback_inv:
  assumes "jdc_handle L cfg (Fallback outs) S = (r, S')" and "continues r"
  shows "jdc_inv S'"
  using assms
  by (auto simp: locked_def jdc_reset_def Let_def jdc_inv_def jdc_core_eq core_inv_simps split: option.splits)

lemma ready_inv:
  assumes "jdc_inv S"
  shows "jdc_inv (snd (jdc_handle L cfg (UpstreamReady mode) S))"
  using assms
  by (simp add: jdc_inv_def del: allocate_tokens.simps) (auto simp: jdc_core_eq core_inv_def)

text \<open>Every event keeps the invariant, unless the loop ends with it.\<close>

lemma handle_inv:
  assumes inv: "jdc_inv S" and handle: "jdc_handle L cfg e S = (r, S')" and go: "continues r"
  shows "jdc_inv S'"
proof -
  have same: "jdc_inv S'" if "jdc_core (snd (jdc_handle L cfg e S)) = jdc_core S"
    using jdc_inv_cong [OF that] inv handle by simp
  note cores = core_jd_handlers core_declare_success core_prefix core_upstream_handlers core_new_template
    core_tx_data core_prev_hash core_vardiff
  show ?thesis
  proof (cases e)
    case (FromMiner did m)
    then show ?thesis using downstream_message_inv [OF inv, of L cfg did m] handle by simp
  next
    case (UpstreamOpened m)
    then show ?thesis using jdc_open_success_inv [OF inv _ go] handle by simp
  next
    case UpstreamClosed
    then show ?thesis using closed_inv [OF inv] handle by simp
  next
    case (Fallback outs)
    then show ?thesis using fallback_inv handle go by blast
  next
    case (UpstreamReady mode)
    then show ?thesis using ready_inv [OF inv] handle by (metis snd_conv)
  qed (rule same, simp add: cores jdc_accept_def jdc_remove_downstream_def Let_def; fail)+
qed

lemma run_inv:
  assumes "jdc_inv S" and "run_jdc L cfg es S = (Ok (), S')"
  shows "jdc_inv S'"
  using assms
proof (induction es arbitrary: S)
  case Nil
  then show ?case by simp
next
  case (Cons e es)
  obtain r S1 where e: "jdc_handle L cfg e S = (r, S1)" by fastforce
  with Cons.prems(2) have "continues r" "run_jdc L cfg es S1 = (Ok (), S')"
    by (auto split: res.splits if_splits)
  then show ?case using Cons.IH handle_inv [OF Cons.prems(1) e] by blast
qed

end
