(* ===== verification/Jdc_Example.thy ===== *)
theory Jdc_Example
  imports Jdc_Laws
begin

text \<open>
  A concrete library and configuration on which the theorems about the job declarator client
  are exercised. A channel of a miner is its extranonce prefix and its target, the upstream
  channel its identifier and prefix, an extranonce factory the prefix of the upstream and a
  counter, and the job factory counts the jobs it has made. The nonce of a share selects its
  validation: 0 is a valid share, 1 a block, 2 a share whose extranonce has the wrong size. The
  coinbase outputs are one output with a script of one byte; a second byte stands for the value of
  the template below.
\<close>

type_synonym jdemo_channel = "bytes \<times> u256"
type_synonym jdemo_upstream = "u32 \<times> bytes"
type_synonym jdemo_factory = "bytes \<times> u8"

definition jdemo_accounting :: share_accounting where
  "jdemo_accounting =
     \<lparr>should_acknowledge = True, last_share_sequence_number = 5, last_batch_accepted = 1,
      last_batch_work_sum = 0x4008000000000000\<rparr>"

definition jdemo_job :: job where
  "jdemo_job = \<lparr>job_id = 7, job_msg = \<lparr>jm_channel_id = 2, jm_job_id = 7, jm_payload = []\<rparr>\<rparr>"

definition jdemo_validation :: "u32 \<Rightarrow> share_validation_error + share_validation_result" where
  "jdemo_validation nonce =
     (if nonce = 0 then Inr (Valid 11)
      else if nonce = 1 then Inr (BlockFound 12 (Some 3) [0xab])
      else if nonce = 2 then Inl SV_BadExtranonceSize
      else Inl SV_Stale)"

definition jdemo_custom :: "u32 \<Rightarrow> u32 \<Rightarrow> bytes \<Rightarrow> set_custom_mining_job" where
  "jdemo_custom cid rid token =
     \<lparr>cj_channel_id = cid, cj_request_id = rid, cj_coinbase_tx_outputs = [], cj_payload = token\<rparr>"

definition jdemo_lib ::
  "(jdemo_channel, jdemo_channel, u32, nat, jdemo_factory, jdemo_upstream, nat) jdc_lib" where
  "jdemo_lib =
     \<lparr>sc_new_for_pool = (\<lambda>cid user pfx t h batch spm tag. Inr (pfx, t)),
      sc_on_new_template = (\<lambda>sc nt outs. (Inr (), sc)),
      sc_on_set_new_prev_hash = (\<lambda>sc ph. (Inr (), sc)),
      sc_on_group_channel_job = (\<lambda>sc j. (Inr (), sc)),
      sc_update_channel = (\<lambda>sc h mt. (Inr (), fst sc, case mt of None \<Rightarrow> ucast h | Some t \<Rightarrow> t)),
      sc_validate_share = (\<lambda>sc sh. (jdemo_validation (sh_nonce sh), sc)),
      sc_target = (\<lambda>sc. snd sc),
      sc_extranonce_prefix = (\<lambda>sc. fst sc),
      sc_user_identity = (\<lambda>sc. ''alice''),
      sc_nominal_hashrate = (\<lambda>sc. 1),
      sc_shares_per_minute = (\<lambda>sc. 1),
      sc_share_accounting = (\<lambda>sc. jdemo_accounting),
      sc_future_template_to_job_id = (\<lambda>sc tid. Some 7),
      sc_future_jobs = (\<lambda>sc jid. Some jdemo_job),
      sc_active_job = (\<lambda>sc. Some jdemo_job),
      ec_new_for_pool = (\<lambda>cid user pfx t h rolling sz batch spm tag. Inr (pfx, t)),
      ec_on_new_template = (\<lambda>ec nt outs. (Inr (), ec)),
      ec_on_set_new_prev_hash = (\<lambda>ec ph. (Inr (), ec)),
      ec_on_set_custom_mining_job = (\<lambda>ec cj. (Inr 9, ec)),
      ec_update_channel = (\<lambda>ec h mt. (Inr (), fst ec, case mt of None \<Rightarrow> ucast h | Some t \<Rightarrow> t)),
      ec_validate_share = (\<lambda>ec she. (jdemo_validation (sh_nonce she), ec)),
      ec_target = (\<lambda>ec. snd ec),
      ec_extranonce_prefix = (\<lambda>ec. fst ec),
      ec_rollable_extranonce_size = (\<lambda>ec. 8),
      ec_user_identity = (\<lambda>ec. ''bob''),
      ec_nominal_hashrate = (\<lambda>ec. 1),
      ec_shares_per_minute = (\<lambda>ec. 1),
      ec_share_accounting = (\<lambda>ec. jdemo_accounting),
      ec_future_template_to_job_id = (\<lambda>ec tid. Some 7),
      ec_future_jobs = (\<lambda>ec jid. Some jdemo_job),
      ec_active_job = (\<lambda>ec. Some jdemo_job),
      gc_new_for_pool = (\<lambda>gid sz tag. Inr gid),
      gc_on_new_template = (\<lambda>gc nt outs. (Inr (), gc)),
      gc_on_set_new_prev_hash = (\<lambda>gc ph. (Inr (), gc)),
      gc_group_channel_id = (\<lambda>gc. gc),
      gc_add_standard_channel_id = (\<lambda>gc cid. gc),
      gc_future_template_to_job_id = (\<lambda>gc tid. Some 7),
      gc_future_jobs = (\<lambda>gc jid. Some jdemo_job),
      gc_active_job = (\<lambda>gc. Some jdemo_job),
      vd_new = Inr 0,
      vd_increment_shares_since_last_update = (\<lambda>vd. Suc vd),
      vd_try_vardiff = (\<lambda>vd h t spm. (Inr (if vd = 0 then None else Some 42), 0)),
      xf_new = (\<lambda>pfx. Some (pfx, 0)),
      xf_next_prefix_standard = (\<lambda>xf. (Inr (fst xf @ [snd xf]), fst xf, snd xf + 1)),
      xf_next_prefix_extended = (\<lambda>xf n. (Inr (fst xf @ [snd xf]), fst xf, snd xf + 1)),
      difficulty_float = (\<lambda>t. 0x3ff0000000000000),
      as_utf8_or_hex = (\<lambda>bs. ''alice''),
      b032_try_from = (\<lambda>bs. if length bs \<le> 32 then Inr bs else Inl (BinaryError 0)),
      b064k_try_from = (\<lambda>bs. Inr bs),
      seq064k_new = (\<lambda>exts. Inr exts),
      consensus_decode_outputs = (\<lambda>bs. Inr [\<lparr>tx_value = 0, tx_script_pubkey = bs\<rparr>]),
      deserialize_outputs = (\<lambda>bs. Some [\<lparr>tx_value = if length bs < 2 then 0 else 5000, tx_script_pubkey = take 1 bs\<rparr>]),
      has_work_selection = (\<lambda>flags. bit flags 1),
      has_requires_std_job = (\<lambda>flags. bit flags 0),
      sc_new_for_jdc = (\<lambda>cid user pfx t h batch spm tag mtag. if h = 0 then Inl SC_InvalidNominalHashrate else Inr (pfx, t)),
      ec_new_for_jdc = (\<lambda>cid user pfx t h rolling sz batch spm tag mtag. if h = 0 then Inl EC_InvalidNominalHashrate else Inr (pfx, t)),
      gc_new_for_jdc = (\<lambda>gid sz tag mtag. Inr gid),
      sc_set_extranonce_prefix = (\<lambda>sc pfx. (Inr (), pfx, snd sc)),
      ec_set_extranonce_prefix = (\<lambda>ec pfx. (Inr (), pfx, snd ec)),
      xf_new_ranges = (\<lambda>m t. if m \<le> t then Some ([], 0) else None),
      xf_from_upstream = (\<lambda>pfx p m t. if m \<le> t then Inr (pfx, 0) else Inl (ExtranonceError 0)),
      up_new = (\<lambda>cid user pfx t h rolling sz. (cid, pfx)),
      up_on_chain_tip_update = (\<lambda>uc ph. (Inr (), uc)),
      up_on_custom_job_success = (\<lambda>uc cj cs. (Inr (), uc)),
      up_set_extranonce_prefix = (\<lambda>uc pfx. (Inr (), fst uc, pfx)),
      up_set_target = (\<lambda>uc t. uc),
      up_validate_share = (\<lambda>uc she. (Inr (if sh_nonce she = 1 then ClientBlockFound 12 else ClientValid 11), uc)),
      up_channel_id = (\<lambda>uc. fst uc),
      up_extranonce_prefix = (\<lambda>uc. snd uc),
      up_rollable_extranonce_size = (\<lambda>uc. 16),
      up_full_extranonce_size = (\<lambda>uc. of_nat (length (snd uc)) + 16),
      jf_new = (\<lambda>roll tag mtag. 0),
      jf_new_custom_job = (\<lambda>jf cid rid tok ph nt outs n. (Inr (jdemo_custom cid rid tok), Suc jf)),
      jf_new_coinbase = (\<lambda>jf nt outs n. (Inr ([1], [2]), Suc jf)),
      f32_add = (\<lambda>a b. a + b),
      str0255_try_from = (\<lambda>s. if length s \<le> 255 then Inr (map of_char s) else Inl (BinaryError 0)),
      b0255_try_from = (\<lambda>bs. if length bs \<le> 255 then Inr bs else Inl (BinaryError 0)),
      seq064k_hashes = (\<lambda>hs. Inr hs),
      seq064k_bytes = (\<lambda>bss. Inr bss),
      frame_try_from = (\<lambda>um. Inr ()),
      serialize_outputs = (\<lambda>outs. concat (map (\<lambda>out. tx_script_pubkey out @ (if tx_value out = 0 then [] else [1])) outs)),
      raw_txid = (\<lambda>bs. (case bs of [b] \<Rightarrow> Some (ucast b) | _ \<Rightarrow> None)),
      tx_out_size = (\<lambda>out. of_nat (length (tx_script_pubkey out)) + 9),
      total_sigop_cost = (\<lambda>outs. 0)\<rparr>"

lemma jdemo_fields [simp, env_simps]:
  "sc_new_for_pool jdemo_lib cid user pfx t h batch spm tag = Inr (pfx, t)"
  "sc_on_new_template jdemo_lib sc nt outs = (Inr (), sc)"
  "sc_on_set_new_prev_hash jdemo_lib sc ph = (Inr (), sc)"
  "sc_on_group_channel_job jdemo_lib sc j = (Inr (), sc)"
  "sc_update_channel jdemo_lib sc h mt = (Inr (), fst sc, case mt of None \<Rightarrow> ucast h | Some t \<Rightarrow> t)"
  "sc_validate_share jdemo_lib sc sh = (jdemo_validation (sh_nonce sh), sc)"
  "sc_target jdemo_lib sc = snd sc"
  "sc_extranonce_prefix jdemo_lib sc = fst sc"
  "sc_user_identity jdemo_lib sc = ''alice''"
  "sc_nominal_hashrate jdemo_lib sc = 1"
  "sc_shares_per_minute jdemo_lib sc = 1"
  "sc_share_accounting jdemo_lib sc = jdemo_accounting"
  "sc_future_template_to_job_id jdemo_lib sc tid = Some 7"
  "sc_future_jobs jdemo_lib sc jid = Some jdemo_job"
  "sc_active_job jdemo_lib sc = Some jdemo_job"
  "ec_new_for_pool jdemo_lib cid user pfx t h rolling sz batch spm tag = Inr (pfx, t)"
  "ec_on_new_template jdemo_lib ec nt outs = (Inr (), ec)"
  "ec_on_set_new_prev_hash jdemo_lib ec ph = (Inr (), ec)"
  "ec_on_set_custom_mining_job jdemo_lib ec cj = (Inr 9, ec)"
  "ec_update_channel jdemo_lib ec h mt = (Inr (), fst ec, case mt of None \<Rightarrow> ucast h | Some t \<Rightarrow> t)"
  "ec_validate_share jdemo_lib ec she = (jdemo_validation (sh_nonce she), ec)"
  "ec_target jdemo_lib ec = snd ec"
  "ec_extranonce_prefix jdemo_lib ec = fst ec"
  "ec_rollable_extranonce_size jdemo_lib ec = 8"
  "ec_user_identity jdemo_lib ec = ''bob''"
  "ec_nominal_hashrate jdemo_lib ec = 1"
  "ec_shares_per_minute jdemo_lib ec = 1"
  "ec_share_accounting jdemo_lib ec = jdemo_accounting"
  "ec_future_template_to_job_id jdemo_lib ec tid = Some 7"
  "ec_future_jobs jdemo_lib ec jid = Some jdemo_job"
  "ec_active_job jdemo_lib ec = Some jdemo_job"
  "gc_new_for_pool jdemo_lib gid gsz tag = Inr gid"
  "gc_on_new_template jdemo_lib gc nt outs = (Inr (), gc)"
  "gc_on_set_new_prev_hash jdemo_lib gc ph = (Inr (), gc)"
  "gc_group_channel_id jdemo_lib gc = gc"
  "gc_add_standard_channel_id jdemo_lib gc cid = gc"
  "gc_future_template_to_job_id jdemo_lib gc tid = Some 7"
  "gc_future_jobs jdemo_lib gc jid = Some jdemo_job"
  "gc_active_job jdemo_lib gc = Some jdemo_job"
  "vd_new jdemo_lib = Inr 0"
  "vd_increment_shares_since_last_update jdemo_lib vd = Suc vd"
  "vd_try_vardiff jdemo_lib vd h t spm = (Inr (if vd = 0 then None else Some 42), 0)"
  "xf_new jdemo_lib pfx = Some (pfx, 0)"
  "xf_next_prefix_standard jdemo_lib xf = (Inr (fst xf @ [snd xf]), fst xf, snd xf + 1)"
  "xf_next_prefix_extended jdemo_lib xf n = (Inr (fst xf @ [snd xf]), fst xf, snd xf + 1)"
  "difficulty_float jdemo_lib t = 0x3ff0000000000000"
  "as_utf8_or_hex jdemo_lib bs = ''alice''"
  "b032_try_from jdemo_lib bs = (if length bs \<le> 32 then Inr bs else Inl (BinaryError 0))"
  "b064k_try_from jdemo_lib bs = Inr bs"
  "seq064k_new jdemo_lib exts = Inr exts"
  "consensus_decode_outputs jdemo_lib bs = Inr [\<lparr>tx_value = 0, tx_script_pubkey = bs\<rparr>]"
  "deserialize_outputs jdemo_lib bs = Some [\<lparr>tx_value = if length bs < 2 then 0 else 5000, tx_script_pubkey = take 1 bs\<rparr>]"
  "has_work_selection jdemo_lib flags = bit flags 1"
  "has_requires_std_job jdemo_lib flags = bit flags 0"
  "sc_new_for_jdc jdemo_lib cid user pfx t h batch spm otag mtag = (if h = 0 then Inl SC_InvalidNominalHashrate else Inr (pfx, t))"
  "ec_new_for_jdc jdemo_lib cid user pfx t h rolling sz batch spm otag mtag = (if h = 0 then Inl EC_InvalidNominalHashrate else Inr (pfx, t))"
  "gc_new_for_jdc jdemo_lib gid gsz otag mtag = Inr gid"
  "sc_set_extranonce_prefix jdemo_lib sc pfx = (Inr (), pfx, snd sc)"
  "ec_set_extranonce_prefix jdemo_lib ec pfx = (Inr (), pfx, snd ec)"
  "xf_new_ranges jdemo_lib n1 n2 = (if n1 \<le> n2 then Some ([], 0) else None)"
  "xf_from_upstream jdemo_lib pfx n n1 n2 = (if n1 \<le> n2 then Inr (pfx, 0) else Inl (ExtranonceError 0))"
  "up_new jdemo_lib cid user pfx t h rolling sz = (cid, pfx)"
  "up_on_chain_tip_update jdemo_lib uc ph = (Inr (), uc)"
  "up_on_custom_job_success jdemo_lib uc cj cs = (Inr (), uc)"
  "up_set_extranonce_prefix jdemo_lib uc pfx = (Inr (), fst uc, pfx)"
  "up_set_target jdemo_lib uc t = uc"
  "up_validate_share jdemo_lib uc she = (Inr (if sh_nonce she = 1 then ClientBlockFound 12 else ClientValid 11), uc)"
  "up_channel_id jdemo_lib uc = fst uc"
  "up_extranonce_prefix jdemo_lib uc = snd uc"
  "up_rollable_extranonce_size jdemo_lib uc = 16"
  "up_full_extranonce_size jdemo_lib uc = of_nat (length (snd uc)) + 16"
  "jf_new jdemo_lib rolling otag omtag = 0"
  "jf_new_custom_job jdemo_lib jf cid rid tok ph nt outs n = (Inr (jdemo_custom cid rid tok), Suc jf)"
  "jf_new_coinbase jdemo_lib jf nt outs n = (Inr ([1], [2]), Suc jf)"
  "f32_add jdemo_lib x y = x + y"
  "str0255_try_from jdemo_lib s = (if length s \<le> 255 then Inr (map of_char s) else Inl (BinaryError 0))"
  "b0255_try_from jdemo_lib bs = (if length bs \<le> 255 then Inr bs else Inl (BinaryError 0))"
  "seq064k_hashes jdemo_lib hs = Inr hs"
  "seq064k_bytes jdemo_lib bss = Inr bss"
  "frame_try_from jdemo_lib um = Inr ()"
  "serialize_outputs jdemo_lib outs =
     concat (map (\<lambda>out. tx_script_pubkey out @ (if tx_value out = 0 then [] else [1])) outs)"
  "raw_txid jdemo_lib bs = (case bs of [b] \<Rightarrow> Some (ucast b) | _ \<Rightarrow> None)"
  "tx_out_size jdemo_lib out = of_nat (length (tx_script_pubkey out)) + 9"
  "total_sigop_cost jdemo_lib outs = 0"
  by (simp_all add: jdemo_lib_def)

section \<open>A session\<close>

text \<open>
  The client starts with an upstream, a miner connects, a template and a prev-hash arrive, the
  miner asks for an extended channel, and the pool answers the request for the upstream
  channel.
\<close>

definition jdemo_config :: jdc_config where
  "jdemo_config =
     \<lparr>miner_tag_string = ''miner'', jc_share_batch_size = 10, jc_shares_per_minute = 1,
      jc_user_identity = ''jdc''\<rparr>"

definition jdemo_template :: new_template where
  "jdemo_template =
     \<lparr>nt_template_id = 3, nt_future_template = True, nt_version = 2, nt_coinbase_tx_version = 2,
      nt_coinbase_prefix = [], nt_coinbase_tx_input_sequence = 0,
      nt_coinbase_tx_value_remaining = 5000, nt_coinbase_tx_outputs_count = 0,
      nt_coinbase_tx_outputs = [], nt_coinbase_tx_locktime = 0, nt_merkle_path = []\<rparr>"

definition jdemo_prev_hash :: set_new_prev_hash_tdp where
  "jdemo_prev_hash =
     \<lparr>ph_template_id = 3, ph_prev_hash = 99, ph_header_timestamp = 1000, ph_n_bits = 0x1d00ffff,
      ph_target = 7\<rparr>"

definition jdemo_open :: open_extended_mining_channel where
  "jdemo_open =
     \<lparr>oe_request_id = 8, oe_user_identity = [0x62], oe_nominal_hash_rate = 5, oe_max_target = 77,
      oe_min_extranonce_size = 4\<rparr>"

definition jdemo_opened :: upstream_opened where
  "jdemo_opened = \<lparr>uo_channel_id = 1, uo_target = 50, uo_extranonce_prefix = [9, 9], uo_extranonce_size = 16\<rparr>"

definition jdemo_data ::
  "(jdemo_channel, jdemo_channel, u32, nat, jdemo_factory, jdemo_upstream, nat) jdc_data" where
  "jdemo_data =
     \<lparr>jc_downstream = hm_new, jc_factory_extended = ([], 0), jc_factory_standard = ([], 0),
      jc_request_id_factory = 0, jc_downstream_id_factory = 0, jc_sequence_number_factory = 0,
      jc_last_future_template = None, jc_last_new_prev_hash = None, jc_allocate_tokens = None,
      jc_template_store = hm_new, jc_last_declare_job_store = hm_new,
      jc_template_to_upstream_job = hm_new, jc_job_to_template = hm_new,
      jc_coinbase_outputs = [0x51], jc_upstream_channel = None, jc_pool_tag_string = None,
      jc_pending_requests = [], jc_job_factory = None, jc_vardiff = hm_new,
      jc_negotiated_extensions = [], jc_supported_extensions = [], jc_required_extensions = []\<rparr>"

lemma jdemo_data_new: "jdc_data_new jdemo_lib [0x51] [] [] = Ok jdemo_data"
  by (simp add: jdc_data_new_def jdemo_data_def JDC_SEARCH_SPACE_BYTES_def MAX_EXTRANONCE_LEN_def)

lemmas jdemo_defs = jdemo_config_def jdemo_template_def jdemo_prev_hash_def jdemo_open_def jdemo_opened_def
  jdemo_data_def
lemmas jdc_map_eval = hm_get_def hm_insert_def hm_remove_def hm_keys_def hm_new_def fetch_add_def

lemmas jdc_eval = jdc_new_def allocate_token_def ignore_err_def send_jd_def send_upstream_def jdc_accept_def
  jdc_downstream_new_def jdc_new_template_def locked_def jdc_template_downstream_def jdc_group_job_def
  template_custom_job_def jdc_set_new_prev_hash_def declared_future_job_def prev_hash_custom_job_def
  jdc_prev_hash_downstream_def jdc_prev_hash_group_def jdc_handle_downstream_message_def jdc_open_request_def
  request_upstream_def compare_and_set_def upstream_request_def JDC_SEARCH_SPACE_BYTES_def forwarded_state_def
  jdc_open_success_def open_success_locked_def upstream_factory_def open_custom_job_def after_open_def
  jdc_open_extended_def lock_jdc_downstream_def jdc_create_extended_def jdc_finish_extended_def
  jdc_activation_def

definition jdemo_events :: "jdc_event list" where
  "jdemo_events = [UpstreamReady CoinbaseOnly, MinerAccepted, Template jdemo_template, PrevHash jdemo_prev_hash,
     FromMiner 0 (MinerOpenExtended jdemo_open), UpstreamOpened jdemo_opened]"

definition jdemo_miner :: "(jdemo_channel, jdemo_channel, u32) jdc_downstream" where
  "jdemo_miner =
     \<lparr>jdc_downstream_data =
        \<lparr>group_channels = None, extended_channels = [(0, [9, 9, 0], 77)], standard_channels = [],
         channel_id_factory = 1, negotiated_extensions = [], require_std_job = False,
         dd_supported_extensions = [], dd_required_extensions = []\<rparr>,
      jdc_downstream_id = 0\<rparr>"

definition jdemo_connected ::
  "(jdemo_channel, jdemo_channel, u32, nat, jdemo_factory, jdemo_upstream, nat) jdc" where
  "jdemo_connected =
     \<lparr>jc_data = jdemo_data\<lparr>jc_downstream := [(0, jdemo_miner)], jc_factory_extended := ([9, 9], 1),
        jc_factory_standard := ([9, 9], 0), jc_request_id_factory := 2, jc_downstream_id_factory := 1,
        jc_last_future_template := Some jdemo_template, jc_last_new_prev_hash := Some jdemo_prev_hash,
        jc_template_store := [(3, jdemo_template)], jc_job_to_template := [((0, 0, 7), 3)],
        jc_upstream_channel := Some (1, [9, 9]), jc_job_factory := Some 0, jc_vardiff := [((0, 0), 0)]\<rparr>,
      jc_upstream_state = Connected, jc_mode = CoinbaseOnly,
      out_upstream = [OpenExtendedUpstream \<lparr>oe_request_id = 1, oe_user_identity = [106, 100, 99],
        oe_nominal_hash_rate = 5, oe_max_target = 77, oe_min_extranonce_size = 8\<rparr>],
      out_jd = [AllocateMiningJobToken 0 [106, 100, 99], AllocateMiningJobToken 1 [106, 100, 99]], out_tp = [],
      out_downstream =
        [(0, OpenExtendedMiningChannelSuccess \<lparr>oes_request_id = 8, oes_channel_id = 0, oes_target = 77,
           oes_extranonce_prefix = [9, 9, 0], oes_extranonce_size = 8\<rparr>),
         (0, NewExtendedMiningJob (job_msg jdemo_job)),
         (0, SetNewPrevHash (jdc_activation jdemo_prev_hash 0 7))],
      out_status = [], upstream_open = True, jd_open = True, tp_open = True, status_open = True\<rparr>"

lemma jdemo_session:
  "run_jdc jdemo_lib jdemo_config jdemo_events (jdc_new jdemo_data CoinbaseOnly) = (Ok (), jdemo_connected)"
  by (simp add: jdc_eval jdc_map_eval jdemo_defs jdemo_events_def jdemo_connected_def jdemo_miner_def Let_def)

end
