(* ===== verification/Jdc_Session.thy ===== *)
theory Jdc_Session
  imports Jdc_Example
begin

text \<open>
  What the loop of the job declarator client guarantees in every state that it reaches: the
  invariant of the upstream channel, the absence of panics when a template arrives, the order
  of the requests for channels, and what a share looks like after it was passed on.
\<close>

section \<open>Templates never panic\<close>

text \<open>
  The laws of the channel library on which the handler of a template relies: after
  \<open>on_new_template\<close> has accepted a template its job is there, among the future jobs or as the
  active job.
\<close>

definition job_present :: "new_template \<Rightarrow> u32 option \<Rightarrow> (u32 \<Rightarrow> job option) \<Rightarrow> job option \<Rightarrow> bool" where
  "job_present t future jobs active =
     (if nt_future_template t then (case future of None \<Rightarrow> False | Some jid \<Rightarrow> jobs jid \<noteq> None) else active \<noteq> None)"

definition jobs_after_template :: "('sc, 'ec, 'gc, 'vd, 'xf, 'uc, 'jf) jdc_lib \<Rightarrow> bool" where
  "jobs_after_template L \<longleftrightarrow>
     (\<forall>sc t outs sc'. sc_on_new_template L sc t outs = (Inr (), sc') \<longrightarrow>
        job_present t (sc_future_template_to_job_id L sc' (nt_template_id t)) (sc_future_jobs L sc')
          (sc_active_job L sc')) \<and>
     (\<forall>ec t outs ec'. ec_on_new_template L ec t outs = (Inr (), ec') \<longrightarrow>
        job_present t (ec_future_template_to_job_id L ec' (nt_template_id t)) (ec_future_jobs L ec')
          (ec_active_job L ec')) \<and>
     (\<forall>gc t outs gc'. gc_on_new_template L gc t outs = (Inr (), gc') \<longrightarrow>
        job_present t (gc_future_template_to_job_id L gc' (nt_template_id t)) (gc_future_jobs L gc')
          (gc_active_job L gc'))"

lemma jobs_after_templateD:
  assumes "jobs_after_template L"
  shows "sc_on_new_template L sc t outs = (Inr u, sc') \<Longrightarrow>
      job_present t (sc_future_template_to_job_id L sc' (nt_template_id t)) (sc_future_jobs L sc') (sc_active_job L sc')"
    and "ec_on_new_template L ec t outs = (Inr u, ec') \<Longrightarrow>
      job_present t (ec_future_template_to_job_id L ec' (nt_template_id t)) (ec_future_jobs L ec') (ec_active_job L ec')"
    and "gc_on_new_template L gc t outs = (Inr u, gc') \<Longrightarrow>
      job_present t (gc_future_template_to_job_id L gc' (nt_template_id t)) (gc_future_jobs L gc') (gc_active_job L gc')"
  using assms by (auto simp: jobs_after_template_def)

definition no_panic :: "('e, 'a) res \<Rightarrow> bool" where
  "no_panic r \<longleftrightarrow> (\<forall>p. r \<noteq> Panic p)"

lemma no_panic_simps [simp]:
  "no_panic (Ok a)" "no_panic (Err e)" "\<not> no_panic (Panic p)" "no_panic (map_res f r) = no_panic r"
  by (simp_all add: no_panic_def) (cases r; simp)

lemma no_panic_and_then:
  assumes "no_panic (fst m)" and "\<And>a. fst m = Ok a \<Longrightarrow> no_panic (fst (k a (snd m)))"
  shows "no_panic (fst (and_then m k))"
  using assms by (cases m; cases "fst m") (auto simp: no_panic_def)

lemma iter_state_no_panic:
  assumes "\<And>k v s. P s \<Longrightarrow> no_panic (fst (f k v s)) \<and> P (snd (snd (f k v s)))" and "P s"
  shows "no_panic (fst (hm_iter_state f m s))"
  using assms(2)
proof (induction m arbitrary: s)
  case Nil
  then show ?case by simp
next
  case (Cons e m)
  obtain k v where e: "e = (k, v)" by (cases e)
  obtain r v' s' where f: "f k v s = (r, v', s')" by (cases "f k v s")
  then show ?case using assms(1) [OF Cons.prems, of k v] Cons.IH [of s'] e
    by (cases r) (auto split: prod.split)
qed

text \<open>The job factory is there whenever the upstream channel is.\<close>

definition factory_ok :: "('sc, 'ec, 'gc, 'vd, 'xf, 'uc, 'jf) jdc_data \<Rightarrow> bool" where
  "factory_ok d \<longleftrightarrow> (jc_job_factory d = None \<longrightarrow> jc_upstream_channel d = None)"

lemma factory_ok_cong: "data_core d' = data_core d \<Longrightarrow> factory_ok d' = factory_ok d"
  by (simp add: data_core_def factory_ok_def)

lemma jdc_inv_factory: "jdc_inv S \<Longrightarrow> factory_ok (jc_data S)"
  by (auto simp: jdc_inv_def jdc_core_eq core_inv_def factory_ok_def split: upstream_state.splits)

lemma custom_job_no_panic: "factory_ok d \<Longrightarrow> no_panic (fst (template_custom_job L mode m outs d))"
  by (auto simp: template_custom_job_def factory_ok_def Let_def split: option.split prod.split sum.split)

lemma group_job_no_panic:
  assumes "jobs_after_template L"
  shows "no_panic (fst (jdc_group_job L m outs g))"
proof (cases g)
  case None
  then show ?thesis by (simp add: jdc_group_job_def)
next
  case (Some gc)
  obtain r gc' where r: "gc_on_new_template L gc m outs = (r, gc')" by fastforce
  show ?thesis
  proof (cases r)
    case (Inr u)
    then show ?thesis using jobs_after_templateD(3) [OF assms r [unfolded Inr]] Some r
      by (auto simp: jdc_group_job_def job_present_def split: option.splits if_splits)
  qed (use r Some in \<open>simp add: jdc_group_job_def\<close>)
qed

lemma template_job_ok:
  assumes "jobs_after_template L"
  shows "sc_on_new_template L sc m outs = (Inr u, sc') \<Longrightarrow> \<exists>jid j. jdc_standard_job L m sc' = Ok (jid, j)"
    and "ec_on_new_template L ec m outs = (Inr u, ec') \<Longrightarrow> \<exists>jid j. jdc_extended_job L m ec' = Ok (jid, j)"
  by (drule jobs_after_templateD [OF assms],
      auto simp: jdc_standard_job_def jdc_extended_job_def job_present_def split: option.splits if_splits)+

lemma standard_template_no_panic:
  assumes "jobs_after_template L"
  shows "no_panic (fst (jdc_template_standard L m outs did ng gj cid sc jt))"
proof -
  obtain r sc' where r: "sc_on_new_template L sc m outs = (r, sc')" by fastforce
  show ?thesis
  proof (cases r)
    case (Inl e)
    then show ?thesis using r by (auto simp: jdc_template_standard_def split: option.split)
  next
    case (Inr u)
    then obtain jid j where "jdc_standard_job L m sc' = Ok (jid, j)" using template_job_ok(1) [OF assms] r by blast
    then show ?thesis using r Inr
      by (auto simp: jdc_template_standard_def split: option.split prod.split sum.split)
  qed
qed

lemma extended_template_no_panic:
  assumes "jobs_after_template L"
  shows "no_panic (fst (jdc_template_extended L m outs did cid ec jt))"
  using template_job_ok(2) [OF assms, of ec m outs]
  by (fastforce simp: jdc_template_extended_def split: prod.split sum.split)

lemma downstream_template_no_panic:
  assumes "jobs_after_template L" and "factory_ok d"
  shows "no_panic (fst (jdc_template_downstream L mode m outs did ds d))"
proof -
  have std: "no_panic (fst (hm_iter_state (jdc_template_standard L m outs did ng gj) scs jt))" for ng gj scs jt
    by (rule iter_state_no_panic [where P = "\<lambda>_. True"]) (simp_all add: standard_template_no_panic [OF assms(1)])
  have ext: "no_panic (fst (hm_iter_state (jdc_template_extended L m outs did) ecs jt))" for ecs jt
    by (rule iter_state_no_panic [where P = "\<lambda>_. True"]) (simp_all add: extended_template_no_panic [OF assms(1)])
  show ?thesis
    unfolding jdc_template_downstream_def Let_def
    using group_job_no_panic [OF assms(1), of m outs "group_channels (jdc_downstream_data ds)"]
      custom_job_no_panic [OF assms(2), of L mode m outs]
    by (auto intro!: no_panic_and_then split: prod.split) (metis fst_conv std, metis fst_conv ext)
qed

text \<open>The user identity of the configuration fits into a message.\<close>

lemma tokens_no_panic:
  assumes "str0255_try_from L (jc_user_identity cfg) = Inr user"
  shows "no_panic (fst (allocate_tokens L cfg n S))"
proof (induction n arbitrary: S)
  case 0
  then show ?case by simp
next
  case (Suc n)
  then show ?case using assms
    by (auto simp: allocate_token_def Let_def send_jd_def intro!: no_panic_and_then)
qed

lemma new_template_no_panic:
  assumes "jobs_after_template L" and "factory_ok (jc_data S)"
    and "str0255_try_from L (jc_user_identity cfg) = Inr user"
    and "deserialize_outputs L (jc_coinbase_outputs (jc_data S)) \<noteq> Some []"
  shows "no_panic (fst (jdc_new_template L cfg m S))"
proof -
  let ?f = "\<lambda>d. d\<lparr>jc_template_store := hm_insert (nt_template_id m) m (jc_template_store d),
      jc_last_future_template := (if nt_future_template m then Some m else jc_last_future_template d)\<rparr>"
  have iter: "no_panic (fst (hm_iter_state (jdc_template_downstream L mode m outs) dm d))" if "factory_ok d" for mode outs dm d
    by (rule iter_state_no_panic [where P = factory_ok, OF _ that])
      (simp add: downstream_template_no_panic [OF assms(1)] factory_ok_cong [OF core_template_downstream])
  have ign: "no_panic (fst (ignore_err (allocate_tokens L cfg n S')))" for n and S' :: "('a, 'b, 'c, 'd, 'e, 'f, 'g) jdc"
    using tokens_no_panic [OF assms(3), of n S'] by (auto simp: ignore_err_def no_panic_def split: prod.splits res.splits)
  have fin: "no_panic (fst (and_then (if b then ignore_err (allocate_tokens L cfg 1 S') else (Ok (), S'))
      (\<lambda>_. forward_each L ms)))" for b S' ms
    by (rule no_panic_and_then) (simp_all add: ign del: allocate_tokens.simps)
  have lock: "no_panic (fst (and_then (locked (\<lambda>d. case outs of [] \<Rightarrow> (Panic ''index out of bounds'', d)
        | out # outs \<Rightarrow> let outputs' = out\<lparr>tx_value := nt_coinbase_tx_value_remaining m\<rparr> # outs in
            (case hm_iter_state (jdc_template_downstream L mode m outputs') (jc_downstream d) d of
               (r, m, d1) \<Rightarrow> (r, d1\<lparr>jc_downstream := m\<rparr>))) S2)
      (\<lambda>ms S3. and_then (if jc_mode S3 = CoinbaseOnly \<and> \<not> nt_future_template m
         then ignore_err (allocate_tokens L cfg 1 S3) else (Ok (), S3)) (\<lambda>_. forward_each L ms))))"
    if "outs \<noteq> []" "factory_ok (jc_data S2)" for outs mode S2
  proof (rule no_panic_and_then)
    obtain out os where "outs = out # os" using \<open>outs \<noteq> []\<close> by (cases outs) auto
    then show "no_panic (fst (locked (\<lambda>d. case outs of [] \<Rightarrow> (Panic ''index out of bounds'', d)
        | out # outs \<Rightarrow> let outputs' = out\<lparr>tx_value := nt_coinbase_tx_value_remaining m\<rparr> # outs in
            (case hm_iter_state (jdc_template_downstream L mode m outputs') (jc_downstream d) d of
               (r, m, d1) \<Rightarrow> (r, d1\<lparr>jc_downstream := m\<rparr>))) S2))"
      using iter [OF that(2), of mode "out\<lparr>tx_value := nt_coinbase_tx_value_remaining m\<rparr> # os" "jc_downstream (jc_data S2)"]
      by (auto simp: locked_def Let_def split: prod.split)
  qed (rule fin)
  let ?S1 = "upd_jc ?f S"
  let ?first = "if jc_mode ?S1 = FullTemplate then send_tp (RequestTransactionData (nt_template_id m)) ?S1 else (Ok (), ?S1)"
  have "factory_ok (jc_data (snd ?first))" using assms(2) by (simp add: send_tp_def factory_ok_def)
  moreover have "no_panic (fst ?first)" by (simp add: send_tp_def)
  moreover have "jc_coinbase_outputs (jc_data ?S1) = jc_coinbase_outputs (jc_data S)" by simp
  ultimately show ?thesis
    unfolding jdc_new_template_def using assms(4)
    by (cases "deserialize_outputs L (jc_coinbase_outputs (jc_data S))")
      (simp_all only: Let_def [where s = ?S1] option.case fst_conv no_panic_simps, intro no_panic_and_then lock, simp_all)
qed

text \<open>
  C4. The loop of the job declarator client. In every state that the loop reaches from the start,
  whatever the miners, the pool, the job declarator and the template provider send, an upstream
  channel comes with a job factory; no request for a channel waits in the upstream state
  \<open>Connected\<close>, at least one waits in \<open>Pending\<close>, and in \<open>SoloState\<close> none waits and there is no upstream
  channel. Hence the handler of a template panics in no state but one whose coinbase outputs decode
  to an empty list, where \<open>coinbase_outputs[0]\<close> is out of bounds: for that the channel objects have
  the jobs of the templates they accepted, and the user identity fits its field.
\<close>

theorem jdc_loop_invariant:
  assumes "jdc_data_new L outs supported required = Ok d"
    and "run_jdc L cfg es (jdc_new d mode) = (Ok (), S)"
    and "jobs_after_template L" and "str0255_try_from L (jc_user_identity cfg) = Inr user"
  shows "(jc_job_factory (jc_data S) = None \<longrightarrow> jc_upstream_channel (jc_data S) = None) \<and>
    (jc_upstream_state S = Connected \<longrightarrow> jc_pending_requests (jc_data S) = []) \<and>
    (jc_upstream_state S = Pending \<longrightarrow> jc_pending_requests (jc_data S) \<noteq> []) \<and>
    (jc_upstream_state S = SoloState \<longrightarrow>
       jc_pending_requests (jc_data S) = [] \<and> jc_upstream_channel (jc_data S) = None) \<and>
    ((\<exists>p. fst (jdc_handle L cfg (Template t) S) = Panic p) \<longrightarrow>
       deserialize_outputs L (jc_coinbase_outputs (jc_data S)) = Some [])"
proof -
  have "jdc_inv (jdc_new d mode)"
    using assms(1) by (auto simp: jdc_data_new_def jdc_new_def jdc_inv_def jdc_core_eq core_inv_simps map_res_Ok)
  then have inv: "jdc_inv S" using run_inv assms(2) by blast
  then have "core_inv (jc_upstream_state S, jc_pending_requests (jc_data S),
      jc_upstream_channel (jc_data S) = None, jc_job_factory (jc_data S) = None)"
    unfolding jdc_inv_def jdc_core_eq .
  moreover have "no_panic (fst (jdc_new_template L cfg t S))"
    if "deserialize_outputs L (jc_coinbase_outputs (jc_data S)) \<noteq> Some []"
    using new_template_no_panic [OF assms(3) jdc_inv_factory [OF inv] assms(4) that] .
  ultimately show ?thesis by (auto simp: core_inv_def no_panic_def)
qed

lemma jdemo_jobs: "jobs_after_template jdemo_lib"
  by (simp add: jobs_after_template_def job_present_def)

lemma jdemo_connected_simps [simp]:
  "jc_upstream_state jdemo_connected = Connected" "jc_pending_requests (jc_data jdemo_connected) = []"
  "jc_coinbase_outputs (jc_data jdemo_connected) = [0x51]"
  by (simp_all add: jdemo_connected_def jdemo_data_def)

lemma jdemo_user: "str0255_try_from jdemo_lib (jc_user_identity jdemo_config) = Inr [106, 100, 99]"
  by (simp add: jdemo_config_def)

theorem jdc_loop_invariant_witness:
  "run_jdc jdemo_lib jdemo_config jdemo_events (jdc_new jdemo_data CoinbaseOnly) = (Ok (), jdemo_connected) \<and>
   jc_pending_requests (jc_data jdemo_connected) = [] \<and>
   (\<nexists>p. fst (jdc_handle jdemo_lib jdemo_config (Template jdemo_template) jdemo_connected) = Panic p)"
proof (intro conjI)
  show "\<nexists>p. fst (jdc_handle jdemo_lib jdemo_config (Template jdemo_template) jdemo_connected) = Panic p"
    using jdc_loop_invariant [OF jdemo_data_new jdemo_session jdemo_jobs jdemo_user, of jdemo_template]
    by (simp del: jdc_handle.simps)
qed (simp_all add: jdemo_session)

section \<open>Requests for channels\<close>

fun request_event :: "pending_request \<Rightarrow> jdc_event" where
  "request_event (ExtendedChannel did m) = FromMiner did (MinerOpenExtended m)"
| "request_event (StandardChannel did m) = FromMiner did (MinerOpenStandard m)"

lemma handle_request: "jdc_handle L cfg (request_event r) S = jdc_open_request L cfg r S"
  by (cases r) (simp_all add: jdc_handle_downstream_message_def)

text \<open>The state in which the requests wait.\<close>

definition waiting_state ::
  "pending_request list \<Rightarrow> upstream_mining \<Rightarrow> ('sc, 'ec, 'gc, 'vd, 'xf, 'uc, 'jf) jdc \<Rightarrow>
     ('sc, 'ec, 'gc, 'vd, 'xf, 'uc, 'jf) jdc" where
  "waiting_state rs m S =
     S\<lparr>jc_data := (jc_data S)\<lparr>jc_pending_requests := rs\<rparr>, jc_upstream_state := Pending,
       out_upstream := out_upstream S @ [m]\<rparr>"

lemma requests_wait:
  "run_jdc L cfg (map request_event rs) (waiting_state ws m S) = (Ok (), waiting_state (ws @ rs) m S)"
proof (induction rs arbitrary: ws)
  case Nil
  then show ?case by simp
next
  case (Cons r rs)
  have "jdc_handle L cfg (request_event r) (waiting_state ws m S) = (Ok (), waiting_state (ws @ [r]) m S)"
    by (simp add: handle_request jdc_open_request_def waiting_state_def)
  then show ?case using Cons.IH [of "ws @ [r]"] by simp
qed

lemma upstream_request_ok:
  assumes "str0255_try_from L (jc_user_identity cfg) = Inr user"
  obtains m where "upstream_request L cfg r = Ok m" "oe_request_id m = 1" "oe_user_identity m = user"
    "oe_nominal_hash_rate m = pending_hashrate r"
  using assms that by (cases r) (auto simp: upstream_request_def)

text \<open>
  C14. Opening the upstream channel. When there is no upstream channel, the first request of a miner
  for a channel makes the client send one \<open>OpenExtendedMiningChannel\<close> in its own name, with the
  identity of its configuration and the hashrate of the request; every further request until the
  answer waits, in the order of arrival, and nothing else is sent or changed.
\<close>

theorem one_upstream_channel_for_all_requests:
  assumes "jc_upstream_state S = NoChannel" and "jc_pending_requests (jc_data S) = []"
    and "str0255_try_from L (jc_user_identity cfg) = Inr user"
    and "\<And>m. frame_try_from L m = Inr ()" and "upstream_open S"
  shows "\<exists>m. oe_request_id m = 1 \<and> oe_user_identity m = user \<and> oe_nominal_hash_rate m = pending_hashrate r \<and>
    run_jdc L cfg (map request_event (r # rs)) S =
      (Ok (), S\<lparr>jc_data := (jc_data S)\<lparr>jc_pending_requests := r # rs\<rparr>, jc_upstream_state := Pending,
        out_upstream := out_upstream S @ [OpenExtendedUpstream m]\<rparr>)"
proof -
  obtain m where m: "upstream_request L cfg r = Ok m" "oe_request_id m = 1" "oe_user_identity m = user"
      "oe_nominal_hash_rate m = pending_hashrate r"
    by (rule upstream_request_ok [OF assms(3)])
  have "jdc_handle L cfg (request_event r) S = (Ok (), waiting_state [r] (OpenExtendedUpstream m) S)"
    using assms(1,2,4,5) m(1)
    by (simp add: handle_request jdc_open_request_def request_upstream_def compare_and_set_def send_upstream_def
        waiting_state_def Let_def)
  then have "run_jdc L cfg (map request_event (r # rs)) S = (Ok (), waiting_state (r # rs) (OpenExtendedUpstream m) S)"
    using requests_wait [of L cfg rs "[r]"] by simp
  then show ?thesis using m by (auto simp: waiting_state_def)
qed

theorem one_upstream_channel_for_all_requests_witness:
  "\<exists>m. run_jdc jdemo_lib jdemo_config
     (map request_event [ExtendedChannel 0 jdemo_open, ExtendedChannel 1 jdemo_open])
     ((jdc_new jdemo_data CoinbaseOnly)\<lparr>jc_upstream_state := NoChannel\<rparr>) =
   (Ok (), (jdc_new (jdemo_data\<lparr>jc_pending_requests := [ExtendedChannel 0 jdemo_open, ExtendedChannel 1 jdemo_open]\<rparr>)
     CoinbaseOnly)\<lparr>jc_upstream_state := Pending, out_upstream := [OpenExtendedUpstream m]\<rparr>)"
proof -
  let ?S = "(jdc_new jdemo_data CoinbaseOnly)\<lparr>jc_upstream_state := NoChannel\<rparr>"
  have "jc_upstream_state ?S = NoChannel" "jc_pending_requests (jc_data ?S) = []" "upstream_open ?S"
    by (simp_all add: jdc_new_def jdemo_data_def)
  from one_upstream_channel_for_all_requests [OF this(1,2) jdemo_user _ this(3),
      of "ExtendedChannel 0 jdemo_open" "[ExtendedChannel 1 jdemo_open]"]
  show ?thesis by (auto simp: jdc_new_def)
qed

end
