(* ===== verification/Jdc_Shares.thy ===== *)
theory Jdc_Shares
  imports Jdc_Session
begin

text \<open>
  Shares on their way to the pool: the share that the client sends upstream denotes the same
  block header as the miner's share, with the sequence numbers and job identifiers of the
  upstream channel; and the cases in which a share is not passed on.
\<close>

section \<open>From the miner to the pool\<close>

text \<open>The share on the upstream channel; \<open>own\<close> is what the client added to the upstream's prefix.\<close>

definition share_upstream ::
  "('sc, 'ec, 'gc, 'vd, 'xf, 'uc, 'jf) jdc_lib \<Rightarrow> 'uc \<Rightarrow> u32 \<Rightarrow> u32 \<Rightarrow> bytes \<Rightarrow>
     'a submit_shares_standard_scheme \<Rightarrow> submit_shares_extended" where
  "share_upstream L uc n job en msg =
     \<lparr>sh_channel_id = up_channel_id L uc, sh_sequence_number = n, sh_job_id = job, sh_nonce = sh_nonce msg,
      sh_ntime = sh_ntime msg, sh_version = sh_version msg, sh_extranonce = en\<rparr>"

lemma forward_share_ok:
  assumes "jc_upstream_channel d = Some uc" and "pfx = up_extranonce_prefix L uc @ own"
    and "hm_get (jc_job_to_template d) (did, sh_channel_id msg, sh_job_id msg) = Some tid"
    and "hm_get (jc_template_to_upstream_job d) tid = Some job"
    and "b032_try_from L (own @ tail) = Inr (own @ tail)"
    and "up_validate_share L uc (share_upstream L uc 0 job (own @ tail) msg) = (Inr v, uc')"
    and "b032_try_from L (solved uc' (share_upstream L uc (jc_sequence_number_factory d) job (own @ tail) msg)) = Inr en"
  shows "forward_share_upstream L solved did msg pfx tail p d =
     (Ok ((case v of ClientValid h \<Rightarrow> [] | ClientBlockFound h \<Rightarrow>
              [ToJobDeclarator (PushSolution (jdc_solution
                 (share_upstream L uc (jc_sequence_number_factory d) job (own @ tail) msg) p en))]) @
          [ToUpstream (SubmitUpstream (share_upstream L uc (jc_sequence_number_factory d) job (own @ tail) msg))]),
      d\<lparr>jc_upstream_channel := Some uc', jc_sequence_number_factory := jc_sequence_number_factory d + 1\<rparr>)"
  using assms
  by (simp add: forward_share_upstream_def upstream_share_def submit_upstream_def share_upstream_def Let_def
      fetch_add_def split: client_share_result.split)

lemma answer_share_parts:
  assumes "answer_share L did owner msg acc res = Ok (answers, ok)"
  shows "upstream_part L answers = []" and "jd_part answers = []"
  using assms
  by (auto simp: answer_share_def Let_def split: sum.splits share_validation_result.splits
      share_validation_error.splits option.splits if_splits)

text \<open>
  C5. A miner's share reaches the pool. A share of an extended channel whose prefix extends the
  prefix of the upstream channel, which the miner's channel accepts, whose job has an upstream job
  and which the upstream channel accepts, is sent to the pool: with the full extranonce, nonce, time
  and version of the miner, the identifiers of the upstream channel and job, and the next
  sequence number. If it solves a block, the job declarator is sent the solution with the same full
  extranonce, and nothing otherwise.
\<close>

theorem accepted_share_reaches_pool:
  assumes "hm_get (jc_downstream (jc_data S)) did = Some ds" and "jc_last_new_prev_hash (jc_data S) = Some p"
    and "hm_get (extended_channels (jdc_downstream_data ds)) (sh_channel_id msg) = Some ec"
    and "hm_get (jc_vardiff (jc_data S)) (did, sh_channel_id msg) = Some vd"
    and "ec_validate_share L ec msg = (res, ec')"
    and "answer_share L did (jdc_downstream_id ds) msg (ec_share_accounting L ec') res = Ok (answers, True)"
    and "jc_upstream_channel (jc_data S) = Some uc"
    and "ec_extranonce_prefix L ec' = up_extranonce_prefix L uc @ own"
    and "hm_get (jc_job_to_template (jc_data S)) (did, sh_channel_id msg, sh_job_id msg) = Some tid"
    and "hm_get (jc_template_to_upstream_job (jc_data S)) tid = Some job"
    and "up_validate_share L uc (share_upstream L uc 0 job (own @ sh_extranonce msg) msg) = (Inr v, uc')"
    and "up_extranonce_prefix L uc' = up_extranonce_prefix L uc"
    and "\<And>bs. length bs \<le> 32 \<Longrightarrow> b032_try_from L bs = Inr bs"
    and "length (ec_extranonce_prefix L ec' @ sh_extranonce msg) \<le> 32"
    and "\<And>m. frame_try_from L m = Inr ()"
    and "jc_mode S \<noteq> SoloMining" and "upstream_open S" and "jd_open S"
  shows "\<exists>S' m. jdc_submit_shares_extended L did msg S = (Ok (), S') \<and>
    out_upstream S' = out_upstream S @ [SubmitUpstream m] \<and>
    up_extranonce_prefix L uc @ sh_extranonce m = ec_extranonce_prefix L ec' @ sh_extranonce msg \<and>
    sh_nonce m = sh_nonce msg \<and> sh_ntime m = sh_ntime msg \<and> sh_version m = sh_version msg \<and>
    sh_channel_id m = up_channel_id L uc \<and> sh_job_id m = job \<and>
    sh_sequence_number m = jc_sequence_number_factory (jc_data S) \<and>
    jc_sequence_number_factory (jc_data S') = jc_sequence_number_factory (jc_data S) + 1 \<and>
    out_jd S' = out_jd S @ (case v of ClientValid h \<Rightarrow> [] | ClientBlockFound h \<Rightarrow>
      [PushSolution \<lparr>so_extranonce = ec_extranonce_prefix L ec' @ sh_extranonce msg, so_ntime = sh_ntime msg,
         so_nonce = sh_nonce msg, so_version = sh_version msg, so_nbits = ph_n_bits p, so_prev_hash = ph_prev_hash p\<rparr>])"
proof -
  let ?d = "jc_data S"
  let ?n = "jc_sequence_number_factory ?d"
  let ?m = "share_upstream L uc ?n job (own @ sh_extranonce msg) msg"
  let ?up = "(case v of ClientValid h \<Rightarrow> [] | ClientBlockFound h \<Rightarrow>
      [ToJobDeclarator (PushSolution (jdc_solution ?m p (ec_extranonce_prefix L ec' @ sh_extranonce msg)))]) @
    [ToUpstream (SubmitUpstream ?m)]"
  let ?d1 = "?d\<lparr>jc_vardiff := hm_insert (did, sh_channel_id msg) (vd_increment_shares_since_last_update L vd) (jc_vardiff ?d)\<rparr>"
  let ?solved = "\<lambda>uc m. up_extranonce_prefix L uc @ sh_extranonce m"
  have en: "?solved uc' ?m = ec_extranonce_prefix L ec' @ sh_extranonce msg"
    using assms(8,12) by (simp add: share_upstream_def)
  have fwd: "forward_share_upstream L ?solved did msg (ec_extranonce_prefix L ec') (sh_extranonce msg) p ?d1 =
      (Ok ?up, ?d1\<lparr>jc_upstream_channel := Some uc', jc_sequence_number_factory := ?n + 1\<rparr>)"
    using forward_share_ok [where d = ?d1 and solved = ?solved and p = p and L = L and uc = uc and own = own
        and did = did and msg = msg and tid = tid and job = job and tail = "sh_extranonce msg" and v = v and uc' = uc'
        and pfx = "ec_extranonce_prefix L ec'" and en = "ec_extranonce_prefix L ec' @ sh_extranonce msg"]
      assms(7-11,13,14) en by (simp split: client_share_result.splits)
  have closed: "jdc_share_extended L did (jdc_downstream_id ds) msg p (?d, jdc_downstream_data ds) =
      (Ok (answers @ ?up), ?d1\<lparr>jc_upstream_channel := Some uc', jc_sequence_number_factory := ?n + 1\<rparr>,
       (jdc_downstream_data ds)\<lparr>extended_channels := hm_insert (sh_channel_id msg) ec' (extended_channels (jdc_downstream_data ds))\<rparr>)"
    using assms(3-6) fwd by (simp add: jdc_share_extended_def Let_def)
  obtain d' where lock: "share_locked did (\<lambda>owner. jdc_share_extended L did owner msg) ?d = (Ok (answers @ ?up), d')"
      and seq: "jc_sequence_number_factory d' = ?n + 1"
    using assms(1,2) closed by (auto simp: share_locked_def lock_jdc_downstream_def)
  let ?S1 = "S\<lparr>jc_data := d'\<rparr>"
  have "forward_try L ms ?S1 = (Ok (), forwarded_state L ms ?S1)" for ms
    by (rule forward_try_ok) (rule assms(15))
  then have run: "jdc_submit_shares_extended L did msg S = (Ok (), forwarded_state L (answers @ ?up) ?S1)"
    using assms(1) lock by (simp add: jdc_submit_shares_extended_def locked_def)
  have parts: "upstream_part L (answers @ ?up) = [SubmitUpstream ?m]"
    "jd_part (answers @ ?up) = (case v of ClientValid h \<Rightarrow> [] | ClientBlockFound h \<Rightarrow>
      [PushSolution (jdc_solution ?m p (ec_extranonce_prefix L ec' @ sh_extranonce msg))])"
    using answer_share_parts [OF assms(6)] assms(15) by (simp_all split: client_share_result.split)
  show ?thesis
    by (intro exI [of _ "forwarded_state L (answers @ ?up) ?S1"] exI [of _ ?m] conjI run)
      (use assms(8,16-18) seq parts in \<open>simp_all add: forwarded_state_def share_upstream_def jdc_solution_def
        split: client_share_result.split\<close>)
qed


text \<open>A miner's share on the open channel of the session, for a job that the pool has accepted.\<close>

definition jdemo_mining ::
  "(jdemo_channel, jdemo_channel, u32, nat, jdemo_factory, jdemo_upstream, nat) jdc" where
  "jdemo_mining = upd_jc (\<lambda>d. d\<lparr>jc_template_to_upstream_job := [(3, 21)]\<rparr>) jdemo_connected"

definition jdemo_share :: "u32 \<Rightarrow> submit_shares_extended" where
  "jdemo_share nonce =
     \<lparr>sh_channel_id = 0, sh_sequence_number = 4, sh_job_id = 7, sh_nonce = nonce, sh_ntime = 1001,
      sh_version = 2, sh_extranonce = [5, 6]\<rparr>"

theorem accepted_share_reaches_pool_witness:
  "\<exists>S' m. jdc_submit_shares_extended jdemo_lib 0 (jdemo_share 1) jdemo_mining = (Ok (), S') \<and>
    out_upstream S' = out_upstream jdemo_mining @ [SubmitUpstream m] \<and>
    [9, 9] @ sh_extranonce m = [9, 9, 0, 5, 6] \<and> sh_job_id m = 21 \<and>
    (\<exists>sol. out_jd S' = out_jd jdemo_mining @ [PushSolution sol] \<and> so_extranonce sol = [9, 9, 0, 5, 6])"
proof -
  let ?answers = "[ToTemplateProvider (SolutionToProvider \<lparr>ss_template_id = 3, ss_version = 2,
      ss_header_timestamp = 1001, ss_header_nonce = 1, ss_coinbase_tx = [0xab]\<rparr>),
    ToDownstream 0 (SubmitSharesSuccess (jdc_share_success 0 jdemo_accounting))]"
  have "hm_get (jc_downstream (jc_data jdemo_mining)) 0 = Some jdemo_miner"
    "jc_last_new_prev_hash (jc_data jdemo_mining) = Some jdemo_prev_hash"
    "hm_get (extended_channels (jdc_downstream_data jdemo_miner)) (sh_channel_id (jdemo_share 1)) = Some ([9, 9, 0], 77)"
    "hm_get (jc_vardiff (jc_data jdemo_mining)) (0, sh_channel_id (jdemo_share 1)) = Some 0"
    "ec_validate_share jdemo_lib ([9, 9, 0], 77) (jdemo_share 1) = (Inr (BlockFound 12 (Some 3) [0xab]), ([9, 9, 0], 77))"
    "answer_share jdemo_lib 0 (jdc_downstream_id jdemo_miner) (jdemo_share 1)
       (ec_share_accounting jdemo_lib ([9, 9, 0], 77)) (Inr (BlockFound 12 (Some 3) [0xab])) = Ok (?answers, True)"
    "jc_upstream_channel (jc_data jdemo_mining) = Some (1, [9, 9])"
    "ec_extranonce_prefix jdemo_lib ([9, 9, 0], 77) = up_extranonce_prefix jdemo_lib (1, [9, 9]) @ [0]"
    "hm_get (jc_job_to_template (jc_data jdemo_mining)) (0, sh_channel_id (jdemo_share 1), sh_job_id (jdemo_share 1)) = Some 3"
    "hm_get (jc_template_to_upstream_job (jc_data jdemo_mining)) 3 = Some 21"
    "up_validate_share jdemo_lib (1, [9, 9])
       (share_upstream jdemo_lib (1, [9, 9]) 0 21 ([0] @ sh_extranonce (jdemo_share 1)) (jdemo_share 1)) =
     (Inr (ClientBlockFound 12), 1, [9, 9])"
    by (simp_all add: jdemo_mining_def jdemo_connected_def jdemo_miner_def jdemo_share_def jdemo_data_def hm_get_def
        jdemo_validation_def answer_share_def share_upstream_def Let_def)
  note facts = this
  have "jc_mode jdemo_mining \<noteq> SoloMining" "upstream_open jdemo_mining" "jd_open jdemo_mining"
    by (simp_all add: jdemo_mining_def jdemo_connected_def)
  then show ?thesis
    using accepted_share_reaches_pool [OF facts] by (fastforce simp: jdemo_share_def)
qed

end
