(* ===== verification/Jds_Mempool.thy ===== *)
theory Jds_Mempool
  imports Hash_Map
begin

text \<open>
  The mempool of the job declarator server (\<open>jd-server\<close>, \<open>mempool/mod.rs\<close>): a map from
  transaction identifiers to \<open>None\<close> (a thin entry, only the identifier is known) or to the
  transaction with a reference counter. The Bitcoin node behind the RPC client and the
  transaction type are external: \<open>node\<close> collects what the code calls of them.
\<close>

type_synonym txid = u256
type_synonym 'tx mempool = "(txid, ('tx \<times> u32) option) hash_map"

datatype rpc_error = RpcError nat | Deserialization string

datatype jds_mempool_error = EmptyMempool | NoClient | Rpc rpc_error | PoisonLock string

type_synonym 'a mempool_result = "(jds_mempool_error, 'a) res"

record 'tx node =
  compute_txid :: "'tx \<Rightarrow> txid"
  get_client :: bool
  get_raw_transaction :: "txid \<Rightarrow> rpc_error + 'tx"
  get_raw_mempool :: "rpc_error + string list"
  txid_from_str :: "string \<Rightarrow> string + txid"
  submit_block :: "string \<Rightarrow> rpc_error + unit"

definition mempool_new :: "'tx mempool" where
  "mempool_new = hm_new"

section \<open>Adding transactions\<close>

text \<open>
  The \<open>entry().and_modify().or_insert()\<close> of both loops: a transaction already present in
  full gains a reference, a thin or absent entry becomes full with one reference. The
  counter is a \<open>u32\<close>.
\<close>

definition insert_fat :: "txid \<Rightarrow> 'tx \<Rightarrow> 'tx mempool \<Rightarrow> 'tx mempool" where
  "insert_fat i tx m =
     (case hm_get m i of
        Some (Some (t, count)) \<Rightarrow> hm_insert i (Some (t, count + 1)) m
      | Some None \<Rightarrow> hm_insert i (Some (tx, 1)) m
      | None \<Rightarrow> hm_insert i (Some (tx, 1)) m)"

fun add_known :: "('tx, 'z) node_scheme \<Rightarrow> txid list \<Rightarrow> 'tx mempool \<Rightarrow> unit mempool_result \<times> 'tx mempool" where
  "add_known N [] m = (Ok (), m)"
| "add_known N (i # is) m =
     (case hm_get m i of
        Some None \<Rightarrow>
          (case get_raw_transaction N i of
             Inl e \<Rightarrow> (Err (Rpc e), m)
           | Inr tx \<Rightarrow> add_known N is (insert_fat (compute_txid N tx) tx m))
      | _ \<Rightarrow> add_known N is m)"

definition add_unknown :: "('tx, 'z) node_scheme \<Rightarrow> 'tx list \<Rightarrow> 'tx mempool \<Rightarrow> 'tx mempool" where
  "add_unknown N txs m = fold (\<lambda>tx. insert_fat (compute_txid N tx) tx) txs m"

definition add_tx_data_to_mempool ::
  "('tx, 'z) node_scheme \<Rightarrow> txid list \<Rightarrow> 'tx list \<Rightarrow> 'tx mempool \<Rightarrow> unit mempool_result \<times> 'tx mempool" where
  "add_tx_data_to_mempool N txids transactions m =
     (if \<not> get_client N then (Err NoClient, m)
      else and_then (add_known N txids m) (\<lambda>_ m. (Ok (), add_unknown N transactions m)))"

section \<open>Synchronisation and submission\<close>

fun parse_txids :: "(string \<Rightarrow> string + txid) \<Rightarrow> string list \<Rightarrow> (jds_mempool_error, txid list) res" where
  "parse_txids p [] = Ok []"
| "parse_txids p (s # ss) =
     (case p s of
        Inl err \<Rightarrow> Err (Rpc (Deserialization err))
      | Inr i \<Rightarrow> map_res ((#) i) (parse_txids p ss))"

definition insert_thin :: "txid \<Rightarrow> 'tx mempool \<Rightarrow> 'tx mempool" where
  "insert_thin i m = (if hm_contains_key m i then m else hm_insert i None m)"

definition update_mempool :: "('tx, 'z) node_scheme \<Rightarrow> 'tx mempool \<Rightarrow> unit mempool_result \<times> 'tx mempool" where
  "update_mempool N m =
     (if \<not> get_client N then (Err NoClient, m)
      else
        case get_raw_mempool N of
          Inl e \<Rightarrow> (Err (Rpc e), m)
        | Inr strs \<Rightarrow>
            and_then (parse_txids (txid_from_str N) strs, m) (\<lambda>ids m.
              let m' = fold insert_thin ids m in
              (if m' = [] then Err EmptyMempool else Ok (), m')))"

text \<open>
  The blocks received from the downstreams, up to the closing of the queue: a failed
  submission yields an error value that is dropped, the first successful one ends the call.
\<close>

fun submit_loop :: "('tx, 'z) node_scheme \<Rightarrow> string list \<Rightarrow> unit mempool_result \<times> string list" where
  "submit_loop N [] = (Ok (), [])"
| "submit_loop N (b # bs) =
     (case submit_block N b of
        Inr _ \<Rightarrow> (Ok (), bs)
      | Inl e \<Rightarrow> submit_loop N bs)"

definition on_submit :: "('tx, 'z) node_scheme \<Rightarrow> string list \<Rightarrow> unit mempool_result \<times> string list" where
  "on_submit N blocks = (if \<not> get_client N then (Err NoClient, blocks) else submit_loop N blocks)"

section \<open>Removal of a replaced job\<close>

text \<open>
  \<open>clear_declared_mining_job\<close> of \<open>message_handler.rs\<close>: the transactions of the old job that
  the new one does not have lose a reference, and the last reference removes the entry. The
  lookups of the outer match are made on a copy taken before the loop.
\<close>

definition drop_reference :: "txid \<Rightarrow> 'tx mempool \<Rightarrow> 'tx mempool" where
  "drop_reference i m =
     (case hm_get m i of
        Some (Some (t, count)) \<Rightarrow>
          if 1 < count then hm_insert i (Some (t, count - 1)) m else hm_remove i m
      | _ \<Rightarrow> m)"

definition clear_one :: "('tx, 'z) node_scheme \<Rightarrow> 'tx mempool \<Rightarrow> txid \<Rightarrow> 'tx mempool \<Rightarrow> 'tx mempool" where
  "clear_one N snapshot old m =
     (case hm_get snapshot old of
        Some (Some (t, _)) \<Rightarrow> drop_reference (compute_txid N t) m
      | _ \<Rightarrow> m)"

definition clear_declared_mining_job ::
  "('tx, 'z) node_scheme \<Rightarrow> txid list \<Rightarrow> txid list \<Rightarrow> 'tx mempool \<Rightarrow> 'tx mempool" where
  "clear_declared_mining_job N old_transactions new_transactions m =
     (if old_transactions = [] then m
      else fold (clear_one N m) (filter (\<lambda>i. i \<notin> set new_transactions) old_transactions) m)"

section \<open>The invariant\<close>

text \<open>Every full entry is filed under the identifier of its transaction and has a reference.\<close>

definition mempool_wf :: "('tx, 'z) node_scheme \<Rightarrow> 'tx mempool \<Rightarrow> bool" where
  "mempool_wf N m \<longleftrightarrow>
     hm_distinct m \<and> (\<forall>i t c. hm_get m i = Some (Some (t, c)) \<longrightarrow> compute_txid N t = i)"

text \<open>
  The store the downstreams rely on: all of its operations keep the invariant and say which
  entries they touch.
\<close>

locale tx_store =
  fixes wf :: "'m \<Rightarrow> bool"
    and lookup :: "'m \<Rightarrow> txid \<Rightarrow> 'tx option"
    and add :: "'tx \<Rightarrow> 'm \<Rightarrow> 'm"
    and ident :: "'tx \<Rightarrow> txid"
  assumes add_wf: "wf m \<Longrightarrow> wf (add t m)"
    and lookup_ident: "wf m \<Longrightarrow> lookup m i = Some t \<Longrightarrow> ident t = i"
    and add_present: "lookup (add t m) (ident t) \<noteq> None"
    and add_keeps: "lookup m i = Some t' \<Longrightarrow> lookup (add t m) i = Some t'"
begin

lemma add_all_wf: "wf m \<Longrightarrow> wf (fold add ts m)"
  by (induction ts arbitrary: m) (simp_all add: add_wf)

lemma add_all_keeps: "lookup m i = Some t' \<Longrightarrow> lookup (fold add ts m) i = Some t'"
  by (induction ts arbitrary: m) (simp_all add: add_keeps)

lemma add_all_present: "t \<in> set ts \<Longrightarrow> \<exists>t'. lookup (fold add ts m) (ident t) = Some t'"
proof (induction ts arbitrary: m)
  case (Cons a ts)
  show ?case
  proof (cases "t = a")
    case True
    obtain t' where "lookup (add a m) (ident a) = Some t'" using add_present by blast
    then show ?thesis using True add_all_keeps by auto
  next
    case False
    then show ?thesis using Cons by simp
  qed
qed simp

text \<open>Looking up all identifiers in order gives transactions with exactly these identifiers.\<close>

lemma lookup_all:
  assumes "wf m" and "those (map (lookup m) is) = Some ts"
  shows "map ident ts = is"
  using assms(2)
proof (induction "is" arbitrary: ts)
  case (Cons i "is")
  then show ?case using lookup_ident [OF assms(1)] by (auto split: option.splits)
qed simp

end

definition full_tx :: "'tx mempool \<Rightarrow> txid \<Rightarrow> 'tx option" where
  "full_tx m i = (case hm_get m i of Some (Some (t, c)) \<Rightarrow> Some t | _ \<Rightarrow> None)"

lemma insert_fat_wf: "mempool_wf N m \<Longrightarrow> mempool_wf N (insert_fat (compute_txid N t) t m)"
  by (auto simp: mempool_wf_def insert_fat_def split: option.split if_splits)

interpretation jds_store: tx_store "mempool_wf N" full_tx "\<lambda>t. insert_fat (compute_txid N t) t" "compute_txid N"
proof unfold_locales
  fix m :: "'a mempool" and t t' i
  show "mempool_wf N m \<Longrightarrow> mempool_wf N (insert_fat (compute_txid N t) t m)"
    by (rule insert_fat_wf)
  show "mempool_wf N m \<Longrightarrow> full_tx m i = Some t \<Longrightarrow> compute_txid N t = i"
    by (auto simp: mempool_wf_def full_tx_def split: option.splits)
  show "full_tx (insert_fat (compute_txid N t) t m) (compute_txid N t) \<noteq> None"
    by (auto simp: full_tx_def insert_fat_def split: option.split)
  show "full_tx m i = Some t' \<Longrightarrow> full_tx (insert_fat (compute_txid N t) t m) i = Some t'"
    by (auto simp: full_tx_def insert_fat_def split: option.splits)
qed

section \<open>Lemmas\<close>

lemma add_known_wf: "mempool_wf N m \<Longrightarrow> mempool_wf N (snd (add_known N is m))"
  by (induction N "is" m rule: add_known.induct) (auto simp: insert_fat_wf split: option.split sum.split)

lemma add_unknown_wf: "mempool_wf N m \<Longrightarrow> mempool_wf N (add_unknown N txs m)"
  unfolding add_unknown_def by (rule jds_store.add_all_wf)

lemma add_tx_data_wf: "mempool_wf N m \<Longrightarrow> mempool_wf N (snd (add_tx_data_to_mempool N is txs m))"
  using add_known_wf [of N m "is"]
  by (auto simp: add_tx_data_to_mempool_def and_then_def add_unknown_wf split: prod.splits res.splits)

lemma insert_thin_wf: "mempool_wf N m \<Longrightarrow> mempool_wf N (insert_thin i m)"
  by (auto simp: mempool_wf_def insert_thin_def split: if_splits)

lemma fold_insert_thin_wf: "mempool_wf N m \<Longrightarrow> mempool_wf N (fold insert_thin is m)"
  by (induction "is" arbitrary: m) (simp_all add: insert_thin_wf)

lemma update_mempool_wf: "mempool_wf N m \<Longrightarrow> mempool_wf N (snd (update_mempool N m))"
  by (auto simp: update_mempool_def and_then_def Let_def fold_insert_thin_wf split: sum.split res.split)

lemma drop_reference_wf: "mempool_wf N m \<Longrightarrow> mempool_wf N (drop_reference i m)"
  by (auto simp: mempool_wf_def drop_reference_def split: option.split if_splits)

lemma clear_wf: "mempool_wf N m \<Longrightarrow> mempool_wf N (clear_declared_mining_job N old new m)"
proof -
  have "mempool_wf N m' \<Longrightarrow> mempool_wf N (fold (clear_one N s) xs m')" for s xs m'
    by (induction xs arbitrary: m') (auto simp: clear_one_def drop_reference_wf split: option.split)
  then show "mempool_wf N m \<Longrightarrow> mempool_wf N (clear_declared_mining_job N old new m)"
    by (simp add: clear_declared_mining_job_def)
qed

lemma parse_txids_no_panic [simp]: "parse_txids q ss \<noteq> Panic p"
proof (induction q ss rule: parse_txids.induct)
  case (2 q s ss)
  then show ?case by (cases "q s"; cases "parse_txids q ss") auto
qed simp

lemma hm_get_insert_thin:
  "hm_get (insert_thin i m) j = (if j = i \<and> hm_get m i = None then Some None else hm_get m j)"
  by (simp add: insert_thin_def hm_contains_key_def)

lemma hm_get_fold_insert_thin:
  "hm_get (fold insert_thin is m) j =
     (if hm_get m j = None \<and> j \<in> set is then Some None else hm_get m j)"
  by (induction "is" arbitrary: m) (auto simp: hm_get_insert_thin)

lemma drop_reference_other: "j \<noteq> i \<Longrightarrow> hm_get (drop_reference i m) j = hm_get m j"
  by (simp add: drop_reference_def split: option.split)

lemma clear_one_other:
  assumes "mempool_wf N s" and "j \<noteq> i"
  shows "hm_get (clear_one N s i m) j = hm_get m j"
  using assms by (auto simp: clear_one_def mempool_wf_def drop_reference_other split: option.split)

text \<open>What one release does to an entry, and what \<open>n\<close> of them do.\<close>

fun drop_entry :: "('tx \<times> u32) option option \<Rightarrow> ('tx \<times> u32) option option" where
  "drop_entry (Some (Some (t, c))) = (if 1 < c then Some (Some (t, c - 1)) else None)"
| "drop_entry e = e"

lemma drop_entries:
  "(drop_entry ^^ n) (Some (Some (t, c))) =
     (if n = 0 then Some (Some (t, c)) else if n < unat c then Some (Some (t, c - of_nat n)) else None)"
proof (induction n)
  case (Suc n)
  show ?case
  proof (cases "n < unat c")
    case True
    have n: "unat (of_nat n :: u32) = n"
      using less_trans [OF True unsigned_less [of c]] by (simp add: unat_of_nat)
    then have "unat (c - of_nat n) = unat c - n"
      using True by (simp add: unat_sub word_le_nat_alt)
    then have "1 < c - of_nat n \<longleftrightarrow> Suc n < unat c"
      by (auto simp: word_less_nat_alt)
    then show ?thesis using Suc True by (auto simp: algebra_simps word_less_nat_alt)
  next
    case False
    then show ?thesis using Suc by (cases n) (auto simp: word_less_nat_alt)
  qed
qed simp

lemma clear_one_self:
  assumes "mempool_wf N s"
  shows "hm_get (clear_one N s i m) i =
    (case hm_get s i of Some (Some _) \<Rightarrow> drop_entry (hm_get m i) | _ \<Rightarrow> hm_get m i)"
  using assms
  by (cases "hm_get m i" rule: drop_entry.cases)
    (auto simp: clear_one_def mempool_wf_def drop_reference_def split: option.split)

lemma fold_clear_one:
  assumes "mempool_wf N s"
  shows "hm_get (fold (clear_one N s) xs m) i =
    (case hm_get s i of
       Some (Some _) \<Rightarrow> (drop_entry ^^ count_list xs i) (hm_get m i)
     | _ \<Rightarrow> hm_get m i)"
proof (induction xs arbitrary: m)
  case (Cons x xs)
  show ?case
  proof (cases "x = i")
    case True
    then show ?thesis
      using Cons [of "clear_one N s i m"] clear_one_self [OF assms, of i m]
      by (auto simp: funpow_Suc_right simp del: funpow.simps split: option.splits)
  next
    case False
    then show ?thesis
      using Cons [of "clear_one N s x m"] clear_one_other [OF assms, of i x m] by (auto split: option.splits)
  qed
qed (simp split: option.split)

lemma count_filter_in: "count_list (filter P xs) i = (if P i then count_list xs i else 0)"
  by (induction xs) auto

section \<open>Properties\<close>

definition demo_node :: "nat node" where
  "demo_node =
     \<lparr>compute_txid = (\<lambda>t. of_nat t), get_client = True, get_raw_transaction = (\<lambda>i. Inr (unat i)),
      get_raw_mempool = Inr [''a''], txid_from_str = (\<lambda>s. Inr (of_nat (length s))),
      submit_block = (\<lambda>b. if b = ''ok'' then Inr () else Inl (RpcError 0))\<rparr>"

text \<open>
  Every operation on the mempool keeps it well-formed: keys are distinct and a full entry
  is filed under the identifier of its transaction.
\<close>

theorem mempool_operations_wf:
  assumes "mempool_wf N m"
  shows "mempool_wf N mempool_new \<and> mempool_wf N (snd (add_tx_data_to_mempool N is txs m)) \<and>
    mempool_wf N (snd (update_mempool N m)) \<and> mempool_wf N (clear_declared_mining_job N old new m)"
  using add_tx_data_wf [OF assms] update_mempool_wf [OF assms] clear_wf [OF assms]
  by (simp add: mempool_new_def mempool_wf_def)

theorem mempool_operations_wf_witness:
  "mempool_wf demo_node (clear_declared_mining_job demo_node [5] [] [(5, Some (5, 2)), (6, None)])"
proof -
  have "mempool_wf demo_node [(5, Some (5, 2)), (6, None)]"
    by (auto simp: mempool_wf_def hm_distinct_def hm_get_def demo_node_def split: if_splits)
  from mempool_operations_wf [OF this] show ?thesis by simp
qed

text \<open>
  A synchronisation with the node only adds thin entries: what was known stays, full
  transactions with their reference counters included, and exactly the node's identifiers
  are new. It reports an empty mempool exactly when nothing is known afterwards, and any
  other failure leaves the mempool as it was.
\<close>

theorem update_mempool_only_adds:
  assumes "get_client N" and "get_raw_mempool N = Inr strs"
  shows "case parse_txids (txid_from_str N) strs of
      Ok ids \<Rightarrow> (\<forall>i. hm_get (snd (update_mempool N m)) i =
          (if hm_get m i = None \<and> i \<in> set ids then Some None else hm_get m i)) \<and>
        fst (update_mempool N m) = (if hm_keys m \<union> set ids = {} then Err EmptyMempool else Ok ())
    | Err e \<Rightarrow> update_mempool N m = (Err e, m)
    | Panic p \<Rightarrow> False"
proof (cases "parse_txids (txid_from_str N) strs")
  case (Ok ids)
  have "hm_keys (fold insert_thin ids m) = hm_keys m \<union> set ids"
    by (auto simp: hm.keys_get hm_get_fold_insert_thin)
  then have "fold insert_thin ids m = [] \<longleftrightarrow> hm_keys m \<union> set ids = {}"
    by (auto simp: hm_keys_def)
  then show ?thesis
    using Ok assms by (simp add: update_mempool_def Let_def hm_get_fold_insert_thin)
next
  case (Err e)
  then show ?thesis using assms by (simp add: update_mempool_def)
next
  case (Panic p)
  then show ?thesis by simp
qed

theorem update_mempool_only_adds_witness:
  "hm_get (snd (update_mempool demo_node [(5, Some (5, 2))])) 1 = Some None \<and>
   hm_get (snd (update_mempool demo_node [(5, Some (5, 2))])) 5 = Some (Some (5, 2))"
  using update_mempool_only_adds [of demo_node "[''a'']" "[(5, Some (5, 2))]"]
  by (auto simp: demo_node_def hm_get_def)

text \<open>
  C38. Replacing a declared job releases the transactions the new job does not have, and nothing
  else: each of them loses as many references as the old job listed it, and is removed when that
  takes the last one; every other entry is untouched. A job may list a transaction more than once,
  which nothing in the code rules out, and then loses more than one reference for it.
\<close>

theorem clear_releases_old_transactions:
  assumes wf: "mempool_wf N m"
  shows "hm_get (clear_declared_mining_job N old new m) i =
    (let n = (if i \<in> set new then 0 else count_list old i) in
     case hm_get m i of
       Some (Some (t, c)) \<Rightarrow>
         if n = 0 then Some (Some (t, c)) else if n < unat c then Some (Some (t, c - of_nat n)) else None
     | e \<Rightarrow> e)"
proof -
  have "hm_get (clear_declared_mining_job N old new m) i =
      hm_get (fold (clear_one N m) (filter (\<lambda>i. i \<notin> set new) old) m) i"
    by (simp add: clear_declared_mining_job_def)
  then show ?thesis
    by (auto simp: fold_clear_one [OF wf] count_filter_in drop_entries Let_def split: option.split)
qed

theorem clear_releases_old_transactions_witness:
  "hm_get (clear_declared_mining_job demo_node [5, 6, 5] [6] [(5, Some (5, 3)), (6, Some (6, 1))]) 5 =
     Some (Some (5, 1))"
proof -
  have "mempool_wf demo_node [(5, Some (5, 3)), (6, Some (6, 1))]"
    by (auto simp: mempool_wf_def hm_distinct_def hm_get_def demo_node_def split: if_splits)
  from clear_releases_old_transactions [OF this, of "[5, 6, 5]" "[6]" 5] show ?thesis
    by (simp add: hm_get_def)
qed

text \<open>
  A known transaction that the mempool already has in full gains no reference when
  another job declares it: the call leaves the mempool as it is.
\<close>

theorem known_full_transactions_not_counted:
  assumes "\<forall>i\<in>set is. \<exists>t c. hm_get m i = Some (Some (t, c))" and "get_client N"
  shows "add_tx_data_to_mempool N is [] m = (Ok (), m)"
proof -
  have "add_known N is m = (Ok (), m)"
    using assms(1) by (induction "is") auto
  then show ?thesis using assms(2) by (simp add: add_tx_data_to_mempool_def add_unknown_def)
qed

theorem known_full_transactions_not_counted_witness:
  "add_tx_data_to_mempool demo_node [5] [] [(5, Some (5, 1))] = (Ok (), [(5, Some (5, 1))])"
  using known_full_transactions_not_counted [of "[5]" "[(5, Some (5, 1))]" demo_node]
  by (simp add: hm_get_def demo_node_def)

text \<open>
  Block submission is at most once and silent on failure: a block the node rejects is
  taken from the queue and the call goes on with the next one, without an error.
\<close>

theorem rejected_block_is_dropped:
  assumes "\<forall>b\<in>set rejected. \<exists>e. submit_block N b = Inl e" and "get_client N"
  shows "on_submit N (rejected @ blocks) = on_submit N blocks \<and> on_submit N rejected = (Ok (), [])"
proof -
  have "submit_loop N (rejected @ bs) = submit_loop N bs" for bs
    using assms(1) by (induction rejected) auto
  from this [of blocks] this [of "[]"] show ?thesis
    using assms(2) by (simp add: on_submit_def)
qed

theorem rejected_block_is_dropped_witness:
  "on_submit demo_node [''bad'', ''ok'', ''next''] = (Ok (), [''next''])"
  using rejected_block_is_dropped [of "[''bad'']" demo_node "[''ok'', ''next'']"]
  by (simp add: demo_node_def on_submit_def)

end
