(* ===== verification/Jds_Declarator.thy ===== *)
theory Jds_Declarator
  imports Jds_Mempool
begin

text \<open>
  One downstream of the job declarator server (\<open>jd-server\<close>, \<open>job_declarator/mod.rs\<close> and
  \<open>message_handler.rs\<close>): token allocation, job declaration, the exchange of missing
  transactions and the reconstruction of a solved block. The mempool is shared between the
  downstreams and is threaded through the handlers. External code: transaction decoding, the
  token counter \<open>Id\<close>, the signature of a token and the block builder.
\<close>

section \<open>Data\<close>

record declare_mining_job =
  dj_request_id :: u32
  dj_token :: bytes
  dj_tx_ids :: "txid list"
  dj_payload :: bytes

record provide_missing_transactions_success =
  pm_request_id :: u32
  pm_transactions :: "bytes list"

record push_solution =
  ps_payload :: bytes

datatype transaction_state = PresentInMempool txid | Missing

datatype roles_error =
    TxDecodingError string
  | LogicErrorMessage provide_missing_transactions_success
  | JDSMissingTransactions
  | NoValidJob
  | BinaryErr nat

datatype jds_error = NoLastDeclaredJob | ImpossibleToReconstructBlock string

datatype job_declaration =
    AllocateMiningJobTokenSuccess u32 bytes bytes
  | DeclareMiningJobSuccess u32 bytes
  | DeclareMiningJobError u32
  | ProvideMissingTransactions u32 "u16 list"

datatype send_to = Respond job_declaration | SendNone "push_solution option"

record ('tx, 'id) jd_lib = "'tx node" +
  decode_tx :: "bytes \<Rightarrow> string + 'tx"
  id_new :: 'id
  id_next :: "'id \<Rightarrow> u32 \<times> 'id"
  sign_token :: "bytes \<Rightarrow> roles_error + bytes"
  block_hex :: "declare_mining_job \<Rightarrow> 'tx list \<Rightarrow> push_solution \<Rightarrow> string"

record ('tx, 'id) jd_downstream =
  coinbase_output :: bytes
  token_to_job_map :: "(u32, u8 option) hash_map"
  tokens :: 'id
  declared_job :: "declare_mining_job option"
  tx_states :: "transaction_state list"
  missing_indexes :: "u16 list"
  known_transactions :: "txid list"
  unknown_transactions :: "'tx list"

definition jd_downstream_new :: "('tx, 'id) jd_lib \<Rightarrow> bytes \<Rightarrow> ('tx, 'id) jd_downstream" where
  "jd_downstream_new J output =
     \<lparr>coinbase_output = output, token_to_job_map = hm_new, tokens = id_new J, declared_job = None,
      tx_states = [], missing_indexes = [], known_transactions = [], unknown_transactions = []\<rparr>"

section \<open>Tokens\<close>

definition handle_allocate_mining_job_token ::
  "('tx, 'id) jd_lib \<Rightarrow> u32 \<Rightarrow> ('tx, 'id) jd_downstream \<Rightarrow>
     (roles_error, send_to) res \<times> ('tx, 'id) jd_downstream" where
  "handle_allocate_mining_job_token J rid s =
     (case id_next J (tokens s) of (token, ids) \<Rightarrow>
        (Ok (Respond (AllocateMiningJobTokenSuccess rid (u32_to_le_bytes token) (coinbase_output s))),
         s\<lparr>tokens := ids, token_to_job_map := hm_insert token None (token_to_job_map s)\<rparr>))"

text \<open>The token must be four bytes long: the conversion is unwrapped.\<close>

definition verify_job ::
  "('tx, 'id) jd_downstream \<Rightarrow> declare_mining_job \<Rightarrow> (roles_error, bool) res" where
  "verify_job s msg =
     (case dj_token msg of
        [b0, b1, b2, b3] \<Rightarrow> Ok (hm_contains_key (token_to_job_map s) (u32_from_le_bytes b0 b1 b2 b3))
      | _ \<Rightarrow> Panic ''called `Result::unwrap()` on an `Err` value'')"

section \<open>Declaring a job\<close>

text \<open>The loop over the declared transactions, with its index; \<open>i as u16\<close> truncates.\<close>

fun declare_loop ::
  "'tx mempool \<Rightarrow> nat \<Rightarrow> txid list \<Rightarrow> transaction_state list \<times> u16 list \<times> txid list \<Rightarrow>
     transaction_state list \<times> u16 list \<times> txid list" where
  "declare_loop m i [] acc = acc"
| "declare_loop m i (t # ts) (states, missing, known) =
     declare_loop m (Suc i) ts
       (if hm_contains_key m t then (states[i := PresentInMempool t], missing, known @ [t])
        else (states, missing @ [of_nat i], known))"

definition handle_declare_mining_job ::
  "('tx, 'id) jd_lib \<Rightarrow> declare_mining_job \<Rightarrow> ('tx, 'id) jd_downstream \<times> 'tx mempool \<Rightarrow>
     (roles_error, send_to) res \<times> ('tx, 'id) jd_downstream \<times> 'tx mempool" where
  "handle_declare_mining_job J msg sm =
     (case sm of (s, m) \<Rightarrow>
      let s1 = s\<lparr>declared_job := None\<rparr>;
          m1 = (case declared_job s of
                  None \<Rightarrow> m
                | Some old \<Rightarrow>
                    clear_declared_mining_job J (dj_tx_ids old) (dj_tx_ids msg) m) in
      and_then (verify_job s1 msg, s1, m1) (\<lambda>known_token (s1, m1).
        if known_token then
          (case declare_loop m1 0 (dj_tx_ids msg) (replicate (length (dj_tx_ids msg)) Missing, [], []) of
             (states, missing, known) \<Rightarrow>
               let s2 = s1\<lparr>declared_job := Some msg, tx_states := states, missing_indexes := missing,
                            known_transactions := known_transactions s1 @ known\<rparr> in
               if missing = [] then
                 (case sign_token J (dj_token msg) of
                    Inl e \<Rightarrow> (Err e, s2, m1)
                  | Inr tok \<Rightarrow> (Ok (Respond (DeclareMiningJobSuccess (dj_request_id msg) tok)), s2, m1))
               else (Ok (Respond (ProvideMissingTransactions (dj_request_id msg) missing)), s2, m1))
        else (Ok (Respond (DeclareMiningJobError (dj_request_id msg))), s1, m1)))"

section \<open>Missing transactions\<close>

fun provide_loop ::
  "('tx, 'id) jd_lib \<Rightarrow> provide_missing_transactions_success \<Rightarrow> u16 list \<Rightarrow> nat \<Rightarrow> bytes list \<Rightarrow>
     'tx list \<Rightarrow> transaction_state list \<Rightarrow> (roles_error, 'tx list) res \<times> transaction_state list" where
  "provide_loop J msg missing i [] unknown states = (Ok unknown, states)"
| "provide_loop J msg missing i (raw # raws) unknown states =
     (case decode_tx J raw of
        Inl e \<Rightarrow> (Err (TxDecodingError e), states)
      | Inr tx \<Rightarrow>
          if length missing \<le> i then (Err (LogicErrorMessage msg), states)
          else
            let index = unat (missing ! i) in
            if length states \<le> index then (Panic ''index out of bounds'', states)
            else provide_loop J msg missing (Suc i) raws (unknown @ [tx])
                   (states[index := PresentInMempool (compute_txid J tx)]))"

definition handle_provide_missing_transactions_success ::
  "('tx, 'id) jd_lib \<Rightarrow> provide_missing_transactions_success \<Rightarrow> ('tx, 'id) jd_downstream \<Rightarrow>
     (roles_error, send_to) res \<times> ('tx, 'id) jd_downstream" where
  "handle_provide_missing_transactions_success J msg s =
     (case declared_job s of
        None \<Rightarrow> (Err NoValidJob, s)
      | Some job \<Rightarrow>
          if dj_request_id job = pm_request_id msg then
            (case provide_loop J msg (missing_indexes s) 0 (pm_transactions msg) [] (tx_states s) of
               (r, states) \<Rightarrow>
                 and_then (r, s\<lparr>tx_states := states\<rparr>) (\<lambda>unknown s.
                   let s = s\<lparr>unknown_transactions := unknown_transactions s @ unknown\<rparr> in
                   if Missing \<in> set (tx_states s) then (Err JDSMissingTransactions, s)
                   else
                     (case sign_token J (dj_token job) of
                        Inl e \<Rightarrow> (Err e, s)
                      | Inr tok \<Rightarrow> (Ok (Respond (DeclareMiningJobSuccess (pm_request_id msg) tok)), s))))
          else (Ok (SendNone None), s))"

definition handle_push_solution :: "push_solution \<Rightarrow> (roles_error, send_to) res" where
  "handle_push_solution msg = Ok (SendNone (Some msg))"

section \<open>Blocks\<close>

fun collect_txs ::
  "'tx mempool \<Rightarrow> transaction_state list \<Rightarrow> (jds_error, 'tx list) res" where
  "collect_txs m [] = Ok []"
| "collect_txs m (Missing # sts) = Err (ImpossibleToReconstructBlock ''Unknown transaction'')"
| "collect_txs m (PresentInMempool i # sts) =
     (case hm_get m i of
        None \<Rightarrow> Err (ImpossibleToReconstructBlock ''Txid not found in jds mempool'')
      | Some None \<Rightarrow>
          Err (ImpossibleToReconstructBlock ''Txid found in jds mempool but transactions not present'')
      | Some (Some (t, c)) \<Rightarrow> map_res ((#) t) (collect_txs m sts))"

definition collect_txs_in_job ::
  "('tx, 'id) jd_downstream \<Rightarrow> 'tx mempool \<Rightarrow> (jds_error, 'tx list) res" where
  "collect_txs_in_job s m = collect_txs m (tx_states s)"

definition get_block_hex ::
  "('tx, 'id) jd_lib \<Rightarrow> push_solution \<Rightarrow> ('tx, 'id) jd_downstream \<Rightarrow> 'tx mempool \<Rightarrow> (jds_error, string) res" where
  "get_block_hex J msg s m =
     (case declared_job s of
        None \<Rightarrow> Err NoLastDeclaredJob
      | Some job \<Rightarrow> map_res (\<lambda>txs. block_hex J job txs msg) (collect_txs_in_job s m))"

fun get_transactions_in_job :: "transaction_state list \<Rightarrow> txid list" where
  "get_transactions_in_job [] = []"
| "get_transactions_in_job (PresentInMempool i # sts) = i # get_transactions_in_job sts"
| "get_transactions_in_job (Missing # sts) = get_transactions_in_job sts"

text \<open>What the downstream's loop does with a solution: the block it hands to the submission
  queue, or the error. \<open>timely\<close> tells whether the node answers before the 60 seconds pass.\<close>

datatype solution_outcome = BlockSent string | ConnectionClosed jds_error | Reported jds_error | TimedOut

definition on_push_solution ::
  "('tx, 'id) jd_lib \<Rightarrow> bool \<Rightarrow> push_solution \<Rightarrow> ('tx, 'id) jd_downstream \<Rightarrow> 'tx mempool \<Rightarrow>
     solution_outcome \<times> 'tx mempool" where
  "on_push_solution J timely msg s m =
     (case collect_txs_in_job s m of
        Ok _ \<Rightarrow>
          (case get_block_hex J msg s m of
             Ok hex \<Rightarrow> (BlockSent hex, m)
           | Err e \<Rightarrow> (ConnectionClosed e, m)
           | Panic p \<Rightarrow> (TimedOut, m))
      | _ \<Rightarrow>
          if timely then
            (case snd (add_tx_data_to_mempool J (get_transactions_in_job (tx_states s)) [] m) of
               m' \<Rightarrow>
                 (case get_block_hex J msg s m' of
                    Ok hex \<Rightarrow> (BlockSent hex, m')
                  | Err e \<Rightarrow> (Reported e, m')
                  | Panic p \<Rightarrow> (TimedOut, m')))
          else (TimedOut, m))"

text \<open>
  Before a success or a request for missing transactions is sent, the transactions gathered
  so far go to the mempool task; \<open>send_txs_to_mempool\<close> empties them.
\<close>

definition send_txs_to_mempool ::
  "('tx, 'id) jd_downstream \<Rightarrow> (txid list \<times> 'tx list) \<times> ('tx, 'id) jd_downstream" where
  "send_txs_to_mempool s =
     ((known_transactions s, unknown_transactions s),
      s\<lparr>known_transactions := [], unknown_transactions := []\<rparr>)"

fun triggers_mempool :: "send_to \<Rightarrow> bool" where
  "triggers_mempool (Respond (DeclareMiningJobSuccess rid tok)) = True"
| "triggers_mempool (Respond (ProvideMissingTransactions rid idx)) = True"
| "triggers_mempool _ = False"

definition after_response ::
  "send_to \<Rightarrow> ('tx, 'id) jd_downstream \<Rightarrow> (txid list \<times> 'tx list) option \<times> ('tx, 'id) jd_downstream" where
  "after_response r s =
     (if triggers_mempool r then (case send_txs_to_mempool s of (txs, s') \<Rightarrow> (Some txs, s'))
      else (None, s))"

section \<open>The declaration loop\<close>

lemma declare_loop_eq:
  assumes "length states = i + length ts"
  shows "declare_loop m i ts (states, missing, known) =
    (take i states @ map (\<lambda>(s, t). if t \<in> hm_keys m then PresentInMempool t else s) (zip (drop i states) ts),
     missing @ map of_nat (filter (\<lambda>j. ts ! (j - i) \<notin> hm_keys m) [i..<i + length ts]),
     known @ filter (\<lambda>t. t \<in> hm_keys m) ts)"
  using assms
proof (induction m i ts "(states, missing, known)" arbitrary: states missing known rule: declare_loop.induct)
  case (1 m i)
  then show ?case by simp
next
  case (2 m i t ts states missing known)
  have lt: "i < length states" and len: "length states = Suc i + length ts"
    using "2.prems" by simp_all
  have rest: "filter (\<lambda>j. (t # ts) ! (j - i) \<notin> hm_keys m) [Suc i..<Suc i + length ts] =
      filter (\<lambda>j. ts ! (j - Suc i) \<notin> hm_keys m) [Suc i..<Suc i + length ts]"
    by (intro filter_cong) (auto simp: nth_Cons' Suc_diff_le)
  have split: "[i..<i + length (t # ts)] = i # [Suc i..<Suc i + length ts]"
    by (simp add: upt_conv_Cons del: upt_Suc)
  show ?case
  proof (cases "t \<in> hm_keys m")
    case True
    have "declare_loop m (Suc i) ts (states[i := PresentInMempool t], missing, known @ [t]) =
        (take (Suc i) (states[i := PresentInMempool t]) @
           map (\<lambda>(s, t). if t \<in> hm_keys m then PresentInMempool t else s)
             (zip (drop (Suc i) (states[i := PresentInMempool t])) ts),
         missing @ map of_nat (filter (\<lambda>j. ts ! (j - Suc i) \<notin> hm_keys m) [Suc i..<Suc i + length ts]),
         (known @ [t]) @ filter (\<lambda>t. t \<in> hm_keys m) ts)"
      by (rule "2.hyps") (use True len in \<open>simp_all add: hm_contains_key_iff\<close>)
    then show ?thesis
      using True lt rest unfolding split
      by (simp add: hm_contains_key_iff del: upt_Suc add: take_Suc_conv_app_nth Cons_nth_drop_Suc [symmetric])
  next
    case False
    have "declare_loop m (Suc i) ts (states, missing @ [of_nat i], known) =
        (take (Suc i) states @
           map (\<lambda>(s, t). if t \<in> hm_keys m then PresentInMempool t else s) (zip (drop (Suc i) states) ts),
         (missing @ [of_nat i]) @
           map of_nat (filter (\<lambda>j. ts ! (j - Suc i) \<notin> hm_keys m) [Suc i..<Suc i + length ts]),
         known @ filter (\<lambda>t. t \<in> hm_keys m) ts)"
      by (rule "2.hyps") (use False len in \<open>simp_all add: hm_contains_key_iff\<close>)
    then show ?thesis
      using False lt rest unfolding split
      by (simp add: hm_contains_key_iff del: upt_Suc add: take_Suc_conv_app_nth Cons_nth_drop_Suc [symmetric])
  qed
qed

text \<open>The reference: the positions that are absent from the mempool and the states of all.\<close>

definition missing_positions :: "'tx mempool \<Rightarrow> txid list \<Rightarrow> nat list" where
  "missing_positions m ids = filter (\<lambda>j. ids ! j \<notin> hm_keys m) [0..<length ids]"

definition declared_states :: "'tx mempool \<Rightarrow> txid list \<Rightarrow> transaction_state list" where
  "declared_states m ids = map (\<lambda>t. if t \<in> hm_keys m then PresentInMempool t else Missing) ids"

lemma declare_loop_start:
  "declare_loop m 0 ids (replicate (length ids) Missing, [], []) =
     (declared_states m ids, map of_nat (missing_positions m ids), filter (\<lambda>t. t \<in> hm_keys m) ids)"
proof -
  have "map (\<lambda>(s, t). if t \<in> hm_keys m then PresentInMempool t else s) (zip (replicate (length ids) Missing) ids) =
      declared_states m ids"
    by (rule nth_equalityI) (simp_all add: declared_states_def)
  then show ?thesis
    by (simp add: declare_loop_eq missing_positions_def)
qed

lemma missing_positions_empty: "missing_positions m ids = [] \<longleftrightarrow> set ids \<subseteq> hm_keys m"
  by (auto simp: missing_positions_def filter_empty_conv set_conv_nth)

lemma missing_positions_bound: "j \<in> set (missing_positions m ids) \<Longrightarrow> j < length ids"
  by (simp add: missing_positions_def)

lemma unat_of_nat_u16: "j < 65536 \<Longrightarrow> unat (of_nat j :: u16) = j"
  by (simp add: unat_of_nat)

lemma unat_missing:
  assumes "length ids \<le> 65536"
  shows "map unat (map of_nat (missing_positions m ids) :: u16 list) = missing_positions m ids"
  using assms by (auto intro!: map_idI unat_of_nat_u16 dest!: missing_positions_bound)

section \<open>Filling in the missing transactions\<close>

definition fill :: "(nat \<times> txid) list \<Rightarrow> transaction_state list \<Rightarrow> transaction_state list" where
  "fill ps states = fold (\<lambda>(j, t) st. st[j := PresentInMempool t]) ps states"

lemma length_fill [simp]: "length (fill ps states) = length states"
  by (induction ps arbitrary: states) (auto simp: fill_def)

lemma fill_other: "j \<notin> fst ` set ps \<Longrightarrow> fill ps states ! j = states ! j"
  by (induction ps arbitrary: states) (auto simp: fill_def nth_list_update)

lemma fill_at:
  assumes "distinct (map fst ps)" and "(j, t) \<in> set ps" and "j < length states"
  shows "fill ps states ! j = PresentInMempool t"
  using assms
proof (induction ps arbitrary: states)
  case (Cons p ps)
  obtain j0 t0 where p: "p = (j0, t0)" by (cases p)
  show ?case
  proof (cases "j = j0")
    case True
    then have "j \<notin> fst ` set ps" "t = t0" using Cons.prems p by (auto simp: image_iff)
    then have "fill ps (states[j0 := PresentInMempool t0]) ! j = PresentInMempool t"
      using fill_other [of j ps] True Cons.prems by simp
    then show ?thesis using p by (simp add: fill_def)
  next
    case False
    then have "fill ps (states[j0 := PresentInMempool t0]) ! j = PresentInMempool t"
      using Cons p by auto
    then show ?thesis using p by (simp add: fill_def)
  qed
qed simp

lemma nth_bound: "\<forall>x\<in>set xs. unat x < n \<Longrightarrow> \<not> length xs \<le> i \<Longrightarrow> \<not> n \<le> unat (xs ! i)"
  using nth_mem [of i xs] by fastforce

lemma provide_loop_eq:
  assumes "\<forall>x\<in>set missing. unat x < length states" and "map (decode_tx J) raws = map Inr txs"
    and "i + length raws \<le> length missing"
  shows "provide_loop J msg missing i raws unknown states =
    (Ok (unknown @ txs),
     fill (zip (map unat (drop i missing)) (map (compute_txid J) txs)) states)"
  using assms
proof (induction J msg missing i raws unknown states arbitrary: txs rule: provide_loop.induct)
  case (1 J msg missing i unknown states)
  then show ?case by (simp add: fill_def)
next
  case (2 J msg missing i raw raws unknown states)
  obtain tx txs' where txs: "txs = tx # txs'" "decode_tx J raw = Inr tx" "map (decode_tx J) raws = map Inr txs'"
    using "2.prems"(2) by (cases txs) auto
  have i: "\<not> length missing \<le> i" using "2.prems"(3) by simp
  note idx = nth_bound [OF "2.prems"(1) i]
  have d: "drop i missing = missing ! i # drop (Suc i) missing"
    using i by (simp add: Cons_nth_drop_Suc)
  have "provide_loop J msg missing (Suc i) raws (unknown @ [tx])
      (states[unat (missing ! i) := PresentInMempool (compute_txid J tx)]) =
      (Ok ((unknown @ [tx]) @ txs'),
       fill (zip (map unat (drop (Suc i) missing)) (map (compute_txid J) txs'))
         (states[unat (missing ! i) := PresentInMempool (compute_txid J tx)]))"
    by (rule "2.IH" [OF txs(2) i refl idx]) (use "2.prems" txs in auto)
  then show ?case
    using txs i idx by (simp add: d fill_def Let_def)
qed

lemma provide_loop_safe:
  assumes "\<forall>x\<in>set missing. unat x < length states"
  shows "(\<nexists>p. fst (provide_loop J msg missing i raws unknown states) = Panic p) \<and>
    length (snd (provide_loop J msg missing i raws unknown states)) = length states"
  using assms
  by (induction J msg missing i raws unknown states rule: provide_loop.induct)
    (auto simp: Let_def nth_bound split: sum.split)

lemma provide_loop_too_many:
  assumes "\<forall>x\<in>set missing. unat x < length states" and "\<forall>raw\<in>set raws. \<exists>tx. decode_tx J raw = Inr tx"
    and "i \<le> length missing" and "length missing < i + length raws"
  shows "fst (provide_loop J msg missing i raws unknown states) = Err (LogicErrorMessage msg)"
  using assms
proof (induction J msg missing i raws unknown states rule: provide_loop.induct)
  case (2 J msg missing i raw raws unknown states)
  obtain tx where tx: "decode_tx J raw = Inr tx" using "2.prems"(2) by auto
  show ?case
  proof (cases "length missing \<le> i")
    case False
    have "fst (provide_loop J msg missing (Suc i) raws (unknown @ [tx])
        (states[unat (missing ! i) := PresentInMempool (compute_txid J tx)])) = Err (LogicErrorMessage msg)"
      by (rule "2.IH" [OF tx False refl nth_bound [OF "2.prems"(1) False]]) (use "2.prems" False in auto)
    then show ?thesis using tx False nth_bound [OF "2.prems"(1) False] by (simp add: Let_def)
  qed (simp add: tx)
qed simp

section \<open>The invariant of a downstream\<close>

text \<open>
  The recorded missing positions are positions of the recorded states, without repetition,
  and every state that is still \<open>Missing\<close> is at one of them.
\<close>

definition jd_inv :: "('tx, 'id) jd_downstream \<Rightarrow> bool" where
  "jd_inv s \<longleftrightarrow>
     (\<forall>x\<in>set (missing_indexes s). unat x < length (tx_states s)) \<and>
     distinct (missing_indexes s) \<and>
     (\<forall>j<length (tx_states s). tx_states s ! j = Missing \<longrightarrow> j \<in> unat ` set (missing_indexes s))"

lemma provide_loop_missing:
  assumes "\<forall>x\<in>set missing. unat x < length states" and "j < length states"
    and "snd (provide_loop J msg missing i raws unknown states) ! j = Missing"
  shows "states ! j = Missing"
  using assms
proof (induction J msg missing i raws unknown states rule: provide_loop.induct)
  case (2 J msg missing i raw raws unknown states)
  show ?case
  proof (cases "decode_tx J raw")
    case (Inr tx)
    show ?thesis
    proof (cases "length missing \<le> i")
      case False
      let ?st = "states[unat (missing ! i) := PresentInMempool (compute_txid J tx)]"
      have idx: "\<not> length states \<le> unat (missing ! i)" by (rule nth_bound [OF "2.prems"(1) False])
      have "?st ! j = Missing"
        by (rule "2.IH" [OF Inr False refl idx]) (use "2.prems" Inr False idx in \<open>simp_all add: Let_def\<close>)
      then show ?thesis using "2.prems"(2) by (cases "j = unat (missing ! i)") simp_all
    qed (use 2 Inr in simp)
  qed (use 2 in simp)
qed simp

lemma provide_keeps_inv:
  assumes "jd_inv s"
  shows "jd_inv (snd (handle_provide_missing_transactions_success J msg s))"
proof -
  let ?out = "provide_loop J msg (missing_indexes s) 0 (pm_transactions msg) [] (tx_states s)"
  have b: "\<forall>x\<in>set (missing_indexes s). unat x < length (tx_states s)"
    using assms by (simp add: jd_inv_def)
  have "jd_inv (s\<lparr>tx_states := snd ?out\<rparr>)"
    using assms provide_loop_safe [OF b, of J msg 0 "pm_transactions msg" "[]"]
      provide_loop_missing [OF b, of _ J msg 0 "pm_transactions msg" "[]"]
    by (simp add: jd_inv_def)
  then have "jd_inv (s\<lparr>tx_states := snd ?out, unknown_transactions := u\<rparr>)" for u
    by (simp add: jd_inv_def)
  with \<open>jd_inv (s\<lparr>tx_states := snd ?out\<rparr>)\<close> assms show ?thesis
    by (cases "fst ?out")
      (auto simp: handle_provide_missing_transactions_success_def Let_def case_prod_unfold split: option.split sum.split)
qed

lemma declared_inv:
  assumes "length ids \<le> 65536"
  shows "jd_inv (s\<lparr>tx_states := declared_states m ids, missing_indexes := map of_nat (missing_positions m ids)\<rparr>)"
proof -
  let ?ms = "map of_nat (missing_positions m ids) :: u16 list"
  have u: "map unat ?ms = missing_positions m ids" by (rule unat_missing [OF assms])
  then have "distinct (map unat ?ms)" by (simp add: missing_positions_def)
  then have "distinct ?ms" unfolding distinct_map by (rule conjunct1)
  moreover have set: "unat ` set ?ms = set (missing_positions m ids)" using u by (metis set_map)
  moreover have "unat x < length ids" if "x \<in> set ?ms" for x
    using that set missing_positions_bound [of "unat x" m ids] by blast
  moreover have "j \<in> set (missing_positions m ids)" if "j < length ids" "declared_states m ids ! j = Missing" for j
    using that by (simp add: missing_positions_def declared_states_def split: if_splits)
  ultimately show ?thesis
    by (simp add: jd_inv_def declared_states_def)
qed

section \<open>Properties\<close>

text \<open>The mempool after the transactions of the replaced job have been released.\<close>

definition released :: "('tx, 'id) jd_lib \<Rightarrow> declare_mining_job \<Rightarrow> ('tx, 'id) jd_downstream \<Rightarrow> 'tx mempool \<Rightarrow> 'tx mempool" where
  "released J msg s m =
     (case declared_job s of
        None \<Rightarrow> m
      | Some old \<Rightarrow> clear_declared_mining_job J (dj_tx_ids old) (dj_tx_ids msg) m)"

lemma verify_known:
  assumes "dj_token msg = u32_to_le_bytes tok"
  shows "verify_job s msg = Ok (tok \<in> hm_keys (token_to_job_map s))"
proof -
  obtain b0 b1 b2 b3 where b: "u32_to_le_bytes tok = [b0, b1, b2, b3]"
    by (simp add: u32_to_le_bytes_def)
  then show ?thesis
    using assms u32_le_bytes_roundtrip [OF b] by (simp add: verify_job_def hm_contains_key_iff)
qed

lemma declare_eq:
  assumes "dj_token msg = u32_to_le_bytes tok" and "tok \<in> hm_keys (token_to_job_map s)"
    and "sign_token J (dj_token msg) = Inr sig"
  shows "handle_declare_mining_job J msg (s, m) =
    (Ok (Respond (if set (dj_tx_ids msg) \<subseteq> hm_keys (released J msg s m)
       then DeclareMiningJobSuccess (dj_request_id msg) sig
       else ProvideMissingTransactions (dj_request_id msg)
         (map of_nat (missing_positions (released J msg s m) (dj_tx_ids msg))))),
     s\<lparr>declared_job := Some msg, tx_states := declared_states (released J msg s m) (dj_tx_ids msg),
       missing_indexes := map of_nat (missing_positions (released J msg s m) (dj_tx_ids msg)),
       known_transactions := known_transactions s @
         filter (\<lambda>t. t \<in> hm_keys (released J msg s m)) (dj_tx_ids msg)\<rparr>,
     released J msg s m)"
  using assms verify_known [OF assms(1), of "s\<lparr>declared_job := None\<rparr>"]
  by (auto simp: handle_declare_mining_job_def Let_def declare_loop_start missing_positions_empty
      simp flip: released_def)

definition demo_jd :: "(nat, u32) jd_lib" where
  "demo_jd =
     \<lparr>compute_txid = (\<lambda>t. of_nat t), get_client = True, get_raw_transaction = (\<lambda>i. Inr (unat i)),
      get_raw_mempool = Inr [], txid_from_str = (\<lambda>s. Inr 0), submit_block = (\<lambda>b. Inr ()),
      decode_tx = (\<lambda>bs. case bs of [b] \<Rightarrow> Inr (unat b) | _ \<Rightarrow> Inl ''bad''),
      id_new = 0, id_next = (\<lambda>i. (i + 1, i + 1)), sign_token = Inr,
      block_hex = (\<lambda>job txs sol. ''block'')\<rparr>"

definition demo_declarer :: "(nat, u32) jd_downstream" where
  "demo_declarer = (jd_downstream_new demo_jd [])\<lparr>token_to_job_map := [(1, None)]\<rparr>"

definition demo_declaration :: declare_mining_job where
  "demo_declaration = \<lparr>dj_request_id = 4, dj_token = u32_to_le_bytes 1, dj_tx_ids = [5, 6], dj_payload = []\<rparr>"

lemma demo_declarer_simps [simp]:
  "hm_keys (token_to_job_map demo_declarer) = {1}" "declared_job demo_declarer = None"
  "known_transactions demo_declarer = []" "sign_token demo_jd = Inr"
  "dj_request_id demo_declaration = 4" "dj_token demo_declaration = u32_to_le_bytes 1"
  "dj_tx_ids demo_declaration = [5, 6]"
  by (simp_all add: demo_declarer_def jd_downstream_new_def demo_jd_def hm_keys_def demo_declaration_def)

text \<open>
  C36. A job declared with an allocated token is answered with success exactly when the
  mempool, after the release of the previous job, knows all of its transactions, and otherwise
  with the positions of the unknown ones, in order and none truncated for a job of at most
  65536 transactions; the job, the state of each transaction and the positions are recorded
  and the known transactions queued for retrieval.
\<close>

theorem declare_mining_job_response:
  assumes "dj_token msg = u32_to_le_bytes tok" and "tok \<in> hm_keys (token_to_job_map s)"
    and "sign_token J (dj_token msg) = Inr sig" and "length (dj_tx_ids msg) \<le> 65536"
  shows "\<exists>s' positions. handle_declare_mining_job J msg (s, m) =
      (Ok (Respond (if set (dj_tx_ids msg) \<subseteq> hm_keys (released J msg s m)
         then DeclareMiningJobSuccess (dj_request_id msg) sig
         else ProvideMissingTransactions (dj_request_id msg) positions)), s', released J msg s m) \<and>
    map unat positions =
      filter (\<lambda>j. dj_tx_ids msg ! j \<notin> hm_keys (released J msg s m)) [0..<length (dj_tx_ids msg)] \<and>
    declared_job s' = Some msg \<and> missing_indexes s' = positions \<and>
    tx_states s' = map (\<lambda>t. if t \<in> hm_keys (released J msg s m) then PresentInMempool t else Missing) (dj_tx_ids msg) \<and>
    known_transactions s' = known_transactions s @
      filter (\<lambda>t. t \<in> hm_keys (released J msg s m)) (dj_tx_ids msg)"
  unfolding declare_eq [OF assms(1-3)]
  using unat_missing [OF assms(4), of "released J msg s m"]
  by (auto simp: declared_states_def missing_positions_def)

theorem declare_mining_job_response_witness:
  "fst (handle_declare_mining_job demo_jd demo_declaration (demo_declarer, [(5, None)])) =
     Ok (Respond (ProvideMissingTransactions 4 [1]))"
proof -
  have r: "released demo_jd demo_declaration demo_declarer [(5, None)] = [(5, None)]"
    by (simp add: released_def)
  have k: "hm_keys [(5 :: txid, None :: (nat \<times> u32) option)] = {5}" by (simp add: hm_keys_def)
  obtain positions where p: "fst (handle_declare_mining_job demo_jd demo_declaration (demo_declarer, [(5, None)])) =
      Ok (Respond (ProvideMissingTransactions 4 positions))" and "map unat positions = [1]"
    using declare_mining_job_response [of demo_declaration 1 demo_declarer demo_jd "u32_to_le_bytes 1" "[(5, None)]"]
    by (auto simp: r k upt_rec)
  then have "positions = [1]"
    by (auto simp: map_eq_Cons_conv word_unat_eq_iff)
  then show ?thesis using p by simp
qed

text \<open>
  A token that was never allocated is refused with an error message and the previous job
  is dropped; a token that is not four bytes long panics the downstream's task.
\<close>

theorem declare_mining_job_bad_token:
  "(\<forall>tok. dj_token msg = u32_to_le_bytes tok \<and> tok \<notin> hm_keys (token_to_job_map s) \<longrightarrow>
      handle_declare_mining_job J msg (s, m) =
        (Ok (Respond (DeclareMiningJobError (dj_request_id msg))), s\<lparr>declared_job := None\<rparr>, released J msg s m)) \<and>
   (length (dj_token msg) \<noteq> 4 \<longrightarrow> (\<exists>p. fst (handle_declare_mining_job J msg (s, m)) = Panic p))"
proof (intro conjI allI impI)
  fix tok
  assume "dj_token msg = u32_to_le_bytes tok \<and> tok \<notin> hm_keys (token_to_job_map s)"
  then show "handle_declare_mining_job J msg (s, m) =
        (Ok (Respond (DeclareMiningJobError (dj_request_id msg))), s\<lparr>declared_job := None\<rparr>, released J msg s m)"
    using verify_known [of msg tok "s\<lparr>declared_job := None\<rparr>"]
    by (simp add: handle_declare_mining_job_def Let_def flip: released_def)
next
  assume "length (dj_token msg) \<noteq> 4"
  then show "\<exists>p. fst (handle_declare_mining_job J msg (s, m)) = Panic p"
    by (auto simp: handle_declare_mining_job_def Let_def verify_job_def split: list.split)
qed

theorem declare_mining_job_bad_token_witness:
  "\<exists>p. fst (handle_declare_mining_job demo_jd (demo_declaration\<lparr>dj_token := [1]\<rparr>) (demo_declarer, [])) = Panic p"
  using declare_mining_job_bad_token [of "demo_declaration\<lparr>dj_token := [1]\<rparr>" demo_declarer demo_jd "[]"]
  by simp

lemma declare_state:
  "fst (snd (handle_declare_mining_job J msg (s, m))) =
     (if verify_job (s\<lparr>declared_job := None\<rparr>) msg = Ok True
      then s\<lparr>declared_job := Some msg, tx_states := declared_states (released J msg s m) (dj_tx_ids msg),
        missing_indexes := map of_nat (missing_positions (released J msg s m) (dj_tx_ids msg)),
        known_transactions := known_transactions s @
          filter (\<lambda>t. t \<in> hm_keys (released J msg s m)) (dj_tx_ids msg)\<rparr>
      else s\<lparr>declared_job := None\<rparr>)"
  unfolding handle_declare_mining_job_def released_def [symmetric] Let_def prod.case declare_loop_start
  by (cases "verify_job (s\<lparr>declared_job := None\<rparr>) msg") (auto split: sum.split)

lemma declare_keeps_inv:
  assumes "jd_inv s" and "length (dj_tx_ids msg) \<le> 65536"
  shows "jd_inv (fst (snd (handle_declare_mining_job J msg (s, m))))"
  using assms(1) declared_inv [OF assms(2), of "released J msg s m" s]
  by (simp add: declare_state jd_inv_def)

text \<open>
  C37. The bookkeeping of missing transactions is sound: every handler keeps the invariant
  that the recorded positions are distinct positions of the declared job and cover all that is
  missing, and the exchange of missing transactions never indexes out of bounds, whatever the
  client sends.
\<close>

theorem jd_invariant_and_no_panic:
  assumes "jd_inv s" and "length (dj_tx_ids dm) \<le> 65536"
  shows "jd_inv (jd_downstream_new J output) \<and>
    jd_inv (snd (handle_allocate_mining_job_token J rid s)) \<and>
    jd_inv (fst (snd (handle_declare_mining_job J dm (s, m)))) \<and>
    jd_inv (snd (handle_provide_missing_transactions_success J pm s)) \<and>
    (\<nexists>p. fst (handle_provide_missing_transactions_success J pm s) = Panic p)"
proof -
  let ?out = "provide_loop J pm (missing_indexes s) 0 (pm_transactions pm) [] (tx_states s)"
  have "\<forall>x\<in>set (missing_indexes s). unat x < length (tx_states s)"
    using assms(1) by (simp add: jd_inv_def)
  from provide_loop_safe [OF this, of J pm 0 "pm_transactions pm" "[]"]
  have "\<nexists>p. fst (handle_provide_missing_transactions_success J pm s) = Panic p"
    by (cases "fst ?out")
      (auto simp: handle_provide_missing_transactions_success_def Let_def case_prod_unfold split: option.split sum.split)
  moreover have "jd_inv (snd (handle_allocate_mining_job_token J rid s))"
    using assms(1) by (simp add: handle_allocate_mining_job_token_def jd_inv_def case_prod_unfold)
  ultimately show ?thesis
    using declare_keeps_inv [OF assms] provide_keeps_inv [OF assms(1)]
    by (simp add: jd_downstream_new_def jd_inv_def)
qed

theorem jd_invariant_and_no_panic_witness:
  "jd_inv (fst (snd (handle_declare_mining_job demo_jd demo_declaration (demo_declarer, [(5, None)]))))"
proof -
  have "jd_inv demo_declarer"
    by (simp add: demo_declarer_def jd_downstream_new_def jd_inv_def)
  from jd_invariant_and_no_panic [OF this, of demo_declaration demo_jd] show ?thesis by simp
qed

lemma provide_eq:
  assumes "declared_job s = Some job" and "dj_request_id job = pm_request_id msg" and inv: "jd_inv s"
    and "map (decode_tx J) (pm_transactions msg) = map Inr txs" and "length txs = length (missing_indexes s)"
    and "sign_token J (dj_token job) = Inr sig"
  shows "handle_provide_missing_transactions_success J msg s =
    (Ok (Respond (DeclareMiningJobSuccess (pm_request_id msg) sig)),
     s\<lparr>tx_states := fill (zip (map unat (missing_indexes s)) (map (compute_txid J) txs)) (tx_states s),
       unknown_transactions := unknown_transactions s @ txs\<rparr>)"
    and "Missing \<notin> set (fill (zip (map unat (missing_indexes s)) (map (compute_txid J) txs)) (tx_states s))"
proof -
  let ?ps = "zip (map unat (missing_indexes s)) (map (compute_txid J) txs)"
  have b: "\<forall>x\<in>set (missing_indexes s). unat x < length (tx_states s)" and d: "distinct (missing_indexes s)"
    and c: "\<And>j. j < length (tx_states s) \<Longrightarrow> tx_states s ! j = Missing \<Longrightarrow> j \<in> unat ` set (missing_indexes s)"
    using inv by (auto simp: jd_inv_def)
  have "length (pm_transactions msg) = length txs"
    using assms(4) by (metis length_map)
  then have loop: "provide_loop J msg (missing_indexes s) 0 (pm_transactions msg) [] (tx_states s) =
      (Ok txs, fill ?ps (tx_states s))"
    using provide_loop_eq [OF b assms(4), of 0 msg "[]"] assms(5) by simp
  have fsts: "map fst ?ps = map unat (missing_indexes s)"
    using assms(5) by simp
  have dps: "distinct (map fst ?ps)"
    unfolding fsts using d by (simp add: distinct_map inj_on_def word_unat_eq_iff)
  show no: "Missing \<notin> set (fill ?ps (tx_states s))"
  proof
    assume "Missing \<in> set (fill ?ps (tx_states s))"
    then obtain j where j: "j < length (tx_states s)" "fill ?ps (tx_states s) ! j = Missing"
      by (auto simp: in_set_conv_nth)
    show False
    proof (cases "j \<in> fst ` set ?ps")
      case True
      then obtain t where "(j, t) \<in> set ?ps" by auto
      then show False using fill_at [OF dps _ j(1)] j(2) by simp
    next
      case False
      then have "tx_states s ! j = Missing" using fill_other j(2) by metis
      then have "j \<in> set (map fst ?ps)" using c [OF j(1)] unfolding fsts by simp
      then show False using False by simp
    qed
  qed
  show "handle_provide_missing_transactions_success J msg s =
    (Ok (Respond (DeclareMiningJobSuccess (pm_request_id msg) sig)),
     s\<lparr>tx_states := fill ?ps (tx_states s), unknown_transactions := unknown_transactions s @ txs\<rparr>)"
    using assms(1,2,6) loop no by (simp add: handle_provide_missing_transactions_success_def)
qed

section \<open>From declaration to block\<close>

lemma add_known_keeps:
  "full_tx m i = Some t \<Longrightarrow> full_tx (snd (add_known N is m)) i = Some t"
  by (induction N "is" m rule: add_known.induct)
    (auto simp: jds_store.add_keeps split: option.splits sum.splits)

lemma insert_fat_keys: "hm_keys (insert_fat i t m) = insert i (hm_keys m)"
  by (simp add: insert_fat_def split: option.split)

lemma add_known_full:
  assumes "\<forall>i\<in>set is. \<exists>t. get_raw_transaction N i = Inr t \<and> compute_txid N t = i"
    and "set is \<subseteq> hm_keys m"
  shows "fst (add_known N is m) = Ok () \<and> (\<forall>i\<in>set is. full_tx (snd (add_known N is m)) i \<noteq> None)"
  using assms
proof (induction "is" arbitrary: m)
  case (Cons i "is")
  obtain t where t: "get_raw_transaction N i = Inr t" "compute_txid N t = i" using Cons.prems(1) by auto
  obtain e where e: "hm_get m i = Some e" using Cons.prems(2) by (auto simp: hm.keys_get)
  show ?case
  proof (cases e)
    case None
    let ?m = "insert_fat i t m"
    have "fst (add_known N is ?m) = Ok () \<and> (\<forall>j\<in>set is. full_tx (snd (add_known N is ?m)) j \<noteq> None)"
      using Cons.IH [of ?m] Cons.prems by (auto simp: insert_fat_keys)
    moreover have "full_tx ?m i = Some t" using e None by (simp add: insert_fat_def full_tx_def)
    then have "full_tx (snd (add_known N is ?m)) i = Some t" by (rule add_known_keeps)
    ultimately show ?thesis using e None t by simp
  next
    case (Some tc)
    obtain t0 c where tc: "tc = (t0, c)" by (cases tc)
    have "fst (add_known N is m) = Ok () \<and> (\<forall>j\<in>set is. full_tx (snd (add_known N is m)) j \<noteq> None)"
      using Cons.IH [of m] Cons.prems by auto
    moreover have "full_tx m i = Some t0" using e Some tc by (simp add: full_tx_def)
    then have "full_tx (snd (add_known N is m)) i = Some t0" by (rule add_known_keeps)
    ultimately show ?thesis using e Some tc by simp
  qed
qed simp

lemma collect_those:
  "collect_txs m (map PresentInMempool ids) = Ok txs \<longleftrightarrow> those (map (full_tx m) ids) = Some txs"
  by (induction ids arbitrary: txs)
    (auto simp: full_tx_def map_res_Ok split: option.splits)

lemma those_all: "\<forall>x\<in>set xs. f x \<noteq> None \<Longrightarrow> \<exists>ys. those (map f xs) = Some ys"
  by (induction xs) auto

lemma fill_declared:
  assumes "length ids \<le> 65536"
    and "map (\<lambda>j. ids ! j) (missing_positions m ids) = map f txs"
  shows "fill (zip (map unat (map of_nat (missing_positions m ids) :: u16 list)) (map f txs)) (declared_states m ids) =
    map PresentInMempool ids"
proof (rule nth_equalityI)
  let ?ps = "zip (missing_positions m ids) (map f txs)"
  show "length (fill (zip (map unat (map of_nat (missing_positions m ids) :: u16 list)) (map f txs))
      (declared_states m ids)) = length (map PresentInMempool ids)"
    by (simp add: declared_states_def)
  fix j
  assume "j < length (fill (zip (map unat (map of_nat (missing_positions m ids) :: u16 list)) (map f txs))
      (declared_states m ids))"
  then have j: "j < length ids" by (simp add: declared_states_def)
  have ps: "?ps = map (\<lambda>j. (j, ids ! j)) (missing_positions m ids)"
    unfolding assms(2) [symmetric] by (simp add: zip_map2 zip_same_conv_map)
  have "fill ?ps (declared_states m ids) ! j = PresentInMempool (ids ! j)"
  proof (cases "ids ! j \<in> hm_keys m")
    case True
    then have "j \<notin> fst ` set ?ps" unfolding ps by (auto simp: missing_positions_def)
    then show ?thesis using True j by (simp add: fill_other declared_states_def)
  next
    case False
    show ?thesis
    proof (rule fill_at)
      show "distinct (map fst ?ps)" unfolding ps by (simp add: comp_def missing_positions_def)
      show "(j, ids ! j) \<in> set ?ps" unfolding ps using False j by (simp add: missing_positions_def)
      show "j < length (declared_states m ids)" using j by (simp add: declared_states_def)
    qed
  qed
  then show "fill (zip (map unat (map of_nat (missing_positions m ids) :: u16 list)) (map f txs))
      (declared_states m ids) ! j = map PresentInMempool ids ! j"
    using j by (simp only: unat_missing [OF assms(1)]) simp
qed

text \<open>
  Providing the missing transactions. When as many transactions as were asked for arrive
  and decode, the declaration succeeds: each takes the position it was asked for, under its
  own identifier, all other positions keep their state, nothing is missing any more, and the
  transactions are queued for the mempool.
\<close>

theorem provide_completes_declaration:
  assumes "declared_job s = Some job" and "dj_request_id job = pm_request_id msg" and "jd_inv s"
    and "map (decode_tx J) (pm_transactions msg) = map Inr txs" and "length txs = length (missing_indexes s)"
    and "sign_token J (dj_token job) = Inr sig"
  shows "\<exists>s'. handle_provide_missing_transactions_success J msg s =
      (Ok (Respond (DeclareMiningJobSuccess (pm_request_id msg) sig)), s') \<and>
    Missing \<notin> set (tx_states s') \<and> length (tx_states s') = length (tx_states s) \<and>
    (\<forall>k<length txs. tx_states s' ! unat (missing_indexes s ! k) = PresentInMempool (compute_txid J (txs ! k))) \<and>
    (\<forall>j. j \<notin> unat ` set (missing_indexes s) \<longrightarrow> tx_states s' ! j = tx_states s ! j) \<and>
    unknown_transactions s' = unknown_transactions s @ txs"
proof -
  let ?ps = "zip (map unat (missing_indexes s)) (map (compute_txid J) txs)"
  have b: "\<forall>x\<in>set (missing_indexes s). unat x < length (tx_states s)" and d: "distinct (missing_indexes s)"
    using assms(3) by (auto simp: jd_inv_def)
  have fsts: "map fst ?ps = map unat (missing_indexes s)" using assms(5) by simp
  have dps: "distinct (map fst ?ps)"
    unfolding fsts using d by (simp add: distinct_map inj_on_def word_unat_eq_iff)
  have "fill ?ps (tx_states s) ! unat (missing_indexes s ! k) = PresentInMempool (compute_txid J (txs ! k))"
    if "k < length txs" for k
  proof (rule fill_at [OF dps])
    show "(unat (missing_indexes s ! k), compute_txid J (txs ! k)) \<in> set ?ps"
      using that assms(5) by (auto simp: in_set_zip intro!: exI [of _ k])
    show "unat (missing_indexes s ! k) < length (tx_states s)"
      using b that assms(5) by simp
  qed
  moreover have "fill ?ps (tx_states s) ! j = tx_states s ! j" if "j \<notin> unat ` set (missing_indexes s)" for j
  proof (rule fill_other)
    show "j \<notin> fst ` set ?ps" using that fsts by (metis list.set_map)
  qed
  ultimately show ?thesis
    using provide_eq [OF assms] by auto
qed

theorem provide_completes_declaration_witness:
  "tx_states (snd (handle_provide_missing_transactions_success demo_jd
     \<lparr>pm_request_id = 4, pm_transactions = [[6]]\<rparr>
     (demo_declarer\<lparr>declared_job := Some demo_declaration, tx_states := [PresentInMempool 5, Missing],
        missing_indexes := [1]\<rparr>))) ! 1 = PresentInMempool 6"
proof -
  let ?s = "demo_declarer\<lparr>declared_job := Some demo_declaration, tx_states := [PresentInMempool 5, Missing],
        missing_indexes := [1]\<rparr>"
  have "jd_inv ?s" by (auto simp: jd_inv_def less_Suc_eq)
  moreover have "map (decode_tx demo_jd) [[6]] = map Inr [6]" "compute_txid demo_jd 6 = 6"
    by (simp_all add: demo_jd_def)
  ultimately show ?thesis
    using provide_completes_declaration [of ?s demo_declaration "\<lparr>pm_request_id = 4, pm_transactions = [[6]]\<rparr>"
        demo_jd "[6]" "u32_to_le_bytes 1"]
    by auto
qed

text \<open>
  A late answer is ignored and a wrong count is an error: transactions for another
  request change nothing; more transactions than were asked for are rejected, and fewer,
  while the asked positions are still missing, are rejected as missing.
\<close>

theorem provide_wrong_count:
  assumes "declared_job s = Some job" and inv: "jd_inv s"
    and dec: "map (decode_tx J) (pm_transactions msg) = map Inr txs"
  shows "if dj_request_id job \<noteq> pm_request_id msg
    then handle_provide_missing_transactions_success J msg s = (Ok (SendNone None), s)
    else (length (missing_indexes s) < length txs \<longrightarrow>
        fst (handle_provide_missing_transactions_success J msg s) = Err (LogicErrorMessage msg)) \<and>
      (length txs < length (missing_indexes s) \<longrightarrow> (\<forall>x\<in>set (missing_indexes s). tx_states s ! unat x = Missing) \<longrightarrow>
        fst (handle_provide_missing_transactions_success J msg s) = Err JDSMissingTransactions)"
proof (cases "dj_request_id job = pm_request_id msg")
  case False
  then show ?thesis using assms(1) by (simp add: handle_provide_missing_transactions_success_def)
next
  case True
  let ?out = "provide_loop J msg (missing_indexes s) 0 (pm_transactions msg) [] (tx_states s)"
  have b: "\<forall>x\<in>set (missing_indexes s). unat x < length (tx_states s)" and d: "distinct (missing_indexes s)"
    using inv by (auto simp: jd_inv_def)
  have len: "length (pm_transactions msg) = length txs" using dec by (metis length_map)
  have "\<exists>tx. decode_tx J raw = Inr tx" if "raw \<in> set (pm_transactions msg)" for raw
  proof -
    have "decode_tx J raw \<in> set (map Inr txs)" unfolding dec [symmetric] using that by simp
    then show ?thesis by auto
  qed
  then have many: "fst ?out = Err (LogicErrorMessage msg)" if "length (missing_indexes s) < length txs"
    using provide_loop_too_many [OF b, of "pm_transactions msg" J 0 msg "[]"] that len by simp
  have few: "Missing \<in> set (snd ?out) \<and> fst ?out = Ok txs"
    if l: "length txs < length (missing_indexes s)" and m: "\<forall>x\<in>set (missing_indexes s). tx_states s ! unat x = Missing"
  proof -
    let ?ps = "zip (map unat (missing_indexes s)) (map (compute_txid J) txs)" and ?x = "missing_indexes s ! length txs"
    have out: "?out = (Ok txs, fill ?ps (tx_states s))"
      using provide_loop_eq [OF b dec, of 0 msg "[]"] l len by simp
    have "unat ?x \<notin> fst ` set ?ps"
      using d l by (auto simp: in_set_zip nth_eq_iff_index_eq word_unat_eq_iff [symmetric])
    then have "fill ?ps (tx_states s) ! unat ?x = Missing"
      using m l by (simp add: fill_other)
    then have "Missing \<in> set (fill ?ps (tx_states s))"
      using b l by (metis length_fill nth_mem)
    then show ?thesis using out by simp
  qed
  show ?thesis
    using True many few assms(1)
    by (cases ?out) (auto simp: handle_provide_missing_transactions_success_def)
qed

theorem provide_wrong_count_witness:
  "fst (handle_provide_missing_transactions_success demo_jd \<lparr>pm_request_id = 4, pm_transactions = []\<rparr>
     (demo_declarer\<lparr>declared_job := Some demo_declaration, tx_states := [PresentInMempool 5, Missing],
        missing_indexes := [1]\<rparr>)) = Err JDSMissingTransactions"
proof -
  let ?s = "demo_declarer\<lparr>declared_job := Some demo_declaration, tx_states := [PresentInMempool 5, Missing],
        missing_indexes := [1]\<rparr>"
  have "jd_inv ?s" by (auto simp: jd_inv_def less_Suc_eq)
  then show ?thesis
    using provide_wrong_count [of ?s demo_declaration demo_jd "\<lparr>pm_request_id = 4, pm_transactions = []\<rparr>" "[]"]
    by simp
qed

end
