(* ===== verification/Jds_Protocol.thy ===== *)
theory Jds_Protocol
  imports Jds_Declarator
begin

text \<open>
  The job declaration protocol from a declaration to a block: the downstream's handlers, the
  response hook of its loop and the task that adds transaction data to the mempool
  (\<open>jd-server\<close>, \<open>lib/mod.rs\<close>), composed in the order in which the server runs them for one
  client.
\<close>

text \<open>The task that receives the transactions a downstream sends: errors are only logged.\<close>

definition mempool_task ::
  "('tx, 'z) node_scheme \<Rightarrow> (txid list \<times> 'tx list) option \<Rightarrow> 'tx mempool \<Rightarrow> 'tx mempool" where
  "mempool_task N sent m =
     (case sent of
        None \<Rightarrow> m
      | Some (known, unknown) \<Rightarrow> snd (add_tx_data_to_mempool N known unknown m))"

text \<open>
  One message of the client: its handler, the hook before the response and the mempool task.
\<close>

definition respond ::
  "('tx, 'id) jd_lib \<Rightarrow> send_to \<Rightarrow> ('tx, 'id) jd_downstream \<times> 'tx mempool \<Rightarrow>
     ('tx, 'id) jd_downstream \<times> 'tx mempool" where
  "respond J r sm =
     (case after_response r (fst sm) of (sent, s) \<Rightarrow> (s, mempool_task J sent (snd sm)))"

text \<open>
  A declaration and, when the server asks for transactions, the client's answer \<open>pm\<close>;
  \<open>None\<close> when a handler fails.
\<close>

definition declare_session ::
  "('tx, 'id) jd_lib \<Rightarrow> declare_mining_job \<Rightarrow> provide_missing_transactions_success \<Rightarrow>
     ('tx, 'id) jd_downstream \<times> 'tx mempool \<Rightarrow>
     (send_to \<times> ('tx, 'id) jd_downstream \<times> 'tx mempool) option" where
  "declare_session J msg pm sm =
     (case handle_declare_mining_job J msg sm of
        (Ok r1, s1, m1) \<Rightarrow>
          (case respond J r1 (s1, m1) of (s2, m2) \<Rightarrow>
            (case r1 of
               Respond (ProvideMissingTransactions rid idx) \<Rightarrow>
                 (case handle_provide_missing_transactions_success J pm s2 of
                    (Ok r2, s3) \<Rightarrow> Some (r2, respond J r2 (s3, m2))
                  | _ \<Rightarrow> None)
             | _ \<Rightarrow> Some (r1, s2, m2)))
      | _ \<Rightarrow> None)"

section \<open>All transactions of a completed declaration are present in full\<close>

lemma add_tx_data_eq:
  assumes "get_client N" and "\<forall>i\<in>set is. \<exists>t. get_raw_transaction N i = Inr t \<and> compute_txid N t = i"
    and "set is \<subseteq> hm_keys m"
  shows "snd (add_tx_data_to_mempool N is txs m) =
    fold (\<lambda>t. insert_fat (compute_txid N t) t) txs (snd (add_known N is m))"
  using assms(1) add_known_full [OF assms(2,3)]
  by (cases "add_known N is m") (simp add: add_tx_data_to_mempool_def add_unknown_def)

lemma push_solution_block:
  assumes "mempool_wf J m" and "tx_states s = map PresentInMempool ids" and "declared_job s = Some job"
    and "\<forall>i\<in>set ids. full_tx m i \<noteq> None"
  shows "\<exists>txs. map (compute_txid J) txs = ids \<and>
    on_push_solution J timely sol s m = (BlockSent (block_hex J job txs sol), m)"
proof -
  obtain txs where txs: "those (map (full_tx m) ids) = Some txs"
    using those_all [OF assms(4)] by blast
  then have "collect_txs_in_job s m = Ok txs"
    using assms(2) by (simp add: collect_txs_in_job_def collect_those)
  then show ?thesis
    using jds_store.lookup_all [OF assms(1) txs] assms(3)
    by (intro exI [of _ txs]) (simp add: on_push_solution_def get_block_hex_def)
qed

lemma released_wf: "mempool_wf J m \<Longrightarrow> mempool_wf J (released J msg s m)"
  by (simp add: released_def clear_wf split: option.split)

text \<open>
  What the client and the node must do: the node still has the transactions the mempool
  knows, and the client answers the request with the transactions asked for.
\<close>

definition honest_node :: "('tx, 'z) node_scheme \<Rightarrow> txid list \<Rightarrow> 'tx mempool \<Rightarrow> bool" where
  "honest_node N ids m \<longleftrightarrow>
     get_client N \<and>
     (\<forall>i\<in>set ids. i \<in> hm_keys m \<longrightarrow> (\<exists>t. get_raw_transaction N i = Inr t \<and> compute_txid N t = i))"

definition honest_answer ::
  "('tx, 'id) jd_lib \<Rightarrow> declare_mining_job \<Rightarrow> provide_missing_transactions_success \<Rightarrow> 'tx mempool \<Rightarrow>
     bool" where
  "honest_answer J msg pm m \<longleftrightarrow>
     pm_request_id pm = dj_request_id msg \<and>
     (\<exists>txs. map (decode_tx J) (pm_transactions pm) = map Inr txs \<and>
        map (compute_txid J) txs = map (\<lambda>j. dj_tx_ids msg ! j) (missing_positions m (dj_tx_ids msg)))"

lemma full_after_session:
  fixes J :: "('tx, 'id) jd_lib"
  assumes "honest_node J ids m"
    and "map (compute_txid J) txs = map (\<lambda>j. ids ! j) (missing_positions m ids)" and "i \<in> set ids"
  shows "full_tx (fold (\<lambda>t. insert_fat (compute_txid J t) t) txs
    (snd (add_known J (filter (\<lambda>t. t \<in> hm_keys m) ids) m))) i \<noteq> None"
proof (cases "i \<in> hm_keys m")
  case True
  let ?known = "filter (\<lambda>t. t \<in> hm_keys m) ids"
  have "\<forall>i\<in>set ?known. \<exists>t. get_raw_transaction J i = Inr t \<and> compute_txid J t = i"
    using assms(1) by (simp add: honest_node_def)
  moreover have "set ?known \<subseteq> hm_keys m" by auto
  ultimately have "full_tx (snd (add_known J ?known m)) i \<noteq> None"
    using add_known_full [of ?known J m] True assms(3) by simp
  then obtain t where "full_tx (snd (add_known J ?known m)) i = Some t" by blast
  then show ?thesis by (simp add: jds_store.add_all_keeps)
next
  case False
  obtain j where j: "j < length ids" "ids ! j = i"
    using assms(3) by (auto simp: in_set_conv_nth)
  have "i \<in> set (map (\<lambda>j. ids ! j) (missing_positions m ids))"
    using j False by (auto simp: missing_positions_def intro!: image_eqI [of _ _ j])
  then have "i \<in> set (map (compute_txid J) txs)" unfolding assms(2) .
  then obtain t where "t \<in> set txs" "compute_txid J t = i" by auto
  then show ?thesis using jds_store.add_all_present [of t txs] by fastforce
qed

text \<open>The session in both cases, with the mempool it leaves.\<close>

lemma declare_session_ok:
  fixes J :: "('tx, 'id) jd_lib"
  assumes "dj_token msg = u32_to_le_bytes tok" and "tok \<in> hm_keys (token_to_job_map s)"
    and "sign_token J (dj_token msg) = Inr sig" and "length (dj_tx_ids msg) \<le> 65536"
    and empty: "known_transactions s = []" "unknown_transactions s = []"
    and node: "honest_node J (dj_tx_ids msg) (released J msg s m)"
    and pm: "pm_request_id pm = dj_request_id msg"
    and dec: "map (decode_tx J) (pm_transactions pm) = map Inr txs"
    and ids: "map (compute_txid J) txs =
      map (\<lambda>j. dj_tx_ids msg ! j) (missing_positions (released J msg s m) (dj_tx_ids msg))"
  shows "\<exists>s'. declare_session J msg pm (s, m) =
      Some (Respond (DeclareMiningJobSuccess (dj_request_id msg) sig), s',
        fold (\<lambda>t. insert_fat (compute_txid J t) t) txs
          (snd (add_known J (filter (\<lambda>t. t \<in> hm_keys (released J msg s m)) (dj_tx_ids msg)) (released J msg s m)))) \<and>
    tx_states s' = map PresentInMempool (dj_tx_ids msg) \<and> declared_job s' = Some msg \<and>
    known_transactions s' = [] \<and> unknown_transactions s' = []"
proof -
  let ?m = "released J msg s m"
  let ?known = "filter (\<lambda>t. t \<in> hm_keys ?m) (dj_tx_ids msg)"
  let ?missing = "missing_positions ?m (dj_tx_ids msg)"
  let ?s1 = "s\<lparr>declared_job := Some msg, tx_states := declared_states ?m (dj_tx_ids msg),
      missing_indexes := map of_nat ?missing, known_transactions := [], unknown_transactions := []\<rparr>"
  have client: "get_client J" using node by (simp add: honest_node_def)
  have data: "snd (add_tx_data_to_mempool J ?known [] ?m) = snd (add_known J ?known ?m)"
    by (subst add_tx_data_eq) (use node in \<open>auto simp: honest_node_def\<close>)
  have inv: "jd_inv ?s1"
    using declared_inv [where s = s and m = ?m, OF assms(4)] by (simp add: jd_inv_def)
  have len: "length txs = length ?missing" using ids by (metis length_map)
  show ?thesis
  proof (cases "set (dj_tx_ids msg) \<subseteq> hm_keys ?m")
    case True
    then have none: "?missing = []" by (simp add: missing_positions_empty)
    then have "txs = []" using len by simp
    moreover have "declared_states ?m (dj_tx_ids msg) = map PresentInMempool (dj_tx_ids msg)"
      using True by (auto simp: declared_states_def)
    ultimately show ?thesis
      using True none data empty
      by (simp add: declare_session_def declare_eq [OF assms(1-3)] respond_def after_response_def
          send_txs_to_mempool_def mempool_task_def)
  next
    case False
    have provide: "handle_provide_missing_transactions_success J pm ?s1 =
        (Ok (Respond (DeclareMiningJobSuccess (pm_request_id pm) sig)),
         ?s1\<lparr>tx_states := fill (zip (map unat (missing_indexes ?s1)) (map (compute_txid J) txs)) (tx_states ?s1),
           unknown_transactions := unknown_transactions ?s1 @ txs\<rparr>)"
      by (rule provide_eq(1) [OF _ _ inv dec, of msg]) (use pm assms(3) len in simp_all)
    have filled: "fill (zip (map unat (map of_nat ?missing :: u16 list)) (map (compute_txid J) txs))
        (declared_states ?m (dj_tx_ids msg)) = map PresentInMempool (dj_tx_ids msg)"
      by (rule fill_declared [OF assms(4) ids [symmetric]])
    have data2: "snd (add_tx_data_to_mempool J [] txs m') = fold (\<lambda>t. insert_fat (compute_txid J t) t) txs m'" for m'
      by (subst add_tx_data_eq) (use client in simp_all)
    show ?thesis
      using False data data2 empty provide filled pm
      by (simp add: declare_session_def declare_eq [OF assms(1-3)] respond_def after_response_def
          send_txs_to_mempool_def mempool_task_def del: map_map)
  qed
qed

text \<open>
  From declaration to block. A client declares a job of at most 65536 transactions with
  an allocated token and answers a request for missing transactions with the ones asked for;
  the node still has the transactions the mempool knows. Then the declaration succeeds and a
  solution of that job is turned into a block: the transactions are found, they are the
  declared ones in the declared order, and the block is sent to the submission queue without
  any further request to the node.
\<close>

theorem declared_job_gives_block:
  assumes "mempool_wf J m"
    and "dj_token msg = u32_to_le_bytes tok" and "tok \<in> hm_keys (token_to_job_map s)"
    and "sign_token J (dj_token msg) = Inr sig" and "length (dj_tx_ids msg) \<le> 65536"
    and "known_transactions s = []" and "unknown_transactions s = []"
    and "honest_node J (dj_tx_ids msg) (released J msg s m)"
    and "honest_answer J msg pm (released J msg s m)"
  shows "\<exists>s' m' txs. declare_session J msg pm (s, m) =
      Some (Respond (DeclareMiningJobSuccess (dj_request_id msg) sig), s', m') \<and>
    map (compute_txid J) txs = dj_tx_ids msg \<and>
    on_push_solution J timely sol s' m' = (BlockSent (block_hex J msg txs sol), m')"
proof -
  obtain provided where p: "map (decode_tx J) (pm_transactions pm) = map Inr provided"
      "map (compute_txid J) provided =
        map (\<lambda>j. dj_tx_ids msg ! j) (missing_positions (released J msg s m) (dj_tx_ids msg))"
    and rid: "pm_request_id pm = dj_request_id msg"
    using assms(9) by (auto simp: honest_answer_def)
  let ?m' = "fold (\<lambda>t. insert_fat (compute_txid J t) t) provided
    (snd (add_known J (filter (\<lambda>t. t \<in> hm_keys (released J msg s m)) (dj_tx_ids msg)) (released J msg s m)))"
  obtain s' where s': "declare_session J msg pm (s, m) =
        Some (Respond (DeclareMiningJobSuccess (dj_request_id msg) sig), s', ?m')"
      "tx_states s' = map PresentInMempool (dj_tx_ids msg)" "declared_job s' = Some msg"
    using declare_session_ok [OF assms(2-8) rid p] by blast
  have "mempool_wf J ?m'"
    by (intro jds_store.add_all_wf add_known_wf released_wf assms(1))
  moreover have "\<forall>i\<in>set (dj_tx_ids msg). full_tx ?m' i \<noteq> None"
    using full_after_session [OF assms(8) p(2)] by blast
  ultimately show ?thesis
    using push_solution_block [OF _ s'(2,3)] s'(1) by blast
qed

theorem declared_job_gives_block_witness:
  "\<exists>s' m' txs. declare_session demo_jd demo_declaration \<lparr>pm_request_id = 4, pm_transactions = [[6]]\<rparr>
       (demo_declarer, [(5, None)]) =
     Some (Respond (DeclareMiningJobSuccess 4 (u32_to_le_bytes 1)), s', m') \<and>
   map (compute_txid demo_jd) txs = [5, 6] \<and>
   on_push_solution demo_jd False \<lparr>ps_payload = []\<rparr> s' m' = (BlockSent ''block'', m')"
proof -
  have r: "released demo_jd demo_declaration demo_declarer [(5, None)] = [(5, None)]"
    by (simp add: released_def)
  have k: "hm_keys [(5 :: txid, None :: (nat \<times> u32) option)] = {5}" by (simp add: hm_keys_def)
  have "mempool_wf demo_jd [(5, None)]"
    by (simp add: mempool_wf_def hm_distinct_def hm_get_def)
  moreover have "honest_node demo_jd [5, 6] [(5, None)]"
    by (simp add: honest_node_def k) (simp add: demo_jd_def)
  moreover have "honest_answer demo_jd demo_declaration \<lparr>pm_request_id = 4, pm_transactions = [[6]]\<rparr> [(5, None)]"
    by (simp add: honest_answer_def missing_positions_def k upt_rec)
      (simp add: demo_jd_def, intro exI [of _ "[6]"], simp)
  moreover have "unknown_transactions demo_declarer = []"
    by (simp add: demo_declarer_def jd_downstream_new_def)
  moreover have "block_hex demo_jd = (\<lambda>job txs sol. ''block'')"
    by (simp add: demo_jd_def)
  ultimately show ?thesis
    using declared_job_gives_block
      [of demo_jd "[(5, None)]" demo_declaration 1 demo_declarer "u32_to_le_bytes 1"
        "\<lparr>pm_request_id = 4, pm_transactions = [[6]]\<rparr>" False "\<lparr>ps_payload = []\<rparr>"]
    by (simp add: r)
qed

end
