(* ===== verification/Jdc_Protocol.thy ===== *)
theory Jdc_Protocol
  imports Jdc_Shares Jds_Protocol
begin

text \<open>
  The job declaration protocol with both of its ends: the client of \<open>jd-client\<close> declares the
  template of its template provider, the server of \<open>jd-server\<close> asks for the transactions it does not
  know, the client answers, and the accepted declaration becomes a custom job for the pool and,
  with a solution, a block.
\<close>

section \<open>The declaration of a template\<close>

text \<open>The message that the server decodes; \<open>payload\<close> is what it forwards unread.\<close>

definition declaration_of :: "bytes \<Rightarrow> jdc_declare_mining_job \<Rightarrow> declare_mining_job" where
  "declaration_of payload j =
     \<lparr>dj_request_id = jd_request_id j, dj_token = jd_mining_job_token j, dj_tx_ids = jd_tx_ids_list j,
      dj_payload = payload\<rparr>"

lemma declaration_of_simps [simp]:
  "dj_request_id (declaration_of pl j) = jd_request_id j" "dj_token (declaration_of pl j) = jd_mining_job_token j"
  "dj_tx_ids (declaration_of pl j) = jd_tx_ids_list j"
  by (simp_all add: declaration_of_def)

text \<open>
  What the client needs to declare the template \<open>tid\<close> with the transactions \<open>raws\<close>: coinbase outputs,
  a token, the template, which must be active, a job factory, and conversions that keep what fits.
\<close>

definition can_declare ::
  "('sc, 'ec, 'gc, 'vd, 'xf, 'uc, 'jf) jdc_lib \<Rightarrow> jdc_config \<Rightarrow> u64 \<Rightarrow> bytes \<Rightarrow> bytes list \<Rightarrow>
     allocate_token_success \<Rightarrow> new_template \<Rightarrow> tx_out list \<Rightarrow> u256 list \<Rightarrow> 'uc \<Rightarrow> 'jf \<Rightarrow> set_new_prev_hash_tdp \<Rightarrow>
     ('sc, 'ec, 'gc, 'vd, 'xf, 'uc, 'jf) jdc \<Rightarrow> bool" where
  "can_declare L cfg tid excess raws tok t outs ids uc jf1 p S \<longleftrightarrow>
     (let d = jc_data S in
      (\<exists>out. deserialize_outputs L (jc_coinbase_outputs d) = Some (out # tl outs) \<and>
         outs = out\<lparr>tx_value := nt_coinbase_tx_value_remaining t\<rparr> # tl outs) \<and>
      jc_allocate_tokens d = Some tok \<and> hm_get (jc_template_store d) tid = Some t \<and>
      jc_last_new_prev_hash d = Some p \<and> (nt_future_template t \<longrightarrow> ph_template_id p = nt_template_id t) \<and>
      those (map (raw_txid L) raws) = Some ids \<and> seq064k_hashes L ids = Inr ids \<and>
      jc_upstream_channel d = Some uc \<and>
      (\<exists>jf cb. jc_job_factory d = Some jf \<and>
         jf_new_coinbase L jf t outs (up_full_extranonce_size L uc) = (Inr cb, jf1) \<and>
         b064k_try_from L (fst cb) = Inr (fst cb) \<and> b064k_try_from L (snd cb) = Inr (snd cb)) \<and>
      b064k_try_from L excess = Inr excess \<and>
      b0255_try_from L (at_mining_job_token tok) = Inr (at_mining_job_token tok) \<and>
      (\<exists>user. str0255_try_from L (jc_user_identity cfg) = Inr user) \<and> jd_open S)"

lemma allocate_one:
  assumes "str0255_try_from L (jc_user_identity cfg) = Inr user" and "jd_open S"
  shows "ignore_err (allocate_tokens L cfg 1 S) =
    (Ok (), S\<lparr>jc_data := (jc_data S)\<lparr>jc_request_id_factory := jc_request_id_factory (jc_data S) + 1\<rparr>,
       out_jd := out_jd S @ [AllocateMiningJobToken (jc_request_id_factory (jc_data S)) user]\<rparr>)"
  using assms by (simp add: allocate_token_def send_jd_def ignore_err_def)

lemma tx_data_declares:
  assumes "can_declare L cfg tid excess raws tok t outs ids uc jf1 p S"
  obtains S1 j u where "jdc_tx_data_success L cfg tid excess raws S = (Ok (), S1)"
    "out_jd S1 = out_jd S @ [AllocateMiningJobToken (jc_request_id_factory (jc_data S) + 1) u, DeclareMiningJob j]"
    "jd_request_id j = jc_request_id_factory (jc_data S)" "jd_mining_job_token j = at_mining_job_token tok"
    "jd_tx_ids_list j = ids" "jd_version j = nt_version t"
    "hm_get (jc_last_declare_job_store (jc_data S1)) (jd_request_id j) =
       Some \<lparr>dj_declare_mining_job = Some j, dj_template = t, dj_prev_hash = Some p, dj_set_custom_mining_job = None,
         dj_coinbase_output = serialize_outputs L outs, dj_tx_list = raws\<rparr>"
    "jc_upstream_channel (jc_data S1) = Some uc" "jc_job_factory (jc_data S1) = Some jf1"
    "jd_open S1" "upstream_open S1 = upstream_open S" "out_upstream S1 = out_upstream S"
proof -
  let ?d = "jc_data S"
  let ?rid = "jc_request_id_factory ?d"
  obtain out os where outs: "deserialize_outputs L (jc_coinbase_outputs ?d) = Some (out # os)"
      "outs = out\<lparr>tx_value := nt_coinbase_tx_value_remaining t\<rparr> # os"
    using assms by (auto simp: can_declare_def Let_def)
  obtain jf cb where jf: "jc_job_factory ?d = Some jf"
      "jf_new_coinbase L jf t outs (up_full_extranonce_size L uc) = (Inr cb, jf1)"
      "b064k_try_from L (fst cb) = Inr (fst cb)" "b064k_try_from L (snd cb) = Inr (snd cb)"
    using assms by (auto simp: can_declare_def Let_def)
  obtain user where user: "str0255_try_from L (jc_user_identity cfg) = Inr user"
    using assms by (auto simp: can_declare_def Let_def)
  have rest: "jc_allocate_tokens ?d = Some tok" "hm_get (jc_template_store ?d) tid = Some t"
      "jc_last_new_prev_hash ?d = Some p" "nt_future_template t \<longrightarrow> ph_template_id p = nt_template_id t"
      "those (map (raw_txid L) raws) = Some ids" "seq064k_hashes L ids = Inr ids" "jc_upstream_channel ?d = Some uc"
      "b064k_try_from L excess = Inr excess" "b0255_try_from L (at_mining_job_token tok) = Inr (at_mining_job_token tok)"
      "jd_open S"
    using assms by (auto simp: can_declare_def Let_def)
  have active: "(nt_future_template t \<and> ph_template_id p \<noteq> nt_template_id t) = False" using rest(4) by simp
  define j where "j = \<lparr>jd_request_id = ?rid, jd_mining_job_token = at_mining_job_token tok, jd_version = nt_version t,
      jd_coinbase_tx_prefix = fst cb, jd_coinbase_tx_suffix = snd cb, jd_tx_ids_list = ids, jd_excess_data = excess\<rparr>"
  define job where "job = \<lparr>dj_declare_mining_job = Some j, dj_template = t, dj_prev_hash = Some p,
      dj_set_custom_mining_job = None, dj_coinbase_output = serialize_outputs L outs, dj_tx_list = raws\<rparr>"
  define d2 where "d2 = ?d\<lparr>jc_template_store := hm_remove tid (jc_template_store ?d), jc_request_id_factory := 2 + ?rid\<rparr>"
  have store: "store_declare_job L ?rid (at_mining_job_token tok) t outs ids raws excess d2 =
      (Ok (Some j), d2\<lparr>jc_job_factory := Some jf1,
         jc_last_declare_job_store := hm_insert ?rid job (jc_last_declare_job_store ?d)\<rparr>)"
    using jf rest by (simp add: store_declare_job_def build_declare_job_def full_extranonce_size_def d2_def j_def job_def)
  let ?S1 = "S\<lparr>jc_data := d2\<lparr>jc_job_factory := Some jf1,
      jc_last_declare_job_store := hm_insert ?rid job (jc_last_declare_job_store ?d)\<rparr>,
    out_jd := out_jd S @ [AllocateMiningJobToken (?rid + 1) user, DeclareMiningJob j]\<rparr>"
  have "jdc_tx_data_success L cfg tid excess raws S = (Ok (), ?S1)"
    using outs rest store allocate_one [OF user, where S = "upd_jc (\<lambda>d. d\<lparr>jc_template_store := hm_remove tid (jc_template_store d),
        jc_request_id_factory := jc_request_id_factory d + 1\<rparr>) S"]
    by (simp add: jdc_tx_data_success_def Let_def locked_def d2_def [symmetric] send_jd_def ignore_err_def active
        del: allocate_tokens.simps)
  then show thesis by (rule that [where j = j and u = user]) (use rest(7,10) in \<open>simp_all add: j_def job_def d2_def\<close>)
qed

text \<open>A miner's side and the server's side agree on what a raw transaction is.\<close>

definition same_transactions :: "('sc, 'ec, 'gc, 'vd, 'xf, 'uc, 'jf) jdc_lib \<Rightarrow> ('tx, 'id) jd_lib \<Rightarrow> bool" where
  "same_transactions L J \<longleftrightarrow>
     (\<forall>raw i. raw_txid L raw = Some i \<longrightarrow> (\<exists>t. decode_tx J raw = Inr t \<and> compute_txid J t = i))"

lemma those_length: "those xs = Some ys \<Longrightarrow> length ys = length xs"
  by (induction xs arbitrary: ys) (auto split: option.splits)

lemma those_nth: "those xs = Some ys \<Longrightarrow> k < length xs \<Longrightarrow> xs ! k = Some (ys ! k)"
proof (induction xs arbitrary: ys k)
  case Nil
  then show ?case by simp
next
  case (Cons x xs)
  then show ?case by (cases k) (auto split: option.splits)
qed

lemma length_missing_positions: "length (missing_positions m ids) \<le> length ids"
  unfolding missing_positions_def using length_filter_le [of _ "[0..<length ids]"] by simp

lemma transactions_at_missing:
  assumes "length raws = length ids" and "length ids \<le> 65536"
  shows "transactions_at raws (map of_nat (missing_positions m ids)) = map ((!) raws) (missing_positions m ids)"
proof -
  have "List.map_filter (\<lambda>p :: u16. if unat p < length raws then Some (raws ! unat p) else None) (map of_nat js) =
      map ((!) raws) js" if "\<forall>j\<in>set js. j < length ids" for js
    using that assms by (induction js) (simp_all add: List.map_filter_simps unat_of_nat_u16)
  then show ?thesis
    using missing_positions_bound [of _ m ids] by (simp add: transactions_at_def)
qed

lemma missing_transactions_decode:
  assumes "same_transactions L J" and "those (map (raw_txid L) raws) = Some ids"
  shows "\<exists>txs. map (decode_tx J) (map ((!) raws) (missing_positions m ids)) = map Inr txs \<and>
    map (compute_txid J) txs = map (\<lambda>j. ids ! j) (missing_positions m ids)"
proof -
  have len: "length ids = length raws" using those_length [OF assms(2)] by simp
  have "\<exists>txs. map (decode_tx J) (map ((!) raws) js) = map Inr txs \<and> map (compute_txid J) txs = map (\<lambda>j. ids ! j) js"
    if "\<forall>j\<in>set js. j < length raws" for js
    using that
  proof (induction js)
    case Nil
    then show ?case by simp
  next
    case (Cons j js)
    then obtain txs where txs: "map (decode_tx J) (map ((!) raws) js) = map Inr txs"
      "map (compute_txid J) txs = map (\<lambda>j. ids ! j) js" by auto
    have "raw_txid L (raws ! j) = Some (ids ! j)" using those_nth [OF assms(2), of j] Cons.prems by simp
    then obtain tx where "decode_tx J (raws ! j) = Inr tx" "compute_txid J tx = ids ! j"
      using assms(1) by (auto simp: same_transactions_def)
    then show ?case using txs by (intro exI [of _ "tx # txs"]) simp
  qed
  then show ?thesis using missing_positions_bound [of _ m ids] len by auto
qed

lemma missing_answered:
  assumes "hm_get (jc_last_declare_job_store (jc_data S)) rid = Some job" and "jd_open S"
    and "seq064k_bytes L (transactions_at (dj_tx_list job) ps) = Inr (transactions_at (dj_tx_list job) ps)"
  shows "jdc_handle L cfg (TransactionsMissing rid ps) S =
    (Ok (), S\<lparr>out_jd := out_jd S @ [ProvideMissingSuccess rid (transactions_at (dj_tx_list job) ps)]\<rparr>)"
  using assms by (simp add: jdc_provide_missing_transactions_def send_jd_def)

lemma accepted_gives_custom_job:
  assumes "hm_get (jc_last_declare_job_store (jc_data S)) rid = Some job" and "dj_prev_hash job = Some p"
    and "deserialize_outputs L (dj_coinbase_output job) = Some outs"
    and "jc_upstream_channel (jc_data S) = Some uc" and "jc_job_factory (jc_data S) = Some jf"
    and "jf_new_custom_job L jf (up_channel_id L uc) rid token p (dj_template job) outs (up_full_extranonce_size L uc) =
      (Inr cj, jf')"
    and "frame_try_from L (CustomJobUpstream cj) = Inr ()" and "upstream_open S"
  shows "\<exists>S'. jdc_handle L cfg (DeclarationAccepted rid token) S = (Ok (), S') \<and>
    out_upstream S' = out_upstream S @ [CustomJobUpstream cj] \<and>
    hm_get (jc_last_declare_job_store (jc_data S')) rid = Some (job\<lparr>dj_set_custom_mining_job := Some cj\<rparr>)"
  using assms
  by (simp add: jdc_declare_mining_job_success_def jdc_custom_job_def send_upstream_def Let_def)

text \<open>
  C3. From a template to a block. A client that can declare an active template of at most 65535
  transactions, the most that a list of the protocol holds, sends the declaration. Whatever the server misses, the client answers its request
  with transactions that complete the declaration, so that the server accepts it; the client then
  sends the custom job to the pool, and a solution makes the server submit the block with exactly the
  transactions of the template.
\<close>

theorem template_declared_and_solved:
  assumes can: "can_declare L cfg tid excess raws tok t outs ids uc jf1 p S"
    and same: "same_transactions L J" and size: "length raws \<le> 65535"
    and seq: "\<And>bs. length bs \<le> 65535 \<Longrightarrow> seq064k_bytes L bs = Inr bs"
    and token: "at_mining_job_token tok = u32_to_le_bytes n" "n \<in> hm_keys (token_to_job_map s)"
      "sign_token J (at_mining_job_token tok) = Inr sig"
    and server: "known_transactions s = []" "unknown_transactions s = []" "mempool_wf J m"
      "\<And>msg. dj_tx_ids msg = ids \<Longrightarrow> honest_node J ids (released J msg s m)"
    and custom: "deserialize_outputs L (serialize_outputs L outs) = Some outs"
      "jf_new_custom_job L jf1 (up_channel_id L uc) (jc_request_id_factory (jc_data S)) sig p t outs
         (up_full_extranonce_size L uc) = (Inr cj, jf2)"
      "frame_try_from L (CustomJobUpstream cj) = Inr ()" "upstream_open S"
  shows "\<exists>S1 j u answer s' m' txs.
    jdc_handle L cfg (TxData tid excess raws) S = (Ok (), S1) \<and>
    out_jd S1 = out_jd S @ [AllocateMiningJobToken (jd_request_id j + 1) u, DeclareMiningJob j] \<and>
    (\<forall>rid ps s1 m1. handle_declare_mining_job J (declaration_of payload j) (s, m) =
         (Ok (Respond (ProvideMissingTransactions rid ps)), s1, m1) \<longrightarrow>
       jdc_handle L cfg (TransactionsMissing rid ps) S1 =
         (Ok (), S1\<lparr>out_jd := out_jd S1 @ [ProvideMissingSuccess rid answer]\<rparr>)) \<and>
    declare_session J (declaration_of payload j) \<lparr>pm_request_id = jd_request_id j, pm_transactions = answer\<rparr> (s, m) =
      Some (Respond (DeclareMiningJobSuccess (jd_request_id j) sig), s', m') \<and>
    (\<forall>sent. \<exists>S2. jdc_handle L cfg (DeclarationAccepted (jd_request_id j) sig) (S1\<lparr>out_jd := sent\<rparr>) = (Ok (), S2) \<and>
       out_upstream S2 = out_upstream S @ [CustomJobUpstream cj]) \<and>
    map (compute_txid J) txs = ids \<and>
    on_push_solution J timely sol s' m' = (BlockSent (block_hex J (declaration_of payload j) txs sol), m')"
proof -
  obtain S1 j u where S1: "jdc_tx_data_success L cfg tid excess raws S = (Ok (), S1)"
    "out_jd S1 = out_jd S @ [AllocateMiningJobToken (jc_request_id_factory (jc_data S) + 1) u, DeclareMiningJob j]"
    and j: "jd_request_id j = jc_request_id_factory (jc_data S)" "jd_mining_job_token j = at_mining_job_token tok"
      "jd_tx_ids_list j = ids" "jd_version j = nt_version t"
    and job: "hm_get (jc_last_declare_job_store (jc_data S1)) (jd_request_id j) =
       Some \<lparr>dj_declare_mining_job = Some j, dj_template = t, dj_prev_hash = Some p, dj_set_custom_mining_job = None,
         dj_coinbase_output = serialize_outputs L outs, dj_tx_list = raws\<rparr>"
    and up: "jc_upstream_channel (jc_data S1) = Some uc" "jc_job_factory (jc_data S1) = Some jf1"
    and jd: "jd_open S1" "upstream_open S1 = upstream_open S" "out_upstream S1 = out_upstream S"
    by (rule tx_data_declares [OF can])
  let ?msg = "declaration_of payload j"
  let ?m = "released J ?msg s m"
  let ?missing = "missing_positions ?m ids"
  let ?answer = "map ((!) raws) ?missing"
  have ids: "those (map (raw_txid L) raws) = Some ids" using can by (simp add: can_declare_def Let_def)
  then have len: "length raws = length ids" using those_length by fastforce
  obtain provided where provided: "map (decode_tx J) ?answer = map Inr provided"
      "map (compute_txid J) provided = map (\<lambda>j. ids ! j) ?missing"
    using missing_transactions_decode [OF same ids] by blast
  have node: "honest_node J (dj_tx_ids ?msg) ?m" using server(4) j(3) by simp
  let ?m' = "fold (\<lambda>t. insert_fat (compute_txid J t) t) provided
    (snd (add_known J (filter (\<lambda>t. t \<in> hm_keys ?m) ids) ?m))"
  obtain s' where s': "declare_session J ?msg \<lparr>pm_request_id = jd_request_id j, pm_transactions = ?answer\<rparr> (s, m) =
        Some (Respond (DeclareMiningJobSuccess (jd_request_id j) sig), s', ?m')"
      "tx_states s' = map PresentInMempool (dj_tx_ids ?msg)" "declared_job s' = Some ?msg"
    using declare_session_ok [of ?msg n s J sig m "\<lparr>pm_request_id = jd_request_id j, pm_transactions = ?answer\<rparr>" provided]
      token server(1,2) node provided j len size by auto
  have wf: "mempool_wf J ?m'" by (intro jds_store.add_all_wf add_known_wf released_wf server(3))
  have full: "\<forall>i\<in>set (dj_tx_ids ?msg). full_tx ?m' i \<noteq> None"
    using full_after_session [OF server(4) provided(2)] j(3) by simp
  obtain txs where txs: "map (compute_txid J) txs = dj_tx_ids ?msg"
      "on_push_solution J timely sol s' ?m' = (BlockSent (block_hex J ?msg txs sol), ?m')"
    using push_solution_block [OF wf s'(2,3) full] by blast
  have tx_ids: "map (compute_txid J) txs = ids" using txs(1) j(3) by simp
  have answers: "jdc_handle L cfg (TransactionsMissing rid ps) S1 =
      (Ok (), S1\<lparr>out_jd := out_jd S1 @ [ProvideMissingSuccess rid ?answer]\<rparr>)"
    if "handle_declare_mining_job J ?msg (s, m) = (Ok (Respond (ProvideMissingTransactions rid ps)), s1, m1)" for rid ps s1 m1
  proof -
    have "rid = jd_request_id j" "ps = map of_nat ?missing"
      using that declare_eq [of ?msg n s J sig m] token j by (auto split: if_splits)
    moreover have "length ?answer \<le> 65535"
      using length_missing_positions [of ?m ids] size len by simp
    ultimately show ?thesis
      using missing_answered [OF job jd(1), where ps = ps] transactions_at_missing [OF len, of ?m] seq [of ?answer] size len
      by simp
  qed
  have accepted: "\<exists>S2. jdc_handle L cfg (DeclarationAccepted (jd_request_id j) sig) (S1\<lparr>out_jd := sent\<rparr>) = (Ok (), S2) \<and>
       out_upstream S2 = out_upstream S @ [CustomJobUpstream cj]" for sent
  proof -
    let ?S = "S1\<lparr>out_jd := sent\<rparr>"
    have "hm_get (jc_last_declare_job_store (jc_data ?S)) (jd_request_id j) =
        Some \<lparr>dj_declare_mining_job = Some j, dj_template = t, dj_prev_hash = Some p, dj_set_custom_mining_job = None,
          dj_coinbase_output = serialize_outputs L outs, dj_tx_list = raws\<rparr>"
      "jc_upstream_channel (jc_data ?S) = Some uc" "jc_job_factory (jc_data ?S) = Some jf1"
      "upstream_open ?S" "out_upstream ?S = out_upstream S"
      using job up jd custom(4) by simp_all
    note st = this
    show ?thesis
      using accepted_gives_custom_job [OF st(1) _ _ st(2,3) _ custom(3) st(4), where cfg = cfg and token = sig]
        custom(1,2) j(1) st(5) by (simp del: jdc_handle.simps) blast
  qed
  have "jdc_handle L cfg (TxData tid excess raws) S = (Ok (), S1)" using S1(1) by simp
  moreover have "out_jd S1 = out_jd S @ [AllocateMiningJobToken (jd_request_id j + 1) u, DeclareMiningJob j]"
    using S1(2) j(1) by simp
  ultimately show ?thesis using s'(1) txs(2) tx_ids answers accepted by blast
qed

text \<open>
  The client of the session with a token for the server's first token number, declaring a template
  with the transactions 5 and 6; the server knows the first of them.
\<close>

definition jdemo_declaring ::
  "(jdemo_channel, jdemo_channel, u32, nat, jdemo_factory, jdemo_upstream, nat) jdc" where
  "jdemo_declaring = upd_jc (\<lambda>d. d\<lparr>jc_allocate_tokens := Some \<lparr>at_request_id = 0,
     at_mining_job_token = u32_to_le_bytes 1, at_coinbase_outputs = [0x51]\<rparr>\<rparr>) (jdemo_connected\<lparr>jc_mode := FullTemplate\<rparr>)"

lemma jdemo_declaring_data: "jc_request_id_factory (jc_data jdemo_declaring) = 2"
  by (simp add: jdemo_declaring_def jdemo_connected_def)

theorem template_declared_and_solved_witness:
  "\<exists>S1 j answer s' m' txs.
     jdc_handle jdemo_lib jdemo_config (TxData 3 [] [[5], [6]]) jdemo_declaring = (Ok (), S1) \<and>
     declare_session demo_jd (declaration_of [] j) \<lparr>pm_request_id = jd_request_id j, pm_transactions = answer\<rparr>
       (demo_declarer, [(5, None)]) =
       Some (Respond (DeclareMiningJobSuccess (jd_request_id j) (u32_to_le_bytes 1)), s', m') \<and>
     map (compute_txid demo_jd) txs = [5, 6] \<and>
     on_push_solution demo_jd False \<lparr>ps_payload = []\<rparr> s' m' = (BlockSent ''block'', m')"
proof -
  let ?tok = "\<lparr>at_request_id = 0, at_mining_job_token = u32_to_le_bytes 1, at_coinbase_outputs = [0x51]\<rparr>"
  let ?outs = "[\<lparr>tx_value = 5000, tx_script_pubkey = [0x51]\<rparr>]"
  have can: "can_declare jdemo_lib jdemo_config 3 [] [[5], [6]] ?tok jdemo_template ?outs [5, 6] (1, [9, 9]) 1
      jdemo_prev_hash jdemo_declaring"
    by (simp add: can_declare_def jdemo_declaring_def jdemo_connected_def jdemo_data_def jdemo_config_def hm_get_def
        jdemo_template_def jdemo_prev_hash_def)
  have same: "same_transactions jdemo_lib demo_jd"
    by (auto simp: same_transactions_def demo_jd_def split: list.splits)
  have k: "hm_keys [(5 :: txid, None :: (nat \<times> u32) option)] = {5}" by (simp add: hm_keys_def)
  have "honest_node demo_jd [5, 6] (released demo_jd msg demo_declarer [(5, None)])" for msg
    by (simp add: honest_node_def released_def k) (simp add: demo_jd_def)
  moreover have "mempool_wf demo_jd [(5, None)]"
    by (simp add: mempool_wf_def hm_distinct_def hm_get_def)
  moreover have "unknown_transactions demo_declarer = []"
    by (simp add: demo_declarer_def jd_downstream_new_def)
  moreover have "upstream_open jdemo_declaring" by (simp add: jdemo_declaring_def jdemo_connected_def)
  moreover have "block_hex demo_jd = (\<lambda>job txs sol. ''block'')" by (simp add: demo_jd_def)
  ultimately show ?thesis
    using template_declared_and_solved [OF can same, where s = demo_declarer and m = "[(5, None)]" and n = 1
        and sig = "u32_to_le_bytes 1" and cj = "jdemo_custom 1 2 (u32_to_le_bytes 1)" and payload = "[]"
        and timely = False and sol = "\<lparr>ps_payload = []\<rparr>"]
    by (simp del: jdc_handle.simps add: jdemo_declaring_data) (elim exE conjE, intro exI conjI, assumption+)
qed

end
