(* ===== verification/Jdc_Limits.thy ===== *)
theory Jdc_Limits
  imports Jdc_Shares
begin

text \<open>
  Situations in which the job declarator client does less than its miners and its pool can
  expect: requests that are dropped without an answer, shares of group jobs that are not
  passed on, a share that ends the loop, and a wrong target in the update after a vardiff pass.
\<close>

section \<open>Waiting requests of a miner that left\<close>

lemma open_pending_missing:
  assumes "hm_get (jc_downstream (jc_data S)) (pending_downstream_id r) = None"
    and "jc_last_future_template (jc_data S) = Some t" and "jc_last_new_prev_hash (jc_data S) = Some p"
    and "deserialize_outputs L (jc_coinbase_outputs (jc_data S)) = Some outs"
  shows "open_pending L cfg r S = (Err (DownstreamNotFound (pending_downstream_id r)), S)"
  using assms by (cases r) (simp_all add: jdc_open_extended_def jdc_open_standard_def locked_def)

lemma open_success_locked_ok:
  assumes "jc_pending_requests (jc_data S) = r # rs"
    and "upstream_factory L (uo_extranonce_prefix msg) (uo_extranonce_size msg) = Inr xf"
  obtains j S1 where "open_success_locked L cfg outs msg S = (Inr (jc_last_future_template (jc_data S), j), S1)"
    "jc_downstream (jc_data S1) = jc_downstream (jc_data S)" "jc_pending_requests (jc_data S1) = r # rs"
    "jc_last_future_template (jc_data S1) = jc_last_future_template (jc_data S)"
    "jc_last_new_prev_hash (jc_data S1) = jc_last_new_prev_hash (jc_data S)"
    "jc_coinbase_outputs (jc_data S1) = jc_coinbase_outputs (jc_data S)"
    "jc_mode S1 = jc_mode S" "out_downstream S1 = out_downstream S" "tp_open S1 = tp_open S"
    "upstream_open S1 = upstream_open S" "jd_open S1 = jd_open S"
    "jc_upstream_state S1 = Connected"
proof -
  define uc where "uc = up_new L (uo_channel_id msg) (jc_user_identity cfg) (uo_extranonce_prefix msg)
      (uo_target msg) (pending_hashrate r) True (uo_extranonce_size msg)"
  define uc1 where "uc1 = (case jc_last_new_prev_hash (jc_data S) of None \<Rightarrow> uc
      | Some p \<Rightarrow> snd (up_on_chain_tip_update L uc p))"
  obtain j d where jd: "(if jc_mode S = CoinbaseOnly then open_custom_job L uc1 outs (jc_data S) else (None, jc_data S)) = (j, d)"
    by fastforce
  have "jc_downstream d = jc_downstream (jc_data S)" "jc_pending_requests d = jc_pending_requests (jc_data S)"
    "jc_last_future_template d = jc_last_future_template (jc_data S)"
    "jc_last_new_prev_hash d = jc_last_new_prev_hash (jc_data S)"
    "jc_coinbase_outputs d = jc_coinbase_outputs (jc_data S)"
    using jd by (auto simp: open_custom_job_def Let_def split: if_splits option.splits prod.splits sum.splits)
  moreover obtain f where "open_success_locked L cfg outs msg S = (Inr (jc_last_future_template d, j),
      S\<lparr>jc_data := d\<lparr>jc_factory_extended := xf, jc_factory_standard := xf, jc_upstream_channel := Some uc1,
        jc_job_factory := Some f\<rparr>, jc_upstream_state := Connected\<rparr>)"
    using assms jd unfolding uc1_def uc_def
    by (simp add: open_success_locked_def Let_def split del: if_split)
  ultimately show thesis using assms(1) that by simp
qed

text \<open>
  C28. Requests that are lost. If the miner whose request waits first has left before the pool opens
  the upstream channel, the handler stops at its request with an error that does not end the
  loop; all requests that waited behind it are dropped, and no miner gets an answer.
\<close>

theorem waiting_requests_lost:
  assumes "jc_pending_requests (jc_data S) = r # rs"
    and "hm_get (jc_downstream (jc_data S)) (pending_downstream_id r) = None"
    and "jc_last_future_template (jc_data S) = Some t" and "jc_last_new_prev_hash (jc_data S) = Some p"
    and "deserialize_outputs L (jc_coinbase_outputs (jc_data S)) = Some outs"
    and "upstream_factory L (uo_extranonce_prefix msg) (uo_extranonce_size msg) = Inr xf"
    and "jc_mode S = FullTemplate" and "tp_open S"
  shows "\<exists>S'. jdc_handle L cfg (UpstreamOpened msg) S = (Err (DownstreamNotFound (pending_downstream_id r)), S') \<and>
    \<not> is_critical (DownstreamNotFound (pending_downstream_id r)) \<and>
    jc_upstream_state S' = Connected \<and> jc_pending_requests (jc_data S') = [] \<and> out_downstream S' = out_downstream S"
proof -
  obtain j S1 where S1: "open_success_locked L cfg outs msg S = (Inr (Some t, j), S1)"
    "jc_downstream (jc_data S1) = jc_downstream (jc_data S)" "jc_pending_requests (jc_data S1) = r # rs"
    "jc_last_future_template (jc_data S1) = Some t" "jc_last_new_prev_hash (jc_data S1) = Some p"
    "jc_coinbase_outputs (jc_data S1) = jc_coinbase_outputs (jc_data S)"
    "jc_mode S1 = FullTemplate" "out_downstream S1 = out_downstream S" "tp_open S1"
    "jc_upstream_state S1 = Connected"
    using open_success_locked_ok [OF assms(1,6), where cfg = cfg and outs = outs] assms(3,4,7,8) by metis
  let ?S2 = "S1\<lparr>out_tp := out_tp S1 @ [RequestTransactionData (nt_template_id t)],
      jc_data := (jc_data S1)\<lparr>jc_pending_requests := []\<rparr>\<rparr>"
  have "open_pending L cfg r ?S2 = (Err (DownstreamNotFound (pending_downstream_id r)), ?S2)"
    by (rule open_pending_missing) (use assms(2,5) S1 in simp_all)
  then have "after_open L cfg (Some t) j S1 = (Err (DownstreamNotFound (pending_downstream_id r)), ?S2)"
    using S1 by (cases j) (simp_all add: after_open_def send_tp_def)
  then show ?thesis
    using assms(5) S1 by (simp add: jdc_open_success_def is_critical_def)
qed

definition jdemo_left ::
  "(jdemo_channel, jdemo_channel, u32, nat, jdemo_factory, jdemo_upstream, nat) jdc" where
  "jdemo_left =
     (jdc_new (jdemo_data\<lparr>jc_downstream := [(1, jdc_downstream_new 1 [] [])],
        jc_pending_requests := [ExtendedChannel 0 jdemo_open, ExtendedChannel 1 jdemo_open],
        jc_last_future_template := Some jdemo_template, jc_last_new_prev_hash := Some jdemo_prev_hash\<rparr>)
      FullTemplate)\<lparr>jc_upstream_state := Pending\<rparr>"

theorem waiting_requests_lost_witness:
  "\<exists>S'. jdc_handle jdemo_lib jdemo_config (UpstreamOpened jdemo_opened) jdemo_left = (Err (DownstreamNotFound 0), S') \<and>
    jc_pending_requests (jc_data S') = [] \<and> out_downstream S' = []"
  using waiting_requests_lost [where S = jdemo_left and r = "ExtendedChannel 0 jdemo_open"
      and rs = "[ExtendedChannel 1 jdemo_open]" and t = jdemo_template and p = jdemo_prev_hash and L = jdemo_lib
      and outs = "[\<lparr>tx_value = 0, tx_script_pubkey = [0x51]\<rparr>]" and msg = jdemo_opened and xf = "([9, 9], 0)"
      and cfg = jdemo_config]
  by (fastforce simp: jdemo_left_def jdc_new_def jdemo_data_def hm_get_def upstream_factory_def jdemo_opened_def
      JDC_SEARCH_SPACE_BYTES_def)

section \<open>A share that ends the loop\<close>

text \<open>
  C29. A wrong extranonce size. A share of an extended channel whose extranonce has the wrong size,
  which the channel reports as an error of its own, is not answered: the handler panics and the
  loop ends, for all miners.
\<close>

theorem wrong_extranonce_size_ends_loop:
  assumes "hm_get (jc_downstream (jc_data S)) did = Some ds" and "jc_last_new_prev_hash (jc_data S) = Some p"
    and "hm_get (extended_channels (jdc_downstream_data ds)) (sh_channel_id msg) = Some ec"
    and "hm_get (jc_vardiff (jc_data S)) (did, sh_channel_id msg) = Some vd"
    and "ec_validate_share L ec msg = (Inl SV_BadExtranonceSize, ec')"
  shows "\<exists>S'. run_jdc L cfg (FromMiner did (MinerShareExtended msg) # es) S =
      (Panic ''internal error: entered unreachable code'', S') \<and> out_downstream S' = out_downstream S"
proof -
  have "\<exists>s. jdc_share_extended L did (jdc_downstream_id ds) msg p (jc_data S, jdc_downstream_data ds) =
      (Panic ''internal error: entered unreachable code'', s)"
    using assms(3-5) by (simp add: jdc_share_extended_def answer_share_def Let_def)
  then obtain d where "share_locked did (\<lambda>owner. jdc_share_extended L did owner msg) (jc_data S) =
      (Panic ''internal error: entered unreachable code'', d)"
    using assms(1,2) by (auto simp: share_locked_def lock_jdc_downstream_def)
  then show ?thesis
    using assms(1) by (simp add: jdc_handle_downstream_message_def jdc_submit_shares_extended_def locked_def)
qed

theorem wrong_extranonce_size_ends_loop_witness:
  "\<exists>S'. run_jdc jdemo_lib jdemo_config [FromMiner 0 (MinerShareExtended (jdemo_share 2)), VardiffTick] jdemo_mining =
     (Panic ''internal error: entered unreachable code'', S')"
proof -
  have "hm_get (jc_downstream (jc_data jdemo_mining)) 0 = Some jdemo_miner"
    "jc_last_new_prev_hash (jc_data jdemo_mining) = Some jdemo_prev_hash"
    "hm_get (extended_channels (jdc_downstream_data jdemo_miner)) (sh_channel_id (jdemo_share 2)) = Some ([9, 9, 0], 77)"
    "hm_get (jc_vardiff (jc_data jdemo_mining)) (0, sh_channel_id (jdemo_share 2)) = Some 0"
    "ec_validate_share jdemo_lib ([9, 9, 0], 77) (jdemo_share 2) = (Inl SV_BadExtranonceSize, ([9, 9, 0], 77))"
    by (simp_all add: jdemo_mining_def jdemo_connected_def jdemo_miner_def jdemo_share_def jdemo_data_def hm_get_def
        jdemo_validation_def)
  from wrong_extranonce_size_ends_loop [OF this, of jdemo_config "[VardiffTick]"] show ?thesis by blast
qed

section \<open>Jobs of a group channel\<close>

lemma iter_state_invariant:
  assumes "\<And>k v s. (k, v) \<in> set m \<Longrightarrow> P s \<Longrightarrow> P (snd (snd (f k v s)))" and "P s"
  shows "P (snd (snd (hm_iter_state f m s)))"
  using assms
proof (induction m arbitrary: s)
  case Nil
  then show ?case by simp
next
  case (Cons e m)
  obtain k v where e: "e = (k, v)" by (cases e)
  obtain r v' s' where f: "f k v s = (r, v', s')" by (cases "f k v s")
  then have "P s'" using Cons.prems(1) [of k v s] Cons.prems(2) e by simp
  then have "P (snd (snd (hm_iter_state f m s')))" using Cons.prems(1) by (intro Cons.IH) auto
  then show ?case using f e \<open>P s'\<close> by (auto split: res.split prod.split)
qed

text \<open>No template is known for this job of this channel of this connection.\<close>

definition unknown_job :: "downstream_channel_job_id \<Rightarrow> (downstream_channel_job_id, u64) hash_map \<Rightarrow> bool" where
  "unknown_job k jt \<longleftrightarrow> hm_get jt k = None"

lemma unknown_job_insert: "k \<noteq> k' \<Longrightarrow> unknown_job k jt \<Longrightarrow> unknown_job k (hm_insert k' t jt)"
  by (simp add: unknown_job_def)

lemma standard_job_unknown:
  assumes "unknown_job (did, cid, jid) jt" and "did' = did \<longrightarrow> \<not> no_group"
  shows "unknown_job (did, cid, jid) (snd (snd (jdc_template_standard L m outs did' no_group gj cid' sc jt)))"
  using assms
  by (auto simp: jdc_template_standard_def Let_def intro!: unknown_job_insert
      split: prod.split sum.split option.split res.split)

lemma extended_job_unknown:
  assumes "unknown_job (did, cid, jid) jt" and "did' = did \<longrightarrow> cid' \<noteq> cid"
  shows "unknown_job (did, cid, jid) (snd (snd (jdc_template_extended L m outs did' cid' ec jt)))"
  using assms
  by (auto simp: jdc_template_extended_def intro!: unknown_job_insert split: prod.split sum.split res.split)

lemma pair_and_then:
  assumes "P (snd (snd m))" and "\<And>a s d. P d \<Longrightarrow> P (snd (snd (k a (s, d))))"
  shows "P (snd (snd (and_then m k)))"
  using assms by (cases m, cases "snd m", cases "fst m") auto

lemma custom_job_keeps_jobs: "jc_job_to_template (snd (template_custom_job L mode m outs d)) = jc_job_to_template d"
  by (auto simp: template_custom_job_def Let_def split: option.split prod.split sum.split)

lemma group_job_none: "snd (jdc_group_job L m outs g) = None \<longleftrightarrow> g = None"
  by (auto simp: jdc_group_job_def split: option.split prod.split sum.split)

lemma downstream_job_unknown:
  assumes "unknown_job (did, cid, jid) (jc_job_to_template d)"
    and "did' = did \<longrightarrow> group_channels (jdc_downstream_data ds) \<noteq> None \<and>
      cid \<notin> hm_keys (extended_channels (jdc_downstream_data ds))"
  shows "unknown_job (did, cid, jid) (jc_job_to_template (snd (snd (jdc_template_downstream L mode m outs did' ds d))))"
proof -
  let ?P = "\<lambda>d. unknown_job (did, cid, jid) (jc_job_to_template d)"
  let ?dd = "jdc_downstream_data ds"
  obtain gr g where g: "jdc_group_job L m outs (group_channels ?dd) = (gr, g)" by fastforce
  have std: "unknown_job (did, cid, jid)
      (snd (snd (hm_iter_state (jdc_template_standard L m outs did' (g = None) gj) (standard_channels ?dd) jt)))"
    if "unknown_job (did, cid, jid) jt" for gj jt
    by (rule iter_state_invariant [OF standard_job_unknown that])
      (use assms(2) g group_job_none [of L m outs "group_channels ?dd"] in auto)
  have ext: "unknown_job (did, cid, jid)
      (snd (snd (hm_iter_state (jdc_template_extended L m outs did') (extended_channels ?dd) jt)))"
    if "unknown_job (did, cid, jid) jt" for jt
    by (rule iter_state_invariant [OF extended_job_unknown that])
      (use assms(2) in \<open>auto simp: hm_keys_def image_iff\<close>)
  have std': "unknown_job (did, cid, jid) jt'" if "hm_iter_state (jdc_template_standard L m outs did' (g = None) gj)
      (standard_channels ?dd) jt = (r, scs, jt')" "unknown_job (did, cid, jid) jt" for gj jt r scs jt'
    using std [OF that(2), of gj] that(1) by simp
  have ext': "unknown_job (did, cid, jid) jt'" if "hm_iter_state (jdc_template_extended L m outs did')
      (extended_channels ?dd) jt = (r, ecs, jt')" "unknown_job (did, cid, jid) jt" for jt r ecs jt'
    using ext [OF that(2)] that(1) by simp
  have job: "?P d1" if "?P d0" "template_custom_job L mode m outs d0 = (r, d1)" for d0 d1 r
    using custom_job_keeps_jobs [of L mode m outs d0] that by simp
  show ?thesis
    unfolding jdc_template_downstream_def Let_def g prod.case
    apply (rule pair_and_then [where P = ?P], simp add: assms(1))
    apply (simp, split prod.split, intro allI impI, drule (1) job, rule pair_and_then [where P = ?P], simp)
    apply (simp, split prod.split, intro allI impI, split prod.split, intro allI impI, simp, drule (1) std')
    apply (rule pair_and_then [where P = ?P], simp)
    apply (simp, split prod.split, intro allI impI, split prod.split, intro allI impI, simp, drule (1) ext')
    apply (rule pair_and_then [where P = ?P], simp_all)
    done
qed

lemma tokens_keep_jobs:
  "jc_job_to_template (jc_data (snd (allocate_tokens L cfg n S))) = jc_job_to_template (jc_data S)"
proof (induction n arbitrary: S)
  case 0
  then show ?case by simp
next
  case (Suc n)
  have "jc_job_to_template (jc_data (snd (allocate_token L cfg S))) = jc_job_to_template (jc_data S)" for S
    by (simp add: allocate_token_def send_jd_def Let_def split: sum.split)
  then show ?case using Suc by (auto simp: and_then_def split: prod.split res.split) (metis snd_conv)+
qed

text \<open>A template leaves the jobs of a standard channel beside a group channel unknown.\<close>

lemma template_job_unknown:
  assumes "hm_get (jc_downstream (jc_data S)) did = Some ds" and "hm_distinct (jc_downstream (jc_data S))"
    and "group_channels (jdc_downstream_data ds) \<noteq> None"
    and "cid \<notin> hm_keys (extended_channels (jdc_downstream_data ds))"
    and "unknown_job (did, cid, jid) (jc_job_to_template (jc_data S))"
  shows "unknown_job (did, cid, jid) (jc_job_to_template (jc_data (snd (jdc_new_template L cfg m S))))"
proof -
  let ?Q = "\<lambda>S'. unknown_job (did, cid, jid) (jc_job_to_template (jc_data S')) \<and> jc_downstream (jc_data S') = jc_downstream (jc_data S)"
  let ?P = "\<lambda>S' :: ('a, 'b, 'c, 'd, 'e, 'f, 'g) jdc. unknown_job (did, cid, jid) (jc_job_to_template (jc_data S'))"
  have iter: "unknown_job (did, cid, jid)
      (jc_job_to_template (snd (snd (hm_iter_state (jdc_template_downstream L mode m outs) (jc_downstream (jc_data S)) d))))"
    if "unknown_job (did, cid, jid) (jc_job_to_template d)" for mode outs d
    by (rule iter_state_invariant [where P = "\<lambda>d. unknown_job (did, cid, jid) (jc_job_to_template d)", OF downstream_job_unknown that])
      (use assms(1,3,4) in \<open>auto simp: hm_in_set_get [OF assms(2)]\<close>)
  let ?locked = "\<lambda>outs S2. locked (\<lambda>d. case outs of [] \<Rightarrow> (Panic ''index out of bounds'', d)
      | out # outs \<Rightarrow> let outputs' = out\<lparr>tx_value := nt_coinbase_tx_value_remaining m\<rparr> # outs in
          (case hm_iter_state (jdc_template_downstream L (jc_mode S2) m outputs') (jc_downstream d) d of
             (r, m, d1) \<Rightarrow> (r, d1\<lparr>jc_downstream := m\<rparr>))) S2"
  have lock: "?P (snd (?locked outs S2))" if "?Q S2" for outs S2
  proof (cases outs)
    case (Cons out os)
    then show ?thesis using iter [of "jc_data S2" "jc_mode S2" "out\<lparr>tx_value := nt_coinbase_tx_value_remaining m\<rparr> # os"] that
      by (auto simp: locked_def Let_def split: prod.split)
  qed (use that in \<open>simp add: locked_def\<close>)
  have fin: "?P (snd (and_then (if b then ignore_err (allocate_tokens L cfg n S3) else (Ok (), S3)) (\<lambda>_. forward_each L ms)))"
    if "?P S3" for b n S3 ms
    by (rule and_then_state) (use that tokens_keep_jobs [of L cfg n S3] in \<open>auto dest: arg_cong [where f = snd] simp: core_ignore split: if_splits\<close>)
  let ?S1 = "upd_jc (\<lambda>d. d\<lparr>jc_template_store := hm_insert (nt_template_id m) m (jc_template_store d),
      jc_last_future_template := (if nt_future_template m then Some m else jc_last_future_template d)\<rparr>) S"
  let ?first = "if jc_mode ?S1 = FullTemplate then send_tp (RequestTransactionData (nt_template_id m)) ?S1 else (Ok (), ?S1)"
  have first: "?Q (snd ?first)" using assms(5) by (simp add: send_tp_def)
  let ?k = "\<lambda>ms S3. and_then (if jc_mode S3 = CoinbaseOnly \<and> \<not> nt_future_template m
      then ignore_err (allocate_tokens L cfg 1 S3) else (Ok (), S3)) (\<lambda>_. forward_each L ms)"
  have all: "?P (snd (and_then ?first (\<lambda>_ S2. and_then (?locked outs S2) ?k)))" for outs
  proof (rule and_then_state [where P = ?P])
    fix a S2
    assume eq: "?first = (Ok a, S2)"
    have "?Q S2" using first unfolding eq snd_conv .
    then have l: "?P (snd (?locked outs S2))" by (rule lock)
    then show "?P (snd (and_then (?locked outs S2) ?k))"
    proof (rule and_then_state [where P = ?P, rotated])
      fix ms S3
      assume eq: "?locked outs S2 = (Ok ms, S3)"
      have "?P S3" using l unfolding eq snd_conv .
      then show "?P (snd (?k ms S3))" by (rule fin)
    qed
  qed (use first in blast)
  show ?thesis
  proof (cases "deserialize_outputs L (jc_coinbase_outputs (jc_data ?S1))")
    case None
    then show ?thesis unfolding jdc_new_template_def using assms(5) by simp
  next
    case (Some outs)
    show ?thesis unfolding jdc_new_template_def Let_def [where s = ?S1] Some option.case by (rule all)
  qed
qed

lemma share_of_unknown_job:
  assumes "unknown_job (did, sh_channel_id msg, sh_job_id msg) (jc_job_to_template (jc_data S))"
  shows "out_upstream (snd (jdc_submit_shares_standard L did msg S)) = out_upstream S"
proof -
  have up: "upstream_part L ms = []"
    if "forward_share_upstream L solved did msg pfx tail p d = (Ok ms, d')"
      "jc_job_to_template d = jc_job_to_template (jc_data S)" for solved pfx tail p d ms d'
    using that assms
    by (auto simp: forward_share_upstream_def upstream_share_def unknown_job_def and_then_Ok
        split: option.splits if_splits)
  have share: "upstream_part L ms = []"
    if ok: "jdc_share_standard L did owner msg p (jc_data S, dd) = (Ok ms, s)" for owner p dd ms s
  proof (cases "hm_get (standard_channels dd) (sh_channel_id msg)")
    case None
    then show ?thesis using ok by (auto simp: jdc_share_standard_def)
  next
    case (Some sc)
    obtain vd where vd: "hm_get (jc_vardiff (jc_data S)) (did, sh_channel_id msg) = Some vd"
      using ok Some by (cases "hm_get (jc_vardiff (jc_data S)) (did, sh_channel_id msg)") (simp_all add: jdc_share_standard_def)
    let ?d1 = "(jc_data S)\<lparr>jc_vardiff := hm_insert (did, sh_channel_id msg)
        (vd_increment_shares_since_last_update L vd) (jc_vardiff (jc_data S))\<rparr>"
    obtain res sc1 where res: "sc_validate_share L sc msg = (res, sc1)" by fastforce
    obtain r d' where f: "forward_share_upstream L (\<lambda>uc m. sc_extranonce_prefix L sc1) did msg
        (sc_extranonce_prefix L sc1) [] p ?d1 = (r, d')" by fastforce
    obtain ans valid where a: "answer_share L did owner msg (sc_share_accounting L sc1) res = Ok (ans, valid)"
        "(if valid then map_res ((@) ans) r else Ok ans) = Ok ms"
      using ok Some vd res f by (auto simp: jdc_share_standard_def Let_def and_then_Ok split: if_splits)
    moreover have "upstream_part L ms' = []" if "r = Ok ms'" for ms' using up [OF f [unfolded that]] by simp
    ultimately show ?thesis using answer_share_parts(1) [OF a(1)] by (auto simp: map_res_Ok split: if_splits)
  qed
  obtain r d where l: "share_locked did (\<lambda>owner. jdc_share_standard L did owner msg) (jc_data S) = (r, d)" by fastforce
  have "upstream_part L ms = []" if "r = Ok ms" for ms
    using l that
    by (auto simp: share_locked_def lock_jdc_downstream_def dest!: share split: option.splits prod.splits)
  then show ?thesis
    using l by (cases r) (simp_all add: jdc_submit_shares_standard_def locked_def forwarded_state_def)
qed

text \<open>
  Shares of group jobs. A template gives the miners of a connection with a group channel the
  group's job, but no template is recorded for it on their standard channels: as long as no other
  message records one for the channel and the job, a share of such a job is answered to the miner and
  not sent to the pool.
\<close>

theorem group_job_shares_not_forwarded:
  assumes "hm_get (jc_downstream (jc_data S)) did = Some ds" and "hm_distinct (jc_downstream (jc_data S))"
    and "group_channels (jdc_downstream_data ds) \<noteq> None"
    and "sh_channel_id msg \<notin> hm_keys (extended_channels (jdc_downstream_data ds))"
    and "hm_get (jc_job_to_template (jc_data S)) (did, sh_channel_id msg, sh_job_id msg) = None"
    and "jdc_new_template L cfg t S = (Ok (), S')"
  shows "out_upstream (snd (jdc_submit_shares_standard L did msg S')) = out_upstream S'"
  using share_of_unknown_job [of did msg S' L] template_job_unknown [OF assms(1-4), of "sh_job_id msg" L cfg t] assms(5,6)
  by (simp add: unknown_job_def)

definition jdemo_grouped ::
  "(jdemo_channel, jdemo_channel, u32, nat, jdemo_factory, jdemo_upstream, nat) jdc" where
  "jdemo_grouped = upd_jc (\<lambda>d. d\<lparr>jc_downstream := [(0, jdemo_miner\<lparr>jdc_downstream_data :=
     (jdc_downstream_data jdemo_miner)\<lparr>group_channels := Some 1, standard_channels := [(2, [9, 9, 1], 70)]\<rparr>\<rparr>)]\<rparr>) jdemo_mining"

theorem group_job_shares_not_forwarded_witness:
  "\<exists>S'. jdc_new_template jdemo_lib jdemo_config jdemo_template jdemo_grouped = (Ok (), S') \<and>
     (0, NewExtendedMiningJob (job_msg jdemo_job)) \<in> set (out_downstream S') \<and>
     out_upstream (snd (jdc_submit_shares_standard jdemo_lib 0
       \<lparr>sh_channel_id = 2, sh_sequence_number = 1, sh_job_id = 7, sh_nonce = 0, sh_ntime = 1001, sh_version = 2\<rparr> S')) =
     out_upstream S'"
proof -
  let ?msg = "\<lparr>sh_channel_id = 2, sh_sequence_number = 1, sh_job_id = 7, sh_nonce = 0, sh_ntime = 1001, sh_version = 2\<rparr>"
  let ?ds = "jdemo_miner\<lparr>jdc_downstream_data :=
     (jdc_downstream_data jdemo_miner)\<lparr>group_channels := Some 1, standard_channels := [(2, [9, 9, 1], 70)]\<rparr>\<rparr>"
  obtain S' where S': "jdc_new_template jdemo_lib jdemo_config jdemo_template jdemo_grouped = (Ok (), S')"
      "(0, NewExtendedMiningJob (job_msg jdemo_job)) \<in> set (out_downstream S')"
    by (simp add: jdemo_grouped_def jdemo_mining_def jdemo_connected_def jdemo_miner_def jdemo_defs jdc_eval jdc_map_eval
        jdc_template_standard_def jdc_template_extended_def jdc_extended_job_def Let_def)
  have "hm_get (jc_downstream (jc_data jdemo_grouped)) 0 = Some ?ds" "hm_distinct (jc_downstream (jc_data jdemo_grouped))"
    "group_channels (jdc_downstream_data ?ds) \<noteq> None"
    "sh_channel_id ?msg \<notin> hm_keys (extended_channels (jdc_downstream_data ?ds))"
    "hm_get (jc_job_to_template (jc_data jdemo_grouped)) (0, sh_channel_id ?msg, sh_job_id ?msg) = None"
    by (simp_all add: jdemo_grouped_def jdemo_mining_def jdemo_connected_def jdemo_miner_def hm_get_def hm_distinct_def hm_keys_def)
  from group_job_shares_not_forwarded [OF this S'(1)] S' show ?thesis by blast
qed

section \<open>The target announced after a vardiff pass\<close>

lemma fold_min: "fold (\<lambda>(h, t) m. min t m) loads (a :: u256) = Min (insert a (snd ` set loads))"
proof (induction loads arbitrary: a)
  case Nil
  then show ?case by simp
next
  case (Cons x xs)
  have "Min (insert (min (snd x) a) (snd ` set xs)) = Min (insert a (insert (snd x) (snd ` set xs)))"
    by (cases "snd ` set xs = {}") (simp_all add: Min_insert min.assoc min.left_commute min.commute [of "snd x" a])
  then show ?case using Cons by (simp add: case_prod_beta)
qed

lemma minimum_target_eq: "minimum_target loads = Min (insert (- 1) (snd ` set loads))"
  by (simp add: minimum_target_def fold_min)

lemma bytes_le_head:
  assumes "(ucast t :: u8) < ucast m"
  shows "bytes_le (target_le_bytes t) (target_le_bytes m)"
  using assms by (simp add: target_le_bytes_def upt_rec [of 0])

definition jdemo_two_channels ::
  "(jdemo_channel, jdemo_channel, u32, nat, jdemo_factory, jdemo_upstream, nat) jdc" where
  "jdemo_two_channels = upd_jc (\<lambda>d. d\<lparr>jc_downstream := [(0, jdemo_miner\<lparr>jdc_downstream_data :=
     (jdc_downstream_data jdemo_miner)\<lparr>extended_channels := [(0, [9, 9, 0], 77), (1, [9, 9, 1], 256)]\<rparr>\<rparr>)],
     jc_vardiff := [((0, 0), 1), ((0, 1), 0)]\<rparr>) jdemo_connected"

text \<open>
  The minimum target. The client is to announce to the pool the least target of its channels, as
  \<open>minimum_target\<close> computes it for the handler of \<open>UpdateChannel\<close>. The vardiff pass compares the
  little-endian bytes, least significant byte first, and can announce the target of an easier
  channel: in this state with two channels of targets 42 and 256 it announces 256.
\<close>

theorem vardiff_announces_wrong_minimum:
  "\<exists>S'. jdc_run_vardiff jdemo_lib jdemo_two_channels = (Ok (), S') \<and>
      map snd (channel_loads jdemo_lib (jc_downstream (jc_data S'))) = [42, 256] \<and>
      out_upstream S' = out_upstream jdemo_two_channels @
        [UpdateUpstream \<lparr>uc_channel_id = 1, uc_nominal_hash_rate = 2, uc_maximum_target = 256\<rparr>]"
proof -
  have min: "vardiff_minimum [(1, 42), (1, 256)] = 256"
  proof -
    have "(ucast (- 1 :: u256) :: u8) = - 1" by (rule bit_word_eqI) (simp add: bit_simps)
    then have "bytes_le (target_le_bytes 42) (target_le_bytes (- 1))" by (intro bytes_le_head) simp
    then show ?thesis by (simp add: vardiff_minimum_def bytes_le_head)
  qed
  show "\<exists>S'. jdc_run_vardiff jdemo_lib jdemo_two_channels = (Ok (), S') \<and>
      map snd (channel_loads jdemo_lib (jc_downstream (jc_data S'))) = [42, 256] \<and>
      out_upstream S' = out_upstream jdemo_two_channels @
        [UpdateUpstream \<lparr>uc_channel_id = 1, uc_nominal_hash_rate = 2, uc_maximum_target = 256\<rparr>]"
    by (simp add: jdemo_two_channels_def jdemo_connected_def jdemo_miner_def jdc_run_vardiff_def locked_def
        jdc_vardiff_entry_def jdc_vardiff_extended_def channel_loads_def jdc_total_hashrate_def jdc_map_eval
        forwarded_state_def min Let_def)
qed

end
