(* ===== verification/Jdc_Links.thy ===== *)
theory Jdc_Links
  imports Jdc_Manager Message_Type
begin

text \<open>
  The connections of the job declarator client: to its miners (\<open>downstream/\<close>), to the pool
  (\<open>upstream/\<close>) and to the job declarator server (\<open>job_declarator/\<close>). Each connection sets
  itself up, then its loop takes frames of the peer, messages of the channel manager and shutdown
  signals one at a time; an error becomes a status (\<open>status.rs\<close>). Parsing and encoding of frames
  belong to the protocol crates and are the fields of \<open>link_lib\<close>.
\<close>

section \<open>Messages\<close>

datatype setup_protocol = MiningProtocol | JobDeclarationProtocol | TemplateDistributionProtocol

record jdc_setup =
  js_protocol :: setup_protocol
  js_min_version :: u16
  js_max_version :: u16
  js_flags :: u32
  js_endpoint_host :: bytes
  js_endpoint_port :: u16
  js_vendor :: bytes
  js_hardware_version :: bytes
  js_firmware :: bytes
  js_device_id :: bytes

text \<open>What the client puts into the outbound queue of a connection.\<close>

datatype link_message =
    Msg_Setup jdc_setup
  | Msg_SetupSuccess u16 u32
  | Msg_SetupError u32 string
  | Msg_RequestExtensions u16 "u16 list"
  | Msg_ExtensionsSuccess u16 "u16 list"
  | Msg_ExtensionsError u16 "u16 list" "u16 list"
  | Msg_Mining mining
  | Msg_Declaration jd_request
  | Msg_Frame upstream_mining

text \<open>
  What a miner sends after the setup, parsed: extension messages other than a request are refused
  by the dispatcher of \<open>handlers_sv2\<close> with an error. Below, the common messages of a server.
\<close>

datatype client_message =
    Client_Mining miner_message
  | Client_Extensions request_extensions
  | Client_Refused jdc_error
  | Client_Other

datatype server_common =
    Server_SetupSuccess u16 u32
  | Server_SetupError u32 string
  | Server_EndpointChanged u32
  | Server_Reconnect bytes u16

record 'j link_lib =
  lk_values :: message_values
  lk_negotiation :: u16
  lk_encode :: "link_message \<Rightarrow> parser_error + unit"
  lk_parse_setup :: "u16 \<times> u8 \<Rightarrow> bytes \<Rightarrow> jdc_error + jdc_setup"
  lk_parse_client :: "u16 \<times> u8 \<Rightarrow> bytes \<Rightarrow> u16 list \<Rightarrow> parser_error + client_message"
  lk_parse_server :: "u16 \<times> u8 \<Rightarrow> bytes \<Rightarrow> jdc_error + server_common"
  lk_parse_declaration :: "u8 \<Rightarrow> bytes \<Rightarrow> parser_error + 'j"
  lk_allow_full_template :: "u32 \<Rightarrow> u32"

text \<open>
  The two unbounded queues a connection writes to, with what was put into them and whether their
  receiving ends still exist.
\<close>

record 'm link =
  ln_sent :: "link_message list"
  ln_open :: bool
  ln_manager :: "'m list"
  ln_manager_open :: bool

definition link_new :: "'m link" where
  "link_new = \<lparr>ln_sent = [], ln_open = True, ln_manager = [], ln_manager_open = True\<rparr>"

text \<open>\<open>_ = sender.send(frame)\<close>: a frame for a closed queue is lost.\<close>

definition post_link :: "link_message \<Rightarrow> 'm link \<Rightarrow> 'm link" where
  "post_link m c = (if ln_open c then c\<lparr>ln_sent := ln_sent c @ [m]\<rparr> else c)"

definition send_link :: "jdc_error \<Rightarrow> link_message \<Rightarrow> 'm link \<Rightarrow> (jdc_error, unit) res \<times> 'm link" where
  "send_link closed m c = (if ln_open c then (Ok (), post_link m c) else (Err closed, c))"

definition send_encoded ::
  "'j link_lib \<Rightarrow> jdc_error \<Rightarrow> link_message \<Rightarrow> 'm link \<Rightarrow> (jdc_error, unit) res \<times> 'm link" where
  "send_encoded K closed m c =
     and_then (from_sum Parser (lk_encode K m), c) (\<lambda>_. send_link closed m)"

definition hand_to_manager :: "'m \<Rightarrow> 'm link \<Rightarrow> (jdc_error, unit) res \<times> 'm link" where
  "hand_to_manager m c =
     (if ln_manager_open c then (Ok (), c\<lparr>ln_manager := ln_manager c @ [m]\<rparr>)
      else (Err ChannelErrorSender, c))"

section \<open>Status and shutdown\<close>

datatype jdc_status_sender =
    From_Downstream downstream_id | From_TemplateReceiver | From_ChannelManager | From_Upstream
  | From_JobDeclarator

datatype jdc_state =
    State_DownstreamShutdown downstream_id jdc_error
  | State_TemplateReceiverShutdown jdc_error
  | State_JobDeclaratorFallback jdc_error
  | State_ChannelManagerShutdown jdc_error
  | State_UpstreamFallback jdc_error

primrec jdc_state_of :: "jdc_status_sender \<Rightarrow> jdc_error \<Rightarrow> jdc_state" where
  "jdc_state_of (From_Downstream i) e = State_DownstreamShutdown i e"
| "jdc_state_of From_TemplateReceiver e = State_TemplateReceiverShutdown e"
| "jdc_state_of From_ChannelManager e = State_ChannelManagerShutdown e"
| "jdc_state_of From_Upstream e = State_UpstreamFallback e"
| "jdc_state_of From_JobDeclarator e = State_JobDeclaratorFallback e"

datatype jdc_shutdown_message =
    ShutdownAll
  | DownstreamShutdownAll
  | DownstreamShutdown downstream_id
  | JobDeclaratorShutdownFallback bytes
  | UpstreamShutdownFallback bytes
  | JobDeclaratorShutdown
  | UpstreamShutdown

text \<open>
  Which signals end a loop; \<open>None\<close> is a broadcast queue that is closed or was too slow. The reader
  and the writer of every connection watch the same queue (\<open>io_task.rs\<close>).
\<close>

definition downstream_stops :: "downstream_id \<Rightarrow> jdc_shutdown_message option \<Rightarrow> bool" where
  "downstream_stops did msg =
     (case msg of
        Some ShutdownAll \<Rightarrow> True
      | Some (DownstreamShutdown i) \<Rightarrow> i = did
      | Some (JobDeclaratorShutdownFallback _) \<Rightarrow> True
      | Some (UpstreamShutdownFallback _) \<Rightarrow> True
      | _ \<Rightarrow> False)"

definition server_link_stops :: "jdc_shutdown_message option \<Rightarrow> bool" where
  "server_link_stops msg =
     (case msg of
        None \<Rightarrow> True
      | Some ShutdownAll \<Rightarrow> True
      | Some (JobDeclaratorShutdownFallback _) \<Rightarrow> True
      | Some (UpstreamShutdownFallback _) \<Rightarrow> True
      | Some UpstreamShutdown \<Rightarrow> True
      | Some JobDeclaratorShutdown \<Rightarrow> True
      | _ \<Rightarrow> False)"

definition io_task_stops :: "jdc_status_sender \<Rightarrow> jdc_shutdown_message option \<Rightarrow> bool" where
  "io_task_stops who msg =
     (case msg of
        None \<Rightarrow> False
      | Some ShutdownAll \<Rightarrow> True
      | Some DownstreamShutdownAll \<Rightarrow> False
      | Some (DownstreamShutdown i) \<Rightarrow> who = From_Downstream i
      | Some _ \<Rightarrow> who \<noteq> From_TemplateReceiver)"

text \<open>
  A turn of a loop: whether the loop goes on, the statuses sent and the state. A panic ends the
  task without a status.
\<close>

definition loop_turn ::
  "jdc_status_sender \<Rightarrow> (jdc_error, unit) res \<times> 's \<Rightarrow> bool \<times> jdc_state list \<times> 's" where
  "loop_turn who m =
     (case m of
        (Ok _, s) \<Rightarrow> (True, [], s)
      | (Err e, s) \<Rightarrow> (False, [jdc_state_of who e], s)
      | (Panic p, s) \<Rightarrow> (False, [], s))"

section \<open>Connections to miners\<close>

type_synonym ('sc, 'ec, 'gc) miner_link =
  "('sc, 'ec, 'gc) jdc_downstream_data \<times> (downstream_id \<times> miner_message) link"

definition jdc_handle_setup_connection ::
  "('sc, 'ec, 'gc, 'vd, 'xf, 'uc, 'jf) jdc_lib \<Rightarrow> 'j link_lib \<Rightarrow> jdc_setup \<Rightarrow>
     ('sc, 'ec, 'gc) miner_link \<Rightarrow> (jdc_error, unit) res \<times> ('sc, 'ec, 'gc) miner_link" where
  "jdc_handle_setup_connection L K msg s =
     (case s of (dd, c) \<Rightarrow>
      if js_protocol msg \<noteq> MiningProtocol then
        let m = Msg_SetupError 0 ''unsupported-protocol'' in
        (case lk_encode K m of
           Inl e \<Rightarrow> (Err (Parser e), dd, c)
         | Inr _ \<Rightarrow> (Err Shutdown, dd, post_link m c))
      else if has_work_selection L (js_flags msg) then
        let m = Msg_SetupError 2 ''unsupported-feature-flags'' in
        (case lk_encode K m of
           Inl e \<Rightarrow> (Panic ''called `Result::unwrap()` on an `Err` value'', dd, c)
         | Inr _ \<Rightarrow> (Err Shutdown, dd, post_link m c))
      else
        let dd1 = (if has_requires_std_job L (js_flags msg) then dd\<lparr>require_std_job := True\<rparr> else dd);
            m = Msg_SetupSuccess 2 (js_flags msg) in
        (case lk_encode K m of
           Inl e \<Rightarrow> (Err (Parser e), dd1, c)
         | Inr _ \<Rightarrow> (Ok (), dd1, post_link m c)))"

text \<open>The first frame; \<open>None\<close> is a closed inbound queue.\<close>

definition jdc_setup_with_downstream ::
  "('sc, 'ec, 'gc, 'vd, 'xf, 'uc, 'jf) jdc_lib \<Rightarrow> 'j link_lib \<Rightarrow> frame option \<Rightarrow>
     ('sc, 'ec, 'gc) miner_link \<Rightarrow> (jdc_error, unit) res \<times> ('sc, 'ec, 'gc) miner_link" where
  "jdc_setup_with_downstream L K received s =
     (case received of
        None \<Rightarrow> (Err ChannelErrorReceiver, s)
      | Some fr \<Rightarrow>
          (case fr_header fr of
             None \<Rightarrow> (Panic ''frame header must be present'', s)
           | Some (ext, mt) \<Rightarrow>
               if mt = lk_values K MESSAGE_TYPE_SETUP_CONNECTION then
                 (case lk_parse_setup K (ext, mt) (fr_payload fr) of
                    Inl e \<Rightarrow> (Err e, s)
                  | Inr msg \<Rightarrow> jdc_handle_setup_connection L K msg s)
               else (Err (UnexpectedMessage ext mt), s)))"

definition jdc_handle_request_extensions ::
  "('sc, 'ec, 'gc, 'vd, 'xf, 'uc, 'jf) jdc_lib \<Rightarrow> 'j link_lib \<Rightarrow> request_extensions \<Rightarrow>
     ('sc, 'ec, 'gc) miner_link \<Rightarrow> (jdc_error, unit) res \<times> ('sc, 'ec, 'gc) miner_link" where
  "jdc_handle_request_extensions L K msg s =
     (case s of (dd, c) \<Rightarrow>
      let requested = rx_requested msg;
          supported = filter (\<lambda>e. e \<in> set (dd_supported_extensions dd)) requested;
          unsupported = filter (\<lambda>e. e \<notin> set (dd_supported_extensions dd)) requested;
          missing_required = filter (\<lambda>e. e \<notin> set requested) (dd_required_extensions dd) in
      if supported = [] \<or> missing_required \<noteq> [] then
        (case seq064k_new L unsupported of
           Inl _ \<Rightarrow> (Err InvalidUnsupportedExtensionsSequence, dd, c)
         | Inr us \<Rightarrow>
             (case seq064k_new L missing_required of
                Inl _ \<Rightarrow> (Err InvalidRequiredExtensionsSequence, dd, c)
              | Inr rs \<Rightarrow>
                  let m = Msg_ExtensionsError (rx_request_id msg) us rs in
                  (case lk_encode K m of
                     Inl e \<Rightarrow> (Err (Parser e), dd, c)
                   | Inr _ \<Rightarrow> (Ok (), dd, post_link m c))))
      else
        let dd1 = dd\<lparr>negotiated_extensions := supported\<rparr> in
        (case seq064k_new L supported of
           Inl _ \<Rightarrow> (Err InvalidSupportedExtensionsSequence, dd1, c)
         | Inr ss \<Rightarrow>
             let m = Msg_ExtensionsSuccess (rx_request_id msg) ss in
             (case lk_encode K m of
                Inl e \<Rightarrow> (Err (Parser e), dd1, c)
              | Inr _ \<Rightarrow> (Ok (), dd1, post_link m c))))"

definition jdc_deliver_to_miner ::
  "'j link_lib \<Rightarrow> downstream_id \<Rightarrow> (downstream_id \<times> mining) option \<Rightarrow>
     ('sc, 'ec, 'gc) miner_link \<Rightarrow> (jdc_error, unit) res \<times> ('sc, 'ec, 'gc) miner_link" where
  "jdc_deliver_to_miner K did received s =
     (case received of
        None \<Rightarrow> (Ok (), s)
      | Some (i, m) \<Rightarrow>
          if i \<noteq> did then (Ok (), s)
          else (case send_encoded K CodecNoise (Msg_Mining m) (snd s) of (r, c) \<Rightarrow> (r, fst s, c)))"

definition jdc_handle_miner_frame ::
  "('sc, 'ec, 'gc, 'vd, 'xf, 'uc, 'jf) jdc_lib \<Rightarrow> 'j link_lib \<Rightarrow> downstream_id \<Rightarrow> frame option \<Rightarrow>
     ('sc, 'ec, 'gc) miner_link \<Rightarrow> (jdc_error, unit) res \<times> ('sc, 'ec, 'gc) miner_link" where
  "jdc_handle_miner_frame L K did received s =
     (case received of
        None \<Rightarrow> (Err ChannelErrorReceiver, s)
      | Some fr \<Rightarrow>
          (case fr_header fr of
             None \<Rightarrow> (Panic ''frame header must be present'', s)
           | Some h \<Rightarrow>
               (case lk_parse_client K h (fr_payload fr) (negotiated_extensions (fst s)) of
                  Inl e \<Rightarrow> (Err (Parser e), s)
                | Inr (Client_Mining m) \<Rightarrow>
                    (case hand_to_manager (did, m) (snd s) of (r, c) \<Rightarrow> (r, fst s, c))
                | Inr (Client_Extensions m) \<Rightarrow> jdc_handle_request_extensions L K m s
                | Inr (Client_Refused e) \<Rightarrow> (Err e, s)
                | Inr Client_Other \<Rightarrow> (Ok (), s))))"

definition jdc_downstream_turn ::
  "('sc, 'ec, 'gc, 'vd, 'xf, 'uc, 'jf) jdc_lib \<Rightarrow> 'j link_lib \<Rightarrow> downstream_id \<Rightarrow>
     (jdc_shutdown_message, downstream_id \<times> mining) link_event \<Rightarrow> ('sc, 'ec, 'gc) miner_link \<Rightarrow>
     bool \<times> jdc_state list \<times> ('sc, 'ec, 'gc) miner_link" where
  "jdc_downstream_turn L K did ev s =
     (case ev of
        Signal msg \<Rightarrow> (\<not> downstream_stops did msg, [], s)
      | From_Peer fr \<Rightarrow> loop_turn (From_Downstream did) (jdc_handle_miner_frame L K did fr s)
      | From_Manager m \<Rightarrow> loop_turn (From_Downstream did) (jdc_deliver_to_miner K did m s))"

definition jdc_downstream_start ::
  "('sc, 'ec, 'gc, 'vd, 'xf, 'uc, 'jf) jdc_lib \<Rightarrow> 'j link_lib \<Rightarrow> downstream_id \<Rightarrow> frame option \<Rightarrow>
     (jdc_shutdown_message, downstream_id \<times> mining) link_event list \<Rightarrow> ('sc, 'ec, 'gc) miner_link \<Rightarrow>
     bool \<times> jdc_state list \<times> ('sc, 'ec, 'gc) miner_link" where
  "jdc_downstream_start L K did first events s =
     (case loop_turn (From_Downstream did) (jdc_setup_with_downstream L K first s) of
        (True, _, s1) \<Rightarrow> run_loop (jdc_downstream_turn L K did) events s1
      | stopped \<Rightarrow> stopped)"

section \<open>The connection to the pool\<close>

text \<open>The endpoint of a server: its IP address as text, and its port.\<close>

type_synonym address = "string \<times> u16"

definition string_bytes :: "string \<Rightarrow> bytes" where
  "string_bytes s = map of_char s"

definition get_setup_connection_message ::
  "('sc, 'ec, 'gc, 'vd, 'xf, 'uc, 'jf) jdc_lib \<Rightarrow> u16 \<Rightarrow> u16 \<Rightarrow> (jdc_error, jdc_setup) res" where
  "get_setup_connection_message L min_version max_version =
     (case b0255_try_from L (string_bytes ''0.0.0.0'') of
        Inl e \<Rightarrow> Err (BinarySv2 e)
      | Inr host \<Rightarrow>
          (case str0255_try_from L [] of
             Inl e \<Rightarrow> Err (BinarySv2 e)
           | Inr blank \<Rightarrow>
               Ok \<lparr>js_protocol = MiningProtocol, js_min_version = min_version, js_max_version = max_version,
                   js_flags = 6, js_endpoint_host = host, js_endpoint_port = 50, js_vendor = blank,
                   js_hardware_version = blank, js_firmware = blank, js_device_id = blank\<rparr>))"

definition send_request_extensions ::
  "('sc, 'ec, 'gc, 'vd, 'xf, 'uc, 'jf) jdc_lib \<Rightarrow> 'j link_lib \<Rightarrow> u16 list \<Rightarrow> 'm link \<Rightarrow>
     (jdc_error, unit) res \<times> 'm link" where
  "send_request_extensions L K required c =
     (if required = [] then (Ok (), c)
      else and_then (from_sum BinarySv2 (seq064k_new L required), c)
             (\<lambda>exts. send_encoded K ChannelErrorSender (Msg_RequestExtensions 0 exts)))"

definition upstream_common :: "server_common \<Rightarrow> (jdc_error, unit) res" where
  "upstream_common m = (case m of Server_SetupError _ _ \<Rightarrow> Err Shutdown | _ \<Rightarrow> Ok ())"

text \<open>The setup with the answer of the pool; \<open>None\<close> is a connection closed before an answer.\<close>

definition upstream_setup ::
  "('sc, 'ec, 'gc, 'vd, 'xf, 'uc, 'jf) jdc_lib \<Rightarrow> 'j link_lib \<Rightarrow> u16 \<Rightarrow> u16 \<Rightarrow> u16 list \<Rightarrow> frame option \<Rightarrow>
     frame link \<Rightarrow> (jdc_error, unit) res \<times> frame link" where
  "upstream_setup L K min_version max_version required answer c =
     and_then (get_setup_connection_message L min_version max_version, c) (\<lambda>msg c.
     and_then (send_encoded K CodecNoise (Msg_Setup msg) c) (\<lambda>_ c.
     case answer of
       None \<Rightarrow> (Err CodecNoise, c)
     | Some fr \<Rightarrow>
         (case fr_header fr of
            None \<Rightarrow> (Err FramingMissingHeader, c)
          | Some h \<Rightarrow>
              (case lk_parse_server K h (fr_payload fr) of
                 Inl e \<Rightarrow> (Err e, c)
               | Inr m \<Rightarrow>
                   and_then (upstream_common m, c) (\<lambda>_. send_request_extensions L K required)))))"

text \<open>Mining and extension frames go to the channel manager as they are.\<close>

definition upstream_handle_frame ::
  "'j link_lib \<Rightarrow> frame option \<Rightarrow> frame link \<Rightarrow> (jdc_error, unit) res \<times> frame link" where
  "upstream_handle_frame K received c =
     (case received of
        None \<Rightarrow> (Err ChannelErrorReceiver, c)
      | Some fr \<Rightarrow>
          (case fr_header fr of
             None \<Rightarrow> (Err FramingMissingHeader, c)
           | Some (ext, mt) \<Rightarrow>
               (case protocol_message_type (lk_values K) (lk_negotiation K) ext mt of
                  Common_Message \<Rightarrow>
                    (case lk_parse_server K (ext, mt) (fr_payload fr) of
                       Inl e \<Rightarrow> (Err e, c)
                     | Inr m \<Rightarrow> (upstream_common m, c))
                | Mining_Message \<Rightarrow> hand_to_manager fr c
                | Extensions_Message \<Rightarrow> hand_to_manager fr c
                | _ \<Rightarrow> (Ok (), c))))"

definition upstream_forward ::
  "upstream_mining option \<Rightarrow> frame link \<Rightarrow> (jdc_error, unit) res \<times> frame link" where
  "upstream_forward received c =
     (case received of None \<Rightarrow> (Ok (), c) | Some m \<Rightarrow> send_link CodecNoise (Msg_Frame m) c)"

definition upstream_turn ::
  "'j link_lib \<Rightarrow> (jdc_shutdown_message, upstream_mining) link_event \<Rightarrow> frame link \<Rightarrow> bool \<times> jdc_state list \<times> frame link" where
  "upstream_turn K ev c =
     (case ev of
        Signal msg \<Rightarrow> (\<not> server_link_stops msg, [], c)
      | From_Peer fr \<Rightarrow> loop_turn From_Upstream (upstream_handle_frame K fr c)
      | From_Manager m \<Rightarrow> loop_turn From_Upstream (upstream_forward m c))"

text \<open>
  \<open>Upstream::start\<close> returns after a failed setup without a status; the loop runs in a task of its
  own.
\<close>

definition upstream_start ::
  "('sc, 'ec, 'gc, 'vd, 'xf, 'uc, 'jf) jdc_lib \<Rightarrow> 'j link_lib \<Rightarrow> u16 \<Rightarrow> u16 \<Rightarrow> u16 list \<Rightarrow> frame option \<Rightarrow>
     frame link \<Rightarrow> bool \<times> jdc_state list \<times> frame link" where
  "upstream_start L K min_version max_version required answer c =
     (case upstream_setup L K min_version max_version required answer c of
        (Ok _, c1) \<Rightarrow> (True, [], c1)
      | (_, c1) \<Rightarrow> (False, [], c1))"

section \<open>The connection to the job declarator server\<close>

datatype config_jdc_mode = Config_FullTemplate | Config_CoinbaseOnly

definition get_setup_connection_message_jds ::
  "('sc, 'ec, 'gc, 'vd, 'xf, 'uc, 'jf) jdc_lib \<Rightarrow> 'j link_lib \<Rightarrow> address \<Rightarrow> config_jdc_mode \<Rightarrow>
     (jdc_error, jdc_setup) res" where
  "get_setup_connection_message_jds L K addr mode =
     (case b0255_try_from L (string_bytes (fst addr)) of
        Inl e \<Rightarrow> Panic ''called `Result::unwrap()` on an `Err` value''
      | Inr host \<Rightarrow>
          (case str0255_try_from L [] of
             Inl e \<Rightarrow> Panic ''called `Result::unwrap()` on an `Err` value''
           | Inr blank \<Rightarrow>
               Ok \<lparr>js_protocol = JobDeclarationProtocol, js_min_version = 2, js_max_version = 2,
                   js_flags = (if mode = Config_FullTemplate then lk_allow_full_template K 0 else 0),
                   js_endpoint_host = host, js_endpoint_port = snd addr, js_vendor = blank,
                   js_hardware_version = blank, js_firmware = blank, js_device_id = blank\<rparr>))"

text \<open>The state of this connection has the global operating mode, which the server's answer sets.\<close>

definition jd_common ::
  "server_common \<Rightarrow> jd_mode \<times> 'm link \<Rightarrow> (jdc_error, unit) res \<times> jd_mode \<times> 'm link" where
  "jd_common m s =
     (case m of
        Server_SetupSuccess _ flags \<Rightarrow>
          let mode = (if flags = 0 then CoinbaseOnly else if flags = 1 then FullTemplate else SoloMining) in
          (if mode = SoloMining then Err Shutdown else Ok (), mode, snd s)
      | Server_SetupError _ _ \<Rightarrow> (Err Shutdown, s)
      | _ \<Rightarrow> (Ok (), s))"

definition jd_setup ::
  "('sc, 'ec, 'gc, 'vd, 'xf, 'uc, 'jf) jdc_lib \<Rightarrow> 'j link_lib \<Rightarrow> address \<Rightarrow> config_jdc_mode \<Rightarrow>
     frame option \<Rightarrow> jd_mode \<times> 'j link \<Rightarrow> (jdc_error, unit) res \<times> jd_mode \<times> 'j link" where
  "jd_setup L K addr mode answer s =
     and_then (get_setup_connection_message_jds L K addr mode, s) (\<lambda>msg s.
     case lk_encode K (Msg_Setup msg) of
       Inl e \<Rightarrow> (Err CodecNoise, s)
     | Inr _ \<Rightarrow>
         and_then (case send_link ChannelErrorSender (Msg_Setup msg) (snd s) of (r, c) \<Rightarrow> (r, fst s, c))
           (\<lambda>_ s. case answer of
              None \<Rightarrow> (Err CodecNoise, s)
            | Some fr \<Rightarrow>
                (case fr_header fr of
                   None \<Rightarrow> (Err FramingMissingHeader, s)
                 | Some h \<Rightarrow>
                     (case lk_parse_server K h (fr_payload fr) of
                        Inl e \<Rightarrow> (Err e, s)
                      | Inr m \<Rightarrow> jd_common m s))))"

definition jd_handle_frame ::
  "'j link_lib \<Rightarrow> frame option \<Rightarrow> jd_mode \<times> 'j link \<Rightarrow> (jdc_error, unit) res \<times> jd_mode \<times> 'j link" where
  "jd_handle_frame K received s =
     (case received of
        None \<Rightarrow> (Err ChannelErrorReceiver, s)
      | Some fr \<Rightarrow>
          (case fr_header fr of
             None \<Rightarrow> (Err FramingMissingHeader, s)
           | Some (ext, mt) \<Rightarrow>
               (case protocol_message_type (lk_values K) (lk_negotiation K) ext mt of
                  Common_Message \<Rightarrow>
                    (case lk_parse_server K (ext, mt) (fr_payload fr) of
                       Inl e \<Rightarrow> (Err e, s)
                     | Inr m \<Rightarrow> jd_common m s)
                | JobDeclaration_Message \<Rightarrow>
                    (case lk_parse_declaration K mt (fr_payload fr) of
                       Inl e \<Rightarrow> (Err (Parser e), s)
                     | Inr m \<Rightarrow> (case hand_to_manager m (snd s) of (r, c) \<Rightarrow> (r, fst s, c)))
                | _ \<Rightarrow> (Ok (), s))))"

definition jd_forward ::
  "'j link_lib \<Rightarrow> jd_request option \<Rightarrow> jd_mode \<times> 'j link \<Rightarrow> (jdc_error, unit) res \<times> jd_mode \<times> 'j link" where
  "jd_forward K received s =
     (case received of
        None \<Rightarrow> (Ok (), s)
      | Some m \<Rightarrow>
          (case send_encoded K ChannelErrorSender (Msg_Declaration m) (snd s) of (r, c) \<Rightarrow> (r, fst s, c)))"

definition jd_turn ::
  "'j link_lib \<Rightarrow> (jdc_shutdown_message, jd_request) link_event \<Rightarrow> jd_mode \<times> 'j link \<Rightarrow> bool \<times> jdc_state list \<times> jd_mode \<times> 'j link" where
  "jd_turn K ev s =
     (case ev of
        Signal msg \<Rightarrow> (\<not> server_link_stops msg, [], s)
      | From_Peer fr \<Rightarrow> loop_turn From_JobDeclarator (jd_handle_frame K fr s)
      | From_Manager m \<Rightarrow> loop_turn From_JobDeclarator (jd_forward K m s))"

definition jd_start ::
  "('sc, 'ec, 'gc, 'vd, 'xf, 'uc, 'jf) jdc_lib \<Rightarrow> 'j link_lib \<Rightarrow> address \<Rightarrow> config_jdc_mode \<Rightarrow>
     frame option \<Rightarrow> jd_mode \<times> 'j link \<Rightarrow> bool \<times> jdc_state list \<times> jd_mode \<times> 'j link" where
  "jd_start L K addr mode answer s = loop_turn From_JobDeclarator (jd_setup L K addr mode answer s)"

end
