(* ===== verification/Jdc_Client.thy ===== *)
theory Jdc_Client
  imports Jdc_Links
begin

text \<open>
  The main task of the job declarator client (\<open>lib/mod.rs\<close>): it connects to the first of the
  configured pairs of pool and job declarator server that can be reached, then listens to the
  statuses of its tasks, and on a lost server falls back to the next pair or to solo mining. What
  the network does is a parameter; its clock is the number of connection attempts so far.
\<close>

section \<open>Connecting to a pair of servers\<close>

record upstream_addr =
  ua_pool :: address
  ua_jds :: address
  ua_key :: bytes
  ua_used :: bool

text \<open>
  The outcome of an attempt to reach a server: the error of the connection or of its encryption
  (\<open>Upstream::new\<close>, \<open>JobDeclarator::new\<close>), or a connection, given by the answer of the server to
  the setup.
\<close>

record jdc_network =
  nw_pool :: "nat \<Rightarrow> address \<Rightarrow> bytes \<Rightarrow> jdc_error + frame option"
  nw_jds :: "nat \<Rightarrow> address \<Rightarrow> bytes \<Rightarrow> jdc_error + frame option"

definition try_initialize_single ::
  "jdc_network \<Rightarrow> nat \<Rightarrow> upstream_addr \<Rightarrow> jdc_error + frame option \<times> frame option" where
  "try_initialize_single N n u =
     (case nw_pool N n (ua_pool u) (ua_key u) of
        Inl e \<Rightarrow> Inl e
      | Inr p \<Rightarrow>
          (case nw_jds N n (ua_jds u) (ua_key u) of
             Inl e \<Rightarrow> Inl e
           | Inr j \<Rightarrow> Inr (p, j)))"

definition MAX_RETRIES :: nat where
  "MAX_RETRIES = 3"

text \<open>
  The attempts for one pair, with the clock and the signals broadcast after the failed ones.
\<close>

fun try_upstream ::
  "jdc_network \<Rightarrow> nat \<Rightarrow> nat \<Rightarrow> upstream_addr \<Rightarrow>
     (frame option \<times> frame option) option \<times> nat \<times> jdc_shutdown_message list" where
  "try_upstream N 0 n u = (None, n, [])"
| "try_upstream N (Suc k) n u =
     (case try_initialize_single N n u of
        Inr pair \<Rightarrow> (Some pair, Suc n, [])
      | Inl _ \<Rightarrow>
          (case try_upstream N k (Suc n) u of (r, n1, ms) \<Rightarrow> (r, n1, JobDeclaratorShutdown # ms)))"

text \<open>
  The pairs in order; a pair is marked once its attempts are over, whatever their outcome.
\<close>

fun initialize_jd ::
  "jdc_network \<Rightarrow> nat \<Rightarrow> upstream_addr list \<Rightarrow>
     (jdc_error, upstream_addr \<times> frame option \<times> frame option) res \<times> upstream_addr list \<times> nat \<times>
       jdc_shutdown_message list" where
  "initialize_jd N n [] = (Err Shutdown, [], n, [])"
| "initialize_jd N n (u # us) =
     (if ua_used u then
        (case initialize_jd N n us of (r, us1, n1, ms) \<Rightarrow> (r, u # us1, n1, ms))
      else
        (case try_upstream N MAX_RETRIES n u of
           (Some (p, j), n1, ms) \<Rightarrow> (Ok (u, p, j), u\<lparr>ua_used := True\<rparr> # us, n1, ms)
         | (None, n1, ms) \<Rightarrow>
             (case initialize_jd N n1 us of
                (r, us1, n2, ms1) \<Rightarrow> (r, u\<lparr>ua_used := True\<rparr> # us1, n2, ms @ ms1))))"

section \<open>The main task\<close>

record client_config =
  cc_manager :: jdc_config
  cc_min_version :: u16
  cc_max_version :: u16
  cc_mode :: config_jdc_mode
  cc_required :: "u16 list"
  cc_outputs :: bytes

text \<open>
  The main task with the channel manager; \<open>cl_running\<close> says that the loop of the manager has not
  ended, \<open>cl_status\<close> has the statuses of the connections and of that loop, \<open>cl_pool\<close> and \<open>cl_jds\<close>
  are the connections whose setup succeeded, with the addresses they go to, and \<open>cl_listening\<close> is
  the number of downstream servers started.
\<close>

record ('sc, 'ec, 'gc, 'vd, 'xf, 'uc, 'jf, 'j) jdc_client =
  cl_manager :: "('sc, 'ec, 'gc, 'vd, 'xf, 'uc, 'jf) jdc"
  cl_running :: bool
  cl_upstreams :: "upstream_addr list"
  cl_clock :: nat
  cl_broadcast :: "jdc_shutdown_message list"
  cl_status :: "jdc_state list"
  cl_pool :: "(address \<times> frame link) option"
  cl_jds :: "(address \<times> 'j link) option"
  cl_listening :: nat

text \<open>A message or signal for the channel manager; a critical error or a panic ends its loop.\<close>

definition manager_turn ::
  "('sc, 'ec, 'gc, 'vd, 'xf, 'uc, 'jf) jdc_lib \<Rightarrow> jdc_config \<Rightarrow> jdc_event \<Rightarrow>
     ('sc, 'ec, 'gc, 'vd, 'xf, 'uc, 'jf, 'j) jdc_client \<Rightarrow>
     ('sc, 'ec, 'gc, 'vd, 'xf, 'uc, 'jf, 'j) jdc_client" where
  "manager_turn L cfg e C =
     (if \<not> cl_running C then C
      else case jdc_handle L cfg e (cl_manager C) of
        (Ok _, S) \<Rightarrow> C\<lparr>cl_manager := S\<rparr>
      | (Err x, S) \<Rightarrow>
          if is_critical x then
            C\<lparr>cl_manager := S, cl_running := False,
              cl_status := cl_status C @ [jdc_state_of From_ChannelManager x]\<rparr>
          else C\<lparr>cl_manager := S\<rparr>
      | (Panic p, S) \<Rightarrow> C\<lparr>cl_manager := S, cl_running := False\<rparr>)"

text \<open>
  The part both the start and a fallback have: both connections are started, the pool first;
  the channel manager then waits for a channel and asks for a token, also when a setup failed.
  \<open>solo\<close> is what is left when no pair can be reached.
\<close>

definition connect_upstream ::
  "('sc, 'ec, 'gc, 'vd, 'xf, 'uc, 'jf) jdc_lib \<Rightarrow> 'j link_lib \<Rightarrow> jdc_network \<Rightarrow> client_config \<Rightarrow>
     (('sc, 'ec, 'gc, 'vd, 'xf, 'uc, 'jf) jdc \<Rightarrow> ('sc, 'ec, 'gc, 'vd, 'xf, 'uc, 'jf) jdc) \<Rightarrow>
     ('sc, 'ec, 'gc, 'vd, 'xf, 'uc, 'jf, 'j) jdc_client \<Rightarrow>
     ('sc, 'ec, 'gc, 'vd, 'xf, 'uc, 'jf, 'j) jdc_client" where
  "connect_upstream L K N cfg solo C =
     (case initialize_jd N (cl_clock C) (cl_upstreams C) of
        (r, us, n, ms) \<Rightarrow>
          let C1 = C\<lparr>cl_upstreams := us, cl_clock := n, cl_broadcast := cl_broadcast C @ ms\<rparr> in
          (case r of
             Ok (u, p, j) \<Rightarrow>
               (case upstream_start L K (cc_min_version cfg) (cc_max_version cfg) (cc_required cfg) p link_new of
                  (bp, qp, cp) \<Rightarrow>
                (case jd_start L K (ua_jds u) (cc_mode cfg) j (jc_mode (cl_manager C1), link_new) of
                   (bj, qj, mode, cj) \<Rightarrow>
                     C1\<lparr>cl_manager := snd (jdc_handle L (cc_manager cfg) (UpstreamReady mode) (cl_manager C1)),
                        cl_status := cl_status C1 @ qp @ qj,
                        cl_pool := (if bp then Some (ua_pool u, cp) else None),
                        cl_jds := (if bj then Some (ua_jds u, cj) else None)\<rparr>))
           | _ \<Rightarrow> C1\<lparr>cl_manager := solo (cl_manager C1), cl_pool := None, cl_jds := None\<rparr>))"

definition client_start ::
  "('sc, 'ec, 'gc, 'vd, 'xf, 'uc, 'jf) jdc_lib \<Rightarrow> 'j link_lib \<Rightarrow> jdc_network \<Rightarrow> client_config \<Rightarrow>
     upstream_addr list \<Rightarrow> ('sc, 'ec, 'gc, 'vd, 'xf, 'uc, 'jf) jdc \<Rightarrow>
     ('sc, 'ec, 'gc, 'vd, 'xf, 'uc, 'jf, 'j) jdc_client" where
  "client_start L K N cfg us S =
     (let C = connect_upstream L K N cfg (\<lambda>S. S\<lparr>jc_mode := SoloMining\<rparr>)
                \<lparr>cl_manager = S, cl_running = True, cl_upstreams = map (\<lambda>u. u\<lparr>ua_used := False\<rparr>) us, cl_clock = 0,
                 cl_broadcast = [], cl_status = [], cl_pool = None, cl_jds = None, cl_listening = 0\<rparr>
      in C\<lparr>cl_listening := 1\<rparr>)"

text \<open>
  A lost server: all connections are told to stop and the channel manager resets itself before
  the next pair is tried.
\<close>

definition client_disconnect ::
  "('sc, 'ec, 'gc, 'vd, 'xf, 'uc, 'jf) jdc_lib \<Rightarrow> client_config \<Rightarrow>
     ('sc, 'ec, 'gc, 'vd, 'xf, 'uc, 'jf, 'j) jdc_client \<Rightarrow>
     ('sc, 'ec, 'gc, 'vd, 'xf, 'uc, 'jf, 'j) jdc_client" where
  "client_disconnect L cfg C =
     (let C1 = manager_turn L (cc_manager cfg) (Fallback (cc_outputs cfg))
                 (C\<lparr>cl_broadcast := cl_broadcast C @ [UpstreamShutdownFallback (cc_outputs cfg)],
                    cl_pool := None, cl_jds := None\<rparr>)
      in C1\<lparr>cl_manager := (cl_manager C1)\<lparr>jc_mode := SoloMining\<rparr>\<rparr>)"

definition client_fallback ::
  "('sc, 'ec, 'gc, 'vd, 'xf, 'uc, 'jf) jdc_lib \<Rightarrow> 'j link_lib \<Rightarrow> jdc_network \<Rightarrow> client_config \<Rightarrow>
     ('sc, 'ec, 'gc, 'vd, 'xf, 'uc, 'jf, 'j) jdc_client \<Rightarrow>
     ('sc, 'ec, 'gc, 'vd, 'xf, 'uc, 'jf, 'j) jdc_client" where
  "client_fallback L K N cfg C =
     (let C1 = connect_upstream L K N cfg
                 (\<lambda>S. S\<lparr>jc_upstream_state := SoloState, jc_mode := SoloMining\<rparr>)
                 (client_disconnect L cfg C)
      in C1\<lparr>cl_listening := Suc (cl_listening C1)\<rparr>)"

text \<open>The listener; the flag says whether it goes on.\<close>

fun client_on_status ::
  "('sc, 'ec, 'gc, 'vd, 'xf, 'uc, 'jf) jdc_lib \<Rightarrow> 'j link_lib \<Rightarrow> jdc_network \<Rightarrow> client_config \<Rightarrow>
     jdc_state \<Rightarrow> ('sc, 'ec, 'gc, 'vd, 'xf, 'uc, 'jf, 'j) jdc_client \<Rightarrow>
     bool \<times> ('sc, 'ec, 'gc, 'vd, 'xf, 'uc, 'jf, 'j) jdc_client" where
  "client_on_status L K N cfg (State_DownstreamShutdown i e) C =
     (True, manager_turn L (cc_manager cfg) (MinerLeft i)
              (C\<lparr>cl_broadcast := cl_broadcast C @ [DownstreamShutdown i]\<rparr>))"
| "client_on_status L K N cfg (State_TemplateReceiverShutdown e) C =
     (False, C\<lparr>cl_broadcast := cl_broadcast C @ [ShutdownAll]\<rparr>)"
| "client_on_status L K N cfg (State_ChannelManagerShutdown e) C =
     (False, C\<lparr>cl_broadcast := cl_broadcast C @ [ShutdownAll]\<rparr>)"
| "client_on_status L K N cfg (State_UpstreamFallback e) C = (True, client_fallback L K N cfg C)"
| "client_on_status L K N cfg (State_JobDeclaratorFallback e) C = (True, client_fallback L K N cfg C)"

text \<open>
  A run of the client after its start: statuses that the listener takes, and messages that the
  channel manager handles in between.
\<close>

datatype client_event = On_Status jdc_state | On_Message jdc_event

fun client_step ::
  "('sc, 'ec, 'gc, 'vd, 'xf, 'uc, 'jf) jdc_lib \<Rightarrow> 'j link_lib \<Rightarrow> jdc_network \<Rightarrow> client_config \<Rightarrow>
     client_event \<Rightarrow> ('sc, 'ec, 'gc, 'vd, 'xf, 'uc, 'jf, 'j) jdc_client \<Rightarrow>
     bool \<times> ('sc, 'ec, 'gc, 'vd, 'xf, 'uc, 'jf, 'j) jdc_client" where
  "client_step L K N cfg (On_Status st) C = client_on_status L K N cfg st C"
| "client_step L K N cfg (On_Message m) C = (True, manager_turn L (cc_manager cfg) m C)"

fun run_client ::
  "('sc, 'ec, 'gc, 'vd, 'xf, 'uc, 'jf) jdc_lib \<Rightarrow> 'j link_lib \<Rightarrow> jdc_network \<Rightarrow> client_config \<Rightarrow>
     client_event list \<Rightarrow> ('sc, 'ec, 'gc, 'vd, 'xf, 'uc, 'jf, 'j) jdc_client \<Rightarrow>
     bool \<times> ('sc, 'ec, 'gc, 'vd, 'xf, 'uc, 'jf, 'j) jdc_client" where
  "run_client L K N cfg [] C = (True, C)"
| "run_client L K N cfg (e # es) C =
     (case client_step L K N cfg e C of
        (True, C1) \<Rightarrow> run_client L K N cfg es C1
      | (False, C1) \<Rightarrow> (False, C1))"

end
