(* ===== verification/Jdc_Fallback.thy ===== *)
theory Jdc_Fallback
  imports Jdc_Client Jdc_Session
begin

text \<open>
  What the main task and the connections of the job declarator client guarantee: which pair of
  servers a start or a fallback connects to, how often servers are tried at all, that the
  connections to the servers keep the order of their messages, and two ways in which a failed
  negotiation goes unnoticed.
\<close>

section \<open>Attempts\<close>

definition unused :: "upstream_addr list \<Rightarrow> nat" where
  "unused us = length (filter (\<lambda>u. \<not> ua_used u) us)"

definition reached :: "jdc_network \<Rightarrow> nat \<Rightarrow> upstream_addr \<Rightarrow> bool" where
  "reached N n u \<longleftrightarrow> (\<exists>pr. try_initialize_single N n u = Inr pr)"

definition mark :: "upstream_addr \<Rightarrow> upstream_addr" where
  "mark u = u\<lparr>ua_used := True\<rparr>"

lemma unused_simps [simp]:
  "unused [] = 0"
  "unused (u # us) = (if ua_used u then unused us else Suc (unused us))"
  "unused (us @ vs) = unused us + unused vs"
  "unused (map mark us) = 0"
  "ua_used (mark u)"
  by (simp_all add: unused_def mark_def)

lemma unused_le_length: "unused us \<le> length us"
  by (simp add: unused_def)

lemma mark_used: "ua_used u \<Longrightarrow> mark u = u"
  by (simp add: mark_def)

lemma mark_all: "unused us = 0 \<Longrightarrow> map mark us = us"
  by (induction us) (auto simp: mark_used split: if_splits)

lemma try_upstream_fails:
  "(\<And>i. i < k \<Longrightarrow> \<not> reached N (n + i) u) \<Longrightarrow>
     try_upstream N k n u = (None, n + k, replicate k JobDeclaratorShutdown)"
proof (induction k arbitrary: n)
  case (Suc k)
  have "\<not> reached N n u" using Suc.prems [of 0] by simp
  then obtain e where e: "try_initialize_single N n u = Inl e"
    by (metis reached_def sum.exhaust)
  have "try_upstream N k (Suc n) u = (None, Suc n + k, replicate k JobDeclaratorShutdown)"
    by (rule Suc.IH) (use Suc.prems in \<open>metis Suc_less_eq add_Suc_right add_Suc\<close>)
  then show ?case by (simp add: e)
qed simp

lemma try_upstream_succeeds:
  assumes "i < k" and "\<And>j. j < i \<Longrightarrow> \<not> reached N (n + j) u"
    and "try_initialize_single N (n + i) u = Inr pr"
  shows "try_upstream N k n u = (Some pr, Suc (n + i), replicate i JobDeclaratorShutdown)"
  using assms
proof (induction i arbitrary: k n)
  case 0
  then show ?case by (cases k) simp_all
next
  case (Suc i)
  obtain k' where k: "k = Suc k'" using Suc.prems(1) by (cases k) auto
  have "\<not> reached N n u" using Suc.prems(2) [of 0] by simp
  then obtain e where e: "try_initialize_single N n u = Inl e"
    by (metis reached_def sum.exhaust)
  have "try_upstream N k' (Suc n) u = (Some pr, Suc (Suc n + i), replicate i JobDeclaratorShutdown)"
  proof (rule Suc.IH)
    show "i < k'" using Suc.prems(1) k by simp
    show "\<not> reached N (Suc n + j) u" if "j < i" for j
      using Suc.prems(2) [of "Suc j"] that by simp
    show "try_initialize_single N (Suc n + i) u = Inr pr" using Suc.prems(3) by simp
  qed
  then show ?case by (simp add: k e)
qed

lemma try_upstream_cases:
  obtains (all_fail) "\<And>i. i < k \<Longrightarrow> \<not> reached N (n + i) u"
    | (one) i pr where "i < k" "\<And>j. j < i \<Longrightarrow> \<not> reached N (n + j) u"
        "try_initialize_single N (n + i) u = Inr pr"
proof (cases "\<exists>i<k. reached N (n + i) u")
  case True
  define i where "i = (LEAST i. reached N (n + i) u)"
  obtain i0 where i0: "i0 < k" "reached N (n + i0) u" using True by auto
  have r: "reached N (n + i) u" unfolding i_def by (rule LeastI) (rule i0(2))
  have l: "i < k" unfolding i_def using Least_le [of "\<lambda>i. reached N (n + i) u", OF i0(2)] i0(1) by linarith
  have b: "\<not> reached N (n + j) u" if "j < i" for j
    using that unfolding i_def by (rule not_less_Least)
  obtain pr where "try_initialize_single N (n + i) u = Inr pr" using r by (auto simp: reached_def)
  then show thesis using one l b by blast
next
  case False
  then show thesis using all_fail by blast
qed

text \<open>All pairs that are skipped or fail are marked, with three attempts for each new one.\<close>

lemma initialize_skip:
  assumes "\<And>v m. v \<in> set before \<Longrightarrow> \<not> ua_used v \<Longrightarrow> \<not> reached N m v"
  shows "initialize_jd N n (before @ us) =
    (case initialize_jd N (n + 3 * unused before) us of
       (r, us1, n1, ms) \<Rightarrow>
         (r, map mark before @ us1, n1, replicate (3 * unused before) JobDeclaratorShutdown @ ms))"
  using assms
proof (induction before arbitrary: n)
  case Nil
  show ?case by (simp split: prod.splits)
next
  case (Cons v before)
  have IH: "initialize_jd N m (before @ us) =
    (case initialize_jd N (m + 3 * unused before) us of
       (r, us1, n1, ms) \<Rightarrow>
         (r, map mark before @ us1, n1, replicate (3 * unused before) JobDeclaratorShutdown @ ms))" for m
    by (rule Cons.IH) (use Cons.prems in auto)
  show ?case
  proof (cases "ua_used v")
    case True
    then show ?thesis by (simp add: IH mark_used split: prod.splits)
  next
    case False
    have "try_upstream N MAX_RETRIES n v = (None, n + 3, replicate 3 JobDeclaratorShutdown)"
      unfolding MAX_RETRIES_def by (rule try_upstream_fails) (use Cons.prems False in auto)
    then show ?thesis
      by (simp add: False IH mark_def ac_simps replicate_add [symmetric] numeral_3_eq_3 split: prod.splits)
  qed
qed

lemma initialize_found:
  assumes "\<And>v m. v \<in> set before \<Longrightarrow> \<not> ua_used v \<Longrightarrow> \<not> reached N m v"
    and "\<not> ua_used u" and "i < 3" and "\<And>j. j < i \<Longrightarrow> \<not> reached N (n + 3 * unused before + j) u"
    and "try_initialize_single N (n + 3 * unused before + i) u = Inr (p, a)"
  shows "initialize_jd N n (before @ u # after) =
    (Ok (u, p, a), map mark before @ mark u # after, Suc (n + 3 * unused before + i),
     replicate (3 * unused before + i) JobDeclaratorShutdown)"
proof -
  have "try_upstream N MAX_RETRIES (n + 3 * unused before) u =
      (Some (p, a), Suc (n + 3 * unused before + i), replicate i JobDeclaratorShutdown)"
    unfolding MAX_RETRIES_def by (rule try_upstream_succeeds) (use assms in auto)
  then show ?thesis
    by (simp add: initialize_skip [OF assms(1)] assms(2) mark_def replicate_add)
qed

lemma initialize_none:
  assumes "\<And>v m. v \<in> set us \<Longrightarrow> \<not> ua_used v \<Longrightarrow> \<not> reached N m v"
  shows "initialize_jd N n us =
    (Err Shutdown, map mark us, n + 3 * unused us, replicate (3 * unused us) JobDeclaratorShutdown)"
  using initialize_skip [of us N n "[]"] assms by simp

text \<open>What holds of every outcome: attempts are paid for by marks.\<close>

lemma initialize_cost:
  "initialize_jd N n us = (r, us1, n1, ms) \<Longrightarrow>
     length us1 = length us \<and> n \<le> n1 \<and> n1 + 3 * unused us1 \<le> n + 3 * unused us \<and>
     (unused us = 0 \<or> unused us1 < unused us) \<and>
     (case r of Ok (u, _) \<Rightarrow> u \<in> set us \<and> \<not> ua_used u | Err e \<Rightarrow> unused us1 = 0 | Panic p \<Rightarrow> False)"
proof (induction us arbitrary: n r us1 n1 ms)
  case Nil
  then show ?case by auto
next
  case (Cons u us)
  show ?case
  proof (cases "ua_used u")
    case True
    then obtain us2 where "initialize_jd N n us = (r, us2, n1, ms)" "us1 = u # us2"
      using Cons.prems by (auto split: prod.splits)
    then show ?thesis using Cons.IH [of n r us2 n1 ms] True by (auto split: res.splits prod.splits)
  next
    case False
    show ?thesis
    proof (rule try_upstream_cases [of MAX_RETRIES N n u])
      assume "\<And>i. i < MAX_RETRIES \<Longrightarrow> \<not> reached N (n + i) u"
      then have "try_upstream N MAX_RETRIES n u =
          (None, n + MAX_RETRIES, replicate MAX_RETRIES JobDeclaratorShutdown)"
        by (rule try_upstream_fails)
      then obtain us2 ms2 where "initialize_jd N (n + MAX_RETRIES) us = (r, us2, n1, ms2)" "us1 = mark u # us2"
        using Cons.prems False by (auto simp: mark_def split: prod.splits)
      then show ?thesis
        using Cons.IH [of "n + MAX_RETRIES" r us2 n1 ms2] False
        by (auto simp: MAX_RETRIES_def split: res.splits prod.splits)
    next
      fix i pr
      assume i: "i < MAX_RETRIES" and "\<And>j. j < i \<Longrightarrow> \<not> reached N (n + j) u"
        and "try_initialize_single N (n + i) u = Inr pr"
      then have "try_upstream N MAX_RETRIES n u = (Some pr, Suc (n + i), replicate i JobDeclaratorShutdown)"
        by (intro try_upstream_succeeds)
      then show ?thesis
        using Cons.prems False i by (auto simp: MAX_RETRIES_def mark_def split: prod.splits)
    qed
  qed
qed

section \<open>The main task\<close>

lemma manager_turn_frame [simp]:
  "cl_upstreams (manager_turn L mc e C) = cl_upstreams C"
  "cl_clock (manager_turn L mc e C) = cl_clock C"
  "cl_pool (manager_turn L mc e C) = cl_pool C"
  "cl_jds (manager_turn L mc e C) = cl_jds C"
  by (auto simp: manager_turn_def split: prod.splits res.splits)

lemma client_disconnect_frame [simp]:
  "cl_upstreams (client_disconnect L cfg C) = cl_upstreams C"
  "cl_clock (client_disconnect L cfg C) = cl_clock C"
  by (simp_all add: client_disconnect_def Let_def)

definition client_cost :: "('sc, 'ec, 'gc, 'vd, 'xf, 'uc, 'jf, 'j) jdc_client \<Rightarrow> nat" where
  "client_cost C = cl_clock C + 3 * unused (cl_upstreams C)"

lemma connect_cost:
  "client_cost (connect_upstream L K N cfg solo C) \<le> client_cost C"
  "length (cl_upstreams (connect_upstream L K N cfg solo C)) = length (cl_upstreams C)"
  "unused (cl_upstreams (connect_upstream L K N cfg solo C)) \<le> unused (cl_upstreams C) - 1"
  using initialize_cost [of N "cl_clock C" "cl_upstreams C"]
  by (fastforce simp: connect_upstream_def client_cost_def Let_def split: prod.splits res.splits)+

lemma fallback_cost:
  "client_cost (client_fallback L K N cfg C) \<le> client_cost C"
  "length (cl_upstreams (client_fallback L K N cfg C)) = length (cl_upstreams C)"
  "unused (cl_upstreams (client_fallback L K N cfg C)) \<le> unused (cl_upstreams C) - 1"
  using connect_cost [of L K N cfg "\<lambda>S. S\<lparr>jc_upstream_state := SoloState, jc_mode := SoloMining\<rparr>"
      "client_disconnect L cfg C"]
  by (auto simp: client_fallback_def Let_def client_cost_def)

text \<open>With no pair left a fallback tries nothing and leaves the client alone.\<close>

lemma fallback_solo:
  assumes "unused (cl_upstreams C) = 0"
  shows "cl_clock (client_fallback L K N cfg C) = cl_clock C"
    and "cl_pool (client_fallback L K N cfg C) = None" and "cl_jds (client_fallback L K N cfg C) = None"
    and "jc_upstream_state (cl_manager (client_fallback L K N cfg C)) = SoloState"
    and "jc_mode (cl_manager (client_fallback L K N cfg C)) = SoloMining"
proof -
  have "initialize_jd N (cl_clock C) (cl_upstreams C) = (Err Shutdown, map mark (cl_upstreams C), cl_clock C, [])"
    using assms initialize_none [of "cl_upstreams C" N "cl_clock C"]
    by (auto simp: unused_def filter_empty_conv)
  then show "cl_clock (client_fallback L K N cfg C) = cl_clock C"
    and "cl_pool (client_fallback L K N cfg C) = None" and "cl_jds (client_fallback L K N cfg C) = None"
    and "jc_upstream_state (cl_manager (client_fallback L K N cfg C)) = SoloState"
    and "jc_mode (cl_manager (client_fallback L K N cfg C)) = SoloMining"
    by (simp_all add: client_fallback_def connect_upstream_def Let_def)
qed

fun is_fallback :: "client_event \<Rightarrow> bool" where
  "is_fallback (On_Status (State_UpstreamFallback e)) = True"
| "is_fallback (On_Status (State_JobDeclaratorFallback e)) = True"
| "is_fallback _ = False"

definition fallbacks :: "client_event list \<Rightarrow> nat" where
  "fallbacks es = length (filter is_fallback es)"

lemma step_cost:
  assumes "client_step L K N cfg e C = (b, C1)"
  shows "client_cost C1 \<le> client_cost C \<and> unused (cl_upstreams C1) \<le> unused (cl_upstreams C) - (if is_fallback e then 1 else 0)"
  using assms fallback_cost [of L K N cfg C]
  by (cases e rule: is_fallback.cases) (auto simp: client_cost_def)

lemma run_cost:
  "run_client L K N cfg es C = (b, C1) \<Longrightarrow>
     client_cost C1 \<le> client_cost C \<and> (b \<longrightarrow> unused (cl_upstreams C1) \<le> unused (cl_upstreams C) - fallbacks es)"
proof (induction es arbitrary: C)
  case Nil
  then show ?case by (simp add: fallbacks_def)
next
  case (Cons e es)
  obtain b2 C2 where e: "client_step L K N cfg e C = (b2, C2)" by fastforce
  show ?case
  proof (cases b2)
    case True
    then have "run_client L K N cfg es C2 = (b, C1)" using Cons.prems e by simp
    from Cons.IH [OF this] step_cost [OF e] show ?thesis by (auto simp: fallbacks_def split: if_splits)
  next
    case False
    then show ?thesis using Cons.prems e step_cost [OF e] by auto
  qed
qed

lemma start_cost:
  "client_cost (client_start L K N cfg us S) \<le> 3 * length us"
  "unused (cl_upstreams (client_start L K N cfg us S)) \<le> length us - 1"
proof -
  let ?us = "map (\<lambda>u. u\<lparr>ua_used := False\<rparr>) us"
  have "unused ?us = length us" by (simp add: unused_def filter_map o_def)
  then show "client_cost (client_start L K N cfg us S) \<le> 3 * length us"
    and "unused (cl_upstreams (client_start L K N cfg us S)) \<le> length us - 1"
    using connect_cost [of L K N cfg "\<lambda>S. S\<lparr>jc_mode := SoloMining\<rparr>"
        "\<lparr>cl_manager = S, cl_running = True, cl_upstreams = ?us, cl_clock = 0, cl_broadcast = [], cl_status = [],
          cl_pool = None, cl_jds = None, cl_listening = 0\<rparr>"]
    by (auto simp: client_start_def Let_def client_cost_def)
qed

text \<open>
  C16. Fallbacks end. In its whole life, whatever its tasks report and its channel manager handles
  in between, the client makes at most three attempts for each configured pair of pool and job
  declarator server. Since a pair is marked as used also after a success, the start and as many
  fallbacks as there are other pairs use up all of them: the next lost server leaves the client
  mining alone, without an attempt to reach a server, even where all of them answer.
\<close>

theorem fallbacks_end_in_solo_mining:
  assumes "run_client L K N cfg es (client_start L K N cfg us S) = (True, C)"
  shows "cl_clock C \<le> 3 * length us \<and>
    (length us \<le> Suc (fallbacks es) \<longrightarrow>
       (\<exists>C'. client_step L K N cfg (On_Status (State_UpstreamFallback e)) C = (True, C') \<and>
         cl_clock C' = cl_clock C \<and> cl_pool C' = None \<and> cl_jds C' = None \<and>
         jc_upstream_state (cl_manager C') = SoloState \<and> jc_mode (cl_manager C') = SoloMining))"
proof (intro conjI impI)
  have *: "client_cost C \<le> 3 * length us" "unused (cl_upstreams C) \<le> length us - 1 - fallbacks es"
    using run_cost [OF assms] start_cost [of L K N cfg us S] by (auto intro: le_trans)
  then show "cl_clock C \<le> 3 * length us" by (simp add: client_cost_def)
  assume "length us \<le> Suc (fallbacks es)"
  then have "unused (cl_upstreams C) = 0" using *(2) by simp
  then show "\<exists>C'. client_step L K N cfg (On_Status (State_UpstreamFallback e)) C = (True, C') \<and>
      cl_clock C' = cl_clock C \<and> cl_pool C' = None \<and> cl_jds C' = None \<and>
      jc_upstream_state (cl_manager C') = SoloState \<and> jc_mode (cl_manager C') = SoloMining"
    using fallback_solo [of C L K N cfg] by simp
qed

lemma disconnect_resets:
  fixes cfg :: client_config
  assumes "cl_running C" and "xf_new_ranges L JDC_SEARCH_SPACE_BYTES MAX_EXTRANONCE_LEN = Some xf"
  defines "S \<equiv> cl_manager (client_disconnect L cfg C)"
  shows "jc_downstream (jc_data S) = hm_new" "jc_pending_requests (jc_data S) = []"
    "jc_upstream_channel (jc_data S) = None" "jc_request_id_factory (jc_data S) = 0"
    "jc_mode S = SoloMining" "jd_open S = jd_open (cl_manager C)" "out_jd S = out_jd (cl_manager C)"
    "cl_running (client_disconnect L cfg C)" "cl_status (client_disconnect L cfg C) = cl_status C"
  using assms
  by (simp_all add: S_def client_disconnect_def manager_turn_def locked_def jdc_reset_def Let_def)

lemma upstream_ready_state:
  fixes S :: "('sc, 'ec, 'gc, 'vd, 'xf, 'uc, 'jf) jdc"
  assumes "str0255_try_from L (jc_user_identity mc) = Inr user" and "jd_open S"
  shows "snd (jdc_handle L mc (UpstreamReady mode) S) =
    (upd_jc (\<lambda>d. d\<lparr>jc_request_id_factory := jc_request_id_factory d + 1\<rparr>) S)
      \<lparr>jc_upstream_state := NoChannel, jc_mode := mode,
       out_jd := out_jd S @ [AllocateMiningJobToken (jc_request_id_factory (jc_data S)) user]\<rparr>"
  using assms by (simp add: allocate_token_def send_jd_def ignore_err_def Let_def)

text \<open>
  C15. A lost server. When the connection to the pool is lost, the client connects to the first
  of its pairs of servers that it has not used and that answers within three attempts, whatever
  the pairs before it are: used, or out of reach. After the two setups both connections are
  there, the pairs up to this one are marked and the others are as before, the channel manager
  has no miners, requests or upstream channel of the old session, has the operating mode the job
  declarator server granted, and has asked that server for its first token.
\<close>

theorem fallback_connects_to_next_pair:
  assumes "cl_upstreams C = before @ u # after"
    and "\<forall>v\<in>set before. ua_used v \<or> (\<forall>m. \<not> reached N m v)"
    and "\<not> ua_used u" and "i < 3"
    and "\<forall>j<i. \<not> reached N (cl_clock C + 3 * unused before + j) u"
    and "try_initialize_single N (cl_clock C + 3 * unused before + i) u = Inr (p, a)"
    and "upstream_setup L K (cc_min_version cfg) (cc_max_version cfg) (cc_required cfg) p link_new = (Ok (), cp)"
    and "jd_setup L K (ua_jds u) (cc_mode cfg) a (SoloMining, link_new) = (Ok (), mode, cj)"
    and "cl_running C" and "xf_new_ranges L JDC_SEARCH_SPACE_BYTES MAX_EXTRANONCE_LEN = Some xf"
    and "str0255_try_from L (jc_user_identity (cc_manager cfg)) = Inr user" and "jd_open (cl_manager C)"
  shows "\<exists>C'. client_step L K N cfg (On_Status (State_UpstreamFallback e)) C = (True, C') \<and>
    cl_pool C' = Some (ua_pool u, cp) \<and> cl_jds C' = Some (ua_jds u, cj) \<and>
    cl_upstreams C' = map mark before @ mark u # after \<and> cl_running C' \<and> cl_status C' = cl_status C \<and>
    jc_upstream_state (cl_manager C') = NoChannel \<and> jc_mode (cl_manager C') = mode \<and>
    jc_downstream (jc_data (cl_manager C')) = hm_new \<and> jc_pending_requests (jc_data (cl_manager C')) = [] \<and>
    jc_upstream_channel (jc_data (cl_manager C')) = None \<and>
    out_jd (cl_manager C') = out_jd (cl_manager C) @ [AllocateMiningJobToken 0 user]"
proof -
  note reset = disconnect_resets [OF assms(9,10), of cfg]
  have init: "initialize_jd N (cl_clock C) (before @ u # after) =
      (Ok (u, p, a), map mark before @ mark u # after, Suc (cl_clock C + 3 * unused before + i),
       replicate (3 * unused before + i) JobDeclaratorShutdown)"
    by (rule initialize_found) (use assms(2-6) in auto)
  have pool: "upstream_start L K (cc_min_version cfg) (cc_max_version cfg) (cc_required cfg) p link_new = (True, [], cp)"
    using assms(7) by (simp add: upstream_start_def)
  have jds: "jd_start L K (ua_jds u) (cc_mode cfg) a (SoloMining, link_new) = (True, [], mode, cj)"
    using assms(8) by (simp add: jd_start_def loop_turn_def)
  have ready: "snd (jdc_handle L (cc_manager cfg) (UpstreamReady mode) (cl_manager (client_disconnect L cfg C))) =
    (upd_jc (\<lambda>d. d\<lparr>jc_request_id_factory := jc_request_id_factory d + 1\<rparr>) (cl_manager (client_disconnect L cfg C)))
      \<lparr>jc_upstream_state := NoChannel, jc_mode := mode,
       out_jd := out_jd (cl_manager C) @ [AllocateMiningJobToken 0 user]\<rparr>"
    using upstream_ready_state [OF assms(11), of "cl_manager (client_disconnect L cfg C)" mode] assms(12) reset
    by (simp del: jdc_handle.simps)
  show ?thesis
    using reset
    by (simp add: client_fallback_def connect_upstream_def Let_def assms(1) init pool jds ready del: jdc_handle.simps)
qed

text \<open>
  C32. A pool that refuses the client goes unnoticed. When the setup of the connection to the pool
  fails at the start, for whatever reason, no status is reported, so no fallback follows; the
  channel manager nevertheless goes on as if the pool were there: the first request of a miner for
  a channel is put into the queue to the pool, which nobody reads, and the miner gets no answer.
\<close>

theorem refused_pool_connection_unnoticed:
  assumes "try_initialize_single N 0 (u\<lparr>ua_used := False\<rparr>) = Inr (p, a)"
    and "upstream_setup L K (cc_min_version cfg) (cc_max_version cfg) (cc_required cfg) p link_new = (Err x, cp)"
    and "jd_setup L K (ua_jds u) (cc_mode cfg) a (SoloMining, link_new) = (Ok (), mode, cj)"
    and "str0255_try_from L (jc_user_identity (cc_manager cfg)) = Inr user"
    and "jc_pending_requests d = []" and "\<And>m. frame_try_from L m = Inr ()"
    and "C = client_start L K N cfg (u # us) (jdc_new d SoloMining)"
  shows "cl_status C = [] \<and> cl_pool C = None \<and>
    (\<exists>C1 m. client_step L K N cfg (On_Message (request_event r)) C = (True, C1) \<and> cl_status C1 = [] \<and>
      jc_upstream_state (cl_manager C1) = Pending \<and> jc_pending_requests (jc_data (cl_manager C1)) = [r] \<and>
      out_upstream (cl_manager C1) = [OpenExtendedUpstream m] \<and> out_downstream (cl_manager C1) = [] \<and>
      out_status (cl_manager C1) = [])"
proof -
  obtain m where m: "upstream_request L (cc_manager cfg) r = Ok m"
    by (rule upstream_request_ok [OF assms(4)])
  have init: "try_upstream N MAX_RETRIES 0 (u\<lparr>ua_used := False\<rparr>) = (Some (p, a), 1, [])"
    using assms(1) by (simp add: MAX_RETRIES_def numeral_3_eq_3)
  have pool: "upstream_start L K (cc_min_version cfg) (cc_max_version cfg) (cc_required cfg) p link_new = (False, [], cp)"
    using assms(2) by (simp add: upstream_start_def)
  have jds: "jd_start L K (ua_jds u) (cc_mode cfg) a (SoloMining, link_new) = (True, [], mode, cj)"
    using assms(3) by (simp add: jd_start_def loop_turn_def)
  have C: "cl_status C = []" "cl_pool C = None" "cl_running C"
    and S: "cl_manager C = snd (jdc_handle L (cc_manager cfg) (UpstreamReady mode) (jdc_new d SoloMining))"
    by (simp_all add: assms(7) client_start_def connect_upstream_def Let_def init pool jds jdc_new_def
        del: jdc_handle.simps)
  have open_jd: "jd_open (jdc_new d SoloMining)" by (simp add: jdc_new_def)
  have "jc_upstream_state (cl_manager C) = NoChannel" "jc_pending_requests (jc_data (cl_manager C)) = []"
      "upstream_open (cl_manager C)" "out_upstream (cl_manager C) = []" "out_downstream (cl_manager C) = []"
      "out_status (cl_manager C) = []"
    unfolding S upstream_ready_state [OF assms(4) open_jd] by (simp_all add: jdc_new_def assms(5))
  then have "manager_turn L (cc_manager cfg) (request_event r) C =
      C\<lparr>cl_manager := waiting_state [r] (OpenExtendedUpstream m) (cl_manager C)\<rparr>"
    using C(3) m assms(6)
    by (simp add: manager_turn_def handle_request jdc_open_request_def request_upstream_def compare_and_set_def
        send_upstream_def waiting_state_def Let_def del: jdc_handle.simps)
  then show ?thesis
    using C \<open>out_upstream (cl_manager C) = []\<close> \<open>out_downstream (cl_manager C) = []\<close> \<open>out_status (cl_manager C) = []\<close>
    by (simp add: waiting_state_def)
qed

section \<open>An example\<close>

text \<open>
  A library in which the first byte of a payload selects the message, and a network in which the
  servers of address \<open>a\<close> cannot be reached, those of address \<open>b\<close> refuse the setup, and all others
  grant full templates.
\<close>

definition jdemo_frame :: "u8 \<Rightarrow> bytes \<Rightarrow> frame" where
  "jdemo_frame mt payload = \<lparr>fr_header = Some (0, mt), fr_payload = payload\<rparr>"

definition jdemo_link :: "bytes link_lib" where
  "jdemo_link =
     \<lparr>lk_values = sv2_values, lk_negotiation = 1, lk_encode = (\<lambda>m. Inr ()),
      lk_parse_setup = (\<lambda>h bs. Inl Shutdown),
      lk_parse_client = (\<lambda>h bs exts.
        if bs = [] then Inr (Client_Mining (MinerClose 1))
        else Inr (Client_Extensions \<lparr>rx_request_id = 4, rx_requested = map ucast bs\<rparr>)),
      lk_parse_server = (\<lambda>h bs.
        if bs = [] then Inr (Server_SetupError 0 ''unsupported-protocol'') else Inr (Server_SetupSuccess 2 (ucast (hd bs)))),
      lk_parse_declaration = (\<lambda>mt bs. Inr bs), lk_allow_full_template = (\<lambda>flags. flags OR 1)\<rparr>"

lemma jdemo_link_fields [simp]:
  "lk_values jdemo_link = sv2_values" "lk_negotiation jdemo_link = 1" "lk_encode jdemo_link m = Inr ()"
  "lk_parse_client jdemo_link h bs exts =
     (if bs = [] then Inr (Client_Mining (MinerClose 1))
      else Inr (Client_Extensions \<lparr>rx_request_id = 4, rx_requested = map ucast bs\<rparr>))"
  "lk_parse_server jdemo_link h bs =
     (if bs = [] then Inr (Server_SetupError 0 ''unsupported-protocol'') else Inr (Server_SetupSuccess 2 (ucast (hd bs))))"
  "lk_parse_declaration jdemo_link mt bs = Inr bs" "lk_allow_full_template jdemo_link flags = flags OR 1"
  by (simp_all add: jdemo_link_def)

definition jdemo_answer :: "bool \<Rightarrow> address \<Rightarrow> jdc_error + frame option" where
  "jdemo_answer pool addr =
     (if fst addr = ''a'' then Inl Shutdown
      else if pool \<and> fst addr = ''b'' then Inr (Some (jdemo_frame 2 []))
      else Inr (Some (jdemo_frame 1 [1])))"

definition jdemo_network :: jdc_network where
  "jdemo_network = \<lparr>nw_pool = (\<lambda>n addr key. jdemo_answer True addr), nw_jds = (\<lambda>n addr key. jdemo_answer False addr)\<rparr>"

definition jdemo_pair :: "string \<Rightarrow> bool \<Rightarrow> upstream_addr" where
  "jdemo_pair host used = \<lparr>ua_pool = (host, 1), ua_jds = (host, 2), ua_key = [], ua_used = used\<rparr>"

definition jdemo_client_config :: client_config where
  "jdemo_client_config =
     \<lparr>cc_manager = jdemo_config, cc_min_version = 2, cc_max_version = 2, cc_mode = Config_FullTemplate,
      cc_required = [], cc_outputs = [0x51]\<rparr>"

lemmas jdemo_client_defs = jdemo_frame_def jdemo_answer_def jdemo_network_def jdemo_pair_def
  jdemo_client_config_def jdemo_config_def

lemmas link_eval = upstream_setup_def get_setup_connection_message_def send_encoded_def send_link_def post_link_def
  upstream_common_def send_request_extensions_def jd_setup_def get_setup_connection_message_jds_def jd_common_def
  link_new_def string_bytes_def

lemma jdemo_pool_refuses:
  "\<exists>cp. upstream_setup jdemo_lib jdemo_link 2 2 [] (Some (jdemo_frame 2 [])) link_new = (Err Shutdown, cp)"
  by (simp add: link_eval jdemo_frame_def)

lemma jdemo_pool_accepts:
  "\<exists>cp. upstream_setup jdemo_lib jdemo_link 2 2 [] (Some (jdemo_frame 1 [1])) link_new = (Ok (), cp)"
  by (simp add: link_eval jdemo_frame_def)

lemma jdemo_jds_accepts:
  "length host < 200 \<Longrightarrow> \<exists>cj. jd_setup jdemo_lib jdemo_link (host, 2) Config_FullTemplate (Some (jdemo_frame 1 [1]))
     (SoloMining, link_new) = (Ok (), FullTemplate, cj)"
  by (simp add: link_eval jdemo_frame_def)

definition jdemo_lost ::
  "(jdemo_channel, jdemo_channel, u32, nat, jdemo_factory, jdemo_upstream, nat, bytes) jdc_client" where
  "jdemo_lost =
     \<lparr>cl_manager = jdemo_connected, cl_running = True,
      cl_upstreams = [jdemo_pair ''c'' True, jdemo_pair ''a'' False, jdemo_pair ''d'' False, jdemo_pair ''e'' False],
      cl_clock = 1, cl_broadcast = [], cl_status = [], cl_pool = None, cl_jds = None, cl_listening = 1\<rparr>"

theorem fallback_connects_to_next_pair_witness:
  "\<exists>C'. client_step jdemo_lib jdemo_link jdemo_network jdemo_client_config (On_Status (State_UpstreamFallback Shutdown))
       jdemo_lost = (True, C') \<and>
     map_option fst (cl_pool C') = Some (''d'', 1) \<and> map_option fst (cl_jds C') = Some (''d'', 2) \<and>
     jc_upstream_state (cl_manager C') = NoChannel \<and> jc_mode (cl_manager C') = FullTemplate \<and>
     jc_downstream (jc_data (cl_manager C')) = hm_new"
proof -
  let ?before = "[jdemo_pair ''c'' True, jdemo_pair ''a'' False]"
  obtain cp where cp: "upstream_setup jdemo_lib jdemo_link 2 2 [] (Some (jdemo_frame 1 [1])) link_new = (Ok (), cp)"
    using jdemo_pool_accepts by blast
  obtain cj where cj: "jd_setup jdemo_lib jdemo_link (''d'', 2) Config_FullTemplate (Some (jdemo_frame 1 [1]))
      (SoloMining, link_new) = (Ok (), FullTemplate, cj)"
    using jdemo_jds_accepts [of "''d''"] by auto
  note evals = jdemo_client_defs jdemo_lost_def try_initialize_single_def reached_def
  have us: "cl_upstreams jdemo_lost = ?before @ jdemo_pair ''d'' False # [jdemo_pair ''e'' False]"
    by (simp add: jdemo_lost_def)
  have before: "\<forall>v\<in>set ?before. ua_used v \<or> (\<forall>m. \<not> reached jdemo_network m v)" by (simp add: evals)
  have new: "\<not> ua_used (jdemo_pair ''d'' False)" by (simp add: evals)
  have trial: "try_initialize_single jdemo_network (cl_clock jdemo_lost + 3 * unused ?before + 0) (jdemo_pair ''d'' False) =
      Inr (Some (jdemo_frame 1 [1]), Some (jdemo_frame 1 [1]))"
    by (simp add: evals)
  have pool: "upstream_setup jdemo_lib jdemo_link (cc_min_version jdemo_client_config) (cc_max_version jdemo_client_config)
      (cc_required jdemo_client_config) (Some (jdemo_frame 1 [1])) link_new = (Ok (), cp)"
    using cp by (simp add: jdemo_client_config_def)
  have jds: "jd_setup jdemo_lib jdemo_link (ua_jds (jdemo_pair ''d'' False)) (cc_mode jdemo_client_config)
      (Some (jdemo_frame 1 [1])) (SoloMining, link_new) = (Ok (), FullTemplate, cj)"
    using cj by (simp add: jdemo_client_config_def jdemo_pair_def)
  have ranges: "xf_new_ranges jdemo_lib JDC_SEARCH_SPACE_BYTES MAX_EXTRANONCE_LEN = Some ([], 0)"
    by (simp add: JDC_SEARCH_SPACE_BYTES_def MAX_EXTRANONCE_LEN_def)
  have user: "str0255_try_from jdemo_lib (jc_user_identity (cc_manager jdemo_client_config)) = Inr [106, 100, 99]"
    using jdemo_user by (simp add: jdemo_client_config_def)
  have rest: "cl_running jdemo_lost" "jd_open (cl_manager jdemo_lost)" "(0::nat) < 3"
    by (simp_all add: jdemo_lost_def jdemo_connected_def)
  from fallback_connects_to_next_pair [OF us before new rest(3) _ trial pool jds rest(1) ranges user rest(2), of Shutdown]
  show ?thesis by (auto simp: jdemo_pair_def)
qed

theorem fallbacks_end_in_solo_mining_witness:
  "\<exists>C C'. run_client jdemo_lib jdemo_link jdemo_network jdemo_client_config [On_Status (State_UpstreamFallback Shutdown)]
      (client_start jdemo_lib jdemo_link jdemo_network jdemo_client_config [jdemo_pair ''c'' False, jdemo_pair ''d'' False]
        (jdc_new jdemo_data SoloMining)) = (True, C) \<and> cl_clock C \<le> 6 \<and>
    client_step jdemo_lib jdemo_link jdemo_network jdemo_client_config (On_Status (State_UpstreamFallback Shutdown)) C = (True, C') \<and>
    cl_pool C' = None \<and> jc_mode (cl_manager C') = SoloMining"
proof -
  let ?us = "[jdemo_pair ''c'' False, jdemo_pair ''d'' False]"
  let ?es = "[On_Status (State_UpstreamFallback Shutdown)]"
  obtain C where run: "run_client jdemo_lib jdemo_link jdemo_network jdemo_client_config ?es
      (client_start jdemo_lib jdemo_link jdemo_network jdemo_client_config ?us (jdc_new jdemo_data SoloMining)) = (True, C)"
    by simp
  have "length ?us \<le> Suc (fallbacks ?es)" by (simp add: fallbacks_def)
  with fallbacks_end_in_solo_mining [OF run, of Shutdown] run show ?thesis
    by (auto simp del: run_client.simps client_step.simps)
qed

theorem refused_pool_connection_unnoticed_witness:
  "\<exists>C1. client_step jdemo_lib jdemo_link jdemo_network jdemo_client_config
      (On_Message (request_event (ExtendedChannel 0 jdemo_open)))
      (client_start jdemo_lib jdemo_link jdemo_network jdemo_client_config [jdemo_pair ''b'' False]
        (jdc_new jdemo_data SoloMining)) = (True, C1) \<and>
    cl_status C1 = [] \<and> jc_upstream_state (cl_manager C1) = Pending \<and> out_downstream (cl_manager C1) = []"
proof -
  obtain cp where cp: "upstream_setup jdemo_lib jdemo_link (cc_min_version jdemo_client_config)
      (cc_max_version jdemo_client_config) (cc_required jdemo_client_config) (Some (jdemo_frame 2 [])) link_new = (Err Shutdown, cp)"
    using jdemo_pool_refuses by (auto simp: jdemo_client_config_def)
  obtain cj where cj: "jd_setup jdemo_lib jdemo_link (ua_jds (jdemo_pair ''b'' False)) (cc_mode jdemo_client_config)
      (Some (jdemo_frame 1 [1])) (SoloMining, link_new) = (Ok (), FullTemplate, cj)"
    using jdemo_jds_accepts [of "''b''"] by (auto simp: jdemo_client_config_def jdemo_pair_def)
  have trial: "try_initialize_single jdemo_network 0 ((jdemo_pair ''b'' False)\<lparr>ua_used := False\<rparr>) =
      Inr (Some (jdemo_frame 2 []), Some (jdemo_frame 1 [1]))"
    by (simp add: jdemo_client_defs try_initialize_single_def)
  have user: "str0255_try_from jdemo_lib (jc_user_identity (cc_manager jdemo_client_config)) = Inr [106, 100, 99]"
    using jdemo_user by (simp add: jdemo_client_config_def)
  have "jc_pending_requests jdemo_data = []" by (simp add: jdemo_data_def)
  from refused_pool_connection_unnoticed [OF trial cp cj user this _ refl, of "[]" "ExtendedChannel 0 jdemo_open"]
  show ?thesis by (auto simp del: client_step.simps)
qed

end
