(* ===== verification/Jdc_Link_Laws.thy ===== *)
theory Jdc_Link_Laws
  imports Jdc_Fallback
begin

text \<open>
  The loops of the connections of the job declarator client: the connections to the two servers
  pass messages on in both directions, in order and without loss, and the connection to a miner
  answers its requests.
\<close>

section \<open>Loops that pass messages on\<close>

text \<open>
  The contract of such a loop: a turn after which the loop goes on has reported nothing and has
  appended to both queues exactly what its event carries.
\<close>

locale forwarding_loop =
  fixes turn :: "'e \<Rightarrow> 's \<Rightarrow> bool \<times> jdc_state list \<times> 's"
    and link_of :: "'s \<Rightarrow> 'm link"
    and inbound :: "'e \<Rightarrow> 'm list"
    and outbound :: "'e \<Rightarrow> link_message list"
  assumes turn_appends:
    "turn e s = (True, q, s1) \<Longrightarrow>
       q = [] \<and> ln_manager (link_of s1) = ln_manager (link_of s) @ inbound e \<and>
       ln_sent (link_of s1) = ln_sent (link_of s) @ outbound e"
begin

lemma run_appends:
  "run_loop turn es s = (True, q, s1) \<Longrightarrow>
     q = [] \<and> ln_manager (link_of s1) = ln_manager (link_of s) @ concat (map inbound es) \<and>
     ln_sent (link_of s1) = ln_sent (link_of s) @ concat (map outbound es)"
proof (induction es arbitrary: s q)
  case (Cons e es)
  obtain b q2 s2 where t: "turn e s = (b, q2, s2)" by (metis prod_cases3)
  then have b: b using Cons.prems by (cases b) auto
  then obtain q3 where "run_loop turn es s2 = (True, q3, s1)" "q = q2 @ q3"
    using Cons.prems t by (auto split: prod.splits)
  with Cons.IH [of s2 q3] turn_appends [of e s q2 s2] t b show ?case by simp
qed simp

end

lemma loop_turn_True:
  "loop_turn who m = (True, q, s) \<longleftrightarrow> m = (Ok (), s) \<and> q = []"
  by (cases m; cases "fst m") (auto simp: loop_turn_def)

lemma hand_to_manager_Ok:
  "hand_to_manager m c = (Ok u, c1) \<longleftrightarrow> ln_manager_open c \<and> c1 = c\<lparr>ln_manager := ln_manager c @ [m]\<rparr>"
  by (auto simp: hand_to_manager_def)

lemma send_link_Ok:
  "send_link closed m c = (Ok u, c1) \<longleftrightarrow> ln_open c \<and> c1 = c\<lparr>ln_sent := ln_sent c @ [m]\<rparr>"
  by (auto simp: send_link_def post_link_def)

lemma send_encoded_Ok:
  "send_encoded K closed m c = (Ok u, c1) \<longleftrightarrow>
     (\<exists>a. lk_encode K m = Inr a) \<and> ln_open c \<and> c1 = c\<lparr>ln_sent := ln_sent c @ [m]\<rparr>"
  by (cases "lk_encode K m") (auto simp: send_encoded_def send_link_Ok)

text \<open>What the events of the two server connections carry.\<close>

definition frame_kind :: "'j link_lib \<Rightarrow> frame \<Rightarrow> message_type" where
  "frame_kind K fr =
     (case fr_header fr of
        None \<Rightarrow> Unknown_Message
      | Some (ext, mt) \<Rightarrow> protocol_message_type (lk_values K) (lk_negotiation K) ext mt)"

fun pool_inbound :: "'j link_lib \<Rightarrow> (jdc_shutdown_message, upstream_mining) link_event \<Rightarrow> frame list" where
  "pool_inbound K (From_Peer (Some fr)) =
     (if frame_kind K fr \<in> {Mining_Message, Extensions_Message} then [fr] else [])"
| "pool_inbound K _ = []"

fun pool_outbound :: "(jdc_shutdown_message, upstream_mining) link_event \<Rightarrow> link_message list" where
  "pool_outbound (From_Manager (Some m)) = [Msg_Frame m]"
| "pool_outbound _ = []"

fun jds_inbound :: "'j link_lib \<Rightarrow> (jdc_shutdown_message, jd_request) link_event \<Rightarrow> 'j list" where
  "jds_inbound K (From_Peer (Some fr)) =
     (if frame_kind K fr = JobDeclaration_Message then
        (case lk_parse_declaration K (snd (the (fr_header fr))) (fr_payload fr) of Inl e \<Rightarrow> [] | Inr m \<Rightarrow> [m])
      else [])"
| "jds_inbound K _ = []"

fun jds_outbound :: "(jdc_shutdown_message, jd_request) link_event \<Rightarrow> link_message list" where
  "jds_outbound (From_Manager (Some m)) = [Msg_Declaration m]"
| "jds_outbound _ = []"

lemma pool_frame_Ok:
  assumes "upstream_handle_frame K received c = (Ok u, c1)"
  shows "ln_manager c1 = ln_manager c @ pool_inbound K (From_Peer received) \<and> ln_sent c1 = ln_sent c"
  using assms
  by (auto simp: upstream_handle_frame_def frame_kind_def hand_to_manager_Ok
      split: option.splits message_type.splits sum.splits)

interpretation pool_loop: forwarding_loop "upstream_turn K" "\<lambda>c. c" "pool_inbound K" pool_outbound
proof
  fix e :: "(jdc_shutdown_message, upstream_mining) link_event" and s s1 q
  assume t: "upstream_turn K e s = (True, q, s1)"
  show "q = [] \<and> ln_manager s1 = ln_manager s @ pool_inbound K e \<and> ln_sent s1 = ln_sent s @ pool_outbound e"
  proof (cases e)
    case (Signal m)
    then show ?thesis using t by (auto simp: upstream_turn_def)
  next
    case (From_Peer fr)
    then have "upstream_handle_frame K fr s = (Ok (), s1)" "q = []"
      using t by (simp_all add: upstream_turn_def loop_turn_True)
    then show ?thesis using pool_frame_Ok From_Peer by auto
  next
    case (From_Manager m)
    then show ?thesis
      using t by (cases m) (auto simp: upstream_turn_def loop_turn_True upstream_forward_def send_link_Ok)
  qed
qed

lemma jd_common_link: "snd (snd (jd_common m s)) = snd s"
  by (cases m) (auto simp: jd_common_def Let_def)

lemma jds_frame_Ok:
  assumes "jd_handle_frame K received s = (Ok u, s1)"
  shows "ln_manager (snd s1) = ln_manager (snd s) @ jds_inbound K (From_Peer received) \<and>
    ln_sent (snd s1) = ln_sent (snd s)"
proof (cases "\<exists>fr m. received = Some fr \<and> jd_common m s = (Ok u, s1) \<and> frame_kind K fr = Common_Message")
  case True
  then show ?thesis using jd_common_link by (metis append_Nil2 jds_inbound.simps(1) message_type.distinct(3) snd_conv)
next
  case False
  then show ?thesis
    using assms
    by (auto simp: jd_handle_frame_def frame_kind_def hand_to_manager_Ok
        split: option.splits message_type.splits sum.splits prod.splits)
qed

interpretation jds_loop: forwarding_loop "jd_turn K" snd "jds_inbound K" jds_outbound
proof
  fix e :: "(jdc_shutdown_message, jd_request) link_event" and s s1 q
  assume t: "jd_turn K e s = (True, q, s1)"
  show "q = [] \<and> ln_manager (snd s1) = ln_manager (snd s) @ jds_inbound K e \<and>
    ln_sent (snd s1) = ln_sent (snd s) @ jds_outbound e"
  proof (cases e)
    case (Signal m)
    then show ?thesis using t by (auto simp: jd_turn_def)
  next
    case (From_Peer fr)
    then have "jd_handle_frame K fr s = (Ok (), s1)" "q = []"
      using t by (simp_all add: jd_turn_def loop_turn_True)
    then show ?thesis using jds_frame_Ok [of K fr s "()" s1] From_Peer by auto
  next
    case (From_Manager m)
    then show ?thesis
      using t by (cases m) (auto simp: jd_turn_def loop_turn_True jd_forward_def send_encoded_Ok split: prod.splits)
  qed
qed

text \<open>
  C18. The connections to the servers. As long as its loop runs, the connection to the pool has
  handed every mining and extension frame of the pool to the channel manager and every message of
  the channel manager to the pool, in the order of arrival, each exactly once; the connection to
  the job declarator server does the same with the messages of the declaration protocol. Nothing
  else is sent, and no status is reported.
\<close>

theorem server_links_forward_in_order:
  "(run_loop (upstream_turn K) es c = (True, q, c1) \<longrightarrow>
      q = [] \<and> ln_manager c1 = ln_manager c @ concat (map (pool_inbound K) es) \<and>
      ln_sent c1 = ln_sent c @ concat (map pool_outbound es)) \<and>
   (run_loop (jd_turn K) fs s = (True, q', s1) \<longrightarrow>
      q' = [] \<and> ln_manager (snd s1) = ln_manager (snd s) @ concat (map (jds_inbound K) fs) \<and>
      ln_sent (snd s1) = ln_sent (snd s) @ concat (map jds_outbound fs))"
  using pool_loop.run_appends jds_loop.run_appends by blast

lemma jdemo_kinds:
  "frame_kind jdemo_link (jdemo_frame 0x14 bs) = Mining_Message"
  "frame_kind jdemo_link (jdemo_frame 0x04 bs) = Common_Message"
  "frame_kind jdemo_link (jdemo_frame 0x51 bs) = JobDeclaration_Message"
  by (simp_all add: frame_kind_def jdemo_frame_def protocol_message_type_def is_common_message_def
      is_mining_message_def is_job_declaration_message_def common_consts_def mining_consts_def
      job_declaration_consts_def CHANNEL_MSG_MASK_def Let_def)

theorem server_links_forward_in_order_witness:
  "\<exists>c1 s1.
     run_loop (upstream_turn jdemo_link)
       [From_Peer (Some (jdemo_frame 0x14 [1])), From_Manager (Some (CloseUpstream 1 ''bye'')),
        From_Peer (Some (jdemo_frame 0x04 [1])), From_Peer (Some (jdemo_frame 0x14 [2]))] link_new = (True, [], c1) \<and>
     ln_manager c1 = [jdemo_frame 0x14 [1], jdemo_frame 0x14 [2]] \<and> ln_sent c1 = [Msg_Frame (CloseUpstream 1 ''bye'')] \<and>
     run_loop (jd_turn jdemo_link) [From_Peer (Some (jdemo_frame 0x51 [7]))] (FullTemplate, link_new) = (True, [], s1) \<and>
     ln_manager (snd s1) = [[7]] \<and> ln_sent (snd s1) = []"
proof -
  let ?es = "[From_Peer (Some (jdemo_frame 0x14 [1])), From_Manager (Some (CloseUpstream 1 ''bye'')),
        From_Peer (Some (jdemo_frame 0x04 [1])), From_Peer (Some (jdemo_frame 0x14 [2]))]"
  let ?fs = "[From_Peer (Some (jdemo_frame 0x51 [7]))]"
  note kinds = jdemo_kinds [unfolded frame_kind_def, simplified jdemo_frame_def frame.simps option.case prod.case]
  obtain c1 where c1: "run_loop (upstream_turn jdemo_link) ?es link_new = (True, [], c1)"
    using kinds
    by (simp add: upstream_turn_def upstream_handle_frame_def upstream_forward_def loop_turn_def hand_to_manager_def
        send_link_def post_link_def link_new_def jdemo_frame_def upstream_common_def)
  obtain s1 where s1: "run_loop (jd_turn jdemo_link) ?fs (FullTemplate, link_new) = (True, [], s1)"
    using kinds by (simp add: jd_turn_def jd_handle_frame_def loop_turn_def hand_to_manager_def link_new_def jdemo_frame_def)
  have "concat (map (pool_inbound jdemo_link) ?es) = [jdemo_frame 0x14 [1], jdemo_frame 0x14 [2]]"
    "concat (map (jds_inbound jdemo_link) ?fs) = [[7]]"
    by (simp_all add: jdemo_kinds) (simp_all add: jdemo_frame_def)
  then show ?thesis
    using server_links_forward_in_order [of jdemo_link ?es link_new "[]" c1 ?fs "(FullTemplate, link_new)" "[]" s1] c1 s1
    by (simp add: link_new_def del: run_loop.simps pool_inbound.simps jds_inbound.simps)
qed

section \<open>The connection to a miner\<close>

text \<open>The setup on every branch, where the answer can be encoded.\<close>

lemma miner_setup_outcome:
  assumes "\<And>m. lk_encode K m = Inr ()"
  shows "jdc_handle_setup_connection L K msg (dd, c) =
    (if js_protocol msg = MiningProtocol \<and> \<not> has_work_selection L (js_flags msg)
     then (Ok (), dd\<lparr>require_std_job := require_std_job dd \<or> has_requires_std_job L (js_flags msg)\<rparr>,
           post_link (Msg_SetupSuccess 2 (js_flags msg)) c)
     else (Err Shutdown, dd,
           post_link (if js_protocol msg = MiningProtocol then Msg_SetupError 2 ''unsupported-feature-flags''
                      else Msg_SetupError 0 ''unsupported-protocol'') c))"
  using assms by (auto simp: jdc_handle_setup_connection_def Let_def)

text \<open>
  A miner without a required extension stays connected. When a miner asks for extensions but
  not for all that the client requires, the client answers with an error that names the missing
  ones, logs that the miner must be disconnected, and goes on: no status is reported and the next
  mining message of the miner reaches the channel manager like that of any other.
\<close>

theorem missing_extensions_not_disconnected:
  assumes "lk_parse_client K h bs (negotiated_extensions dd) = Inr (Client_Extensions msg)"
    and "\<not> set (dd_required_extensions dd) \<subseteq> set (rx_requested msg)"
    and "lk_parse_client K h2 bs2 (negotiated_extensions dd) = Inr (Client_Mining m)"
    and "\<And>xs. seq064k_new L xs = Inr xs" and "\<And>m. lk_encode K m = Inr ()"
    and "ln_open c" and "ln_manager_open c"
  shows "run_loop (jdc_downstream_turn L K did)
      [From_Peer (Some \<lparr>fr_header = Some h, fr_payload = bs\<rparr>), From_Peer (Some \<lparr>fr_header = Some h2, fr_payload = bs2\<rparr>)]
      (dd, c) =
    (True, [], dd, c\<lparr>
       ln_sent := ln_sent c @
         [Msg_ExtensionsError (rx_request_id msg)
            (filter (\<lambda>e. e \<notin> set (dd_supported_extensions dd)) (rx_requested msg))
            (filter (\<lambda>e. e \<notin> set (rx_requested msg)) (dd_required_extensions dd))],
       ln_manager := ln_manager c @ [(did, m)]\<rparr>)"
proof -
  have "filter (\<lambda>e. e \<notin> set (rx_requested msg)) (dd_required_extensions dd) \<noteq> []"
    using assms(2) by (auto simp: filter_empty_conv)
  then have "jdc_handle_request_extensions L K msg (dd, c) =
      (Ok (), dd, c\<lparr>ln_sent := ln_sent c @
         [Msg_ExtensionsError (rx_request_id msg)
            (filter (\<lambda>e. e \<notin> set (dd_supported_extensions dd)) (rx_requested msg))
            (filter (\<lambda>e. e \<notin> set (rx_requested msg)) (dd_required_extensions dd))]\<rparr>)"
    using assms(4-6) by (simp add: jdc_handle_request_extensions_def Let_def post_link_def)
  then show ?thesis
    using assms(1,3,7) by (simp add: jdc_downstream_turn_def jdc_handle_miner_frame_def loop_turn_def hand_to_manager_def)
qed

theorem missing_extensions_not_disconnected_witness:
  "run_loop (jdc_downstream_turn jdemo_lib jdemo_link 3)
     [From_Peer (Some \<lparr>fr_header = Some (1, 0), fr_payload = [5]\<rparr>), From_Peer (Some \<lparr>fr_header = Some (0, 0x18), fr_payload = []\<rparr>)]
     ((jdc_downstream_data (jdc_downstream_new 3 [5] [9])), link_new) =
   (True, [], jdc_downstream_data (jdc_downstream_new 3 [5] [9]),
    link_new\<lparr>ln_sent := [Msg_ExtensionsError 4 [] [9]], ln_manager := [(3, MinerClose 1)]\<rparr>)"
proof -
  let ?dd = "jdc_downstream_data (jdc_downstream_new 3 [5] [9]) ::
    (jdemo_channel, jdemo_channel, u32) jdc_downstream_data"
  let ?msg = "\<lparr>rx_request_id = 4, rx_requested = [5]\<rparr> :: request_extensions"
  have "lk_parse_client jdemo_link (1, 0) [5] (negotiated_extensions ?dd) = Inr (Client_Extensions ?msg)"
    "lk_parse_client jdemo_link (0, 0x18) [] (negotiated_extensions ?dd) = Inr (Client_Mining (MinerClose 1))"
    "\<not> set (dd_required_extensions ?dd) \<subseteq> set (rx_requested ?msg)"
    "ln_open link_new" "ln_manager_open link_new"
    by (simp_all add: jdc_downstream_new_def link_new_def)
  from missing_extensions_not_disconnected [where L = jdemo_lib and did = 3, OF this(1,3,2) _ _ this(4,5)]
  show ?thesis by (simp add: jdc_downstream_new_def link_new_def del: run_loop.simps)
qed

section \<open>Shutdown signals\<close>

text \<open>
  The signal of a fallback ends the loop and the I/O tasks of every connection but that to the
  template provider; the signal for one miner ends the tasks of that miner only.
\<close>

lemma fallback_signal_stops:
  "downstream_stops did (Some (UpstreamShutdownFallback outs))"
  "server_link_stops (Some (UpstreamShutdownFallback outs))"
  "io_task_stops who (Some (UpstreamShutdownFallback outs)) \<longleftrightarrow> who \<noteq> From_TemplateReceiver"
  "downstream_stops did (Some (DownstreamShutdown i)) \<longleftrightarrow> i = did"
  "\<not> server_link_stops (Some (DownstreamShutdown i))"
  "io_task_stops who (Some (DownstreamShutdown i)) \<longleftrightarrow> who = From_Downstream i"
  by (simp_all add: downstream_stops_def server_link_stops_def io_task_stops_def)

lemma fallback_ends_miner_loop:
  "run_loop (jdc_downstream_turn L K did) (Signal (Some (UpstreamShutdownFallback outs)) # es) s = (False, [], s)"
  by (simp add: jdc_downstream_turn_def fallback_signal_stops)

end
