(* ===== verification/Bitcoin_Core.thy ===== *)
theory Bitcoin_Core
  imports Pool_Types
begin

text \<open>
  The template provider on top of Bitcoin Core (\<open>bitcoin-core-sv2\<close>): the data of a template and
  the messages made from it (\<open>template_data.rs\<close>, \<open>error.rs\<close>), the state and the start of
  \<open>BitcoinCoreSv2\<close> (\<open>lib.rs\<close>), the handlers of the three requests (\<open>handlers.rs\<close>)
  and the tasks that watch Bitcoin Core and the incoming messages (\<open>monitors.rs\<close>). The replies
  of Bitcoin Core over IPC and the clock are arguments of the steps; the type \<open>'c\<close> is the
  capability of a block template. The codecs and the hashing of the Bitcoin and Stratum crates are
  the fields of \<open>tdp_lib\<close>. All tasks run on one thread, so a step is what a task does between
  two suspensions. The handler of a request for transactions is one step: the answer of Bitcoin
  Core that it waits for comes with the request.
\<close>

section \<open>Errors\<close>

datatype capnp_error = Capnp nat
datatype consensus_error = Consensus nat

datatype bitcoin_core_error =
    Bc_CapnpError capnp_error
  | Bc_CannotConnectToUnixSocket string
  | Bc_InvalidTemplateHeader consensus_error
  | Bc_InvalidTemplateHeaderLength
  | Bc_FailedToSerializeCoinbasePrefix
  | Bc_FailedToSerializeCoinbaseOutputs
  | Bc_TemplateNotFound
  | Bc_TemplateIpcClientNotFound
  | Bc_FailedToSendNewTemplateMessage
  | Bc_FailedToSendSetNewPrevHashMessage
  | Bc_FailedToFetchTemplateTxData
  | Bc_FailedToSendRequestTransactionDataResponseMessage
  | Bc_FailedToRecvTemplateDistributionMessage
  | Bc_FailedToSendTemplateDistributionMessage
  | Bc_FailedToSubmitSolution
  | Bc_FailedToSetThread
  | Bc_FailedToGetWaitNextRequestOptions

datatype template_data_error =
    Td_InvalidCoinbaseTx consensus_error
  | Td_InvalidSolution
  | Td_InvalidSolutionPoW nat
  | Td_InvalidMerkleRoot
  | Td_InvalidBlockVersion
  | Td_InvalidCoinbaseTxVersion
  | Td_InvalidCoinbaseScriptSig
  | Td_FailedToSumCoinbaseOutputs
  | Td_CapnpError capnp_error
  | Td_FailedIpcSubmitSolution
  | Td_FailedToSerializeEmptyCoinbaseOutputs
  | Td_FailedToConvertMerklePathHashToU256
  | Td_FailedToCreateMerklePathSeq
  | Td_BitcoinCoreSv2Error bitcoin_core_error

type_synonym 'a td_result = "(template_data_error, 'a) res"
type_synonym 'a bc_result = "(bitcoin_core_error, 'a) res"

section \<open>Template data\<close>

record tx_in =
  ti_script_sig :: bytes
  ti_sequence :: u32
  ti_witness :: "bytes list"
  ti_previous_output :: "bytes \<times> u32"

text \<open>Versions are 32 bit signed integers, kept as their bits.\<close>

record bc_tx =
  bt_version :: u32
  bt_lock_time :: u32
  bt_input :: "tx_in list"
  bt_output :: "tx_out list"

record bc_header =
  hd_version :: u32
  hd_prev_blockhash :: u256
  hd_merkle_root :: bytes
  hd_time :: u32
  hd_bits :: u32
  hd_nonce :: u32

record bc_block =
  bb_header :: bc_header
  bb_txdata :: "bc_tx list"

record tdp_lib =
  tl_b0255 :: "bytes \<Rightarrow> bytes option"
  tl_b064k :: "bytes \<Rightarrow> bytes option"
  tl_b016m :: "bytes \<Rightarrow> bytes option"
  tl_u256 :: "bytes \<Rightarrow> u256 option"
  tl_seq0255 :: "u256 list \<Rightarrow> u256 list option"
  tl_seq064k :: "bytes list \<Rightarrow> bytes list option"
  tl_checked_sum :: "u64 list \<Rightarrow> u64 option"
  tl_serialize_out :: "tx_out \<Rightarrow> bytes"
  tl_serialize_tx :: "bc_tx \<Rightarrow> bytes"
  tl_deserialize_tx :: "bytes \<Rightarrow> consensus_error + bc_tx"
  tl_target :: "u32 \<Rightarrow> u256"
  tl_txid :: "bc_tx \<Rightarrow> bytes"
  tl_sha256d :: "bytes \<Rightarrow> bytes"
  tl_validate_pow :: "bc_header \<Rightarrow> bool"

record 'c template_data =
  td_template_id :: u64
  td_header :: bc_header
  td_coinbase_tx :: bc_tx
  td_merkle_path :: "bytes list"
  td_client :: 'c

definition template_data_new ::
  "u64 \<Rightarrow> bc_header \<Rightarrow> bc_tx \<Rightarrow> bytes list \<Rightarrow> 'c \<Rightarrow> 'c template_data" where
  "template_data_new i h tx path c =
     \<lparr> td_template_id = i, td_header = h, td_coinbase_tx = tx, td_merkle_path = path, td_client = c \<rparr>"

definition td_get_prev_hash :: "'c template_data \<Rightarrow> u256" where
  "td_get_prev_hash td = hd_prev_blockhash (td_header td)"

definition get_version :: "'c template_data \<Rightarrow> u32 td_result" where
  "get_version td =
     (let v = hd_version (td_header td) in if sint v < 0 then Err Td_InvalidBlockVersion else Ok v)"

definition get_coinbase_tx_version :: "'c template_data \<Rightarrow> u32 td_result" where
  "get_coinbase_tx_version td =
     (let v = bt_version (td_coinbase_tx td) in
      if sint v < 0 then Err Td_InvalidCoinbaseTxVersion else Ok v)"

text \<open>Indexing the first input panics on a coinbase without inputs.\<close>

definition first_input :: "bc_tx \<Rightarrow> ('e, tx_in) res" where
  "first_input tx = (case bt_input tx of [] \<Rightarrow> Panic ''index out of bounds'' | i # _ \<Rightarrow> Ok i)"

definition get_coinbase_script_sig :: "('z) tdp_lib_scheme \<Rightarrow> 'c template_data \<Rightarrow> bytes td_result" where
  "get_coinbase_script_sig T td =
     (case first_input (td_coinbase_tx td) of
        Ok i \<Rightarrow> (case tl_b0255 T (ti_script_sig i) of
                   Some s \<Rightarrow> Ok s | None \<Rightarrow> Err Td_InvalidCoinbaseScriptSig)
      | Err e \<Rightarrow> Err e
      | Panic p \<Rightarrow> Panic p)"

definition get_coinbase_input_sequence :: "'c template_data \<Rightarrow> u32 td_result" where
  "get_coinbase_input_sequence td = map_res ti_sequence (first_input (td_coinbase_tx td))"

definition get_empty_coinbase_outputs :: "'c template_data \<Rightarrow> tx_out list" where
  "get_empty_coinbase_outputs td = filter (\<lambda>out. tx_value out = 0) (bt_output (td_coinbase_tx td))"

definition get_serialized_empty_coinbase_outputs ::
  "('z) tdp_lib_scheme \<Rightarrow> 'c template_data \<Rightarrow> bytes td_result" where
  "get_serialized_empty_coinbase_outputs T td =
     (case tl_b064k T (concat (map (tl_serialize_out T) (get_empty_coinbase_outputs td))) of
        Some b \<Rightarrow> Ok b | None \<Rightarrow> Err Td_FailedToSerializeEmptyCoinbaseOutputs)"

definition get_coinbase_tx_value_remaining ::
  "('z) tdp_lib_scheme \<Rightarrow> 'c template_data \<Rightarrow> u64 td_result" where
  "get_coinbase_tx_value_remaining T td =
     (case tl_checked_sum T (map tx_value (bt_output (td_coinbase_tx td))) of
        Some v \<Rightarrow> Ok v | None \<Rightarrow> Err Td_FailedToSumCoinbaseOutputs)"

fun convert_merkle_path :: "('z) tdp_lib_scheme \<Rightarrow> bytes list \<Rightarrow> u256 list td_result" where
  "convert_merkle_path T [] = Ok []"
| "convert_merkle_path T (b # bs) =
     (case tl_u256 T b of
        None \<Rightarrow> Err Td_FailedToConvertMerklePathHashToU256
      | Some h \<Rightarrow> map_res ((#) h) (convert_merkle_path T bs))"

text \<open>The \<open>?\<close> operator of a function without state.\<close>

definition bind_res :: "('e, 'a) res \<Rightarrow> ('a \<Rightarrow> ('e, 'b) res) \<Rightarrow> ('e, 'b) res" where
  "bind_res r k = (case r of Ok a \<Rightarrow> k a | Err e \<Rightarrow> Err e | Panic p \<Rightarrow> Panic p)"

definition get_merkle_path :: "('z) tdp_lib_scheme \<Rightarrow> 'c template_data \<Rightarrow> u256 list td_result" where
  "get_merkle_path T td =
     bind_res (convert_merkle_path T (td_merkle_path td)) (\<lambda>hs.
       case tl_seq0255 T hs of Some s \<Rightarrow> Ok s | None \<Rightarrow> Err Td_FailedToCreateMerklePathSeq)"

definition get_new_template_message ::
  "('z) tdp_lib_scheme \<Rightarrow> bool \<Rightarrow> 'c template_data \<Rightarrow> new_template td_result" where
  "get_new_template_message T future td =
     bind_res (get_version td) (\<lambda>version.
     bind_res (get_coinbase_tx_version td) (\<lambda>tx_version.
     bind_res (get_coinbase_script_sig T td) (\<lambda>script_sig.
     bind_res (get_coinbase_input_sequence td) (\<lambda>sequence.
     bind_res (get_coinbase_tx_value_remaining T td) (\<lambda>value.
     bind_res (get_serialized_empty_coinbase_outputs T td) (\<lambda>outputs.
     bind_res (get_merkle_path T td) (\<lambda>path.
       Ok \<lparr> nt_template_id = td_template_id td, nt_future_template = future, nt_version = version,
            nt_coinbase_tx_version = tx_version, nt_coinbase_prefix = script_sig,
            nt_coinbase_tx_input_sequence = sequence, nt_coinbase_tx_value_remaining = value,
            nt_coinbase_tx_outputs_count = of_nat (length (get_empty_coinbase_outputs td)),
            nt_coinbase_tx_outputs = outputs,
            nt_coinbase_tx_locktime = bt_lock_time (td_coinbase_tx td), nt_merkle_path = path \<rparr>)))))))"

definition get_set_new_prev_hash_message ::
  "('z) tdp_lib_scheme \<Rightarrow> 'c template_data \<Rightarrow> set_new_prev_hash_tdp" where
  "get_set_new_prev_hash_message T td =
     \<lparr> ph_template_id = td_template_id td, ph_prev_hash = td_get_prev_hash td,
       ph_header_timestamp = hd_time (td_header td), ph_n_bits = hd_bits (td_header td),
       ph_target = tl_target T (hd_bits (td_header td)) \<rparr>"

section \<open>Transactions and solutions of a template\<close>

text \<open>\<open>get_tx_data\<close>: the block of the template, every transaction of it, serialised.\<close>

fun serialize_txs :: "('z) tdp_lib_scheme \<Rightarrow> bc_tx list \<Rightarrow> bytes list td_result" where
  "serialize_txs T [] = Ok []"
| "serialize_txs T (tx # txs) =
     (case tl_b016m T (tl_serialize_tx T tx) of
        None \<Rightarrow> Panic ''tx data should always be valid for B016M''
      | Some b \<Rightarrow> map_res ((#) b) (serialize_txs T txs))"

definition get_tx_data ::
  "('z) tdp_lib_scheme \<Rightarrow> template_data_error + bc_block \<Rightarrow> bytes list td_result" where
  "get_tx_data T reply =
     bind_res (from_sum (\<lambda>e. e) reply) (\<lambda>block.
     bind_res (serialize_txs T (bb_txdata block)) (\<lambda>txs.
       case tl_seq064k T txs of
         Some s \<Rightarrow> Ok s | None \<Rightarrow> Panic ''tx data should always be valid for Seq064K''))"

text \<open>The merkle root of a solution: the coinbase identifier combined with every sibling.\<close>

definition solution_merkle_root :: "('z) tdp_lib_scheme \<Rightarrow> bc_tx \<Rightarrow> bytes list \<Rightarrow> bytes" where
  "solution_merkle_root T tx path = foldl (\<lambda>h sibling. tl_sha256d T (h @ sibling)) (tl_txid T tx) path"

definition solution_header ::
  "('z) tdp_lib_scheme \<Rightarrow> bc_tx \<Rightarrow> u32 \<Rightarrow> u32 \<Rightarrow> u32 \<Rightarrow> 'c template_data \<Rightarrow> bc_header" where
  "solution_header T tx version time nonce td =
     \<lparr> hd_version = version, hd_prev_blockhash = hd_prev_blockhash (td_header td),
       hd_merkle_root = solution_merkle_root T tx (td_merkle_path td), hd_time = time,
       hd_bits = hd_bits (td_header td), hd_nonce = nonce \<rparr>"

text \<open>
  \<open>dump_solution_to_disk\<close>: the block it writes, if the coinbase agrees with the template's and
  the header has the proof of work; a failing call of the IPC or an unreadable block ends the task.
\<close>

definition congruent_coinbase :: "bc_tx \<Rightarrow> bc_tx \<Rightarrow> (unit, bool) res" where
  "congruent_coinbase tx own =
     (if bt_version tx \<noteq> bt_version own \<or> bt_lock_time tx \<noteq> bt_lock_time own \<or> length (bt_input tx) \<noteq> 1
      then Ok False
      else
        bind_res (first_input own) (\<lambda>j.
          let i = hd (bt_input tx) in
          Ok (ti_sequence i = ti_sequence j \<and> ti_witness i = ti_witness j \<and>
              ti_previous_output i = ti_previous_output j)))"

definition dump_solution_to_disk ::
  "('z) tdp_lib_scheme \<Rightarrow> bc_tx \<Rightarrow> u32 \<Rightarrow> u32 \<Rightarrow> u32 \<Rightarrow> bc_block option \<Rightarrow> 'c template_data \<Rightarrow> bc_block option" where
  "dump_solution_to_disk T tx version time nonce template_block td =
     (let h = solution_header T tx version time nonce td in
      if congruent_coinbase tx (td_coinbase_tx td) \<noteq> Ok True \<or> \<not> tl_validate_pow T h then None
      else
        case template_block of
          None \<Rightarrow> None
        | Some b \<Rightarrow>
            (case bb_txdata b of
               [] \<Rightarrow> None
             | _ # txs \<Rightarrow> Some \<lparr> bb_header = h, bb_txdata = tx # txs \<rparr>))"

text \<open>\<open>reply\<close> is the answer of Bitcoin Core to the submission.\<close>

definition td_submit_solution ::
  "('z) tdp_lib_scheme \<Rightarrow> submit_solution \<Rightarrow> bc_block option \<Rightarrow> template_data_error + bool \<Rightarrow>
     'c template_data \<Rightarrow> unit td_result \<times> bc_block option" where
  "td_submit_solution T m template_block reply td =
     (case tl_deserialize_tx T (ss_coinbase_tx m) of
        Inl e \<Rightarrow> (Err (Td_InvalidCoinbaseTx e), None)
      | Inr tx \<Rightarrow>
          (case reply of
             Inl e \<Rightarrow> Err e
           | Inr ok \<Rightarrow> if ok then Ok () else Err Td_FailedIpcSubmitSolution,
           dump_solution_to_disk T tx (ss_version m) (ss_header_timestamp m) (ss_header_nonce m)
             template_block td))"

section \<open>State\<close>

datatype tdp_out =
    Out_NewTemplate new_template
  | Out_SetNewPrevHash set_new_prev_hash_tdp
  | Out_TxDataSuccess u64 "bytes list"
  | Out_TxDataError u64 string

text \<open>Where the task of \<open>monitor_ipc_templates\<close> is suspended: before its first turn, in a
  \<open>waitNext\<close> request with the counter it captured, in the fetching of a template, in the sleep
  before an update of the same chain tip, or ended.\<close>

datatype 'c monitor_phase =
    Starting
  | Waiting 'c u32
  | Fetching u64 'c
  | Sleeping "'c template_data"
  | Ended

record 'c monitor =
  mo_phase :: "'c monitor_phase"
  mo_last_sent :: "u64 option"

record 'c bitcoin_core =
  bc_fee_threshold :: u64
  bc_min_interval :: u8
  bc_current_client :: "'c option"
  bc_current_prev_hash :: "u256 option"
  bc_wait_next_counter :: u8
  bc_constraints_counter :: u32
  bc_template_data :: "(u64, 'c template_data) hash_map"
  bc_stale_ids :: "u64 list"
  bc_template_id_factory :: u64
  bc_cancelled :: bool
  bc_last_sent :: "u64 option"
  bc_booted :: bool
  bc_listening :: bool
  bc_out_open :: bool
  bc_out :: "tdp_out list"
  bc_monitors :: "'c monitor list"
  bc_stale_tasks :: "u64 list list"
  bc_block_requests :: "(u64 \<times> u64) list"

definition bitcoin_core_new :: "u64 \<Rightarrow> u8 \<Rightarrow> 'c bitcoin_core" where
  "bitcoin_core_new fee_threshold min_interval =
     \<lparr> bc_fee_threshold = fee_threshold, bc_min_interval = min_interval, bc_current_client = None,
       bc_current_prev_hash = None, bc_wait_next_counter = 0, bc_constraints_counter = 0,
       bc_template_data = hm_new, bc_stale_ids = [], bc_template_id_factory = 0, bc_cancelled = False,
       bc_last_sent = None, bc_booted = False, bc_listening = False, bc_out_open = True, bc_out = [],
       bc_monitors = [], bc_stale_tasks = [], bc_block_requests = [] \<rparr>"

definition cancel :: "'c bitcoin_core \<Rightarrow> 'c bitcoin_core" where
  "cancel s = s \<lparr> bc_cancelled := True \<rparr>"

definition send_out :: "tdp_out \<Rightarrow> 'c bitcoin_core \<Rightarrow> bool \<times> 'c bitcoin_core" where
  "send_out m s = (if bc_out_open s then (True, s \<lparr> bc_out := bc_out s @ [m] \<rparr>) else (False, s))"

definition set_phase :: "nat \<Rightarrow> 'c monitor_phase \<Rightarrow> 'c bitcoin_core \<Rightarrow> 'c bitcoin_core" where
  "set_phase i p s =
     s \<lparr> bc_monitors := (bc_monitors s) [i := (bc_monitors s ! i) \<lparr> mo_phase := p \<rparr>] \<rparr>"

text \<open>Ending the connection from the task of monitor \<open>i\<close>.\<close>

definition terminate :: "nat \<Rightarrow> 'c bitcoin_core \<Rightarrow> 'c bitcoin_core" where
  "terminate i s = set_phase i Ended (cancel s)"

section \<open>Requests to Bitcoin Core\<close>

definition WEIGHT_FACTOR :: u32 where
  "WEIGHT_FACTOR = 4"

definition MIN_BLOCK_RESERVED_WEIGHT :: u64 where
  "MIN_BLOCK_RESERVED_WEIGHT = 2000"

text \<open>The product is taken on 32 bits before the cast: without overflow checks it wraps.\<close>

definition block_reserved_weight :: "u32 \<Rightarrow> u64" where
  "block_reserved_weight max_additional_size =
     max (ucast (max_additional_size * WEIGHT_FACTOR)) MIN_BLOCK_RESERVED_WEIGHT"

definition new_template_ipc_client ::
  "u32 \<Rightarrow> u16 \<Rightarrow> bitcoin_core_error + 'c \<Rightarrow> 'c bitcoin_core \<Rightarrow> 'c bc_result \<times> 'c bitcoin_core" where
  "new_template_ipc_client max_size sigops reply s =
     (from_sum (\<lambda>e. e) reply,
      s \<lparr> bc_block_requests := bc_block_requests s @ [(block_reserved_weight max_size, ucast sigops)] \<rparr>)"

text \<open>\<open>fetch_template_data\<close> before its first suspension: the identifier and the client.\<close>

definition begin_fetch :: "'c bitcoin_core \<Rightarrow> (u64 \<times> 'c) bc_result \<times> 'c bitcoin_core" where
  "begin_fetch s =
     (let i = fst (fetch_add (bc_template_id_factory s));
          s1 = s \<lparr> bc_template_id_factory := snd (fetch_add (bc_template_id_factory s)) \<rparr>
      in case bc_current_client s1 of
           Some c \<Rightarrow> (Ok (i, c), s1)
         | None \<Rightarrow> (Err Bc_TemplateIpcClientNotFound, s1))"

type_synonym template_reply = "bitcoin_core_error + (bc_header \<times> bc_tx \<times> bytes list)"

definition end_fetch :: "u64 \<Rightarrow> 'c \<Rightarrow> template_reply \<Rightarrow> 'c template_data bc_result" where
  "end_fetch i c reply =
     map_res (\<lambda>(h, tx, path). template_data_new i h tx path c) (from_sum (\<lambda>e. e) reply)"

datatype request_outcome = Request_Ok | Request_SetThread | Request_Options

definition new_wait_next_request ::
  "request_outcome \<Rightarrow> 'c bitcoin_core \<Rightarrow> 'c bc_result \<times> 'c bitcoin_core" where
  "new_wait_next_request w s =
     (case bc_current_client s of
        None \<Rightarrow> (Err Bc_TemplateIpcClientNotFound, s)
      | Some c \<Rightarrow>
          (case w of
             Request_SetThread \<Rightarrow> (Err Bc_FailedToSetThread, s)
           | Request_Options \<Rightarrow> (Err Bc_FailedToGetWaitNextRequestOptions, s)
           | Request_Ok \<Rightarrow>
               (Ok c, s \<lparr> bc_wait_next_counter := snd (fetch_add (bc_wait_next_counter s)) \<rparr>)))"

section \<open>The task that watches the templates\<close>

definition loop_head :: "nat \<Rightarrow> request_outcome \<Rightarrow> 'c bitcoin_core \<Rightarrow> 'c bitcoin_core" where
  "loop_head i w s =
     (case new_wait_next_request w s of
        (Ok c, s1) \<Rightarrow> set_phase i (Waiting c (bc_constraints_counter s1)) s1
      | (_, s1) \<Rightarrow> terminate i s1)"

definition monitor_start ::
  "nat \<Rightarrow> bitcoin_core_error + unit \<Rightarrow> request_outcome \<Rightarrow> 'c bitcoin_core \<Rightarrow> 'c bitcoin_core" where
  "monitor_start i thread_reply w s =
     (case thread_reply of Inl e \<Rightarrow> terminate i s | Inr _ \<Rightarrow> loop_head i w s)"

datatype 'c wait_next_response =
    Wait_Failed
  | Wait_BadResponse
  | Wait_TimedOut
  | Wait_BadResult
  | Wait_Template 'c

definition monitor_response ::
  "nat \<Rightarrow> u32 \<Rightarrow> 'c wait_next_response \<Rightarrow> request_outcome \<Rightarrow> 'c bitcoin_core \<Rightarrow> 'c bitcoin_core" where
  "monitor_response i captured response w s =
     (if response = Wait_Failed then terminate i s
      else
        let s1 = s \<lparr> bc_wait_next_counter := bc_wait_next_counter s - 1 \<rparr> in
        if bc_cancelled s1 \<or> bc_constraints_counter s1 \<noteq> captured then set_phase i Ended s1
        else
          case response of
            Wait_TimedOut \<Rightarrow> loop_head i w s1
          | Wait_Template c \<Rightarrow>
              (case begin_fetch (s1 \<lparr> bc_current_client := Some c \<rparr>) of
                 (Ok (k, c'), s2) \<Rightarrow> set_phase i (Fetching k c') s2
               | (_, s2) \<Rightarrow> terminate i s2)
          | _ \<Rightarrow> terminate i s1)"

text \<open>A template on a new chain tip: the stored identifiers become stale after ten seconds, the
  template is stored, announced as a future template and activated.\<close>

definition announce_tip ::
  "('z) tdp_lib_scheme \<Rightarrow> nat \<Rightarrow> 'c template_data \<Rightarrow> request_outcome \<Rightarrow> 'c bitcoin_core \<Rightarrow> 'c bitcoin_core" where
  "announce_tip T i td w s =
     (let s1 = s \<lparr> bc_current_prev_hash := Some (td_get_prev_hash td),
                   bc_template_data := hm_insert (td_template_id td) td (bc_template_data s),
                   bc_stale_tasks := bc_stale_tasks s @ [map fst (bc_template_data s)] \<rparr>
      in case get_new_template_message T True td of
           Ok m \<Rightarrow>
             (case send_out (Out_NewTemplate m) s1 of
                (False, s2) \<Rightarrow> terminate i s2
              | (True, s2) \<Rightarrow>
                  (case send_out (Out_SetNewPrevHash (get_set_new_prev_hash_message T td)) s2 of
                     (False, s3) \<Rightarrow> terminate i s3
                   | (True, s3) \<Rightarrow> loop_head i w s3))
         | Err e \<Rightarrow> terminate i s1
         | Panic p \<Rightarrow> set_phase i Ended s1)"

text \<open>An update on the same chain tip, after the minimal interval.\<close>

definition announce_update ::
  "('z) tdp_lib_scheme \<Rightarrow> nat \<Rightarrow> u64 \<Rightarrow> 'c template_data \<Rightarrow> request_outcome \<Rightarrow> 'c bitcoin_core \<Rightarrow> 'c bitcoin_core" where
  "announce_update T i now td w s =
     (let s1 = s \<lparr> bc_monitors := (bc_monitors s) [i := (bc_monitors s ! i) \<lparr> mo_last_sent := Some now \<rparr>] \<rparr> in
      case get_new_template_message T False td of
        Ok m \<Rightarrow>
          (case send_out (Out_NewTemplate m) s1 of
             (False, s2) \<Rightarrow> terminate i s2
           | (True, s2) \<Rightarrow>
               loop_head i w
                 (s2 \<lparr> bc_template_data := hm_insert (td_template_id td) td (bc_template_data s2) \<rparr>))
      | Err e \<Rightarrow> terminate i s1
      | Panic p \<Rightarrow> set_phase i Ended s1)"

text \<open>Times are milliseconds; the elapsed time since an earlier instant is not negative.\<close>

definition must_sleep :: "u8 \<Rightarrow> u64 option \<Rightarrow> u64 \<Rightarrow> bool" where
  "must_sleep min_interval last_sent now =
     (case last_sent of
        None \<Rightarrow> False
      | Some l \<Rightarrow> unat now - unat l < unat min_interval * 1000)"

definition monitor_fetched ::
  "('z) tdp_lib_scheme \<Rightarrow> nat \<Rightarrow> u64 \<Rightarrow> 'c \<Rightarrow> template_reply \<Rightarrow> u64 \<Rightarrow> request_outcome \<Rightarrow>
     'c bitcoin_core \<Rightarrow> 'c bitcoin_core" where
  "monitor_fetched T i k c reply now w s =
     (case end_fetch k c reply of
        Ok td \<Rightarrow>
          (case bc_current_prev_hash s of
             None \<Rightarrow> terminate i s
           | Some current \<Rightarrow>
               if td_get_prev_hash td \<noteq> current then announce_tip T i td w s
               else if must_sleep (bc_min_interval s) (mo_last_sent (bc_monitors s ! i)) now
               then set_phase i (Sleeping td) s
               else announce_update T i now td w s)
      | _ \<Rightarrow> terminate i s)"

section \<open>The task that clears stale templates\<close>

fun destroy_clients :: "(template_data_error + unit) list \<Rightarrow> 'c bitcoin_core \<Rightarrow> 'c bitcoin_core" where
  "destroy_clients [] s = s"
| "destroy_clients (Inr _ # rs) s = destroy_clients rs s"
| "destroy_clients (Inl e # rs) s = cancel s"

definition process_stale_template_data ::
  "bitcoin_core_error + unit \<Rightarrow> (template_data_error + unit) list \<Rightarrow> 'c bitcoin_core \<Rightarrow> 'c bitcoin_core" where
  "process_stale_template_data thread_reply destroy_replies s =
     (case bc_stale_tasks s of
        [] \<Rightarrow> s
      | ids # tasks \<Rightarrow>
          let s1 = s \<lparr> bc_stale_tasks := tasks, bc_stale_ids := ids,
                       bc_template_data := fold hm_remove ids (bc_template_data s) \<rparr>
          in case thread_reply of Inl e \<Rightarrow> cancel s1 | Inr _ \<Rightarrow> destroy_clients destroy_replies s1)"

section \<open>The handlers of incoming messages\<close>

definition spawn_monitor :: "'c bitcoin_core \<Rightarrow> 'c bitcoin_core" where
  "spawn_monitor s =
     s \<lparr> bc_monitors := bc_monitors s @ [\<lparr> mo_phase = Starting, mo_last_sent = bc_last_sent s \<rparr>] \<rparr>"

definition handle_coinbase_output_constraints ::
  "u32 \<Rightarrow> u16 \<Rightarrow> bitcoin_core_error + 'c \<Rightarrow> 'c bitcoin_core \<Rightarrow> unit bc_result \<times> 'c bitcoin_core" where
  "handle_coinbase_output_constraints max_size sigops reply s =
     and_then (new_template_ipc_client max_size sigops reply s) (\<lambda>c s.
       (Ok (), spawn_monitor
          (s \<lparr> bc_current_client := Some c,
               bc_constraints_counter := snd (fetch_add (bc_constraints_counter s)) \<rparr>)))"

definition handle_request_transaction_data ::
  "('z) tdp_lib_scheme \<Rightarrow> u64 \<Rightarrow> template_data_error + bc_block \<Rightarrow> 'c bitcoin_core \<Rightarrow>
     unit bc_result \<times> 'c bitcoin_core" where
  "handle_request_transaction_data T i block_reply s =
     (let respond = (\<lambda>m. case send_out m s of
            (True, s1) \<Rightarrow> (Ok (), s1)
          | (False, s1) \<Rightarrow> (Err Bc_FailedToSendRequestTransactionDataResponseMessage, s1))
      in if i \<in> set (bc_stale_ids s) then respond (Out_TxDataError i ''stale-template-id'')
         else
           case hm_get (bc_template_data s) i of
             None \<Rightarrow> respond (Out_TxDataError i ''template-id-not-found'')
           | Some td \<Rightarrow>
               (case get_tx_data T block_reply of
                  Ok txs \<Rightarrow> respond (Out_TxDataSuccess (td_template_id td) txs)
                | Err e \<Rightarrow> (Err Bc_FailedToFetchTemplateTxData, s)
                | Panic p \<Rightarrow> (Panic p, s)))"

definition handle_submit_solution ::
  "('z) tdp_lib_scheme \<Rightarrow> submit_solution \<Rightarrow> bc_block option \<Rightarrow> template_data_error + bool \<Rightarrow>
     'c bitcoin_core \<Rightarrow> unit bc_result \<times> bc_block option" where
  "handle_submit_solution T m template_block reply s =
     (case hm_get (bc_template_data s) (ss_template_id m) of
        None \<Rightarrow> (Err Bc_TemplateNotFound, None)
      | Some td \<Rightarrow>
          (case td_submit_solution T m template_block reply td of
             (Ok _, dump) \<Rightarrow> (Ok (), dump)
           | (Err e, dump) \<Rightarrow> (Err Bc_FailedToSubmitSolution, dump)
           | (Panic p, dump) \<Rightarrow> (Panic p, dump)))"

datatype 'c tdp_in =
    In_CoinbaseOutputConstraints u32 u16 "bitcoin_core_error + 'c"
  | In_RequestTransactionData u64 "template_data_error + bc_block"
  | In_SubmitSolution submit_solution "bc_block option" "template_data_error + bool"
  | In_Other

text \<open>A turn of \<open>monitor_incoming_messages\<close>: an error of the first two handlers ends the
  connection, one of a submission is logged.\<close>

fun incoming_turn :: "('z) tdp_lib_scheme \<Rightarrow> 'c tdp_in \<Rightarrow> 'c bitcoin_core \<Rightarrow> 'c bitcoin_core" where
  "incoming_turn T (In_CoinbaseOutputConstraints max_size sigops reply) s =
     (case handle_coinbase_output_constraints max_size sigops reply s of
        (Ok _, s1) \<Rightarrow> s1
      | (Err e, s1) \<Rightarrow> cancel s1 \<lparr> bc_listening := False \<rparr>
      | (Panic p, s1) \<Rightarrow> s1 \<lparr> bc_listening := False \<rparr>)"
| "incoming_turn T (In_RequestTransactionData i block_reply) s =
     (case handle_request_transaction_data T i block_reply s of
        (Ok _, s1) \<Rightarrow> s1
      | (Err e, s1) \<Rightarrow> cancel s1 \<lparr> bc_listening := False \<rparr>
      | (Panic p, s1) \<Rightarrow> s1 \<lparr> bc_listening := False \<rparr>)"
| "incoming_turn T (In_SubmitSolution m template_block reply) s =
     (case handle_submit_solution T m template_block reply s of
        (Panic p, _) \<Rightarrow> s \<lparr> bc_listening := False \<rparr>
      | _ \<Rightarrow> s)"
| "incoming_turn T In_Other s = s"

section \<open>The start\<close>

text \<open>
  \<open>run\<close> up to its wait for the end: messages other than the first constraints are ignored; then
  the first template is fetched, announced, activated and stored, and the two tasks are spawned.
\<close>

definition bootstrap ::
  "('z) tdp_lib_scheme \<Rightarrow> u32 \<Rightarrow> u16 \<Rightarrow> bitcoin_core_error + 'c \<Rightarrow> template_reply \<Rightarrow> u64 \<Rightarrow>
     'c bitcoin_core \<Rightarrow> 'c bitcoin_core" where
  "bootstrap T max_size sigops reply template_reply now s =
     (case new_template_ipc_client max_size sigops reply s of
        (Ok c, s1) \<Rightarrow>
          let s2 = s1 \<lparr> bc_current_client := Some c,
                        bc_constraints_counter := snd (fetch_add (bc_constraints_counter s1)) \<rparr> in
          (case begin_fetch s2 of
             (Ok (k, c'), s3) \<Rightarrow>
               (case end_fetch k c' template_reply of
                  Ok td \<Rightarrow>
                    (case get_new_template_message T True td of
                       Ok m \<Rightarrow>
                         (case send_out (Out_NewTemplate m) s3 of
                            (False, s4) \<Rightarrow> cancel s4
                          | (True, s4) \<Rightarrow>
                              (case send_out (Out_SetNewPrevHash (get_set_new_prev_hash_message T td)) s4 of
                                 (False, s5) \<Rightarrow> cancel s5
                               | (True, s5) \<Rightarrow>
                                   spawn_monitor
                                     (s5 \<lparr> bc_template_data := hm_insert (td_template_id td) td (bc_template_data s5),
                                           bc_current_prev_hash := Some (td_get_prev_hash td),
                                           bc_last_sent := Some now, bc_booted := True,
                                           bc_listening := True \<rparr>)))
                     | _ \<Rightarrow> cancel s3)
                | _ \<Rightarrow> cancel s3)
           | (_, s3) \<Rightarrow> cancel s3)
      | (_, s1) \<Rightarrow> cancel s1)"

text \<open>The wait at the end of \<open>run\<close>: every second the counter of open requests is read, with the
  elapsed seconds; the result is the number of seconds waited.\<close>

fun shutdown_wait :: "(u8 \<times> nat) list \<Rightarrow> nat option" where
  "shutdown_wait [] = None"
| "shutdown_wait ((counter, elapsed) # readings) =
     (if counter = 0 \<or> 50 < elapsed then Some 1 else map_option Suc (shutdown_wait readings))"

section \<open>Steps\<close>

datatype 'c core_event =
    Core_First u32 u16 "bitcoin_core_error + 'c" template_reply u64
  | Core_Incoming "'c tdp_in"
  | Core_Start nat "bitcoin_core_error + unit" request_outcome
  | Core_Response nat "'c wait_next_response" request_outcome
  | Core_Fetched nat template_reply u64 request_outcome
  | Core_Awake nat u64 request_outcome
  | Core_Stale "bitcoin_core_error + unit" "(template_data_error + unit) list"
  | Core_Cancel
  | Core_Close

text \<open>What the event means for the task it belongs to; an event that does not fit the task's
  phase changes nothing.\<close>

definition core_step :: "('z) tdp_lib_scheme \<Rightarrow> 'c core_event \<Rightarrow> 'c bitcoin_core \<Rightarrow> 'c bitcoin_core" where
  "core_step T e s =
     (case e of
        Core_First max_size sigops reply template_reply now \<Rightarrow>
          if bc_booted s \<or> bc_cancelled s then s else bootstrap T max_size sigops reply template_reply now s
      | Core_Incoming m \<Rightarrow>
          if bc_listening s \<and> \<not> bc_cancelled s then incoming_turn T m s else s
      | Core_Start i thread_reply w \<Rightarrow>
          if i < length (bc_monitors s) \<and> mo_phase (bc_monitors s ! i) = Starting
          then monitor_start i thread_reply w s else s
      | Core_Response i response w \<Rightarrow>
          if i < length (bc_monitors s) then
            (case mo_phase (bc_monitors s ! i) of
               Waiting c captured \<Rightarrow> monitor_response i captured response w s
             | _ \<Rightarrow> s)
          else s
      | Core_Fetched i reply now w \<Rightarrow>
          if i < length (bc_monitors s) then
            (case mo_phase (bc_monitors s ! i) of
               Fetching k c \<Rightarrow> monitor_fetched T i k c reply now w s
             | _ \<Rightarrow> s)
          else s
      | Core_Awake i now w \<Rightarrow>
          if i < length (bc_monitors s) then
            (case mo_phase (bc_monitors s ! i) of
               Sleeping td \<Rightarrow> announce_update T i now td w s
             | _ \<Rightarrow> s)
          else s
      | Core_Stale thread_reply replies \<Rightarrow> process_stale_template_data thread_reply replies s
      | Core_Cancel \<Rightarrow> cancel s
      | Core_Close \<Rightarrow> s \<lparr> bc_out_open := False \<rparr>)"

fun core_run :: "('z) tdp_lib_scheme \<Rightarrow> 'c core_event list \<Rightarrow> 'c bitcoin_core \<Rightarrow> 'c bitcoin_core" where
  "core_run T [] s = s"
| "core_run T (e # es) s = core_run T es (core_step T e s)"

end
