(* ===== verification/Bitcoin_Core_Laws.thy ===== *)
theory Bitcoin_Core_Laws
  imports Bitcoin_Core
begin

text \<open>
  What the template provider promises in every interleaving of its tasks: template identifiers are
  used once, a future template is always followed by its activation and an activation never comes
  without it, the activations change the chain tip, and the templates of the current tip stay
  available for transactions and solutions until the tip changes.
\<close>

section \<open>The stream of messages\<close>

fun announced_ids :: "tdp_out list \<Rightarrow> u64 list" where
  "announced_ids [] = []"
| "announced_ids (Out_NewTemplate m # r) = nt_template_id m # announced_ids r"
| "announced_ids (_ # r) = announced_ids r"

fun last_prev :: "u256 option \<Rightarrow> tdp_out list \<Rightarrow> u256 option" where
  "last_prev p [] = p"
| "last_prev p (Out_SetNewPrevHash h # r) = last_prev (Some (ph_prev_hash h)) r"
| "last_prev p (_ # r) = last_prev p r"

text \<open>The templates announced since the last future template, that one included.\<close>

fun recent :: "u64 list \<Rightarrow> tdp_out list \<Rightarrow> u64 list" where
  "recent acc [] = acc"
| "recent acc (Out_NewTemplate m # r) =
     (if nt_future_template m then recent [nt_template_id m] r else recent (acc @ [nt_template_id m]) r)"
| "recent acc (_ # r) = recent acc r"

text \<open>Every future template is followed at once by its activation, and there is no other
  activation.\<close>

fun paired :: "tdp_out list \<Rightarrow> bool" where
  "paired [] \<longleftrightarrow> True"
| "paired (Out_NewTemplate m # r) \<longleftrightarrow>
     (if nt_future_template m
      then (case r of Out_SetNewPrevHash h # r' \<Rightarrow> ph_template_id h = nt_template_id m \<and> paired r'
            | _ \<Rightarrow> False)
      else paired r)"
| "paired (Out_SetNewPrevHash h # r) \<longleftrightarrow> False"
| "paired (Out_TxDataSuccess i txs # r) \<longleftrightarrow> paired r"
| "paired (Out_TxDataError i code # r) \<longleftrightarrow> paired r"

fun prev_changes :: "u256 option \<Rightarrow> tdp_out list \<Rightarrow> bool" where
  "prev_changes p [] \<longleftrightarrow> True"
| "prev_changes p (Out_SetNewPrevHash h # r) \<longleftrightarrow>
     p \<noteq> Some (ph_prev_hash h) \<and> prev_changes (Some (ph_prev_hash h)) r"
| "prev_changes p (_ # r) \<longleftrightarrow> prev_changes p r"

lemma announced_ids_append [simp]: "announced_ids (xs @ ys) = announced_ids xs @ announced_ids ys"
  by (induction xs rule: announced_ids.induct) simp_all

lemma last_prev_append [simp]: "last_prev p (xs @ ys) = last_prev (last_prev p xs) ys"
  by (induction p xs rule: last_prev.induct) simp_all

lemma recent_append [simp]: "recent acc (xs @ ys) = recent (recent acc xs) ys"
  by (induction acc xs rule: recent.induct) simp_all

lemma prev_changes_append [simp]:
  "prev_changes p (xs @ ys) \<longleftrightarrow> prev_changes p xs \<and> prev_changes (last_prev p xs) ys"
  by (induction p xs rule: prev_changes.induct) simp_all

lemma paired_append: "paired xs \<Longrightarrow> paired (xs @ ys) = paired ys"
  by (induction xs rule: paired.induct) (auto split: if_splits list.splits tdp_out.splits)

lemma recent_announced: "set (recent acc xs) \<subseteq> set acc \<union> set (announced_ids xs)"
  by (induction acc xs rule: recent.induct) auto

section \<open>Messages of a template\<close>

lemma bind_res_Ok: "bind_res r k = Ok b \<longleftrightarrow> (\<exists>a. r = Ok a \<and> k a = Ok b)"
  by (cases r) (simp_all add: bind_res_def)

lemma bind_res_Panic:
  "bind_res r k = Panic p \<longleftrightarrow> r = Panic p \<or> (\<exists>a. r = Ok a \<and> k a = Panic p)"
  by (cases r) (auto simp: bind_res_def)

lemma new_template_message_fields:
  "get_new_template_message T f td = Ok m \<Longrightarrow>
     nt_template_id m = td_template_id td \<and> nt_future_template m = f"
  by (auto simp: get_new_template_message_def bind_res_Ok)

lemma convert_merkle_path_no_panic: "convert_merkle_path T bs \<noteq> Panic p"
proof (induction bs)
  case (Cons b bs)
  then show ?case by (cases "convert_merkle_path T bs") (auto split: option.splits)
qed simp

lemma new_template_message_no_panic:
  "bt_input (td_coinbase_tx td) \<noteq> [] \<Longrightarrow> get_new_template_message T f td \<noteq> Panic p"
  by (auto simp: get_new_template_message_def bind_res_Panic get_version_def Let_def
      get_coinbase_tx_version_def get_coinbase_script_sig_def get_coinbase_input_sequence_def first_input_def
      get_coinbase_tx_value_remaining_def get_serialized_empty_coinbase_outputs_def get_merkle_path_def
      convert_merkle_path_no_panic neq_Nil_conv split: option.splits list.splits if_splits)

section \<open>Identifiers\<close>

fun phase_id :: "'c monitor_phase \<Rightarrow> u64 option" where
  "phase_id (Fetching k c) = Some k"
| "phase_id (Sleeping td) = Some (td_template_id td)"
| "phase_id _ = None"

definition used_ids :: "'c bitcoin_core \<Rightarrow> u64 set" where
  "used_ids s =
     set (announced_ids (bc_out s)) \<union> hm_keys (bc_template_data s) \<union> \<Union> (set ` set (bc_stale_tasks s)) \<union>
     set (bc_stale_ids s)"

text \<open>The identifiers in use and those that the tasks hold are below the counter, and no two
  places hold the same one.\<close>

definition ids_ok :: "u64 set \<Rightarrow> u64 \<Rightarrow> 'c monitor list \<Rightarrow> bool" where
  "ids_ok U f ms \<longleftrightarrow>
     (\<forall>k \<in> U. k < f) \<and>
     (\<forall>i < length ms. \<forall>k. phase_id (mo_phase (ms ! i)) = Some k \<longrightarrow>
        k < f \<and> k \<notin> U \<and> (\<forall>j < length ms. phase_id (mo_phase (ms ! j)) = Some k \<longrightarrow> j = i))"

lemma ids_ok_mono: "ids_ok U f ms \<Longrightarrow> U' \<subseteq> U \<Longrightarrow> ids_ok U' f ms"
  unfolding ids_ok_def by blast

lemma ids_ok_update:
  assumes "ids_ok U f ms" and "i < length ms"
    and "phase_id (mo_phase m') \<in> {None, phase_id (mo_phase (ms ! i))}"
  shows "ids_ok U f (ms [i := m'])"
  using assms unfolding ids_ok_def by (auto simp: nth_list_update split: if_splits) metis+

lemma ids_ok_use:
  assumes "ids_ok U f ms" and "i < length ms" and "phase_id (mo_phase (ms ! i)) = Some k"
    and "phase_id (mo_phase m') = None"
  shows "ids_ok (insert k U) f (ms [i := m'])"
  using assms unfolding ids_ok_def by (auto simp: nth_list_update split: if_splits)

lemma ids_ok_fresh:
  assumes "ids_ok U f ms" and "unat f + 1 < 2 ^ 64" and "phase_id (mo_phase m') = Some f"
    and i: "i < length ms"
  shows "ids_ok U (f + 1) (ms [i := m'])"
proof -
  have less: "k < f \<Longrightarrow> k < f + 1" for k using less_next_word [of f k] assms(2) by simp
  have "f < f + 1" using less_next_word [of f f] assms(2) by simp
  then show ?thesis
    using assms(1,3) i less unfolding ids_ok_def
    by (auto simp: nth_list_update split: if_splits)
qed

lemma ids_ok_append:
  "ids_ok U f ms \<Longrightarrow> phase_id (mo_phase m') = None \<Longrightarrow> ids_ok U f (ms @ [m'])"
  unfolding ids_ok_def by (auto simp: nth_append less_Suc_eq)

lemma ids_ok_next_counter:
  assumes "ids_ok U f ms" and "unat f + 1 < 2 ^ 64"
  shows "ids_ok U (f + 1) ms" and "f \<notin> U"
proof -
  have less: "k < f \<Longrightarrow> k < f + 1" for k using less_next_word [of f k] assms(2) by simp
  then show "ids_ok U (f + 1) ms" using assms(1) unfolding ids_ok_def by auto
  show "f \<notin> U" using assms(1) unfolding ids_ok_def by auto
qed

section \<open>The invariant\<close>

text \<open>While the connection has not been ended: the current tip is the last activated one, every
  activation changed the tip, and the templates announced for the tip are stored and in no list of
  stale ones.\<close>

definition live :: "'c bitcoin_core \<Rightarrow> bool" where
  "live s \<longleftrightarrow>
     last_prev None (bc_out s) = bc_current_prev_hash s \<and> bc_current_prev_hash s \<noteq> None \<and>
     prev_changes None (bc_out s) \<and>
     (\<forall>k \<in> set (recent [] (bc_out s)).
        k \<in> hm_keys (bc_template_data s) \<and> k \<notin> \<Union> (set ` set (bc_stale_tasks s)) \<and>
        k \<notin> set (bc_stale_ids s))"

definition sleeping_ok :: "'c monitor list \<Rightarrow> bool" where
  "sleeping_ok ms \<longleftrightarrow>
     (\<forall>m \<in> set ms. \<forall>td. mo_phase m = Sleeping td \<longrightarrow> bt_input (td_coinbase_tx td) \<noteq> [])"

definition core_ok :: "nat \<Rightarrow> 'c bitcoin_core \<Rightarrow> bool" where
  "core_ok n s \<longleftrightarrow>
     unat (bc_template_id_factory s) \<le> n \<and>
     ids_ok (used_ids s) (bc_template_id_factory s) (bc_monitors s) \<and>
     distinct (announced_ids (bc_out s)) \<and>
     (\<forall>k td. hm_get (bc_template_data s) k = Some td \<longrightarrow> td_template_id td = k) \<and>
     paired (bc_out s) \<and>
     (\<not> bc_booted s \<longrightarrow> bc_monitors s = [] \<and> bc_out s = [] \<and> \<not> bc_listening s) \<and>
     sleeping_ok (bc_monitors s) \<and>
     (bc_booted s \<and> \<not> bc_cancelled s \<longrightarrow> live s)"

lemma core_ok_Suc: "core_ok n s \<Longrightarrow> core_ok (Suc n) s"
  by (simp add: core_ok_def)

lemma core_ok_new: "core_ok 0 (bitcoin_core_new f i)"
  by (simp add: core_ok_def bitcoin_core_new_def ids_ok_def used_ids_def sleeping_ok_def hm_new_def
    hm_get_def hm_keys_def)

lemma sleeping_ok_update:
  "sleeping_ok ms \<Longrightarrow> phase_id (mo_phase m') = None \<Longrightarrow> sleeping_ok (ms [i := m'])"
  using set_update_subset_insert [of ms i m'] by (fastforce simp: sleeping_ok_def)

text \<open>The operations that only move a task to a phase without an identifier.\<close>

definition quiet :: "nat \<Rightarrow> 'c bitcoin_core \<Rightarrow> 'c bitcoin_core \<Rightarrow> bool" where
  "quiet i s s' \<longleftrightarrow>
     bc_out s' = bc_out s \<and> bc_template_data s' = bc_template_data s \<and>
     bc_stale_tasks s' = bc_stale_tasks s \<and> bc_stale_ids s' = bc_stale_ids s \<and>
     bc_current_prev_hash s' = bc_current_prev_hash s \<and> bc_booted s' = bc_booted s \<and>
     bc_listening s' = bc_listening s \<and> bc_template_id_factory s' = bc_template_id_factory s \<and>
     (bc_cancelled s \<longrightarrow> bc_cancelled s') \<and>
     (\<exists>m'. bc_monitors s' = (bc_monitors s) [i := m'] \<and> phase_id (mo_phase m') = None)"

lemma quiet_set_phase: "phase_id p = None \<Longrightarrow> quiet i s (set_phase i p s)"
  unfolding quiet_def set_phase_def by (auto intro!: exI [of _ "(bc_monitors s ! i) \<lparr> mo_phase := p \<rparr>"])

lemma quiet_terminate: "quiet i s (terminate i s)"
  using quiet_set_phase [of Ended i "cancel s"] by (simp add: terminate_def quiet_def cancel_def)

lemma quiet_loop_head: "quiet i s (loop_head i w s)"
proof -
  have "quiet i s (set_phase i (Waiting c k) (s \<lparr> bc_wait_next_counter := x \<rparr>))" for c k x
    using quiet_set_phase [of "Waiting c k" i "s \<lparr> bc_wait_next_counter := x \<rparr>"]
    by (simp add: quiet_def)
  then show ?thesis
    by (auto simp: loop_head_def new_wait_next_request_def quiet_terminate
      split: option.splits request_outcome.splits)
qed

lemma quiet_counter: "quiet i (s \<lparr> bc_wait_next_counter := x \<rparr>) s' \<Longrightarrow> quiet i s s'"
  by (simp add: quiet_def)

lemma terminate_cancelled [simp]: "bc_cancelled (terminate i s)"
  by (simp add: terminate_def set_phase_def cancel_def)

lemma quiet_live: "quiet i s s' \<Longrightarrow> live s' = live s"
  by (simp add: quiet_def live_def)

lemma quiet_used: "quiet i s s' \<Longrightarrow> used_ids s' = used_ids s"
  by (simp add: quiet_def used_ids_def)

lemma core_ok_quiet:
  assumes "core_ok n s" and "i < length (bc_monitors s)" and q: "quiet i s s'"
  shows "core_ok n s'"
proof -
  obtain m' where m: "bc_monitors s' = (bc_monitors s) [i := m']" "phase_id (mo_phase m') = None"
    using q by (auto simp: quiet_def)
  have "ids_ok (used_ids s') (bc_template_id_factory s') (bc_monitors s')"
    using assms m ids_ok_update [of "used_ids s" _ "bc_monitors s" i m']
    by (simp add: core_ok_def quiet_used [OF q]) (simp add: quiet_def)
  moreover have "sleeping_ok (bc_monitors s')"
    using assms(1) m sleeping_ok_update by (auto simp: core_ok_def)
  ultimately show ?thesis
    using assms(1) q quiet_live [OF q] m by (auto simp: core_ok_def quiet_def)
qed

lemma core_ok_announce:
  assumes ok: "core_ok n s" and i: "i < length (bc_monitors s)"
    and k: "phase_id (mo_phase (bc_monitors s ! i)) = Some k" and q: "quiet i x s'"
    and x: "bc_template_id_factory x = bc_template_id_factory s" "bc_booted x = bc_booted s"
      "bc_listening x = bc_listening s" "bc_monitors x = (bc_monitors s) [i := mon]"
      "used_ids x \<subseteq> insert k (used_ids s)"
    and out: "distinct (announced_ids (bc_out x))" "paired (bc_out x)"
      "\<forall>j td. hm_get (bc_template_data x) j = Some td \<longrightarrow> td_template_id td = j"
    and live: "bc_booted s \<Longrightarrow> \<not> bc_cancelled s' \<Longrightarrow> live x"
  shows "core_ok n s'"
proof -
  obtain m' where m: "bc_monitors s' = (bc_monitors s) [i := m']" "phase_id (mo_phase m') = None"
    using q x(4) by (auto simp: quiet_def)
  have booted: "bc_booted s" using ok i by (auto simp: core_ok_def)
  have "ids_ok (insert k (used_ids s)) (bc_template_id_factory s) (bc_monitors s')"
    using ok ids_ok_use [OF _ i k m(2)] m(1) by (simp add: core_ok_def)
  then have "ids_ok (used_ids s') (bc_template_id_factory s') (bc_monitors s')"
    using ids_ok_mono x(1,5) q by (simp add: quiet_used [OF q]) (simp add: quiet_def)
  moreover have "sleeping_ok (bc_monitors s')"
    using ok m sleeping_ok_update by (auto simp: core_ok_def)
  ultimately show ?thesis
    using ok q x out live booted quiet_live [OF q] by (auto simp: core_ok_def quiet_def)
qed

section \<open>Every step keeps the invariant\<close>

lemma pending_fresh:
  assumes "core_ok n s" and "i < length (bc_monitors s)"
    and "phase_id (mo_phase (bc_monitors s ! i)) = Some k"
  shows "k \<notin> set (announced_ids (bc_out s))" and "k \<notin> hm_keys (bc_template_data s)"
    and "k \<notin> \<Union> (set ` set (bc_stale_tasks s))" and "k \<notin> set (bc_stale_ids s)"
  using assms unfolding core_ok_def ids_ok_def used_ids_def by blast+

lemma send_out_open: "bc_out_open s \<Longrightarrow> send_out m s = (True, s \<lparr> bc_out := bc_out s @ [m] \<rparr>)"
  and send_out_closed: "\<not> bc_out_open s \<Longrightarrow> send_out m s = (False, s)"
  by (simp_all add: send_out_def)

lemma fst_image_keys: "fst ` set m = hm_keys m"
  by (auto simp: hm_keys_def)

lemma entries_insert:
  "\<forall>k td. hm_get m k = Some td \<longrightarrow> td_template_id td = k \<Longrightarrow>
     \<forall>k td. hm_get (hm_insert (td_template_id t) t m) k = Some td \<longrightarrow> td_template_id td = k"
  by (auto split: if_splits)

definition tip_stored :: "'c template_data \<Rightarrow> 'c bitcoin_core \<Rightarrow> 'c bitcoin_core" where
  "tip_stored td s =
     s \<lparr> bc_current_prev_hash := Some (td_get_prev_hash td),
         bc_template_data := hm_insert (td_template_id td) td (bc_template_data s),
         bc_stale_tasks := bc_stale_tasks s @ [map fst (bc_template_data s)] \<rparr>"

lemma tip_stored_fields [simp]:
  "bc_current_prev_hash (tip_stored td s) = Some (td_get_prev_hash td)"
  "bc_template_data (tip_stored td s) = hm_insert (td_template_id td) td (bc_template_data s)"
  "\<Union> (set ` set (bc_stale_tasks (tip_stored td s))) =
     \<Union> (set ` set (bc_stale_tasks s)) \<union> hm_keys (bc_template_data s)"
  "bc_stale_ids (tip_stored td s) = bc_stale_ids s" "bc_out (tip_stored td s) = bc_out s"
  "bc_template_id_factory (tip_stored td s) = bc_template_id_factory s"
  "bc_booted (tip_stored td s) = bc_booted s" "bc_listening (tip_stored td s) = bc_listening s"
  "bc_monitors (tip_stored td s) = bc_monitors s" "bc_cancelled (tip_stored td s) = bc_cancelled s"
  "bc_out_open (tip_stored td s) = bc_out_open s"
  by (auto simp: tip_stored_def fst_image_keys)

lemma announce_tip_eq:
  "announce_tip T i td w s =
     (case get_new_template_message T True td of
        Ok m \<Rightarrow>
          if bc_out_open s
          then loop_head i w (tip_stored td s \<lparr> bc_out := bc_out s @
                 [Out_NewTemplate m, Out_SetNewPrevHash (get_set_new_prev_hash_message T td)] \<rparr>)
          else terminate i (tip_stored td s)
      | Err e \<Rightarrow> terminate i (tip_stored td s)
      | Panic p \<Rightarrow> set_phase i Ended (tip_stored td s))"
  unfolding announce_tip_def tip_stored_def [symmetric] Let_def
  by (simp add: send_out_def split: res.splits)

lemma live_tip:
  assumes "live s" and m: "nt_template_id m = td_template_id td" "nt_future_template m"
    and k: "td_template_id td \<notin> hm_keys (bc_template_data s)"
      "td_template_id td \<notin> \<Union> (set ` set (bc_stale_tasks s))" "td_template_id td \<notin> set (bc_stale_ids s)"
    and tip: "bc_current_prev_hash s \<noteq> Some (td_get_prev_hash td)"
    and x: "x = tip_stored td s \<lparr> bc_out := bc_out s @
      [Out_NewTemplate m, Out_SetNewPrevHash (get_set_new_prev_hash_message T td)] \<rparr>"
  shows "live x"
proof -
  have f: "\<Union> (set ` set (bc_stale_tasks x)) = \<Union> (set ` set (bc_stale_tasks s)) \<union> hm_keys (bc_template_data s)"
    "bc_template_data x = hm_insert (td_template_id td) td (bc_template_data s)"
    "bc_stale_ids x = bc_stale_ids s" "bc_current_prev_hash x = Some (td_get_prev_hash td)"
    "recent [] (bc_out x) = [td_template_id td]"
    using tip_stored_fields(3) [of td s] m by (simp_all add: x)
  have "last_prev None (bc_out x) = Some (td_get_prev_hash td)" "prev_changes None (bc_out x)"
    using assms(1) tip by (simp_all add: x live_def get_set_new_prev_hash_message_def)
  then show ?thesis
    unfolding live_def f using k by simp
qed

lemma announce_tip_ok:
  assumes ok: "core_ok n s" and i: "i < length (bc_monitors s)"
    and k: "phase_id (mo_phase (bc_monitors s ! i)) = Some (td_template_id td)"
    and input: "bt_input (td_coinbase_tx td) \<noteq> []"
    and tip: "bc_current_prev_hash s \<noteq> Some (td_get_prev_hash td)"
  shows "core_ok n (announce_tip T i td w s)"
proof -
  let ?k = "td_template_id td" and ?x = "tip_stored td s"
  note fresh = pending_fresh [OF ok i k]
  have entries: "\<forall>j t. hm_get (bc_template_data ?x) j = Some t \<longrightarrow> td_template_id t = j"
    unfolding tip_stored_fields(2) by (rule entries_insert) (use ok in \<open>simp add: core_ok_def\<close>)
  have used: "used_ids ?x \<subseteq> insert ?k (used_ids s)"
    unfolding used_ids_def tip_stored_fields by auto
  have same: "bc_monitors ?x = (bc_monitors s) [i := bc_monitors s ! i]" by simp
  have out: "distinct (announced_ids (bc_out ?x))" "paired (bc_out ?x)"
    using ok by (simp_all add: core_ok_def)
  have stop: "core_ok n (terminate i ?x)"
    by (rule core_ok_announce [OF ok i k quiet_terminate _ _ _ same used out entries]) simp_all
  show ?thesis
  proof (cases "get_new_template_message T True td")
    case (Ok m)
    then have m: "nt_template_id m = ?k" "nt_future_template m"
      using new_template_message_fields [of T True td m] by simp_all
    let ?h = "get_set_new_prev_hash_message T td"
    let ?y = "?x \<lparr> bc_out := bc_out s @ [Out_NewTemplate m, Out_SetNewPrevHash ?h] \<rparr>"
    have y: "used_ids ?y = insert ?k (used_ids ?x)" "bc_template_data ?y = bc_template_data ?x"
      using m by (simp_all add: used_ids_def)
    have "core_ok n (loop_head i w ?y)"
    proof (rule core_ok_announce [OF ok i k quiet_loop_head, where mon = "bc_monitors s ! i"])
      show "used_ids ?y \<subseteq> insert ?k (used_ids s)" using used unfolding y(1) by simp
      show "distinct (announced_ids (bc_out ?y))" using ok fresh(1) m by (simp add: core_ok_def)
      show "paired (bc_out ?y)"
        using ok m by (simp add: core_ok_def paired_append get_set_new_prev_hash_message_def)
      show "\<forall>j t. hm_get (bc_template_data ?y) j = Some t \<longrightarrow> td_template_id t = j"
        unfolding y(2) by (rule entries)
      show "live ?y" if "bc_booted s" "\<not> bc_cancelled (loop_head i w ?y)"
      proof -
        have "\<not> bc_cancelled s" using that(2) quiet_loop_head [of i ?y w] by (auto simp: quiet_def)
        then have "live s" using ok that(1) by (simp add: core_ok_def)
        then show ?thesis by (rule live_tip [OF _ m fresh(2-4) tip refl])
      qed
    qed simp_all
    then show ?thesis using Ok stop by (simp add: announce_tip_eq)
  next
    case (Panic p)
    then show ?thesis using new_template_message_no_panic [OF input] by blast
  qed (use stop in \<open>simp add: announce_tip_eq\<close>)
qed

lemma announce_update_ok:
  assumes ok: "core_ok n s" and i: "i < length (bc_monitors s)"
    and k: "phase_id (mo_phase (bc_monitors s ! i)) = Some (td_template_id td)"
    and input: "bt_input (td_coinbase_tx td) \<noteq> []"
  shows "core_ok n (announce_update T i now td w s)"
proof -
  let ?k = "td_template_id td"
  let ?x = "s \<lparr> bc_monitors := (bc_monitors s) [i := (bc_monitors s ! i) \<lparr> mo_last_sent := Some now \<rparr>] \<rparr>"
  have stop: "core_ok n (terminate i ?x)"
    by (rule core_ok_announce [OF ok i k quiet_terminate])
      (use ok in \<open>auto simp: core_ok_def used_ids_def\<close>)
  show ?thesis
  proof (cases "get_new_template_message T False td")
    case (Ok m)
    then have m: "nt_template_id m = ?k" "\<not> nt_future_template m"
      using new_template_message_fields by fastforce+
    let ?y = "?x \<lparr> bc_out := bc_out s @ [Out_NewTemplate m],
        bc_template_data := hm_insert ?k td (bc_template_data s) \<rparr>"
    show ?thesis
    proof (cases "bc_out_open s")
      case True
      have "core_ok n (loop_head i w ?y)"
      proof (rule core_ok_announce [OF ok i k quiet_loop_head])
        show "used_ids ?y \<subseteq> insert ?k (used_ids s)" using m by (auto simp: used_ids_def)
        show "distinct (announced_ids (bc_out ?y))"
          using ok pending_fresh [OF ok i k] m by (simp add: core_ok_def)
        show "paired (bc_out ?y)" using ok m by (simp add: core_ok_def paired_append)
        show "\<forall>j t. hm_get (bc_template_data ?y) j = Some t \<longrightarrow> td_template_id t = j"
          using ok entries_insert by (auto simp: core_ok_def)
        show "live ?y" if "bc_booted s" "\<not> bc_cancelled (loop_head i w ?y)"
        proof -
          have "\<not> bc_cancelled s" using that(2) quiet_loop_head [of i ?y w] by (auto simp: quiet_def)
          then have "live s" using ok that(1) by (simp add: core_ok_def)
          then show ?thesis using m pending_fresh [OF ok i k] by (auto simp: live_def)
        qed
      qed simp_all
      then show ?thesis using Ok True by (simp add: announce_update_def send_out_open Let_def)
    next
      case False
      then show ?thesis using Ok stop by (simp add: announce_update_def send_out_closed Let_def)
    qed
  next
    case (Panic p)
    then show ?thesis using new_template_message_no_panic [OF input] by blast
  qed (use stop in \<open>simp add: announce_update_def Let_def\<close>)
qed

text \<open>Bitcoin Core's coinbase transactions have an input.\<close>

fun coinbase_input :: "template_reply \<Rightarrow> bool" where
  "coinbase_input (Inl e) \<longleftrightarrow> True"
| "coinbase_input (Inr (h, tx, path)) \<longleftrightarrow> bt_input tx \<noteq> []"

lemma monitor_fetched_ok:
  assumes ok: "core_ok n s" and i: "i < length (bc_monitors s)"
    and k: "mo_phase (bc_monitors s ! i) = Fetching k c" and input: "coinbase_input reply"
  shows "core_ok n (monitor_fetched T i k c reply now w s)"
proof (cases reply)
  case (Inr r)
  then obtain h tx path where r: "reply = Inr (h, tx, path)" by (cases r) auto
  let ?td = "template_data_new k h tx path c"
  have td: "td_template_id ?td = k" "bt_input (td_coinbase_tx ?td) \<noteq> []"
    using input r by (simp_all add: template_data_new_def)
  have pend: "phase_id (mo_phase (bc_monitors s ! i)) = Some (td_template_id ?td)" using k td by simp
  have "core_ok n (set_phase i (Sleeping ?td) s)"
  proof -
    let ?m = "(bc_monitors s ! i) \<lparr> mo_phase := Sleeping ?td \<rparr>"
    have "ids_ok (used_ids s) (bc_template_id_factory s) ((bc_monitors s) [i := ?m])"
      using ok i pend ids_ok_update [of "used_ids s" _ "bc_monitors s" i ?m] by (simp add: core_ok_def)
    moreover have "sleeping_ok ((bc_monitors s) [i := ?m])"
      using ok td(2) set_update_subset_insert [of "bc_monitors s" i ?m]
      unfolding core_ok_def sleeping_ok_def by fastforce
    ultimately show ?thesis
      using ok i by (auto simp: core_ok_def set_phase_def used_ids_def live_def)
  qed
  then show ?thesis
    using announce_tip_ok [OF ok i pend td(2)] announce_update_ok [OF ok i pend td(2)]
      core_ok_quiet [OF ok i quiet_terminate]
    by (auto simp: monitor_fetched_def end_fetch_def r split: option.splits)
qed (use core_ok_quiet [OF ok i quiet_terminate] in \<open>simp add: monitor_fetched_def end_fetch_def\<close>)

lemma monitor_response_ok:
  assumes ok: "core_ok n s" and i: "i < length (bc_monitors s)" and n: "n + 1 < 2 ^ 64"
  shows "core_ok (Suc n) (monitor_response i captured response w s)"
proof -
  let ?s = "s \<lparr> bc_wait_next_counter := bc_wait_next_counter s - 1 \<rparr>"
  have quiet: "core_ok (Suc n) s'" if "quiet i s s' \<or> quiet i ?s s'" for s'
    using core_ok_quiet [OF ok i, of s'] quiet_counter that core_ok_Suc by blast
  have fetch: "core_ok (Suc n) (set_phase i (Fetching (bc_template_id_factory s) c)
      (?s \<lparr> bc_current_client := Some c, bc_template_id_factory := bc_template_id_factory s + 1 \<rparr>))" for c
  proof -
    let ?f = "bc_template_id_factory s"
    let ?m = "(bc_monitors s ! i) \<lparr> mo_phase := Fetching ?f c \<rparr>"
    have f: "unat ?f + 1 < 2 ^ 64" using ok n by (simp add: core_ok_def)
    then have "unat (?f + 1) \<le> Suc n"
      using ok unat_fetch_add [of ?f] by (simp add: core_ok_def)
    moreover have "ids_ok (used_ids s) (?f + 1) ((bc_monitors s) [i := ?m])"
      using ok i f ids_ok_fresh [of "used_ids s" ?f "bc_monitors s" ?m i] by (simp add: core_ok_def)
    moreover have "sleeping_ok ((bc_monitors s) [i := ?m])"
      using ok set_update_subset_insert [of "bc_monitors s" i ?m]
      unfolding core_ok_def sleeping_ok_def by fastforce
    ultimately show ?thesis
      using ok i by (auto simp: core_ok_def set_phase_def used_ids_def live_def)
  qed
  have "core_ok (Suc n) (terminate i s)" "core_ok (Suc n) (terminate i ?s)"
    "core_ok (Suc n) (set_phase i Ended ?s)" "core_ok (Suc n) (loop_head i w ?s)"
    by (rule quiet; simp add: quiet_terminate quiet_set_phase quiet_loop_head)+
  with fetch show ?thesis
    by (simp add: monitor_response_def begin_fetch_def Let_def split: wait_next_response.splits)
qed

lemma hm_get_fold_remove:
  "hm_get (fold hm_remove ids m) k = (if k \<in> set ids then None else hm_get m k)"
  by (induction ids arbitrary: m) auto

lemma hm_keys_fold_remove: "hm_keys (fold hm_remove ids m) = hm_keys m - set ids"
  by (induction ids arbitrary: m) auto

lemma destroy_clients_fields:
  "destroy_clients rs s = s \<or> destroy_clients rs s = cancel s"
  by (induction rs s rule: destroy_clients.induct) auto

lemma core_ok_cancel: "core_ok n s \<Longrightarrow> core_ok n (cancel s)"
  by (simp add: core_ok_def cancel_def used_ids_def)

lemma process_stale_ok:
  assumes ok: "core_ok n s"
  shows "core_ok n (process_stale_template_data thread_reply replies s)"
proof (cases "bc_stale_tasks s")
  case (Cons ids tasks)
  let ?s = "s \<lparr> bc_stale_tasks := tasks, bc_stale_ids := ids,
      bc_template_data := fold hm_remove ids (bc_template_data s) \<rparr>"
  have used: "used_ids ?s \<subseteq> used_ids s"
    using Cons by (auto simp: used_ids_def hm_keys_fold_remove)
  have "live s \<Longrightarrow> live ?s"
    using Cons by (auto simp: live_def hm_keys_fold_remove)
  then have "core_ok n ?s"
    using ok ids_ok_mono [OF _ used] by (auto simp: core_ok_def hm_get_fold_remove)
  then show ?thesis
    using Cons core_ok_cancel destroy_clients_fields [of replies ?s]
    by (auto simp: process_stale_template_data_def Let_def split: sum.splits)
qed (use ok in \<open>simp add: process_stale_template_data_def\<close>)

lemma spawn_monitor_ok:
  assumes "core_ok n s" and "bc_booted s"
  shows "core_ok n (spawn_monitor s)"
  using assms ids_ok_append [of "used_ids s" _ "bc_monitors s"]
  by (auto simp: core_ok_def spawn_monitor_def used_ids_def live_def sleeping_ok_def)

lemma send_reply_ok:
  assumes "core_ok n s" and "bc_booted s" and "m = Out_TxDataSuccess k txs \<or> m = Out_TxDataError k code"
  shows "core_ok n (snd (send_out m s))"
  using assms by (auto simp: core_ok_def send_out_def used_ids_def live_def paired_append)

lemma listening_off: "core_ok n s \<Longrightarrow> core_ok n (s \<lparr> bc_listening := False \<rparr>)"
  by (simp add: core_ok_def used_ids_def live_def)

lemma handle_request_ok:
  assumes "core_ok n s" and "bc_booted s"
  shows "core_ok n (snd (handle_request_transaction_data T k reply s))"
proof -
  have reply: "core_ok n (snd (case send_out m s of
         (True, s1) \<Rightarrow> (Ok (), s1)
       | (False, s1) \<Rightarrow> (Err Bc_FailedToSendRequestTransactionDataResponseMessage, s1)))"
    if "m = Out_TxDataSuccess k' txs \<or> m = Out_TxDataError k' code" for m k' txs code
    using send_reply_ok [OF assms that] by (auto split: prod.splits bool.splits)
  show ?thesis
    using assms(1) reply [of "Out_TxDataError k ''stale-template-id''"]
      reply [of "Out_TxDataError k ''template-id-not-found''"] reply [of "Out_TxDataSuccess _ _"]
    by (auto simp: handle_request_transaction_data_def Let_def split: option.splits res.splits)
qed

lemma incoming_ok:
  assumes ok: "core_ok n s" and "bc_booted s"
  shows "core_ok n (incoming_turn T m s)"
proof (cases m)
  case (In_CoinbaseOutputConstraints max_size sigops reply)
  have frame: "core_ok n (s \<lparr> bc_block_requests := x \<rparr>)" for x
    using ok by (simp add: core_ok_def used_ids_def live_def)
  have "core_ok n (spawn_monitor (s \<lparr> bc_block_requests := x, bc_current_client := c,
      bc_constraints_counter := y \<rparr>))" for x y c
    by (rule spawn_monitor_ok) (use assms in \<open>simp_all add: core_ok_def used_ids_def live_def\<close>)
  then show ?thesis
    using In_CoinbaseOutputConstraints listening_off [OF core_ok_cancel [OF frame]]
    by (cases reply) (simp_all add: handle_coinbase_output_constraints_def new_template_ipc_client_def)
next
  case (In_RequestTransactionData k reply)
  then show ?thesis
    using handle_request_ok [OF assms, of T k reply] listening_off listening_off [OF core_ok_cancel]
    by (auto split: prod.splits res.splits)
next
  case (In_SubmitSolution x b r)
  then show ?thesis using ok listening_off by (auto split: prod.splits res.splits)
qed (use ok in simp)

lemma core_ok_ids: "core_ok n s \<Longrightarrow> ids_ok (used_ids s) (bc_template_id_factory s) (bc_monitors s)"
  and core_ok_entries:
    "core_ok n s \<Longrightarrow> \<forall>k td. hm_get (bc_template_data s) k = Some td \<longrightarrow> td_template_id td = k"
  by (simp_all add: core_ok_def)

lemma core_ok_counter:
  assumes ok: "core_ok n s" and n: "n + 1 < 2 ^ 64"
    and x: "bc_template_id_factory x = bc_template_id_factory s + 1" "bc_monitors x = bc_monitors s"
      "bc_out x = bc_out s" "bc_template_data x = bc_template_data s" "bc_stale_tasks x = bc_stale_tasks s"
      "bc_stale_ids x = bc_stale_ids s" "bc_booted x = bc_booted s" "bc_listening x = bc_listening s"
      "bc_current_prev_hash x = bc_current_prev_hash s" "bc_cancelled x = bc_cancelled s"
  shows "core_ok (Suc n) x"
proof -
  let ?f = "bc_template_id_factory s"
  have f: "unat ?f + 1 < 2 ^ 64" using ok n by (simp add: core_ok_def)
  have "unat (?f + 1) \<le> Suc n" using ok f unat_fetch_add [of ?f] by (simp add: core_ok_def)
  moreover have "ids_ok (used_ids x) (?f + 1) (bc_monitors s)"
    using ids_ok_next_counter(1) [OF core_ok_ids [OF ok] f] x by (simp add: used_ids_def)
  ultimately show ?thesis
    using ok x by (auto simp: core_ok_def live_def)
qed

text \<open>The first template: the state right after the fetch, then stored and announced.\<close>

lemma first_template_ok:
  assumes ok: "core_ok (Suc n) x" and boot: "\<not> bc_booted x"
    and f: "bc_template_id_factory x = td_template_id td + 1" "unat (td_template_id td) + 1 < 2 ^ 64"
    and fresh: "td_template_id td \<notin> used_ids x"
    and m: "nt_template_id m = td_template_id td" "nt_future_template m"
    and y: "y = x \<lparr> bc_out := [Out_NewTemplate m, Out_SetNewPrevHash (get_set_new_prev_hash_message T td)],
        bc_template_data := hm_insert (td_template_id td) td (bc_template_data x),
        bc_current_prev_hash := Some (td_get_prev_hash td), bc_last_sent := Some now, bc_booted := True,
        bc_listening := True \<rparr>"
  shows "core_ok (Suc n) y"
proof -
  let ?k = "td_template_id td"
  have x: "bc_monitors x = []" "bc_out x = []" using ok boot by (simp_all add: core_ok_def)
  have used: "used_ids y = insert ?k (used_ids x)" using m x by (simp add: y used_ids_def)
  have "?k < ?k + 1" using less_next_word [of ?k ?k] f(2) by simp
  then have "ids_ok (used_ids y) (bc_template_id_factory y) (bc_monitors y)"
    using ok x f by (simp add: used) (simp add: y core_ok_def ids_ok_def)
  moreover have "live y"
    using fresh m by (simp add: y live_def used_ids_def get_set_new_prev_hash_message_def)
  moreover have data: "bc_template_data y = hm_insert ?k td (bc_template_data x)" by (simp add: y)
  have "\<forall>j t. hm_get (bc_template_data y) j = Some t \<longrightarrow> td_template_id t = j"
    unfolding data by (rule entries_insert [OF core_ok_entries [OF ok]])
  moreover have "unat (bc_template_id_factory y) \<le> Suc n" "distinct (announced_ids (bc_out y))"
    "paired (bc_out y)" "bc_booted y" "sleeping_ok (bc_monitors y)"
    using ok m by (simp_all add: core_ok_def y get_set_new_prev_hash_message_def)
  ultimately show ?thesis unfolding core_ok_def by blast
qed

lemma bootstrap_ok:
  assumes ok: "core_ok n s" and boot: "\<not> bc_booted s" and n: "n + 1 < 2 ^ 64"
    and input: "coinbase_input template_reply"
  shows "core_ok (Suc n) (bootstrap T max_size sigops reply template_reply now s)"
proof (cases reply)
  case (Inl e)
  have "core_ok (Suc n) (cancel (s \<lparr> bc_block_requests := x \<rparr>))" for x
    using core_ok_Suc [OF core_ok_cancel [OF ok]] by (simp add: core_ok_def used_ids_def cancel_def)
  then show ?thesis using Inl by (simp add: bootstrap_def new_template_ipc_client_def)
next
  case (Inr c)
  let ?f = "bc_template_id_factory s"
  let ?x = "s \<lparr> bc_block_requests := bc_block_requests s @ [(block_reserved_weight max_size, ucast sigops)],
      bc_current_client := Some c, bc_constraints_counter := bc_constraints_counter s + 1,
      bc_template_id_factory := ?f + 1 \<rparr>"
  have x: "core_ok (Suc n) ?x" by (rule core_ok_counter [OF ok n]) simp_all
  have out: "bc_out ?x = []" using x boot by (simp add: core_ok_def)
  have f: "unat ?f + 1 < 2 ^ 64" using ok n by (simp add: core_ok_def)
  have fresh: "?f \<notin> used_ids ?x"
    using ids_ok_next_counter(2) [OF core_ok_ids [OF ok] f] by (simp add: used_ids_def)
  show ?thesis
  proof (cases template_reply)
    case reply: (Inr r)
    obtain h tx path where r: "r = (h, tx, path)" by (cases r)
    let ?td = "template_data_new ?f h tx path c"
    have id: "td_template_id ?td = ?f" by (simp add: template_data_new_def)
    have "bt_input (td_coinbase_tx ?td) \<noteq> []" using input reply r by (simp add: template_data_new_def)
    note no_panic = new_template_message_no_panic [OF this, of T True]
    have sent: "core_ok (Suc n) (spawn_monitor
        (?x \<lparr> bc_out := [Out_NewTemplate m, Out_SetNewPrevHash (get_set_new_prev_hash_message T ?td)],
           bc_template_data := hm_insert (td_template_id ?td) ?td (bc_template_data ?x),
           bc_current_prev_hash := Some (td_get_prev_hash ?td), bc_last_sent := Some now,
           bc_booted := True, bc_listening := True \<rparr>))"
      if "get_new_template_message T True ?td = Ok m" for m
    proof (rule spawn_monitor_ok [OF first_template_ok [OF x, where td = ?td and m = m and T = T and now = now]])
      show "nt_template_id m = td_template_id ?td" "nt_future_template m"
        using new_template_message_fields [OF that] by simp_all
    qed (use boot f fresh id in simp_all)
    note defs = bootstrap_def new_template_ipc_client_def begin_fetch_def end_fetch_def send_out_def Let_def
    show ?thesis
    proof (cases "get_new_template_message T True ?td")
      case (Ok m)
      then show ?thesis
        using Inr reply r sent [OF Ok] core_ok_cancel [OF x] out id by (simp add: defs)
    next
      case (Err e)
      then show ?thesis using Inr reply r core_ok_cancel [OF x] by (simp add: defs)
    qed (use no_panic in blast)
  qed (use Inr core_ok_cancel [OF x] in \<open>simp add: bootstrap_def new_template_ipc_client_def
        begin_fetch_def end_fetch_def Let_def\<close>)
qed

section \<open>Runs\<close>

fun event_input :: "'c core_event \<Rightarrow> bool" where
  "event_input (Core_First max_size sigops reply template_reply now) \<longleftrightarrow> coinbase_input template_reply"
| "event_input (Core_Fetched i reply now w) \<longleftrightarrow> coinbase_input reply"
| "event_input _ \<longleftrightarrow> True"

lemma monitor_start_ok:
  assumes "core_ok n s" and "i < length (bc_monitors s)"
  shows "core_ok n (monitor_start i r w s)"
  using core_ok_quiet [OF assms quiet_terminate] core_ok_quiet [OF assms quiet_loop_head]
  by (simp add: monitor_start_def split: sum.splits)

lemma core_step_ok:
  assumes ok: "core_ok n s" and n: "n + 1 < 2 ^ 64" and e: "event_input e"
  shows "core_ok (Suc n) (core_step T e s)"
proof (cases e)
  case (Core_First max_size sigops reply template_reply now)
  then show ?thesis
    using e bootstrap_ok [OF ok _ n, of template_reply T max_size sigops reply now] core_ok_Suc [OF ok]
    by (auto simp: core_step_def)
next
  case (Core_Incoming m)
  have "core_ok (Suc n) (incoming_turn T m s)" if "bc_listening s"
    using that ok by (intro core_ok_Suc [OF incoming_ok [OF ok]]) (auto simp: core_ok_def)
  then show ?thesis using Core_Incoming core_ok_Suc [OF ok] by (simp add: core_step_def)
next
  case (Core_Start i r w)
  then show ?thesis
    using core_ok_Suc [OF ok] core_ok_Suc [OF monitor_start_ok [OF ok, of i r w]]
    by (auto simp: core_step_def)
next
  case (Core_Response i response w)
  then show ?thesis
    using core_ok_Suc [OF ok] monitor_response_ok [OF ok _ n, of i _ response w]
    by (auto simp: core_step_def split: monitor_phase.splits)
next
  case (Core_Fetched i reply now w)
  then show ?thesis
    using e core_ok_Suc [OF ok] core_ok_Suc [OF monitor_fetched_ok [OF ok, of i _ _ reply T now w]]
    by (auto simp: core_step_def split: monitor_phase.splits)
next
  case (Core_Awake i now w)
  have "core_ok (Suc n) (announce_update T i now td w s)"
    if "i < length (bc_monitors s)" "mo_phase (bc_monitors s ! i) = Sleeping td" for td
  proof (rule core_ok_Suc [OF announce_update_ok [OF ok that(1)]])
    have "bc_monitors s ! i \<in> set (bc_monitors s)" using that(1) by simp
    then show "bt_input (td_coinbase_tx td) \<noteq> []"
      using ok that(2) unfolding core_ok_def sleeping_ok_def by blast
  qed (use that in simp)
  then show ?thesis
    using Core_Awake core_ok_Suc [OF ok] by (auto simp: core_step_def split: monitor_phase.splits)
next
  case (Core_Stale r rs)
  then show ?thesis using core_ok_Suc [OF process_stale_ok [OF ok]] by (simp add: core_step_def)
next
  case Core_Cancel
  then show ?thesis using core_ok_Suc [OF core_ok_cancel [OF ok]] by (simp add: core_step_def)
next
  case Core_Close
  then show ?thesis
    using core_ok_Suc [OF ok] by (simp add: core_step_def core_ok_def used_ids_def live_def)
qed

lemma core_run_ok:
  "core_ok n s \<Longrightarrow> n + length es < 2 ^ 64 \<Longrightarrow> (\<forall>e \<in> set es. event_input e) \<Longrightarrow>
     core_ok (n + length es) (core_run T es s)"
proof (induction es arbitrary: n s)
  case (Cons e es)
  have "core_ok (Suc n) (core_step T e s)"
    by (rule core_step_ok [OF Cons.prems(1)]) (use Cons.prems(2,3) in simp_all)
  then show ?case using Cons.IH [of "Suc n"] Cons.prems(2,3) by simp
qed simp

end
