(* ===== verification/Template_Provider.thy ===== *)
theory Template_Provider
  imports Bitcoin_Core_Laws
begin

text \<open>
  The properties of the template provider on Bitcoin Core, and a run of its tasks on which they are
  exercised.
\<close>

section \<open>A run\<close>

definition plain_codecs :: tdp_lib where
  "plain_codecs =
     \<lparr> tl_b0255 = (\<lambda>b. if length b \<le> 255 then Some b else None),
       tl_b064k = (\<lambda>b. if length b \<le> 65535 then Some b else None),
       tl_b016m = (\<lambda>b. if length b \<le> 16777215 then Some b else None),
       tl_u256 = (\<lambda>b. if length b = 32 then Some (ucast (hd b)) else None),
       tl_seq0255 = (\<lambda>xs. if length xs \<le> 255 then Some xs else None),
       tl_seq064k = (\<lambda>xs. if length xs \<le> 65535 then Some xs else None),
       tl_checked_sum = (\<lambda>vs. if (\<Sum>v\<leftarrow>vs. unat v) < 2 ^ 64 then Some (of_nat (\<Sum>v\<leftarrow>vs. unat v)) else None),
       tl_serialize_out = (\<lambda>out. tx_script_pubkey out), tl_serialize_tx = (\<lambda>tx. [ucast (bt_lock_time tx)]),
       tl_deserialize_tx = (\<lambda>b. Inl (Consensus 0)), tl_target = (\<lambda>bits. ucast bits),
       tl_txid = (\<lambda>tx. []), tl_sha256d = (\<lambda>b. b), tl_validate_pow = (\<lambda>h. True) \<rparr>"

definition tp_coinbase :: bc_tx where
  "tp_coinbase =
     \<lparr> bt_version = 2, bt_lock_time = 5,
       bt_input = [\<lparr> ti_script_sig = [1, 2], ti_sequence = 9, ti_witness = [], ti_previous_output = ([], 0) \<rparr>],
       bt_output = [\<lparr> tx_value = 50, tx_script_pubkey = [7] \<rparr>, \<lparr> tx_value = 0, tx_script_pubkey = [8, 8] \<rparr>] \<rparr>"

definition tp_header :: "u256 \<Rightarrow> bc_header" where
  "tp_header prev =
     \<lparr> hd_version = 0x20000000, hd_prev_blockhash = prev, hd_merkle_root = [], hd_time = 100,
       hd_bits = 3, hd_nonce = 0 \<rparr>"

definition tp_reply :: "u256 \<Rightarrow> template_reply" where
  "tp_reply prev = Inr (tp_header prev, tp_coinbase, [replicate 32 4])"

text \<open>The start, a new chain tip, and the clearing of the stale template.\<close>

definition tp_events :: "nat core_event list" where
  "tp_events =
     [Core_First 100 400 (Inr 1) (tp_reply 11) 0, Core_Start 0 (Inr ()) Request_Ok,
      Core_Response 0 (Wait_Template 2) Request_Ok, Core_Fetched 0 (tp_reply 12) 5 Request_Ok,
      Core_Stale (Inr ()) [Inr ()]]"

text \<open>New constraints arrive while the task that watches the templates fetches one.\<close>

definition tp_race :: "nat core_event list" where
  "tp_race =
     [Core_First 100 400 (Inr 1) (tp_reply 11) 0, Core_Start 0 (Inr ()) Request_Ok,
      Core_Response 0 (Wait_Template 2) Request_Ok,
      Core_Incoming (In_CoinbaseOutputConstraints 200 400 (Inr 3)),
      Core_Fetched 0 (tp_reply 12) 5 Request_Ok, Core_Start 1 (Inr ()) Request_Ok]"

definition tp_new :: "nat bitcoin_core" where
  "tp_new = bitcoin_core_new 100 5"

definition tp_template :: "u64 \<Rightarrow> u256 \<Rightarrow> nat \<Rightarrow> nat template_data" where
  "tp_template k prev c = template_data_new k (tp_header prev) tp_coinbase [replicate 32 4] c"

definition tp_message :: "u64 \<Rightarrow> bool \<Rightarrow> new_template" where
  "tp_message k f =
     \<lparr> nt_template_id = k, nt_future_template = f, nt_version = 0x20000000, nt_coinbase_tx_version = 2,
       nt_coinbase_prefix = [1, 2], nt_coinbase_tx_input_sequence = 9,
       nt_coinbase_tx_value_remaining = 50, nt_coinbase_tx_outputs_count = 1,
       nt_coinbase_tx_outputs = [8, 8], nt_coinbase_tx_locktime = 5, nt_merkle_path = [4] \<rparr>"

lemma tp_template_message:
  "get_new_template_message plain_codecs f (tp_template k prev c) = Ok (tp_message k f)"
  by (simp add: get_new_template_message_def bind_res_def tp_template_def template_data_new_def get_version_def
      get_coinbase_tx_version_def get_coinbase_script_sig_def get_coinbase_input_sequence_def first_input_def
      get_coinbase_tx_value_remaining_def get_serialized_empty_coinbase_outputs_def get_merkle_path_def
      get_empty_coinbase_outputs_def tp_header_def tp_coinbase_def plain_codecs_def tp_message_def Let_def)

lemma tp_end_fetch: "end_fetch k c (tp_reply prev) = Ok (tp_template k prev c)"
  by (simp add: end_fetch_def tp_reply_def tp_template_def)

lemma tp_template_fields [simp]:
  "td_template_id (tp_template k prev c) = k" "td_get_prev_hash (tp_template k prev c) = prev"
  by (simp_all add: tp_template_def template_data_new_def tp_header_def td_get_prev_hash_def)

lemmas core_defs = core_step_def bootstrap_def new_template_ipc_client_def begin_fetch_def send_out_def
  monitor_start_def loop_head_def new_wait_next_request_def monitor_response_def set_phase_def
  monitor_fetched_def announce_tip_def spawn_monitor_def process_stale_template_data_def
  handle_coinbase_output_constraints_def bitcoin_core_new_def tp_end_fetch tp_template_message Let_def

lemma tp_input: "coinbase_input (tp_reply prev)"
  by (simp add: tp_reply_def tp_coinbase_def)

lemma tp_events_input: "\<forall>e \<in> set tp_events. event_input e"
  by (simp add: tp_events_def tp_input)

lemma tp_run:
  "bc_booted (core_run plain_codecs tp_events tp_new) \<and>
   \<not> bc_cancelled (core_run plain_codecs tp_events tp_new) \<and>
   recent [] (bc_out (core_run plain_codecs tp_events tp_new)) = [1] \<and>
   announced_ids (bc_out (core_run plain_codecs tp_events tp_new)) = [0, 1] \<and>
   bc_out_open (core_run plain_codecs tp_events tp_new)"
  by (simp add: tp_events_def tp_new_def core_defs tp_message_def)

section \<open>Properties\<close>

text \<open>
  The stream of templates is well formed in every interleaving of the tasks, of the requests and of
  Bitcoin Core's answers: no template identifier is announced twice, a future template is followed
  at once by the SetNewPrevHash that activates it, there is no other SetNewPrevHash, and as long as
  the connection has not been ended every SetNewPrevHash changes the previous hash and the last one
  is the tip that the provider compares new templates with.
\<close>

theorem template_stream_well_formed:
  assumes "length es < 2 ^ 64" and "\<forall>e \<in> set es. event_input e"
    and "s = core_run T es (bitcoin_core_new fee_threshold min_interval)"
  shows "distinct (announced_ids (bc_out s)) \<and> paired (bc_out s) \<and>
    (bc_booted s \<and> \<not> bc_cancelled s \<longrightarrow>
       prev_changes None (bc_out s) \<and> last_prev None (bc_out s) = bc_current_prev_hash s)"
  using core_run_ok [OF core_ok_new, of es T fee_threshold min_interval] assms
  by (simp add: core_ok_def live_def)

theorem template_stream_well_formed_witness:
  "distinct (announced_ids (bc_out (core_run plain_codecs tp_events tp_new))) \<and>
   prev_changes None (bc_out (core_run plain_codecs tp_events tp_new))"
  using template_stream_well_formed [OF _ tp_events_input, of _ plain_codecs 100 5] tp_run
  by (simp add: tp_new_def) (simp add: tp_events_def)

lemma hm_get_None_iff: "hm_get m k = None \<longleftrightarrow> k \<notin> hm_keys m"
  by (simp add: hm_get_def hm_keys_def map_of_eq_None_iff)

text \<open>
  The templates of the current chain tip stay usable: as long as the connection has not been ended,
  every template announced since the last future template, that one included, is stored, so a
  solution for it is submitted and not answered with a missing template, and a request for its
  transactions that Bitcoin Core answers is answered with them.
\<close>

theorem tip_templates_available:
  assumes "length es < 2 ^ 64" and "\<forall>e \<in> set es. event_input e"
    and "s = core_run T es (bitcoin_core_new fee_threshold min_interval)"
    and "bc_booted s" and "\<not> bc_cancelled s" and "k \<in> set (recent [] (bc_out s))"
  shows "(ss_template_id m = k \<longrightarrow>
      fst (handle_submit_solution T m template_block reply s) \<noteq> Err Bc_TemplateNotFound) \<and>
    (bc_out_open s \<and> get_tx_data T block_reply = Ok txs \<longrightarrow>
      bc_out (snd (handle_request_transaction_data T k block_reply s)) =
        bc_out s @ [Out_TxDataSuccess k txs])"
proof -
  have "core_ok (length es) s"
    using core_run_ok [OF core_ok_new, of es T fee_threshold min_interval] assms(1-3) by simp
  then have ok: "live s" and entries: "\<forall>k td. hm_get (bc_template_data s) k = Some td \<longrightarrow> td_template_id td = k"
    using assms(4,5) by (simp_all add: core_ok_def)
  have "k \<in> hm_keys (bc_template_data s)" and stale: "k \<notin> set (bc_stale_ids s)"
    using ok assms(6) by (simp_all add: live_def)
  then obtain td where td: "hm_get (bc_template_data s) k = Some td" and "td_template_id td = k"
    using entries hm_get_None_iff [of "bc_template_data s" k] by auto
  then show ?thesis
    using stale by (auto simp: handle_submit_solution_def handle_request_transaction_data_def Let_def
      send_out_def split: prod.splits res.splits)
qed

theorem tip_templates_available_witness:
  "bc_out (snd (handle_request_transaction_data plain_codecs 1
       (Inr \<lparr> bb_header = tp_header 12, bb_txdata = [tp_coinbase] \<rparr>) (core_run plain_codecs tp_events tp_new))) =
     bc_out (core_run plain_codecs tp_events tp_new) @ [Out_TxDataSuccess 1 [[5]]]"
proof -
  have "get_tx_data plain_codecs (Inr \<lparr> bb_header = tp_header 12, bb_txdata = [tp_coinbase] \<rparr>) = Ok [[5]]"
    by (simp add: get_tx_data_def bind_res_def plain_codecs_def tp_coinbase_def)
  moreover have "length tp_events < 2 ^ 64" by (simp add: tp_events_def)
  ultimately show ?thesis
    using tip_templates_available [OF _ tp_events_input, of _ plain_codecs 100 5 1] tp_run
    by (simp add: tp_new_def)
qed

text \<open>What the codecs document: a value that is accepted is unchanged and within its size.\<close>

definition codec_laws :: "('z) tdp_lib_scheme \<Rightarrow> bool" where
  "codec_laws T \<longleftrightarrow>
     (\<forall>b c. tl_b0255 T b = Some c \<longrightarrow> c = b \<and> length b \<le> 255) \<and>
     (\<forall>b c. tl_b064k T b = Some c \<longrightarrow> c = b \<and> length b \<le> 65535) \<and>
     (\<forall>xs ys. tl_seq0255 T xs = Some ys \<longrightarrow> ys = xs \<and> length xs \<le> 255) \<and>
     (\<forall>b h. tl_u256 T b = Some h \<longrightarrow> length b = 32) \<and>
     (\<forall>vs v. tl_checked_sum T vs = Some v \<longrightarrow> unat v = (\<Sum>x\<leftarrow>vs. unat x))"

lemma plain_codecs_laws: "codec_laws plain_codecs"
  by (auto simp: codec_laws_def plain_codecs_def unat_of_nat split: if_splits)

lemma codec_lawsD:
  assumes "codec_laws T"
  shows "tl_b0255 T b = Some c \<Longrightarrow> c = b \<and> length b \<le> 255"
    and "tl_b064k T b = Some c \<Longrightarrow> c = b \<and> length b \<le> 65535"
    and "tl_seq0255 T xs = Some ys \<Longrightarrow> ys = xs \<and> length xs \<le> 255"
    and "tl_u256 T b = Some h \<Longrightarrow> length b = 32"
    and "tl_checked_sum T vs = Some v \<Longrightarrow> unat v = (\<Sum>x\<leftarrow>vs. unat x)"
  using assms unfolding codec_laws_def by blast+

lemma convert_merkle_path_length:
  assumes "codec_laws T"
  shows "convert_merkle_path T bs = Ok hs \<Longrightarrow>
     length hs = length bs \<and> (\<forall>b \<in> set bs. length b = 32)"
proof (induction bs arbitrary: hs)
  case (Cons b bs)
  then obtain h hs' where "tl_u256 T b = Some h" and "convert_merkle_path T bs = Ok hs'" and "hs = h # hs'"
    by (auto simp: map_res_Ok split: option.splits)
  then show ?case using Cons.IH [of hs'] codec_lawsD(4) [OF assms] by simp
qed simp

text \<open>
  The NewTemplate message is well typed and complete: when the codecs accept a template, the message carries
  its identifier and lock time, the version and the coinbase version are not negative, the prefix
  is the script of the first coinbase input with at most 255 bytes, the merkle path has the
  template's hashes, all of 32 bytes and at most 255, the value is the exact sum of the coinbase
  outputs, and the announced outputs are the serialised outputs without value, which it counts.
\<close>

theorem new_template_message_typed:
  assumes "codec_laws T" and "get_new_template_message T future td = Ok m"
  shows "nt_template_id m = td_template_id td \<and> nt_future_template m = future \<and>
    nt_version m = hd_version (td_header td) \<and> 0 \<le> sint (nt_version m) \<and>
    0 \<le> sint (nt_coinbase_tx_version m) \<and>
    (\<exists>i is. bt_input (td_coinbase_tx td) = i # is \<and> nt_coinbase_prefix m = ti_script_sig i \<and>
       nt_coinbase_tx_input_sequence m = ti_sequence i) \<and>
    length (nt_coinbase_prefix m) \<le> 255 \<and>
    length (nt_merkle_path m) = length (td_merkle_path td) \<and> length (nt_merkle_path m) \<le> 255 \<and>
    (\<forall>b \<in> set (td_merkle_path td). length b = 32) \<and>
    unat (nt_coinbase_tx_value_remaining m) = (\<Sum>out\<leftarrow>bt_output (td_coinbase_tx td). unat (tx_value out)) \<and>
    nt_coinbase_tx_outputs_count m =
      of_nat (length (filter (\<lambda>out. tx_value out = 0) (bt_output (td_coinbase_tx td)))) \<and>
    nt_coinbase_tx_outputs m =
      concat (map (tl_serialize_out T) (filter (\<lambda>out. tx_value out = 0) (bt_output (td_coinbase_tx td)))) \<and>
    nt_coinbase_tx_locktime m = bt_lock_time (td_coinbase_tx td)"
proof -
  note laws = codec_lawsD [OF assms(1)]
  obtain version tx_version script sequence val outputs path where
    v: "get_version td = Ok version" and tv: "get_coinbase_tx_version td = Ok tx_version"
    and sc: "get_coinbase_script_sig T td = Ok script" and sq: "get_coinbase_input_sequence td = Ok sequence"
    and va: "get_coinbase_tx_value_remaining T td = Ok val"
    and ou: "get_serialized_empty_coinbase_outputs T td = Ok outputs" and pa: "get_merkle_path T td = Ok path"
    and m: "m = \<lparr> nt_template_id = td_template_id td, nt_future_template = future, nt_version = version,
            nt_coinbase_tx_version = tx_version, nt_coinbase_prefix = script,
            nt_coinbase_tx_input_sequence = sequence, nt_coinbase_tx_value_remaining = val,
            nt_coinbase_tx_outputs_count = of_nat (length (get_empty_coinbase_outputs td)),
            nt_coinbase_tx_outputs = outputs,
            nt_coinbase_tx_locktime = bt_lock_time (td_coinbase_tx td), nt_merkle_path = path \<rparr>"
    using assms(2) by (auto simp: get_new_template_message_def bind_res_Ok)
  have "version = hd_version (td_header td)" "0 \<le> sint version" "0 \<le> sint tx_version"
    using v tv by (auto simp: get_version_def get_coinbase_tx_version_def Let_def split: if_splits)
  moreover obtain i "is" where "bt_input (td_coinbase_tx td) = i # is" "tl_b0255 T (ti_script_sig i) = Some script"
    "sequence = ti_sequence i"
    using sc sq by (auto simp: get_coinbase_script_sig_def get_coinbase_input_sequence_def first_input_def
      split: list.splits option.splits)
  moreover obtain hs where "convert_merkle_path T (td_merkle_path td) = Ok hs" "tl_seq0255 T hs = Some path"
    using pa by (auto simp: get_merkle_path_def bind_res_Ok split: option.splits)
  moreover have "tl_checked_sum T (map tx_value (bt_output (td_coinbase_tx td))) = Some val"
    using va by (auto simp: get_coinbase_tx_value_remaining_def split: option.splits)
  moreover have "tl_b064k T (concat (map (tl_serialize_out T) (get_empty_coinbase_outputs td))) = Some outputs"
    using ou by (auto simp: get_serialized_empty_coinbase_outputs_def split: option.splits)
  ultimately show ?thesis
    using laws(1) [of "ti_script_sig i" script] laws(2) [of _ outputs] laws(3) [of hs path]
      laws(5) [of _ val] convert_merkle_path_length [OF assms(1), of "td_merkle_path td" hs]
    by (auto simp: m get_empty_coinbase_outputs_def o_def)
qed

theorem new_template_message_typed_witness:
  "unat (nt_coinbase_tx_value_remaining (tp_message 4 True)) = 50 \<and>
   length (nt_merkle_path (tp_message 4 True)) \<le> 255"
  using new_template_message_typed [OF plain_codecs_laws tp_template_message [of True 4 11 1]]
  by (simp add: tp_template_def template_data_new_def tp_coinbase_def)

text \<open>
  The weight reserved for the coinbase is four times the requested size, and at least 2000, only for
  sizes below 2 to the 30: the product is taken on 32 bits, so a larger size wraps around and
  the request to Bitcoin Core reserves too little, down to the minimum.
\<close>

theorem reserved_weight_wraps:
  "unat (block_reserved_weight n) = max (4 * unat n mod 2 ^ 32) 2000 \<and>
   (unat n < 2 ^ 30 \<longleftrightarrow> 4 * unat n mod 2 ^ 32 = 4 * unat n)"
proof -
  have "4 * unat n mod 2 ^ 32 < (2 ^ 64 :: nat)"
    by (rule less_trans [of _ "2 ^ 32"]) simp_all
  then have "unat (ucast (n * 4) :: u64) = 4 * unat n mod 2 ^ 32"
    by (simp add: unsigned_ucast_eq unat_word_ariths mult.commute take_bit_nat_eq_self)
  moreover have "unat (max a b) = max (unat a) (unat b)" for a b :: u64
    by (simp add: max_def word_le_nat_alt)
  ultimately have "unat (block_reserved_weight n) = max (4 * unat n mod 2 ^ 32) 2000"
    by (simp add: block_reserved_weight_def WEIGHT_FACTOR_def MIN_BLOCK_RESERVED_WEIGHT_def)
  moreover have "unat n < 2 ^ 30 \<longleftrightarrow> 4 * unat n mod 2 ^ 32 = 4 * unat n"
  proof -
    have "4 * unat n mod 2 ^ 32 = 4 * unat n \<longleftrightarrow> 4 * unat n < 2 ^ 32"
      by (metis mod_less mod_less_divisor zero_less_numeral zero_less_power)
    then show ?thesis by simp
  qed
  ultimately show ?thesis by blast
qed

lemma serialize_txs_Ok:
  assumes "\<And>b c. tl_b016m T b = Some c \<Longrightarrow> c = b"
  shows "serialize_txs T txs = Ok bs \<Longrightarrow> bs = map (tl_serialize_tx T) txs"
proof (induction txs arbitrary: bs)
  case (Cons tx txs)
  then show ?case using assms by (auto simp: map_res_Ok split: option.splits)
qed simp

text \<open>
  The transactions of a template are sent with its coinbase: the list that answers
  RequestTransactionData is every transaction of the block, the coinbase first, while the block
  that the same provider writes for a solution replaces that first transaction by the solution's coinbase.
\<close>

theorem transaction_data_has_coinbase:
  assumes "\<And>b c. tl_b016m T b = Some c \<Longrightarrow> c = b" and "\<And>xs ys. tl_seq064k T xs = Some ys \<Longrightarrow> ys = xs"
    and "bb_txdata block = coinbase # rest" and "get_tx_data T (Inr block) = Ok txs"
    and "dump_solution_to_disk T tx version time nonce (Some block) td = Some solved"
  shows "txs = tl_serialize_tx T coinbase # map (tl_serialize_tx T) rest \<and> bb_txdata solved = tx # rest"
proof -
  obtain bs where "serialize_txs T (bb_txdata block) = Ok bs" and "tl_seq064k T bs = Some txs"
    using assms(4) by (auto simp: get_tx_data_def bind_res_Ok split: option.splits)
  then have "txs = map (tl_serialize_tx T) (bb_txdata block)"
    using serialize_txs_Ok [OF assms(1)] assms(2) by blast
  then show ?thesis
    using assms(3,5) by (auto simp: dump_solution_to_disk_def Let_def split: if_splits)
qed

theorem transaction_data_has_coinbase_witness:
  "\<exists>txs solved. get_tx_data plain_codecs (Inr \<lparr> bb_header = tp_header 11, bb_txdata = [tp_coinbase] \<rparr>) = Ok txs \<and>
     dump_solution_to_disk plain_codecs tp_coinbase 1 2 3
       (Some \<lparr> bb_header = tp_header 11, bb_txdata = [tp_coinbase] \<rparr>) (tp_template 4 11 1) = Some solved \<and>
     txs = [tl_serialize_tx plain_codecs tp_coinbase] \<and> bb_txdata solved = [tp_coinbase]"
proof -
  let ?b = "\<lparr> bb_header = tp_header 11, bb_txdata = [tp_coinbase] \<rparr>"
  have txs: "get_tx_data plain_codecs (Inr ?b) = Ok [[5]]"
    by (simp add: get_tx_data_def bind_res_def plain_codecs_def tp_coinbase_def)
  obtain solved where dump:
    "dump_solution_to_disk plain_codecs tp_coinbase 1 2 3 (Some ?b) (tp_template 4 11 1) = Some solved"
    by (simp add: dump_solution_to_disk_def congruent_coinbase_def bind_res_def first_input_def
      tp_template_def template_data_new_def tp_coinbase_def plain_codecs_def Let_def)
  have laws: "tl_b016m plain_codecs b = Some c \<Longrightarrow> c = b" "tl_seq064k plain_codecs xs = Some ys \<Longrightarrow> ys = xs"
    for b c xs ys by (auto simp: plain_codecs_def split: if_splits)
  show ?thesis
    using transaction_data_has_coinbase [OF laws _ txs dump, of tp_coinbase "[]"] txs dump by simp
qed

text \<open>
  A change of the coinbase constraints may leave two tasks watching the templates: when the constraints
  arrive while the old task fetches a template, that task reads the new counter at its next turn, so
  neither it nor the task spawned for the new constraints ends, both wait on the template that the
  new constraints created, and the chain tip of the old constraints was announced in between.
\<close>

theorem constraints_race_leaves_two_monitors:
  "map mo_phase (bc_monitors (core_run plain_codecs tp_race tp_new)) = [Waiting 3 2, Waiting 3 2] \<and>
   bc_wait_next_counter (core_run plain_codecs tp_race tp_new) = 2 \<and>
   bc_out (core_run plain_codecs tp_race tp_new) =
     [Out_NewTemplate (tp_message 0 True), Out_SetNewPrevHash (get_set_new_prev_hash_message plain_codecs (tp_template 0 11 1)),
      Out_NewTemplate (tp_message 1 True), Out_SetNewPrevHash (get_set_new_prev_hash_message plain_codecs (tp_template 1 12 2))]"
  by (simp add: tp_race_def tp_new_def core_defs)

text \<open>
  The wait at the end of the provider ends: reading the counter of open requests every second, it
  leaves the loop after at most 51 readings whatever the counter says; but a request that failed
  is never counted down, so with a failed request the wait lasts until the time-out.
\<close>

theorem shutdown_wait_ends:
  assumes "51 \<le> length readings" and "\<forall>i < length readings. i + 1 \<le> snd (readings ! i)"
  shows "(\<exists>n \<le> 51. shutdown_wait readings = Some n) \<and>
    bc_wait_next_counter (monitor_response i captured Wait_Failed w s) = bc_wait_next_counter s"
proof -
  have aux: "\<exists>n \<le> 51 - k. shutdown_wait rs = Some n"
    if "51 - k \<le> length rs" "k < 51" "\<forall>i < length rs. k + i + 1 \<le> snd (rs ! i)" for k and rs :: "(u8 \<times> nat) list"
    using that
  proof (induction rs arbitrary: k)
    case (Cons r rs)
    obtain c e where r: "r = (c, e)" by (cases r)
    have e: "k + 1 \<le> e" using Cons.prems(3) r by force
    show ?case
    proof (cases "c = 0 \<or> 50 < e")
      case True
      then show ?thesis using r Cons.prems(2) by auto
    next
      case False
      have "\<forall>i < length rs. Suc k + i + 1 \<le> snd (rs ! i)" using Cons.prems(3) by force
      then have "\<exists>n \<le> 51 - Suc k. shutdown_wait rs = Some n"
        using Cons.IH [of "Suc k"] Cons.prems(1) False e by simp
      then show ?thesis using False r Cons.prems(2) by auto
    qed
  qed simp
  show ?thesis
    using aux [of 0 readings] assms
    by (simp add: monitor_response_def terminate_def set_phase_def cancel_def)
qed

theorem shutdown_wait_ends_witness:
  "(\<exists>n \<le> 51. shutdown_wait (map (\<lambda>i. (1, i + 1)) [0..<60]) = Some n) \<and>
   bc_wait_next_counter (monitor_response 0 1 Wait_Failed Request_Ok tp_new) = bc_wait_next_counter tp_new"
  by (rule shutdown_wait_ends) simp_all

text \<open>
  Identifiers that were reported stale are forgotten at the next change of the chain tip: the list of
  stale identifiers is replaced, not extended, so a request for an older stale template, answered
  with stale-template-id before, is answered with template-id-not-found after.
\<close>

theorem older_stale_ids_forgotten:
  fixes s :: "'a bitcoin_core"
  assumes "bc_stale_tasks s = ids # tasks" and "k \<in> set (bc_stale_ids s)" and "k \<notin> set ids"
    and "k \<notin> hm_keys (bc_template_data s)" and "bc_out_open s"
    and "s' = process_stale_template_data (Inr ()) (map Inr us) s"
  shows "bc_out (snd (handle_request_transaction_data T k reply s)) =
      bc_out s @ [Out_TxDataError k ''stale-template-id''] \<and>
    bc_out (snd (handle_request_transaction_data T k reply s')) =
      bc_out s @ [Out_TxDataError k ''template-id-not-found'']"
proof -
  have "destroy_clients (map Inr us) x = x" for x :: "'a bitcoin_core" by (induction us) simp_all
  moreover have "hm_get (bc_template_data s) k = None" using assms(4) by (simp add: hm_get_None_iff)
  ultimately show ?thesis
    using assms by (simp add: process_stale_template_data_def Let_def handle_request_transaction_data_def
      send_out_def hm_get_fold_remove)
qed

definition tp_stale :: "nat bitcoin_core" where
  "tp_stale = tp_new \<lparr> bc_stale_ids := [0], bc_stale_tasks := [[1]] \<rparr>"

theorem older_stale_ids_forgotten_witness:
  "bc_out (snd (handle_request_transaction_data plain_codecs 0 (Inl Td_InvalidSolution)
     (process_stale_template_data (Inr ()) [Inr ()] tp_stale))) =
     [Out_TxDataError 0 ''template-id-not-found'']"
proof -
  have s: "bc_stale_tasks tp_stale = [1] # []" "0 \<in> set (bc_stale_ids tp_stale)" "bc_out_open tp_stale"
    "0 \<notin> hm_keys (bc_template_data tp_stale)" "bc_out tp_stale = []"
    by (simp_all add: tp_stale_def tp_new_def bitcoin_core_new_def)
  show ?thesis
    using older_stale_ids_forgotten [OF s(1,2) _ s(4,3), of _ "[()]" plain_codecs "Inl Td_InvalidSolution"] s(5)
    by simp
qed

text \<open>
  The minimal interval does not count templates of a new chain tip: announcing one leaves the time of
  the last sent template alone, so an update of the same tip that arrives right after it is sent
  without waiting whenever the interval has passed since the last update before the tip changed.
\<close>

theorem tip_not_counted_for_interval:
  assumes "i < length (bc_monitors s)" and "s' = announce_tip T i td w s"
    and "\<not> must_sleep (bc_min_interval s) (mo_last_sent (bc_monitors s ! i)) now"
  shows "mo_last_sent (bc_monitors s' ! i) = mo_last_sent (bc_monitors s ! i) \<and>
    \<not> must_sleep (bc_min_interval s') (mo_last_sent (bc_monitors s' ! i)) now"
proof -
  have "mo_last_sent (bc_monitors (loop_head i w x) ! i) = mo_last_sent (bc_monitors x ! i) \<and>
      bc_min_interval (loop_head i w x) = bc_min_interval x"
    "mo_last_sent (bc_monitors (terminate i x) ! i) = mo_last_sent (bc_monitors x ! i) \<and>
      bc_min_interval (terminate i x) = bc_min_interval x"
    "mo_last_sent (bc_monitors (set_phase i Ended x) ! i) = mo_last_sent (bc_monitors x ! i) \<and>
      bc_min_interval (set_phase i Ended x) = bc_min_interval x"
    if "i < length (bc_monitors x)" for x :: "'a bitcoin_core"
    using that by (auto simp: loop_head_def new_wait_next_request_def set_phase_def terminate_def cancel_def
      split: option.splits request_outcome.splits)
  then have "mo_last_sent (bc_monitors s' ! i) = mo_last_sent (bc_monitors s ! i) \<and>
      bc_min_interval s' = bc_min_interval s"
    using assms(1) by (auto simp: assms(2) announce_tip_eq tip_stored_def split: res.splits)
  then show ?thesis using assms(3) by simp
qed

theorem tip_not_counted_for_interval_witness:
  "mo_last_sent (bc_monitors (announce_tip plain_codecs 0 (tp_template 1 12 2) Request_Ok
      (core_run plain_codecs (take 2 tp_events) tp_new)) ! 0) = Some 0"
  using tip_not_counted_for_interval [of 0 "core_run plain_codecs (take 2 tp_events) tp_new", OF _ refl, of 6000]
  by (simp add: tp_events_def tp_new_def core_defs must_sleep_def)

end
