(* ===== verification/Pool_Mining.thy ===== *)
theory Pool_Mining
  imports Pool_Types
begin

text \<open>
  The mining-protocol handlers of the pool's channel manager
  (\<open>channel_manager/mining_message_handler.rs\<close>): closing and opening channels, share
  submission, channel updates and custom jobs. Every handler takes the identifier of the
  downstream that sent the message, runs its closure under the channel manager's lock and
  forwards the resulting messages. The closures mutate the data as they go: an error or a
  panic half-way keeps what was done before it.
\<close>

section \<open>Closing a channel\<close>

definition handle_close_channel ::
  "downstream_id \<Rightarrow> channel_id \<Rightarrow> ('sc, 'ec, 'gc, 'vd, 'xf) channel_manager \<Rightarrow>
     unit pool_result \<times> ('sc, 'ec, 'gc, 'vd, 'xf) channel_manager" where
  "handle_close_channel did cid cm =
     (let d = channel_manager_data cm in
      case hm_get (cm_downstream d) did of
        None \<Rightarrow> (Err (DownstreamNotFound did), cm)
      | Some ds \<Rightarrow>
          let dd = downstream_data ds;
              dd' = dd\<lparr>standard_channels := hm_remove cid (standard_channels dd),
                       extended_channels := hm_remove cid (extended_channels dd)\<rparr>;
              d' = d\<lparr>cm_downstream := hm_insert did (ds\<lparr>downstream_data := dd'\<rparr>) (cm_downstream d),
                     vardiff := hm_remove (did, cid) (vardiff d)\<rparr>
          in (Ok (), cm\<lparr>channel_manager_data := d'\<rparr>))"

section \<open>Opening a standard channel\<close>

definition pool_coinbase_output :: "pool_config \<Rightarrow> new_template \<Rightarrow> tx_out" where
  "pool_coinbase_output cfg template =
     \<lparr>tx_value = nt_coinbase_tx_value_remaining template,
      tx_script_pubkey = coinbase_reward_script_pubkey cfg\<rparr>"

text \<open>The first standard channel of a connection without \<open>REQUIRES_STANDARD_JOBS\<close> creates
  the group channel.\<close>

definition ensure_group_channel ::
  "('sc, 'ec, 'gc, 'vd, 'xf) channel_lib \<Rightarrow> pool_config \<Rightarrow> bool \<Rightarrow> new_template \<Rightarrow>
     set_new_prev_hash_tdp \<Rightarrow>
     ('sc, 'ec, 'gc, 'vd, 'xf) channel_manager_data \<times> ('sc, 'ec, 'gc) downstream_data \<Rightarrow>
     unit pool_result \<times> ('sc, 'ec, 'gc, 'vd, 'xf) channel_manager_data \<times>
       ('sc, 'ec, 'gc) downstream_data" where
  "ensure_group_channel L cfg requires_std template prev_hash s =
     (case s of (d, dd) \<Rightarrow>
      if \<not> requires_std \<and> group_channels dd = None then
        (let gid = fst (fetch_add (channel_id_factory dd));
             dd1 = dd\<lparr>channel_id_factory := snd (fetch_add (channel_id_factory dd))\<rparr> in
         case gc_new_for_pool L gid FULL_EXTRANONCE_SIZE (pool_tag_string cfg) of
           Inl e \<Rightarrow> (Err (FailedToCreateGroupChannel e), d, dd1)
         | Inr gc \<Rightarrow>
             (case gc_on_new_template L gc template [pool_coinbase_output cfg template] of
                (Inl e, gc1) \<Rightarrow> (Err (ChannelSv2 (GroupChannelServerSide e)), d, dd1)
              | (Inr _, gc1) \<Rightarrow>
                  (case gc_on_set_new_prev_hash L gc1 prev_hash of
                     (Inl e, gc2) \<Rightarrow> (Err (ChannelSv2 (GroupChannelServerSide e)), d, dd1)
                   | (Inr _, gc2) \<Rightarrow> (Ok (), d, dd1\<lparr>group_channels := Some gc2\<rparr>))))
      else (Ok (), d, dd))"

definition open_error :: "downstream_id \<Rightarrow> request_id \<Rightarrow> string \<Rightarrow> route_message_to list" where
  "open_error did rid code = [Downstream did (OpenMiningChannelError rid code)]"

text \<open>
  The second half of the closure, from the created channel on: the success message, the
  future job of the last template, the activating \<open>SetNewPrevHash\<close>, and the registration of
  the channel, of its group membership and of its vardiff state.
\<close>

definition finish_open_standard ::
  "('sc, 'ec, 'gc, 'vd, 'xf) channel_lib \<Rightarrow> pool_config \<Rightarrow> downstream_id \<Rightarrow> request_id \<Rightarrow>
     channel_id \<Rightarrow> 'sc \<Rightarrow> new_template \<Rightarrow> set_new_prev_hash_tdp \<Rightarrow>
     ('sc, 'ec, 'gc, 'vd, 'xf) channel_manager_data \<times> ('sc, 'ec, 'gc) downstream_data \<Rightarrow>
     route_message_to list pool_result \<times> ('sc, 'ec, 'gc, 'vd, 'xf) channel_manager_data \<times>
       ('sc, 'ec, 'gc) downstream_data" where
  "finish_open_standard L cfg did rid cid sc template prev_hash s =
     (case s of (d, dd) \<Rightarrow>
      let group_channel_id = (case group_channels dd of None \<Rightarrow> 0 | Some gc \<Rightarrow> gc_group_channel_id L gc) in
      case b032_try_from L (sc_extranonce_prefix L sc) of
        Inl e \<Rightarrow> (Panic ''Extranonce_prefix must be valid'', d, dd)
      | Inr pfx \<Rightarrow>
        let success = \<lparr>oss_request_id = rid, oss_channel_id = cid, oss_target = sc_target L sc,
                       oss_extranonce_prefix = pfx, oss_group_channel_id = group_channel_id\<rparr> in
        case sc_on_new_template L sc template [pool_coinbase_output cfg template] of
          (Inl e, sc1) \<Rightarrow> (Err (ChannelSv2 (StandardChannelServerSide e)), d, dd)
        | (Inr _, sc1) \<Rightarrow>
          (case sc_future_template_to_job_id L sc1 (nt_template_id template) of
             None \<Rightarrow> (Panic ''future job id must exist'', d, dd)
           | Some jid \<Rightarrow>
             (case sc_future_jobs L sc1 jid of
                None \<Rightarrow> (Panic ''future job must exist'', d, dd)
              | Some future_job \<Rightarrow>
                let activation = \<lparr>sp_channel_id = cid, sp_job_id = jid,
                      sp_prev_hash = ph_prev_hash prev_hash,
                      sp_min_ntime = ph_header_timestamp prev_hash,
                      sp_nbits = ph_n_bits prev_hash\<rparr> in
                (case sc_on_set_new_prev_hash L sc1 prev_hash of
                   (Inl e, sc2) \<Rightarrow> (Err (ChannelSv2 (StandardChannelServerSide e)), d, dd)
                 | (Inr _, sc2) \<Rightarrow>
                   let dd1 = dd\<lparr>standard_channels := hm_insert cid sc2 (standard_channels dd),
                                group_channels :=
                                  map_option (\<lambda>gc. gc_add_standard_channel_id L gc cid) (group_channels dd)\<rparr> in
                   (case vd_new L of
                      Inl e \<Rightarrow> (Err (Vardiff e), d, dd1)
                    | Inr vd \<Rightarrow>
                        (Ok [Downstream did (OpenStandardMiningChannelSuccess success),
                             Downstream did (NewMiningJob (job_msg future_job)),
                             Downstream did (SetNewPrevHash activation)],
                         d\<lparr>vardiff := hm_insert (did, cid) vd (vardiff d)\<rparr>, dd1))))))"

definition create_standard_channel ::
  "('sc, 'ec, 'gc, 'vd, 'xf) channel_lib \<Rightarrow> pool_config \<Rightarrow> downstream_id \<Rightarrow>
     open_standard_mining_channel \<Rightarrow> new_template \<Rightarrow> set_new_prev_hash_tdp \<Rightarrow>
     ('sc, 'ec, 'gc, 'vd, 'xf) channel_manager_data \<times> ('sc, 'ec, 'gc) downstream_data \<Rightarrow>
     route_message_to list pool_result \<times> ('sc, 'ec, 'gc, 'vd, 'xf) channel_manager_data \<times>
       ('sc, 'ec, 'gc) downstream_data" where
  "create_standard_channel L cfg did msg template prev_hash s =
     (case s of (d, dd) \<Rightarrow>
      case xf_next_prefix_standard L (extranonce_prefix_factory_standard d) of (r, xf) \<Rightarrow>
      let d1 = d\<lparr>extranonce_prefix_factory_standard := xf\<rparr> in
      case r of
        Inl e \<Rightarrow> (Err (ChannelSv2 (ExtranonceErr e)), d1, dd)
      | Inr pfx \<Rightarrow>
        let cid = fst (fetch_add (channel_id_factory dd));
            dd1 = dd\<lparr>channel_id_factory := snd (fetch_add (channel_id_factory dd))\<rparr> in
        (case sc_new_for_pool L cid (as_utf8_or_hex L (os_user_identity msg)) pfx
                (os_max_target msg) (os_nominal_hash_rate msg) (share_batch_size cfg)
                (shares_per_minute cfg) (pool_tag_string cfg) of
           Inl SC_InvalidNominalHashrate \<Rightarrow>
             (Ok (open_error did (os_request_id msg) ''invalid-nominal-hashrate''), d1, dd1)
         | Inl SC_RequestedMaxTargetOutOfRange \<Rightarrow>
             (Ok (open_error did (os_request_id msg) ''max-target-out-of-range''), d1, dd1)
         | Inl (SC_Other n) \<Rightarrow> (Err ChannelErrorSender, d1, dd1)
         | Inr sc \<Rightarrow>
             finish_open_standard L cfg did (os_request_id msg) cid sc template prev_hash (d1, dd1)))"

definition open_standard_locked ::
  "('sc, 'ec, 'gc, 'vd, 'xf) channel_lib \<Rightarrow> pool_config \<Rightarrow> downstream_id \<Rightarrow>
     open_standard_mining_channel \<Rightarrow> ('sc, 'ec, 'gc, 'vd, 'xf) channel_manager_data \<Rightarrow>
     route_message_to list pool_result \<times> ('sc, 'ec, 'gc, 'vd, 'xf) channel_manager_data" where
  "open_standard_locked L cfg did msg d =
     (case hm_get (cm_downstream d) did of
        None \<Rightarrow> (Err DownstreamIdNotFound, d)
      | Some ds \<Rightarrow>
        if requires_custom_work ds then
          (Ok (open_error did (os_request_id msg) ''standard-channels-not-supported-for-custom-work''), d)
        else
          (case last_future_template d of
             None \<Rightarrow> (Err FutureTemplateNotPresent, d)
           | Some template \<Rightarrow>
             (case last_new_prev_hash d of
                None \<Rightarrow> (Err LastNewPrevhashNotFound, d)
              | Some prev_hash \<Rightarrow>
                  lock_downstream did ds
                    (\<lambda>s. and_then
                       (ensure_group_channel L cfg (requires_standard_jobs ds) template prev_hash s)
                       (\<lambda>_. create_standard_channel L cfg did msg template prev_hash)) d)))"

definition handle_open_standard_mining_channel ::
  "('sc, 'ec, 'gc, 'vd, 'xf) channel_lib \<Rightarrow> pool_config \<Rightarrow> downstream_id \<Rightarrow>
     open_standard_mining_channel \<Rightarrow> ('sc, 'ec, 'gc, 'vd, 'xf) channel_manager \<Rightarrow>
     unit pool_result \<times> ('sc, 'ec, 'gc, 'vd, 'xf) channel_manager" where
  "handle_open_standard_mining_channel L cfg did msg cm =
     (case open_standard_locked L cfg did msg (channel_manager_data cm) of
        (r, d) \<Rightarrow> forward_all r (cm\<lparr>channel_manager_data := d\<rparr>))"

section \<open>Opening an extended channel\<close>

text \<open>
  What follows the successful creation: the success message is built first, then the last
  prev-hash and template are required. A connection that works on custom jobs only gets the
  prev-hash applied; any other gets the future job and its activation.
\<close>

definition register_extended ::
  "('sc, 'ec, 'gc, 'vd, 'xf) channel_lib \<Rightarrow> downstream_id \<Rightarrow> channel_id \<Rightarrow> 'ec \<Rightarrow>
     route_message_to list \<Rightarrow>
     ('sc, 'ec, 'gc, 'vd, 'xf) channel_manager_data \<times> ('sc, 'ec, 'gc) downstream_data \<Rightarrow>
     route_message_to list pool_result \<times> ('sc, 'ec, 'gc, 'vd, 'xf) channel_manager_data \<times>
       ('sc, 'ec, 'gc) downstream_data" where
  "register_extended L did cid ec messages s =
     (case s of (d, dd) \<Rightarrow>
      let dd1 = dd\<lparr>extended_channels := hm_insert cid ec (extended_channels dd)\<rparr> in
      case vd_new L of
        Inl e \<Rightarrow> (Err (Vardiff e), d, dd1)
      | Inr vd \<Rightarrow> (Ok messages, d\<lparr>vardiff := hm_insert (did, cid) vd (vardiff d)\<rparr>, dd1))"

definition finish_open_extended ::
  "('sc, 'ec, 'gc, 'vd, 'xf) channel_lib \<Rightarrow> pool_config \<Rightarrow> downstream_id \<Rightarrow> bool \<Rightarrow> request_id \<Rightarrow>
     channel_id \<Rightarrow> 'ec \<Rightarrow>
     ('sc, 'ec, 'gc, 'vd, 'xf) channel_manager_data \<times> ('sc, 'ec, 'gc) downstream_data \<Rightarrow>
     route_message_to list pool_result \<times> ('sc, 'ec, 'gc, 'vd, 'xf) channel_manager_data \<times>
       ('sc, 'ec, 'gc) downstream_data" where
  "finish_open_extended L cfg did custom_work rid cid ec s =
     (case s of (d, dd) \<Rightarrow>
      case b032_try_from L (ec_extranonce_prefix L ec) of
        Inl e \<Rightarrow> (Err (BinarySv2 e), d, dd)
      | Inr pfx \<Rightarrow>
        let success = Downstream did (OpenExtendedMiningChannelSuccess
              \<lparr>oes_request_id = rid, oes_channel_id = cid, oes_target = ec_target L ec,
               oes_extranonce_prefix = pfx, oes_extranonce_size = ec_rollable_extranonce_size L ec\<rparr>) in
        case last_new_prev_hash d of
          None \<Rightarrow> (Err LastNewPrevhashNotFound, d, dd)
        | Some prev_hash \<Rightarrow>
          (case last_future_template d of
             None \<Rightarrow> (Err FutureTemplateNotPresent, d, dd)
           | Some template \<Rightarrow>
             if custom_work then
               (case ec_on_set_new_prev_hash L ec prev_hash of
                  (Inl e, ec1) \<Rightarrow> (Err (ChannelSv2 (ExtendedChannelServerSide e)), d, dd)
                | (Inr _, ec1) \<Rightarrow> register_extended L did cid ec1 [success] (d, dd))
             else
               (case ec_on_new_template L ec template [pool_coinbase_output cfg template] of
                  (Inl e, ec1) \<Rightarrow> (Err (ChannelSv2 (ExtendedChannelServerSide e)), d, dd)
                | (Inr _, ec1) \<Rightarrow>
                  (case ec_future_template_to_job_id L ec1 (nt_template_id template) of
                     None \<Rightarrow> (Panic ''future job id must exist'', d, dd)
                   | Some jid \<Rightarrow>
                     (case ec_future_jobs L ec1 jid of
                        None \<Rightarrow> (Panic ''future job must exist'', d, dd)
                      | Some future_job \<Rightarrow>
                        let activation = \<lparr>sp_channel_id = cid, sp_job_id = jid,
                              sp_prev_hash = ph_prev_hash prev_hash,
                              sp_min_ntime = ph_header_timestamp prev_hash,
                              sp_nbits = ph_n_bits prev_hash\<rparr> in
                        (case ec_on_set_new_prev_hash L ec1 prev_hash of
                           (Inl e, ec2) \<Rightarrow> (Err (ChannelSv2 (ExtendedChannelServerSide e)), d, dd)
                         | (Inr _, ec2) \<Rightarrow>
                             register_extended L did cid ec2
                               [success,
                                Downstream did (NewExtendedMiningJob (job_msg future_job)),
                                Downstream did (SetNewPrevHash activation)] (d, dd)))))))"

definition create_extended_channel ::
  "('sc, 'ec, 'gc, 'vd, 'xf) channel_lib \<Rightarrow> pool_config \<Rightarrow> downstream_id \<Rightarrow> bool \<Rightarrow>
     open_extended_mining_channel \<Rightarrow>
     ('sc, 'ec, 'gc, 'vd, 'xf) channel_manager_data \<times> ('sc, 'ec, 'gc) downstream_data \<Rightarrow>
     route_message_to list pool_result \<times> ('sc, 'ec, 'gc, 'vd, 'xf) channel_manager_data \<times>
       ('sc, 'ec, 'gc) downstream_data" where
  "create_extended_channel L cfg did custom_work msg s =
     (case s of (d, dd) \<Rightarrow>
      case xf_next_prefix_extended L (extranonce_prefix_factory_extended d)
             (ucast (oe_min_extranonce_size msg)) of (r, xf) \<Rightarrow>
      let d1 = d\<lparr>extranonce_prefix_factory_extended := xf\<rparr> in
      case r of
        Inl e \<Rightarrow> (Ok (open_error did (oe_request_id msg) ''min-extranonce-size-too-large''), d1, dd)
      | Inr pfx \<Rightarrow>
        let cid = fst (fetch_add (channel_id_factory dd));
            dd1 = dd\<lparr>channel_id_factory := snd (fetch_add (channel_id_factory dd))\<rparr> in
        (case ec_new_for_pool L cid (as_utf8_or_hex L (oe_user_identity msg)) pfx
                (oe_max_target msg) (oe_nominal_hash_rate msg) True (oe_min_extranonce_size msg)
                (share_batch_size cfg) (shares_per_minute cfg) (pool_tag_string cfg) of
           Inl EC_InvalidNominalHashrate \<Rightarrow>
             (Ok (open_error did (oe_request_id msg) ''invalid-nominal-hashrate''), d1, dd1)
         | Inl EC_RequestedMaxTargetOutOfRange \<Rightarrow>
             (Ok (open_error did (oe_request_id msg) ''max-target-out-of-range''), d1, dd1)
         | Inl EC_RequestedMinExtranonceSizeTooLarge \<Rightarrow>
             (Ok (open_error did (oe_request_id msg) ''min-extranonce-size-too-large''), d1, dd1)
         | Inl (EC_Other n) \<Rightarrow>
             (Err (ChannelSv2 (ExtendedChannelServerSide (EC_Other n))), d1, dd1)
         | Inr ec \<Rightarrow>
             finish_open_extended L cfg did custom_work (oe_request_id msg) cid ec (d1, dd1)))"

definition open_extended_locked ::
  "('sc, 'ec, 'gc, 'vd, 'xf) channel_lib \<Rightarrow> pool_config \<Rightarrow> downstream_id \<Rightarrow>
     open_extended_mining_channel \<Rightarrow> ('sc, 'ec, 'gc, 'vd, 'xf) channel_manager_data \<Rightarrow>
     route_message_to list pool_result \<times> ('sc, 'ec, 'gc, 'vd, 'xf) channel_manager_data" where
  "open_extended_locked L cfg did msg d =
     (case hm_get (cm_downstream d) did of
        None \<Rightarrow> (Err DownstreamIdNotFound, d)
      | Some ds \<Rightarrow>
          lock_downstream did ds
            (create_extended_channel L cfg did (requires_custom_work ds) msg) d)"

definition handle_open_extended_mining_channel ::
  "('sc, 'ec, 'gc, 'vd, 'xf) channel_lib \<Rightarrow> pool_config \<Rightarrow> downstream_id \<Rightarrow>
     open_extended_mining_channel \<Rightarrow> ('sc, 'ec, 'gc, 'vd, 'xf) channel_manager \<Rightarrow>
     unit pool_result \<times> ('sc, 'ec, 'gc, 'vd, 'xf) channel_manager" where
  "handle_open_extended_mining_channel L cfg did msg cm =
     (case open_extended_locked L cfg did msg (channel_manager_data cm) of
        (r, d) \<Rightarrow> forward_all r (cm\<lparr>channel_manager_data := d\<rparr>))"

section \<open>Share submission\<close>

definition share_success ::
  "channel_id \<Rightarrow> share_accounting \<Rightarrow> submit_shares_success" where
  "share_success cid acc =
     \<lparr>sss_channel_id = cid, sss_last_sequence_number = last_share_sequence_number acc,
      sss_new_submits_accepted_count = last_batch_accepted acc,
      sss_new_shares_sum = f64_as_u64 (last_batch_work_sum acc)\<rparr>"

definition solution :: "u64 \<Rightarrow> 'a submit_shares_standard_scheme \<Rightarrow> bytes \<Rightarrow> submit_solution" where
  "solution tid msg coinbase =
     \<lparr>ss_template_id = tid, ss_version = sh_version msg, ss_header_timestamp = sh_ntime msg,
      ss_header_nonce = sh_nonce msg, ss_coinbase_tx = coinbase\<rparr>"

text \<open>
  The event persisted for a share on a standard channel; the caller gives the error code,
  the flags, the hash and the template. The channel is the one after validation.
\<close>

definition standard_share_event ::
  "('sc, 'ec, 'gc, 'vd, 'xf) channel_lib \<Rightarrow> 'sc \<Rightarrow> submit_shares_standard \<Rightarrow> u64 \<Rightarrow>
     string option \<Rightarrow> bool \<Rightarrow> bool \<Rightarrow> u256 option \<Rightarrow> u64 option \<Rightarrow> persistence_event" where
  "standard_share_event L sc msg now code block valid hash tid =
     Share \<lparr>se_error_code = code, se_extranonce_prefix = sc_extranonce_prefix L sc,
       se_is_block_found = block, se_is_valid = valid,
       se_nominal_hash_rate = sc_nominal_hashrate L sc, se_nonce = sh_nonce msg,
       se_ntime = sh_ntime msg, se_rollable_extranonce_size = None, se_share_hash = hash,
       se_share_work = difficulty_float L (sc_target L sc), se_target = sc_target L sc,
       se_template_id = tid, se_timestamp = now, se_user_identity = sc_user_identity L sc,
       se_version = sh_version msg\<rparr>"

definition share_error ::
  "downstream_id \<Rightarrow> channel_id \<Rightarrow> u32 \<Rightarrow> string \<Rightarrow> route_message_to list" where
  "share_error did cid seqno code = [Downstream did (SubmitSharesError cid seqno code)]"

text \<open>
  The match on the validation result: what is answered and what is persisted. A duplicate
  share is answered and not persisted; \<open>BadExtranonceSize\<close> and any other error leave
  through \<open>Err(e)?\<close>.
\<close>

definition answer_standard ::
  "('sc, 'ec, 'gc, 'vd, 'xf) channel_lib \<Rightarrow> downstream_id \<Rightarrow> channel_id \<Rightarrow> 'sc \<Rightarrow>
     submit_shares_standard \<Rightarrow> u64 \<Rightarrow> share_validation_error + share_validation_result \<Rightarrow>
     route_message_to list pool_result \<times> persistence_event list" where
  "answer_standard L did cid sc msg now res =
     (case res of
        Inr (Valid hash) \<Rightarrow>
          (Ok (if should_acknowledge (sc_share_accounting L sc)
               then [Downstream did (SubmitSharesSuccess (share_success cid (sc_share_accounting L sc)))]
               else []),
           [standard_share_event L sc msg now None False True (Some hash) None])
      | Inr (BlockFound hash tid coinbase) \<Rightarrow>
          (let success = Downstream did (SubmitSharesSuccess (share_success cid (sc_share_accounting L sc))) in
           (case tid of
              None \<Rightarrow> Ok [success]
            | Some t \<Rightarrow>
                (case b064k_try_from L coinbase of
                   Inl e \<Rightarrow> Err (BinarySv2 e)
                 | Inr cb \<Rightarrow> Ok [TemplateProvider (SubmitSolution (solution t msg cb)), success])),
           [standard_share_event L sc msg now None True True (Some hash) tid])
      | Inl SV_Invalid \<Rightarrow>
          (Ok (share_error did (sh_channel_id msg) (sh_sequence_number msg) ''invalid-share''),
           [standard_share_event L sc msg now (Some ''invalid-share'') False False None None])
      | Inl SV_Stale \<Rightarrow>
          (Ok (share_error did (sh_channel_id msg) (sh_sequence_number msg) ''stale-share''),
           [standard_share_event L sc msg now (Some ''stale-share'') False False None None])
      | Inl SV_InvalidJobId \<Rightarrow>
          (Ok (share_error did (sh_channel_id msg) (sh_sequence_number msg) ''invalid-job-id''),
           [standard_share_event L sc msg now (Some ''invalid-job-id'') False False None None])
      | Inl SV_DoesNotMeetTarget \<Rightarrow>
          (Ok (share_error did (sh_channel_id msg) (sh_sequence_number msg) ''difficulty-too-low''),
           [standard_share_event L sc msg now (Some ''difficulty-too-low'') False False None None])
      | Inl SV_DuplicateShare \<Rightarrow>
          (Ok (share_error did (sh_channel_id msg) (sh_sequence_number msg) ''duplicate-share''), [])
      | Inl SV_BadExtranonceSize \<Rightarrow> (Err (ChannelSv2 (ShareValidationErr SV_BadExtranonceSize)), [])
      | Inl (SV_Other n) \<Rightarrow> (Err (ChannelSv2 (ShareValidationErr (SV_Other n))), []))"

definition handle_submit_shares_standard ::
  "('sc, 'ec, 'gc, 'vd, 'xf) channel_lib \<Rightarrow> u64 \<Rightarrow> downstream_id \<Rightarrow> submit_shares_standard \<Rightarrow>
     ('sc, 'ec, 'gc, 'vd, 'xf) channel_manager \<Rightarrow>
     unit pool_result \<times> ('sc, 'ec, 'gc, 'vd, 'xf) channel_manager" where
  "handle_submit_shares_standard L now did msg cm =
     (let d = channel_manager_data cm; cid = sh_channel_id msg in
      case hm_get (cm_downstream d) did of
        None \<Rightarrow> (Err (DownstreamNotFound did), cm)
      | Some ds \<Rightarrow>
        let dd = downstream_data ds in
        (case hm_get (standard_channels dd) cid of
           None \<Rightarrow> forward_all (Ok (share_error did cid (sh_sequence_number msg) ''invalid-channel-id'')) cm
         | Some sc \<Rightarrow>
           (case hm_get (vardiff d) (did, cid) of
              None \<Rightarrow> (Err (VardiffNotFound cid), cm)
            | Some vd \<Rightarrow>
              (case sc_validate_share L sc msg of (res, sc') \<Rightarrow>
               let dd' = dd\<lparr>standard_channels := hm_insert cid sc' (standard_channels dd)\<rparr>;
                   d' = d\<lparr>cm_downstream := hm_insert did (ds\<lparr>downstream_data := dd'\<rparr>) (cm_downstream d),
                          vardiff := hm_insert (did, cid) (vd_increment_shares_since_last_update L vd) (vardiff d)\<rparr>
               in (case answer_standard L did cid sc' msg now res of (r, evs) \<Rightarrow>
                   forward_all r (cm\<lparr>channel_manager_data := d', persisted := persisted cm @ evs\<rparr>))))))"

definition extended_share_event ::
  "('sc, 'ec, 'gc, 'vd, 'xf) channel_lib \<Rightarrow> 'ec \<Rightarrow> submit_shares_extended \<Rightarrow> u64 \<Rightarrow>
     string option \<Rightarrow> bool \<Rightarrow> bool \<Rightarrow> u256 option \<Rightarrow> u64 option \<Rightarrow> persistence_event" where
  "extended_share_event L ec msg now code block valid hash tid =
     Share \<lparr>se_error_code = code, se_extranonce_prefix = ec_extranonce_prefix L ec,
       se_is_block_found = block, se_is_valid = valid,
       se_nominal_hash_rate = ec_nominal_hashrate L ec, se_nonce = sh_nonce msg,
       se_ntime = sh_ntime msg,
       se_rollable_extranonce_size = Some (of_nat (length (sh_extranonce msg))),
       se_share_hash = hash, se_share_work = difficulty_float L (ec_target L ec),
       se_target = ec_target L ec, se_template_id = tid, se_timestamp = now,
       se_user_identity = ec_user_identity L ec, se_version = sh_version msg\<rparr>"

text \<open>On an extended channel a bad extranonce size is answered and persisted as well.\<close>

definition answer_extended ::
  "('sc, 'ec, 'gc, 'vd, 'xf) channel_lib \<Rightarrow> downstream_id \<Rightarrow> channel_id \<Rightarrow> 'ec \<Rightarrow>
     submit_shares_extended \<Rightarrow> u64 \<Rightarrow> share_validation_error + share_validation_result \<Rightarrow>
     route_message_to list pool_result \<times> persistence_event list" where
  "answer_extended L did cid ec msg now res =
     (case res of
        Inr (Valid hash) \<Rightarrow>
          (Ok (if should_acknowledge (ec_share_accounting L ec)
               then [Downstream did (SubmitSharesSuccess (share_success cid (ec_share_accounting L ec)))]
               else []),
           [extended_share_event L ec msg now None False True (Some hash) None])
      | Inr (BlockFound hash tid coinbase) \<Rightarrow>
          (let success = Downstream did (SubmitSharesSuccess (share_success cid (ec_share_accounting L ec))) in
           (case tid of
              None \<Rightarrow> Ok [success]
            | Some t \<Rightarrow>
                (case b064k_try_from L coinbase of
                   Inl e \<Rightarrow> Err (BinarySv2 e)
                 | Inr cb \<Rightarrow> Ok [TemplateProvider (SubmitSolution (solution t msg cb)), success])),
           [extended_share_event L ec msg now None True True (Some hash) tid])
      | Inl SV_Invalid \<Rightarrow>
          (Ok (share_error did (sh_channel_id msg) (sh_sequence_number msg) ''invalid-share''),
           [extended_share_event L ec msg now (Some ''invalid-share'') False False None None])
      | Inl SV_Stale \<Rightarrow>
          (Ok (share_error did (sh_channel_id msg) (sh_sequence_number msg) ''stale-share''),
           [extended_share_event L ec msg now (Some ''stale-share'') False False None None])
      | Inl SV_InvalidJobId \<Rightarrow>
          (Ok (share_error did (sh_channel_id msg) (sh_sequence_number msg) ''invalid-job-id''),
           [extended_share_event L ec msg now (Some ''invalid-job-id'') False False None None])
      | Inl SV_DoesNotMeetTarget \<Rightarrow>
          (Ok (share_error did (sh_channel_id msg) (sh_sequence_number msg) ''difficulty-too-low''),
           [extended_share_event L ec msg now (Some ''difficulty-too-low'') False False None None])
      | Inl SV_DuplicateShare \<Rightarrow>
          (Ok (share_error did (sh_channel_id msg) (sh_sequence_number msg) ''duplicate-share''), [])
      | Inl SV_BadExtranonceSize \<Rightarrow>
          (Ok (share_error did (sh_channel_id msg) (sh_sequence_number msg) ''bad-extranonce-size''),
           [extended_share_event L ec msg now (Some ''bad-extranonce-size'') False False None None])
      | Inl (SV_Other n) \<Rightarrow> (Err (ChannelSv2 (ShareValidationErr (SV_Other n))), []))"

text \<open>
  \<open>get_negotiated_extensions_with_client\<close> panics when the downstream is gone. The extended
  handler calls it first, to look for a user identity among the TLV fields; the identity it
  finds is not used further.
\<close>

definition get_negotiated_extensions_with_client ::
  "downstream_id \<Rightarrow> ('sc, 'ec, 'gc, 'vd, 'xf) channel_manager \<Rightarrow> u16 list pool_result" where
  "get_negotiated_extensions_with_client did cm =
     expect ''negotiated_extensions must be present''
       (map_option (\<lambda>ds. negotiated_extensions (downstream_data ds))
         (hm_get (cm_downstream (channel_manager_data cm)) did))"

definition handle_submit_shares_extended ::
  "('sc, 'ec, 'gc, 'vd, 'xf) channel_lib \<Rightarrow> u64 \<Rightarrow> downstream_id \<Rightarrow> submit_shares_extended \<Rightarrow>
     ('sc, 'ec, 'gc, 'vd, 'xf) channel_manager \<Rightarrow>
     unit pool_result \<times> ('sc, 'ec, 'gc, 'vd, 'xf) channel_manager" where
  "handle_submit_shares_extended L now did msg cm =
     and_then (get_negotiated_extensions_with_client did cm, cm) (\<lambda>exts cm.
      let d = channel_manager_data cm; cid = sh_channel_id msg in
      case hm_get (cm_downstream d) did of
        None \<Rightarrow> (Err (DownstreamNotFound did), cm)
      | Some ds \<Rightarrow>
        let dd = downstream_data ds in
        (case hm_get (extended_channels dd) cid of
           None \<Rightarrow> forward_all (Ok (share_error did cid (sh_sequence_number msg) ''invalid-channel-id'')) cm
         | Some ec \<Rightarrow>
           (case hm_get (vardiff d) (did, cid) of
              None \<Rightarrow> (Err (VardiffNotFound cid), cm)
            | Some vd \<Rightarrow>
              (case ec_validate_share L ec msg of (res, ec') \<Rightarrow>
               let dd' = dd\<lparr>extended_channels := hm_insert cid ec' (extended_channels dd)\<rparr>;
                   d' = d\<lparr>cm_downstream := hm_insert did (ds\<lparr>downstream_data := dd'\<rparr>) (cm_downstream d),
                          vardiff := hm_insert (did, cid) (vd_increment_shares_since_last_update L vd) (vardiff d)\<rparr>
               in (case answer_extended L did cid ec' msg now res of (r, evs) \<Rightarrow>
                   forward_all r (cm\<lparr>channel_manager_data := d', persisted := persisted cm @ evs\<rparr>))))))"

section \<open>Updating a channel\<close>

text \<open>
  A rejected update is answered with an error and, as an accepted one, with the channel's
  current target. An error other than the two named ones leaves the closure.
\<close>

definition update_standard ::
  "('sc, 'ec, 'gc, 'vd, 'xf) channel_lib \<Rightarrow> downstream_id \<Rightarrow> update_channel \<Rightarrow> 'sc \<Rightarrow>
     route_message_to list pool_result \<times> 'sc" where
  "update_standard L did msg sc =
     (let cid = uc_channel_id msg in
      case sc_update_channel L sc (uc_nominal_hash_rate msg) (Some (uc_maximum_target msg)) of
        (res, sc') \<Rightarrow>
          let set_target = Downstream did (SetTarget cid (sc_target L sc')) in
          (case res of
             Inr _ \<Rightarrow> (Ok [set_target], sc')
           | Inl SC_InvalidNominalHashrate \<Rightarrow>
               (Ok [Downstream did (UpdateChannelError cid ''invalid-nominal-hashrate''), set_target], sc')
           | Inl SC_RequestedMaxTargetOutOfRange \<Rightarrow>
               (Ok [Downstream did (UpdateChannelError cid ''requested-max-target-out-of-range''),
                    set_target], sc')
           | Inl (SC_Other n) \<Rightarrow> (Err (ChannelSv2 (StandardChannelServerSide (SC_Other n))), sc')))"

definition update_extended ::
  "('sc, 'ec, 'gc, 'vd, 'xf) channel_lib \<Rightarrow> downstream_id \<Rightarrow> update_channel \<Rightarrow> 'ec \<Rightarrow>
     route_message_to list pool_result \<times> 'ec" where
  "update_extended L did msg ec =
     (let cid = uc_channel_id msg in
      case ec_update_channel L ec (uc_nominal_hash_rate msg) (Some (uc_maximum_target msg)) of
        (res, ec') \<Rightarrow>
          let set_target = Downstream did (SetTarget cid (ec_target L ec')) in
          (case res of
             Inr _ \<Rightarrow> (Ok [set_target], ec')
           | Inl EC_InvalidNominalHashrate \<Rightarrow>
               (Ok [Downstream did (UpdateChannelError cid ''invalid-nominal-hashrate''), set_target], ec')
           | Inl EC_RequestedMaxTargetOutOfRange \<Rightarrow>
               (Ok [Downstream did (UpdateChannelError cid ''max-target-out-of-range''), set_target], ec')
           | Inl EC_RequestedMinExtranonceSizeTooLarge \<Rightarrow>
               (Err (ChannelSv2 (ExtendedChannelServerSide EC_RequestedMinExtranonceSizeTooLarge)), ec')
           | Inl (EC_Other n) \<Rightarrow> (Err (ChannelSv2 (ExtendedChannelServerSide (EC_Other n))), ec')))"

definition update_channel_locked ::
  "('sc, 'ec, 'gc, 'vd, 'xf) channel_lib \<Rightarrow> downstream_id \<Rightarrow> update_channel \<Rightarrow>
     ('sc, 'ec, 'gc, 'vd, 'xf) channel_manager_data \<times> ('sc, 'ec, 'gc) downstream_data \<Rightarrow>
     route_message_to list pool_result \<times> ('sc, 'ec, 'gc, 'vd, 'xf) channel_manager_data \<times>
       ('sc, 'ec, 'gc) downstream_data" where
  "update_channel_locked L did msg s =
     (case s of (d, dd) \<Rightarrow>
      let cid = uc_channel_id msg in
      case hm_get (standard_channels dd) cid of
        Some sc \<Rightarrow>
          (case update_standard L did msg sc of (r, sc') \<Rightarrow>
             (r, d, dd\<lparr>standard_channels := hm_insert cid sc' (standard_channels dd)\<rparr>))
      | None \<Rightarrow>
          (case hm_get (extended_channels dd) cid of
             Some ec \<Rightarrow>
               (case update_extended L did msg ec of (r, ec') \<Rightarrow>
                  (r, d, dd\<lparr>extended_channels := hm_insert cid ec' (extended_channels dd)\<rparr>))
           | None \<Rightarrow> (Ok [Downstream did (UpdateChannelError cid ''invalid-channel-id'')], d, dd)))"

definition handle_update_channel ::
  "('sc, 'ec, 'gc, 'vd, 'xf) channel_lib \<Rightarrow> downstream_id \<Rightarrow> update_channel \<Rightarrow>
     ('sc, 'ec, 'gc, 'vd, 'xf) channel_manager \<Rightarrow>
     unit pool_result \<times> ('sc, 'ec, 'gc, 'vd, 'xf) channel_manager" where
  "handle_update_channel L did msg cm =
     (let d = channel_manager_data cm in
      case hm_get (cm_downstream d) did of
        None \<Rightarrow> (Err (DownstreamNotFound did), cm)
      | Some ds \<Rightarrow>
          (case lock_downstream did ds (update_channel_locked L did msg) d of
             (r, d') \<Rightarrow> forward_all r (cm\<lparr>channel_manager_data := d'\<rparr>)))"

section \<open>Custom jobs\<close>

definition custom_job_locked ::
  "('sc, 'ec, 'gc, 'vd, 'xf) channel_lib \<Rightarrow> downstream_id \<Rightarrow> set_custom_mining_job \<Rightarrow>
     ('sc, 'ec, 'gc, 'vd, 'xf) channel_manager_data \<times> ('sc, 'ec, 'gc) downstream_data \<Rightarrow>
     route_message_to list pool_result \<times> ('sc, 'ec, 'gc, 'vd, 'xf) channel_manager_data \<times>
       ('sc, 'ec, 'gc) downstream_data" where
  "custom_job_locked L did msg s =
     (case s of (d, dd) \<Rightarrow>
      let cid = cj_channel_id msg in
      case hm_get (extended_channels dd) cid of
        None \<Rightarrow>
          (Ok [Downstream did (SetCustomMiningJobError (cj_request_id msg) cid ''invalid-channel-id'')], d, dd)
      | Some ec \<Rightarrow>
          (case ec_on_set_custom_mining_job L ec msg of (res, ec') \<Rightarrow>
             (let dd' = dd\<lparr>extended_channels := hm_insert cid ec' (extended_channels dd)\<rparr> in
              case res of
                Inl e \<Rightarrow> (Err (ChannelSv2 (ExtendedChannelServerSide e)), d, dd')
              | Inr jid \<Rightarrow>
                  (Ok [Downstream did (SetCustomMiningJobSuccess cid (cj_request_id msg) jid)], d, dd'))))"

definition handle_set_custom_mining_job ::
  "('sc, 'ec, 'gc, 'vd, 'xf) channel_lib \<Rightarrow> pool_config \<Rightarrow> downstream_id \<Rightarrow> set_custom_mining_job \<Rightarrow>
     ('sc, 'ec, 'gc, 'vd, 'xf) channel_manager \<Rightarrow>
     unit pool_result \<times> ('sc, 'ec, 'gc, 'vd, 'xf) channel_manager" where
  "handle_set_custom_mining_job L cfg did msg cm =
     (case consensus_decode_outputs L (cj_coinbase_tx_outputs msg) of
        Inl e \<Rightarrow> (Err (BitcoinEncodeError e), cm)
      | Inr outputs \<Rightarrow>
        let d = channel_manager_data cm in
        if \<not> list_ex (\<lambda>out. tx_script_pubkey out = coinbase_reward_script_pubkey cfg) outputs then
          forward_all
            (Ok [Downstream did (SetCustomMiningJobError (cj_request_id msg) (cj_channel_id msg)
                   ''pool-payout-script-missing'')]) cm
        else
          (case hm_get (cm_downstream d) did of
             None \<Rightarrow> (Err (DownstreamNotFound did), cm)
           | Some ds \<Rightarrow>
               (case lock_downstream did ds (custom_job_locked L did msg) d of
                  (r, d') \<Rightarrow> forward_all r (cm\<lparr>channel_manager_data := d'\<rparr>))))"

section \<open>The calls a client can cause\<close>

text \<open>
  One constructor per handler: the call that the protocol's dispatcher makes for a mining
  message of a downstream, with the time at which a share arrives.
\<close>

datatype client_call =
    CloseChannel channel_id
  | OpenStandardMiningChannel open_standard_mining_channel
  | OpenExtendedMiningChannel open_extended_mining_channel
  | SubmitSharesStandard u64 submit_shares_standard
  | SubmitSharesExtended u64 submit_shares_extended
  | UpdateChannel update_channel
  | SetCustomMiningJob set_custom_mining_job

fun handle_client_call ::
  "('sc, 'ec, 'gc, 'vd, 'xf) channel_lib \<Rightarrow> pool_config \<Rightarrow> downstream_id \<Rightarrow> client_call \<Rightarrow>
     ('sc, 'ec, 'gc, 'vd, 'xf) channel_manager \<Rightarrow>
     unit pool_result \<times> ('sc, 'ec, 'gc, 'vd, 'xf) channel_manager" where
  "handle_client_call L cfg did (CloseChannel cid) cm = handle_close_channel did cid cm"
| "handle_client_call L cfg did (OpenStandardMiningChannel m) cm =
     handle_open_standard_mining_channel L cfg did m cm"
| "handle_client_call L cfg did (OpenExtendedMiningChannel m) cm =
     handle_open_extended_mining_channel L cfg did m cm"
| "handle_client_call L cfg did (SubmitSharesStandard now m) cm =
     handle_submit_shares_standard L now did m cm"
| "handle_client_call L cfg did (SubmitSharesExtended now m) cm =
     handle_submit_shares_extended L now did m cm"
| "handle_client_call L cfg did (UpdateChannel m) cm = handle_update_channel L did m cm"
| "handle_client_call L cfg did (SetCustomMiningJob m) cm = handle_set_custom_mining_job L cfg did m cm"

end
