(* ===== verification/Pool_Isolation.thy ===== *)
theory Pool_Isolation
  imports Pool_Mining
begin

text \<open>
  Isolation between the pool's clients: a handler run for one downstream answers that
  downstream (or the template provider) only, and leaves the channels, the vardiff states
  and the connection data of every other downstream as they were. The contract is stated
  once as a locale, its consequences for sequences of calls are proved there, and the
  dispatcher of the mining handlers interprets it.
\<close>

section \<open>The contract\<close>

definition routed_to :: "downstream_id \<Rightarrow> route_message_to list \<Rightarrow> bool" where
  "routed_to did msgs \<longleftrightarrow>
     list_all (\<lambda>m. case m of Downstream d _ \<Rightarrow> d = did | TemplateProvider _ \<Rightarrow> True) msgs"

lemma routed_to_simps [simp]:
  "routed_to did []"
  "routed_to did (Downstream d m # msgs) \<longleftrightarrow> d = did \<and> routed_to did msgs"
  "routed_to did (TemplateProvider t # msgs) \<longleftrightarrow> routed_to did msgs"
  "routed_to did (xs @ ys) \<longleftrightarrow> routed_to did xs \<and> routed_to did ys"
  by (simp_all add: routed_to_def)

lemma routed_to_share_error [simp]: "routed_to did (share_error did cid n code)"
  by (simp add: share_error_def)

lemma routed_to_open_error [simp]: "routed_to did (open_error did rid code)"
  by (simp add: open_error_def)

text \<open>The part of the channel manager's data a handler of \<open>did\<close> must not change.\<close>

definition same_globals ::
  "('sc, 'ec, 'gc, 'vd, 'xf) channel_manager_data \<Rightarrow>
     ('sc, 'ec, 'gc, 'vd, 'xf) channel_manager_data \<Rightarrow> bool" where
  "same_globals d d' \<longleftrightarrow>
     downstream_id_factory d' = downstream_id_factory d \<and>
     coinbase_outputs d' = coinbase_outputs d \<and>
     last_new_prev_hash d' = last_new_prev_hash d \<and>
     last_future_template d' = last_future_template d"

definition same_vardiff_elsewhere ::
  "downstream_id \<Rightarrow> ('sc, 'ec, 'gc, 'vd, 'xf) channel_manager_data \<Rightarrow>
     ('sc, 'ec, 'gc, 'vd, 'xf) channel_manager_data \<Rightarrow> bool" where
  "same_vardiff_elsewhere did d d' \<longleftrightarrow>
     (\<forall>did' c. did' \<noteq> did \<longrightarrow> hm_get (vardiff d') (did', c) = hm_get (vardiff d) (did', c))"

definition isolates ::
  "downstream_id \<Rightarrow> ('sc, 'ec, 'gc, 'vd, 'xf) channel_manager_data \<Rightarrow>
     ('sc, 'ec, 'gc, 'vd, 'xf) channel_manager_data \<Rightarrow> bool" where
  "isolates did d d' \<longleftrightarrow>
     same_globals d d' \<and> same_vardiff_elsewhere did d d' \<and>
     hm_keys (cm_downstream d') = hm_keys (cm_downstream d) \<and>
     (\<forall>did'. did' \<noteq> did \<longrightarrow>
        hm_get (cm_downstream d') did' = hm_get (cm_downstream d) did')"

lemma isolates_refl [simp]: "isolates did d d"
  by (simp add: isolates_def same_globals_def same_vardiff_elsewhere_def)

text \<open>A sequence of calls, each with its sender; the results are not looked at.\<close>

fun run_calls ::
  "(downstream_id \<Rightarrow> 'm \<Rightarrow> 's \<Rightarrow> unit pool_result \<times> 's) \<Rightarrow> (downstream_id \<times> 'm) list \<Rightarrow> 's \<Rightarrow> 's" where
  "run_calls handle [] cm = cm"
| "run_calls handle ((did, m) # calls) cm = run_calls handle calls (snd (handle did m cm))"

locale client_handler =
  fixes handle :: "downstream_id \<Rightarrow> 'm \<Rightarrow> ('sc, 'ec, 'gc, 'vd, 'xf) channel_manager \<Rightarrow>
      unit pool_result \<times> ('sc, 'ec, 'gc, 'vd, 'xf) channel_manager"
  assumes handle_isolates:
      "isolates did (channel_manager_data cm) (channel_manager_data (snd (handle did m cm)))"
    and handle_forwards:
      "\<exists>msgs. forwarded (snd (handle did m cm)) = forwarded cm @ msgs \<and> routed_to did msgs"
    and handle_persists: "\<exists>evs. persisted (snd (handle did m cm)) = persisted cm @ evs"
begin

lemma handle_all_other:
  assumes "did \<notin> fst ` set calls"
  shows "hm_get (cm_downstream (channel_manager_data (run_calls handle calls cm))) did =
         hm_get (cm_downstream (channel_manager_data cm)) did"
  using assms
proof (induction calls arbitrary: cm)
  case Nil
  then show ?case by simp
next
  case (Cons call calls)
  obtain did1 m1 where call [simp]: "call = (did1, m1)" by (cases call)
  show ?case
    using Cons handle_isolates [of did1 cm m1] by (simp add: isolates_def)
qed

lemma handle_all_vardiff_other:
  assumes "did \<notin> fst ` set calls"
  shows "hm_get (vardiff (channel_manager_data (run_calls handle calls cm))) (did, c) =
         hm_get (vardiff (channel_manager_data cm)) (did, c)"
  using assms
proof (induction calls arbitrary: cm)
  case Nil
  then show ?case by simp
next
  case (Cons call calls)
  obtain did1 m1 where call [simp]: "call = (did1, m1)" by (cases call)
  show ?case
    using Cons handle_isolates [of did1 cm m1]
    by (simp add: isolates_def same_vardiff_elsewhere_def)
qed

lemma handle_all_silent:
  assumes "did \<notin> fst ` set calls"
  shows "\<exists>msgs. forwarded (run_calls handle calls cm) = forwarded cm @ msgs \<and>
      (\<forall>m. Downstream did m \<notin> set msgs)"
  using assms
proof (induction calls arbitrary: cm)
  case Nil
  then show ?case by simp
next
  case (Cons call calls)
  obtain did1 m1 where call [simp]: "call = (did1, m1)" by (cases call)
  obtain ms1 where 1: "forwarded (snd (handle did1 m1 cm)) = forwarded cm @ ms1"
      "routed_to did1 ms1"
    using handle_forwards by blast
  have no1: "\<forall>m. Downstream did m \<notin> set ms1"
    using 1(2) Cons.prems by (auto simp: routed_to_def list_all_iff)
  obtain ms2 where 2: "forwarded (run_calls handle calls (snd (handle did1 m1 cm))) =
      forwarded (snd (handle did1 m1 cm)) @ ms2" "\<forall>m. Downstream did m \<notin> set ms2"
    using Cons.IH [of "snd (handle did1 m1 cm)"] Cons.prems by auto
  show ?case
    using 1 2 no1 by (intro exI [of _ "ms1 @ ms2"]) auto
qed

lemma handle_all_globals:
  "same_globals (channel_manager_data cm) (channel_manager_data (run_calls handle calls cm))"
proof (induction calls arbitrary: cm)
  case Nil
  then show ?case by (simp add: same_globals_def)
next
  case (Cons call calls)
  obtain did1 m1 where call [simp]: "call = (did1, m1)" by (cases call)
  show ?case
    using Cons handle_isolates [of did1 cm m1]
    by (simp add: isolates_def same_globals_def)
qed

end

section \<open>The closures under the downstream's lock\<close>

text \<open>
  A closure run inside \<open>lock_downstream\<close> may change the extranonce factories and the
  vardiff entries of its own downstream, nothing else of the channel manager's data.
\<close>

definition contained ::
  "downstream_id \<Rightarrow> ('sc, 'ec, 'gc, 'vd, 'xf) channel_manager_data \<Rightarrow>
     route_message_to list pool_result \<times> ('sc, 'ec, 'gc, 'vd, 'xf) channel_manager_data \<times>
       ('sc, 'ec, 'gc) downstream_data \<Rightarrow> bool" where
  "contained did d out \<longleftrightarrow>
     (case out of (r, d', dd') \<Rightarrow>
        same_globals d d' \<and> same_vardiff_elsewhere did d d' \<and>
        cm_downstream d' = cm_downstream d \<and> (\<forall>msgs. r = Ok msgs \<longrightarrow> routed_to did msgs))"

lemmas contained_defs = contained_def same_globals_def same_vardiff_elsewhere_def

lemma lock_downstream_isolates:
  assumes "hm_get (cm_downstream d) did = Some ds"
    and "lock_downstream did ds f d = (r, d')"
    and "contained did d (f (d, downstream_data ds))"
  shows "isolates did d d' \<and> (\<forall>msgs. r = Ok msgs \<longrightarrow> routed_to did msgs)"
  using assms hm_get_in_keys [OF assms(1)]
  by (auto simp: lock_downstream_def isolates_def contained_defs split: prod.splits)

lemma ensure_group_channel_contained:
  "ensure_group_channel L cfg req t p (d, dd) = (r, d', dd') \<Longrightarrow> d' = d"
  by (auto simp: ensure_group_channel_def Let_def split: if_splits sum.splits prod.splits)

lemma finish_open_standard_contained:
  "contained did d (finish_open_standard L cfg did rid cid sc t p (d, dd))"
  by (simp add: finish_open_standard_def Let_def contained_defs
      split: sum.split prod.split option.split)

lemma create_standard_channel_contained:
  "contained did d (create_standard_channel L cfg did msg t p (d, dd))"
proof -
  obtain x xf where x: "xf_next_prefix_standard L (extranonce_prefix_factory_standard d) = (x, xf)"
    by fastforce
  let ?d = "d\<lparr>extranonce_prefix_factory_standard := xf\<rparr>"
  have "contained did ?d (finish_open_standard L cfg did rid cid sc t p (?d, dd1))" for rid cid sc dd1
    by (rule finish_open_standard_contained)
  then have "contained did d (finish_open_standard L cfg did rid cid sc t p (?d, dd1))" for rid cid sc dd1
    by (simp add: contained_defs split: prod.splits)
  then show ?thesis
    by (simp add: create_standard_channel_def x Let_def split: sum.split standard_channel_error.split)
      (simp add: contained_defs)
qed

lemma open_standard_closure_contained:
  "contained did d (and_then (ensure_group_channel L cfg req t p (d, dd))
     (\<lambda>_. create_standard_channel L cfg did msg t p))"
proof -
  obtain r d1 dd1 where e: "ensure_group_channel L cfg req t p (d, dd) = (r, d1, dd1)"
    by (cases "ensure_group_channel L cfg req t p (d, dd)") auto
  then have "d1 = d" by (rule ensure_group_channel_contained)
  then show ?thesis
    using e by (cases r) (simp_all add: create_standard_channel_contained, simp_all add: contained_defs)
qed

lemma register_extended_contained:
  "routed_to did msgs \<Longrightarrow> contained did d (register_extended L did cid ec msgs (d, dd))"
  by (simp add: register_extended_def Let_def contained_defs split: sum.split)

lemma finish_open_extended_contained:
  "contained did d (finish_open_extended L cfg did cw rid cid ec (d, dd))"
  by (simp add: finish_open_extended_def Let_def register_extended_contained
      split: sum.split prod.split option.split)
    (simp add: contained_defs)

lemma create_extended_channel_contained:
  "contained did d (create_extended_channel L cfg did cw msg (d, dd))"
proof -
  obtain x xf where x: "xf_next_prefix_extended L (extranonce_prefix_factory_extended d)
      (ucast (oe_min_extranonce_size msg)) = (x, xf)"
    by fastforce
  let ?d = "d\<lparr>extranonce_prefix_factory_extended := xf\<rparr>"
  have "contained did ?d (finish_open_extended L cfg did cw rid cid ec (?d, dd1))" for rid cid ec dd1
    by (rule finish_open_extended_contained)
  then have "contained did d (finish_open_extended L cfg did cw rid cid ec (?d, dd1))" for rid cid ec dd1
    by (simp add: contained_defs split: prod.splits)
  then show ?thesis
    by (simp add: create_extended_channel_def x Let_def split: sum.split extended_channel_error.split)
      (simp add: contained_defs)
qed

lemma update_channel_locked_contained: "contained did d (update_channel_locked L did msg (d, dd))"
  by (simp add: update_channel_locked_def update_standard_def update_extended_def Let_def contained_defs
      split: option.split sum.split prod.split standard_channel_error.split extended_channel_error.split)

lemma custom_job_locked_contained: "contained did d (custom_job_locked L did msg (d, dd))"
  by (simp add: custom_job_locked_def Let_def contained_defs split: option.split sum.split prod.split)

lemma answer_standard_routed: "answer_standard L did cid sc msg now res = (Ok msgs, evs) \<Longrightarrow> routed_to did msgs"
  by (auto simp: answer_standard_def Let_def
      split: sum.splits share_validation_result.splits share_validation_error.splits option.splits if_splits)

lemma answer_extended_routed: "answer_extended L did cid ec msg now res = (Ok msgs, evs) \<Longrightarrow> routed_to did msgs"
  by (auto simp: answer_extended_def Let_def
      split: sum.splits share_validation_result.splits share_validation_error.splits option.splits if_splits)

lemmas open_standard_isolates =
  lock_downstream_isolates
    [where f = "\<lambda>s. and_then (ensure_group_channel L cfg req t p s)
       (\<lambda>_. create_standard_channel L cfg did msg t p)" for L cfg req t p did msg,
      OF _ _ open_standard_closure_contained]

lemmas open_extended_isolates =
  lock_downstream_isolates
    [where f = "create_extended_channel L cfg did cw msg" for L cfg did cw msg,
      OF _ _ create_extended_channel_contained]

lemmas update_isolates =
  lock_downstream_isolates
    [where f = "update_channel_locked L did msg" for L did msg, OF _ _ update_channel_locked_contained]

lemmas custom_job_isolates =
  lock_downstream_isolates
    [where f = "custom_job_locked L did msg" for L did msg, OF _ _ custom_job_locked_contained]

section \<open>The handlers\<close>

text \<open>What one handler call does to the channel manager, as a whole.\<close>

definition well_behaved ::
  "downstream_id \<Rightarrow> ('sc, 'ec, 'gc, 'vd, 'xf) channel_manager \<Rightarrow>
     unit pool_result \<times> ('sc, 'ec, 'gc, 'vd, 'xf) channel_manager \<Rightarrow> bool" where
  "well_behaved did cm out \<longleftrightarrow>
     isolates did (channel_manager_data cm) (channel_manager_data (snd out)) \<and>
     (\<exists>msgs. forwarded (snd out) = forwarded cm @ msgs \<and> routed_to did msgs) \<and>
     (\<exists>evs. persisted (snd out) = persisted cm @ evs)"

lemma well_behaved_unchanged [simp]: "well_behaved did cm (r, cm)"
  by (simp add: well_behaved_def exI [of _ "[]"])

lemma well_behaved_forward_all:
  assumes "isolates did (channel_manager_data cm) d"
    and "\<And>msgs. r = Ok msgs \<Longrightarrow> routed_to did msgs"
  shows "well_behaved did cm
    (forward_all r (cm\<lparr>channel_manager_data := d, persisted := persisted cm @ evs\<rparr>))"
  using assms by (cases r) (auto simp: forward_all_def well_behaved_def)

lemma well_behaved_forward_all_quiet:
  assumes "isolates did (channel_manager_data cm) d"
    and "\<And>msgs. r = Ok msgs \<Longrightarrow> routed_to did msgs"
  shows "well_behaved did cm (forward_all r (cm\<lparr>channel_manager_data := d\<rparr>))"
  using assms by (cases r) (auto simp: forward_all_def well_behaved_def)

lemma well_behaved_answer: "routed_to did msgs \<Longrightarrow> well_behaved did cm (forward_all (Ok msgs) cm)"
  by (auto simp: forward_all_def well_behaved_def)

lemma handle_close_channel_well_behaved: "well_behaved did cm (handle_close_channel did cid cm)"
  by (auto simp: handle_close_channel_def Let_def well_behaved_def isolates_def same_globals_def
      same_vardiff_elsewhere_def hm_get_in_keys insert_absorb split: option.split)

lemma open_standard_locked_isolates:
  assumes "open_standard_locked L cfg did msg d = (r, d')"
  shows "isolates did d d'" and "r = Ok msgs \<Longrightarrow> routed_to did msgs"
proof -
  have "isolates did d d' \<and> (\<forall>msgs. r = Ok msgs \<longrightarrow> routed_to did msgs)"
    using assms
    by (auto simp: open_standard_locked_def split: option.splits if_splits
        dest: open_standard_isolates)
  then show "isolates did d d'" and "r = Ok msgs \<Longrightarrow> routed_to did msgs" by auto
qed

lemma handle_open_standard_well_behaved:
  "well_behaved did cm (handle_open_standard_mining_channel L cfg did msg cm)"
  unfolding handle_open_standard_mining_channel_def
  by (auto split: prod.split intro!: well_behaved_forward_all_quiet dest: open_standard_locked_isolates)

lemma open_extended_locked_isolates:
  assumes "open_extended_locked L cfg did msg d = (r, d')"
  shows "isolates did d d'" and "r = Ok msgs \<Longrightarrow> routed_to did msgs"
proof -
  have "isolates did d d' \<and> (\<forall>msgs. r = Ok msgs \<longrightarrow> routed_to did msgs)"
    using assms
    by (auto simp: open_extended_locked_def split: option.splits
        dest: open_extended_isolates)
  then show "isolates did d d'" and "r = Ok msgs \<Longrightarrow> routed_to did msgs" by auto
qed

lemma handle_open_extended_well_behaved:
  "well_behaved did cm (handle_open_extended_mining_channel L cfg did msg cm)"
  unfolding handle_open_extended_mining_channel_def
  by (auto split: prod.split intro!: well_behaved_forward_all_quiet dest: open_extended_locked_isolates)

lemma isolates_share:
  assumes "hm_get (cm_downstream d) did = Some ds"
  shows "isolates did d (d\<lparr>cm_downstream := hm_insert did ds' (cm_downstream d),
      vardiff := hm_insert (did, cid) vd (vardiff d)\<rparr>)"
  using hm_get_in_keys [OF assms]
  by (auto simp: isolates_def same_globals_def same_vardiff_elsewhere_def)

lemma handle_submit_standard_well_behaved:
  "well_behaved did cm (handle_submit_shares_standard L now did msg cm)"
  unfolding handle_submit_shares_standard_def Let_def
  by (auto split: option.split prod.split
      intro!: well_behaved_forward_all well_behaved_answer isolates_share dest: answer_standard_routed)

lemma handle_submit_extended_well_behaved:
  "well_behaved did cm (handle_submit_shares_extended L now did msg cm)"
  unfolding handle_submit_shares_extended_def Let_def get_negotiated_extensions_with_client_def
  by (auto split: option.split prod.split
      intro!: well_behaved_forward_all well_behaved_answer isolates_share dest: answer_extended_routed
      simp: expect_def and_then_def)

lemma handle_update_channel_well_behaved: "well_behaved did cm (handle_update_channel L did msg cm)"
  unfolding handle_update_channel_def Let_def
  by (auto split: option.split prod.split intro!: well_behaved_forward_all_quiet
      dest: update_isolates)

lemma handle_set_custom_mining_job_well_behaved:
  "well_behaved did cm (handle_set_custom_mining_job L cfg did msg cm)"
  unfolding handle_set_custom_mining_job_def Let_def
  by (auto split: option.split prod.split sum.split intro!: well_behaved_forward_all_quiet well_behaved_answer
      dest: custom_job_isolates)

lemma handle_client_call_well_behaved: "well_behaved did cm (handle_client_call L cfg did call cm)"
  by (cases call)
    (simp_all add: handle_close_channel_well_behaved handle_open_standard_well_behaved
      handle_open_extended_well_behaved handle_submit_standard_well_behaved
      handle_submit_extended_well_behaved handle_update_channel_well_behaved
      handle_set_custom_mining_job_well_behaved)

interpretation mining_client: client_handler "handle_client_call L cfg"
  by unfold_locales
    (use handle_client_call_well_behaved [unfolded well_behaved_def] in blast)+

end
