(* ===== verification/Pool_Registry.thy ===== *)
theory Pool_Registry
  imports Pool_Isolation
begin

text \<open>
  The invariant of the channel registry and its preservation by the mining handlers: the
  channel identifiers of a connection are distinct and below its counter, no identifier
  names both a standard and an extended channel, and the vardiff states are exactly those of
  the registered channels. The counter is a \<open>u32\<close> that wraps, so a handler keeps the
  invariant as long as the counter has room for the two identifiers it may take.
\<close>

section \<open>The invariant\<close>

definition chan_ids :: "('sc, 'ec, 'gc) downstream_data \<Rightarrow> channel_id set" where
  "chan_ids dd = hm_keys (standard_channels dd) \<union> hm_keys (extended_channels dd)"

definition data_inv :: "('sc, 'ec, 'gc) downstream_data \<Rightarrow> bool" where
  "data_inv dd \<longleftrightarrow>
     hm_distinct (standard_channels dd) \<and> hm_distinct (extended_channels dd) \<and>
     hm_keys (standard_channels dd) \<inter> hm_keys (extended_channels dd) = {} \<and>
     (\<forall>c\<in>chan_ids dd. c < channel_id_factory dd)"

definition vardiff_inv ::
  "downstream_id \<Rightarrow> ('sc, 'ec, 'gc, 'vd, 'xf) channel_manager_data \<Rightarrow>
     ('sc, 'ec, 'gc) downstream_data \<Rightarrow> bool" where
  "vardiff_inv did d dd \<longleftrightarrow> (\<forall>c. (did, c) \<in> hm_keys (vardiff d) \<longleftrightarrow> c \<in> chan_ids dd)"

definition registry_inv :: "('sc, 'ec, 'gc, 'vd, 'xf) channel_manager_data \<Rightarrow> bool" where
  "registry_inv d \<longleftrightarrow>
     hm_distinct (cm_downstream d) \<and> hm_distinct (vardiff d) \<and>
     (\<forall>did ds. hm_get (cm_downstream d) did = Some ds \<longrightarrow>
        ds_id ds = did \<and> did < downstream_id_factory d \<and>
        data_inv (downstream_data ds) \<and> vardiff_inv did d (downstream_data ds)) \<and>
     (\<forall>k\<in>hm_keys (vardiff d). fst k \<in> hm_keys (cm_downstream d))"

text \<open>Every connection's identifier counter can still be raised by \<open>n\<close> without wrapping.\<close>

definition counter_room :: "nat \<Rightarrow> ('sc, 'ec, 'gc) downstream_data \<Rightarrow> bool" where
  "counter_room n dd \<longleftrightarrow> unat (channel_id_factory dd) + n < 2 ^ 32"

definition registry_room :: "nat \<Rightarrow> ('sc, 'ec, 'gc, 'vd, 'xf) channel_manager_data \<Rightarrow> bool" where
  "registry_room n d \<longleftrightarrow>
     (\<forall>did ds. hm_get (cm_downstream d) did = Some ds \<longrightarrow> counter_room n (downstream_data ds))"

text \<open>
  \<open>VardiffState::new\<close> does not fail: what the registration of a channel relies on. (When it
  fails, the channel stays registered without a vardiff state.)
\<close>

definition vardiff_available :: "('sc, 'ec, 'gc, 'vd, 'xf) channel_lib \<Rightarrow> bool" where
  "vardiff_available L \<longleftrightarrow> (\<exists>vd. vd_new L = Inr vd)"

section \<open>The closures\<close>

definition pair_inv ::
  "downstream_id \<Rightarrow> ('sc, 'ec, 'gc, 'vd, 'xf) channel_manager_data \<times> ('sc, 'ec, 'gc) downstream_data \<Rightarrow>
     bool" where
  "pair_inv did s \<longleftrightarrow>
     (case s of (d, dd) \<Rightarrow> data_inv dd \<and> vardiff_inv did d dd \<and> hm_distinct (vardiff d))"

lemmas inv_defs = pair_inv_def data_inv_def vardiff_inv_def chan_ids_def

lemma less_succ_word32:
  fixes c f :: u32
  assumes "unat f + 1 < 2 ^ 32" and "c < f"
  shows "c < f + 1" and "f < f + 1"
  using assms less_next_word [of f c] less_next_word [of f f] by simp_all

lemma pair_inv_take_id:
  assumes "pair_inv did (d, dd)" and "counter_room 1 dd"
  shows "pair_inv did (d, dd\<lparr>channel_id_factory := channel_id_factory dd + 1\<rparr>)"
  using assms less_succ_word32 [of "channel_id_factory dd"]
  by (auto simp: inv_defs counter_room_def)

lemma pair_inv_globals:
  "vardiff d' = vardiff d \<Longrightarrow> pair_inv did (d', dd) = pair_inv did (d, dd)"
  by (simp add: pair_inv_def vardiff_inv_def)

lemma pair_inv_group: "pair_inv did (d, dd\<lparr>group_channels := g\<rparr>) = pair_inv did (d, dd)"
  by (simp add: inv_defs)

lemma pair_inv_add_standard:
  assumes "pair_inv did (d, dd)" and "counter_room 1 dd" and "cid = channel_id_factory dd"
  shows "pair_inv did (d\<lparr>vardiff := hm_insert (did, cid) vd (vardiff d)\<rparr>,
    dd\<lparr>channel_id_factory := cid + 1,
       standard_channels := hm_insert cid sc (standard_channels dd), group_channels := g\<rparr>)"
  using assms less_succ_word32 [of "channel_id_factory dd"] less_next_word [of "channel_id_factory dd" cid]
  by (auto simp: inv_defs counter_room_def)

lemma pair_inv_add_extended:
  assumes "pair_inv did (d, dd)" and "counter_room 1 dd" and "cid = channel_id_factory dd"
  shows "pair_inv did (d\<lparr>vardiff := hm_insert (did, cid) vd (vardiff d)\<rparr>,
    dd\<lparr>channel_id_factory := cid + 1,
       extended_channels := hm_insert cid ec (extended_channels dd)\<rparr>)"
  using assms less_succ_word32 [of "channel_id_factory dd"] less_next_word [of "channel_id_factory dd" cid]
  by (auto simp: inv_defs counter_room_def)

lemma pair_inv_replace_standard:
  "pair_inv did (d, dd) \<Longrightarrow> cid \<in> hm_keys (standard_channels dd) \<Longrightarrow>
     pair_inv did (d, dd\<lparr>standard_channels := hm_insert cid sc (standard_channels dd)\<rparr>)"
  by (auto simp: inv_defs)

lemma pair_inv_replace_extended:
  "pair_inv did (d, dd) \<Longrightarrow> cid \<in> hm_keys (extended_channels dd) \<Longrightarrow>
     pair_inv did (d, dd\<lparr>extended_channels := hm_insert cid ec (extended_channels dd)\<rparr>)"
  by (auto simp: inv_defs)

lemma pair_inv_remove:
  "pair_inv did (d, dd) \<Longrightarrow>
     pair_inv did (d\<lparr>vardiff := hm_remove (did, cid) (vardiff d)\<rparr>,
       dd\<lparr>standard_channels := hm_remove cid (standard_channels dd),
          extended_channels := hm_remove cid (extended_channels dd)\<rparr>)"
  by (auto simp: inv_defs)

lemma pair_inv_touch_vardiff:
  "pair_inv did (d, dd) \<Longrightarrow> (did, cid) \<in> hm_keys (vardiff d) \<Longrightarrow>
     pair_inv did (d\<lparr>vardiff := hm_insert (did, cid) vd (vardiff d)\<rparr>, dd)"
  by (auto simp: inv_defs)

text \<open>
  What a closure promises: it keeps the invariant and takes at most \<open>n\<close> identifiers.
\<close>

definition keeps ::
  "nat \<Rightarrow> downstream_id \<Rightarrow> ('sc, 'ec, 'gc) downstream_data \<Rightarrow>
     'r \<times> ('sc, 'ec, 'gc, 'vd, 'xf) channel_manager_data \<times> ('sc, 'ec, 'gc) downstream_data \<Rightarrow> bool" where
  "keeps n did dd out \<longleftrightarrow>
     pair_inv did (snd out) \<and>
     unat (channel_id_factory (snd (snd out))) \<le> unat (channel_id_factory dd) + n"

lemma unat_succ_le: "unat ((x :: u32) + 1) \<le> unat x + 1"
  by (simp add: unat_word_ariths)

lemma ensure_group_channel_keeps:
  assumes "pair_inv did (d, dd)" and "counter_room 1 dd"
  shows "keeps 1 did dd (ensure_group_channel L cfg req t p (d, dd))"
  using pair_inv_take_id [OF assms] assms(1) unat_succ_le
  by (simp add: keeps_def ensure_group_channel_def Let_def pair_inv_group
      split: sum.split prod.split)

lemma finish_open_standard_keeps:
  assumes "pair_inv did (d, dd)" and "counter_room 1 dd" and "vardiff_available L"
    and "cid = channel_id_factory dd"
  shows "keeps 1 did dd (finish_open_standard L cfg did rid cid sc t p
     (d, dd\<lparr>channel_id_factory := cid + 1\<rparr>))"
proof -
  obtain vd where vd: "vd_new L = Inr vd"
    using assms(3) by (auto simp: vardiff_available_def)
  have 1: "pair_inv did (d, dd\<lparr>channel_id_factory := cid + 1\<rparr>)"
    using pair_inv_take_id [OF assms(1,2)] assms(4) by simp
  have 2: "pair_inv did (d\<lparr>vardiff := hm_insert (did, cid) vd (vardiff d)\<rparr>,
      dd\<lparr>channel_id_factory := cid + 1, standard_channels := hm_insert cid sc' (standard_channels dd),
         group_channels := g\<rparr>)" for sc' g
    using pair_inv_add_standard [OF assms(1,2,4)] .
  show ?thesis
    using 1 2 unat_succ_le [of cid] assms(4)
    by (simp add: keeps_def finish_open_standard_def Let_def vd
        split: sum.split prod.split option.split)
qed

lemma create_standard_channel_keeps:
  assumes "pair_inv did (d, dd)" and "counter_room 1 dd" and "vardiff_available L"
  shows "keeps 1 did dd (create_standard_channel L cfg did msg t p (d, dd))"
proof -
  obtain x xf where x: "xf_next_prefix_standard L (extranonce_prefix_factory_standard d) = (x, xf)"
    by fastforce
  let ?d = "d\<lparr>extranonce_prefix_factory_standard := xf\<rparr>"
  have d: "pair_inv did (?d, dd)"
    using assms(1) by (subst pair_inv_globals [of _ d]) simp_all
  have "keeps 1 did dd (finish_open_standard L cfg did rid (channel_id_factory dd) sc t p
      (?d, dd\<lparr>channel_id_factory := channel_id_factory dd + 1\<rparr>))" for rid sc
    using finish_open_standard_keeps [OF d assms(2,3) refl] .
  moreover have "keeps 1 did dd (r, ?d, dd\<lparr>channel_id_factory := channel_id_factory dd + 1\<rparr>)"
    for r :: "route_message_to list pool_result"
    using pair_inv_take_id [OF d assms(2)] unat_succ_le by (simp add: keeps_def)
  moreover have "keeps 1 did dd (r, ?d, dd)" for r :: "route_message_to list pool_result"
    using d by (simp add: keeps_def)
  ultimately show ?thesis
    by (simp add: create_standard_channel_def x Let_def split: sum.split standard_channel_error.split)
qed

lemma open_standard_closure_keeps:
  assumes "pair_inv did (d, dd)" and "counter_room 2 dd" and "vardiff_available L"
  shows "keeps 2 did dd (and_then (ensure_group_channel L cfg req t p (d, dd))
     (\<lambda>_. create_standard_channel L cfg did msg t p))"
proof -
  obtain r d1 dd1 where e: "ensure_group_channel L cfg req t p (d, dd) = (r, d1, dd1)"
    by (cases "ensure_group_channel L cfg req t p (d, dd)") auto
  have room: "counter_room 1 dd" using assms(2) by (simp add: counter_room_def)
  have k: "pair_inv did (d1, dd1)" "unat (channel_id_factory dd1) \<le> unat (channel_id_factory dd) + 1"
    using ensure_group_channel_keeps [OF assms(1) room, of L cfg req t p] e by (simp_all add: keeps_def)
  have "counter_room 1 dd1" using assms(2) k(2) by (simp add: counter_room_def)
  then have "keeps 1 did dd1 (create_standard_channel L cfg did msg t p (d1, dd1))"
    using create_standard_channel_keeps [OF k(1) _ assms(3)] by simp
  then show ?thesis
    using e k by (cases r) (auto simp: keeps_def)
qed

lemma finish_open_extended_keeps:
  assumes "pair_inv did (d, dd)" and "counter_room 1 dd" and "vardiff_available L"
    and "cid = channel_id_factory dd"
  shows "keeps 1 did dd (finish_open_extended L cfg did cw rid cid ec
     (d, dd\<lparr>channel_id_factory := cid + 1\<rparr>))"
proof -
  obtain vd where vd: "vd_new L = Inr vd"
    using assms(3) by (auto simp: vardiff_available_def)
  have 1: "pair_inv did (d, dd\<lparr>channel_id_factory := cid + 1\<rparr>)"
    using pair_inv_take_id [OF assms(1,2)] assms(4) by simp
  have 2: "pair_inv did (d\<lparr>vardiff := hm_insert (did, cid) vd (vardiff d)\<rparr>,
      dd\<lparr>channel_id_factory := cid + 1, extended_channels := hm_insert cid ec' (extended_channels dd)\<rparr>)" for ec'
    using pair_inv_add_extended [OF assms(1,2,4)] .
  show ?thesis
    using 1 2 unat_succ_le [of cid] assms(4)
    by (simp add: keeps_def finish_open_extended_def register_extended_def Let_def vd
        split: sum.split prod.split option.split)
qed

lemma create_extended_channel_keeps:
  assumes "pair_inv did (d, dd)" and "counter_room 1 dd" and "vardiff_available L"
  shows "keeps 1 did dd (create_extended_channel L cfg did cw msg (d, dd))"
proof -
  obtain x xf where x: "xf_next_prefix_extended L (extranonce_prefix_factory_extended d)
      (ucast (oe_min_extranonce_size msg)) = (x, xf)"
    by fastforce
  let ?d = "d\<lparr>extranonce_prefix_factory_extended := xf\<rparr>"
  have d: "pair_inv did (?d, dd)"
    using assms(1) by (subst pair_inv_globals [of _ d]) simp_all
  have "keeps 1 did dd (finish_open_extended L cfg did cw rid (channel_id_factory dd) ec
      (?d, dd\<lparr>channel_id_factory := channel_id_factory dd + 1\<rparr>))" for rid ec
    using finish_open_extended_keeps [OF d assms(2,3) refl] .
  moreover have "keeps 1 did dd (r, ?d, dd\<lparr>channel_id_factory := channel_id_factory dd + 1\<rparr>)"
    for r :: "route_message_to list pool_result"
    using pair_inv_take_id [OF d assms(2)] unat_succ_le by (simp add: keeps_def)
  moreover have "keeps 1 did dd (r, ?d, dd)" for r :: "route_message_to list pool_result"
    using d by (simp add: keeps_def)
  ultimately show ?thesis
    by (simp add: create_extended_channel_def x Let_def split: sum.split extended_channel_error.split)
qed

lemma update_channel_locked_keeps:
  "pair_inv did (d, dd) \<Longrightarrow> keeps 0 did dd (update_channel_locked L did msg (d, dd))"
  by (simp add: keeps_def update_channel_locked_def Let_def pair_inv_replace_standard
      pair_inv_replace_extended hm_get_in_keys split: option.split prod.split)

lemma custom_job_locked_keeps:
  "pair_inv did (d, dd) \<Longrightarrow> keeps 0 did dd (custom_job_locked L did msg (d, dd))"
  by (simp add: keeps_def custom_job_locked_def Let_def pair_inv_replace_extended hm_get_in_keys
      split: option.split prod.split sum.split)

section \<open>From one connection to the registry\<close>

lemma registry_inv_pair:
  "registry_inv d \<Longrightarrow> hm_get (cm_downstream d) did = Some ds \<Longrightarrow> pair_inv did (d, downstream_data ds)"
  by (simp add: registry_inv_def pair_inv_def)

text \<open>
  Replacing one connection's data by data that satisfy the invariant, with the vardiff
  states of the other connections untouched.
\<close>

lemma registry_inv_replace:
  assumes inv: "registry_inv d" and get: "hm_get (cm_downstream d) did = Some ds"
    and pair: "pair_inv did (d', dd')" and same: "same_vardiff_elsewhere did d d'"
    and "downstream_id_factory d' = downstream_id_factory d" and "cm_downstream d' = cm_downstream d"
    and ds': "ds_id ds' = ds_id ds" "downstream_data ds' = dd'"
  shows "registry_inv (d'\<lparr>cm_downstream := hm_insert did ds' (cm_downstream d)\<rparr>)"
proof -
  have other: "(did', c) \<in> hm_keys (vardiff d') \<longleftrightarrow> (did', c) \<in> hm_keys (vardiff d)" if "did' \<noteq> did" for did' c
    using same that by (simp add: same_vardiff_elsewhere_def hm.keys_get)
  have dom: "fst k = did \<or> fst k \<in> hm_keys (cm_downstream d)" if "k \<in> hm_keys (vardiff d')" for k
    using other [of "fst k" "snd k"] inv that by (auto simp: registry_inv_def)
  have "vardiff_inv did'' d' (downstream_data ds'')"
    if "did'' \<noteq> did" "hm_get (cm_downstream d) did'' = Some ds''" for did'' ds''
    using inv that other by (simp add: registry_inv_def vardiff_inv_def)
  then show ?thesis
    using assms dom by (auto simp: registry_inv_def pair_inv_def vardiff_inv_def)
qed

text \<open>
  The step relation of the invariant: the registry invariant is kept and no connection's
  counter advances by more than \<open>n\<close>.
\<close>

definition registry_step ::
  "nat \<Rightarrow> ('sc, 'ec, 'gc, 'vd, 'xf) channel_manager_data \<Rightarrow>
     ('sc, 'ec, 'gc, 'vd, 'xf) channel_manager_data \<Rightarrow> bool" where
  "registry_step n d d' \<longleftrightarrow>
     registry_inv d' \<and>
     (\<forall>did ds'. hm_get (cm_downstream d') did = Some ds' \<longrightarrow>
        (\<exists>ds. hm_get (cm_downstream d) did = Some ds \<and>
           unat (channel_id_factory (downstream_data ds')) \<le>
             unat (channel_id_factory (downstream_data ds)) + n))"

lemma registry_step_refl: "registry_inv d \<Longrightarrow> registry_step n d d"
  by (simp add: registry_step_def)

lemma lock_downstream_step:
  assumes inv: "registry_inv d" and get: "hm_get (cm_downstream d) did = Some ds"
    and keeps: "keeps n did (downstream_data ds) (f (d, downstream_data ds))"
    and cont: "contained did d (f (d, downstream_data ds))"
  shows "registry_step n d (snd (lock_downstream did ds f d))"
proof -
  obtain r d' dd' where f: "f (d, downstream_data ds) = (r, d', dd')"
    by (cases "f (d, downstream_data ds)") auto
  have cd: "same_vardiff_elsewhere did d d'" "cm_downstream d' = cm_downstream d"
      "downstream_id_factory d' = downstream_id_factory d"
    using cont by (simp_all add: f contained_def same_globals_def)
  have "registry_inv (d'\<lparr>cm_downstream := hm_insert did (ds\<lparr>downstream_data := dd'\<rparr>) (cm_downstream d)\<rparr>)"
    by (rule registry_inv_replace [OF inv get _ cd(1,3,2)]) (use keeps f in \<open>simp_all add: keeps_def\<close>)
  then show ?thesis
    using keeps get cd(2) by (auto simp: lock_downstream_def f registry_step_def keeps_def)
qed

section \<open>The handlers\<close>

lemma snd_forward_all_data [simp]:
  "channel_manager_data (snd (forward_all r cm)) = channel_manager_data cm"
  by (cases r) (simp_all add: forward_all_def)

lemma registry_step_mono: "registry_step m d d' \<Longrightarrow> m \<le> n \<Longrightarrow> registry_step n d d'"
  by (fastforce simp: registry_step_def)

lemma cm_data_update_commute:
  "d\<lparr>vardiff := v, cm_downstream := m\<rparr> = d\<lparr>cm_downstream := m, vardiff := v\<rparr>"
  by (cases d) simp

lemma close_channel_step:
  assumes inv: "registry_inv (channel_manager_data cm)"
  shows "registry_step 0 (channel_manager_data cm)
    (channel_manager_data (snd (handle_close_channel did cid cm)))"
proof (cases "hm_get (cm_downstream (channel_manager_data cm)) did")
  case None
  then show ?thesis using inv by (simp add: handle_close_channel_def registry_step_refl)
next
  case (Some ds)
  let ?d = "channel_manager_data cm" and ?dd = "downstream_data ds"
  let ?d' = "?d\<lparr>vardiff := hm_remove (did, cid) (vardiff ?d)\<rparr>"
  let ?ds' = "ds\<lparr>downstream_data := ?dd\<lparr>standard_channels := hm_remove cid (standard_channels ?dd),
      extended_channels := hm_remove cid (extended_channels ?dd)\<rparr>\<rparr>"
  have "registry_inv (?d'\<lparr>cm_downstream := hm_insert did ?ds' (cm_downstream ?d)\<rparr>)"
    by (rule registry_inv_replace [OF inv Some pair_inv_remove [OF registry_inv_pair [OF inv Some]]])
      (simp_all add: same_vardiff_elsewhere_def)
  then show ?thesis
    using Some by (auto simp: handle_close_channel_def Let_def registry_step_def cm_data_update_commute)
qed

lemma share_step:
  assumes inv: "registry_inv d" and get: "hm_get (cm_downstream d) did = Some ds"
    and vd: "hm_get (vardiff d) (did, cid) = Some vd"
    and dd: "pair_inv did (d, dd')" "channel_id_factory dd' = channel_id_factory (downstream_data ds)"
  shows "registry_step 0 d
    (d\<lparr>cm_downstream := hm_insert did (ds\<lparr>downstream_data := dd'\<rparr>) (cm_downstream d),
       vardiff := hm_insert (did, cid) vd' (vardiff d)\<rparr>)"
proof -
  let ?d' = "d\<lparr>vardiff := hm_insert (did, cid) vd' (vardiff d)\<rparr>"
  have "registry_inv (?d'\<lparr>cm_downstream := hm_insert did (ds\<lparr>downstream_data := dd'\<rparr>) (cm_downstream d)\<rparr>)"
    by (rule registry_inv_replace [OF inv get pair_inv_touch_vardiff [OF dd(1) hm_get_in_keys [OF vd]]])
      (simp_all add: same_vardiff_elsewhere_def)
  then show ?thesis
    using get dd(2) by (auto simp: registry_step_def cm_data_update_commute)
qed

lemma submit_standard_step:
  assumes inv: "registry_inv (channel_manager_data cm)"
  shows "registry_step 0 (channel_manager_data cm)
    (channel_manager_data (snd (handle_submit_shares_standard L now did msg cm)))"
  using inv registry_step_refl [OF inv, of 0]
  by (auto simp: handle_submit_shares_standard_def Let_def split: option.split prod.split
      intro!: share_step pair_inv_replace_standard registry_inv_pair dest: hm_get_in_keys)

lemma submit_extended_step:
  assumes inv: "registry_inv (channel_manager_data cm)"
  shows "registry_step 0 (channel_manager_data cm)
    (channel_manager_data (snd (handle_submit_shares_extended L now did msg cm)))"
  using inv registry_step_refl [OF inv, of 0]
  by (auto simp: handle_submit_shares_extended_def get_negotiated_extensions_with_client_def
      expect_def and_then_def Let_def split: option.split prod.split
      intro!: share_step pair_inv_replace_extended registry_inv_pair dest: hm_get_in_keys)

lemma open_standard_step:
  assumes inv: "registry_inv (channel_manager_data cm)" and "registry_room 2 (channel_manager_data cm)"
    and "vardiff_available L"
  shows "registry_step 2 (channel_manager_data cm)
    (channel_manager_data (snd (handle_open_standard_mining_channel L cfg did msg cm)))"
proof -
  have "registry_step 2 d (snd (open_standard_locked L cfg did msg d))"
    if "d = channel_manager_data cm" for d
    using that assms
    by (auto simp: open_standard_locked_def registry_step_refl registry_room_def split: option.split
        intro!: lock_downstream_step open_standard_closure_keeps open_standard_closure_contained
          registry_inv_pair)
  then show ?thesis
    by (simp add: handle_open_standard_mining_channel_def split: prod.split) (metis snd_conv)
qed

lemma open_extended_step:
  assumes inv: "registry_inv (channel_manager_data cm)" and room: "registry_room 2 (channel_manager_data cm)"
    and vd: "vardiff_available L"
  shows "registry_step 1 (channel_manager_data cm)
    (channel_manager_data (snd (handle_open_extended_mining_channel L cfg did msg cm)))"
proof (cases "hm_get (cm_downstream (channel_manager_data cm)) did")
  case None
  then show ?thesis
    using registry_step_refl [OF inv]
    by (simp add: handle_open_extended_mining_channel_def open_extended_locked_def)
next
  case (Some ds)
  have "counter_room 1 (downstream_data ds)"
    using room Some by (fastforce simp: registry_room_def counter_room_def)
  then have "registry_step 1 (channel_manager_data cm)
      (snd (lock_downstream did ds (create_extended_channel L cfg did (requires_custom_work ds) msg)
        (channel_manager_data cm)))"
    by (intro lock_downstream_step create_extended_channel_keeps create_extended_channel_contained
        registry_inv_pair inv Some vd)
  then show ?thesis
    using Some
    by (simp add: handle_open_extended_mining_channel_def open_extended_locked_def case_prod_unfold)
qed

lemma update_channel_step:
  assumes inv: "registry_inv (channel_manager_data cm)"
  shows "registry_step 0 (channel_manager_data cm)
    (channel_manager_data (snd (handle_update_channel L did msg cm)))"
proof (cases "hm_get (cm_downstream (channel_manager_data cm)) did")
  case None
  then show ?thesis using inv by (simp add: handle_update_channel_def registry_step_refl)
next
  case (Some ds)
  have "registry_step 0 (channel_manager_data cm)
      (snd (lock_downstream did ds (update_channel_locked L did msg) (channel_manager_data cm)))"
    by (intro lock_downstream_step inv Some update_channel_locked_keeps update_channel_locked_contained
        registry_inv_pair)
  then show ?thesis
    using Some by (simp add: handle_update_channel_def Let_def case_prod_unfold)
qed

lemma custom_job_step:
  assumes inv: "registry_inv (channel_manager_data cm)"
  shows "registry_step 0 (channel_manager_data cm)
    (channel_manager_data (snd (handle_set_custom_mining_job L cfg did msg cm)))"
proof -
  have "registry_step 0 (channel_manager_data cm)
      (snd (lock_downstream did ds (custom_job_locked L did msg) (channel_manager_data cm)))"
    if "hm_get (cm_downstream (channel_manager_data cm)) did = Some ds" for ds
    by (intro lock_downstream_step inv that custom_job_locked_keeps custom_job_locked_contained
        registry_inv_pair)
  then show ?thesis
    using registry_step_refl [OF inv, of 0]
    by (simp add: handle_set_custom_mining_job_def Let_def split: sum.split option.split prod.split)
      (metis snd_conv)
qed

lemma client_call_step:
  assumes "registry_inv (channel_manager_data cm)" and "registry_room 2 (channel_manager_data cm)"
    and "vardiff_available L"
  shows "registry_step 2 (channel_manager_data cm)
    (channel_manager_data (snd (handle_client_call L cfg did call cm)))"
proof (cases call)
  case (CloseChannel cid)
  show ?thesis
    unfolding CloseChannel handle_client_call.simps
    by (rule registry_step_mono [OF close_channel_step [OF assms(1)]]) simp
next
  case (OpenStandardMiningChannel m)
  show ?thesis
    unfolding OpenStandardMiningChannel handle_client_call.simps by (rule open_standard_step [OF assms])
next
  case (OpenExtendedMiningChannel m)
  show ?thesis
    unfolding OpenExtendedMiningChannel handle_client_call.simps
    by (rule registry_step_mono [OF open_extended_step [OF assms]]) simp
next
  case (SubmitSharesStandard now m)
  show ?thesis
    unfolding SubmitSharesStandard handle_client_call.simps
    by (rule registry_step_mono [OF submit_standard_step [OF assms(1)]]) simp
next
  case (SubmitSharesExtended now m)
  show ?thesis
    unfolding SubmitSharesExtended handle_client_call.simps
    by (rule registry_step_mono [OF submit_extended_step [OF assms(1)]]) simp
next
  case (UpdateChannel m)
  show ?thesis
    unfolding UpdateChannel handle_client_call.simps
    by (rule registry_step_mono [OF update_channel_step [OF assms(1)]]) simp
next
  case (SetCustomMiningJob m)
  show ?thesis
    unfolding SetCustomMiningJob handle_client_call.simps
    by (rule registry_step_mono [OF custom_job_step [OF assms(1)]]) simp
qed

end
