(* ===== verification/Pool_Example.thy ===== *)
theory Pool_Example
  imports Pool_Registry
begin

text \<open>
  A concrete channel library on which the theorems about the pool are exercised: a channel is
  its target, a group channel its identifier, a vardiff state the number of shares seen and
  an extranonce factory a counter. The nonce of a share selects the validation result.
\<close>

definition demo_job :: job where
  "demo_job = \<lparr>job_id = 7, job_msg = \<lparr>jm_channel_id = 2, jm_job_id = 7, jm_payload = []\<rparr>\<rparr>"

definition demo_accounting :: share_accounting where
  "demo_accounting =
     \<lparr>should_acknowledge = True, last_share_sequence_number = 5, last_batch_accepted = 1,
      last_batch_work_sum = 0x4008000000000000\<rparr>"

definition demo_validation :: "u32 \<Rightarrow> share_validation_error + share_validation_result" where
  "demo_validation nonce =
     (if nonce = 0 then Inr (Valid 11)
      else if nonce = 1 then Inr (BlockFound 12 (Some 3) [0xab])
      else if nonce = 2 then Inl SV_DuplicateShare
      else Inl SV_Stale)"

definition demo_lib :: "(u256, u256, u32, nat, u32) channel_lib" where
  "demo_lib =
     \<lparr>sc_new_for_pool = (\<lambda>cid user pfx max_target hashrate batch spm tag.
        if hashrate = 0 then Inl SC_InvalidNominalHashrate else Inr max_target),
      sc_on_new_template = (\<lambda>sc msg outs. (Inr (), sc)),
      sc_on_set_new_prev_hash = (\<lambda>sc msg. (Inr (), sc)),
      sc_on_group_channel_job = (\<lambda>sc j. (Inr (), sc)),
      sc_update_channel = (\<lambda>sc hashrate max_target. (Inr (), case max_target of None \<Rightarrow> ucast hashrate | Some t \<Rightarrow> t)),
      sc_validate_share = (\<lambda>sc msg. (demo_validation (sh_nonce msg), sc)),
      sc_target = (\<lambda>sc. sc),
      sc_extranonce_prefix = (\<lambda>sc. [1]),
      sc_user_identity = (\<lambda>sc. ''alice''),
      sc_nominal_hashrate = (\<lambda>sc. 1),
      sc_shares_per_minute = (\<lambda>sc. 1),
      sc_share_accounting = (\<lambda>sc. demo_accounting),
      sc_future_template_to_job_id = (\<lambda>sc tid. Some 7),
      sc_future_jobs = (\<lambda>sc jid. Some demo_job),
      sc_active_job = (\<lambda>sc. Some demo_job),
      ec_new_for_pool = (\<lambda>cid user pfx max_target hashrate rolling msz batch spm tag.
        if hashrate = 0 then Inl EC_InvalidNominalHashrate else Inr max_target),
      ec_on_new_template = (\<lambda>ec msg outs. (Inr (), ec)),
      ec_on_set_new_prev_hash = (\<lambda>ec msg. (Inr (), ec)),
      ec_on_set_custom_mining_job = (\<lambda>ec msg. (Inr 9, ec)),
      ec_update_channel = (\<lambda>ec hashrate max_target. (Inr (), case max_target of None \<Rightarrow> ucast hashrate | Some t \<Rightarrow> t)),
      ec_validate_share = (\<lambda>ec msg. (demo_validation (sh_nonce msg), ec)),
      ec_target = (\<lambda>ec. ec),
      ec_extranonce_prefix = (\<lambda>ec. [2]),
      ec_rollable_extranonce_size = (\<lambda>ec. 8),
      ec_user_identity = (\<lambda>ec. ''bob''),
      ec_nominal_hashrate = (\<lambda>ec. 1),
      ec_shares_per_minute = (\<lambda>ec. 1),
      ec_share_accounting = (\<lambda>ec. demo_accounting),
      ec_future_template_to_job_id = (\<lambda>ec tid. Some 7),
      ec_future_jobs = (\<lambda>ec jid. Some demo_job),
      ec_active_job = (\<lambda>ec. Some demo_job),
      gc_new_for_pool = (\<lambda>gid size tag. Inr gid),
      gc_on_new_template = (\<lambda>gc msg outs. (Inr (), gc)),
      gc_on_set_new_prev_hash = (\<lambda>gc msg. (Inr (), gc)),
      gc_group_channel_id = (\<lambda>gc. gc),
      gc_add_standard_channel_id = (\<lambda>gc cid. gc),
      gc_future_template_to_job_id = (\<lambda>gc tid. Some 7),
      gc_future_jobs = (\<lambda>gc jid. Some demo_job),
      gc_active_job = (\<lambda>gc. Some demo_job),
      vd_new = Inr 0,
      vd_increment_shares_since_last_update = Suc,
      vd_try_vardiff = (\<lambda>vd hashrate target spm. (Inr (if vd = 0 then None else Some 42), 0)),
      xf_new = (\<lambda>pfx. Some 0),
      xf_next_prefix_standard = (\<lambda>xf. (Inr [ucast xf], xf + 1)),
      xf_next_prefix_extended = (\<lambda>xf size. (Inr [ucast xf], xf + 1)),
      difficulty_float = (\<lambda>t. 0x3ff0000000000000),
      as_utf8_or_hex = (\<lambda>bs. ''alice''),
      b032_try_from = Inr,
      b064k_try_from = Inr,
      seq064k_new = Inr,
      consensus_decode_outputs = (\<lambda>bs. Inr [\<lparr>tx_value = 0, tx_script_pubkey = bs\<rparr>]),
      deserialize_outputs = (\<lambda>bs. Some [\<lparr>tx_value = 0, tx_script_pubkey = bs\<rparr>]),
      has_work_selection = (\<lambda>flags. bit flags 1),
      has_requires_std_job = (\<lambda>flags. bit flags 0)\<rparr>"

lemma demo_fields [simp, env_simps]:
  "sc_new_for_pool demo_lib cid user pfx max_target hashrate batch spm tag =
     (if hashrate = 0 then Inl SC_InvalidNominalHashrate else Inr max_target)"
  "sc_on_new_template demo_lib sc nt outs = (Inr (), sc)"
  "sc_on_set_new_prev_hash demo_lib sc ph = (Inr (), sc)"
  "sc_on_group_channel_job demo_lib sc j = (Inr (), sc)"
  "sc_update_channel demo_lib sc hashrate mt = (Inr (), case mt of None \<Rightarrow> ucast hashrate | Some t \<Rightarrow> t)"
  "sc_validate_share demo_lib sc sh = (demo_validation (sh_nonce sh), sc)"
  "sc_target demo_lib sc = sc"
  "sc_extranonce_prefix demo_lib sc = [1]"
  "sc_user_identity demo_lib sc = ''alice''"
  "sc_nominal_hashrate demo_lib sc = 1"
  "sc_shares_per_minute demo_lib sc = 1"
  "sc_share_accounting demo_lib sc = demo_accounting"
  "sc_future_template_to_job_id demo_lib sc tid = Some 7"
  "sc_future_jobs demo_lib sc jid = Some demo_job"
  "sc_active_job demo_lib sc = Some demo_job"
  "ec_new_for_pool demo_lib cid user pfx max_target hashrate rolling msz batch spm tag =
     (if hashrate = 0 then Inl EC_InvalidNominalHashrate else Inr max_target)"
  "ec_on_new_template demo_lib ec nt outs = (Inr (), ec)"
  "ec_on_set_new_prev_hash demo_lib ec ph = (Inr (), ec)"
  "ec_on_set_custom_mining_job demo_lib ec cj = (Inr 9, ec)"
  "ec_update_channel demo_lib ec hashrate mt = (Inr (), case mt of None \<Rightarrow> ucast hashrate | Some t \<Rightarrow> t)"
  "ec_validate_share demo_lib ec she = (demo_validation (sh_nonce she), ec)"
  "ec_target demo_lib ec = ec"
  "ec_extranonce_prefix demo_lib ec = [2]"
  "ec_rollable_extranonce_size demo_lib ec = 8"
  "ec_user_identity demo_lib ec = ''bob''"
  "ec_nominal_hashrate demo_lib ec = 1"
  "ec_shares_per_minute demo_lib ec = 1"
  "ec_share_accounting demo_lib ec = demo_accounting"
  "ec_future_template_to_job_id demo_lib ec tid = Some 7"
  "ec_future_jobs demo_lib ec jid = Some demo_job"
  "ec_active_job demo_lib ec = Some demo_job"
  "gc_new_for_pool demo_lib gid usz tag = Inr gid"
  "gc_on_new_template demo_lib gc nt outs = (Inr (), gc)"
  "gc_on_set_new_prev_hash demo_lib gc ph = (Inr (), gc)"
  "gc_group_channel_id demo_lib gc = gc"
  "gc_add_standard_channel_id demo_lib gc cid = gc"
  "gc_future_template_to_job_id demo_lib gc tid = Some 7"
  "gc_future_jobs demo_lib gc jid = Some demo_job"
  "gc_active_job demo_lib gc = Some demo_job"
  "vd_new demo_lib = Inr 0"
  "vd_increment_shares_since_last_update demo_lib vd = Suc vd"
  "vd_try_vardiff demo_lib vd hashrate target spm = (Inr (if vd = 0 then None else Some 42), 0)"
  "xf_new demo_lib pfx = Some 0"
  "xf_next_prefix_standard demo_lib xf = (Inr [ucast xf], xf + 1)"
  "xf_next_prefix_extended demo_lib xf usz = (Inr [ucast xf], xf + 1)"
  "difficulty_float demo_lib target = 0x3ff0000000000000"
  "as_utf8_or_hex demo_lib bs = ''alice''"
  "b032_try_from demo_lib bs = Inr bs"
  "b064k_try_from demo_lib bs = Inr bs"
  "seq064k_new demo_lib exts = Inr exts"
  "consensus_decode_outputs demo_lib bs = Inr [\<lparr>tx_value = 0, tx_script_pubkey = bs\<rparr>]"
  "deserialize_outputs demo_lib bs = Some [\<lparr>tx_value = 0, tx_script_pubkey = bs\<rparr>]"
  "has_work_selection demo_lib flags = bit flags 1"
  "has_requires_std_job demo_lib flags = bit flags 0"
  by (simp_all add: demo_lib_def)

lemma demo_vardiff_available [simp]: "vardiff_available demo_lib"
  by (simp add: vardiff_available_def)

section \<open>A small pool\<close>

text \<open>
  Connection 1 has the standard channel 2 and the extended channel 3, connection 2 works on
  custom jobs and has the extended channel 1.
\<close>

definition demo_config :: pool_config where
  "demo_config =
     \<lparr>pool_tag_string = ''mara'', share_batch_size = 10, shares_per_minute = 1,
      coinbase_reward_script_pubkey = [0x51], supported_extensions = [2], required_extensions = []\<rparr>"

definition demo_template :: new_template where
  "demo_template =
     \<lparr>nt_template_id = 3, nt_future_template = True, nt_version = 2, nt_coinbase_tx_version = 2,
      nt_coinbase_prefix = [], nt_coinbase_tx_input_sequence = 0,
      nt_coinbase_tx_value_remaining = 5000, nt_coinbase_tx_outputs_count = 0,
      nt_coinbase_tx_outputs = [], nt_coinbase_tx_locktime = 0, nt_merkle_path = []\<rparr>"

definition demo_prev_hash :: set_new_prev_hash_tdp where
  "demo_prev_hash =
     \<lparr>ph_template_id = 3, ph_prev_hash = 99, ph_header_timestamp = 1000, ph_n_bits = 0x1d00ffff,
      ph_target = 7\<rparr>"

definition demo_downstream :: "(u256, u256, u32) downstream" where
  "demo_downstream =
     \<lparr>downstream_data =
        \<lparr>group_channels = Some 1, extended_channels = [(3, 77)], standard_channels = [(2, 55)],
         channel_id_factory = 4, negotiated_extensions = []\<rparr>,
      ds_id = 1, requires_standard_jobs = False, requires_custom_work = False,
      ds_supported_extensions = [2], ds_required_extensions = []\<rparr>"

definition demo_custom :: "(u256, u256, u32) downstream" where
  "demo_custom =
     \<lparr>downstream_data =
        \<lparr>group_channels = None, extended_channels = [(1, 88)], standard_channels = [],
         channel_id_factory = 2, negotiated_extensions = []\<rparr>,
      ds_id = 2, requires_standard_jobs = False, requires_custom_work = True,
      ds_supported_extensions = [2], ds_required_extensions = []\<rparr>"

definition demo_data :: "(u256, u256, u32, nat, u32) channel_manager_data" where
  "demo_data =
     \<lparr>cm_downstream = [(1, demo_downstream), (2, demo_custom)],
      extranonce_prefix_factory_extended = 0, extranonce_prefix_factory_standard = 0,
      downstream_id_factory = 3, vardiff = [((1, 2), 0), ((1, 3), 4), ((2, 1), 0)],
      coinbase_outputs = [0x51], last_new_prev_hash = Some demo_prev_hash,
      last_future_template = Some demo_template\<rparr>"

definition demo_manager :: "(u256, u256, u32, nat, u32) channel_manager" where
  "demo_manager = \<lparr>channel_manager_data = demo_data, persisted = [], forwarded = []\<rparr>"

lemmas demo_defs = demo_manager_def demo_data_def demo_downstream_def demo_custom_def
  demo_template_def demo_prev_hash_def demo_config_def
lemmas map_eval = hm_get_def hm_insert_def hm_remove_def hm_keys_def hm_distinct_def

lemma demo_registry [simp]: "registry_inv demo_data"
  unfolding registry_inv_def
  by (auto simp: demo_defs map_eval data_inv_def vardiff_inv_def chan_ids_def split: if_splits)

lemma demo_room [simp]: "registry_room 2 demo_data"
  by (auto simp: registry_room_def counter_room_def demo_defs map_eval split: if_splits)

lemma demo_eval [simp, env_simps]:
  "channel_manager_data demo_manager = demo_data" "persisted demo_manager = []" "forwarded demo_manager = []"
  "hm_get (cm_downstream demo_data) 1 = Some demo_downstream"
  "hm_get (cm_downstream demo_data) 2 = Some demo_custom"
  "hm_get (cm_downstream demo_data) 3 = None"
  "hm_get (standard_channels (downstream_data demo_downstream)) 2 = Some 55"
  "hm_get (extended_channels (downstream_data demo_downstream)) 3 = Some 77"
  "hm_get (extended_channels (downstream_data demo_custom)) 1 = Some 88"
  "requires_custom_work demo_downstream = False" "requires_custom_work demo_custom = True"
  "requires_standard_jobs demo_downstream = False"
  "group_channels (downstream_data demo_downstream) = Some 1"
  "channel_id_factory (downstream_data demo_downstream) = 4"
  "last_future_template demo_data = Some demo_template"
  "last_new_prev_hash demo_data = Some demo_prev_hash"
  "coinbase_outputs demo_data = [0x51]" "nt_future_template demo_template"
  "hm_get (vardiff demo_data) (1, 2) = Some 0" "hm_get (vardiff demo_data) (1, 3) = Some 4"
  by (simp_all add: demo_defs map_eval)

end
