(* ===== verification/Pool_Templates.thy ===== *)
theory Pool_Templates
  imports Pool_Registry
begin

text \<open>
  The template-distribution handlers of the channel manager
  (\<open>channel_manager/template_distribution_message_handler.rs\<close>): a new template becomes jobs
  for every channel of every downstream, a new prev-hash activates them.
\<close>

section \<open>New templates\<close>

text \<open>
  The group channel's job for the template. A template the group channel rejects is logged
  and yields no group job.
\<close>

definition group_template_job ::
  "('sc, 'ec, 'gc, 'vd, 'xf) channel_lib \<Rightarrow> new_template \<Rightarrow> tx_out list \<Rightarrow> 'gc option \<Rightarrow>
     job option pool_result \<times> 'gc option" where
  "group_template_job L msg outputs g =
     (case g of
        None \<Rightarrow> (Ok None, None)
      | Some gc \<Rightarrow>
          (case gc_on_new_template L gc msg outputs of
             (Inl e, gc1) \<Rightarrow> (Ok None, Some gc1)
           | (Inr _, gc1) \<Rightarrow>
               (if nt_future_template msg then
                  (case gc_future_template_to_job_id L gc1 (nt_template_id msg) of
                     None \<Rightarrow> Panic ''job_id must exist''
                   | Some jid \<Rightarrow> map_res Some (expect ''future job must exist'' (gc_future_jobs L gc1 jid)))
                else map_res Some (expect ''active job must exist'' (gc_active_job L gc1)),
                Some gc1)))"

text \<open>The job a standard channel holds for the template it has just accepted.\<close>

definition standard_template_job ::
  "('sc, 'ec, 'gc, 'vd, 'xf) channel_lib \<Rightarrow> new_template \<Rightarrow> 'sc \<Rightarrow> job pool_result" where
  "standard_template_job L msg sc =
     (if nt_future_template msg then
        (case sc_future_template_to_job_id L sc (nt_template_id msg) of
           None \<Rightarrow> Panic ''job_id must exist''
         | Some jid \<Rightarrow> expect ''standard job must exist'' (sc_future_jobs L sc jid))
      else expect ''standard job must exist'' (sc_active_job L sc))"

definition extended_template_job ::
  "('sc, 'ec, 'gc, 'vd, 'xf) channel_lib \<Rightarrow> new_template \<Rightarrow> 'ec \<Rightarrow> job pool_result" where
  "extended_template_job L msg ec =
     (if nt_future_template msg then
        (case ec_future_template_to_job_id L ec (nt_template_id msg) of
           None \<Rightarrow> Panic ''job_id must exist''
         | Some jid \<Rightarrow> expect ''extended job must exist'' (ec_future_jobs L ec jid))
      else expect ''extended job must exist'' (ec_active_job L ec))"

text \<open>
  The body of the loop over the standard channels. Without a group channel the channel makes
  its own job and it is sent; with a group job the channel takes the template and the group
  job. A rejected template is a \<open>continue\<close>.
\<close>

definition template_to_standard ::
  "('sc, 'ec, 'gc, 'vd, 'xf) channel_lib \<Rightarrow> new_template \<Rightarrow> tx_out list \<Rightarrow> downstream_id \<Rightarrow> bool \<Rightarrow>
     job option \<Rightarrow> channel_id \<Rightarrow> 'sc \<Rightarrow> route_message_to list pool_result \<times> 'sc" where
  "template_to_standard L msg outputs did no_group group_job cid sc =
     (let with_group = (\<lambda>out sc1.
            case group_job of
              None \<Rightarrow> (Ok out, sc1)
            | Some j \<Rightarrow>
                (case sc_on_new_template L sc1 msg outputs of
                   (Inl e, sc2) \<Rightarrow> (Ok out, sc2)
                 | (Inr _, sc2) \<Rightarrow> (Ok out, snd (sc_on_group_channel_job L sc2 j)))) in
      if no_group then
        (case sc_on_new_template L sc msg outputs of
           (Inl e, sc1) \<Rightarrow> (Ok [], sc1)
         | (Inr _, sc1) \<Rightarrow>
             and_then (standard_template_job L msg sc1, sc1)
               (\<lambda>j sc1. with_group [Downstream did (NewMiningJob (job_msg j))] sc1))
      else with_group [] sc)"

definition template_to_extended ::
  "('sc, 'ec, 'gc, 'vd, 'xf) channel_lib \<Rightarrow> new_template \<Rightarrow> tx_out list \<Rightarrow> downstream_id \<Rightarrow>
     channel_id \<Rightarrow> 'ec \<Rightarrow> route_message_to list pool_result \<times> 'ec" where
  "template_to_extended L msg outputs did cid ec =
     (case ec_on_new_template L ec msg outputs of
        (Inl e, ec1) \<Rightarrow> (Ok [], ec1)
      | (Inr _, ec1) \<Rightarrow>
          and_then (extended_template_job L msg ec1, ec1)
            (\<lambda>j ec1. (Ok [Downstream did (NewExtendedMiningJob (job_msg j))], ec1)))"

text \<open>One downstream: the group job, the standard channels, the group job's message, the
  extended channels.\<close>

definition template_to_downstream ::
  "('sc, 'ec, 'gc, 'vd, 'xf) channel_lib \<Rightarrow> new_template \<Rightarrow> tx_out list \<Rightarrow> downstream_id \<Rightarrow>
     ('sc, 'ec, 'gc) downstream \<Rightarrow>
     route_message_to list pool_result \<times> ('sc, 'ec, 'gc) downstream" where
  "template_to_downstream L msg outputs did ds =
     (let dd = downstream_data ds in
      case group_template_job L msg outputs (group_channels dd) of (gr, g) \<Rightarrow>
      and_then (gr, ds\<lparr>downstream_data := dd\<lparr>group_channels := g\<rparr>\<rparr>) (\<lambda>group_job ds.
        let dd = downstream_data ds in
        case hm_iter_mut
               (template_to_standard L msg outputs did (group_channels dd = None) group_job)
               (standard_channels dd) of (sr, scs) \<Rightarrow>
        and_then (sr, ds\<lparr>downstream_data := dd\<lparr>standard_channels := scs\<rparr>\<rparr>) (\<lambda>standard_messages ds.
          let dd = downstream_data ds;
              group_messages = (case group_job of
                None \<Rightarrow> []
              | Some j \<Rightarrow> [Downstream did (NewExtendedMiningJob (job_msg j))]) in
          case hm_iter_mut (template_to_extended L msg outputs did) (extended_channels dd) of (er, ecs) \<Rightarrow>
          and_then (er, ds\<lparr>downstream_data := dd\<lparr>extended_channels := ecs\<rparr>\<rparr>)
            (\<lambda>extended_messages ds. (Ok (standard_messages @ group_messages @ extended_messages), ds)))))"

definition handle_new_template ::
  "('sc, 'ec, 'gc, 'vd, 'xf) channel_lib \<Rightarrow> new_template \<Rightarrow>
     ('sc, 'ec, 'gc, 'vd, 'xf) channel_manager \<Rightarrow>
     unit pool_result \<times> ('sc, 'ec, 'gc, 'vd, 'xf) channel_manager" where
  "handle_new_template L msg cm =
     (let d0 = channel_manager_data cm;
          d = (if nt_future_template msg then d0\<lparr>last_future_template := Some msg\<rparr> else d0);
          cm = cm\<lparr>channel_manager_data := d\<rparr> in
      case deserialize_outputs L (coinbase_outputs d) of
        None \<Rightarrow> (Panic ''deserialization failed'', cm)
      | Some [] \<Rightarrow> (Panic ''index out of bounds'', cm)
      | Some (out # outs) \<Rightarrow>
          let outputs = out\<lparr>tx_value := nt_coinbase_tx_value_remaining msg\<rparr> # outs in
          (case hm_iter_mut (template_to_downstream L msg outputs) (cm_downstream d) of
             (r, m) \<Rightarrow> forward_all r (cm\<lparr>channel_manager_data := d\<lparr>cm_downstream := m\<rparr>\<rparr>)))"

section \<open>New prev-hash\<close>

definition activation :: "set_new_prev_hash_tdp \<Rightarrow> channel_id \<Rightarrow> job \<Rightarrow> set_new_prev_hash" where
  "activation msg cid j =
     \<lparr>sp_channel_id = cid, sp_job_id = job_id j, sp_prev_hash = ph_prev_hash msg,
      sp_min_ntime = ph_header_timestamp msg, sp_nbits = ph_n_bits msg\<rparr>"

text \<open>The result of the group channel's \<open>on_set_new_prev_hash\<close> is ignored.\<close>

definition prev_hash_to_group ::
  "('sc, 'ec, 'gc, 'vd, 'xf) channel_lib \<Rightarrow> set_new_prev_hash_tdp \<Rightarrow> downstream_id \<Rightarrow> 'gc option \<Rightarrow>
     route_message_to list pool_result \<times> 'gc option" where
  "prev_hash_to_group L msg did g =
     (case g of
        None \<Rightarrow> (Ok [], None)
      | Some gc \<Rightarrow>
          let gc1 = snd (gc_on_set_new_prev_hash L gc msg) in
          (map_res (\<lambda>j. [Downstream did (SetNewPrevHash (activation msg (gc_group_channel_id L gc1) j))])
             (expect ''active job must exist'' (gc_active_job L gc1)),
           Some gc1))"

definition prev_hash_to_standard ::
  "('sc, 'ec, 'gc, 'vd, 'xf) channel_lib \<Rightarrow> set_new_prev_hash_tdp \<Rightarrow> downstream_id \<Rightarrow> bool \<Rightarrow>
     channel_id \<Rightarrow> 'sc \<Rightarrow> route_message_to list pool_result \<times> 'sc" where
  "prev_hash_to_standard L msg did no_group cid sc =
     (case sc_on_set_new_prev_hash L sc msg of
        (Inl e, sc1) \<Rightarrow> (Ok [], sc1)
      | (Inr _, sc1) \<Rightarrow>
          (if no_group then
             map_res (\<lambda>j. [Downstream did (SetNewPrevHash (activation msg cid j))])
               (expect ''active job must exist'' (sc_active_job L sc1))
           else Ok [],
           sc1))"

definition prev_hash_to_extended ::
  "('sc, 'ec, 'gc, 'vd, 'xf) channel_lib \<Rightarrow> set_new_prev_hash_tdp \<Rightarrow> downstream_id \<Rightarrow> bool \<Rightarrow>
     channel_id \<Rightarrow> 'ec \<Rightarrow> route_message_to list pool_result \<times> 'ec" where
  "prev_hash_to_extended L msg did custom_work cid ec =
     (case ec_on_set_new_prev_hash L ec msg of
        (Inl e, ec1) \<Rightarrow> (Ok [], ec1)
      | (Inr _, ec1) \<Rightarrow>
          (if custom_work then Ok []
           else map_res (\<lambda>j. [Downstream did (SetNewPrevHash (activation msg cid j))])
                  (expect ''active job must exist'' (ec_active_job L ec1)),
           ec1))"

definition prev_hash_to_downstream ::
  "('sc, 'ec, 'gc, 'vd, 'xf) channel_lib \<Rightarrow> set_new_prev_hash_tdp \<Rightarrow> downstream_id \<Rightarrow>
     ('sc, 'ec, 'gc) downstream \<Rightarrow>
     route_message_to list pool_result \<times> ('sc, 'ec, 'gc) downstream" where
  "prev_hash_to_downstream L msg did ds =
     (let dd = downstream_data ds in
      case prev_hash_to_group L msg did (group_channels dd) of (gr, g) \<Rightarrow>
      and_then (gr, ds\<lparr>downstream_data := dd\<lparr>group_channels := g\<rparr>\<rparr>) (\<lambda>group_messages ds.
        let dd = downstream_data ds in
        case hm_iter_mut (prev_hash_to_standard L msg did (group_channels dd = None))
               (standard_channels dd) of (sr, scs) \<Rightarrow>
        and_then (sr, ds\<lparr>downstream_data := dd\<lparr>standard_channels := scs\<rparr>\<rparr>) (\<lambda>standard_messages ds.
          let dd = downstream_data ds in
          case hm_iter_mut (prev_hash_to_extended L msg did (requires_custom_work ds))
                 (extended_channels dd) of (er, ecs) \<Rightarrow>
          and_then (er, ds\<lparr>downstream_data := dd\<lparr>extended_channels := ecs\<rparr>\<rparr>)
            (\<lambda>extended_messages ds. (Ok (group_messages @ standard_messages @ extended_messages), ds)))))"

definition handle_set_new_prev_hash ::
  "('sc, 'ec, 'gc, 'vd, 'xf) channel_lib \<Rightarrow> set_new_prev_hash_tdp \<Rightarrow>
     ('sc, 'ec, 'gc, 'vd, 'xf) channel_manager \<Rightarrow>
     unit pool_result \<times> ('sc, 'ec, 'gc, 'vd, 'xf) channel_manager" where
  "handle_set_new_prev_hash L msg cm =
     (let d = (channel_manager_data cm)\<lparr>last_new_prev_hash := Some msg\<rparr> in
      case hm_iter_mut (prev_hash_to_downstream L msg) (cm_downstream d) of
        (r, m) \<Rightarrow> forward_all r (cm\<lparr>channel_manager_data := d\<lparr>cm_downstream := m\<rparr>\<rparr>))"

section \<open>The registry under template updates\<close>

text \<open>
  Both loops replace the channels of a downstream by updated ones under the same keys and
  change nothing else of it.
\<close>

definition same_shape :: "('sc, 'ec, 'gc) downstream \<Rightarrow> ('sc, 'ec, 'gc) downstream \<Rightarrow> bool" where
  "same_shape ds ds' \<longleftrightarrow>
     ds_id ds' = ds_id ds \<and> requires_standard_jobs ds' = requires_standard_jobs ds \<and>
     requires_custom_work ds' = requires_custom_work ds \<and>
     ds_supported_extensions ds' = ds_supported_extensions ds \<and>
     ds_required_extensions ds' = ds_required_extensions ds \<and>
     (let dd = downstream_data ds; dd' = downstream_data ds' in
      map fst (standard_channels dd') = map fst (standard_channels dd) \<and>
      map fst (extended_channels dd') = map fst (extended_channels dd) \<and>
      (group_channels dd' = None \<longleftrightarrow> group_channels dd = None) \<and>
      channel_id_factory dd' = channel_id_factory dd \<and>
      negotiated_extensions dd' = negotiated_extensions dd)"

lemma same_shape_refl [simp]: "same_shape ds ds"
  by (simp add: same_shape_def)

lemma same_shape_keys:
  assumes "same_shape ds ds'"
  shows "hm_keys (standard_channels (downstream_data ds')) = hm_keys (standard_channels (downstream_data ds))"
    and "hm_keys (extended_channels (downstream_data ds')) = hm_keys (extended_channels (downstream_data ds))"
  using assms unfolding same_shape_def Let_def by (metis hm_keys_def set_map)+

lemma same_shape_chan_ids: "same_shape ds ds' \<Longrightarrow> chan_ids (downstream_data ds') = chan_ids (downstream_data ds)"
  by (simp add: chan_ids_def same_shape_keys)

lemma same_shape_data_inv: "same_shape ds ds' \<Longrightarrow> data_inv (downstream_data ds') = data_inv (downstream_data ds)"
  by (simp add: data_inv_def same_shape_chan_ids same_shape_keys hm_distinct_def)
    (simp add: same_shape_def Let_def)

lemma same_shape_trans: "same_shape a b \<Longrightarrow> same_shape b c \<Longrightarrow> same_shape a c"
  by (simp add: same_shape_def Let_def)

lemma same_shape_group:
  "(g = None \<longleftrightarrow> group_channels (downstream_data ds) = None) \<Longrightarrow>
     same_shape ds (ds\<lparr>downstream_data := (downstream_data ds)\<lparr>group_channels := g\<rparr>\<rparr>)"
  by (simp add: same_shape_def)

lemma same_shape_standard:
  "same_shape ds (ds\<lparr>downstream_data := (downstream_data ds)\<lparr>standard_channels :=
     snd (hm_iter_mut f (standard_channels (downstream_data ds)))\<rparr>\<rparr>)"
  by (simp add: same_shape_def)

lemma same_shape_extended:
  "same_shape ds (ds\<lparr>downstream_data := (downstream_data ds)\<lparr>extended_channels :=
     snd (hm_iter_mut f (extended_channels (downstream_data ds)))\<rparr>\<rparr>)"
  by (simp add: same_shape_def)

lemma and_then_shape:
  assumes "same_shape ds ds1" and "\<And>a. same_shape ds1 (snd (k a ds1))"
  shows "same_shape ds (snd (and_then (r, ds1) k))"
  using assms same_shape_trans [OF assms(1) assms(2)] by (cases r) simp_all

lemma group_template_job_None:
  "snd (group_template_job L msg outputs g) = None \<longleftrightarrow> g = None"
  by (simp add: group_template_job_def split: option.split sum.split prod.split)

lemma prev_hash_to_group_None: "snd (prev_hash_to_group L msg did g) = None \<longleftrightarrow> g = None"
  by (simp add: prev_hash_to_group_def Let_def split: option.split)

lemma template_to_downstream_shape: "same_shape ds (snd (template_to_downstream L msg outputs did ds))"
  unfolding template_to_downstream_def Let_def case_prod_unfold
  by (intro and_then_shape same_shape_group same_shape_standard same_shape_extended
      group_template_job_None) simp

lemma prev_hash_to_downstream_shape: "same_shape ds (snd (prev_hash_to_downstream L msg did ds))"
  unfolding prev_hash_to_downstream_def Let_def case_prod_unfold
  by (intro and_then_shape same_shape_group same_shape_standard same_shape_extended
      prev_hash_to_group_None) simp

text \<open>The same for the whole map of downstreams.\<close>

definition same_registry ::
  "(downstream_id, ('sc, 'ec, 'gc) downstream) hash_map \<Rightarrow>
     (downstream_id, ('sc, 'ec, 'gc) downstream) hash_map \<Rightarrow> bool" where
  "same_registry dm dm' \<longleftrightarrow>
     map fst dm' = map fst dm \<and>
     (\<forall>did ds'. hm_get dm' did = Some ds' \<longrightarrow> (\<exists>ds. hm_get dm did = Some ds \<and> same_shape ds ds'))"

lemma registry_same_step:
  assumes inv: "registry_inv d" and reg: "same_registry (cm_downstream d) (cm_downstream d')"
    and vd: "map fst (vardiff d') = map fst (vardiff d)"
    and fac: "downstream_id_factory d' = downstream_id_factory d"
  shows "registry_step 0 d d'"
proof -
  have old: "\<exists>ds. hm_get (cm_downstream d) did = Some ds \<and> same_shape ds ds'"
    if "hm_get (cm_downstream d') did = Some ds'" for did ds'
    using reg that by (simp add: same_registry_def)
  have vk: "hm_keys (vardiff d') = hm_keys (vardiff d)"
      and dk: "hm_keys (cm_downstream d') = hm_keys (cm_downstream d)"
    using vd reg unfolding same_registry_def by (metis hm_keys_def set_map)+
  have "ds_id ds' = did \<and> did < downstream_id_factory d' \<and> data_inv (downstream_data ds') \<and>
      vardiff_inv did d' (downstream_data ds')"
    if h: "hm_get (cm_downstream d') did = Some ds'" for did ds'
  proof -
    obtain ds where ds: "hm_get (cm_downstream d) did = Some ds" "same_shape ds ds'"
      using old [OF h] by (elim exE conjE)
    then have "ds_id ds' = ds_id ds" by (simp add: same_shape_def)
    then show ?thesis
      using inv ds fac vk
      by (simp add: registry_inv_def vardiff_inv_def same_shape_data_inv same_shape_chan_ids)
  qed
  moreover have "hm_distinct (cm_downstream d')" "hm_distinct (vardiff d')"
    using inv reg vd by (simp_all add: registry_inv_def same_registry_def hm_distinct_def)
  ultimately have "registry_inv d'"
    using inv vk dk fac unfolding registry_inv_def by simp
  moreover have "channel_id_factory (downstream_data ds') = channel_id_factory (downstream_data ds)"
    if "same_shape ds ds'" for ds ds' :: "('sc, 'ec, 'gc) downstream"
    using that by (simp add: same_shape_def Let_def)
  ultimately show ?thesis
    using old unfolding registry_step_def by (fastforce dest: old)
qed

lemma registry_shape_step:
  assumes inv: "registry_inv d"
    and m: "cm_downstream d' = snd (hm_iter_mut f (cm_downstream d))"
    and shape: "\<And>did ds. same_shape ds (snd (f did ds))"
    and same: "vardiff d' = vardiff d" "downstream_id_factory d' = downstream_id_factory d"
  shows "registry_step 0 d d'"
proof (rule registry_same_step [OF inv])
  have "\<exists>ds. hm_get (cm_downstream d) did = Some ds \<and> same_shape ds ds'"
    if "hm_get (cm_downstream d') did = Some ds'" for did ds'
    by (rule hm_iter_mut_get [OF that [unfolded m]]) (use shape in auto)
  then show "same_registry (cm_downstream d) (cm_downstream d')"
    by (simp add: same_registry_def m)
qed (simp_all add: same)

lemma new_template_step:
  assumes "registry_inv (channel_manager_data cm)"
  shows "registry_step 0 (channel_manager_data cm) (channel_manager_data (snd (handle_new_template L msg cm)))"
proof -
  let ?d = "channel_manager_data cm"
  let ?d1 = "if nt_future_template msg then ?d\<lparr>last_future_template := Some msg\<rparr> else ?d"
  have d1: "cm_downstream ?d1 = cm_downstream ?d" "vardiff ?d1 = vardiff ?d"
      "downstream_id_factory ?d1 = downstream_id_factory ?d"
    by simp_all
  have "registry_step 0 ?d ?d1"
    using assms by (simp add: registry_step_def registry_inv_def vardiff_inv_def)
  moreover have "registry_step 0 ?d
      (?d1\<lparr>cm_downstream := snd (hm_iter_mut (template_to_downstream L msg outputs) (cm_downstream ?d1))\<rparr>)"
    for outputs
    by (rule registry_shape_step [OF assms, where f = "template_to_downstream L msg outputs"])
      (simp_all add: template_to_downstream_shape)
  ultimately show ?thesis
    unfolding handle_new_template_def Let_def
    by (simp only: case_prod_unfold snd_forward_all_data split: option.split list.split) simp
qed

lemma set_new_prev_hash_step:
  assumes "registry_inv (channel_manager_data cm)"
  shows "registry_step 0 (channel_manager_data cm)
    (channel_manager_data (snd (handle_set_new_prev_hash L msg cm)))"
  unfolding handle_set_new_prev_hash_def Let_def case_prod_unfold snd_forward_all_data
  by (rule registry_shape_step [OF assms, where f = "prev_hash_to_downstream L msg"])
    (simp_all add: prev_hash_to_downstream_shape)

section \<open>Delivery of jobs\<close>

text \<open>
  What the handlers rely on in the channel library: a channel that accepts a template has
  its job on file, a future template's under the template's identifier and any other as the
  active job.
\<close>

definition files_job ::
  "new_template \<Rightarrow> (u64 \<Rightarrow> u32 option) \<Rightarrow> (u32 \<Rightarrow> job option) \<Rightarrow> job option \<Rightarrow> bool" where
  "files_job msg job_ids jobs active \<longleftrightarrow>
     (if nt_future_template msg
      then case job_ids (nt_template_id msg) of None \<Rightarrow> False | Some jid \<Rightarrow> jobs jid \<noteq> None
      else active \<noteq> None)"

definition template_jobs_on_file :: "('sc, 'ec, 'gc, 'vd, 'xf) channel_lib \<Rightarrow> bool" where
  "template_jobs_on_file L \<longleftrightarrow>
     (\<forall>sc msg outs sc'. sc_on_new_template L sc msg outs = (Inr (), sc') \<longrightarrow>
        files_job msg (sc_future_template_to_job_id L sc') (sc_future_jobs L sc') (sc_active_job L sc')) \<and>
     (\<forall>ec msg outs ec'. ec_on_new_template L ec msg outs = (Inr (), ec') \<longrightarrow>
        files_job msg (ec_future_template_to_job_id L ec') (ec_future_jobs L ec') (ec_active_job L ec')) \<and>
     (\<forall>gc msg outs gc'. gc_on_new_template L gc msg outs = (Inr (), gc') \<longrightarrow>
        files_job msg (gc_future_template_to_job_id L gc') (gc_future_jobs L gc') (gc_active_job L gc'))"

lemma standard_job_ok:
  assumes "template_jobs_on_file L" and "sc_on_new_template L sc msg outs = (Inr u, sc')"
  shows "is_ok (standard_template_job L msg sc')"
proof -
  have "files_job msg (sc_future_template_to_job_id L sc') (sc_future_jobs L sc') (sc_active_job L sc')"
    using assms unfolding template_jobs_on_file_def by (cases u) simp
  then show ?thesis
    by (auto simp: files_job_def standard_template_job_def split: option.splits if_splits)
qed

lemma extended_job_ok:
  assumes "template_jobs_on_file L" and "ec_on_new_template L ec msg outs = (Inr u, ec')"
  shows "is_ok (extended_template_job L msg ec')"
proof -
  have "files_job msg (ec_future_template_to_job_id L ec') (ec_future_jobs L ec') (ec_active_job L ec')"
    using assms unfolding template_jobs_on_file_def by (cases u) simp
  then show ?thesis
    by (auto simp: files_job_def extended_template_job_def split: option.splits if_splits)
qed

lemma group_job_ok:
  assumes "template_jobs_on_file L"
  shows "is_ok (fst (group_template_job L msg outs g))"
proof -
  have "files_job msg (gc_future_template_to_job_id L gc') (gc_future_jobs L gc') (gc_active_job L gc')"
    if "gc_on_new_template L gc msg outs = (Inr u, gc')" for gc u gc'
    using assms that unfolding template_jobs_on_file_def by (cases u) simp
  then show ?thesis
    by (fastforce simp: files_job_def group_template_job_def split: option.split sum.split prod.split if_splits)
qed

lemma template_to_standard_ok:
  assumes "template_jobs_on_file L"
  shows "is_ok (fst (template_to_standard L msg outs did ng gj cid sc))"
proof -
  have "\<exists>j. standard_template_job L msg sc' = Ok j"
    if "sc_on_new_template L sc msg outs = (Inr u, sc')" for u sc'
    using standard_job_ok [OF assms that] by (simp add: is_ok_iff)
  then show ?thesis
    by (fastforce simp: template_to_standard_def split: option.split sum.split prod.split)
qed

lemma template_to_extended_ok:
  assumes "template_jobs_on_file L"
  shows "is_ok (fst (template_to_extended L msg outs did cid ec))"
proof -
  have "\<exists>j. extended_template_job L msg ec' = Ok j"
    if "ec_on_new_template L ec msg outs = (Inr u, ec')" for u ec'
    using extended_job_ok [OF assms that] by (simp add: is_ok_iff)
  then show ?thesis
    by (fastforce simp: template_to_extended_def split: sum.split prod.split)
qed

text \<open>
  The three stages of one downstream under that law: none fails, and each loop visits every
  channel.
\<close>

lemma template_to_downstream_stages:
  assumes "template_jobs_on_file L"
  obtains gj g so scs eo ecs where
    "group_template_job L msg outs (group_channels (downstream_data ds)) = (Ok gj, g)"
    "hm_iter_mut (template_to_standard L msg outs did (g = None) gj)
       (standard_channels (downstream_data ds)) = (Ok so, scs)"
    "hm_iter_mut (template_to_extended L msg outs did) (extended_channels (downstream_data ds)) = (Ok eo, ecs)"
    "template_to_downstream L msg outs did ds =
       (Ok (so @ (case gj of None \<Rightarrow> [] | Some j \<Rightarrow> [Downstream did (NewExtendedMiningJob (job_msg j))]) @ eo),
        ds\<lparr>downstream_data := (downstream_data ds)\<lparr>group_channels := g, standard_channels := scs,
          extended_channels := ecs\<rparr>\<rparr>)"
proof -
  let ?dd = "downstream_data ds"
  obtain gj g where g: "group_template_job L msg outs (group_channels ?dd) = (Ok gj, g)"
    using group_job_ok [OF assms] by (metis is_ok_iff prod.collapse)
  obtain so scs where s: "hm_iter_mut (template_to_standard L msg outs did (g = None) gj)
       (standard_channels ?dd) = (Ok so, scs)"
    using hm_iter_mut_ok(1) [where f = "template_to_standard L msg outs did (g = None) gj",
        OF template_to_standard_ok [OF assms]] by (metis is_ok_iff prod.collapse)
  obtain eo ecs where e: "hm_iter_mut (template_to_extended L msg outs did)
       (extended_channels ?dd) = (Ok eo, ecs)"
    using hm_iter_mut_ok(1) [where f = "template_to_extended L msg outs did",
        OF template_to_extended_ok [OF assms]] by (metis is_ok_iff prod.collapse)
  show thesis
    by (rule that [OF g s e]) (simp add: template_to_downstream_def g s e)
qed

lemma handle_new_template_ok:
  assumes "template_jobs_on_file L"
    and outs: "deserialize_outputs L (coinbase_outputs (channel_manager_data cm)) = Some (out # rest)"
  obtains msgs m cm' where
    "hm_iter_mut (template_to_downstream L msg (out\<lparr>tx_value := nt_coinbase_tx_value_remaining msg\<rparr> # rest))
       (cm_downstream (channel_manager_data cm)) = (Ok msgs, m)"
    "handle_new_template L msg cm = (Ok (), cm')" "forwarded cm' = forwarded cm @ msgs"
    "cm_downstream (channel_manager_data cm') = m"
proof -
  let ?f = "template_to_downstream L msg (out\<lparr>tx_value := nt_coinbase_tx_value_remaining msg\<rparr> # rest)"
  have "is_ok (fst (?f did ds))" for did ds
    by (rule template_to_downstream_stages [OF assms(1), where ds = ds and did = did and msg = msg and
          outs = "out\<lparr>tx_value := nt_coinbase_tx_value_remaining msg\<rparr> # rest"]) simp
  then obtain msgs m where m: "hm_iter_mut ?f (cm_downstream (channel_manager_data cm)) = (Ok msgs, m)"
    using hm_iter_mut_ok(1) [where f = ?f] by (metis is_ok_iff prod.collapse)
  have "fst (handle_new_template L msg cm) = Ok ()"
      "forwarded (snd (handle_new_template L msg cm)) = forwarded cm @ msgs"
      "cm_downstream (channel_manager_data (snd (handle_new_template L msg cm))) = m"
    by (simp_all add: handle_new_template_def Let_def outs m forward_all_def)
  then show thesis
    using that [OF m, of "snd (handle_new_template L msg cm)"] by (metis prod.collapse)
qed

section \<open>The messages of a prev-hash\<close>

text \<open>
  A prev-hash is announced to the group channel, to the standard channels of a connection
  without one, and to the extended channels of a connection that does not work on custom jobs.
\<close>

definition announced :: "('sc, 'ec, 'gc) downstream \<Rightarrow> channel_id \<Rightarrow> bool" where
  "announced ds cid \<longleftrightarrow>
     (let dd = downstream_data ds in
      group_channels dd \<noteq> None \<or> cid \<in> hm_keys (standard_channels dd) \<or>
      (\<not> requires_custom_work ds \<and> cid \<in> hm_keys (extended_channels dd)))"

definition announcement ::
  "set_new_prev_hash_tdp \<Rightarrow> downstream_id \<Rightarrow> ('sc, 'ec, 'gc) downstream \<Rightarrow> route_message_to \<Rightarrow> bool" where
  "announcement msg did ds m \<longleftrightarrow>
     (\<exists>cid j. m = Downstream did (SetNewPrevHash (activation msg cid j)) \<and> announced ds cid)"

lemma announcementI:
  "announced ds cid \<Longrightarrow> announcement msg did ds (Downstream did (SetNewPrevHash (activation msg cid j)))"
  unfolding announcement_def by blast

lemma prev_hash_to_downstream_messages:
  assumes "prev_hash_to_downstream L msg did ds = (Ok out, ds')"
  shows "\<forall>m\<in>set out. announcement msg did ds m"
proof -
  let ?dd = "downstream_data ds"
  obtain go g so scs eo ecs where
    g: "prev_hash_to_group L msg did (group_channels ?dd) = (Ok go, g)"
    and s: "hm_iter_mut (prev_hash_to_standard L msg did (g = None)) (standard_channels ?dd) = (Ok so, scs)"
    and e: "hm_iter_mut (prev_hash_to_extended L msg did (requires_custom_work ds))
      (extended_channels ?dd) = (Ok eo, ecs)"
    and out: "out = go @ so @ eo"
  proof (cases "prev_hash_to_group L msg did (group_channels ?dd)")
    case g: (Pair r g)
    show thesis
      using assms g that
      by (cases "hm_iter_mut (prev_hash_to_standard L msg did (g = None)) (standard_channels ?dd)";
          cases "hm_iter_mut (prev_hash_to_extended L msg did (requires_custom_work ds)) (extended_channels ?dd)")
        (auto simp: prev_hash_to_downstream_def and_then_Ok)
  qed
  have "\<forall>m\<in>set go. announcement msg did ds m"
    using g
    by (auto simp: prev_hash_to_group_def Let_def map_res_Ok announced_def
        intro!: announcementI split: option.splits)
  moreover have "\<forall>m\<in>set so. announcement msg did ds m"
    by (rule hm_iter_mut_out [OF s])
      (auto simp: prev_hash_to_standard_def map_res_Ok announced_def Let_def
        intro!: announcementI dest!: hm_in_set_keys split: prod.splits sum.splits if_splits)
  moreover have "\<forall>m\<in>set eo. announcement msg did ds m"
    by (rule hm_iter_mut_out [OF e])
      (auto simp: prev_hash_to_extended_def map_res_Ok announced_def Let_def
        intro!: announcementI dest!: hm_in_set_keys split: prod.splits sum.splits if_splits)
  ultimately show ?thesis by (auto simp: out)
qed

end
