(* ===== verification/Pool_Source.thy ===== *)
theory Pool_Source
  imports Template_Provider Pool_Example Pool_Templates
begin

text \<open>
  The pool behind the template provider: what the channel manager of the pool holds after it has
  handled the messages that the provider sent, in their order.
\<close>

fun pool_takes ::
  "('sc, 'ec, 'gc, 'vd, 'xf) channel_lib \<Rightarrow> tdp_out list \<Rightarrow>
     ('sc, 'ec, 'gc, 'vd, 'xf) channel_manager \<Rightarrow> ('sc, 'ec, 'gc, 'vd, 'xf) channel_manager" where
  "pool_takes L [] cm = cm"
| "pool_takes L (Out_NewTemplate m # r) cm = pool_takes L r (snd (handle_new_template L m cm))"
| "pool_takes L (Out_SetNewPrevHash h # r) cm = pool_takes L r (snd (handle_set_new_prev_hash L h cm))"
| "pool_takes L (_ # r) cm = pool_takes L r cm"

abbreviation held_template ::
  "('sc, 'ec, 'gc, 'vd, 'xf) channel_manager \<Rightarrow> new_template option" where
  "held_template cm \<equiv> last_future_template (channel_manager_data cm)"

abbreviation held_prev_hash ::
  "('sc, 'ec, 'gc, 'vd, 'xf) channel_manager \<Rightarrow> set_new_prev_hash_tdp option" where
  "held_prev_hash cm \<equiv> last_new_prev_hash (channel_manager_data cm)"

lemma new_template_held:
  "held_template (snd (handle_new_template L m cm)) =
     (if nt_future_template m then Some m else held_template cm)"
  "held_prev_hash (snd (handle_new_template L m cm)) = held_prev_hash cm"
  unfolding handle_new_template_def Let_def
  by (simp_all only: case_prod_unfold snd_forward_all_data split: option.split list.split) simp_all

lemma set_new_prev_hash_held:
  "held_template (snd (handle_set_new_prev_hash L h cm)) = held_template cm"
  "held_prev_hash (snd (handle_set_new_prev_hash L h cm)) = Some h"
  unfolding handle_set_new_prev_hash_def Let_def case_prod_unfold snd_forward_all_data by simp_all

text \<open>The template and the previous hash that the pool hands to a new channel belong together.\<close>

definition matching :: "('sc, 'ec, 'gc, 'vd, 'xf) channel_manager \<Rightarrow> bool" where
  "matching cm \<longleftrightarrow>
     map_option nt_template_id (held_template cm) = map_option ph_template_id (held_prev_hash cm)"

lemma pool_takes_matching: "paired xs \<Longrightarrow> matching cm \<Longrightarrow> matching (pool_takes L xs cm)"
proof (induction xs arbitrary: cm rule: paired.induct)
  case (2 m r)
  show ?case
  proof (cases "nt_future_template m")
    case True
    then obtain h r' where r: "r = Out_SetNewPrevHash h # r'" and h: "ph_template_id h = nt_template_id m" "paired r'"
      using 2 by (auto split: list.splits tdp_out.splits)
    have "matching (snd (handle_set_new_prev_hash L h (snd (handle_new_template L m cm))))"
      using True h by (simp add: matching_def new_template_held set_new_prev_hash_held)
    then show ?thesis using 2(1) [OF True r] h r by simp
  next
    case False
    then show ?thesis using 2 by (simp add: matching_def new_template_held)
  qed
qed (simp_all add: matching_def)

lemma pool_takes_prev_hash:
  "map_option ph_prev_hash (held_prev_hash (pool_takes L xs cm)) =
     last_prev (map_option ph_prev_hash (held_prev_hash cm)) xs"
  by (induction L xs cm rule: pool_takes.induct) (simp_all add: new_template_held set_new_prev_hash_held)

lemma pool_takes_recent:
  "(\<forall>t. held_template cm = Some t \<longrightarrow> nt_template_id t \<in> set acc) \<Longrightarrow>
     held_template (pool_takes L xs cm) = Some t \<Longrightarrow> nt_template_id t \<in> set (recent acc xs)"
proof (induction xs arbitrary: acc cm)
  case (Cons x xs)
  show ?case
  proof (cases x)
    case (Out_NewTemplate m)
    then show ?thesis
      using Cons.prems Cons.IH [of "snd (handle_new_template L m cm)"]
      by (simp add: new_template_held split: if_splits)
  next
    case (Out_SetNewPrevHash h)
    then show ?thesis
      using Cons.prems Cons.IH [of "snd (handle_set_new_prev_hash L h cm)"]
      by (simp add: set_new_prev_hash_held)
  qed (use Cons in simp_all)
qed simp

section \<open>What a consumer relies on\<close>

text \<open>
  The contract of a template source in a good state: it sends activations only with their future
  templates, its tip is the last one it activated, and it holds the templates of the tip.
\<close>

locale template_source =
  fixes sent :: "'s \<Rightarrow> tdp_out list"
    and tip :: "'s \<Rightarrow> u256 option"
    and holds :: "'s \<Rightarrow> u64 \<Rightarrow> bool"
    and good :: "'s \<Rightarrow> bool"
  assumes sent_paired: "good s \<Longrightarrow> paired (sent s)"
    and tip_sent: "good s \<Longrightarrow> last_prev None (sent s) = tip s"
    and tip_known: "good s \<Longrightarrow> tip s \<noteq> None"
    and recent_held: "good s \<Longrightarrow> k \<in> set (recent [] (sent s)) \<Longrightarrow> holds s k"
begin

lemma consumer_consistent:
  assumes s: "good s" and cm: "held_template cm = None" "held_prev_hash cm = None"
    and cm': "cm' = pool_takes L (sent s) cm"
  shows "\<exists>t p. held_template cm' = Some t \<and> held_prev_hash cm' = Some p \<and>
    ph_template_id p = nt_template_id t \<and> tip s = Some (ph_prev_hash p) \<and> holds s (nt_template_id t)"
proof -
  have "map_option ph_prev_hash (held_prev_hash cm') = tip s"
    using tip_sent [OF s] cm by (simp add: cm' pool_takes_prev_hash)
  then obtain p where p: "held_prev_hash cm' = Some p" "tip s = Some (ph_prev_hash p)"
    using tip_known [OF s] by auto
  have "matching cm'"
    unfolding cm' by (rule pool_takes_matching [OF sent_paired [OF s]]) (simp add: matching_def cm)
  then obtain t where t: "held_template cm' = Some t" "nt_template_id t = ph_template_id p"
    using p by (auto simp: matching_def)
  have "nt_template_id t \<in> set (recent [] (sent s))"
    using pool_takes_recent [of cm "[]" L "sent s" t] cm(1) cm' t by simp
  then show ?thesis using recent_held [OF s] p t by auto
qed

end

definition provider_good :: "'c bitcoin_core \<Rightarrow> bool" where
  "provider_good s \<longleftrightarrow> (\<exists>n. core_ok n s) \<and> bc_booted s \<and> \<not> bc_cancelled s"

interpretation provider: template_source bc_out bc_current_prev_hash
  "\<lambda>s k. k \<in> hm_keys (bc_template_data s)" provider_good
  by unfold_locales (auto simp: provider_good_def core_ok_def live_def)

text \<open>
  C30. The pool behind the provider works on a template that the provider can complete: after the pool has
  handled everything that a started and not ended provider sent, whatever its channels answered,
  the future template and the previous hash that it gives to a new channel have the same template
  identifier, the previous hash is the provider's chain tip, and the provider still holds the
  template, so a block found on it is submitted.
\<close>

theorem pool_template_held_by_provider:
  assumes "length es < 2 ^ 64" and "\<forall>e \<in> set es. event_input e"
    and "s = core_run T es (bitcoin_core_new fee_threshold min_interval)"
    and "bc_booted s" and "\<not> bc_cancelled s"
    and "held_template cm = None" and "held_prev_hash cm = None"
    and "cm' = pool_takes L (bc_out s) cm"
  shows "\<exists>t p. held_template cm' = Some t \<and> held_prev_hash cm' = Some p \<and>
    ph_template_id p = nt_template_id t \<and> bc_current_prev_hash s = Some (ph_prev_hash p) \<and>
    nt_template_id t \<in> hm_keys (bc_template_data s)"
proof -
  have "core_ok (length es) s"
    using core_run_ok [OF core_ok_new, of es T fee_threshold min_interval] assms(1-3) by simp
  then have "provider_good s" using assms(4,5) by (auto simp: provider_good_def)
  then show ?thesis by (rule provider.consumer_consistent) (fact assms)+
qed

definition fresh_manager where
  "fresh_manager =
     demo_manager\<lparr>channel_manager_data := (channel_manager_data demo_manager)
       \<lparr>last_future_template := None, last_new_prev_hash := None\<rparr>\<rparr>"

theorem pool_template_held_by_provider_witness:
  "\<exists>t p. held_template (pool_takes demo_lib (bc_out (core_run plain_codecs tp_events tp_new)) fresh_manager) = Some t \<and>
     held_prev_hash (pool_takes demo_lib (bc_out (core_run plain_codecs tp_events tp_new)) fresh_manager) = Some p \<and>
     ph_template_id p = nt_template_id t \<and>
     bc_current_prev_hash (core_run plain_codecs tp_events tp_new) = Some (ph_prev_hash p) \<and>
     nt_template_id t \<in> hm_keys (bc_template_data (core_run plain_codecs tp_events tp_new))"
proof (rule pool_template_held_by_provider [OF _ tp_events_input _ _ _ _ _ refl])
  show "core_run plain_codecs tp_events tp_new = core_run plain_codecs tp_events (bitcoin_core_new 100 5)"
    by (simp add: tp_new_def)
qed (use tp_run in \<open>simp_all add: fresh_manager_def tp_events_def\<close>)

end
