(* ===== verification/Pool_Vardiff.thy ===== *)
theory Pool_Vardiff
  imports Pool_Templates
begin

text \<open>
  The periodic difficulty adjustment of the channel manager (\<open>channel_manager/mod.rs\<close>,
  \<open>run_vardiff\<close>): one pass over the vardiff states, each applied to the channel it belongs
  to, and a \<open>SetTarget\<close> for every channel whose target was changed. The loop borrows the
  vardiff map mutably while it updates the channels of the downstream map, so both are
  threaded through it.
\<close>

section \<open>One channel\<close>

definition run_vardiff_on_extended_channel ::
  "('sc, 'ec, 'gc, 'vd, 'xf) channel_lib \<Rightarrow> downstream_id \<Rightarrow> channel_id \<Rightarrow> 'ec \<Rightarrow> 'vd \<Rightarrow>
     route_message_to list \<times> 'ec \<times> 'vd" where
  "run_vardiff_on_extended_channel L did cid ec vd =
     (case vd_try_vardiff L vd (ec_nominal_hashrate L ec) (ec_target L ec) (ec_shares_per_minute L ec) of
        (Inl e, vd') \<Rightarrow> ([], ec, vd')
      | (Inr None, vd') \<Rightarrow> ([], ec, vd')
      | (Inr (Some new_hashrate), vd') \<Rightarrow>
          (case ec_update_channel L ec new_hashrate None of
             (Inr _, ec') \<Rightarrow> ([Downstream did (SetTarget cid (ec_target L ec'))], ec', vd')
           | (Inl e, ec') \<Rightarrow> ([], ec', vd')))"

definition run_vardiff_on_standard_channel ::
  "('sc, 'ec, 'gc, 'vd, 'xf) channel_lib \<Rightarrow> downstream_id \<Rightarrow> channel_id \<Rightarrow> 'sc \<Rightarrow> 'vd \<Rightarrow>
     route_message_to list \<times> 'sc \<times> 'vd" where
  "run_vardiff_on_standard_channel L did cid sc vd =
     (case vd_try_vardiff L vd (sc_nominal_hashrate L sc) (sc_target L sc) (sc_shares_per_minute L sc) of
        (Inl e, vd') \<Rightarrow> ([], sc, vd')
      | (Inr None, vd') \<Rightarrow> ([], sc, vd')
      | (Inr (Some new_hashrate), vd') \<Rightarrow>
          (case sc_update_channel L sc new_hashrate None of
             (Inr _, sc') \<Rightarrow> ([Downstream did (SetTarget cid (sc_target L sc'))], sc', vd')
           | (Inl e, sc') \<Rightarrow> ([], sc', vd')))"

section \<open>One pass\<close>

definition vardiff_data ::
  "('sc, 'ec, 'gc, 'vd, 'xf) channel_lib \<Rightarrow> downstream_id \<Rightarrow> channel_id \<Rightarrow> 'vd \<Rightarrow>
     ('sc, 'ec, 'gc) downstream_data \<Rightarrow>
     route_message_to list \<times> 'vd \<times> ('sc, 'ec, 'gc) downstream_data" where
  "vardiff_data L did cid vd dd =
     (let (m1, vd1, dd1) =
            (case hm_get (standard_channels dd) cid of
               None \<Rightarrow> ([], vd, dd)
             | Some sc \<Rightarrow>
                 (case run_vardiff_on_standard_channel L did cid sc vd of (m, sc', vd') \<Rightarrow>
                    (m, vd', dd\<lparr>standard_channels := hm_insert cid sc' (standard_channels dd)\<rparr>)));
          (m2, vd2, dd2) =
            (case hm_get (extended_channels dd1) cid of
               None \<Rightarrow> ([], vd1, dd1)
             | Some ec \<Rightarrow>
                 (case run_vardiff_on_extended_channel L did cid ec vd1 of (m, ec', vd') \<Rightarrow>
                    (m, vd', dd1\<lparr>extended_channels := hm_insert cid ec' (extended_channels dd1)\<rparr>)))
      in (m1 @ m2, vd2, dd2))"

fun vardiff_entries ::
  "('sc, 'ec, 'gc, 'vd, 'xf) channel_lib \<Rightarrow> (vardiff_key, 'vd) hash_map \<Rightarrow>
     (downstream_id, ('sc, 'ec, 'gc) downstream) hash_map \<Rightarrow>
     route_message_to list \<times> (vardiff_key, 'vd) hash_map \<times>
       (downstream_id, ('sc, 'ec, 'gc) downstream) hash_map" where
  "vardiff_entries L [] dm = ([], [], dm)"
| "vardiff_entries L (((did, cid), vd) # rest) dm =
     (case hm_get dm did of
        None \<Rightarrow>
          (case vardiff_entries L rest dm of (ms, vs, dm') \<Rightarrow> (ms, ((did, cid), vd) # vs, dm'))
      | Some ds \<Rightarrow>
          (case vardiff_data L did cid vd (downstream_data ds) of (m, vd', dd') \<Rightarrow>
           (case vardiff_entries L rest (hm_insert did (ds\<lparr>downstream_data := dd'\<rparr>) dm) of
              (ms, vs, dm') \<Rightarrow> (m @ ms, ((did, cid), vd') # vs, dm'))))"

definition run_vardiff ::
  "('sc, 'ec, 'gc, 'vd, 'xf) channel_lib \<Rightarrow> ('sc, 'ec, 'gc, 'vd, 'xf) channel_manager \<Rightarrow>
     unit pool_result \<times> ('sc, 'ec, 'gc, 'vd, 'xf) channel_manager" where
  "run_vardiff L cm =
     (let d = channel_manager_data cm in
      case vardiff_entries L (vardiff d) (cm_downstream d) of (messages, vs, dm) \<Rightarrow>
        forward_all (Ok messages) (cm\<lparr>channel_manager_data := d\<lparr>vardiff := vs, cm_downstream := dm\<rparr>\<rparr>))"

section \<open>The registry under a pass\<close>

lemma map_fst_hm_insert: "k \<in> hm_keys m \<Longrightarrow> map fst (hm_insert k v m) = map fst m"
  unfolding hm_insert_def hm_keys_def by (simp add: update_keys)

lemma vardiff_data_shape:
  assumes "vardiff_data L did cid vd (downstream_data ds) = (m, vd', dd')"
  shows "same_shape ds (ds\<lparr>downstream_data := dd'\<rparr>)"
  using assms
  by (auto simp: vardiff_data_def Let_def same_shape_def map_fst_hm_insert hm_get_in_keys
      split: option.splits prod.splits)

lemma same_registry_insert:
  assumes "hm_get dm did = Some ds" and "same_shape ds ds'"
  shows "same_registry dm (hm_insert did ds' dm)"
  using assms by (auto simp: same_registry_def map_fst_hm_insert hm_get_in_keys)

lemma same_registry_trans: "same_registry a b \<Longrightarrow> same_registry b c \<Longrightarrow> same_registry a c"
  unfolding same_registry_def by (metis same_shape_trans)

lemma vardiff_entries_keys: "vardiff_entries L vs dm = (ms, vs', dm') \<Longrightarrow> map fst vs' = map fst vs"
  by (induction L vs dm arbitrary: ms vs' dm' rule: vardiff_entries.induct)
    (auto split: option.splits prod.splits)

lemma vardiff_entries_registry: "vardiff_entries L vs dm = (ms, vs', dm') \<Longrightarrow> same_registry dm dm'"
proof (induction L vs dm arbitrary: ms vs' dm' rule: vardiff_entries.induct)
  case (1 L dm)
  then show ?case by (simp add: same_registry_def)
next
  case (2 L did cid vd rest dm)
  show ?case
  proof (cases "hm_get dm did")
    case None
    then show ?thesis
      using 2 by (cases "vardiff_entries L rest dm") auto
  next
    case (Some ds)
    obtain m vd' dd' where v: "vardiff_data L did cid vd (downstream_data ds) = (m, vd', dd')"
      by (cases "vardiff_data L did cid vd (downstream_data ds)") auto
    obtain ms2 vs2 dm2 where r:
      "vardiff_entries L rest (hm_insert did (ds\<lparr>downstream_data := dd'\<rparr>) dm) = (ms2, vs2, dm2)"
      by (cases "vardiff_entries L rest (hm_insert did (ds\<lparr>downstream_data := dd'\<rparr>) dm)") auto
    have "same_registry dm (hm_insert did (ds\<lparr>downstream_data := dd'\<rparr>) dm)"
      by (rule same_registry_insert [OF Some vardiff_data_shape [OF v]])
    moreover have "same_registry (hm_insert did (ds\<lparr>downstream_data := dd'\<rparr>) dm) dm2"
      using "2.IH"(2) [OF Some v [symmetric] refl r] by simp
    moreover have "dm' = dm2"
      using "2.prems" Some v r by simp
    ultimately show ?thesis
      using same_registry_trans by blast
  qed
qed

lemma run_vardiff_step:
  assumes "registry_inv (channel_manager_data cm)"
  shows "registry_step 0 (channel_manager_data cm) (channel_manager_data (snd (run_vardiff L cm)))"
proof -
  let ?d = "channel_manager_data cm"
  obtain ms vs dm where v: "vardiff_entries L (vardiff ?d) (cm_downstream ?d) = (ms, vs, dm)"
    by (cases "vardiff_entries L (vardiff ?d) (cm_downstream ?d)") auto
  show ?thesis
    by (rule registry_same_step [OF assms])
      (simp_all add: run_vardiff_def v vardiff_entries_registry [OF v] vardiff_entries_keys [OF v])
qed

section \<open>The announced targets\<close>

text \<open>The target of the channel \<open>cid\<close> of a connection.\<close>

definition channel_target ::
  "('sc, 'ec, 'gc, 'vd, 'xf) channel_lib \<Rightarrow> ('sc, 'ec, 'gc) downstream_data \<Rightarrow> channel_id \<Rightarrow> u256 option" where
  "channel_target L dd cid =
     (case hm_get (standard_channels dd) cid of
        Some sc \<Rightarrow> Some (sc_target L sc)
      | None \<Rightarrow> map_option (ec_target L) (hm_get (extended_channels dd) cid))"

lemma vardiff_data_frame:
  assumes "vardiff_data L did cid vd dd = (m, vd', dd')" and "c \<noteq> cid"
  shows "channel_target L dd' c = channel_target L dd c"
  using assms
  by (auto simp: vardiff_data_def Let_def channel_target_def split: option.splits prod.splits)

lemma vardiff_data_messages:
  assumes "vardiff_data L did cid vd dd = (ms, vd', dd')"
    and "hm_keys (standard_channels dd) \<inter> hm_keys (extended_channels dd) = {}" and "m \<in> set ms"
  shows "\<exists>t. m = Downstream did (SetTarget cid t) \<and> channel_target L dd' cid = Some t"
proof (cases "hm_get (standard_channels dd) cid")
  case None
  then show ?thesis
    using assms(1,3)
    by (auto simp: vardiff_data_def Let_def channel_target_def run_vardiff_on_extended_channel_def
        split: option.splits prod.splits sum.splits)
next
  case (Some sc)
  have "hm_get (extended_channels dd) cid = None"
    using assms(2) Some by (auto simp: disjoint_iff hm.keys_get)
  then show ?thesis
    using assms(1,3) Some
    by (auto simp: vardiff_data_def Let_def channel_target_def run_vardiff_on_standard_channel_def
        split: option.splits prod.splits sum.splits)
qed

lemma vardiff_entries_frame:
  assumes "vardiff_entries L vs dm = (ms, vs', dm')" and "(did, c) \<notin> fst ` set vs"
    and "hm_get dm did = Some ds"
  shows "\<exists>ds'. hm_get dm' did = Some ds' \<and>
    channel_target L (downstream_data ds') c = channel_target L (downstream_data ds) c"
  using assms
proof (induction L vs dm arbitrary: ms vs' dm' ds rule: vardiff_entries.induct)
  case (1 L dm)
  then show ?case by simp
next
  case (2 L did0 cid vd rest dm)
  show ?case
  proof (cases "hm_get dm did0")
    case None
    then show ?thesis
      using 2 by (cases "vardiff_entries L rest dm") auto
  next
    case (Some ds0)
    obtain m vd' dd' where v: "vardiff_data L did0 cid vd (downstream_data ds0) = (m, vd', dd')"
      by (cases "vardiff_data L did0 cid vd (downstream_data ds0)") auto
    let ?upd = "ds0\<lparr>downstream_data := dd'\<rparr>"
    let ?ds = "if did = did0 then ?upd else ds"
    obtain ms2 vs2 where r: "vardiff_entries L rest (hm_insert did0 ?upd dm) = (ms2, vs2, dm')"
      using "2.prems"(1) Some v by (cases "vardiff_entries L rest (hm_insert did0 ?upd dm)") auto
    have "\<exists>ds'. hm_get dm' did = Some ds' \<and>
        channel_target L (downstream_data ds') c = channel_target L (downstream_data ?ds) c"
      by (rule "2.IH"(2) [OF Some v [symmetric] refl r]) (use "2.prems" in auto)
    moreover have "channel_target L (downstream_data ?ds) c = channel_target L (downstream_data ds) c"
      using vardiff_data_frame [OF v, of c] "2.prems"(2,3) Some by auto
    ultimately show ?thesis by simp
  qed
qed

lemma vardiff_entries_messages:
  assumes "vardiff_entries L vs dm = (ms, vs', dm')" and "distinct (map fst vs)" and "m \<in> set ms"
    and "\<forall>did ds. hm_get dm did = Some ds \<longrightarrow> data_inv (downstream_data ds)"
  shows "\<exists>did cid t ds. m = Downstream did (SetTarget cid t) \<and> (did, cid) \<in> fst ` set vs \<and>
    hm_get dm' did = Some ds \<and> channel_target L (downstream_data ds) cid = Some t"
  using assms
proof (induction L vs dm arbitrary: ms vs' dm' rule: vardiff_entries.induct)
  case (1 L dm)
  then show ?case by simp
next
  case (2 L did cid vd rest dm)
  show ?case
  proof (cases "hm_get dm did")
    case None
    obtain vs2 where r: "vardiff_entries L rest dm = (ms, vs2, dm')"
      using "2.prems"(1) None by (cases "vardiff_entries L rest dm") auto
    have "distinct (map fst rest)" using "2.prems"(2) by simp
    from "2.IH"(1) [OF None r this "2.prems"(3,4)] show ?thesis by auto
  next
    case (Some ds)
    obtain m1 vd' dd' where v: "vardiff_data L did cid vd (downstream_data ds) = (m1, vd', dd')"
      by (cases "vardiff_data L did cid vd (downstream_data ds)") auto
    let ?ds = "ds\<lparr>downstream_data := dd'\<rparr>"
    obtain ms2 vs2 where r: "vardiff_entries L rest (hm_insert did ?ds dm) = (ms2, vs2, dm')"
        and ms: "ms = m1 @ ms2"
      using "2.prems"(1) Some v by (cases "vardiff_entries L rest (hm_insert did ?ds dm)") auto
    have inv: "\<forall>d ds'. hm_get (hm_insert did ?ds dm) d = Some ds' \<longrightarrow> data_inv (downstream_data ds')"
      using "2.prems"(4) Some same_shape_data_inv [OF vardiff_data_shape [OF v]] by (auto split: if_splits)
    have fresh: "(did, cid) \<notin> fst ` set rest"
      using "2.prems"(2) by (auto simp: image_iff)
    show ?thesis
    proof (cases "m \<in> set ms2")
      case True
      have "distinct (map fst rest)" using "2.prems"(2) by simp
      from "2.IH"(2) [OF Some v [symmetric] refl r this True inv] show ?thesis by auto
    next
      case False
      then have "m \<in> set m1" using "2.prems"(3) ms by simp
      then obtain t where t: "m = Downstream did (SetTarget cid t)" "channel_target L dd' cid = Some t"
        using vardiff_data_messages [OF v] "2.prems"(4) Some by (auto simp: data_inv_def)
      obtain ds' where "hm_get dm' did = Some ds'"
          "channel_target L (downstream_data ds') cid = channel_target L dd' cid"
        using vardiff_entries_frame [OF r fresh, of ?ds] by auto
      then show ?thesis using t by auto
    qed
  qed
qed

end
