(* ===== verification/Pool_Downstream.thy ===== *)
theory Pool_Downstream
  imports Pool_Vardiff Message_Type
begin

text \<open>
  A downstream connection of the pool (\<open>downstream/mod.rs\<close>, \<open>common_message_handler.rs\<close>,
  \<open>extensions_message_handler.rs\<close>) and the channel manager's operations on the set of
  connections (\<open>channel_manager/mod.rs\<close>): the handshake, the negotiation of extensions, the
  dispatch of incoming frames, the delivery of the channel manager's messages, and the
  registration and removal of a connection. Parsing and encoding of frames belong to the
  protocol crates and are the fields of \<open>wire\<close>.
\<close>

section \<open>Messages\<close>

record setup_connection =
  su_min_version :: u16
  su_max_version :: u16
  su_flags :: u32

datatype outgoing =
    SetupConnectionSuccess u16 u32
  | RequestExtensionsError u16 "u16 list" "u16 list"
  | RequestExtensionsSuccess u16 "u16 list"
  | MiningMessage mining

record 'm wire =
  wr_values :: message_values
  wr_negotiation :: u16
  wr_encode :: "outgoing \<Rightarrow> pool_error + bytes"
  wr_parse_setup :: "u16 \<times> u8 \<Rightarrow> bytes \<Rightarrow> pool_error + setup_connection"
  wr_parse_extensions :: "u16 \<times> u8 \<Rightarrow> bytes \<Rightarrow> pool_error + request_extensions"
  wr_parse_message :: "u16 \<times> u8 \<Rightarrow> bytes \<Rightarrow> u16 list \<Rightarrow> pool_error + 'm option"

text \<open>
  The two queues a connection writes to, with the frames and messages put into them, and
  whether their receiving ends still exist.
\<close>

record 'm connection =
  sent :: "bytes list"
  outbound_open :: bool
  to_manager :: "(downstream_id \<times> 'm) list"
  manager_open :: bool

definition send_frame ::
  "'m wire \<Rightarrow> pool_error \<Rightarrow> outgoing \<Rightarrow> 'm connection \<Rightarrow> unit pool_result \<times> 'm connection" where
  "send_frame W closed m c =
     (case wr_encode W m of
        Inl e \<Rightarrow> (Err e, c)
      | Inr fr \<Rightarrow> if outbound_open c then (Ok (), c\<lparr>sent := sent c @ [fr]\<rparr>) else (Err closed, c))"

section \<open>The connection's handlers\<close>

definition new_downstream ::
  "downstream_id \<Rightarrow> u16 list \<Rightarrow> u16 list \<Rightarrow> ('sc, 'ec, 'gc) downstream" where
  "new_downstream did supported required =
     \<lparr>downstream_data =
        \<lparr>group_channels = None, extended_channels = hm_new, standard_channels = hm_new,
         channel_id_factory = 1, negotiated_extensions = []\<rparr>,
      ds_id = did, requires_standard_jobs = False, requires_custom_work = False,
      ds_supported_extensions = supported, ds_required_extensions = required\<rparr>"

definition handle_setup_connection ::
  "('sc, 'ec, 'gc, 'vd, 'xf) channel_lib \<Rightarrow> 'm wire \<Rightarrow> setup_connection \<Rightarrow>
     ('sc, 'ec, 'gc) downstream \<times> 'm connection \<Rightarrow>
     unit pool_result \<times> ('sc, 'ec, 'gc) downstream \<times> 'm connection" where
  "handle_setup_connection L W msg s =
     (case s of (ds, c) \<Rightarrow>
      let ds' = ds\<lparr>requires_custom_work := has_work_selection L (su_flags msg),
                   requires_standard_jobs := has_requires_std_job L (su_flags msg)\<rparr> in
      case send_frame W ChannelSend (SetupConnectionSuccess 2 (su_flags msg)) c of
        (r, c') \<Rightarrow> (r, ds', c'))"

text \<open>The first frame must be a \<open>SetupConnection\<close>; \<open>None\<close> is a closed inbound queue.\<close>

definition setup_connection_with_downstream ::
  "('sc, 'ec, 'gc, 'vd, 'xf) channel_lib \<Rightarrow> 'm wire \<Rightarrow> frame option \<Rightarrow>
     ('sc, 'ec, 'gc) downstream \<times> 'm connection \<Rightarrow>
     unit pool_result \<times> ('sc, 'ec, 'gc) downstream \<times> 'm connection" where
  "setup_connection_with_downstream L W received s =
     (case received of
        None \<Rightarrow> (Err ChannelRecv, s)
      | Some fr \<Rightarrow>
          (case fr_header fr of
             None \<Rightarrow> (Err FramingMissingHeader, s)
           | Some (ext, mt) \<Rightarrow>
               if mt = wr_values W MESSAGE_TYPE_SETUP_CONNECTION then
                 (case wr_parse_setup W (ext, mt) (fr_payload fr) of
                    Inl e \<Rightarrow> (Err e, s)
                  | Inr msg \<Rightarrow> handle_setup_connection L W msg s)
               else (Err (UnexpectedMessage (ext AND NOT CHANNEL_MSG_MASK) mt), s)))"

definition handle_request_extensions ::
  "('sc, 'ec, 'gc, 'vd, 'xf) channel_lib \<Rightarrow> 'm wire \<Rightarrow> request_extensions \<Rightarrow>
     ('sc, 'ec, 'gc) downstream \<times> 'm connection \<Rightarrow>
     unit pool_result \<times> ('sc, 'ec, 'gc) downstream \<times> 'm connection" where
  "handle_request_extensions L W msg s =
     (case s of (ds, c) \<Rightarrow>
      let requested = rx_requested msg;
          supported = filter (\<lambda>ext. ext \<in> set (ds_supported_extensions ds)) requested;
          unsupported = filter (\<lambda>ext. ext \<notin> set (ds_supported_extensions ds)) requested;
          missing_required = filter (\<lambda>ext. ext \<notin> set requested) (ds_required_extensions ds) in
      if supported = [] \<or> missing_required \<noteq> [] then
        (case seq064k_new L unsupported of
           Inl e \<Rightarrow> (Err (InvalidUnsupportedExtensionsSequence e), s)
         | Inr us \<Rightarrow>
             (case seq064k_new L missing_required of
                Inl e \<Rightarrow> (Err (InvalidRequiredExtensionsSequence e), s)
              | Inr rs \<Rightarrow>
                  (case send_frame W ChannelSend (RequestExtensionsError (rx_request_id msg) us rs) c of
                     (r, c') \<Rightarrow>
                       and_then (r, ds, c') (\<lambda>_ s.
                         if missing_required \<noteq> []
                         then (Err (ClientDoesNotSupportRequiredExtensions missing_required), s)
                         else (Ok (), s)))))
      else
        let ds' = ds\<lparr>downstream_data := (downstream_data ds)\<lparr>negotiated_extensions := supported\<rparr>\<rparr> in
        (case seq064k_new L supported of
           Inl e \<Rightarrow> (Err (InvalidSupportedExtensionsSequence e), ds', c)
         | Inr ss \<Rightarrow>
             (case send_frame W ChannelSend (RequestExtensionsSuccess (rx_request_id msg) ss) c of
                (r, c') \<Rightarrow> (r, ds', c'))))"

text \<open>
  A message of the channel manager's broadcast queue; \<open>None\<close> is a failed receive, which is
  only logged.
\<close>

definition handle_channel_manager_message ::
  "'m wire \<Rightarrow> ('sc, 'ec, 'gc) downstream \<Rightarrow> (downstream_id \<times> mining) option \<Rightarrow> 'm connection \<Rightarrow>
     unit pool_result \<times> 'm connection" where
  "handle_channel_manager_message W ds received c =
     (case received of
        None \<Rightarrow> (Ok (), c)
      | Some (did, msg) \<Rightarrow>
          if did \<noteq> ds_id ds then (Ok (), c)
          else send_frame W NoiseExpectedIncomingHandshakeMessage (MiningMessage msg) c)"

definition handle_downstream_message ::
  "('sc, 'ec, 'gc, 'vd, 'xf) channel_lib \<Rightarrow> 'm wire \<Rightarrow> frame option \<Rightarrow>
     ('sc, 'ec, 'gc) downstream \<times> 'm connection \<Rightarrow>
     unit pool_result \<times> ('sc, 'ec, 'gc) downstream \<times> 'm connection" where
  "handle_downstream_message L W received s =
     (case s of (ds, c) \<Rightarrow>
      case received of
        None \<Rightarrow> (Err ChannelRecv, s)
      | Some fr \<Rightarrow>
          (case fr_header fr of
             None \<Rightarrow> (Err FramingMissingHeader, s)
           | Some (ext, mt) \<Rightarrow>
               (case protocol_message_type (wr_values W) (wr_negotiation W) ext mt of
                  Mining_Message \<Rightarrow>
                    (case wr_parse_message W (ext, mt) (fr_payload fr)
                            (negotiated_extensions (downstream_data ds)) of
                       Inl e \<Rightarrow> (Err e, s)
                     | Inr None \<Rightarrow> (Err (UnexpectedMessage (ext AND NOT CHANNEL_MSG_MASK) mt), s)
                     | Inr (Some m) \<Rightarrow>
                         if manager_open c
                         then (Ok (), ds, c\<lparr>to_manager := to_manager c @ [(ds_id ds, m)]\<rparr>)
                         else (Err ChannelErrorSender, s))
                | Extensions_Message \<Rightarrow>
                    (case wr_parse_extensions W (ext, mt) (fr_payload fr) of
                       Inl e \<Rightarrow> (Err e, s)
                     | Inr msg \<Rightarrow> handle_request_extensions L W msg s)
                | _ \<Rightarrow> (Ok (), s))))"

section \<open>Forwarding\<close>

text \<open>
  \<open>RouteMessageTo::forward\<close>: the broadcast queue of the downstreams and the queue of the
  template provider after a list of messages has been forwarded.
\<close>

fun broadcast_queue :: "route_message_to list \<Rightarrow> (downstream_id \<times> mining) list" where
  "broadcast_queue [] = []"
| "broadcast_queue (Downstream did m # ms) = (did, m) # broadcast_queue ms"
| "broadcast_queue (TemplateProvider t # ms) = broadcast_queue ms"

fun template_provider_queue :: "route_message_to list \<Rightarrow> template_distribution list" where
  "template_provider_queue [] = []"
| "template_provider_queue (Downstream did m # ms) = template_provider_queue ms"
| "template_provider_queue (TemplateProvider t # ms) = t # template_provider_queue ms"

text \<open>A connection that receives the whole queue, one message after the other, and stops at
  the first error.\<close>

fun receive_all ::
  "'m wire \<Rightarrow> ('sc, 'ec, 'gc) downstream \<Rightarrow> (downstream_id \<times> mining) list \<Rightarrow> 'm connection \<Rightarrow>
     unit pool_result \<times> 'm connection" where
  "receive_all W ds [] c = (Ok (), c)"
| "receive_all W ds (m # ms) c =
     and_then (handle_channel_manager_message W ds (Some m) c) (\<lambda>_ c. receive_all W ds ms c)"

section \<open>The set of connections\<close>

text \<open>\<open>ChannelManager::new\<close>: both extranonce factories start from the server's identifier.\<close>

definition channel_manager_new ::
  "('sc, 'ec, 'gc, 'vd, 'xf) channel_lib \<Rightarrow> u16 \<Rightarrow> bytes \<Rightarrow>
     ('sc, 'ec, 'gc, 'vd, 'xf) channel_manager pool_result" where
  "channel_manager_new L server_id outputs =
     map_res (\<lambda>xf.
       \<lparr>channel_manager_data =
          \<lparr>cm_downstream = hm_new, extranonce_prefix_factory_extended = xf,
           extranonce_prefix_factory_standard = xf, downstream_id_factory = 1, vardiff = hm_new,
           coinbase_outputs = outputs, last_new_prev_hash = None, last_future_template = None\<rparr>,
        persisted = [], forwarded = []\<rparr>)
       (expect ''Failed to create ExtendedExtranonce with valid ranges''
          (xf_new L (u16_to_be_bytes server_id)))"

text \<open>The accept branch of \<open>start_downstream_server\<close>, from the identifier to the insertion.\<close>

definition accept_downstream ::
  "pool_config \<Rightarrow> ('sc, 'ec, 'gc, 'vd, 'xf) channel_manager \<Rightarrow>
     downstream_id \<times> ('sc, 'ec, 'gc, 'vd, 'xf) channel_manager" where
  "accept_downstream cfg cm =
     (let d = channel_manager_data cm;
          did = fst (fetch_add (downstream_id_factory d));
          ds = new_downstream did (supported_extensions cfg) (required_extensions cfg) in
      (did, cm\<lparr>channel_manager_data :=
              d\<lparr>downstream_id_factory := snd (fetch_add (downstream_id_factory d)),
                cm_downstream := hm_insert did ds (cm_downstream d)\<rparr>\<rparr>))"

definition remove_downstream ::
  "downstream_id \<Rightarrow> ('sc, 'ec, 'gc, 'vd, 'xf) channel_manager \<Rightarrow>
     unit pool_result \<times> ('sc, 'ec, 'gc, 'vd, 'xf) channel_manager" where
  "remove_downstream did cm =
     (let d = channel_manager_data cm in
      (Ok (), cm\<lparr>channel_manager_data :=
                d\<lparr>cm_downstream := hm_remove did (cm_downstream d),
                  vardiff := hm_retain (\<lambda>k _. fst k \<noteq> did) (vardiff d)\<rparr>\<rparr>))"

section \<open>Lemmas on delivery\<close>

lemma broadcast_queue_append: "broadcast_queue (xs @ ys) = broadcast_queue xs @ broadcast_queue ys"
  by (induction xs rule: broadcast_queue.induct) simp_all

lemma broadcast_queue_mem: "(did, m) \<in> set (broadcast_queue msgs) \<longleftrightarrow> Downstream did m \<in> set msgs"
  by (induction msgs rule: broadcast_queue.induct) auto

text \<open>The messages of the queue that are meant for \<open>did\<close>, in order.\<close>

definition addressed :: "downstream_id \<Rightarrow> (downstream_id \<times> mining) list \<Rightarrow> mining list" where
  "addressed did q = map snd (filter (\<lambda>(d, _). d = did) q)"

lemma addressed_simps [simp]:
  "addressed did [] = []"
  "addressed did ((d, m) # q) = (if d = did then m # addressed did q else addressed did q)"
  by (simp_all add: addressed_def)

text \<open>
  With every message encodable and the outbound queue open, exactly the messages addressed
  to the connection are sent on it, in order.
\<close>

lemma receive_all_sent:
  assumes "\<And>m. m \<in> set (addressed (ds_id ds) q) \<Longrightarrow> wr_encode W (MiningMessage m) = Inr (enc m)"
    and "outbound_open c"
  shows "receive_all W ds q c = (Ok (), c\<lparr>sent := sent c @ map enc (addressed (ds_id ds) q)\<rparr>)"
  using assms
proof (induction q arbitrary: c)
  case Nil
  then show ?case by simp
next
  case (Cons m q)
  obtain did msg where m: "m = (did, msg)" by (cases m)
  show ?case
  proof (cases "did = ds_id ds")
    case True
    let ?c = "c\<lparr>sent := sent c @ [enc msg]\<rparr>"
    have "receive_all W ds q ?c = (Ok (), ?c\<lparr>sent := sent ?c @ map enc (addressed (ds_id ds) q)\<rparr>)"
      by (rule Cons.IH) (use Cons.prems m in auto)
    then show ?thesis
      using Cons.prems m True by (simp add: handle_channel_manager_message_def send_frame_def)
  next
    case False
    then show ?thesis
      using Cons m by (simp add: handle_channel_manager_message_def)
  qed
qed

lemma receive_all_silent:
  "addressed (ds_id ds) q = [] \<Longrightarrow> receive_all W ds q c = (Ok (), c)"
  by (induction q arbitrary: c) (auto simp: handle_channel_manager_message_def split: if_splits)

lemma addressed_none: "(\<And>m. Downstream did m \<notin> set msgs) \<Longrightarrow> addressed did (broadcast_queue msgs) = []"
  by (auto simp: addressed_def filter_empty_conv broadcast_queue_mem)

section \<open>The registry under accept and removal\<close>

lemma channel_manager_new_inv:
  "channel_manager_new L server_id outputs = Ok cm \<Longrightarrow> registry_inv (channel_manager_data cm)"
  by (auto simp: channel_manager_new_def map_res_Ok registry_inv_def)

lemma new_downstream_simps [simp]:
  "ds_id (new_downstream did exts req) = did"
  "data_inv (downstream_data (new_downstream did exts req))"
  "chan_ids (downstream_data (new_downstream did exts req)) = {}"
  "channel_id_factory (downstream_data (new_downstream did exts req)) = 1"
  by (simp_all add: new_downstream_def data_inv_def chan_ids_def)

lemma accept_downstream_inv:
  assumes inv: "registry_inv (channel_manager_data cm)"
    and room: "unat (downstream_id_factory (channel_manager_data cm)) + 1 < 2 ^ 64"
  shows "registry_inv (channel_manager_data (snd (accept_downstream cfg cm)))"
proof -
  let ?d = "channel_manager_data cm" and ?f = "downstream_id_factory (channel_manager_data cm)"
  have lt: "x < ?f + 1 \<longleftrightarrow> x \<le> ?f" for x
    using less_next_word [of ?f x] room by simp
  have "?f \<notin> hm_keys (cm_downstream ?d)"
    using inv by (cases "hm_get (cm_downstream ?d) ?f") (auto simp: registry_inv_def hm.keys_get)
  then have "(?f, c) \<notin> hm_keys (vardiff ?d)" for c
    using inv by (auto simp: registry_inv_def)
  then have "vardiff_inv ?f ?d (downstream_data (new_downstream ?f exts req))" for exts req
    by (simp add: vardiff_inv_def)
  moreover have "x \<le> ?f" if "hm_get (cm_downstream ?d) x = Some ds" for x ds
    using inv that by (simp add: registry_inv_def less_imp_le)
  ultimately show ?thesis
    using inv unfolding registry_inv_def accept_downstream_def Let_def
    by (simp add: lt vardiff_inv_def)
qed

lemma remove_downstream_step:
  assumes inv: "registry_inv (channel_manager_data cm)"
  shows "registry_step 0 (channel_manager_data cm) (channel_manager_data (snd (remove_downstream did cm)))"
proof -
  have keys: "hm_keys (hm_retain (\<lambda>k _. fst k \<noteq> did) v) = {k \<in> hm_keys v. fst k \<noteq> did}" for v
    by (rule hm_keys_retain) simp
  show ?thesis
    using inv
    by (auto simp: remove_downstream_def Let_def registry_step_def registry_inv_def hm_distinct_retain keys
        vardiff_inv_def split: if_splits)
qed

lemma remove_downstream_gone:
  "hm_get (cm_downstream (channel_manager_data (snd (remove_downstream did cm)))) did = None"
  "(did, c) \<notin> hm_keys (vardiff (channel_manager_data (snd (remove_downstream did cm))))"
  by (simp_all add: remove_downstream_def Let_def hm_keys_retain [where Q = "\<lambda>k. fst k \<noteq> did"])

end
