(* ===== verification/Pool_System.thy ===== *)
theory Pool_System
  imports Pool_Downstream
begin

text \<open>
  The pool as a whole: the channel manager's loop (\<open>channel_manager/mod.rs\<close>, \<open>start\<close>), the
  accept loop (\<open>start_downstream_server\<close>) and the status listener (\<open>mod.rs\<close> and
  \<open>status.rs\<close>) as one transition system. The accept loop awaits the handshake of the
  connection it has just inserted, so at most one connection is being set up. An error of a
  client or template message ends the channel manager's loop and is reported as
  \<open>ChannelManagerShutdown\<close>, which the status listener turns into \<open>ShutdownAll\<close>: the pool
  no longer runs.
\<close>

section \<open>Status\<close>

datatype status_sender = SS_Downstream downstream_id | SS_TemplateReceiver | SS_ChannelManager

datatype state =
    DownstreamShutdown downstream_id pool_error
  | TemplateReceiverShutdown pool_error
  | ChannelManagerShutdown pool_error

datatype shutdown_message = ShutdownAll | DownstreamShutdownAll | ShutdownOf downstream_id

fun send_status :: "status_sender \<Rightarrow> pool_error \<Rightarrow> state" where
  "send_status (SS_Downstream did) e = DownstreamShutdown did e"
| "send_status SS_TemplateReceiver e = TemplateReceiverShutdown e"
| "send_status SS_ChannelManager e = ChannelManagerShutdown e"

text \<open>The status listener's answer to a status message.\<close>

fun on_status :: "state \<Rightarrow> shutdown_message" where
  "on_status (DownstreamShutdown did e) = ShutdownOf did"
| "on_status (TemplateReceiverShutdown e) = ShutdownAll"
| "on_status (ChannelManagerShutdown e) = ShutdownAll"

section \<open>The transition system\<close>

record ('sc, 'ec, 'gc, 'vd, 'xf) pool =
  manager :: "('sc, 'ec, 'gc, 'vd, 'xf) channel_manager"
  setting_up :: "downstream_id option"
  started :: "downstream_id list"
  running :: bool

text \<open>
  What a component's result means for the pool: an error becomes a status, and
  \<open>ShutdownAll\<close> stops it; a panic kills the task and with it the loop.
\<close>

definition survives :: "status_sender \<Rightarrow> 'a pool_result \<Rightarrow> bool" where
  "survives sender r =
     (case r of
        Ok _ \<Rightarrow> True
      | Err e \<Rightarrow> on_status (send_status sender e) \<noteq> ShutdownAll
      | Panic p \<Rightarrow> False)"

definition put_downstream ::
  "downstream_id \<Rightarrow> ('sc, 'ec, 'gc) downstream \<Rightarrow> ('sc, 'ec, 'gc, 'vd, 'xf) channel_manager \<Rightarrow>
     ('sc, 'ec, 'gc, 'vd, 'xf) channel_manager" where
  "put_downstream did ds cm =
     (let d = channel_manager_data cm in
      cm\<lparr>channel_manager_data := d\<lparr>cm_downstream := hm_insert did ds (cm_downstream d)\<rparr>\<rparr>)"

inductive pool_step ::
  "('sc, 'ec, 'gc, 'vd, 'xf) channel_lib \<Rightarrow> pool_config \<Rightarrow> 'm wire \<Rightarrow>
     ('sc, 'ec, 'gc, 'vd, 'xf) pool \<Rightarrow> ('sc, 'ec, 'gc, 'vd, 'xf) pool \<Rightarrow> bool"
  for L cfg W where
  accept: "running s \<Longrightarrow> setting_up s = None \<Longrightarrow>
    accept_downstream cfg (manager s) = (did, cm) \<Longrightarrow>
    pool_step L cfg W s (s\<lparr>manager := cm, setting_up := Some did\<rparr>)"
| handshake: "running s \<Longrightarrow> setting_up s = Some did \<Longrightarrow>
    hm_get (cm_downstream (channel_manager_data (manager s))) did = Some ds \<Longrightarrow>
    setup_connection_with_downstream L W received (ds, c) = (r, ds', c') \<Longrightarrow>
    pool_step L cfg W s
      (s\<lparr>manager := put_downstream did ds' (manager s), setting_up := None,
         started := (if is_ok r then did # started s else started s)\<rparr>)"
| handshake_removed: "running s \<Longrightarrow> setting_up s = Some did \<Longrightarrow>
    started' = started s \<or> started' = did # started s \<Longrightarrow>
    hm_get (cm_downstream (channel_manager_data (manager s))) did = None \<Longrightarrow>
    pool_step L cfg W s (s\<lparr>setting_up := None, started := started'\<rparr>)"
| client: "running s \<Longrightarrow> did \<in> set (started s) \<Longrightarrow>
    handle_client_call L cfg did call (manager s) = (r, cm) \<Longrightarrow>
    pool_step L cfg W s (s\<lparr>manager := cm, running := survives SS_ChannelManager r\<rparr>)"
| frame: "running s \<Longrightarrow> did \<in> set (started s) \<Longrightarrow>
    hm_get (cm_downstream (channel_manager_data (manager s))) did = Some ds \<Longrightarrow>
    handle_downstream_message L W received (ds, c) = (r, ds', c') \<Longrightarrow>
    pool_step L cfg W s (s\<lparr>manager := put_downstream did ds' (manager s)\<rparr>)"
| template: "running s \<Longrightarrow> handle_new_template L nt (manager s) = (r, cm) \<Longrightarrow>
    pool_step L cfg W s (s\<lparr>manager := cm, running := survives SS_ChannelManager r\<rparr>)"
| prev_hash: "running s \<Longrightarrow> handle_set_new_prev_hash L ph (manager s) = (r, cm) \<Longrightarrow>
    pool_step L cfg W s (s\<lparr>manager := cm, running := survives SS_ChannelManager r\<rparr>)"
| vardiff: "running s \<Longrightarrow> run_vardiff L (manager s) = (r, cm) \<Longrightarrow>
    pool_step L cfg W s (s\<lparr>manager := cm\<rparr>)"
| removal: "running s \<Longrightarrow> remove_downstream did (manager s) = (r, cm) \<Longrightarrow>
    pool_step L cfg W s (s\<lparr>manager := cm\<rparr>)"

text \<open>The states the pool reaches in \<open>n\<close> steps from its start.\<close>

inductive reachable ::
  "('sc, 'ec, 'gc, 'vd, 'xf) channel_lib \<Rightarrow> pool_config \<Rightarrow> 'm wire \<Rightarrow> nat \<Rightarrow>
     ('sc, 'ec, 'gc, 'vd, 'xf) pool \<Rightarrow> bool"
  for L cfg W where
  start: "channel_manager_new L server_id outputs = Ok cm \<Longrightarrow>
    reachable L cfg W 0 \<lparr>manager = cm, setting_up = None, started = [], running = True\<rparr>"
| step: "reachable L cfg W n s \<Longrightarrow> pool_step L cfg W s s' \<Longrightarrow> reachable L cfg W (Suc n) s'"

section \<open>The registry in reachable states\<close>

text \<open>
  The registry invariant with the bounds on the identifier counters that \<open>n\<close> steps allow: a
  step takes at most two channel identifiers and one connection identifier.
\<close>

definition registry_bound :: "nat \<Rightarrow> ('sc, 'ec, 'gc, 'vd, 'xf) channel_manager_data \<Rightarrow> bool" where
  "registry_bound n d \<longleftrightarrow>
     registry_inv d \<and> unat (downstream_id_factory d) \<le> n + 1 \<and>
     (\<forall>did ds. hm_get (cm_downstream d) did = Some ds \<longrightarrow>
        unat (channel_id_factory (downstream_data ds)) \<le> 2 * n + 1)"

lemma registry_bound_inv: "registry_bound n d \<Longrightarrow> registry_inv d"
  by (simp add: registry_bound_def)

lemma registry_bound_room:
  "registry_bound n d \<Longrightarrow> 2 * Suc n + 1 < 2 ^ 32 \<Longrightarrow> registry_room 2 d"
  by (fastforce simp: registry_bound_def registry_room_def counter_room_def)

lemma registry_bound_step:
  assumes "registry_bound n d" and "registry_step k d d'" and "k \<le> 2"
    and "downstream_id_factory d' = downstream_id_factory d"
  shows "registry_bound (Suc n) d'"
  using assms by (fastforce simp: registry_bound_def registry_step_def)

lemma registry_bound_accept:
  assumes "registry_bound n (channel_manager_data cm)" and "2 * Suc n + 1 < 2 ^ 32"
  shows "registry_bound (Suc n) (channel_manager_data (snd (accept_downstream cfg cm)))"
proof -
  let ?f = "downstream_id_factory (channel_manager_data cm)"
  have f: "unat ?f \<le> n + 1" and inv: "registry_inv (channel_manager_data cm)"
    using assms(1) by (simp_all add: registry_bound_def)
  then have lt: "unat ?f + 1 < 2 ^ 64"
    using assms(2) by simp
  have "unat (?f + 1) = unat ?f + 1"
    using unat_fetch_add [of ?f] lt by simp
  then show ?thesis
    using assms(1) f accept_downstream_inv [OF inv lt, of cfg]
    by (fastforce simp: registry_bound_def accept_downstream_def Let_def)
qed

text \<open>A connection whose channel maps and counter are those of another.\<close>

definition same_channels :: "('sc, 'ec, 'gc) downstream \<Rightarrow> ('sc, 'ec, 'gc) downstream \<Rightarrow> bool" where
  "same_channels ds ds' \<longleftrightarrow>
     ds_id ds' = ds_id ds \<and>
     (\<exists>exts. downstream_data ds' = (downstream_data ds)\<lparr>negotiated_extensions := exts\<rparr>)"

lemma same_channels_refl [simp]: "same_channels ds ds"
  unfolding same_channels_def by (intro conjI exI [of _ "negotiated_extensions (downstream_data ds)"]) simp_all

lemma setup_same_channels:
  assumes "setup_connection_with_downstream L W received (ds, c) = (r, ds', c')"
  shows "same_channels ds ds'"
proof -
  have "same_channels ds (ds\<lparr>requires_custom_work := a, requires_standard_jobs := b\<rparr>)" for a b
    using same_channels_refl [of ds] unfolding same_channels_def by simp
  then show ?thesis
    using assms
    by (auto simp: setup_connection_with_downstream_def handle_setup_connection_def Let_def
        split: option.splits prod.splits sum.splits if_splits)
qed

lemma request_extensions_keeps:
  "same_channels ds (fst (snd (handle_request_extensions L W msg (ds, c)))) \<and>
   requires_custom_work (fst (snd (handle_request_extensions L W msg (ds, c)))) = requires_custom_work ds"
proof -
  have "same_channels ds (ds\<lparr>downstream_data := (downstream_data ds)\<lparr>negotiated_extensions := e\<rparr>\<rparr>)" for e
    by (auto simp: same_channels_def)
  then show ?thesis
    by (simp add: handle_request_extensions_def Let_def and_then_def split: prod.split sum.split res.split)
qed

lemma request_extensions_frame:
  assumes "handle_request_extensions L W msg (ds, c) = (r, ds', c')"
  shows "same_channels ds ds'" and "requires_custom_work ds' = requires_custom_work ds"
  using request_extensions_keeps [of ds L W msg c] assms by simp_all

lemma downstream_message_frame:
  assumes "handle_downstream_message L W received (ds, c) = (r, ds', c')"
  shows "same_channels ds ds' \<and> requires_custom_work ds' = requires_custom_work ds"
  using assms
  by (auto simp: handle_downstream_message_def dest: request_extensions_frame
      split: option.splits prod.splits sum.splits if_splits message_type.splits)

lemma put_downstream_step:
  assumes inv: "registry_inv (channel_manager_data cm)"
    and get: "hm_get (cm_downstream (channel_manager_data cm)) did = Some ds"
    and same: "same_channels ds ds'"
  shows "registry_step 0 (channel_manager_data cm) (channel_manager_data (put_downstream did ds' cm))"
proof -
  let ?d = "channel_manager_data cm"
  have pair: "pair_inv did (?d, downstream_data ds')"
    using registry_inv_pair [OF inv get] same by (auto simp: same_channels_def inv_defs)
  have "registry_inv (?d\<lparr>cm_downstream := hm_insert did ds' (cm_downstream ?d)\<rparr>)"
    by (rule registry_inv_replace [OF inv get pair]) (use same in \<open>simp_all add: same_vardiff_elsewhere_def same_channels_def\<close>)
  then show ?thesis
    using get same by (auto simp: registry_step_def put_downstream_def Let_def same_channels_def)
qed

lemma id_factory_frames [frame_simps]:
  "downstream_id_factory (channel_manager_data (snd (handle_new_template L nt cm))) =
   downstream_id_factory (channel_manager_data cm)"
  "downstream_id_factory (channel_manager_data (snd (handle_set_new_prev_hash L ph cm))) =
   downstream_id_factory (channel_manager_data cm)"
  "downstream_id_factory (channel_manager_data (snd (run_vardiff L cm))) =
   downstream_id_factory (channel_manager_data cm)"
  "downstream_id_factory (channel_manager_data (snd (remove_downstream did cm))) =
   downstream_id_factory (channel_manager_data cm)"
  "downstream_id_factory (channel_manager_data (put_downstream did ds cm)) =
   downstream_id_factory (channel_manager_data cm)"
  by (simp_all add: handle_new_template_def handle_set_new_prev_hash_def run_vardiff_def
      remove_downstream_def put_downstream_def Let_def split: prod.split option.split list.split)

lemma id_factory_client [frame_simps]:
  "downstream_id_factory (channel_manager_data (snd (handle_client_call L cfg did call cm))) =
   downstream_id_factory (channel_manager_data cm)"
  using mining_client.handle_isolates [of did cm L cfg call] by (simp add: isolates_def same_globals_def)

lemma pool_step_registry:
  assumes "pool_step L cfg W s s'" and bound: "registry_bound n (channel_manager_data (manager s))"
    and room: "2 * Suc n + 1 < 2 ^ 32" and vd: "vardiff_available L"
  shows "registry_bound (Suc n) (channel_manager_data (manager s'))"
  using assms(1)
proof (cases rule: pool_step.cases)
  case (accept did cm)
  then show ?thesis using registry_bound_accept [OF bound room, of cfg] by simp
next
  case (handshake did ds received c r ds' c')
  note st = put_downstream_step [OF registry_bound_inv [OF bound] handshake(4) setup_same_channels [OF handshake(5)]]
  show ?thesis
    using registry_bound_step [OF bound st] handshake by (simp add: frame_simps)
next
  case (handshake_removed did started')
  then show ?thesis
    using registry_bound_step [OF bound registry_step_refl [OF registry_bound_inv [OF bound], of 0]] by simp
next
  case (client did call r cm)
  note st = client_call_step [OF registry_bound_inv [OF bound] registry_bound_room [OF bound room] vd, of cfg did call]
  show ?thesis
    using registry_bound_step [OF bound st] client id_factory_client [of L cfg did call "manager s"] by simp
next
  case (frame did ds received c r ds' c')
  note st = put_downstream_step [OF registry_bound_inv [OF bound] frame(4)
      conjunct1 [OF downstream_message_frame [OF frame(5)]]]
  show ?thesis
    using registry_bound_step [OF bound st] frame by (simp add: frame_simps)
next
  case (template nt r cm)
  note st = new_template_step [OF registry_bound_inv [OF bound], of L nt]
  show ?thesis
    using registry_bound_step [OF bound st] template id_factory_frames(1) [of L nt "manager s"] by simp
next
  case (prev_hash ph r cm)
  note st = set_new_prev_hash_step [OF registry_bound_inv [OF bound], of L ph]
  show ?thesis
    using registry_bound_step [OF bound st] prev_hash id_factory_frames(2) [of L ph "manager s"] by simp
next
  case (vardiff r cm)
  note st = run_vardiff_step [OF registry_bound_inv [OF bound], of L]
  show ?thesis
    using registry_bound_step [OF bound st] vardiff id_factory_frames(3) [of L "manager s"] by simp
next
  case (removal did r cm)
  note st = remove_downstream_step [OF registry_bound_inv [OF bound], of did]
  show ?thesis
    using registry_bound_step [OF bound st] removal id_factory_frames(4) [of did "manager s"] by simp
qed

lemma reachable_registry_bound:
  assumes "reachable L cfg W n s" and "2 * n + 1 < 2 ^ 32" and "vardiff_available L"
  shows "registry_bound n (channel_manager_data (manager s))"
  using assms
proof (induction rule: reachable.induct)
  case (start server_id outputs cm)
  then show ?case
    using channel_manager_new_inv [OF start(1)]
    by (auto simp: registry_bound_def channel_manager_new_def map_res_Ok)
next
  case (step n s s')
  then show ?case
    using pool_step_registry [OF step(2)] by simp
qed

section \<open>Connections that work on custom jobs\<close>

text \<open>
  A connection whose \<open>SetupConnection\<close> asked for custom work never has a standard channel
  or a group channel, and neither has a connection that has not been set up.
\<close>

definition no_standard :: "('sc, 'ec, 'gc) downstream \<Rightarrow> bool" where
  "no_standard ds \<longleftrightarrow>
     hm_keys (standard_channels (downstream_data ds)) = {} \<and> group_channels (downstream_data ds) = None"

definition custom_inv :: "('sc, 'ec, 'gc, 'vd, 'xf) pool \<Rightarrow> bool" where
  "custom_inv s \<longleftrightarrow>
     (let d = channel_manager_data (manager s) in
      (\<forall>did ds. hm_get (cm_downstream d) did = Some ds \<longrightarrow>
         requires_custom_work ds \<or> did \<notin> set (started s) \<longrightarrow> no_standard ds) \<and>
      (\<forall>did\<in>set (started s). did < downstream_id_factory d) \<and>
      (\<forall>did. setting_up s = Some did \<longrightarrow> did < downstream_id_factory d \<and> did \<notin> set (started s)))"

text \<open>What a client's own call does to its connection in this respect.\<close>

definition custom_kept :: "('sc, 'ec, 'gc) downstream \<Rightarrow> ('sc, 'ec, 'gc) downstream \<Rightarrow> bool" where
  "custom_kept ds ds' \<longleftrightarrow>
     requires_custom_work ds' = requires_custom_work ds \<and>
     (requires_custom_work ds \<and> no_standard ds \<longrightarrow> no_standard ds')"

lemma custom_kept_refl [simp]: "custom_kept ds ds"
  by (simp add: custom_kept_def)

lemma lock_downstream_custom:
  assumes "hm_get (cm_downstream d) did = Some ds" and "cm_downstream (fst (snd (f (d, downstream_data ds)))) = cm_downstream d"
    and "requires_custom_work ds \<Longrightarrow> no_standard ds \<Longrightarrow>
      no_standard (ds\<lparr>downstream_data := snd (snd (f (d, downstream_data ds)))\<rparr>)"
  shows "\<exists>ds'. hm_get (cm_downstream (snd (lock_downstream did ds f d))) did = Some ds' \<and> custom_kept ds ds'"
  using assms by (auto simp: lock_downstream_def custom_kept_def split: prod.splits)

lemma contained_downstreams: "contained did d out \<Longrightarrow> cm_downstream (fst (snd out)) = cm_downstream d"
  by (cases out) (simp add: contained_def)

lemma finish_open_extended_standard:
  "standard_channels (snd (snd (finish_open_extended L cfg did cw rid cid ec (d, dd)))) = standard_channels dd \<and>
   group_channels (snd (snd (finish_open_extended L cfg did cw rid cid ec (d, dd)))) = group_channels dd"
  by (simp add: finish_open_extended_def register_extended_def Let_def
      split: sum.split prod.split option.split)

lemma create_extended_standard:
  "standard_channels (snd (snd (create_extended_channel L cfg did cw msg (d, dd)))) = standard_channels dd \<and>
   group_channels (snd (snd (create_extended_channel L cfg did cw msg (d, dd)))) = group_channels dd"
  by (simp add: create_extended_channel_def Let_def finish_open_extended_standard
      split: sum.split prod.split extended_channel_error.split)

lemma update_locked_standard:
  "hm_keys (standard_channels (snd (snd (update_channel_locked L did msg (d, dd))))) =
     hm_keys (standard_channels dd) \<and>
   group_channels (snd (snd (update_channel_locked L did msg (d, dd)))) = group_channels dd"
  by (auto simp: update_channel_locked_def Let_def hm_get_in_keys insert_absorb
      split: sum.split prod.split option.split)

lemma custom_job_locked_standard:
  "standard_channels (snd (snd (custom_job_locked L did msg (d, dd)))) = standard_channels dd \<and>
   group_channels (snd (snd (custom_job_locked L did msg (d, dd)))) = group_channels dd"
  by (simp add: custom_job_locked_def Let_def split: sum.split prod.split option.split)

lemma open_standard_custom:
  assumes "hm_get (cm_downstream d) did = Some ds"
  shows "\<exists>ds'. hm_get (cm_downstream (snd (open_standard_locked L cfg did msg d))) did = Some ds' \<and>
    custom_kept ds ds'"
proof (cases "requires_custom_work ds")
  case True
  then show ?thesis using assms by (simp add: open_standard_locked_def)
next
  case False
  have "\<exists>ds'. hm_get (cm_downstream (snd (lock_downstream did ds
      (\<lambda>s. and_then (ensure_group_channel L cfg (requires_standard_jobs ds) t p s)
         (\<lambda>_. create_standard_channel L cfg did msg t p)) d))) did = Some ds' \<and> custom_kept ds ds'" for t p
    by (intro lock_downstream_custom [OF assms] contained_downstreams [where did = did] open_standard_closure_contained)
      (use False in simp)
  then show ?thesis
    using assms False by (simp add: open_standard_locked_def split: option.split)
qed

lemma client_call_custom:
  assumes get: "hm_get (cm_downstream (channel_manager_data cm)) did = Some ds"
  shows "\<exists>ds'. hm_get (cm_downstream (channel_manager_data (snd (handle_client_call L cfg did call cm)))) did =
    Some ds' \<and> custom_kept ds ds'"
proof (cases call)
  case (CloseChannel cid)
  then show ?thesis
    using get by (simp add: handle_close_channel_def Let_def custom_kept_def no_standard_def)
next
  case (OpenStandardMiningChannel m)
  then show ?thesis
    using open_standard_custom [OF get, of L cfg m]
    by (simp add: handle_open_standard_mining_channel_def case_prod_unfold)
next
  case (OpenExtendedMiningChannel m)
  have "\<exists>ds'. hm_get (cm_downstream (snd (lock_downstream did ds
      (create_extended_channel L cfg did (requires_custom_work ds) m) (channel_manager_data cm)))) did = Some ds' \<and>
    custom_kept ds ds'"
    by (intro lock_downstream_custom [OF get] contained_downstreams [where did = did] create_extended_channel_contained)
      (simp add: no_standard_def create_extended_standard)
  then show ?thesis
    using get OpenExtendedMiningChannel
    by (simp add: handle_open_extended_mining_channel_def open_extended_locked_def case_prod_unfold)
next
  case (SubmitSharesStandard now m)
  then show ?thesis
    using get
    by (auto simp: handle_submit_shares_standard_def Let_def custom_kept_def no_standard_def
        dest: hm_get_in_keys split: option.split prod.split)
next
  case (SubmitSharesExtended now m)
  then show ?thesis
    using get
    by (auto simp: handle_submit_shares_extended_def get_negotiated_extensions_with_client_def Let_def
        custom_kept_def no_standard_def split: option.split prod.split)
next
  case (UpdateChannel m)
  have "\<exists>ds'. hm_get (cm_downstream (snd (lock_downstream did ds
      (update_channel_locked L did m) (channel_manager_data cm)))) did = Some ds' \<and> custom_kept ds ds'"
    by (intro lock_downstream_custom [OF get] contained_downstreams [where did = did] update_channel_locked_contained)
      (simp add: no_standard_def update_locked_standard)
  then show ?thesis
    using get UpdateChannel by (simp add: handle_update_channel_def Let_def case_prod_unfold)
next
  case (SetCustomMiningJob m)
  have "\<exists>ds'. hm_get (cm_downstream (snd (lock_downstream did ds
      (custom_job_locked L did m) (channel_manager_data cm)))) did = Some ds' \<and> custom_kept ds ds'"
    by (intro lock_downstream_custom [OF get] contained_downstreams [where did = did] custom_job_locked_contained)
      (simp add: no_standard_def custom_job_locked_standard)
  then show ?thesis
    using get SetCustomMiningJob
    by (auto simp: handle_set_custom_mining_job_def Let_def case_prod_unfold split: sum.split)
qed

lemma no_standard_shape: "same_shape ds ds' \<Longrightarrow> no_standard ds' = no_standard ds"
  by (simp add: no_standard_def same_shape_keys) (simp add: same_shape_def Let_def)

lemma custom_inv_registry:
  assumes inv: "custom_inv s"
    and reg: "same_registry (cm_downstream (channel_manager_data (manager s)))
      (cm_downstream (channel_manager_data (manager s')))"
    and same: "downstream_id_factory (channel_manager_data (manager s')) =
        downstream_id_factory (channel_manager_data (manager s))"
      "setting_up s' = setting_up s" "started s' = started s"
  shows "custom_inv s'"
proof -
  have "requires_custom_work ds' \<or> did \<notin> set (started s) \<longrightarrow> no_standard ds'"
    if h: "hm_get (cm_downstream (channel_manager_data (manager s'))) did = Some ds'" for did ds'
  proof -
    obtain ds where ds: "hm_get (cm_downstream (channel_manager_data (manager s))) did = Some ds"
        "same_shape ds ds'"
      using reg h by (auto simp: same_registry_def)
    then have "requires_custom_work ds' = requires_custom_work ds"
      by (simp add: same_shape_def)
    then show ?thesis
      using inv ds(1) no_standard_shape [OF ds(2)] by (simp add: custom_inv_def Let_def)
  qed
  then show ?thesis
    using inv same unfolding custom_inv_def Let_def by simp
qed

lemma iter_same_registry:
  assumes "\<And>did ds. same_shape ds (snd (f did ds))"
  shows "same_registry m (snd (hm_iter_mut f m))"
proof -
  have "\<exists>ds. hm_get m did = Some ds \<and> same_shape ds ds'"
    if "hm_get (snd (hm_iter_mut f m)) did = Some ds'" for did ds'
    by (rule hm_iter_mut_get [OF that]) (use assms in auto)
  then show ?thesis by (simp add: same_registry_def)
qed

lemma same_registry_refl [simp]: "same_registry m m"
  by (simp add: same_registry_def)

lemma new_template_registry:
  "same_registry (cm_downstream (channel_manager_data cm))
     (cm_downstream (channel_manager_data (snd (handle_new_template L nt cm))))"
proof -
  have "same_registry m (snd (hm_iter_mut (template_to_downstream L nt outs) m))" for m outs
    by (rule iter_same_registry) (rule template_to_downstream_shape)
  then show ?thesis
    by (simp add: handle_new_template_def Let_def case_prod_unfold split: option.split list.split)
qed

lemma prev_hash_registry:
  "same_registry (cm_downstream (channel_manager_data cm))
     (cm_downstream (channel_manager_data (snd (handle_set_new_prev_hash L ph cm))))"
proof -
  have "same_registry m (snd (hm_iter_mut (prev_hash_to_downstream L ph) m))" for m
    by (rule iter_same_registry) (rule prev_hash_to_downstream_shape)
  then show ?thesis
    by (simp add: handle_set_new_prev_hash_def Let_def case_prod_unfold)
qed

lemma run_vardiff_registry:
  "same_registry (cm_downstream (channel_manager_data cm))
     (cm_downstream (channel_manager_data (snd (run_vardiff L cm))))"
  by (auto simp: run_vardiff_def Let_def split: prod.split intro: vardiff_entries_registry)

lemma custom_inv_client:
  assumes inv: "custom_inv s" and did: "did \<in> set (started s)"
    and s': "manager s' = snd (handle_client_call L cfg did call (manager s))"
      "setting_up s' = setting_up s" "started s' = started s"
  shows "custom_inv s'"
proof -
  let ?d = "channel_manager_data (manager s)" and ?d' = "channel_manager_data (manager s')"
  have iso: "isolates did ?d ?d'"
    using mining_client.handle_isolates [of did "manager s" L cfg call] s' by simp
  have "no_standard ds'" if h: "hm_get (cm_downstream ?d') did' = Some ds'"
      and c: "requires_custom_work ds' \<or> did' \<notin> set (started s)" for did' ds'
  proof (cases "did' = did")
    case True
    have "did \<in> hm_keys (cm_downstream ?d)"
      using iso hm_get_in_keys [OF h] True by (simp add: isolates_def)
    then obtain ds where ds: "hm_get (cm_downstream ?d) did = Some ds"
      by (auto simp: hm.keys_get)
    then have "custom_kept ds ds'"
      using client_call_custom [OF ds, of L cfg call] h s'(1) True by auto
    then show ?thesis
      using inv ds c did True by (auto simp: custom_inv_def Let_def custom_kept_def)
  next
    case False
    then show ?thesis
      using inv iso h c by (auto simp: custom_inv_def Let_def isolates_def)
  qed
  then show ?thesis
    using inv iso s'(2,3) by (auto simp: custom_inv_def Let_def isolates_def same_globals_def)
qed

lemma no_standard_new [simp]: "no_standard (new_downstream did exts req)"
  by (simp add: no_standard_def new_downstream_def)

lemma custom_inv_accept:
  assumes inv: "custom_inv s"
    and lt: "unat (downstream_id_factory (channel_manager_data (manager s))) + 1 < 2 ^ 64"
    and acc: "accept_downstream cfg (manager s) = (did, cm)"
  shows "custom_inv (s\<lparr>manager := cm, setting_up := Some did\<rparr>)"
proof -
  let ?d = "channel_manager_data (manager s)" and ?d' = "channel_manager_data cm"
  let ?f = "downstream_id_factory ?d"
  have lt': "x < ?f + 1 \<longleftrightarrow> x \<le> ?f" for x
    using less_next_word [of ?f x] lt by simp
  have did: "did = ?f" and fac: "downstream_id_factory ?d' = ?f + 1"
    and dm: "cm_downstream ?d' = hm_insert ?f
      (new_downstream ?f (supported_extensions cfg) (required_extensions cfg)) (cm_downstream ?d)"
    using acc by (auto simp: accept_downstream_def Let_def)
  have fresh: "?f \<notin> set (started s)" and st: "\<forall>x\<in>set (started s). x \<le> ?f"
    using inv by (auto simp: custom_inv_def Let_def)
  show ?thesis
    using inv fresh st did fac dm by (simp add: custom_inv_def Let_def lt')
qed

lemma custom_inv_put:
  assumes inv: "custom_inv s" and "setting_up s' = setting_up s \<or> setting_up s' = None"
    and "manager s' = put_downstream did ds (manager s)"
    and "requires_custom_work ds \<or> did \<notin> set (started s') \<Longrightarrow> no_standard ds"
    and "started s' = started s \<or> setting_up s = Some did \<and> setting_up s' = None \<and> started s' = did # started s"
  shows "custom_inv s'"
proof -
  have d: "cm_downstream (channel_manager_data (manager s')) =
        hm_insert did ds (cm_downstream (channel_manager_data (manager s)))"
      "downstream_id_factory (channel_manager_data (manager s')) =
        downstream_id_factory (channel_manager_data (manager s))"
    using assms(3) by (simp_all add: put_downstream_def Let_def)
  have st: "x \<in> set (started s') \<Longrightarrow> x \<in> set (started s) \<or> setting_up s = Some x" for x
    using assms(5) by auto
  have "requires_custom_work ds' \<or> did' \<notin> set (started s') \<Longrightarrow> no_standard ds'"
    if "hm_get (hm_insert did ds (cm_downstream (channel_manager_data (manager s)))) did' = Some ds'" for did' ds'
    using that inv assms(4,5) by (auto simp: custom_inv_def Let_def split: if_splits)
  then show ?thesis
    using inv d assms(2,5) st by (auto simp: custom_inv_def Let_def)
qed

lemma pool_step_custom:
  assumes "pool_step L cfg W s s'" and inv: "custom_inv s"
    and lt: "unat (downstream_id_factory (channel_manager_data (manager s))) + 1 < 2 ^ 64"
  shows "custom_inv s'"
  using assms(1)
proof (cases rule: pool_step.cases)
  case (accept did cm)
  then show ?thesis using custom_inv_accept [OF inv lt] by simp
next
  case (handshake did ds received c r ds' c')
  have "no_standard ds"
    using inv handshake(3,4) by (simp add: custom_inv_def Let_def)
  then have "no_standard ds'"
    using setup_same_channels [OF handshake(5)] by (auto simp: same_channels_def no_standard_def)
  then show ?thesis
    by (intro custom_inv_put [OF inv, of s' did ds']) (use handshake in simp_all)
next
  case (handshake_removed did started')
  then show ?thesis
    using inv by (auto simp: custom_inv_def Let_def)
next
  case (client did call r cm)
  show ?thesis
    by (rule custom_inv_client [OF inv client(3), of _ L cfg call]) (use client in simp_all)
next
  case (frame did ds received c r ds' c')
  have "no_standard ds' = no_standard ds" "requires_custom_work ds' = requires_custom_work ds"
    using downstream_message_frame [OF frame(5)] by (auto simp: same_channels_def no_standard_def)
  moreover have "requires_custom_work ds \<or> did \<notin> set (started s) \<Longrightarrow> no_standard ds"
    using inv frame(4) by (auto simp: custom_inv_def Let_def)
  ultimately show ?thesis
    by (intro custom_inv_put [OF inv, of s' did ds']) (use frame in simp_all)
next
  case (template nt r cm)
  show ?thesis
    using new_template_registry [of "manager s" L nt] id_factory_frames(1) [of L nt "manager s"] template
    by (intro custom_inv_registry [OF inv]) simp_all
next
  case (prev_hash ph r cm)
  show ?thesis
    using prev_hash_registry [of "manager s" L ph] id_factory_frames(2) [of L ph "manager s"] prev_hash
    by (intro custom_inv_registry [OF inv]) simp_all
next
  case (vardiff r cm)
  show ?thesis
    using run_vardiff_registry [of "manager s" L] id_factory_frames(3) [of L "manager s"] vardiff
    by (intro custom_inv_registry [OF inv]) simp_all
next
  case (removal did r cm)
  have "cm_downstream (channel_manager_data cm) = hm_remove did (cm_downstream (channel_manager_data (manager s)))"
      "downstream_id_factory (channel_manager_data cm) = downstream_id_factory (channel_manager_data (manager s))"
    using removal by (auto simp: remove_downstream_def Let_def)
  then show ?thesis
    using inv removal(1) by (simp add: custom_inv_def Let_def)
qed

lemma reachable_custom:
  assumes "reachable L cfg W n s" and "2 * n + 1 < 2 ^ 32" and "vardiff_available L"
  shows "custom_inv s"
  using assms
proof (induction rule: reachable.induct)
  case (start server_id outputs cm)
  then show ?case
    by (auto simp: custom_inv_def channel_manager_new_def map_res_Ok)
next
  case (step n s s')
  have "registry_bound n (channel_manager_data (manager s))"
    using reachable_registry_bound [OF step(1)] step(4,5) by simp
  then have "unat (downstream_id_factory (channel_manager_data (manager s))) + 1 < 2 ^ 64"
    using step(4) by (simp add: registry_bound_def)
  then show ?case
    using pool_step_custom [OF step(2)] step by simp
qed

end
