(* ===== verification/Pool_Shares.thy ===== *)
theory Pool_Shares
  imports Pool_Example
begin

text \<open>
  What the pool answers and records for shares, updates and custom jobs: the functional
  behaviour of the handlers of \<open>Pool_Mining\<close> on each branch, against a small reference for
  the error codes.
\<close>

section \<open>Reference\<close>

text \<open>The error code of a rejected share; \<open>None\<close> is an error that is not answered but
  returned.\<close>

fun share_code :: "bool \<Rightarrow> share_validation_error \<Rightarrow> string option" where
  "share_code ext SV_Invalid = Some ''invalid-share''"
| "share_code ext SV_Stale = Some ''stale-share''"
| "share_code ext SV_InvalidJobId = Some ''invalid-job-id''"
| "share_code ext SV_DoesNotMeetTarget = Some ''difficulty-too-low''"
| "share_code ext SV_DuplicateShare = Some ''duplicate-share''"
| "share_code ext SV_BadExtranonceSize = (if ext then Some ''bad-extranonce-size'' else None)"
| "share_code ext (SV_Other n) = None"

text \<open>The hash, the template and the coinbase of an accepted share.\<close>

fun share_hash_of :: "share_validation_result \<Rightarrow> u256" where
  "share_hash_of (Valid h) = h"
| "share_hash_of (BlockFound h t c) = h"

fun solved_template :: "share_validation_result \<Rightarrow> (u64 \<times> bytes) option" where
  "solved_template (Valid h) = None"
| "solved_template (BlockFound h None c) = None"
| "solved_template (BlockFound h (Some t) c) = Some (t, c)"

fun is_block :: "share_validation_result \<Rightarrow> bool" where
  "is_block (Valid h) = False"
| "is_block (BlockFound h t c) = True"

text \<open>A persisted share is consistent: valid exactly when it carries no error code, hashed
  exactly when valid, and a block only if valid.\<close>

fun consistent_event :: "persistence_event \<Rightarrow> bool" where
  "consistent_event (Share e) \<longleftrightarrow>
     (se_is_valid e \<longleftrightarrow> se_error_code e = None) \<and> (se_is_valid e \<longleftrightarrow> se_share_hash e \<noteq> None) \<and>
     (se_is_block_found e \<longrightarrow> se_is_valid e) \<and> (se_template_id e \<noteq> None \<longrightarrow> se_is_block_found e)"

section \<open>Standard channels\<close>

text \<open>The state a share leaves behind.\<close>

definition after_standard_share ::
  "('sc, 'ec, 'gc, 'vd, 'xf) channel_lib \<Rightarrow> downstream_id \<Rightarrow> channel_id \<Rightarrow> ('sc, 'ec, 'gc) downstream \<Rightarrow>
     'sc \<Rightarrow> 'vd \<Rightarrow> ('sc, 'ec, 'gc, 'vd, 'xf) channel_manager_data \<Rightarrow>
     ('sc, 'ec, 'gc, 'vd, 'xf) channel_manager_data" where
  "after_standard_share L did cid ds sc vd d =
     d\<lparr>cm_downstream := hm_insert did
          (ds\<lparr>downstream_data := (downstream_data ds)\<lparr>standard_channels :=
             hm_insert cid sc (standard_channels (downstream_data ds))\<rparr>\<rparr>) (cm_downstream d),
        vardiff := hm_insert (did, cid) (vd_increment_shares_since_last_update L vd) (vardiff d)\<rparr>"

definition after_extended_share ::
  "('sc, 'ec, 'gc, 'vd, 'xf) channel_lib \<Rightarrow> downstream_id \<Rightarrow> channel_id \<Rightarrow> ('sc, 'ec, 'gc) downstream \<Rightarrow>
     'ec \<Rightarrow> 'vd \<Rightarrow> ('sc, 'ec, 'gc, 'vd, 'xf) channel_manager_data \<Rightarrow>
     ('sc, 'ec, 'gc, 'vd, 'xf) channel_manager_data" where
  "after_extended_share L did cid ds ec vd d =
     d\<lparr>cm_downstream := hm_insert did
          (ds\<lparr>downstream_data := (downstream_data ds)\<lparr>extended_channels :=
             hm_insert cid ec (extended_channels (downstream_data ds))\<rparr>\<rparr>) (cm_downstream d),
        vardiff := hm_insert (did, cid) (vd_increment_shares_since_last_update L vd) (vardiff d)\<rparr>"

text \<open>In the registry invariant a registered channel has its vardiff state.\<close>

lemma registered_vardiff:
  assumes "registry_inv d" and "hm_get (cm_downstream d) did = Some ds"
    and "cid \<in> chan_ids (downstream_data ds)"
  obtains vd where "hm_get (vardiff d) (did, cid) = Some vd"
proof -
  have "(did, cid) \<in> hm_keys (vardiff d)"
    using assms by (simp add: registry_inv_def vardiff_inv_def)
  then show thesis using that by (auto simp: hm.keys_get)
qed

lemma standard_in_chan_ids: "hm_get (standard_channels dd) cid = Some sc \<Longrightarrow> cid \<in> chan_ids dd"
  by (simp add: chan_ids_def hm_get_in_keys)

lemma extended_in_chan_ids: "hm_get (extended_channels dd) cid = Some ec \<Longrightarrow> cid \<in> chan_ids dd"
  by (simp add: chan_ids_def hm_get_in_keys)

lemma submit_standard_eq:
  assumes "hm_get (cm_downstream (channel_manager_data cm)) did = Some ds"
    and "hm_get (standard_channels (downstream_data ds)) (sh_channel_id msg) = Some sc"
    and "hm_get (vardiff (channel_manager_data cm)) (did, sh_channel_id msg) = Some vd"
    and "sc_validate_share L sc msg = (res, sc')"
  shows "handle_submit_shares_standard L now did msg cm =
    (case answer_standard L did (sh_channel_id msg) sc' msg now res of (r, evs) \<Rightarrow>
       forward_all r (cm\<lparr>channel_manager_data :=
          after_standard_share L did (sh_channel_id msg) ds sc' vd (channel_manager_data cm),
          persisted := persisted cm @ evs\<rparr>))"
  using assms by (simp add: handle_submit_shares_standard_def Let_def after_standard_share_def)

lemma submit_extended_eq:
  assumes "hm_get (cm_downstream (channel_manager_data cm)) did = Some ds"
    and "hm_get (extended_channels (downstream_data ds)) (sh_channel_id msg) = Some ec"
    and "hm_get (vardiff (channel_manager_data cm)) (did, sh_channel_id msg) = Some vd"
    and "ec_validate_share L ec msg = (res, ec')"
  shows "handle_submit_shares_extended L now did msg cm =
    (case answer_extended L did (sh_channel_id msg) ec' msg now res of (r, evs) \<Rightarrow>
       forward_all r (cm\<lparr>channel_manager_data :=
          after_extended_share L did (sh_channel_id msg) ds ec' vd (channel_manager_data cm),
          persisted := persisted cm @ evs\<rparr>))"
  using assms
  by (simp add: handle_submit_shares_extended_def get_negotiated_extensions_with_client_def Let_def
      after_extended_share_def)

lemma answer_standard_rejected:
  "share_code False e = Some code \<Longrightarrow>
     answer_standard L did cid sc msg now (Inl e) =
       (Ok (share_error did (sh_channel_id msg) (sh_sequence_number msg) code),
        if e = SV_DuplicateShare then []
        else [standard_share_event L sc msg now (Some code) False False None None])"
  by (cases e) (auto simp: answer_standard_def)

lemma answer_extended_rejected:
  "share_code True e = Some code \<Longrightarrow>
     answer_extended L did cid ec msg now (Inl e) =
       (Ok (share_error did (sh_channel_id msg) (sh_sequence_number msg) code),
        if e = SV_DuplicateShare then []
        else [extended_share_event L ec msg now (Some code) False False None None])"
  by (cases e) (auto simp: answer_extended_def)

text \<open>
  C11. A share that the standard channel rejects with an answerable error: the downstream gets
  exactly one \<open>SubmitSharesError\<close> with the share's channel, sequence number and the error's
  code; the event is persisted with that code unless the share is a duplicate; the channel
  keeps its new state and its vardiff state, which the registry invariant provides, counts
  the share.
\<close>

theorem submit_standard_rejected:
  assumes "registry_inv (channel_manager_data cm)"
    and "hm_get (cm_downstream (channel_manager_data cm)) did = Some ds"
    and "hm_get (standard_channels (downstream_data ds)) (sh_channel_id msg) = Some sc"
    and "sc_validate_share L sc msg = (Inl e, sc')" and "share_code False e = Some code"
  shows "\<exists>vd. hm_get (vardiff (channel_manager_data cm)) (did, sh_channel_id msg) = Some vd \<and>
    handle_submit_shares_standard L now did msg cm =
    (Ok (), \<lparr>channel_manager_data =
               after_standard_share L did (sh_channel_id msg) ds sc' vd (channel_manager_data cm),
             persisted = persisted cm @
               (if e = SV_DuplicateShare then []
                else [standard_share_event L sc' msg now (Some code) False False None None]),
             forwarded = forwarded cm @
               [Downstream did (SubmitSharesError (sh_channel_id msg) (sh_sequence_number msg) code)]\<rparr>)"
proof -
  obtain vd where vd: "hm_get (vardiff (channel_manager_data cm)) (did, sh_channel_id msg) = Some vd"
    using registered_vardiff [OF assms(1,2) standard_in_chan_ids [OF assms(3)]] .
  show ?thesis
    using submit_standard_eq [OF assms(2,3) vd assms(4), of now] vd
    by (simp add: answer_standard_rejected [OF assms(5)] forward_all_def share_error_def)
qed

definition demo_share :: "u32 \<Rightarrow> u32 \<Rightarrow> submit_shares_standard" where
  "demo_share cid nonce =
     \<lparr>sh_channel_id = cid, sh_sequence_number = 6, sh_job_id = 7, sh_nonce = nonce, sh_ntime = 1001,
      sh_version = 2\<rparr>"

definition demo_extended_share :: "u32 \<Rightarrow> u32 \<Rightarrow> submit_shares_extended" where
  "demo_extended_share cid nonce =
     \<lparr>sh_channel_id = cid, sh_sequence_number = 6, sh_job_id = 7, sh_nonce = nonce, sh_ntime = 1001,
      sh_version = 2, sh_extranonce = [1, 2]\<rparr>"

lemmas demo_share_defs = demo_share_def demo_extended_share_def demo_validation_def

theorem submit_standard_rejected_witness:
  "forwarded (snd (handle_submit_shares_standard demo_lib 5 1 (demo_share 2 9) demo_manager)) =
     [Downstream 1 (SubmitSharesError 2 6 ''stale-share'')]"
  using submit_standard_rejected [of demo_manager 1 demo_downstream "demo_share 2 9" 55 demo_lib SV_Stale 55
      "''stale-share''" 5]
  by (auto simp: demo_share_defs)

text \<open>
  C12. A share that the standard channel accepts is persisted once, as valid, with its hash, and
  as a block exactly when it is one. If it solves a block of a known template and the coinbase
  fits its encoding, the solution for that template goes to the template provider before the
  downstream is told; a plain share is acknowledged only when the batch is full.
\<close>

theorem submit_standard_accepted:
  assumes "registry_inv (channel_manager_data cm)"
    and "hm_get (cm_downstream (channel_manager_data cm)) did = Some ds"
    and "hm_get (standard_channels (downstream_data ds)) (sh_channel_id msg) = Some sc"
    and "sc_validate_share L sc msg = (Inr res, sc')"
    and "\<And>t c. solved_template res = Some (t, c) \<Longrightarrow> b064k_try_from L c = Inr c"
  shows "\<exists>vd. hm_get (vardiff (channel_manager_data cm)) (did, sh_channel_id msg) = Some vd \<and>
    handle_submit_shares_standard L now did msg cm =
    (Ok (), \<lparr>channel_manager_data =
               after_standard_share L did (sh_channel_id msg) ds sc' vd (channel_manager_data cm),
             persisted = persisted cm @
               [standard_share_event L sc' msg now None (is_block res) True (Some (share_hash_of res))
                  (map_option fst (solved_template res))],
             forwarded = forwarded cm @
               (case solved_template res of None \<Rightarrow> [] | Some (t, c) \<Rightarrow>
                  [TemplateProvider (SubmitSolution (solution t msg c))]) @
               (if is_block res \<or> should_acknowledge (sc_share_accounting L sc') then
                  [Downstream did (SubmitSharesSuccess
                     (share_success (sh_channel_id msg) (sc_share_accounting L sc')))]
                else [])\<rparr>)"
proof -
  obtain vd where vd: "hm_get (vardiff (channel_manager_data cm)) (did, sh_channel_id msg) = Some vd"
    using registered_vardiff [OF assms(1,2) standard_in_chan_ids [OF assms(3)]] .
  show ?thesis
    using submit_standard_eq [OF assms(2,3) vd assms(4), of now] vd assms(5)
    by (cases res rule: solved_template.cases) (auto simp: answer_standard_def forward_all_def)
qed

theorem submit_standard_accepted_witness:
  "forwarded (snd (handle_submit_shares_standard demo_lib 5 1 (demo_share 2 1) demo_manager)) =
     [TemplateProvider (SubmitSolution \<lparr>ss_template_id = 3, ss_version = 2, ss_header_timestamp = 1001,
        ss_header_nonce = 1, ss_coinbase_tx = [0xab]\<rparr>),
      Downstream 1 (SubmitSharesSuccess \<lparr>sss_channel_id = 2, sss_last_sequence_number = 5,
        sss_new_submits_accepted_count = 1, sss_new_shares_sum = f64_as_u64 0x4008000000000000\<rparr>)]"
  using submit_standard_accepted [of demo_manager 1 demo_downstream "demo_share 2 1" 55 demo_lib
      "BlockFound 12 (Some 3) [0xab]" 55 5]
  by (auto simp: demo_share_defs demo_accounting_def solution_def share_success_def)

section \<open>Extended channels\<close>

text \<open>
  The extended handler gives the same account of a rejected share, and in addition answers
  and persists a share whose extranonce has the wrong size.
\<close>

theorem submit_extended_rejected:
  assumes "registry_inv (channel_manager_data cm)"
    and "hm_get (cm_downstream (channel_manager_data cm)) did = Some ds"
    and "hm_get (extended_channels (downstream_data ds)) (sh_channel_id msg) = Some ec"
    and "ec_validate_share L ec msg = (Inl e, ec')" and "share_code True e = Some code"
  shows "\<exists>vd. hm_get (vardiff (channel_manager_data cm)) (did, sh_channel_id msg) = Some vd \<and>
    handle_submit_shares_extended L now did msg cm =
    (Ok (), \<lparr>channel_manager_data =
               after_extended_share L did (sh_channel_id msg) ds ec' vd (channel_manager_data cm),
             persisted = persisted cm @
               (if e = SV_DuplicateShare then []
                else [extended_share_event L ec' msg now (Some code) False False None None]),
             forwarded = forwarded cm @
               [Downstream did (SubmitSharesError (sh_channel_id msg) (sh_sequence_number msg) code)]\<rparr>)"
proof -
  obtain vd where vd: "hm_get (vardiff (channel_manager_data cm)) (did, sh_channel_id msg) = Some vd"
    using registered_vardiff [OF assms(1,2) extended_in_chan_ids [OF assms(3)]] .
  show ?thesis
    using submit_extended_eq [OF assms(2,3) vd assms(4), of now] vd
    by (simp add: answer_extended_rejected [OF assms(5)] forward_all_def share_error_def)
qed

theorem submit_extended_rejected_witness:
  "forwarded (snd (handle_submit_shares_extended demo_lib 5 1 (demo_extended_share 3 2) demo_manager)) =
     [Downstream 1 (SubmitSharesError 3 6 ''duplicate-share'')]"
  using submit_extended_rejected [of demo_manager 1 demo_downstream "demo_extended_share 3 2" 77 demo_lib
      SV_DuplicateShare 77 "''duplicate-share''" 5]
  by (auto simp: demo_share_defs)

text \<open>C13. And of an accepted one.\<close>

theorem submit_extended_accepted:
  assumes "registry_inv (channel_manager_data cm)"
    and "hm_get (cm_downstream (channel_manager_data cm)) did = Some ds"
    and "hm_get (extended_channels (downstream_data ds)) (sh_channel_id msg) = Some ec"
    and "ec_validate_share L ec msg = (Inr res, ec')"
    and "\<And>t c. solved_template res = Some (t, c) \<Longrightarrow> b064k_try_from L c = Inr c"
  shows "\<exists>vd. hm_get (vardiff (channel_manager_data cm)) (did, sh_channel_id msg) = Some vd \<and>
    handle_submit_shares_extended L now did msg cm =
    (Ok (), \<lparr>channel_manager_data =
               after_extended_share L did (sh_channel_id msg) ds ec' vd (channel_manager_data cm),
             persisted = persisted cm @
               [extended_share_event L ec' msg now None (is_block res) True (Some (share_hash_of res))
                  (map_option fst (solved_template res))],
             forwarded = forwarded cm @
               (case solved_template res of None \<Rightarrow> [] | Some (t, c) \<Rightarrow>
                  [TemplateProvider (SubmitSolution (solution t msg c))]) @
               (if is_block res \<or> should_acknowledge (ec_share_accounting L ec') then
                  [Downstream did (SubmitSharesSuccess
                     (share_success (sh_channel_id msg) (ec_share_accounting L ec')))]
                else [])\<rparr>)"
proof -
  obtain vd where vd: "hm_get (vardiff (channel_manager_data cm)) (did, sh_channel_id msg) = Some vd"
    using registered_vardiff [OF assms(1,2) extended_in_chan_ids [OF assms(3)]] .
  show ?thesis
    using submit_extended_eq [OF assms(2,3) vd assms(4), of now] vd assms(5)
    by (cases res rule: solved_template.cases) (auto simp: answer_extended_def forward_all_def)
qed

theorem submit_extended_accepted_witness:
  "persisted (snd (handle_submit_shares_extended demo_lib 5 1 (demo_extended_share 3 0) demo_manager)) =
     [extended_share_event demo_lib 77 (demo_extended_share 3 0) 5 None False True (Some 11) None]"
  using submit_extended_accepted [of demo_manager 1 demo_downstream "demo_extended_share 3 0" 77 demo_lib
      "Valid 11" 77 5]
  by (auto simp: demo_share_defs)

section \<open>Sequences of calls\<close>

lemma answer_standard_consistent: "list_all consistent_event (snd (answer_standard L did cid sc msg now res))"
  by (cases res; cases "projr res"; cases "projl res") (auto simp: answer_standard_def standard_share_event_def Let_def)

lemma answer_extended_consistent: "list_all consistent_event (snd (answer_extended L did cid ec msg now res))"
  by (cases res; cases "projr res"; cases "projl res") (auto simp: answer_extended_def extended_share_event_def Let_def)

lemma persisted_forward_all [simp]: "persisted (snd (forward_all r cm)) = persisted cm"
  by (cases r) (simp_all add: forward_all_def)

lemma client_call_events:
  "list_all consistent_event (persisted cm) \<Longrightarrow>
   list_all consistent_event (persisted (snd (handle_client_call L cfg did call cm)))"
proof (cases call)
  case (SubmitSharesStandard now m)
  assume "list_all consistent_event (persisted cm)"
  then show ?thesis
    using SubmitSharesStandard
    by (simp add: answer_standard_consistent handle_submit_shares_standard_def Let_def case_prod_unfold split: option.split)
next
  case (SubmitSharesExtended now m)
  assume "list_all consistent_event (persisted cm)"
  then show ?thesis
    using SubmitSharesExtended
    by (cases "hm_get (cm_downstream (channel_manager_data cm)) did")
      (simp_all add: answer_extended_consistent handle_submit_shares_extended_def
        get_negotiated_extensions_with_client_def Let_def case_prod_unfold split: option.split)
qed (simp_all add: handle_close_channel_def handle_open_standard_mining_channel_def
    handle_open_extended_mining_channel_def handle_update_channel_def handle_set_custom_mining_job_def
    Let_def case_prod_unfold split: option.split sum.split)

text \<open>
  Whatever calls the clients make, every share event the pool has persisted is consistent:
  it is valid exactly when it has no error code and exactly when it has a hash, only a valid
  share is a block, and only a block names a template.
\<close>

theorem persisted_events_consistent:
  "list_all consistent_event (persisted cm) \<Longrightarrow>
   list_all consistent_event (persisted (run_calls (handle_client_call L cfg) calls cm))"
  by (induction "handle_client_call L cfg" calls cm rule: run_calls.induct)
    (simp_all add: client_call_events)

theorem persisted_events_consistent_witness:
  "list_all consistent_event (persisted (run_calls (handle_client_call demo_lib demo_config)
     [(1, SubmitSharesStandard 5 (demo_share 2 1)), (1, CloseChannel 2)] demo_manager))"
  using persisted_events_consistent [of demo_manager demo_lib demo_config
      "[(1, SubmitSharesStandard 5 (demo_share 2 1)), (1, CloseChannel 2)]"]
  by simp

lemma forward_all_error: "r \<noteq> Err e \<Longrightarrow> fst (forward_all r cm) \<noteq> Err e"
  by (cases r) (simp_all add: forward_all_def)

lemma answer_standard_error: "fst (answer_standard L did cid sc msg now res) \<noteq> Err (VardiffNotFound c)"
  by (auto simp: answer_standard_def Let_def
      split: sum.splits share_validation_result.splits share_validation_error.splits option.splits)

lemma answer_extended_error: "fst (answer_extended L did cid ec msg now res) \<noteq> Err (VardiffNotFound c)"
  by (auto simp: answer_extended_def Let_def
      split: sum.splits share_validation_result.splits share_validation_error.splits option.splits)

lemma submit_standard_vardiff:
  assumes "registry_inv (channel_manager_data cm)"
  shows "fst (handle_submit_shares_standard L now did msg cm) \<noteq> Err (VardiffNotFound c)"
proof (cases "\<exists>ds sc. hm_get (cm_downstream (channel_manager_data cm)) did = Some ds \<and>
    hm_get (standard_channels (downstream_data ds)) (sh_channel_id msg) = Some sc")
  case True
  then obtain ds sc where ds: "hm_get (cm_downstream (channel_manager_data cm)) did = Some ds"
      and sc: "hm_get (standard_channels (downstream_data ds)) (sh_channel_id msg) = Some sc"
    by blast
  obtain vd where vd: "hm_get (vardiff (channel_manager_data cm)) (did, sh_channel_id msg) = Some vd"
    using registered_vardiff [OF assms ds standard_in_chan_ids [OF sc]] .
  show ?thesis
    unfolding submit_standard_eq [OF ds sc vd prod.collapse [symmetric]] case_prod_unfold
    by (rule forward_all_error [OF answer_standard_error])
qed (auto simp: handle_submit_shares_standard_def forward_all_def Let_def split: option.split)

lemma submit_extended_vardiff:
  assumes "registry_inv (channel_manager_data cm)"
  shows "fst (handle_submit_shares_extended L now did msg cm) \<noteq> Err (VardiffNotFound c)"
proof (cases "\<exists>ds ec. hm_get (cm_downstream (channel_manager_data cm)) did = Some ds \<and>
    hm_get (extended_channels (downstream_data ds)) (sh_channel_id msg) = Some ec")
  case True
  then obtain ds ec where ds: "hm_get (cm_downstream (channel_manager_data cm)) did = Some ds"
      and ec: "hm_get (extended_channels (downstream_data ds)) (sh_channel_id msg) = Some ec"
    by blast
  obtain vd where vd: "hm_get (vardiff (channel_manager_data cm)) (did, sh_channel_id msg) = Some vd"
    using registered_vardiff [OF assms ds extended_in_chan_ids [OF ec]] .
  show ?thesis
    unfolding submit_extended_eq [OF ds ec vd prod.collapse [symmetric]] case_prod_unfold
    by (rule forward_all_error [OF answer_extended_error])
qed (auto simp: handle_submit_shares_extended_def get_negotiated_extensions_with_client_def and_then_def
    expect_def forward_all_def Let_def split: option.split)

text \<open>
  In a registry that satisfies its invariant no share fails for want of a vardiff state:
  the error \<open>VardiffNotFound\<close> of the share handlers is unreachable.
\<close>

theorem vardiff_always_found:
  assumes "registry_inv (channel_manager_data cm)"
  shows "fst (handle_submit_shares_standard L now did msg cm) \<noteq> Err (VardiffNotFound c) \<and>
    fst (handle_submit_shares_extended L now did msg' cm) \<noteq> Err (VardiffNotFound c)"
  using submit_standard_vardiff [OF assms] submit_extended_vardiff [OF assms] by blast

theorem vardiff_always_found_witness:
  "fst (handle_submit_shares_standard demo_lib 5 1 (demo_share 2 0) demo_manager) \<noteq> Err (VardiffNotFound 2)"
  using vardiff_always_found [of demo_manager demo_lib 5 1 "demo_share 2 0" 2 "demo_extended_share 3 0"]
  by simp

text \<open>
  C21. A closed channel is gone: a share submitted on it afterwards is answered with
  \<open>invalid-channel-id\<close> and changes and records nothing, whichever kind of channel it was.
\<close>

theorem closed_channel_rejects_shares:
  assumes "hm_get (cm_downstream (channel_manager_data cm)) did = Some ds"
    and "handle_close_channel did cid cm = (r, cm')"
    and "sh_channel_id msg = cid" and "sh_channel_id msg' = cid"
  shows "r = Ok () \<and>
    handle_submit_shares_standard L now did msg cm' =
      (Ok (), cm'\<lparr>forwarded := forwarded cm' @
         [Downstream did (SubmitSharesError cid (sh_sequence_number msg) ''invalid-channel-id'')]\<rparr>) \<and>
    handle_submit_shares_extended L now did msg' cm' =
      (Ok (), cm'\<lparr>forwarded := forwarded cm' @
         [Downstream did (SubmitSharesError cid (sh_sequence_number msg') ''invalid-channel-id'')]\<rparr>)"
  using assms
  by (auto simp: handle_close_channel_def handle_submit_shares_standard_def
      handle_submit_shares_extended_def get_negotiated_extensions_with_client_def Let_def
      forward_all_def share_error_def)

theorem closed_channel_rejects_shares_witness:
  "forwarded (snd (handle_submit_shares_standard demo_lib 5 1 (demo_share 2 0)
     (snd (handle_close_channel 1 2 demo_manager)))) =
     [Downstream 1 (SubmitSharesError 2 6 ''invalid-channel-id'')]"
proof -
  obtain r cm' where c: "handle_close_channel 1 2 demo_manager = (r, cm')" by fastforce
  have "forwarded cm' = []"
    using c by (auto simp: handle_close_channel_def Let_def)
  then show ?thesis
    using closed_channel_rejects_shares [OF _ c, of demo_downstream "demo_share 2 0" "demo_extended_share 2 0"
        demo_lib 5] c
    by (simp add: demo_share_defs)
qed

end
