(* ===== verification/Pool_Opening.thy ===== *)
theory Pool_Opening
  imports Pool_Shares
begin

text \<open>
  Opening, updating and customising channels: what a client is told is what the registry
  holds afterwards. Every successful call either answers with an error and leaves the
  channels alone, or registers a channel under a fresh identifier together with its vardiff
  state and announces that identifier, its first job and the job's activation.
\<close>

section \<open>Standard channels\<close>












section \<open>Extended channels\<close>







section \<open>The handlers\<close>

lemma forward_all_Ok:
  "forward_all r cm = (Ok (), cm') \<longleftrightarrow> (\<exists>msgs. r = Ok msgs \<and> cm' = cm\<lparr>forwarded := forwarded cm @ msgs\<rparr>)"
  by (cases r) (auto simp: forward_all_def)



definition demo_open :: open_standard_mining_channel where
  "demo_open = \<lparr>os_request_id = 21, os_user_identity = [], os_nominal_hash_rate = 5, os_max_target = 1234\<rparr>"

definition demo_open_extended :: open_extended_mining_channel where
  "demo_open_extended =
     \<lparr>oe_request_id = 22, oe_user_identity = [], oe_nominal_hash_rate = 5, oe_max_target = 4321,
      oe_min_extranonce_size = 4\<rparr>"

lemma demo_open_fields [simp]:
  "os_request_id demo_open = 21" "os_nominal_hash_rate demo_open = 5" "os_max_target demo_open = 1234"
  "oe_request_id demo_open_extended = 22" "oe_nominal_hash_rate demo_open_extended = 5"
  "oe_max_target demo_open_extended = 4321"
  by (simp_all add: demo_open_def demo_open_extended_def)

lemma demo_chan_ids [simp]:
  "chan_ids (downstream_data demo_downstream) = {2, 3}" "chan_ids (downstream_data demo_custom) = {1}"
  by (auto simp: chan_ids_def demo_defs hm_keys_def)

lemma demo_room_1 [simp]: "registry_room (Suc 0) demo_data"
  by (auto simp: registry_room_def counter_room_def demo_defs map_eval split: if_splits)





section \<open>Updates\<close>

text \<open>
  An update of an existing standard channel that returns without an error ends with a
  \<open>SetTarget\<close> that carries the target the channel has afterwards, also when the update was
  rejected; the message before it, if any, is the error for that channel.
\<close>

theorem update_standard_announces_target:
  assumes "hm_get (cm_downstream (channel_manager_data cm)) did = Some ds"
    and "hm_get (standard_channels (downstream_data ds)) (uc_channel_id msg) = Some sc"
    and "handle_update_channel L did msg cm = (Ok (), cm')"
  shows "\<exists>errs ds' sc'. forwarded cm' =
      forwarded cm @ errs @ [Downstream did (SetTarget (uc_channel_id msg) (sc_target L sc'))] \<and>
    hm_get (cm_downstream (channel_manager_data cm')) did = Some ds' \<and>
    hm_get (standard_channels (downstream_data ds')) (uc_channel_id msg) = Some sc' \<and>
    sc' = snd (sc_update_channel L sc (uc_nominal_hash_rate msg) (Some (uc_maximum_target msg))) \<and>
    (errs = [] \<longleftrightarrow> (\<exists>u. fst (sc_update_channel L sc (uc_nominal_hash_rate msg) (Some (uc_maximum_target msg))) = Inr u)) \<and>
    (\<forall>m\<in>set errs. \<exists>code. m = Downstream did (UpdateChannelError (uc_channel_id msg) code))"
  using assms
  by (auto simp: handle_update_channel_def Let_def lock_downstream_def update_channel_locked_def
      update_standard_def forward_all_Ok split: prod.splits sum.splits standard_channel_error.splits)

theorem update_standard_announces_target_witness:
  "forwarded (snd (handle_update_channel demo_lib 1 \<lparr>uc_channel_id = 2, uc_nominal_hash_rate = 9,
     uc_maximum_target = 66\<rparr> demo_manager)) = [Downstream 1 (SetTarget 2 66)]"
proof -
  let ?msg = "\<lparr>uc_channel_id = 2, uc_nominal_hash_rate = 9, uc_maximum_target = 66\<rparr>"
  obtain cm' where cm': "handle_update_channel demo_lib 1 ?msg demo_manager = (Ok (), cm')"
    by (simp add: handle_update_channel_def Let_def lock_downstream_def update_channel_locked_def
        update_standard_def forward_all_def)
  then show ?thesis
    using update_standard_announces_target [OF _ _ cm', of demo_downstream 55] by auto
qed

section \<open>Custom jobs\<close>

text \<open>
  C35. A custom job is accepted only if one of its coinbase outputs pays the pool's reward
  script and the channel exists: a success message is sent exactly in that case and names the
  job the channel filed, and every other answer leaves the registry unchanged.
\<close>

theorem custom_job_pays_pool:
  assumes "consensus_decode_outputs L (cj_coinbase_tx_outputs msg) = Inr outs"
    and "hm_get (cm_downstream (channel_manager_data cm)) did = Some ds"
    and "handle_set_custom_mining_job L cfg did msg cm = (Ok (), cm')"
  shows "if (\<exists>out\<in>set outs. tx_script_pubkey out = coinbase_reward_script_pubkey cfg) \<and>
      cj_channel_id msg \<in> hm_keys (extended_channels (downstream_data ds))
    then \<exists>ec jid ds'. hm_get (extended_channels (downstream_data ds)) (cj_channel_id msg) = Some ec \<and>
      fst (ec_on_set_custom_mining_job L ec msg) = Inr jid \<and>
      forwarded cm' = forwarded cm @
        [Downstream did (SetCustomMiningJobSuccess (cj_channel_id msg) (cj_request_id msg) jid)] \<and>
      hm_get (cm_downstream (channel_manager_data cm')) did = Some ds' \<and>
      hm_get (extended_channels (downstream_data ds')) (cj_channel_id msg) =
        Some (snd (ec_on_set_custom_mining_job L ec msg))
    else \<exists>code. forwarded cm' = forwarded cm @
        [Downstream did (SetCustomMiningJobError (cj_request_id msg) (cj_channel_id msg) code)] \<and>
      (\<forall>k. hm_get (cm_downstream (channel_manager_data cm')) k = hm_get (cm_downstream (channel_manager_data cm)) k)"
  using assms
  by (auto simp: handle_set_custom_mining_job_def Let_def lock_downstream_def custom_job_locked_def
      forward_all_Ok list_ex_iff hm.keys_get split: prod.splits sum.splits option.splits if_splits)

theorem custom_job_pays_pool_witness:
  "forwarded (snd (handle_set_custom_mining_job demo_lib demo_config 2
     \<lparr>cj_channel_id = 1, cj_request_id = 8, cj_coinbase_tx_outputs = [0x51], cj_payload = []\<rparr> demo_manager)) =
     [Downstream 2 (SetCustomMiningJobSuccess 1 8 9)]"
proof -
  let ?msg = "\<lparr>cj_channel_id = 1, cj_request_id = 8, cj_coinbase_tx_outputs = [0x51], cj_payload = []\<rparr>"
  obtain cm' where cm': "handle_set_custom_mining_job demo_lib demo_config 2 ?msg demo_manager = (Ok (), cm')"
    by (simp add: handle_set_custom_mining_job_def Let_def lock_downstream_def custom_job_locked_def
        forward_all_def demo_config_def)
  then show ?thesis
    using custom_job_pays_pool [OF _ _ cm', of "[\<lparr>tx_value = 0, tx_script_pubkey = [0x51]\<rparr>]" demo_custom]
    by (auto simp: demo_config_def hm.keys_get)
qed

end
