(* ===== verification/Pool_Delivery.thy ===== *)
theory Pool_Delivery
  imports Pool_Downstream Pool_Opening
begin

text \<open>
  What reaches the clients: jobs of a new template, activations of a new prev-hash, targets of
  the difficulty adjustment, the outcome of an extension negotiation, and the frames on a
  connection.
\<close>

section \<open>Templates\<close>

text \<open>
  A new template reaches every extended channel that accepts it. With a library that
  files the jobs of accepted templates and decodable coinbase outputs, the handler returns
  without error or panic; the channel's owner is sent the job the channel filed for the
  template, and the channel is left in the state the library returned.
\<close>

theorem new_template_reaches_extended:
  assumes law: "template_jobs_on_file L" and inv: "registry_inv (channel_manager_data cm)"
    and outs: "deserialize_outputs L (coinbase_outputs (channel_manager_data cm)) = Some (out # rest)"
    and ds: "hm_get (cm_downstream (channel_manager_data cm)) did = Some ds"
    and ec: "hm_get (extended_channels (downstream_data ds)) cid = Some ec"
    and acc: "ec_on_new_template L ec msg (out\<lparr>tx_value := nt_coinbase_tx_value_remaining msg\<rparr> # rest) = (Inr (), ec')"
  shows "\<exists>msgs cm' ds' j. handle_new_template L msg cm = (Ok (), cm') \<and>
    forwarded cm' = forwarded cm @ msgs \<and> extended_template_job L msg ec' = Ok j \<and>
    Downstream did (NewExtendedMiningJob (job_msg j)) \<in> set msgs \<and>
    hm_get (cm_downstream (channel_manager_data cm')) did = Some ds' \<and>
    hm_get (extended_channels (downstream_data ds')) cid = Some ec'"
proof -
  let ?outs = "out\<lparr>tx_value := nt_coinbase_tx_value_remaining msg\<rparr> # rest"
  obtain msgs m cm' where m: "hm_iter_mut (template_to_downstream L msg ?outs)
        (cm_downstream (channel_manager_data cm)) = (Ok msgs, m)"
      and cm': "handle_new_template L msg cm = (Ok (), cm')" "forwarded cm' = forwarded cm @ msgs"
        "cm_downstream (channel_manager_data cm') = m"
    using handle_new_template_ok [OF law outs] .
  obtain msgs1 ds' where t: "template_to_downstream L msg ?outs did ds = (Ok msgs1, ds')"
      "set msgs1 \<subseteq> set msgs" "(did, ds') \<in> set m"
    using hm_iter_mut_mem [OF m hm_get_Some_in_set [OF ds]] .
  obtain gj g so scs eo ecs where
      "group_template_job L msg ?outs (group_channels (downstream_data ds)) = (Ok gj, g)"
      "hm_iter_mut (template_to_standard L msg ?outs did (g = None) gj)
        (standard_channels (downstream_data ds)) = (Ok so, scs)"
      and e: "hm_iter_mut (template_to_extended L msg ?outs did)
        (extended_channels (downstream_data ds)) = (Ok eo, ecs)"
      and td: "template_to_downstream L msg ?outs did ds =
       (Ok (so @ (case gj of None \<Rightarrow> [] | Some j \<Rightarrow> [Downstream did (NewExtendedMiningJob (job_msg j))]) @ eo),
        ds\<lparr>downstream_data := (downstream_data ds)\<lparr>group_channels := g, standard_channels := scs,
          extended_channels := ecs\<rparr>\<rparr>)"
    using template_to_downstream_stages [OF law, where ds = ds and did = did and msg = msg and outs = ?outs] .
  obtain out1 ec1 where x: "template_to_extended L msg ?outs did cid ec = (Ok out1, ec1)"
      "set out1 \<subseteq> set eo" "(cid, ec1) \<in> set ecs"
    using hm_iter_mut_mem [OF e hm_get_Some_in_set [OF ec]] .
  obtain j where j: "extended_template_job L msg ec' = Ok j"
    using extended_job_ok [OF law acc] by (auto simp: is_ok_iff)
  have x': "out1 = [Downstream did (NewExtendedMiningJob (job_msg j))]" "ec1 = ec'"
    using x(1) acc j by (simp_all add: template_to_extended_def)
  have "hm_distinct m"
    using inv m hm_iter_mut_distinct [of "template_to_downstream L msg ?outs" "cm_downstream (channel_manager_data cm)"]
    by (simp add: registry_inv_def)
  then have "hm_get m did = Some ds'" using t(3) by (simp add: hm_in_set_get)
  moreover have "hm_distinct ecs"
    using registry_inv_pair [OF inv ds] e
      hm_iter_mut_distinct [of "template_to_extended L msg ?outs did" "extended_channels (downstream_data ds)"]
    by (simp add: pair_inv_def data_inv_def)
  then have "hm_get ecs cid = Some ec'" using x(3) x'(2) by (simp add: hm_in_set_get)
  ultimately show ?thesis
    using cm' t(1,2) td x(2) x'(1) j by auto
qed

lemma demo_template_jobs [simp]: "template_jobs_on_file demo_lib"
  by (simp add: template_jobs_on_file_def files_job_def)

theorem new_template_reaches_extended_witness:
  "Downstream 1 (NewExtendedMiningJob (job_msg demo_job)) \<in>
     set (forwarded (snd (handle_new_template demo_lib demo_template demo_manager)))"
  using new_template_reaches_extended [of demo_lib demo_manager
      "\<lparr>tx_value = 0, tx_script_pubkey = [0x51]\<rparr>" "[]" 1 demo_downstream 3 77 demo_template 77]
  by (auto simp: extended_template_job_def)

lemma prev_hash_messages:
  assumes inv: "registry_inv (channel_manager_data cm)"
    and ok: "handle_set_new_prev_hash L msg cm = (Ok (), cm')"
  obtains msgs where "forwarded cm' = forwarded cm @ msgs"
    and "last_new_prev_hash (channel_manager_data cm') = Some msg"
    and "\<forall>m\<in>set msgs. \<exists>did ds. hm_get (cm_downstream (channel_manager_data cm)) did = Some ds \<and>
      announcement msg did ds m"
proof -
  let ?m = "cm_downstream (channel_manager_data cm)"
  obtain msgs m' where it: "hm_iter_mut (prev_hash_to_downstream L msg) ?m = (Ok msgs, m')"
      and cm': "forwarded cm' = forwarded cm @ msgs" "last_new_prev_hash (channel_manager_data cm') = Some msg"
    using ok by (cases "hm_iter_mut (prev_hash_to_downstream L msg) ?m")
      (auto simp: handle_set_new_prev_hash_def Let_def forward_all_Ok)
  have "\<forall>x\<in>set msgs. \<exists>did ds. hm_get ?m did = Some ds \<and> announcement msg did ds x"
  proof (rule hm_iter_mut_out [OF it])
    fix did ds o1 ds'
    assume "(did, ds) \<in> set ?m" and f: "prev_hash_to_downstream L msg did ds = (Ok o1, ds')"
    then have "hm_get ?m did = Some ds"
      using inv by (simp add: registry_inv_def hm_in_set_get)
    then show "\<forall>x\<in>set o1. \<exists>did ds. hm_get ?m did = Some ds \<and> announcement msg did ds x"
      using prev_hash_to_downstream_messages [OF f] by blast
  qed
  then show thesis by (rule that [OF cm'])
qed

text \<open>
  Every message of a new prev-hash is an activation that carries the prev-hash, the
  minimum time and the target bits of the template provider's message, and goes to a
  registered connection for a channel that is due one.
\<close>

theorem prev_hash_announcements:
  assumes inv: "registry_inv (channel_manager_data cm)"
    and ok: "handle_set_new_prev_hash L msg cm = (Ok (), cm')"
  shows "last_new_prev_hash (channel_manager_data cm') = Some msg \<and>
    (\<exists>msgs. forwarded cm' = forwarded cm @ msgs \<and>
      (\<forall>m\<in>set msgs. \<exists>did ds. hm_get (cm_downstream (channel_manager_data cm)) did = Some ds \<and>
         announcement msg did ds m))"
proof -
  obtain msgs where "forwarded cm' = forwarded cm @ msgs"
    and "last_new_prev_hash (channel_manager_data cm') = Some msg"
    and "\<forall>m\<in>set msgs. \<exists>did ds. hm_get (cm_downstream (channel_manager_data cm)) did = Some ds \<and>
      announcement msg did ds m"
    using prev_hash_messages [OF inv ok] .
  then show ?thesis by (intro conjI exI [of _ msgs])
qed

theorem prev_hash_announcements_witness:
  "last_new_prev_hash (channel_manager_data (snd (handle_set_new_prev_hash demo_lib demo_prev_hash demo_manager))) =
     Some demo_prev_hash"
proof -
  obtain cm' where cm': "handle_set_new_prev_hash demo_lib demo_prev_hash demo_manager = (Ok (), cm')"
    by (simp add: handle_set_new_prev_hash_def Let_def demo_data_def prev_hash_to_downstream_def
        prev_hash_to_group_def prev_hash_to_standard_def prev_hash_to_extended_def demo_downstream_def
        demo_custom_def forward_all_def)
  then show ?thesis
    using prev_hash_announcements [OF _ cm'] by simp
qed

section \<open>Difficulty\<close>

text \<open>
  Every message of a vardiff pass is a \<open>SetTarget\<close> for a channel that has a vardiff
  state, sent to the connection that owns the channel, and the target it announces is the one
  the channel has when the pass is over.
\<close>

theorem vardiff_announces_targets:
  assumes inv: "registry_inv (channel_manager_data cm)" and run: "run_vardiff L cm = (r, cm')"
  shows "r = Ok () \<and> (\<exists>msgs. forwarded cm' = forwarded cm @ msgs \<and>
    (\<forall>m\<in>set msgs. \<exists>did cid t ds. m = Downstream did (SetTarget cid t) \<and>
       (did, cid) \<in> hm_keys (vardiff (channel_manager_data cm)) \<and>
       hm_get (cm_downstream (channel_manager_data cm')) did = Some ds \<and>
       channel_target L (downstream_data ds) cid = Some t))"
proof -
  let ?d = "channel_manager_data cm"
  obtain ms vs dm where v: "vardiff_entries L (vardiff ?d) (cm_downstream ?d) = (ms, vs, dm)"
    by (cases "vardiff_entries L (vardiff ?d) (cm_downstream ?d)") auto
  have cm': "r = Ok ()" "forwarded cm' = forwarded cm @ ms" "cm_downstream (channel_manager_data cm') = dm"
    using run by (auto simp: run_vardiff_def v forward_all_def)
  have d: "distinct (map fst (vardiff ?d))"
      "\<forall>did ds. hm_get (cm_downstream ?d) did = Some ds \<longrightarrow> data_inv (downstream_data ds)"
    using inv by (simp_all add: registry_inv_def hm_distinct_def)
  show ?thesis
    using vardiff_entries_messages [OF v d(1) _ d(2)] cm' by (auto simp: hm_keys_def)
qed

theorem vardiff_announces_targets_witness:
  "Downstream 1 (SetTarget 3 42) \<in> set (forwarded (snd (run_vardiff demo_lib demo_manager))) \<and>
   fst (run_vardiff demo_lib demo_manager) = Ok ()"
proof -
  obtain r cm' where run: "run_vardiff demo_lib demo_manager = (r, cm')" by fastforce
  have "forwarded (snd (run_vardiff demo_lib demo_manager)) = [Downstream 1 (SetTarget 3 42)]"
    by (simp add: run_vardiff_def Let_def demo_data_def demo_downstream_def demo_custom_def vardiff_data_def
        run_vardiff_on_standard_channel_def run_vardiff_on_extended_channel_def map_eval forward_all_def)
  then show ?thesis
    using vardiff_announces_targets [OF _ run] run by auto
qed

section \<open>Frames on a connection\<close>

definition demo_wire :: "nat wire" where
  "demo_wire =
     \<lparr>wr_values = (\<lambda>c. 0), wr_negotiation = 1,
      wr_encode = (\<lambda>m. Inr (case m of SetupConnectionSuccess v f \<Rightarrow> [1] | RequestExtensionsError i u r \<Rightarrow> [2]
        | RequestExtensionsSuccess i s \<Rightarrow> [3] | MiningMessage m \<Rightarrow> [4])),
      wr_parse_setup = (\<lambda>h p. Inr \<lparr>su_min_version = 2, su_max_version = 2, su_flags = 2\<rparr>),
      wr_parse_extensions = (\<lambda>h p. Inr \<lparr>rx_request_id = 1, rx_requested = []\<rparr>),
      wr_parse_message = (\<lambda>h p exts. Inr (Some 0))\<rparr>"

definition demo_connection :: "nat connection" where
  "demo_connection = \<lparr>sent = [], outbound_open = True, to_manager = [], manager_open = True\<rparr>"

text \<open>
  A connection that drains the broadcast queue puts exactly the messages addressed to it
  on the wire, each once and in the order they were forwarded, as long as they can be encoded
  and the connection is up.
\<close>

theorem broadcast_delivers_in_order:
  assumes "\<And>m. Downstream (ds_id ds) m \<in> set msgs \<Longrightarrow> wr_encode W (MiningMessage m) = Inr (enc m)"
    and "outbound_open c"
  shows "receive_all W ds (broadcast_queue msgs) c =
    (Ok (), c\<lparr>sent := sent c @ map enc (addressed (ds_id ds) (broadcast_queue msgs))\<rparr>)"
proof -
  have "Downstream (ds_id ds) m \<in> set msgs" if "m \<in> set (addressed (ds_id ds) (broadcast_queue msgs))" for m
    using that by (auto simp: addressed_def broadcast_queue_mem)
  then show ?thesis
    using assms by (intro receive_all_sent) auto
qed

theorem broadcast_delivers_in_order_witness:
  "sent (snd (receive_all demo_wire demo_custom
     (broadcast_queue [Downstream 2 (SetTarget 1 5), Downstream 1 (SetTarget 2 6), Downstream 2 (SetTarget 1 7)])
     demo_connection)) = [[4], [4]]"
  using broadcast_delivers_in_order [of demo_custom
      "[Downstream 2 (SetTarget 1 5), Downstream 1 (SetTarget 2 6), Downstream 2 (SetTarget 1 7)]"
      demo_wire "\<lambda>m. [4]" demo_connection]
  by (simp add: demo_wire_def demo_connection_def demo_custom_def)

text \<open>
  Negotiation of extensions. If some requested extension is supported and every required
  one was requested, the connection's extensions become the requested ones that are
  supported, in the order of the request, and exactly they are announced; otherwise the
  extensions stay as they were, an error listing the unsupported and the missing extensions
  is sent, and the call fails exactly when a required extension is missing.
\<close>

theorem extensions_negotiation:
  fixes ds :: "('sc, 'ec, 'gc) downstream"
  assumes "\<And>xs. seq064k_new L xs = Inr xs" and "\<And>m. wr_encode W m = Inr (enc m)" and "outbound_open c"
    and "supported = filter (\<lambda>x. x \<in> set (ds_supported_extensions ds)) (rx_requested msg)"
    and "unsupported = filter (\<lambda>x. x \<notin> set (ds_supported_extensions ds)) (rx_requested msg)"
    and "missing = filter (\<lambda>x. x \<notin> set (rx_requested msg)) (ds_required_extensions ds)"
  shows "handle_request_extensions L W msg (ds, c) =
    (if supported \<noteq> [] \<and> set (ds_required_extensions ds) \<subseteq> set (rx_requested msg)
     then (Ok (), ds\<lparr>downstream_data := (downstream_data ds)\<lparr>negotiated_extensions := supported\<rparr>\<rparr>,
           c\<lparr>sent := sent c @ [enc (RequestExtensionsSuccess (rx_request_id msg) supported)]\<rparr>)
     else (if set (ds_required_extensions ds) \<subseteq> set (rx_requested msg) then Ok ()
           else Err (ClientDoesNotSupportRequiredExtensions missing),
           ds, c\<lparr>sent := sent c @ [enc (RequestExtensionsError (rx_request_id msg) unsupported missing)]\<rparr>))"
proof -
  have "missing = [] \<longleftrightarrow> set (ds_required_extensions ds) \<subseteq> set (rx_requested msg)"
    using assms(6) by (auto simp: filter_empty_conv)
  then show ?thesis
    unfolding handle_request_extensions_def send_frame_def Let_def prod.case
      assms(1,2) assms(4-6) [symmetric] sum.case
    using assms(3) by simp
qed

theorem extensions_negotiation_witness:
  "negotiated_extensions (downstream_data (fst (snd (handle_request_extensions demo_lib demo_wire
     \<lparr>rx_request_id = 4, rx_requested = [7, 2]\<rparr> (demo_downstream, demo_connection))))) = [2]"
  using extensions_negotiation [of demo_lib demo_wire
      "\<lambda>m. case m of SetupConnectionSuccess v f \<Rightarrow> [1] | RequestExtensionsError i u r \<Rightarrow> [2]
        | RequestExtensionsSuccess i s \<Rightarrow> [3] | MiningMessage m \<Rightarrow> [4]"
      demo_connection "[2]" demo_downstream "\<lparr>rx_request_id = 4, rx_requested = [7, 2]\<rparr>" "[7]" "[]"]
  by (simp add: demo_wire_def demo_connection_def demo_downstream_def)

end
