(* ===== verification/Persistence_Laws.thy ===== *)
theory Persistence_Laws
  imports Persistence
begin

text \<open>
  The properties of the persistence layer: when the composite reports an error, which
  backends a composite can change, what the fallback of a full primary receives, which events
  a burst leaves in the channel of the file backend, what the file worker writes, and what
  the metrics backend counts.
\<close>

section \<open>Auxiliary notions\<close>

text \<open>A route that may call the backend \<open>b\<close> for the event.\<close>

definition touches :: "backend_route \<Rightarrow> persistence_event \<Rightarrow> backend_ref \<Rightarrow> bool" where
  "touches r ev b \<longleftrightarrow>
     handles r (event_entity_type ev) \<and> (b = route_backend r \<or> route_fallback r = Some b)"

text \<open>
  The documented law of a bounded channel of capacity \<open>cap\<close> nobody has closed: \<open>try_send\<close>
  fails exactly when the channel is full, and otherwise appends.
\<close>

definition bounded_fifo :: "'c channel_ops \<Rightarrow> ('c \<Rightarrow> file_command list) \<Rightarrow> nat \<Rightarrow> bool" where
  "bounded_fifo ch contents cap \<longleftrightarrow>
     (\<forall>cmd q. case try_send ch cmd q of
        None \<Rightarrow> cap \<le> length (contents q)
      | Some q' \<Rightarrow> length (contents q) < cap \<and> contents q' = contents q @ [cmd])"

lemma bounded_fifo_full:
  "bounded_fifo ch contents cap \<Longrightarrow> cap \<le> length (contents q) \<Longrightarrow> try_send ch cmd q = None"
  unfolding bounded_fifo_def
  by (cases "try_send ch cmd q") (fastforce dest: spec [of _ cmd] split: option.splits)+

lemma bounded_fifo_room:
  assumes "bounded_fifo ch contents cap" and "length (contents q) < cap"
  obtains q' where "try_send ch cmd q = Some q'" and "contents q' = contents q @ [cmd]"
  using assms unfolding bounded_fifo_def by (force split: option.splits)

text \<open>The texts of the write commands.\<close>

fun written :: "file_command list \<Rightarrow> string list" where
  "written [] = []"
| "written (Write text # cmds) = text # written cmds"
| "written (FlushFile # cmds) = written cmds"
| "written (ShutdownFile # cmds) = written cmds"

text \<open>A file that keeps what is written to it.\<close>

definition appending :: "'f file_ops \<Rightarrow> ('f \<Rightarrow> string) \<Rightarrow> bool" where
  "appending fo text \<longleftrightarrow>
     (\<forall>t f. text (write_all fo t f) = text f @ t) \<and> (\<forall>f. text (flush_file fo f) = text f)"

lemma appending_fold:
  "appending fo text \<Longrightarrow>
     text (fold (apply_command fo) cmds f) = text f @ concat (map line (written cmds))"
  by (induction cmds arbitrary: f rule: written.induct) (simp_all add: appending_def)

section \<open>An example store\<close>

text \<open>Two file backends with channels of capacity 1, the first one full, and a metrics backend.\<close>

definition demo_channel :: "file_command list channel_ops" where
  "demo_channel =
     \<lparr>bounded = (\<lambda>n. []), try_send = (\<lambda>cmd q. if length q < 1 then Some (q @ [cmd]) else None),
      pending = length\<rparr>"

definition demo_store :: "file_command list store" where
  "demo_store b =
     (if b = 0 then FileBackend [FlushFile] else if b = 1 then FileBackend []
      else if b = 2 then MetricsBackend [] else NoOpBackend)"

definition demo_event :: share_event where
  "demo_event =
     \<lparr>se_error_code = None, se_extranonce_prefix = [], se_is_block_found = True, se_is_valid = True,
      se_nominal_hash_rate = 0, se_nonce = 1, se_ntime = 2, se_rollable_extranonce_size = None,
      se_share_hash = None, se_share_work = 0, se_target = 0, se_template_id = Some 12,
      se_timestamp = 3, se_user_identity = ''u'', se_version = 4\<rparr>"

definition demo_routes :: "backend_route list" where
  "demo_routes = [with_fallback 1 (new_route ''file'' 0 {ShareEntity}), new_route ''metrics'' 2 {ShareEntity}]"

lemma demo_channel_fifo: "bounded_fifo demo_channel (\<lambda>q. q) 1"
  by (auto simp: bounded_fifo_def demo_channel_def Suc_le_eq)

lemmas demo_persistence =
  demo_channel_def demo_store_def demo_event_def demo_routes_def with_fallback_def new_route_def
  handles_def

section \<open>The composite\<close>

text \<open>
  \<open>CompositeBackend::persist_event\<close> returns \<open>Ok\<close> exactly when every route succeeds in
  the state in which the composite reaches it: it does not handle the event, or its primary
  accepts it, or it has no fallback, or its fallback accepts it after the primary failed. In
  particular a failing primary without a fallback is not reported.
\<close>

theorem composite_reports_errors:
  "fst (composite_persist_event pe routes ev s) = Inr () \<longleftrightarrow>
     (\<forall>i<length routes. route_ok pe ev (routes ! i) (state_before pe routes ev s i))"
  by (rule composite_result)

theorem composite_reports_errors_witness:
  "fst (composite_persist_event (backend_persist_event demo_channel (\<lambda>_. ''e''))
     [new_route ''file'' 0 {ShareEntity}] (Share demo_event) demo_store) = Inr ()"
  by (rule composite_reports_errors [THEN iffD2]) (simp add: route_ok_def demo_persistence)

text \<open>
  A composite changes no backend but those of the routes that handle the event: every
  other backend of the shared store keeps its state.
\<close>

theorem composite_changes_only_its_routes:
  assumes "\<forall>r\<in>set routes. \<not> touches r ev b"
  shows "snd (composite_persist_event (backend_persist_event ch debug) routes ev s) b = s b"
  using assms by (intro backend_store.composite_frame) (auto simp: touches_def)

theorem composite_changes_only_its_routes_witness:
  "snd (composite_persist_event (backend_persist_event demo_channel (\<lambda>_. ''e'')) demo_routes
     (Share demo_event) demo_store) 7 = NoOpBackend"
  using composite_changes_only_its_routes
    [of demo_routes "Share demo_event" 7 demo_channel "\<lambda>_. ''e''" demo_store]
  by (simp add: touches_def demo_persistence)

lemma composite_split:
  "snd (composite_persist_event pe (pre @ r # post) ev s) =
     snd (fold (route_persist pe ev) post (None, snd (route_persist pe ev r
       (None, snd (fold (route_persist pe ev) pre (None, s))))))"
proof -
  obtain le1 s1 where 1: "fold (route_persist pe ev) pre (None, s) = (le1, s1)"
    by (cases "fold (route_persist pe ev) pre (None, s)")
  obtain le2 s2 where 2: "route_persist pe ev r (le1, s1) = (le2, s2)"
    by (cases "route_persist pe ev r (le1, s1)")
  have "s2 = snd (route_persist pe ev r (None, s1))"
    using route_persist_state_indep [of pe ev r le1 s1] 2 by simp
  then show ?thesis
    using fold_route_persist_state_indep [of pe ev post le2 s2] 1 2
    by (simp add: composite_persist_event_def backend_store.snd_last_error_result)
qed

lemma fold_route_frame:
  assumes "\<forall>r\<in>set routes. \<not> touches r ev b"
  shows "snd (fold (route_persist (backend_persist_event ch debug) ev) routes acc) b = snd acc b"
  using assms by (intro backend_store.fold_route_persist_frame) (auto simp: touches_def)

text \<open>
  When the channel of a route's primary file backend is full, the event goes to the
  route's fallback file backend: exactly one write command is added there, the primary's
  channel stays as it is, and no other route is disturbed by it.
\<close>

theorem fallback_takes_over:
  assumes "handles r (event_entity_type ev)"
    and "s (route_backend r) = FileBackend q" and "try_send ch (Write (debug ev)) q = None"
    and "route_fallback r = Some fb" and "fb \<noteq> route_backend r"
    and "s fb = FileBackend q2" and "try_send ch (Write (debug ev)) q2 = Some q2'"
    and "\<forall>r'\<in>set (pre @ post). \<not> touches r' ev (route_backend r) \<and> \<not> touches r' ev fb"
  shows "snd (composite_persist_event (backend_persist_event ch debug) (pre @ r # post) ev s) fb =
           FileBackend q2' \<and>
         snd (composite_persist_event (backend_persist_event ch debug) (pre @ r # post) ev s)
           (route_backend r) = FileBackend q"
proof -
  let ?pe = "backend_persist_event ch debug"
  let ?s1 = "snd (fold (route_persist ?pe ev) pre (None, s))"
  have s1: "?s1 fb = FileBackend q2" "?s1 (route_backend r) = FileBackend q"
    using assms fold_route_frame [of pre ev _ ch debug "(None, s)"] by auto
  let ?s2 = "snd (route_persist ?pe ev r (None, ?s1))"
  have "?s2 fb = FileBackend q2' \<and> ?s2 (route_backend r) = FileBackend q"
    using s1 assms
    by (simp add: route_persist_def backend_persist_event_def file_persist_event_def file_send_def)
  moreover have "snd (fold (route_persist ?pe ev) post (None, ?s2)) b = ?s2 b"
    if "b = fb \<or> b = route_backend r" for b
    using that assms(8) fold_route_frame [of post ev b ch debug "(None, ?s2)"] by auto
  ultimately show ?thesis
    by (simp add: composite_split)
qed

theorem fallback_takes_over_witness:
  "snd (composite_persist_event (backend_persist_event demo_channel (\<lambda>_. ''e'')) demo_routes
     (Share demo_event) demo_store) 1 = FileBackend [Write ''e'']"
  using fallback_takes_over
    [of "hd demo_routes" "Share demo_event" demo_store "[FlushFile]" demo_channel "\<lambda>_. ''e''" 1 "[]"
      "[Write ''e'']" "[]" "tl demo_routes"]
  by (simp add: touches_def demo_persistence)

section \<open>The file backend\<close>

text \<open>
  A burst of enabled events through \<open>Persistence::persist\<close>, with a file backend whose
  worker does not run in between, leaves in the channel the commands that were there and then
  the events in their order, up to the capacity: the first events are kept and the tail that
  finds the channel full is lost.
\<close>

theorem file_backend_burst:
  assumes "bounded_fifo ch contents cap" and "backend p = Single b"
    and "ShareEntity \<in> enabled_entities p" and "s b = FileBackend q"
  shows "\<exists>q'. persist_all ch debug p evs s b = FileBackend q' \<and>
     contents q' = contents q @
       map (\<lambda>e. Write (debug e)) (take (cap - length (contents q)) evs)"
  using assms(4)
proof (induction evs arbitrary: s q)
  case Nil
  then show ?case by simp
next
  case (Cons ev evs)
  have en: "event_entity_type ev \<in> enabled_entities p"
    using assms(3) by (cases ev) simp
  show ?case
  proof (cases "length (contents q) < cap")
    case True
    obtain q1 where q1: "try_send ch (Write (debug ev)) q = Some q1"
        "contents q1 = contents q @ [Write (debug ev)]"
      using bounded_fifo_room [OF assms(1) True] by blast
    have "persist ch debug p ev s b = FileBackend q1"
      using en assms(2) Cons.prems q1(1)
      by (simp add: persist_def backend_persist_event_def file_persist_event_def file_send_def)
    then show ?thesis
      using Cons.IH [where s = "persist ch debug p ev s" and q = q1] q1(2) True
      by (simp add: take_Cons' Suc_diff_Suc)
  next
    case False
    then have "persist ch debug p ev s b = FileBackend q"
      using en assms(2) Cons.prems bounded_fifo_full [OF assms(1), of q "Write (debug ev)"]
      by (simp add: persist_def backend_persist_event_def file_persist_event_def file_send_def)
    then show ?thesis
      using Cons.IH [where s = "persist ch debug p ev s" and q = q] False by simp
  qed
qed

theorem file_backend_burst_witness:
  "persist_all demo_channel (\<lambda>_. ''e'') (with_backend (Single 1) [ShareEntity])
     [Share demo_event, Share demo_event] demo_store 1 = FileBackend [Write ''e'']"
  using file_backend_burst
    [of demo_channel "\<lambda>q. q" 1 "with_backend (Single 1) [ShareEntity]" 1 demo_store "[]" "\<lambda>_. ''e''"
      "[Share demo_event, Share demo_event]"]
  by (simp add: demo_channel_fifo [simplified] with_backend_def demo_store_def)

text \<open>
  C39. The file worker writes, one line each and in the order of the channel, the texts of
  all write commands before the shutdown command and of those that follow it without a gap;
  commands that arrive later are not written.
\<close>

theorem worker_writes_in_order:
  assumes "appending fo text" and "Some ShutdownFile \<notin> set pre"
  shows "text (worker_loop fo (pre @ Some ShutdownFile # post) f) =
     text f @ concat (map line (written (commands pre @ commands (drained post))))"
proof -
  have flush: "text (flush_file fo g) = text g" for g
    using assms(1) by (simp add: appending_def)
  show ?thesis
    by (simp add: worker_loop_shutdown [OF assms(2)] flush appending_fold [OF assms(1)] del: fold_append)
qed

theorem worker_writes_in_order_witness:
  "worker_loop \<lparr>write_all = (\<lambda>t f. f @ t), flush_file = (\<lambda>f. f)\<rparr>
     ([Some (Write ''a''), None, Some FlushFile] @ Some ShutdownFile #
      [Some (Write ''b''), None, Some (Write ''c'')]) [] = ''a'' @ [CHR 0x0A] @ ''b'' @ [CHR 0x0A]"
  using worker_writes_in_order
    [of "\<lparr>write_all = (\<lambda>t f. f @ t), flush_file = (\<lambda>f. f)\<rparr>" "\<lambda>f. f"
      "[Some (Write ''a''), None, Some FlushFile]"
      "[Some (Write ''b''), None, Some (Write ''c'')]" "[]"]
  by (simp add: appending_def drained_def line_def)

section \<open>The metrics backend\<close>

text \<open>
  The counters of the metrics backend count what their names say: after any sequence of
  shares the increments of a user's valid, invalid and block counters are the numbers of that
  user's valid shares, invalid shares and valid shares that found a block.
\<close>

theorem metrics_count_shares:
  "counted SharesValidTotal u (record_shares es []) =
     length (filter (\<lambda>e. se_is_valid e \<and> se_user_identity e = u) es) \<and>
   counted SharesInvalidTotal u (record_shares es []) =
     length (filter (\<lambda>e. \<not> se_is_valid e \<and> se_user_identity e = u) es) \<and>
   counted BlocksFoundTotal u (record_shares es []) =
     length (filter (\<lambda>e. se_is_valid e \<and> se_is_block_found e \<and> se_user_identity e = u) es)"
  using counted_record_shares [OF counted_metrics_calls(1) [of u], of es "[]"]
    counted_record_shares [OF counted_metrics_calls(2) [of u], of es "[]"]
    counted_record_shares [OF counted_metrics_calls(3) [of u], of es "[]"]
  by (simp add: counted_def)

end
