(* ===== verification/Spec2Isabelle.thy ===== *)
theory Spec2Isabelle
  imports Mining_Rig Tproxy_Server_Laws Tproxy_Channels_Laws Tproxy_Fallback Jdc_Protocol Jdc_Limits Jdc_Link_Laws Pool_Source Pool_System Pool_Delivery Persistence_Laws Jds_Protocol
begin

text \<open>
  A verification library for the MARA pool, a Stratum V2 mining pool written in Rust.

  \<^bold>\<open>The program.\<close> The pool (\<open>src/pool-apps/pool\<close>) accepts miners, opens standard and extended
  mining channels for them, hands out jobs built from the templates of a template provider,
  validates shares, adjusts difficulty and persists share events. The persistence layer and
  the classification of frames are shared code (\<open>src/stratum-apps\<close>). The job declarator server
  (\<open>src/pool-apps/jd-server\<close>) lets a client declare its own jobs, collects the transactions of a
  job and rebuilds the block of a solution. The translator (\<open>src/miner-apps/translator\<close>) lets
  Stratum V1 miners mine on the pool: one task per miner connection, an Sv1 server with a
  difficulty manager, and a channel manager that talks to the upstream, with one upstream
  channel for all miners (aggregated mode) or one per miner. The job declarator client
  (\<open>src/miner-apps/jd-client\<close>) stands between miners and pool: it opens one upstream channel for all
  its miners, makes jobs from the templates of its own template provider, declares them to the job
  declarator server, turns accepted declarations into custom jobs and passes shares on. Pool and client
  take templates from a Sv2 template provider or from Bitcoin Core itself through
  \<open>src/bitcoin-core-sv2\<close>, which watches a node over IPC and announces its templates. The mining device
  (\<open>src/miner-apps/mining-device\<close>) is a CPU miner with one standard channel.

  \<^bold>\<open>Layout.\<close>
  \<^item> \<open>Prelude\<close>: machine integers, results with errors and panics, byte encodings, counters.
  \<^item> \<open>Hash_Map\<close>: \<open>std::collections::HashMap\<close> as an association list behind a locale.
  \<^item> \<open>Persistence\<close>, \<open>Persistence_Laws\<close>: \<open>persistence/*.rs\<close>; backends behind the locale
    \<open>persistence_backend\<close>.
  \<^item> \<open>Pool_Types\<close>: messages, errors and state of the pool (\<open>channel_manager/mod.rs\<close>,
    \<open>downstream/mod.rs\<close>, \<open>error.rs\<close>), and the interface record of the external channel library.
  \<^item> \<open>Pool_Mining\<close>: the handlers of \<open>mining_message_handler.rs\<close>.
  \<^item> \<open>Pool_Isolation\<close>: the contract of a client's handler as the locale \<open>client_handler\<close>.
  \<^item> \<open>Pool_Registry\<close>: the registry invariant and its preservation by every handler.
  \<^item> \<open>Pool_Templates\<close>: \<open>template_distribution_message_handler.rs\<close>.
  \<^item> \<open>Pool_Vardiff\<close>: the vardiff pass of \<open>channel_manager/mod.rs\<close>.
  \<^item> \<open>Message_Type\<close>: \<open>utils/protocol_message_type.rs\<close>.
  \<^item> \<open>Pool_Downstream\<close>: one connection (\<open>downstream/*.rs\<close>) and the set of connections.
  \<^item> \<open>Pool_System\<close>: the loops of the pool as a step relation, status and shutdown.
  \<^item> \<open>Pool_Example\<close>, \<open>Pool_Shares\<close>, \<open>Pool_Opening\<close>, \<open>Pool_Delivery\<close>: a concrete channel library
    for examples, and the properties of shares, of opening and updating channels, and of what
    reaches the clients.
  \<^item> \<open>Jds_Mempool\<close>, \<open>Jds_Declarator\<close>, \<open>Jds_Protocol\<close>: \<open>mempool/mod.rs\<close>,
    \<open>job_declarator/*.rs\<close>, and a whole declaration up to the block.
  \<^item> \<open>Tproxy_Types\<close>, \<open>Tproxy_State\<close>: messages, errors and state of the translator
    (\<open>error.rs\<close>, \<open>sv1/*/data.rs\<close>) and the validation of Sv1 shares (\<open>utils.rs\<close>).
  \<^item> \<open>Tproxy_Downstream\<close>, \<open>Tproxy_Downstream_Laws\<close>: the connection of a miner
    (\<open>sv1/downstream/*.rs\<close>) as a sequence of events of its task and of the server.
  \<^item> \<open>Tproxy_Difficulty\<close>: \<open>sv1_server/difficulty_manager.rs\<close>.
  \<^item> \<open>Tproxy_Server\<close>, \<open>Tproxy_Server_Laws\<close>: \<open>sv1_server/sv1_server.rs\<close>, the reachable states and the
    runs of server and connections together.
  \<^item> \<open>Tproxy_Channels\<close>, \<open>Tproxy_Channels_Laws\<close>: \<open>sv2/channel_manager/*.rs\<close> and runs of its events.
  \<^item> \<open>Tproxy_Upstream\<close>, \<open>Tproxy_Fallback\<close>: the connection to the upstream (\<open>sv2/upstream/*.rs\<close>), the
    main task (\<open>lib/mod.rs\<close>, \<open>status.rs\<close>), and what happens when upstreams are lost.
  \<^item> \<open>Jdc_Types\<close>: messages, errors, queues and state of the job declarator client.
  \<^item> \<open>Jdc_Mining\<close>, \<open>Jdc_Upstream\<close>, \<open>Jdc_Templates\<close>, \<open>Jdc_Manager\<close>: its handlers
    (\<open>channel_manager/downstream_message_handler.rs\<close>; \<open>jd_message_handler.rs\<close>,
    \<open>upstream_message_handler.rs\<close>, \<open>extensions_message_handler.rs\<close>; \<open>template_message_handler.rs\<close>;
    \<open>mod.rs\<close>) and its loop.
  \<^item> \<open>Jdc_Laws\<close>, \<open>Jdc_Example\<close>, \<open>Jdc_Session\<close>, \<open>Jdc_Shares\<close>, \<open>Jdc_Limits\<close>, \<open>Jdc_Protocol\<close>: what the
    handlers leave alone, a concrete session, the invariant of the loop, shares, failures, and the
    declaration protocol with client and server together.
  \<^item> \<open>Jdc_Links\<close>, \<open>Jdc_Client\<close>: its connections to miners, pool and job declarator server
    (\<open>downstream/\<close>, \<open>upstream/\<close>, \<open>job_declarator/\<close>, \<open>status.rs\<close>) and its main task (\<open>lib/mod.rs\<close>).
    \<open>Jdc_Fallback\<close>, \<open>Jdc_Link_Laws\<close>: which servers it connects to and how often, and what the
    connections pass on; the loops of the server connections behind the locale \<open>forwarding_loop\<close>.
  \<^item> \<open>Bitcoin_Core\<close>, \<open>Bitcoin_Core_Laws\<close>, \<open>Template_Provider\<close>: \<open>bitcoin-core-sv2\<close>; the template data and
    its messages, the handlers, and the tasks as steps between their suspensions, with the invariant
    of all interleavings and the properties.
  \<^item> \<open>Pool_Source\<close>: the pool behind that provider, through the locale \<open>template_source\<close>.
  \<^item> \<open>Mining_Hash\<close>, \<open>Mining_Device\<close>, \<open>Mining_Device_Laws\<close>, \<open>Mining_Rig\<close>: the mining device; the
    midstate hasher against the definition of SHA-256 over its compression function, the miner, the
    message handlers, the threads and the tasks, and their properties.

  \<^bold>\<open>How the code is modelled.\<close> A struct is a record, an enum a datatype, \<open>Result\<close> with the
  possibility of a panic is the type \<open>res\<close>. A handler takes the state under the mutex and
  returns its result, the new state, the messages it forwards and the events it persists, in
  order. Integers keep their width; floating point values are bit patterns. The channel
  objects, the codec, the Bitcoin node and the runtime's channels are not in the repository:
  they are records of functions passed to the definitions, and what a theorem needs of them is
  a named hypothesis that an example discharges. Iteration over a hash map follows the
  association list; no theorem depends on that order.

  \<^bold>\<open>What is shown.\<close> Well-formedness of the registry in all reachable states, isolation of the
  clients, the outcomes of opening channels and submitting shares, delivery of messages to the right
  connections in order, consistency of persisted events, the routing of the composite backend,
  the order of the file writer, and the correctness of job declaration up to the block. For the
  translator: difficulty and target reach a miner before the job they belong to, forwarded
  shares were valid when they were handled, carry the extranonce that was mined and consecutive
  numbers for their upstream channel, delayed difficulties wait for the upstream's target, the answer
  to a channel request reaches the miner that asked whatever comes in between, and the vardiff pass
  never panics; it uses each configured upstream once and ends when all are lost. For the job
  declarator client: the state of the upstream channel is consistent in every state of the loop,
  requests wait in order, an accepted share reaches the pool with the miner's extranonce, and a template becomes a declared job, a custom job and a block. After
  a lost server it finds the next pair of servers that answers; every pair is tried at most three
  times, after which the client mines alone; and its connections keep the order of messages.
  The template provider announces each template once and activates it in order, holds the templates of
  its tip, and so the pool behind it always has a template and a previous hash that belong together.
  The mining device computes the block hash, searches its windows of nonces completely up to the
  first hit, and submits only shares that meet an announced target.
  Several theorems describe situations in which the code fails. The
  registry theorems bound the number of steps by \<open>2 * n + 1 < 2 ^ 32\<close> because channel identifiers
  come from a 32-bit counter that wraps, and one step takes at most two of them; the template
  provider's theorems bound the number of steps by \<open>2 ^ 64\<close> for its 64-bit counter. All loops are
  structural recursions over lists, so no fuel is needed.

  \<^bold>\<open>Not modelled.\<close> Sockets, encryption, task spawning and logging; configuration files; the
  connection to an external template provider; the IPC codec of Bitcoin Core; the measuring of the
  hash rate; the compression function of SHA-256, which is a parameter; the locks as such (each
  definition is one critical section of the code, or a sequence of them where the code releases the
  lock in between).
\<close>

section \<open>A reachable pool for the examples\<close>

text \<open>
  One connection is accepted and asks for custom work in its \<open>SetupConnection\<close>.
\<close>

definition demo_start :: "(u256, u256, u32, nat, u32) channel_manager" where
  "demo_start =
     \<lparr>channel_manager_data =
        \<lparr>cm_downstream = [], extranonce_prefix_factory_extended = 0,
         extranonce_prefix_factory_standard = 0, downstream_id_factory = 1, vardiff = [],
         coinbase_outputs = [0x51], last_new_prev_hash = None, last_future_template = None\<rparr>,
      persisted = [], forwarded = []\<rparr>"

definition demo_accepted :: "(u256, u256, u32, nat, u32) pool" where
  "demo_accepted =
     \<lparr>manager = snd (accept_downstream demo_config demo_start), setting_up = Some 1, started = [],
      running = True\<rparr>"

definition demo_connected :: "(u256, u256, u32, nat, u32) pool" where
  "demo_connected =
     \<lparr>manager = put_downstream 1 ((new_downstream 1 [2] [])\<lparr>requires_custom_work := True,
        requires_standard_jobs := False\<rparr>) (manager demo_accepted),
      setting_up = None, started = [1], running = True\<rparr>"

lemma demo_started: "channel_manager_new demo_lib 0 [0x51] = Ok demo_start"
  by (simp add: channel_manager_new_def demo_start_def expect_def hm_new_def)

lemma demo_accept: "accept_downstream demo_config demo_start = (1, manager demo_accepted)"
  by (simp add: accept_downstream_def Let_def demo_accepted_def demo_start_def fetch_add_def)

lemma demo_accepted_get:
  "hm_get (cm_downstream (channel_manager_data (manager demo_accepted))) 1 = Some (new_downstream 1 [2] [])"
  by (simp add: accept_downstream_def Let_def demo_accepted_def demo_start_def fetch_add_def demo_config_def)

lemma demo_setup:
  "setup_connection_with_downstream demo_lib demo_wire (Some \<lparr>fr_header = Some (0, 0), fr_payload = []\<rparr>)
     (new_downstream 1 [2] [], demo_connection) =
   (Ok (), (new_downstream 1 [2] [])\<lparr>requires_custom_work := True, requires_standard_jobs := False\<rparr>,
    demo_connection\<lparr>sent := [[1]]\<rparr>)"
  by (simp add: setup_connection_with_downstream_def handle_setup_connection_def demo_wire_def
      demo_connection_def send_frame_def)

lemma demo_connected_get:
  "hm_get (cm_downstream (channel_manager_data (manager demo_connected))) 1 =
     Some ((new_downstream 1 [2] [])\<lparr>requires_custom_work := True, requires_standard_jobs := False\<rparr>)"
  by (simp add: demo_connected_def put_downstream_def Let_def)

lemma demo_reachable: "reachable demo_lib demo_config demo_wire 2 demo_connected"
proof -
  let ?s0 = "\<lparr>manager = demo_start, setting_up = None, started = [], running = True\<rparr>"
  have "reachable demo_lib demo_config demo_wire 0 ?s0"
    by (rule reachable.start [OF demo_started])
  moreover have "pool_step demo_lib demo_config demo_wire ?s0 demo_accepted"
  proof -
    have "demo_accepted = ?s0\<lparr>manager := manager demo_accepted, setting_up := Some 1\<rparr>"
      by (simp add: demo_accepted_def)
    moreover have "pool_step demo_lib demo_config demo_wire ?s0 (?s0\<lparr>manager := manager demo_accepted, setting_up := Some 1\<rparr>)"
      by (rule pool_step.accept) (simp_all add: demo_accept)
    ultimately show ?thesis by simp
  qed
  ultimately have "reachable demo_lib demo_config demo_wire (Suc 0) demo_accepted"
    by (rule reachable.step)
  moreover have "pool_step demo_lib demo_config demo_wire demo_accepted demo_connected"
    using pool_step.handshake [OF _ _ demo_accepted_get demo_setup, of demo_config]
    by (simp add: demo_accepted_def demo_connected_def)
  ultimately have "reachable demo_lib demo_config demo_wire (Suc (Suc 0)) demo_connected"
    by (rule reachable.step)
  then show ?thesis by (simp add: numeral_2_eq_2)
qed

section \<open>The pool in its reachable states\<close>

text \<open>
  C1. The registry invariant. In every state the pool reaches in \<open>n\<close> steps, with \<open>n\<close> small
  enough that no 32-bit channel counter wraps, connection and channel identifiers are unique
  and below their counters, no identifier names both a standard and an extended channel of a
  connection, and there is a vardiff state exactly for every open channel.
\<close>

theorem reachable_registry_inv:
  assumes "reachable L cfg W n s" and "2 * n + 1 < 2 ^ 32" and "vardiff_available L"
  shows "registry_inv (channel_manager_data (manager s))"
  using reachable_registry_bound [OF assms] by (rule registry_bound_inv)

theorem reachable_registry_inv_witness: "registry_inv (channel_manager_data (manager demo_connected))"
  by (rule reachable_registry_inv [OF demo_reachable]) simp_all

text \<open>
  Connection identifiers are not reused: the identifier the pool gives to its next
  connection is the key of no registered connection and of no vardiff state, and no connection
  that was ever started had it, even if it has been removed since and still has messages in
  the queue.
\<close>

theorem accepted_identifiers_fresh:
  assumes "reachable L cfg W n s" and "2 * n + 1 < 2 ^ 32" and "vardiff_available L"
    and "accept_downstream cfg (manager s) = (did, cm)"
  shows "did \<notin> hm_keys (cm_downstream (channel_manager_data (manager s))) \<and>
    (\<forall>c. (did, c) \<notin> hm_keys (vardiff (channel_manager_data (manager s)))) \<and> did \<notin> set (started s) \<and>
    setting_up s \<noteq> Some did"
proof -
  have did: "did = downstream_id_factory (channel_manager_data (manager s))"
    using assms(4) by (auto simp: accept_downstream_def Let_def fetch_add_def)
  have reg: "registry_inv (channel_manager_data (manager s))"
    using reachable_registry_bound [OF assms(1-3)] by (rule registry_bound_inv)
  have new: "did \<notin> hm_keys (cm_downstream (channel_manager_data (manager s)))"
    using reg did by (fastforce simp: registry_inv_def hm.keys_get)
  moreover have "\<forall>c. (did, c) \<notin> hm_keys (vardiff (channel_manager_data (manager s)))"
    using reg new by (auto simp: registry_inv_def)
  moreover have "did \<notin> set (started s) \<and> setting_up s \<noteq> Some did"
    using reachable_custom [OF assms(1-3)] did by (auto simp: custom_inv_def Let_def)
  ultimately show ?thesis by blast
qed

theorem accepted_identifiers_fresh_witness:
  "fst (accept_downstream demo_config (manager demo_connected)) \<notin> set (started demo_connected)"
  using accepted_identifiers_fresh [OF demo_reachable, of "fst (accept_downstream demo_config (manager demo_connected))"
      "snd (accept_downstream demo_config (manager demo_connected))"]
  by simp

section \<open>Isolation of the clients\<close>

text \<open>
  C2. Clients are isolated. Whatever messages other clients send, in any number and order and
  whatever the handlers answer, the state of a client's connection, its channels and its
  vardiff states stay as they were, and nothing the handlers forward appears on its
  connection.
\<close>

theorem clients_isolated:
  assumes "did \<notin> fst ` set calls"
    and "cm' = run_calls (handle_client_call L cfg) calls cm" and "ds_id ds = did"
  shows "hm_get (cm_downstream (channel_manager_data cm')) did =
      hm_get (cm_downstream (channel_manager_data cm)) did \<and>
    (\<forall>c. hm_get (vardiff (channel_manager_data cm')) (did, c) =
      hm_get (vardiff (channel_manager_data cm)) (did, c)) \<and>
    (\<exists>msgs. forwarded cm' = forwarded cm @ msgs \<and>
      receive_all W ds (broadcast_queue msgs) c = (Ok (), c))"
proof -
  obtain msgs where msgs: "forwarded cm' = forwarded cm @ msgs" "\<forall>m. Downstream did m \<notin> set msgs"
    using mining_client.handle_all_silent [OF assms(1), of L cfg cm] assms(2) by auto
  have "receive_all W ds (broadcast_queue msgs) c = (Ok (), c)"
    using addressed_none [of did msgs] msgs(2) assms(3) by (intro receive_all_silent) simp
  then show ?thesis
    using mining_client.handle_all_other [OF assms(1), of L cfg cm]
      mining_client.handle_all_vardiff_other [OF assms(1), of L cfg cm] msgs(1) assms(2)
    by auto
qed

theorem clients_isolated_witness:
  "hm_get (cm_downstream (channel_manager_data (run_calls (handle_client_call demo_lib demo_config)
     [(1, CloseChannel 2), (1, SubmitSharesStandard 0 (demo_share 2 0))] demo_manager))) 2 = Some demo_custom"
proof -
  have "(2 :: downstream_id) \<notin> fst ` set [(1, CloseChannel 2), (1, SubmitSharesStandard 0 (demo_share 2 0))]"
    by simp
  moreover have "ds_id demo_custom = 2" by (simp add: demo_custom_def)
  ultimately have "hm_get (cm_downstream (channel_manager_data (run_calls (handle_client_call demo_lib demo_config)
      [(1, CloseChannel 2), (1, SubmitSharesStandard 0 (demo_share 2 0))] demo_manager))) 2 =
      hm_get (cm_downstream (channel_manager_data demo_manager)) 2"
    by (rule clients_isolated [OF _ refl, THEN conjunct1])
  then show ?thesis by simp
qed

section \<open>Custom work\<close>

text \<open>
  C20. A connection that asked for custom work is never sent a \<open>SetNewPrevHash\<close>: in every
  reachable state, none of the messages the channel manager forwards for a new prev-hash is
  for such a connection. It follows from the invariant that such a connection never has a
  standard channel or a group channel.
\<close>

theorem custom_work_gets_no_prev_hash:
  assumes "reachable L cfg W n s" and "2 * n + 1 < 2 ^ 32" and "vardiff_available L"
    and "hm_get (cm_downstream (channel_manager_data (manager s))) did = Some ds" and "requires_custom_work ds"
    and "handle_set_new_prev_hash L ph (manager s) = (Ok (), cm')"
  shows "\<exists>msgs. forwarded cm' = forwarded (manager s) @ msgs \<and> (\<forall>m. Downstream did m \<notin> set msgs)"
proof -
  have reg: "registry_inv (channel_manager_data (manager s))"
    using reachable_registry_bound [OF assms(1-3)] by (rule registry_bound_inv)
  obtain msgs where msgs: "forwarded cm' = forwarded (manager s) @ msgs"
      "\<forall>m\<in>set msgs. \<exists>did ds. hm_get (cm_downstream (channel_manager_data (manager s))) did = Some ds \<and>
        announcement ph did ds m"
    using prev_hash_messages [OF reg assms(6)] .
  have "no_standard ds"
    using reachable_custom [OF assms(1-3)] assms(4,5) by (auto simp: custom_inv_def Let_def)
  then have "\<not> announced ds cid" for cid
    using assms(5) by (simp add: no_standard_def announced_def)
  then have "Downstream did m \<notin> set msgs" for m
    using msgs(2) assms(4) by (fastforce simp: announcement_def)
  then show ?thesis using msgs(1) by blast
qed

theorem custom_work_gets_no_prev_hash_witness:
  "\<exists>msgs cm'. handle_set_new_prev_hash demo_lib demo_prev_hash (manager demo_connected) = (Ok (), cm') \<and>
     forwarded cm' = forwarded (manager demo_connected) @ msgs \<and> (\<forall>m. Downstream 1 m \<notin> set msgs)"
proof -
  obtain cm' where cm': "handle_set_new_prev_hash demo_lib demo_prev_hash (manager demo_connected) = (Ok (), cm')"
    by (simp add: demo_connected_def demo_accepted_def demo_start_def put_downstream_def accept_downstream_def
        handle_set_new_prev_hash_def Let_def hm_insert_def fetch_add_def new_downstream_def
        prev_hash_to_downstream_def prev_hash_to_group_def forward_all_def hm_new_def)
  show ?thesis
    using custom_work_gets_no_prev_hash [OF demo_reachable _ _ demo_connected_get _ cm'] cm' by simp
qed

section \<open>The life of a connection\<close>

text \<open>
  Removing a connection removes its entry and all of its vardiff states, leaves every other
  connection and their vardiff states as they were, and keeps the registry invariant.
\<close>

theorem removal_is_complete:
  assumes "registry_inv (channel_manager_data cm)" and "remove_downstream did cm = (r, cm')"
  shows "r = Ok () \<and> hm_get (cm_downstream (channel_manager_data cm')) did = None \<and>
    (\<forall>c. (did, c) \<notin> hm_keys (vardiff (channel_manager_data cm'))) \<and>
    (\<forall>did' c. did' \<noteq> did \<longrightarrow>
       hm_get (cm_downstream (channel_manager_data cm')) did' =
         hm_get (cm_downstream (channel_manager_data cm)) did' \<and>
       hm_get (vardiff (channel_manager_data cm')) (did', c) = hm_get (vardiff (channel_manager_data cm)) (did', c)) \<and>
    registry_inv (channel_manager_data cm')"
proof -
  have "registry_inv (channel_manager_data cm')"
    using remove_downstream_step [OF assms(1), of did] assms(2) by (simp add: registry_step_def)
  moreover have "hm_get (vardiff (channel_manager_data cm')) (did', c) = hm_get (vardiff (channel_manager_data cm)) (did', c)"
    if "did' \<noteq> did" for did' c
    using assms that by (auto simp: remove_downstream_def Let_def registry_inv_def hm_get_retain)
  ultimately show ?thesis
    using remove_downstream_gone [where did = did and cm = cm] assms(2) by (auto simp: remove_downstream_def Let_def)
qed

theorem removal_is_complete_witness:
  "registry_inv (channel_manager_data (snd (remove_downstream 1 demo_manager)))"
  using removal_is_complete [of demo_manager 1 "fst (remove_downstream 1 demo_manager)"
      "snd (remove_downstream 1 demo_manager)"]
  by simp

text \<open>
  C34. A message of a connection that has been removed stops the pool: its handler does not
  return \<open>Ok\<close>, the channel manager's loop reports the error or dies, and the pool no longer
  runs. Custom jobs are the exception of a request that is refused before the connection is
  looked up.
\<close>

theorem removed_client_stops_pool:
  assumes "remove_downstream did cm = (r, cm')" and "\<nexists>m. call = SetCustomMiningJob m"
  shows "\<not> survives SS_ChannelManager (fst (handle_client_call L cfg did call cm'))"
proof -
  have get: "hm_get (cm_downstream (channel_manager_data cm')) did = None"
    using remove_downstream_gone [where did = did and cm = cm] assms(1) by simp
  then have "\<not> is_ok (fst (handle_client_call L cfg did call cm'))"
    using assms(2)
    by (cases call)
      (auto simp: handle_close_channel_def handle_open_standard_mining_channel_def open_standard_locked_def
        handle_open_extended_mining_channel_def open_extended_locked_def handle_submit_shares_standard_def
        handle_submit_shares_extended_def get_negotiated_extensions_with_client_def expect_def
        handle_update_channel_def forward_all_def Let_def
        split: option.split)
  then show ?thesis
    by (cases "fst (handle_client_call L cfg did call cm')") (simp_all add: survives_def)
qed

theorem removed_client_stops_pool_witness:
  "\<not> survives SS_ChannelManager (fst (handle_client_call demo_lib demo_config 1 (CloseChannel 2)
     (snd (remove_downstream 1 demo_manager))))"
  by (rule removed_client_stops_pool [of 1 demo_manager "fst (remove_downstream 1 demo_manager)"]) simp_all

end
